(* ===== verification/Era_Prelude.thy ===== *)
theory Era_Prelude
  imports Main "HOL-Library.Sublist"
begin

text \<open>
  Shared vocabulary of the development: the JavaScript idioms of the web clients as HOL
  functions (falsy defaults, \<open>findIndex\<close>, \<open>splice\<close>, update of the first element found,
  \<open>split\<close>/\<open>join\<close>, \<open>trim\<close>, \<open>includes\<close>, decimal printing and \<open>parseInt\<close>), the generic
  lemmas on them, and the collections \<open>js_simps\<close> (what the component proofs simplify with)
  and \<open>js_lengths\<close> (length facts).

  A JavaScript string is a \<open>string\<close>; its characters stand for the UTF-16 code units the
  source counts with \<open>length\<close>, \<open>slice\<close> and \<open>charAt\<close>. Case mapping and \<open>trim\<close> are modelled
  for ASCII letters and ASCII white space.
\<close>

named_theorems js_simps
named_theorems js_lengths

section \<open>Falsy values\<close>

text \<open>\<open>x || ''\<close> on a string that may be undefined, and \<open>x || undefined\<close>.\<close>

definition or_empty :: "string option \<Rightarrow> string" where
  "or_empty x = (case x of None \<Rightarrow> [] | Some s \<Rightarrow> s)"

definition or_undefined :: "string option \<Rightarrow> string option" where
  "or_undefined x = (if or_empty x = [] then None else x)"

definition or_default :: "string option \<Rightarrow> string \<Rightarrow> string" where
  "or_default x d = (if or_empty x = [] then d else or_empty x)"

text \<open>\<open>n || 0\<close> and \<open>n || undefined\<close> on a number that may be undefined.\<close>

definition or_zero :: "int option \<Rightarrow> int" where
  "or_zero x = (case x of None \<Rightarrow> 0 | Some n \<Rightarrow> n)"

definition num_or_undefined :: "int option \<Rightarrow> int option" where
  "num_or_undefined x = (if or_zero x = 0 then None else x)"

definition truthy_str :: "string option \<Rightarrow> bool" where
  "truthy_str x \<longleftrightarrow> or_empty x \<noteq> []"

lemma or_empty_simps [simp, js_simps]:
  "or_empty None = []" "or_empty (Some s) = s"
  by (simp_all add: or_empty_def)

lemma or_zero_simps [simp, js_simps]:
  "or_zero None = 0" "or_zero (Some n) = n"
  by (simp_all add: or_zero_def)

lemma or_empty_or_undefined [simp, js_simps]: "or_empty (or_undefined x) = or_empty x"
  by (simp add: or_undefined_def)

lemma or_undefined_idem [simp, js_simps]: "or_undefined (or_undefined x) = or_undefined x"
  by (simp add: or_undefined_def)

lemma or_zero_num_or_undefined [simp, js_simps]: "or_zero (num_or_undefined x) = or_zero x"
  by (simp add: num_or_undefined_def)

lemma num_or_undefined_idem [simp, js_simps]:
  "num_or_undefined (num_or_undefined x) = num_or_undefined x"
  by (simp add: num_or_undefined_def)

lemma or_undefined_Some_or_empty [simp, js_simps]:
  "or_undefined (Some (or_empty x)) = or_undefined x"
  by (cases x) (simp_all add: or_undefined_def)

lemma num_or_undefined_Some_or_zero [simp, js_simps]:
  "num_or_undefined (Some (or_zero x)) = num_or_undefined x"
  by (cases x) (simp_all add: num_or_undefined_def)

section \<open>Arrays\<close>

text \<open>\<open>xs.findIndex(P)\<close>: the first index that satisfies \<open>P\<close>, \<open>None\<close> for \<open>-1\<close>.\<close>

fun find_index :: "('a \<Rightarrow> bool) \<Rightarrow> 'a list \<Rightarrow> nat option" where
  "find_index P [] = None"
| "find_index P (x # xs) = (if P x then Some 0 else map_option Suc (find_index P xs))"

text \<open>In-place mutation of the first element found: \<open>const x = xs.find(P); x.f = \<dots>\<close>.\<close>

fun upd_first :: "('a \<Rightarrow> bool) \<Rightarrow> ('a \<Rightarrow> 'a) \<Rightarrow> 'a list \<Rightarrow> 'a list" where
  "upd_first P f [] = []"
| "upd_first P f (x # xs) = (if P x then f x # xs else x # upd_first P f xs)"

text \<open>\<open>xs.splice(i, 0, x)\<close> and \<open>xs.splice(i, 1)\<close> for an index within the array's bounds.\<close>

definition splice_ins :: "nat \<Rightarrow> 'a \<Rightarrow> 'a list \<Rightarrow> 'a list" where
  "splice_ins i x xs = take i xs @ x # drop i xs"

definition splice_del :: "nat \<Rightarrow> 'a list \<Rightarrow> 'a list" where
  "splice_del i xs = take i xs @ drop (Suc i) xs"

lemma find_index_Some:
  "find_index P xs = Some i \<Longrightarrow> i < length xs \<and> P (xs ! i) \<and> (\<forall>j<i. \<not> P (xs ! j))"
proof (induction xs arbitrary: i)
  case Nil
  then show ?case by simp
next
  case (Cons x xs)
  show ?case
  proof (cases "P x")
    case True
    with Cons.prems show ?thesis by simp
  next
    case False
    with Cons.prems obtain k where k: "find_index P xs = Some k" "i = Suc k" by auto
    with Cons.IH [of k] False show ?thesis by (auto simp: less_Suc_eq_0_disj)
  qed
qed

lemma find_index_None: "find_index P xs = None \<longleftrightarrow> (\<forall>x\<in>set xs. \<not> P x)"
  by (induction xs) auto

lemma find_find_index:
  "find P xs = (case find_index P xs of None \<Rightarrow> None | Some i \<Rightarrow> Some (xs ! i))"
  by (induction xs) (auto split: option.splits)

lemma upd_first_find_index:
  "upd_first P f xs =
     (case find_index P xs of None \<Rightarrow> xs | Some i \<Rightarrow> xs[i := f (xs ! i)])"
  by (induction xs) (auto split: option.splits)

lemma upd_first_not_found [simp]: "find P xs = None \<Longrightarrow> upd_first P f xs = xs"
  by (induction xs) (auto split: if_splits)

lemma length_upd_first [simp, js_lengths]: "length (upd_first P f xs) = length xs"
  by (induction xs) auto

lemma map_upd_first_cong:
  "(\<And>x. P x \<Longrightarrow> g (f x) = g x) \<Longrightarrow> map g (upd_first P f xs) = map g xs"
  by (induction xs) auto

lemma upd_first_cong_find:
  "(\<And>x. find P xs = Some x \<Longrightarrow> f x = g x) \<Longrightarrow> upd_first P f xs = upd_first P g xs"
  by (induction xs) auto

lemma upd_first_upd_first:
  "(\<And>x. P x \<Longrightarrow> P (f x)) \<Longrightarrow>
    upd_first P g (upd_first P f xs) = upd_first P (\<lambda>x. g (f x)) xs"
  by (induction xs) auto

lemma find_upd_first:
  "(\<And>x. P x \<Longrightarrow> P (f x)) \<Longrightarrow> find P (upd_first P f xs) = map_option f (find P xs)"
  by (induction xs) auto

lemma find_upd_first_other:
  "(\<And>x. P x \<Longrightarrow> \<not> Q x \<and> \<not> Q (f x)) \<Longrightarrow> find Q (upd_first P f xs) = find Q xs"
  by (induction xs) auto

lemma find_index_upd_first:
  "(\<And>x. P x \<Longrightarrow> Q (f x) = Q x) \<Longrightarrow> find_index Q (upd_first P f xs) = find_index Q xs"
  by (induction xs) auto

lemma set_upd_first_subset: "set (upd_first P f xs) \<subseteq> set xs \<union> f ` {x \<in> set xs. P x}"
  by (induction xs) auto

lemma find_Some_in: "find P xs = Some x \<Longrightarrow> x \<in> set xs \<and> P x"
  by (induction xs) (auto split: if_splits)

lemma length_splice_ins [simp, js_lengths]: "length (splice_ins i x xs) = Suc (length xs)"
  by (simp add: splice_ins_def)

lemma length_splice_del [js_lengths]:
  "i < length xs \<Longrightarrow> length (splice_del i xs) = length xs - 1"
  by (simp add: splice_del_def)

lemma set_splice_ins [simp, js_simps]: "set (splice_ins i x xs) = insert x (set xs)"
proof -
  have "set xs = set (take i xs) \<union> set (drop i xs)"
    by (metis append_take_drop_id set_append)
  then show ?thesis by (simp add: splice_ins_def)
qed

lemma map_splice_ins: "map f (splice_ins i x xs) = splice_ins i (f x) (map f xs)"
  by (simp add: splice_ins_def take_map drop_map)

lemma map_splice_del: "map f (splice_del i xs) = splice_del i (map f xs)"
  by (simp add: splice_del_def take_map drop_map)

lemma set_splice_del_subset: "set (splice_del i xs) \<subseteq> set xs"
  by (auto simp: splice_del_def dest: in_set_takeD in_set_dropD)

lemma distinct_splice_ins [simp]:
  "distinct (splice_ins i x xs) \<longleftrightarrow> x \<notin> set xs \<and> distinct xs"
proof -
  have "distinct (splice_ins i x xs) \<longleftrightarrow> distinct (x # (take i xs @ drop i xs))"
    by (simp only: splice_ins_def distinct_append distinct.simps set_append) auto
  then show ?thesis by simp
qed

lemma distinct_splice_del: "distinct xs \<Longrightarrow> distinct (splice_del i xs)"
proof -
  assume d: "distinct xs"
  have "set (take i xs) \<inter> set (drop (Suc i) xs) = {}"
    using d by (rule set_take_disj_set_drop_if_distinct) simp
  with d show ?thesis by (simp add: splice_del_def)
qed

lemma map_list_update_same:
  "i < length xs \<Longrightarrow> f y = f (xs ! i) \<Longrightarrow> map f (xs[i := y]) = map f xs"
  by (metis list_update_id map_update)

lemma splice_del_ins [simp]: "i \<le> length xs \<Longrightarrow> splice_del i (splice_ins i x xs) = xs"
  by (simp add: splice_del_def splice_ins_def)

section \<open>Objects used as dictionaries\<close>

text \<open>
  An object with string keys is the list of its properties in the order \<open>Object.keys\<close> gives
  (insertion order: no key is an array index). \<open>upsert\<close> is \<open>obj[k] = v\<close>, \<open>map_of\<close> is
  \<open>obj[k]\<close>, \<open>obj_del\<close> is \<open>delete obj[k]\<close>.
\<close>

definition upsert :: "string \<Rightarrow> 'v \<Rightarrow> (string \<times> 'v) list \<Rightarrow> (string \<times> 'v) list" where
  "upsert k v kvs =
     (if k \<in> fst ` set kvs then map (\<lambda>(x, y). if x = k then (x, v) else (x, y)) kvs
      else kvs @ [(k, v)])"

definition obj_del :: "string \<Rightarrow> (string \<times> 'v) list \<Rightarrow> (string \<times> 'v) list" where
  "obj_del k kvs = filter (\<lambda>p. fst p \<noteq> k) kvs"

lemma map_of_map_upd:
  "map_of (map (\<lambda>(x, y). if x = k then (x, v) else (x, y)) kvs) j
     = (if j = k \<and> k \<in> fst ` set kvs then Some v else map_of kvs j)"
proof (induction kvs)
  case (Cons p kvs)
  then show ?case by (cases p; cases "k \<in> fst ` set kvs"; cases "j = k") simp_all
qed simp

lemma map_of_upsert [simp]: "map_of (upsert k v kvs) = (map_of kvs)(k \<mapsto> v)"
proof
  fix j
  show "map_of (upsert k v kvs) j = ((map_of kvs)(k \<mapsto> v)) j"
  proof (cases "k \<in> fst ` set kvs")
    case True
    then show ?thesis by (simp add: upsert_def map_of_map_upd)
  next
    case False
    then have "map_of kvs k = None" by (simp add: map_of_eq_None_iff)
    with False show ?thesis by (cases "map_of kvs j") (auto simp: upsert_def map_add_def)
  qed
qed

lemma keys_upsert: "map fst (upsert k v kvs) = (if k \<in> fst ` set kvs then map fst kvs else map fst kvs @ [k])"
  by (induction kvs) (auto simp: upsert_def)

lemma distinct_upsert [simp]: "distinct (map fst (upsert k v kvs)) = distinct (map fst kvs)"
  by (simp add: keys_upsert)

lemma map_of_obj_del [simp]: "map_of (obj_del k kvs) = (map_of kvs)(k := None)"
  by (induction kvs) (auto simp: obj_del_def fun_eq_iff)

end
