(* ===== verification/Era_Strings.thy ===== *)
theory Era_Strings
  imports Era_Prelude
begin

text \<open>
  The string operations of the language that the clients call: \<open>split\<close>, \<open>join\<close>,
  \<open>includes\<close>, \<open>indexOf\<close>, \<open>replace\<close> with its dollar patterns, \<open>trim\<close>, the ASCII case
  mappings, decimal printing and \<open>parseInt(s, 10)\<close>, with the laws the components use:
  joining what was split gives the string back, splitting what was joined gives the pieces
  back when no piece holds the separator, and \<open>parseInt\<close> reads what \<open>String(n)\<close> printed.
\<close>

section \<open>Characters\<close>

definition is_digit :: "char \<Rightarrow> bool" where
  "is_digit c \<longleftrightarrow> 48 \<le> (of_char c :: nat) \<and> (of_char c :: nat) \<le> 57"

definition is_upper :: "char \<Rightarrow> bool" where
  "is_upper c \<longleftrightarrow> 65 \<le> (of_char c :: nat) \<and> (of_char c :: nat) \<le> 90"

definition is_lower :: "char \<Rightarrow> bool" where
  "is_lower c \<longleftrightarrow> 97 \<le> (of_char c :: nat) \<and> (of_char c :: nat) \<le> 122"

definition is_space :: "char \<Rightarrow> bool" where
  "is_space c \<longleftrightarrow> (let n = (of_char c :: nat) in n = 32 \<or> n = 160 \<or> (9 \<le> n \<and> n \<le> 13))"

definition lower_char :: "char \<Rightarrow> char" where
  "lower_char c = (if is_upper c then char_of ((of_char c :: nat) + 32) else c)"

definition upper_char :: "char \<Rightarrow> char" where
  "upper_char c = (if is_lower c then char_of ((of_char c :: nat) - 32) else c)"

definition to_lower :: "string \<Rightarrow> string" where
  "to_lower s = map lower_char s"

definition to_upper :: "string \<Rightarrow> string" where
  "to_upper s = map upper_char s"

definition starts_with :: "string \<Rightarrow> string \<Rightarrow> bool" where
  "starts_with p s \<longleftrightarrow> take (length p) s = p"

definition ends_with :: "string \<Rightarrow> string \<Rightarrow> bool" where
  "ends_with p s \<longleftrightarrow> length p \<le> length s \<and> drop (length s - length p) s = p"

definition js_trim :: "string \<Rightarrow> string" where
  "js_trim s = rev (dropWhile is_space (rev (dropWhile is_space s)))"

lemma of_char_char_of_less:
  "n < 256 \<Longrightarrow> (of_char (char_of n :: char) :: nat) = n"
  by (simp add: of_char_of)

lemma upper_char_upper: "is_upper c \<Longrightarrow> upper_char c = c"
  by (simp add: upper_char_def is_upper_def is_lower_def)

lemma upper_char_digit: "is_digit c \<Longrightarrow> upper_char c = c"
  by (simp add: upper_char_def is_digit_def is_lower_def)

lemma is_upper_upper_char: "is_lower c \<Longrightarrow> is_upper (upper_char c)"
proof -
  assume l: "is_lower c"
  then have "(of_char c :: nat) - 32 < 256" by (auto simp: is_lower_def)
  from of_char_char_of_less [OF this] l show ?thesis
    by (auto simp: upper_char_def is_upper_def is_lower_def simp del: of_char_of)
qed

lemma lower_char_idem [simp]: "lower_char (lower_char c) = lower_char c"
  by (simp add: lower_char_def is_upper_def of_char_char_of_less)

lemma to_lower_idem [simp]: "to_lower (to_lower s) = to_lower s"
  by (simp add: to_lower_def o_def)

lemma upper_char_idem [simp]: "upper_char (upper_char c) = upper_char c"
proof (cases "is_lower c")
  case True
  with is_upper_upper_char [OF True] show ?thesis by (simp add: upper_char_upper)
next
  case False
  then show ?thesis by (simp add: upper_char_def)
qed

lemma to_upper_idem [simp]: "to_upper (to_upper s) = to_upper s"
  by (simp add: to_upper_def o_def)

lemma to_upper_append: "to_upper (a @ b) = to_upper a @ to_upper b"
  by (simp add: to_upper_def)

lemma length_to_lower [simp, js_lengths]: "length (to_lower s) = length s"
  by (simp add: to_lower_def)

lemma length_to_upper [simp, js_lengths]: "length (to_upper s) = length s"
  by (simp add: to_upper_def)

lemma dropWhile_idem_not: "dropWhile P (dropWhile P xs) = dropWhile P xs"
  by (induction xs) auto

lemma js_trim_Nil [simp]: "js_trim [] = []"
  by (simp add: js_trim_def)

lemma js_trim_no_space_ends:
  "s = [] \<or> (\<not> is_space (hd s) \<and> \<not> is_space (last s)) \<Longrightarrow> js_trim s = s"
proof (cases "s = []")
  case False
  assume "s = [] \<or> (\<not> is_space (hd s) \<and> \<not> is_space (last s))"
  with False have h: "\<not> is_space (hd s)" and l: "\<not> is_space (last s)" by auto
  from False h have d: "dropWhile is_space s = s" by (cases s) auto
  from False l have "dropWhile is_space (rev s) = rev s"
    by (cases "rev s") (auto simp: last_rev hd_rev)
  with d show ?thesis by (simp add: js_trim_def)
qed simp

lemma set_js_trim: "set (js_trim s) \<subseteq> set s"
proof
  fix x assume "x \<in> set (js_trim s)"
  then have "x \<in> set (dropWhile is_space (rev (dropWhile is_space s)))" by (simp add: js_trim_def)
  then have "x \<in> set (rev (dropWhile is_space s))" by (blast dest: set_dropWhileD)
  then have "x \<in> set (dropWhile is_space s)" by simp
  then show "x \<in> set s" by (blast dest: set_dropWhileD)
qed

lemma js_trim_space [simp]: "js_trim (CHR '' '' # s) = js_trim s"
  by (simp add: js_trim_def is_space_def)

lemma js_trim_idem [simp]: "js_trim (js_trim s) = js_trim s"
proof (rule js_trim_no_space_ends)
  have hd_drop: "dropWhile is_space xs = [] \<or> \<not> is_space (hd (dropWhile is_space xs))" for xs
    by (metis hd_dropWhile)
  let ?a = "dropWhile is_space s" and ?b = "dropWhile is_space (rev (dropWhile is_space s))"
  show "js_trim s = [] \<or> \<not> is_space (hd (js_trim s)) \<and> \<not> is_space (last (js_trim s))"
  proof (cases "?b = []")
    case True
    then show ?thesis by (simp add: js_trim_def)
  next
    case False
    obtain zs where "rev ?a = zs @ ?b" by (metis dropWhile_eq_drop append_take_drop_id)
    then have "?a = rev ?b @ rev zs" by (metis rev_append rev_rev_ident)
    then have "hd (rev ?b) = hd ?a" using False by (metis hd_append2 rev_is_Nil_conv)
    moreover have "?a \<noteq> []" using False by (metis dropWhile.simps(1) rev.simps(1))
    moreover have "last (rev ?b) = hd ?b" using False by (simp add: last_rev)
    ultimately show ?thesis using hd_drop [of s] hd_drop [of "rev ?a"] False unfolding js_trim_def by metis
  qed
qed

text \<open>\<open>s.split(/\s+/).filter(Boolean)\<close>: the runs of characters that are not white space.\<close>

function str_words :: "string \<Rightarrow> string list" where
  "str_words s =
     (let t = dropWhile is_space s
      in if t = [] then [] else takeWhile (\<lambda>c. \<not> is_space c) t # str_words (dropWhile (\<lambda>c. \<not> is_space c) t))"
  by pat_completeness auto
termination
proof (relation "measure length", simp)
  fix s t :: string
  assume t: "t = dropWhile is_space s" and ne: "t \<noteq> []"
  from ne obtain c r where cr: "t = c # r" by (cases t) simp_all
  have "\<not> is_space c" using hd_dropWhile [of is_space s] ne cr unfolding t by (metis list.sel(1))
  then have "length (dropWhile (\<lambda>c. \<not> is_space c) t) \<le> length r"
    using cr by (simp add: length_dropWhile_le)
  also have "\<dots> < length s" using cr t length_dropWhile_le [of is_space s] by simp
  finally show "(dropWhile (\<lambda>c. \<not> is_space c) t, s) \<in> measure length" by simp
qed

declare str_words.simps [simp del]

section \<open>Split and join\<close>

fun str_join :: "string \<Rightarrow> string list \<Rightarrow> string" where
  "str_join sep [] = []"
| "str_join sep [x] = x"
| "str_join sep (x # y # ys) = x @ sep @ str_join sep (y # ys)"

text \<open>\<open>s.split(c)\<close> for a separator of one character.\<close>

fun split_char :: "char \<Rightarrow> string \<Rightarrow> string list" where
  "split_char c [] = [[]]"
| "split_char c (x # xs) =
     (if x = c then [] # split_char c xs
      else (case split_char c xs of [] \<Rightarrow> [[x]] | p # ps \<Rightarrow> (x # p) # ps))"

text \<open>\<open>s.split(sep)\<close> for a separator of any length.\<close>

function split_from :: "string \<Rightarrow> string \<Rightarrow> string \<Rightarrow> string list" where
  "split_from sep acc s =
     (if s = [] then [rev acc]
      else if sep \<noteq> [] \<and> take (length sep) s = sep
        then rev acc # split_from sep [] (drop (length sep) s)
        else split_from sep (hd s # acc) (tl s))"
  by pat_completeness auto
termination
  by (relation "measure (\<lambda>(sep, acc, s). length s)") auto

declare split_from.simps [simp del]

definition str_split :: "string \<Rightarrow> string \<Rightarrow> string list" where
  "str_split sep s = (if sep = [] then map (\<lambda>c. [c]) s else split_from sep [] s)"

lemma split_char_nonempty [simp]: "split_char c s \<noteq> []"
  by (induction s) (auto split: list.splits)

lemma str_join_Cons_ne: "xs \<noteq> [] \<Longrightarrow> str_join sep (x # xs) = x @ sep @ str_join sep xs"
  by (cases xs) auto

lemma join_split_char [simp]: "str_join [c] (split_char c s) = s"
proof (induction s)
  case Nil
  then show ?case by simp
next
  case (Cons x xs)
  show ?case
  proof (cases "split_char c xs")
    case Nil
    then show ?thesis by simp
  next
    case (Cons p ps)
    with Cons.IH show ?thesis
      by (cases ps) (auto simp: str_join_Cons_ne)
  qed
qed

lemma split_char_append_sep:
  "c \<notin> set p \<Longrightarrow> split_char c (p @ c # s) = p # split_char c s"
  by (induction p) auto

lemma split_char_no_sep: "c \<notin> set p \<Longrightarrow> split_char c p = [p]"
  by (induction p) auto

lemma split_char_join:
  "ps \<noteq> [] \<Longrightarrow> (\<forall>p\<in>set ps. c \<notin> set p) \<Longrightarrow> split_char c (str_join [c] ps) = ps"
  by (induction "[c]" ps rule: str_join.induct)
    (auto simp: split_char_append_sep split_char_no_sep)

lemma split_char_pieces: "p \<in> set (split_char c s) \<Longrightarrow> c \<notin> set p"
  by (induction s arbitrary: p) (auto split: if_splits list.splits)

lemma split_from_nonempty [simp]: "split_from sep acc s \<noteq> []"
  by (induction sep acc s rule: split_from.induct) (subst split_from.simps, simp)

lemma join_split_from: "sep \<noteq> [] \<Longrightarrow> str_join sep (split_from sep acc s) = rev acc @ s"
proof (induction sep acc s rule: split_from.induct)
  case (1 sep acc s)
  show ?case
  proof (cases "s = []")
    case True
    then show ?thesis by (simp add: split_from.simps [of sep acc "[]"])
  next
    case False
    show ?thesis
    proof (cases "take (length sep) s = sep")
      case True
      have "sep @ drop (length sep) s = s"
        using True by (metis append_take_drop_id)
      with 1 False True show ?thesis
        by (simp add: split_from.simps [of sep acc s] str_join_Cons_ne)
    next
      case ne: False
      with 1 False show ?thesis by (simp add: split_from.simps [of sep acc s])
    qed
  qed
qed

lemma join_split [simp]: "sep \<noteq> [] \<Longrightarrow> str_join sep (str_split sep s) = s"
  by (simp add: str_split_def join_split_from)

section \<open>Searching and replacing\<close>

fun str_includes :: "string \<Rightarrow> string \<Rightarrow> bool" where
  "str_includes sub [] \<longleftrightarrow> sub = []"
| "str_includes sub (c # s) \<longleftrightarrow> take (length sub) (c # s) = sub \<or> str_includes sub s"

text \<open>\<open>s.indexOf(sub)\<close>, \<open>None\<close> for \<open>-1\<close>.\<close>

fun str_index :: "string \<Rightarrow> string \<Rightarrow> nat option" where
  "str_index sub [] = (if sub = [] then Some 0 else None)"
| "str_index sub (c # s) =
     (if take (length sub) (c # s) = sub then Some 0 else map_option Suc (str_index sub s))"

lemma str_index_None_iff [simp]: "str_index sub s = None \<longleftrightarrow> \<not> str_includes sub s"
  by (induction s) auto

lemma str_includes_iff: "str_includes sub s \<longleftrightarrow> (\<exists>a b. s = a @ sub @ b)"
proof (induction s)
  case Nil
  then show ?case by simp
next
  case (Cons c s)
  show ?case
  proof
    assume "str_includes sub (c # s)"
    then consider "take (length sub) (c # s) = sub" | "str_includes sub s" by auto
    then show "\<exists>a b. c # s = a @ sub @ b"
    proof cases
      case 1
      then have "c # s = [] @ sub @ drop (length sub) (c # s)"
        by (metis append_Nil append_take_drop_id)
      then show ?thesis by blast
    next
      case 2
      then obtain a b where "s = a @ sub @ b" using Cons.IH by blast
      then have "c # s = (c # a) @ sub @ b" by simp
      then show ?thesis by blast
    qed
  next
    assume "\<exists>a b. c # s = a @ sub @ b"
    then obtain a b where e: "c # s = a @ sub @ b" by blast
    show "str_includes sub (c # s)"
    proof (cases a)
      case Nil
      with e have "take (length sub) (c # s) = sub" by simp
      then show ?thesis by simp
    next
      case (Cons x a')
      with e have "s = a' @ sub @ b" by simp
      with Cons.IH show ?thesis by auto
    qed
  qed
qed

text \<open>\<open>s.replace(/c/g, r)\<close> for a character \<open>c\<close>.\<close>

definition replace_char :: "char \<Rightarrow> string \<Rightarrow> string \<Rightarrow> string" where
  "replace_char c r s = concat (map (\<lambda>x. if x = c then r else [x]) s)"

text \<open>
  The replacement text of \<open>s.replace(find, repl)\<close> with a string pattern: \<open>$$\<close>, \<open>$&\<close>,
  the text before and the text after the match are expanded, any other dollar is literal.
\<close>

fun expand_dollar :: "string \<Rightarrow> string \<Rightarrow> string \<Rightarrow> string \<Rightarrow> string" where
  "expand_dollar pre mat post [] = []"
| "expand_dollar pre mat post [c] = [c]"
| "expand_dollar pre mat post (c # d # r) =
     (if c = CHR ''$'' \<and> d = CHR ''$'' then CHR ''$'' # expand_dollar pre mat post r
      else if c = CHR ''$'' \<and> d = CHR ''&'' then mat @ expand_dollar pre mat post r
      else if c = CHR ''$'' \<and> d = CHR 0x60 then pre @ expand_dollar pre mat post r
      else if c = CHR ''$'' \<and> d = CHR 0x27 then post @ expand_dollar pre mat post r
      else c # expand_dollar pre mat post (d # r))"

definition str_replace :: "string \<Rightarrow> string \<Rightarrow> string \<Rightarrow> string" where
  "str_replace s fnd repl =
     (case str_index fnd s of None \<Rightarrow> s
      | Some i \<Rightarrow>
          (let pre = take i s; post = drop (i + length fnd) s
           in pre @ expand_dollar pre fnd post repl @ post))"

lemma expand_dollar_plain:
  "CHR ''$'' \<notin> set r \<Longrightarrow> expand_dollar pre mat post r = r"
  by (induction pre mat post r rule: expand_dollar.induct) auto

section \<open>Numbers\<close>

definition digit_char :: "nat \<Rightarrow> char" where
  "digit_char d = char_of (48 + d)"

definition digit_val :: "char \<Rightarrow> nat" where
  "digit_val c = of_char c - 48"

text \<open>\<open>String(n)\<close> for a non-negative and for any integer.\<close>

fun nat_str :: "nat \<Rightarrow> string" where
  "nat_str n = (if n < 10 then [digit_char n] else nat_str (n div 10) @ [digit_char (n mod 10)])"

declare nat_str.simps [simp del]

definition int_str :: "int \<Rightarrow> string" where
  "int_str i = (if i < 0 then CHR ''-'' # nat_str (nat (- i)) else nat_str (nat i))"

definition digits_val :: "string \<Rightarrow> nat" where
  "digits_val s = foldl (\<lambda>a c. a * 10 + digit_val c) 0 s"

text \<open>\<open>parseInt(s, 10)\<close>, \<open>None\<close> for \<open>NaN\<close>.\<close>

definition parse_int :: "string \<Rightarrow> int option" where
  "parse_int s =
     (let t = dropWhile is_space s;
          neg = (t \<noteq> [] \<and> hd t = CHR ''-'');
          u = (if t \<noteq> [] \<and> (hd t = CHR ''-'' \<or> hd t = CHR ''+'') then tl t else t);
          ds = takeWhile is_digit u
      in if ds = [] then None
         else Some (if neg then - int (digits_val ds) else int (digits_val ds)))"

lemma digit_char_props [simp]:
  assumes "d < 10"
  shows "digit_val (digit_char d) = d" "is_digit (digit_char d)"
  using assms by (simp_all add: digit_val_def digit_char_def is_digit_def of_char_char_of_less)

lemma nat_str_digits: "c \<in> set (nat_str n) \<Longrightarrow> is_digit c"
proof (induction n rule: nat_str.induct)
  case (1 n)
  then show ?case
    by (cases "n < 10") (auto simp: nat_str.simps [of n])
qed

lemma nat_str_ne [simp]: "nat_str n \<noteq> []"
  by (subst nat_str.simps) simp

lemma digits_val_snoc: "digits_val (s @ [c]) = digits_val s * 10 + digit_val c"
  by (simp add: digits_val_def)

lemma digits_val_nat_str [simp]: "digits_val (nat_str n) = n"
proof (induction n rule: nat_str.induct)
  case (1 n)
  show ?case
  proof (cases "n < 10")
    case True
    then show ?thesis by (simp add: nat_str.simps [of n] digits_val_def)
  next
    case False
    with 1 have "digits_val (nat_str (n div 10)) = n div 10" by simp
    with False show ?thesis by (simp add: nat_str.simps [of n] digits_val_snoc)
  qed
qed

lemma nat_str_inj: "nat_str m = nat_str n \<longleftrightarrow> m = n"
  by (metis digits_val_nat_str)

lemma is_digit_not_space: "is_digit c \<Longrightarrow> \<not> is_space c"
  by (auto simp: is_digit_def is_space_def Let_def)

lemma is_digit_not_sign: "is_digit c \<Longrightarrow> c \<noteq> CHR ''-'' \<and> c \<noteq> CHR ''+''"
  by (auto simp: is_digit_def)

lemma takeWhile_all: "(\<forall>x\<in>set xs. P x) \<Longrightarrow> takeWhile P xs = xs"
  by (induction xs) auto

lemma parse_int_nat_str [simp]: "parse_int (nat_str n) = Some (int n)"
proof -
  obtain c r where cr: "nat_str n = c # r" by (cases "nat_str n") auto
  have d: "\<forall>x\<in>set (nat_str n). is_digit x" using nat_str_digits by blast
  then have "is_digit c" by (simp add: cr)
  then have "dropWhile is_space (nat_str n) = nat_str n"
    and "hd (nat_str n) \<noteq> CHR ''-''" and "hd (nat_str n) \<noteq> CHR ''+''"
    using is_digit_not_space is_digit_not_sign by (auto simp: cr)
  moreover have "takeWhile is_digit (nat_str n) = nat_str n" using d by (rule takeWhile_all)
  ultimately show ?thesis by (simp add: parse_int_def Let_def del: takeWhile_eq_all_conv)
qed

lemma digits_val_app:
  "digits_val (a @ b) = digits_val a * 10 ^ length b + digits_val b"
proof (induction b rule: rev_induct)
  case Nil
  then show ?case by (simp add: digits_val_def)
next
  case (snoc c b)
  have "digits_val (a @ b @ [c]) = digits_val (a @ b) * 10 + digit_val c"
    using digits_val_snoc [of "a @ b" c] by simp
  with snoc show ?case by (simp add: digits_val_snoc algebra_simps)
qed

end
