(* ===== verification/Docs_Spans.thy ===== *)
theory Docs_Spans
  imports Era_Strings
begin

text \<open>
  The rich-text engine of the documents client (\<open>ui/docs/web/app.js\<close>, \<open>blockText\<close> to
  \<open>diffText\<close>): a paragraph is a list of inline spans, each a run of text with one set of
  marks, and every edit splits spans, changes some of them and coalesces neighbours with
  equal marks.

  The abstract view of a span list is \<open>chars\<close>, the sequence of its characters, each with
  its marks. The refinement lemmas say what every operation does on that sequence, and
  \<open>coalesced\<close> is the canonical form every operation returns.
\<close>

section \<open>Spans and marks\<close>

text \<open>
  An \<open>InlineSpan\<close> object. An absent boolean is false (the code only reads \<open>!!s.bold\<close>);
  an absent string or number is \<open>None\<close>.
\<close>

record span =
  sp_text :: string
  bold :: bool
  italic :: bool
  underline :: bool
  strike :: bool
  superscript :: bool
  subscript :: bool
  link_url :: "string option"
  font_family :: "string option"
  font_size_pt :: "int option"
  color :: "string option"
  highlight :: "string option"

text \<open>A marks object is a span whose text is not looked at.\<close>

type_synonym marks = span

text \<open>
  A patch for \<open>Object.assign\<close>: \<open>None\<close> where the key is absent; a string or number key may
  be present with the value \<open>undefined\<close> (\<open>Some None\<close>).
\<close>

record mark_patch =
  p_bold :: "bool option"
  p_italic :: "bool option"
  p_underline :: "bool option"
  p_strike :: "bool option"
  p_superscript :: "bool option"
  p_subscript :: "bool option"
  p_link_url :: "string option option"
  p_font_family :: "string option option"
  p_font_size_pt :: "int option option"
  p_color :: "string option option"
  p_highlight :: "string option option"

definition no_marks :: marks where
  "no_marks = \<lparr> sp_text = [], bold = False, italic = False, underline = False, strike = False,
     superscript = False, subscript = False, link_url = None, font_family = None,
     font_size_pt = None, color = None, highlight = None \<rparr>"

definition empty_patch :: mark_patch where
  "empty_patch = \<lparr> p_bold = None, p_italic = None, p_underline = None, p_strike = None,
     p_superscript = None, p_subscript = None, p_link_url = None, p_font_family = None,
     p_font_size_pt = None, p_color = None, p_highlight = None \<rparr>"

definition get_or :: "'a option \<Rightarrow> 'a \<Rightarrow> 'a" where
  "get_or x d = (case x of None \<Rightarrow> d | Some v \<Rightarrow> v)"

lemma get_or_simps [simp]: "get_or None d = d" "get_or (Some v) d = v"
  by (simp_all add: get_or_def)

text \<open>\<open>Object.assign({}, marks, patch)\<close>.\<close>

definition assign_marks :: "marks \<Rightarrow> mark_patch \<Rightarrow> marks" where
  "assign_marks m p =
     \<lparr> sp_text = sp_text m,
       bold = get_or (p_bold p) (bold m),
       italic = get_or (p_italic p) (italic m),
       underline = get_or (p_underline p) (underline m),
       strike = get_or (p_strike p) (strike m),
       superscript = get_or (p_superscript p) (superscript m),
       subscript = get_or (p_subscript p) (subscript m),
       link_url = get_or (p_link_url p) (link_url m),
       font_family = get_or (p_font_family p) (font_family m),
       font_size_pt = get_or (p_font_size_pt p) (font_size_pt m),
       color = get_or (p_color p) (color m),
       highlight = get_or (p_highlight p) (highlight m) \<rparr>"

definition spanFromMarks :: "string \<Rightarrow> marks \<Rightarrow> mark_patch \<Rightarrow> span" where
  "spanFromMarks txt marks patch =
     (let m = assign_marks marks patch in
      \<lparr> sp_text = txt,
        bold = bold m, italic = italic m, underline = underline m, strike = strike m,
        superscript = superscript m, subscript = subscript m,
        link_url = or_undefined (link_url m),
        font_family = or_undefined (font_family m),
        font_size_pt = num_or_undefined (font_size_pt m),
        color = or_undefined (color m),
        highlight = or_undefined (highlight m) \<rparr>)"

definition marksEqual :: "marks \<Rightarrow> marks \<Rightarrow> bool" where
  "marksEqual a b \<longleftrightarrow>
     bold a = bold b \<and> italic a = italic b \<and> underline a = underline b \<and>
     strike a = strike b \<and> superscript a = superscript b \<and> subscript a = subscript b \<and>
     or_empty (link_url a) = or_empty (link_url b) \<and>
     or_empty (font_family a) = or_empty (font_family b) \<and>
     or_zero (font_size_pt a) = or_zero (font_size_pt b) \<and>
     or_empty (color a) = or_empty (color b) \<and>
     or_empty (highlight a) = or_empty (highlight b)"

definition withText :: "marks \<Rightarrow> string \<Rightarrow> span" where
  "withText marks txt = spanFromMarks txt marks empty_patch"

section \<open>The operations\<close>

text \<open>\<open>(block.inlines || []).map((i) => i.text || '').join('')\<close>.\<close>

definition spans_text :: "span list \<Rightarrow> string" where
  "spans_text xs = concat (map sp_text xs)"

text \<open>\<open>blockMarks\<close>, on the block's span list.\<close>

definition blockMarks :: "span list \<Rightarrow> marks" where
  "blockMarks spans =
     (case spans of [] \<Rightarrow> no_marks\<lparr>link_url := Some [], font_family := Some [], color := Some [],
          highlight := Some []\<rparr>
      | s # _ \<Rightarrow>
        \<lparr> sp_text = [],
          bold = (\<forall>x\<in>set spans. bold x),
          italic = (\<forall>x\<in>set spans. italic x),
          underline = (\<forall>x\<in>set spans. underline x),
          strike = (\<forall>x\<in>set spans. strike x),
          superscript = (\<forall>x\<in>set spans. superscript x),
          subscript = (\<forall>x\<in>set spans. subscript x),
          link_url = Some (or_empty (link_url s)),
          font_family = Some (or_empty (font_family s)),
          font_size_pt = font_size_pt s,
          color = Some (or_empty (color s)),
          highlight = Some (or_empty (highlight s)) \<rparr>)"

fun coalesce_loop :: "span list \<Rightarrow> span list \<Rightarrow> span list" where
  "coalesce_loop out [] = out"
| "coalesce_loop out (s # xs) =
     (if sp_text s = [] then coalesce_loop out xs
      else if out \<noteq> [] \<and> marksEqual (last out) s
        then coalesce_loop (butlast out @ [(last out)\<lparr>sp_text := sp_text (last out) @ sp_text s\<rparr>]) xs
        else coalesce_loop (out @ [s]) xs)"

definition coalesceInlines :: "span list \<Rightarrow> span list" where
  "coalesceInlines inlines =
     (let out = coalesce_loop [] inlines
      in if out = [] then [spanFromMarks [] no_marks empty_patch] else out)"

fun split_loop :: "span list \<Rightarrow> span list \<Rightarrow> nat \<Rightarrow> nat \<Rightarrow> span list \<times> span list" where
  "split_loop pre [] acc off = (pre, [])"
| "split_loop pre (s # rest) acc off =
     (let len = length (sp_text s) in
      if acc + len = off then (coalesceInlines (pre @ [s]), coalesceInlines rest)
      else if acc + len > off then
        (let local = off - acc;
             leftSpan = withText s (take local (sp_text s));
             rightSpan = withText s (drop local (sp_text s));
             left = pre @ (if sp_text leftSpan \<noteq> [] then [leftSpan] else []);
             right = (if sp_text rightSpan \<noteq> [] then [rightSpan] else []) @ rest
         in (coalesceInlines left, coalesceInlines right))
      else split_loop (pre @ [s]) rest (acc + len) off)"

text \<open>Returns the pair \<open>(left, right)\<close>.\<close>

definition splitInlinesAt :: "span list \<Rightarrow> int \<Rightarrow> span list \<times> span list" where
  "splitInlinesAt list offset =
     (let plain = spans_text list;
          off = nat (max 0 (min offset (int (length plain))))
      in if off = 0 then ([], list)
         else if off \<ge> length plain then (list, [])
         else split_loop [] list 0 off)"

definition insert_template :: "span list \<Rightarrow> span list \<Rightarrow> marks option \<Rightarrow> marks" where
  "insert_template left right typing =
     (case typing of Some t \<Rightarrow> t
      | None \<Rightarrow> if left \<noteq> [] then last left
                 else if right \<noteq> [] then hd right else no_marks)"

definition insertTextPreserving ::
  "span list \<Rightarrow> int \<Rightarrow> string \<Rightarrow> marks option \<Rightarrow> span list" where
  "insertTextPreserving inlines offset txt typing =
     (if txt = [] then coalesceInlines inlines
      else (let (left, right) = splitInlinesAt inlines offset;
                mid = withText (insert_template left right typing) txt
            in coalesceInlines (left @ [mid] @ right)))"

definition deleteRangePreserving :: "span list \<Rightarrow> int \<Rightarrow> int \<Rightarrow> span list" where
  "deleteRangePreserving inlines start stop =
     (if start \<ge> stop then coalesceInlines inlines
      else (let a = splitInlinesAt inlines start;
                b = splitInlinesAt (snd a) (stop - start)
            in coalesceInlines (fst a @ snd b)))"

definition applyMarksRangeLocal ::
  "span list \<Rightarrow> int \<Rightarrow> int \<Rightarrow> mark_patch \<Rightarrow> span list" where
  "applyMarksRangeLocal inlines start stop patch =
     (if start \<ge> stop then coalesceInlines inlines
      else (let head = splitInlinesAt inlines start;
                midRight = splitInlinesAt (snd head) (stop - start);
                mid = map (\<lambda>s. spanFromMarks (sp_text s) s patch) (fst midRight)
            in coalesceInlines (fst head @ mid @ snd midRight)))"

function diff_start :: "string \<Rightarrow> string \<Rightarrow> nat \<Rightarrow> nat" where
  "diff_start prev nxt start =
     (if start < min (length prev) (length nxt) \<and> prev ! start = nxt ! start
      then diff_start prev nxt (Suc start) else start)"
  by pat_completeness auto
termination
  by (relation "measure (\<lambda>(prev, nxt, start). length prev - start)") auto

fun diff_end :: "string \<Rightarrow> string \<Rightarrow> nat \<Rightarrow> nat \<Rightarrow> nat \<Rightarrow> nat \<times> nat" where
  "diff_end prev nxt start endPrev endNext =
     (if start < endPrev \<and> start < endNext \<and> prev ! (endPrev - 1) = nxt ! (endNext - 1)
      then diff_end prev nxt start (endPrev - 1) (endNext - 1) else (endPrev, endNext))"

declare diff_start.simps [simp del] diff_end.simps [simp del]

record text_diff =
  d_start :: nat
  d_deletedEnd :: nat
  d_inserted :: string

definition diffText :: "string \<Rightarrow> string \<Rightarrow> text_diff" where
  "diffText prev nxt =
     (let start = diff_start prev nxt 0;
          (endPrev, endNext) = diff_end prev nxt start (length prev) (length nxt)
      in \<lparr> d_start = start, d_deletedEnd = endPrev,
           d_inserted = drop start (take endNext nxt) \<rparr>)"

section \<open>The abstract view: a sequence of marked characters\<close>

text \<open>The marks of a span up to the falsy values \<open>marksEqual\<close> does not tell apart.\<close>

definition norm_marks :: "span \<Rightarrow> marks" where
  "norm_marks s = s\<lparr>sp_text := [], link_url := or_undefined (link_url s),
     font_family := or_undefined (font_family s),
     font_size_pt := num_or_undefined (font_size_pt s),
     color := or_undefined (color s), highlight := or_undefined (highlight s)\<rparr>"

definition span_chars :: "span \<Rightarrow> (char \<times> marks) list" where
  "span_chars s = map (\<lambda>c. (c, norm_marks s)) (sp_text s)"

definition chars :: "span list \<Rightarrow> (char \<times> marks) list" where
  "chars xs = concat (map span_chars xs)"

text \<open>The canonical form: no empty span and no two neighbours with equal marks, or the one
  empty span that stands for an empty paragraph.\<close>

fun no_equal_neighbours :: "span list \<Rightarrow> bool" where
  "no_equal_neighbours (a # b # xs) \<longleftrightarrow> \<not> marksEqual a b \<and> no_equal_neighbours (b # xs)"
| "no_equal_neighbours _ \<longleftrightarrow> True"

definition coalesced :: "span list \<Rightarrow> bool" where
  "coalesced xs \<longleftrightarrow>
     xs = [spanFromMarks [] no_marks empty_patch] \<or>
     (xs \<noteq> [] \<and> (\<forall>s\<in>set xs. sp_text s \<noteq> []) \<and> no_equal_neighbours xs)"

lemma or_undefined_eq_iff [js_simps]:
  "or_undefined a = or_undefined b \<longleftrightarrow> or_empty a = or_empty b"
  by (cases a; cases b) (auto simp: or_undefined_def)

lemma num_or_undefined_eq_iff [js_simps]:
  "num_or_undefined a = num_or_undefined b \<longleftrightarrow> or_zero a = or_zero b"
  by (cases a; cases b) (auto simp: num_or_undefined_def)

lemma marksEqual_norm: "marksEqual a b \<longleftrightarrow> norm_marks a = norm_marks b"
  by (cases a; cases b) (simp add: marksEqual_def norm_marks_def js_simps)

lemma norm_marks_text [simp]: "norm_marks (s\<lparr>sp_text := t\<rparr>) = norm_marks s"
  by (simp add: norm_marks_def)

lemma assign_empty_patch [simp]: "assign_marks m empty_patch = m"
  by (simp add: assign_marks_def empty_patch_def)

lemma spanFromMarks_text [simp]: "sp_text (spanFromMarks t m p) = t"
  by (simp add: spanFromMarks_def Let_def)

lemma withText_text [simp]: "sp_text (withText m t) = t"
  by (simp add: withText_def)

lemma norm_spanFromMarks: "norm_marks (spanFromMarks t m p) = norm_marks (assign_marks m p)"
  by (simp add: norm_marks_def spanFromMarks_def Let_def)

lemma norm_withText [simp]: "norm_marks (withText m t) = norm_marks m"
  by (simp add: withText_def norm_spanFromMarks)

lemma norm_marks_idem [simp]: "norm_marks (norm_marks s) = norm_marks s"
  by (simp add: norm_marks_def)

lemma withText_norm: "withText (norm_marks m) t = withText m t"
  by (simp add: withText_def spanFromMarks_def Let_def norm_marks_def)

lemma withText_eq_norm: "withText m t = (norm_marks m)\<lparr>sp_text := t\<rparr>"
  by (simp add: withText_def spanFromMarks_def Let_def norm_marks_def)

lemma assign_marks_norm:
  "norm_marks (assign_marks (norm_marks m) p) = norm_marks (assign_marks m p)"
proof -
  have s: "or_undefined (get_or x (or_undefined y)) = or_undefined (get_or x y)" for x y
    by (cases x) simp_all
  have n: "num_or_undefined (get_or x (num_or_undefined y)) = num_or_undefined (get_or x y)" for x y
    by (cases x) simp_all
  show ?thesis by (simp add: norm_marks_def assign_marks_def s n)
qed

subsection \<open>Characters and text of span lists\<close>

lemma chars_simps [simp, js_simps]:
  "chars [] = []" "chars (s # xs) = span_chars s @ chars xs"
  "chars (xs @ ys) = chars xs @ chars ys"
  by (simp_all add: chars_def)

lemma spans_text_simps [simp, js_simps]:
  "spans_text [] = []" "spans_text (s # xs) = sp_text s @ spans_text xs"
  "spans_text (xs @ ys) = spans_text xs @ spans_text ys"
  by (simp_all add: spans_text_def)

lemma span_chars_empty [simp]: "sp_text s = [] \<Longrightarrow> span_chars s = []"
  by (simp add: span_chars_def)

lemma map_fst_span_chars [simp]: "map fst (span_chars s) = sp_text s"
  by (simp add: span_chars_def o_def)

lemma map_fst_chars: "map fst (chars xs) = spans_text xs"
  by (induction xs) simp_all

lemma length_chars [simp, js_lengths]: "length (chars xs) = length (spans_text xs)"
  by (metis length_map map_fst_chars)

lemma span_chars_withText: "span_chars (withText m t) = map (\<lambda>c. (c, norm_marks m)) t"
  by (simp add: span_chars_def)

subsection \<open>Coalescing\<close>

lemma coalesce_loop_chars: "chars (coalesce_loop out xs) = chars out @ chars xs"
proof (induction out xs rule: coalesce_loop.induct)
  case (1 out)
  then show ?case by simp
next
  case (2 out s xs)
  consider "sp_text s = []"
    | "sp_text s \<noteq> []" "out \<noteq> [] \<and> marksEqual (last out) s"
    | "sp_text s \<noteq> []" "\<not> (out \<noteq> [] \<and> marksEqual (last out) s)" by blast
  then show ?case
  proof cases
    case 1
    with "2.IH"(1) show ?thesis by simp
  next
    case 2
    then have ne: "out \<noteq> []" and eq: "norm_marks (last out) = norm_marks s"
      by (auto simp: marksEqual_norm)
    have "chars out = chars (butlast out) @ span_chars (last out)"
      using ne by (metis append_butlast_last_id append_Nil2 chars_simps)
    moreover have "span_chars ((last out)\<lparr>sp_text := sp_text (last out) @ sp_text s\<rparr>)
        = span_chars (last out) @ span_chars s"
      using eq by (simp add: span_chars_def)
    ultimately show ?thesis using "2.IH"(2) 2 by simp
  next
    case 3
    with "2.IH"(3) show ?thesis by auto
  qed
qed

lemma chars_empty_span [simp]: "span_chars (spanFromMarks [] m p) = []"
  by simp

lemma coalesce_chars [simp]: "chars (coalesceInlines xs) = chars xs"
  using coalesce_loop_chars [of "[]" xs]
  by (cases "coalesce_loop [] xs = []") (simp_all add: coalesceInlines_def Let_def)

lemma coalesce_text [simp]: "spans_text (coalesceInlines xs) = spans_text xs"
  by (metis coalesce_chars map_fst_chars)

lemma no_equal_neighbours_snoc:
  "no_equal_neighbours (xs @ [a]) \<longleftrightarrow>
     no_equal_neighbours xs \<and> (xs = [] \<or> \<not> marksEqual (last xs) a)"
  by (induction xs rule: no_equal_neighbours.induct) auto

lemma no_equal_neighbours_last:
  "marksEqual a b \<Longrightarrow> no_equal_neighbours (xs @ [a]) = no_equal_neighbours (xs @ [b])"
  by (simp add: no_equal_neighbours_snoc marksEqual_norm)

definition spans_ok :: "span list \<Rightarrow> bool" where
  "spans_ok xs \<longleftrightarrow> (\<forall>s\<in>set xs. sp_text s \<noteq> []) \<and> no_equal_neighbours xs"

lemma coalesce_loop_ok: "spans_ok out \<Longrightarrow> spans_ok (coalesce_loop out xs)"
proof (induction out xs rule: coalesce_loop.induct)
  case (1 out)
  then show ?case by simp
next
  case (2 out s xs)
  show ?case
  proof (cases "sp_text s \<noteq> [] \<and> out \<noteq> [] \<and> marksEqual (last out) s")
    case True
    let ?l = "(last out)\<lparr>sp_text := sp_text (last out) @ sp_text s\<rparr>"
    have "no_equal_neighbours (butlast out @ [last out])"
      using "2.prems" True by (simp add: spans_ok_def)
    then have "no_equal_neighbours (butlast out @ [?l])"
      using no_equal_neighbours_last [of "last out" ?l] by (simp add: marksEqual_norm)
    moreover have "\<forall>x\<in>set (butlast out @ [?l]). sp_text x \<noteq> []"
      using "2.prems" True by (auto simp: spans_ok_def dest: in_set_butlastD)
    ultimately have "spans_ok (butlast out @ [?l])" by (simp add: spans_ok_def)
    with "2.IH"(2) True show ?thesis by simp
  next
    case False
    show ?thesis
    proof (cases "sp_text s = []")
      case True
      with "2.IH"(1) "2.prems" show ?thesis by simp
    next
      case ne: False
      with False "2.prems" have "spans_ok (out @ [s])"
        by (simp add: spans_ok_def no_equal_neighbours_snoc)
      with "2.IH"(3) ne False show ?thesis by auto
    qed
  qed
qed

lemma coalesce_coalesced [simp]: "coalesced (coalesceInlines xs)"
proof (cases "coalesce_loop [] xs = []")
  case True
  then show ?thesis by (simp add: coalesceInlines_def coalesced_def)
next
  case False
  have "spans_ok (coalesce_loop [] xs)"
    by (rule coalesce_loop_ok) (simp add: spans_ok_def)
  with False show ?thesis by (simp add: coalesceInlines_def coalesced_def spans_ok_def)
qed

lemma coalesce_nonempty [simp]: "coalesceInlines xs \<noteq> []"
  by (simp add: coalesceInlines_def Let_def)

subsection \<open>Splitting at an offset\<close>

definition clamp_off :: "int \<Rightarrow> nat \<Rightarrow> nat" where
  "clamp_off off n = nat (max 0 (min off (int n)))"

lemma clamp_off_le [simp]: "clamp_off off n \<le> n"
  by (simp add: clamp_off_def)

lemma clamp_off_nat [simp]: "clamp_off (int k) n = min k n"
  by (simp add: clamp_off_def)

lemma take_clamp: "0 \<le> off \<Longrightarrow> take (clamp_off off (length xs)) xs = take (nat off) xs"
  by (cases "off \<le> int (length xs)") (simp_all add: clamp_off_def)

lemma drop_clamp: "0 \<le> off \<Longrightarrow> drop (clamp_off off (length xs)) xs = drop (nat off) xs"
  by (cases "off \<le> int (length xs)") (simp_all add: clamp_off_def)

lemma split_loop_chars:
  "acc \<le> off \<Longrightarrow> split_loop pre xs acc off = (l, r) \<Longrightarrow>
     chars l = chars pre @ take (off - acc) (chars xs) \<and> chars r = drop (off - acc) (chars xs)"
proof (induction pre xs acc off rule: split_loop.induct)
  case (1 pre acc off)
  then show ?case by simp
next
  case (2 pre s rest acc off)
  let ?n = "length (sp_text s)"
  have len: "length (span_chars s) = ?n" by (simp add: span_chars_def)
  consider "acc + ?n = off" | "off < acc + ?n" | "acc + ?n < off" by linarith
  then show ?case
  proof cases
    case 1
    with 2 len show ?thesis by auto
  next
    case 2
    note gt = 2
    let ?k = "off - acc"
    let ?L = "withText s (take ?k (sp_text s))"
    let ?R = "withText s (drop ?k (sp_text s))"
    have l: "span_chars ?L = take ?k (span_chars s)" and r: "span_chars ?R = drop ?k (span_chars s)"
      by (simp_all add: span_chars_withText span_chars_def take_map drop_map)
    have "chars (if sp_text ?L \<noteq> [] then [?L] else []) = span_chars ?L"
      and "chars (if sp_text ?R \<noteq> [] then [?R] else []) = span_chars ?R"
      by (auto simp: span_chars_def)
    moreover have "?k < ?n" using "2.prems" gt by simp
    ultimately show ?thesis using "2.prems" gt len l r by (auto simp: Let_def)
  next
    case 3
    then have "acc + ?n \<le> off" by simp
    with "2.IH" [OF refl] "2.prems" 3 len show ?thesis by (auto simp: Let_def)
  qed
qed

lemma split_chars:
  "chars (fst (splitInlinesAt xs off)) = take (clamp_off off (length (spans_text xs))) (chars xs)"
  "chars (snd (splitInlinesAt xs off)) = drop (clamp_off off (length (spans_text xs))) (chars xs)"
proof -
  let ?k = "clamp_off off (length (spans_text xs))"
  obtain l r where lr: "split_loop [] xs 0 ?k = (l, r)" by (cases "split_loop [] xs 0 ?k")
  from split_loop_chars [OF _ lr]
  have "chars l = take ?k (chars xs)" "chars r = drop ?k (chars xs)" by simp_all
  with lr show "chars (fst (splitInlinesAt xs off)) = take ?k (chars xs)"
    and "chars (snd (splitInlinesAt xs off)) = drop ?k (chars xs)"
    by (auto simp: splitInlinesAt_def Let_def clamp_off_def)
qed

lemma split_chars_nonneg:
  assumes "0 \<le> off"
  shows "chars (fst (splitInlinesAt xs off)) = take (nat off) (chars xs)"
    and "chars (snd (splitInlinesAt xs off)) = drop (nat off) (chars xs)"
  using take_clamp [OF assms, of "chars xs"] drop_clamp [OF assms, of "chars xs"]
  by (simp_all add: split_chars)

lemma split_text:
  "spans_text (fst (splitInlinesAt xs off)) = take (clamp_off off (length (spans_text xs))) (spans_text xs)"
  "spans_text (snd (splitInlinesAt xs off)) = drop (clamp_off off (length (spans_text xs))) (spans_text xs)"
  by (metis map_fst_chars split_chars(1) take_map, metis map_fst_chars split_chars(2) drop_map)

subsection \<open>What the edits do to the characters\<close>

lemma insert_chars:
  "chars (insertTextPreserving xs off t typing) =
     (let k = clamp_off off (length (spans_text xs));
          m = norm_marks (insert_template (fst (splitInlinesAt xs off)) (snd (splitInlinesAt xs off)) typing)
      in take k (chars xs) @ map (\<lambda>c. (c, m)) t @ drop k (chars xs))"
  using split_chars [of xs off]
  by (cases "splitInlinesAt xs off")
    (simp add: insertTextPreserving_def Let_def span_chars_withText)

lemma insert_text:
  "spans_text (insertTextPreserving xs off t typing) =
     (let k = clamp_off off (length (spans_text xs))
      in take k (spans_text xs) @ t @ drop k (spans_text xs))"
proof -
  have "map fst (chars (insertTextPreserving xs off t typing)) =
     (let k = clamp_off off (length (spans_text xs))
      in take k (spans_text xs) @ t @ drop k (spans_text xs))"
    by (simp add: insert_chars Let_def take_map [symmetric] drop_map [symmetric] map_fst_chars o_def)
  then show ?thesis by (simp add: map_fst_chars)
qed

lemma delete_chars:
  assumes "0 \<le> start"
  shows "chars (deleteRangePreserving xs start stop) =
     (if start < stop then take (nat start) (chars xs) @ drop (nat stop) (chars xs) else chars xs)"
proof (cases "start < stop")
  case True
  let ?r = "snd (splitInlinesAt xs start)"
  have l: "chars (fst (splitInlinesAt xs start)) = take (nat start) (chars xs)"
    and r: "chars ?r = drop (nat start) (chars xs)"
    using assms by (simp_all add: split_chars_nonneg)
  have "chars (snd (splitInlinesAt ?r (stop - start))) = drop (nat (stop - start)) (chars ?r)"
    using True by (simp add: split_chars_nonneg)
  also have "\<dots> = drop (nat stop) (chars xs)"
    using r True assms by (simp add: nat_diff_distrib)
  finally show ?thesis using True l by (simp add: deleteRangePreserving_def Let_def)
next
  case False
  then show ?thesis by (simp add: deleteRangePreserving_def)
qed

lemma delete_text:
  assumes "0 \<le> start"
  shows "spans_text (deleteRangePreserving xs start stop) =
     (if start < stop then take (nat start) (spans_text xs) @ drop (nat stop) (spans_text xs)
      else spans_text xs)"
  using arg_cong [OF delete_chars [OF assms, of xs stop], of "map fst"]
  by (simp add: map_fst_chars take_map [symmetric] drop_map [symmetric] split: if_splits)

definition patch_char :: "mark_patch \<Rightarrow> char \<times> marks \<Rightarrow> char \<times> marks" where
  "patch_char p cm = (fst cm, norm_marks (assign_marks (snd cm) p))"

lemma span_chars_patch:
  "span_chars (spanFromMarks (sp_text s) s p) = map (patch_char p) (span_chars s)"
  by (simp add: span_chars_def patch_char_def o_def norm_spanFromMarks assign_marks_norm)

lemma chars_patch:
  "chars (map (\<lambda>s. spanFromMarks (sp_text s) s p) xs) = map (patch_char p) (chars xs)"
  by (induction xs) (simp_all add: span_chars_patch)

lemma apply_marks_chars:
  assumes "0 \<le> start"
  shows "chars (applyMarksRangeLocal xs start stop p) =
     (if start < stop
      then take (nat start) (chars xs)
           @ map (patch_char p) (take (nat stop - nat start) (drop (nat start) (chars xs)))
           @ drop (nat stop) (chars xs)
      else chars xs)"
proof (cases "start < stop")
  case True
  let ?r = "snd (splitInlinesAt xs start)"
  have l: "chars (fst (splitInlinesAt xs start)) = take (nat start) (chars xs)"
    and r: "chars ?r = drop (nat start) (chars xs)"
    using assms by (simp_all add: split_chars_nonneg)
  have "chars (fst (splitInlinesAt ?r (stop - start))) = take (nat (stop - start)) (chars ?r)"
    and "chars (snd (splitInlinesAt ?r (stop - start))) = drop (nat (stop - start)) (chars ?r)"
    using True by (simp_all add: split_chars_nonneg)
  with True l r assms show ?thesis
    by (simp add: applyMarksRangeLocal_def Let_def chars_patch nat_diff_distrib)
next
  case False
  then show ?thesis by (simp add: applyMarksRangeLocal_def)
qed

lemma map_fst_patch [simp]: "map fst (map (patch_char p) cs) = map fst cs"
  by (simp add: patch_char_def)

lemma apply_marks_text:
  assumes "0 \<le> start"
  shows "spans_text (applyMarksRangeLocal xs start stop p) = spans_text xs"
proof -
  have "map fst (chars (applyMarksRangeLocal xs start stop p)) = map fst (chars xs)"
  proof (cases "start < stop")
    case True
    let ?a = "nat start" and ?b = "nat stop"
    have ab: "?a \<le> ?b" using True by simp
    have "drop ?b (chars xs) = drop (?b - ?a) (drop ?a (chars xs))" using ab by simp
    then have "map fst (take ?a (chars xs)) @ map fst (take (?b - ?a) (drop ?a (chars xs)))
        @ map fst (drop ?b (chars xs)) = map fst (chars xs)"
      by (metis append_take_drop_id map_append)
    with True assms show ?thesis by (simp add: apply_marks_chars del: map_map)
  qed (simp add: apply_marks_chars [OF assms])
  then show ?thesis by (simp add: map_fst_chars)
qed

lemmas edit_chars = insert_chars delete_chars apply_marks_chars
lemmas edit_text = insert_text delete_text apply_marks_text

lemma edits_coalesced [simp]:
  "coalesced (insertTextPreserving xs off t typing)"
  "coalesced (deleteRangePreserving xs start stop)"
  "coalesced (applyMarksRangeLocal xs start stop p)"
  by (simp_all add: insertTextPreserving_def deleteRangePreserving_def applyMarksRangeLocal_def
      Let_def split: prod.splits)

lemma edits_nonempty [simp]:
  "insertTextPreserving xs off t typing \<noteq> []"
  "deleteRangePreserving xs start stop \<noteq> []"
  "applyMarksRangeLocal xs start stop p \<noteq> []"
  by (simp_all add: insertTextPreserving_def deleteRangePreserving_def applyMarksRangeLocal_def
      Let_def split: prod.splits)

end
