(* ===== verification/Docs_Span_Laws.thy ===== *)
theory Docs_Span_Laws
  imports Docs_Spans
begin

text \<open>
  Laws of the rich-text engine that its clients rely on: coalescing is idempotent and its
  result is determined by the marked characters, inserted text takes the marks of its left
  neighbour, \<open>diffText\<close> finds one replacement that turns the old text into the new one,
  and the interface \<open>text_buffer\<close> under which the editors apply such a difference.
\<close>

section \<open>The canonical form is determined by the characters\<close>

definition span_key :: "span \<Rightarrow> string \<times> marks" where
  "span_key s = (sp_text s, norm_marks s)"

lemma spans_ok_Cons:
  "spans_ok (s # xs) \<longleftrightarrow>
     sp_text s \<noteq> [] \<and> spans_ok xs \<and> (xs = [] \<or> \<not> marksEqual s (hd xs))"
  by (cases xs) (auto simp: spans_ok_def)

lemma spans_ok_takeWhile:
  assumes "spans_ok (s # xs)"
  shows "takeWhile (\<lambda>cm. snd cm = norm_marks s) (chars (s # xs)) = span_chars s"
    and "dropWhile (\<lambda>cm. snd cm = norm_marks s) (chars (s # xs)) = chars xs"
proof -
  let ?P = "\<lambda>cm :: char \<times> marks. snd cm = norm_marks s"
  have all: "\<forall>x\<in>set (span_chars s). ?P x" by (auto simp: span_chars_def)
  have "chars xs = [] \<or> \<not> ?P (hd (chars xs))"
  proof (cases xs)
    case (Cons t ys)
    with assms have "sp_text t \<noteq> []" and "norm_marks t \<noteq> norm_marks s"
      by (auto simp: spans_ok_Cons marksEqual_norm)
    then show ?thesis using Cons by (cases "sp_text t") (auto simp: span_chars_def)
  qed simp
  then have "takeWhile ?P (chars xs) = []" and "dropWhile ?P (chars xs) = chars xs"
    by (cases "chars xs"; auto)+
  with all show "takeWhile ?P (chars (s # xs)) = span_chars s"
    and "dropWhile ?P (chars (s # xs)) = chars xs"
    by (simp_all add: takeWhile_append2 dropWhile_append2)
qed

lemma chars_Nil_spans_ok: "spans_ok xs \<Longrightarrow> chars xs = [] \<longleftrightarrow> xs = []"
  by (cases xs) (auto simp: spans_ok_Cons span_chars_def)

lemma spans_ok_determined:
  "spans_ok xs \<Longrightarrow> spans_ok ys \<Longrightarrow> chars xs = chars ys \<Longrightarrow> map span_key xs = map span_key ys"
proof (induction xs arbitrary: ys)
  case Nil
  then show ?case using chars_Nil_spans_ok [of ys] by simp
next
  case (Cons s xs)
  then have "chars ys \<noteq> []" using chars_Nil_spans_ok [of "s # xs"] by auto
  then obtain t zs where ys: "ys = t # zs" by (cases ys) auto
  have "sp_text s \<noteq> []" "sp_text t \<noteq> []"
    using Cons.prems ys by (auto simp: spans_ok_Cons)
  moreover have "hd (chars (s # xs)) = hd (chars (t # zs))" using Cons.prems(3) ys by simp
  ultimately have m: "norm_marks s = norm_marks t"
    by (cases "sp_text s"; cases "sp_text t") (auto simp: span_chars_def)
  have "span_chars s = span_chars t" and rest: "chars xs = chars zs"
    using spans_ok_takeWhile [OF Cons.prems(1)] spans_ok_takeWhile [of t zs] Cons.prems(2,3) ys m
    by auto
  then have "span_key s = span_key t" using m by (metis map_fst_span_chars span_key_def)
  moreover have "map span_key xs = map span_key zs"
    using Cons.IH [of zs] Cons.prems(1,2) ys rest by (simp add: spans_ok_Cons)
  ultimately show ?case using ys by simp
qed

lemma coalesced_cases:
  "coalesced xs \<longleftrightarrow> xs = [spanFromMarks [] no_marks empty_patch] \<or> (xs \<noteq> [] \<and> spans_ok xs)"
  by (simp add: coalesced_def spans_ok_def)

lemma coalesced_determined:
  assumes "coalesced xs" "coalesced ys" "chars xs = chars ys"
  shows "map span_key xs = map span_key ys"
proof (cases "chars xs = []")
  case True
  then have "chars ys = []" using assms(3) by simp
  with True assms(1,2) have "xs = [spanFromMarks [] no_marks empty_patch]"
    "ys = [spanFromMarks [] no_marks empty_patch]"
    using chars_Nil_spans_ok [of xs] chars_Nil_spans_ok [of ys] by (auto simp: coalesced_cases)
  then show ?thesis by simp
next
  case False
  with assms have "spans_ok xs" "spans_ok ys" by (auto simp: coalesced_cases)
  with assms(3) show ?thesis by (rule spans_ok_determined [rotated 2])
qed

lemma coalesce_loop_id: "spans_ok (out @ xs) \<Longrightarrow> coalesce_loop out xs = out @ xs"
proof (induction xs arbitrary: out)
  case Nil
  then show ?case by simp
next
  case (Cons s xs)
  have prefix: "no_equal_neighbours (ys @ zs) \<Longrightarrow> no_equal_neighbours ys" for ys zs :: "span list"
    by (induction ys rule: no_equal_neighbours.induct) auto
  have "no_equal_neighbours (out @ [s])"
    using Cons.prems prefix [of "out @ [s]" xs] by (simp add: spans_ok_def)
  then have "out = [] \<or> \<not> marksEqual (last out) s" by (simp add: no_equal_neighbours_snoc)
  moreover have "sp_text s \<noteq> []" using Cons.prems by (simp add: spans_ok_def)
  ultimately show ?case using Cons.IH [of "out @ [s]"] Cons.prems by auto
qed

lemma coalesce_id: "coalesced xs \<Longrightarrow> coalesceInlines xs = xs"
  using coalesce_loop_id [of "[]" xs] by (auto simp: coalesced_cases coalesceInlines_def)

lemma coalesce_idem [simp]: "coalesceInlines (coalesceInlines xs) = coalesceInlines xs"
  by (rule coalesce_id) simp

section \<open>Marks of inserted text\<close>

text \<open>The marks inserted text takes from its surroundings, on the character sequence.\<close>

definition caret_marks :: "(char \<times> marks) list \<Rightarrow> nat \<Rightarrow> marks" where
  "caret_marks cs k =
     (if cs = [] then norm_marks no_marks
      else if k = 0 then snd (hd cs) else snd (cs ! (k - 1)))"

lemma last_chars_left:
  assumes "ls \<noteq> []" "sp_text (last ls) \<noteq> []"
  shows "chars ls \<noteq> []" "snd (last (chars ls)) = norm_marks (last ls)"
proof -
  have "chars ls = chars (butlast ls) @ span_chars (last ls)"
    using assms(1) by (metis append_butlast_last_id append_Nil2 chars_simps)
  moreover have "span_chars (last ls) \<noteq> []" using assms(2) by (simp add: span_chars_def)
  moreover have "snd (last (span_chars (last ls))) = norm_marks (last ls)"
    using assms(2) by (simp add: span_chars_def last_map)
  ultimately show "chars ls \<noteq> []" "snd (last (chars ls)) = norm_marks (last ls)" by simp_all
qed

lemma coalesced_last_text:
  "coalesced ls \<Longrightarrow> chars ls \<noteq> [] \<Longrightarrow> ls \<noteq> [] \<and> sp_text (last ls) \<noteq> []"
  by (auto simp: coalesced_def)

lemma split_loop_coalesced:
  "acc \<le> off \<Longrightarrow> off < acc + length (spans_text xs) \<Longrightarrow>
     coalesced (fst (split_loop pre xs acc off)) \<and> coalesced (snd (split_loop pre xs acc off))"
proof (induction pre xs acc off rule: split_loop.induct)
  case (2 pre s rest acc off)
  show ?case
  proof (cases "acc + length (sp_text s) < off")
    case True
    with "2.IH" [OF refl] "2.prems" show ?thesis by (simp add: Let_def)
  next
    case False
    then show ?thesis by (simp add: Let_def)
  qed
qed simp

lemma splitInlinesAt_clamp:
  "splitInlinesAt xs off =
     (let k = clamp_off off (length (spans_text xs))
      in if k = 0 then ([], xs) else if k \<ge> length (spans_text xs) then (xs, [])
         else split_loop [] xs 0 k)"
  by (simp only: splitInlinesAt_def clamp_off_def Let_def)

lemma insert_template_caret:
  assumes "coalesced xs"
  shows "norm_marks (insert_template (fst (splitInlinesAt xs off)) (snd (splitInlinesAt xs off)) None)
     = caret_marks (chars xs) (clamp_off off (length (spans_text xs)))"
proof -
  let ?k = "clamp_off off (length (spans_text xs))"
  let ?l = "fst (splitInlinesAt xs off)" and ?r = "snd (splitInlinesAt xs off)"
  show ?thesis
  proof (cases "?k = 0")
    case True
    then have lr: "?l = []" "?r = xs" by (simp_all add: splitInlinesAt_clamp Let_def)
    have "xs \<noteq> []" using assms by (auto simp: coalesced_def)
    moreover have "chars xs \<noteq> [] \<Longrightarrow> snd (hd (chars xs)) = norm_marks (hd xs)"
      using assms by (cases xs; cases "sp_text (hd xs)") (auto simp: coalesced_def span_chars_def)
    moreover have "chars xs = [] \<Longrightarrow> norm_marks (hd xs) = norm_marks no_marks"
      using assms chars_Nil_spans_ok by (auto simp: coalesced_cases norm_spanFromMarks)
    ultimately show ?thesis using True lr by (simp add: insert_template_def caret_marks_def)
  next
    case False
    then have cne: "chars xs \<noteq> []"
      by (metis clamp_off_le le_zero_eq length_chars list.size(3))
    then have tne: "spans_text xs \<noteq> []" by (metis length_0_conv length_chars)
    have cl: "coalesced ?l"
    proof (cases "?k \<ge> length (spans_text xs)")
      case True
      with False assms tne show ?thesis by (simp add: splitInlinesAt_clamp Let_def)
    next
      case lt: False
      with False split_loop_coalesced [of 0 ?k xs "[]"] show ?thesis
        by (simp add: splitInlinesAt_clamp Let_def)
    qed
    have lchars: "chars ?l = take ?k (chars xs)" by (rule split_chars)
    then have lne: "chars ?l \<noteq> []" using False cne by simp
    with cl coalesced_last_text have ll: "?l \<noteq> []" "sp_text (last ?l) \<noteq> []" by blast+
    have "norm_marks (last ?l) = snd (last (take ?k (chars xs)))"
      using last_chars_left(2) [OF ll] lchars by simp
    also have "last (take ?k (chars xs)) = chars xs ! (?k - 1)"
      using False lne lchars clamp_off_le [of off "length (spans_text xs)"]
      by (simp add: last_conv_nth min_absorb2)
    finally show ?thesis using False cne ll by (simp add: insert_template_def caret_marks_def)
  qed
qed

lemma insert_typing_chars:
  "chars (insertTextPreserving xs off t (Some m)) =
     (let k = clamp_off off (length (spans_text xs))
      in take k (chars xs) @ map (\<lambda>c. (c, norm_marks m)) t @ drop k (chars xs))"
  by (simp add: insert_chars insert_template_def)

lemma insert_plain_chars:
  assumes "coalesced xs"
  shows "chars (insertTextPreserving xs off t None) =
     (let k = clamp_off off (length (spans_text xs))
      in take k (chars xs) @ map (\<lambda>c. (c, caret_marks (chars xs) k)) t @ drop k (chars xs))"
  by (simp add: insert_chars insert_template_caret [OF assms])

section \<open>diffText\<close>

lemma diff_start_props:
  "take start prev = take start nxt \<Longrightarrow> start \<le> min (length prev) (length nxt) \<Longrightarrow>
     (let s = diff_start prev nxt start
      in s \<le> min (length prev) (length nxt) \<and> take s prev = take s nxt)"
proof (induction prev nxt start rule: diff_start.induct)
  case (1 prev nxt start)
  show ?case
  proof (cases "start < min (length prev) (length nxt) \<and> prev ! start = nxt ! start")
    case True
    then have "take (Suc start) prev = take (Suc start) nxt"
      using 1 by (simp add: take_Suc_conv_app_nth)
    with 1 True show ?thesis by (simp add: diff_start.simps [of prev nxt start])
  next
    case False
    then have "diff_start prev nxt start = start" by (subst diff_start.simps) auto
    with 1 show ?thesis by simp
  qed
qed

lemma diff_end_props:
  assumes "drop ep prev = drop en nxt" "start \<le> ep" "start \<le> en" "ep \<le> length prev"
    "en \<le> length nxt" "diff_end prev nxt start ep en = (ep', en')"
  shows "drop ep' prev = drop en' nxt \<and> start \<le> ep' \<and> start \<le> en' \<and> ep' \<le> length prev \<and> en' \<le> length nxt"
  using assms
proof (induction prev nxt start ep en rule: diff_end.induct)
  case (1 prev nxt start ep en)
  show ?case
  proof (cases "start < ep \<and> start < en \<and> prev ! (ep - 1) = nxt ! (en - 1)")
    case True
    then have "drop (ep - 1) prev = prev ! (ep - 1) # drop ep prev"
      and "drop (en - 1) nxt = nxt ! (en - 1) # drop en nxt"
      using 1 Cons_nth_drop_Suc [of "ep - 1" prev] Cons_nth_drop_Suc [of "en - 1" nxt] by auto
    then have d: "drop (ep - 1) prev = drop (en - 1) nxt" using 1 True by simp
    from 1 True have e: "diff_end prev nxt start (ep - 1) (en - 1) = (ep', en')"
      by (simp add: diff_end.simps [of prev nxt start ep en])
    show ?thesis by (rule "1.IH" [OF True d]) (use True "1.prems" e in auto)
  next
    case False
    with "1.prems" have "ep' = ep" "en' = en"
      by (auto simp: diff_end.simps [of prev nxt start ep en])
    with "1.prems" show ?thesis by simp
  qed
qed

lemma diffText_props:
  fixes prev nxt :: string
  defines "d \<equiv> diffText prev nxt"
  shows "d_start d \<le> d_deletedEnd d" "d_deletedEnd d \<le> length prev"
    "take (d_start d) prev @ d_inserted d @ drop (d_deletedEnd d) prev = nxt"
proof -
  let ?s = "diff_start prev nxt 0"
  obtain ep en where e: "diff_end prev nxt ?s (length prev) (length nxt) = (ep, en)"
    by (cases "diff_end prev nxt ?s (length prev) (length nxt)")
  have s: "?s \<le> min (length prev) (length nxt)" "take ?s prev = take ?s nxt"
    using diff_start_props [of 0 prev nxt] by (simp_all add: Let_def)
  have p: "drop ep prev = drop en nxt" "?s \<le> ep" "?s \<le> en" "ep \<le> length prev" "en \<le> length nxt"
    using diff_end_props [OF _ _ _ _ _ e] s(1) by auto
  have d: "d_start d = ?s" "d_deletedEnd d = ep" "d_inserted d = drop ?s (take en nxt)"
    using e by (simp_all add: d_def diffText_def Let_def)
  have "take ?s nxt @ drop ?s (take en nxt) = take en nxt"
    using p(3) append_take_drop_id [of ?s "take en nxt"] by (simp add: min_def)
  then show "take (d_start d) prev @ d_inserted d @ drop (d_deletedEnd d) prev = nxt"
    using d s(2) p(1) by (metis append.assoc append_take_drop_id)
  show "d_start d \<le> d_deletedEnd d" "d_deletedEnd d \<le> length prev" using d p by simp_all
qed

lemma diffText_same: "diffText s s = \<lparr>d_start = length s, d_deletedEnd = length s, d_inserted = []\<rparr>"
proof -
  have "diff_start s s k = max k (length s)" for k
  proof (induction "length s - k" arbitrary: k)
    case 0
    then show ?case by (subst diff_start.simps) auto
  next
    case (Suc n)
    then have "diff_start s s (Suc k) = max (Suc k) (length s)" by simp
    with Suc show ?case by (subst diff_start.simps) auto
  qed
  then have "diff_start s s 0 = length s" by simp
  then show ?thesis by (simp add: diffText_def Let_def diff_end.simps)
qed

section \<open>The interface the editors use\<close>

text \<open>
  A text buffer: its plain content, insertion at an offset and deletion of a range. An
  editor that observes a new content computes the difference to the old one and applies it
  as one deletion and one insertion.
\<close>

definition apply_text_diff ::
  "('b \<Rightarrow> int \<Rightarrow> string \<Rightarrow> 'm option \<Rightarrow> 'b) \<Rightarrow> ('b \<Rightarrow> int \<Rightarrow> int \<Rightarrow> 'b) \<Rightarrow>
     'b \<Rightarrow> text_diff \<Rightarrow> 'm option \<Rightarrow> 'b" where
  "apply_text_diff ins del b d m =
     (let b1 = (if d_deletedEnd d > d_start d
                then del b (int (d_start d)) (int (d_deletedEnd d)) else b)
      in if d_inserted d \<noteq> [] then ins b1 (int (d_start d)) (d_inserted d) m else b1)"

locale text_buffer =
  fixes content :: "'b \<Rightarrow> string"
    and ins :: "'b \<Rightarrow> int \<Rightarrow> string \<Rightarrow> 'm option \<Rightarrow> 'b"
    and del :: "'b \<Rightarrow> int \<Rightarrow> int \<Rightarrow> 'b"
  assumes content_ins:
    "0 \<le> off \<Longrightarrow> content (ins b off t m) = take (nat off) (content b) @ t @ drop (nat off) (content b)"
    and content_del:
    "0 \<le> start \<Longrightarrow> start < stop \<Longrightarrow>
       content (del b start stop) = take (nat start) (content b) @ drop (nat stop) (content b)"
begin

lemma apply_diff_content: "content (apply_text_diff ins del b (diffText (content b) nxt) m) = nxt"
proof -
  let ?d = "diffText (content b) nxt"
  let ?b1 = "if d_deletedEnd ?d > d_start ?d
    then del b (int (d_start ?d)) (int (d_deletedEnd ?d)) else b"
  note p = diffText_props [of "content b" nxt]
  have b1: "content ?b1 = take (d_start ?d) (content b) @ drop (d_deletedEnd ?d) (content b)"
  proof (cases "d_deletedEnd ?d > d_start ?d")
    case True
    then show ?thesis using content_del [of "int (d_start ?d)" "int (d_deletedEnd ?d)" b] by simp
  next
    case False
    with p(1) have "d_deletedEnd ?d = d_start ?d" by simp
    then show ?thesis by simp
  qed
  have len: "length (take (d_start ?d) (content b)) = d_start ?d" using p(1,2) by simp
  show ?thesis
  proof (cases "d_inserted ?d = []")
    case True
    then show ?thesis using b1 p(3) by (simp add: apply_text_diff_def Let_def)
  next
    case False
    then have "content (apply_text_diff ins del b ?d m) = take (d_start ?d) (content ?b1) @ d_inserted ?d
        @ drop (d_start ?d) (content ?b1)"
      by (simp add: apply_text_diff_def Let_def content_ins)
    also have "\<dots> = nxt" using b1 len p(3) by simp
    finally show ?thesis .
  qed
qed

end

interpretation docs_buffer: text_buffer spans_text insertTextPreserving deleteRangePreserving
proof
  fix off :: int and b t m
  assume "0 \<le> off"
  then show "spans_text (insertTextPreserving b off t m) =
      take (nat off) (spans_text b) @ t @ drop (nat off) (spans_text b)"
    by (simp add: insert_text Let_def take_clamp drop_clamp)
next
  fix start stop :: int and b
  assume "0 \<le> start" "start < stop"
  then show "spans_text (deleteRangePreserving b start stop) =
      take (nat start) (spans_text b) @ drop (nat stop) (spans_text b)"
    by (simp add: delete_text)
qed

end
