(* ===== verification/Docs_Model.thy ===== *)
theory Docs_Model
  imports Docs_Span_Laws
begin

text \<open>
  The state of the documents client (\<open>ui/docs/web/app.js\<close>): the document with its blocks,
  comments and revisions, the module variables beside it (socket, undo stacks, timers,
  typing marks), and the primitives every handler calls: \<open>sendOp\<close>, \<open>setAuthStatus\<close>,
  \<open>renderBlocks\<close> (its effect on the state), \<open>scheduleAutosave\<close>, \<open>pushUndo\<close>,
  \<open>undoEdit\<close>, \<open>redoEdit\<close>, \<open>applyDoc\<close>.

  What the browser owns is either an argument (the selected element, selection offsets, the
  text of an input, the answer to a prompt, a fresh id) or an event appended to the \<open>ui\<close>
  trace (a repaint, a status text, a caret placement). Messages sent on the socket are the
  \<open>outbox\<close>.
\<close>

section \<open>Documents\<close>

text \<open>A block object. An absent \<open>block_type\<close> is the empty string, an absent heading level is 0.\<close>

record block =
  b_id :: string
  block_type :: string
  heading_level :: int
  list_type :: "string option"
  align :: "string option"
  line_spacing :: "string option"
  indent_mm :: "int option"
  space_before_pt :: "int option"
  space_after_pt :: "int option"
  list_level :: "int option"
  list_marker :: "string option"
  list_restart :: bool
  style_name :: "string option"
  lang :: "string option"
  bookmark_name :: "string option"
  image_url :: "string option"
  image_object_id :: "string option"
  box_width_pct :: "int option"
  table_cells :: "string list list option"
  inlines :: "span list"

definition new_block :: "string \<Rightarrow> string \<Rightarrow> span list \<Rightarrow> block" where
  "new_block bid typ spans =
     \<lparr> b_id = bid, block_type = typ, heading_level = 0, list_type = None, align = None,
       line_spacing = None, indent_mm = None, space_before_pt = None, space_after_pt = None,
       list_level = None, list_marker = None, list_restart = False, style_name = None,
       lang = None, bookmark_name = None, image_url = None, image_object_id = None,
       box_width_pct = None, table_cells = None, inlines = spans \<rparr>"

text \<open>A literal \<open>{ text: t, bold: false, italic: false, underline: false }\<close>.\<close>

definition plain_span :: "string \<Rightarrow> span" where
  "plain_span t = no_marks\<lparr>sp_text := t\<rparr>"

record comment =
  c_id :: string
  c_block_id :: string
  c_author_id :: string
  c_text :: string
  c_resolved :: bool
  c_start :: "int option"
  c_end :: "int option"
  c_quote :: "string option"

record revision =
  r_id :: string
  r_block_id :: string
  r_kind :: string
  r_before :: string
  r_after :: string
  r_author_id :: string

record page_setup =
  pg_size :: string
  pg_orientation :: string
  pg_margins_mm :: "int option"
  pg_columns :: "int option"

record head_foot =
  hf_text :: string
  hf_page_numbers :: bool

record named_style =
  st_name :: string
  st_font_family :: "string option"
  st_font_size_pt :: int
  st_bold :: bool
  st_italic :: bool

record doc =
  blocks :: "block list"
  comments :: "comment list"
  revisions :: "revision list"
  track_changes :: bool
  page :: "page_setup option"
  doc_header :: "head_foot option"
  doc_footer :: "head_foot option"
  doc_styles :: "named_style list"

section \<open>Operations on the wire\<close>

text \<open>The mark keys a \<open>set_marks_range\<close> message may carry; \<open>None\<close> for an absent key.\<close>

record marks_op =
  mo_bold :: "bool option"
  mo_italic :: "bool option"
  mo_underline :: "bool option"
  mo_strike :: "bool option"
  mo_superscript :: "bool option"
  mo_subscript :: "bool option"
  mo_link_url :: "string option"
  mo_font_family :: "string option"
  mo_font_size_pt :: "int option"
  mo_color :: "string option"
  mo_highlight :: "string option"

definition no_marks_op :: marks_op where
  "no_marks_op = \<lparr> mo_bold = None, mo_italic = None, mo_underline = None, mo_strike = None,
     mo_superscript = None, mo_subscript = None, mo_link_url = None, mo_font_family = None,
     mo_font_size_pt = None, mo_color = None, mo_highlight = None \<rparr>"

record format_op =
  fo_align :: "string option"
  fo_clear_list :: bool
  fo_list_type :: "string option"
  fo_indent_mm :: "int option"
  fo_line_spacing :: "string option"
  fo_list_level :: "int option"
  fo_list_marker :: "string option"
  fo_style_name :: "string option"
  fo_space_before_pt :: "int option"
  fo_space_after_pt :: "int option"
  fo_list_restart :: bool

definition no_format_op :: format_op where
  "no_format_op = \<lparr> fo_align = None, fo_clear_list = False, fo_list_type = None,
     fo_indent_mm = None, fo_line_spacing = None, fo_list_level = None, fo_list_marker = None,
     fo_style_name = None, fo_space_before_pt = None, fo_space_after_pt = None,
     fo_list_restart = False \<rparr>"

datatype op =
    Insert_text string int string "marks option"
  | Delete_range string int int
  | Split_block string int string
  | Merge_blocks string bool
  | Set_marks_range string int int marks_op
  | Set_block_type string string int "string option" "string option"
  | Insert_block "string option" block
  | Set_block_format string format_op
  | Set_inline_marks string marks "string option"
  | Add_comment comment
  | Resolve_comment string

datatype wire =
    Op op
  | Revision_event string string revision
  | Presence_caret string string int string
  | Presence_heartbeat

datatype ui_event =
    Status string bool
  | SaveStatus string string
  | RenderBlocks
  | RenderComments
  | PaintBlock string
  | SelectRange string int int
  | Highlight string
  | PaintPeers
  | WordCount nat
  | DocTitle string
  | DocMeta string

section \<open>The client's state\<close>

text \<open>The caret of a peer: block, offset, colour (empty when the message has none).\<close>

type_synonym caret_at = "string \<times> int \<times> string"

record painter_clip =
  pc_align :: "string option"
  pc_indent_mm :: "int option"
  pc_line_spacing :: "string option"
  pc_space_before_pt :: "int option"
  pc_space_after_pt :: "int option"
  pc_style_name :: "string option"
  pc_list_type :: "string option"
  pc_list_level :: "int option"
  pc_list_marker :: "string option"
  pc_marks :: marks

record app =
  docState :: doc
  docId :: "string option"
  docName :: string
  userId :: string
  ws_open :: bool
  outbox :: "wire list"
  ui :: "ui_event list"
  typingMarks :: "marks option"
  formatPainterClip :: "painter_clip option"
  undoStack :: "doc list"
  redoStack :: "doc list"
  dirty :: bool
  saving :: bool
  autosave_armed :: bool
  sync_pending :: "(string \<times> text_diff) option"
  findMatches :: "string list"
  findCursor :: int
  lastFindQuery :: string
  peerCursors :: "(string \<times> caret_at) list"

abbreviation app_blocks :: "app \<Rightarrow> block list" where
  "app_blocks a \<equiv> blocks (docState a)"

definition map_doc :: "(doc \<Rightarrow> doc) \<Rightarrow> app \<Rightarrow> app" where
  "map_doc f a = a\<lparr>docState := f (docState a)\<rparr>"

definition map_blocks :: "(block list \<Rightarrow> block list) \<Rightarrow> app \<Rightarrow> app" where
  "map_blocks f a = map_doc (\<lambda>d. d\<lparr>blocks := f (blocks d)\<rparr>) a"

text \<open>Mutation of the block that \<open>docState.blocks.find((b) => b.id === bid)\<close> returns.\<close>

definition upd_block :: "string \<Rightarrow> (block \<Rightarrow> block) \<Rightarrow> block list \<Rightarrow> block list" where
  "upd_block bid f bs = upd_first (\<lambda>b. b_id b = bid) f bs"

definition find_block :: "string \<Rightarrow> block list \<Rightarrow> block option" where
  "find_block bid bs = find (\<lambda>b. b_id b = bid) bs"

definition block_index :: "string \<Rightarrow> block list \<Rightarrow> nat option" where
  "block_index bid bs = find_index (\<lambda>b. b_id b = bid) bs"

definition blockText :: "block \<Rightarrow> string" where
  "blockText b = spans_text (inlines b)"

definition UNDO_MAX :: nat where
  "UNDO_MAX = 40"

definition emit :: "ui_event \<Rightarrow> app \<Rightarrow> app" where
  "emit e a = a\<lparr>ui := ui a @ [e]\<rparr>"

definition setAuthStatus :: "string \<Rightarrow> bool \<Rightarrow> app \<Rightarrow> app" where
  "setAuthStatus msg isErr a = emit (Status msg isErr) a"

definition setSaveStatus :: "string \<Rightarrow> string \<Rightarrow> app \<Rightarrow> app" where
  "setSaveStatus txt st a = emit (SaveStatus txt st) a"

definition ws_send :: "wire \<Rightarrow> app \<Rightarrow> app" where
  "ws_send w a = (if ws_open a then a\<lparr>outbox := outbox a @ [w]\<rparr> else a)"

definition sendOp :: "op \<Rightarrow> app \<Rightarrow> app" where
  "sendOp oper a = ws_send (Op oper) a"

definition default_page :: page_setup where
  "default_page = \<lparr> pg_size = ''a4'', pg_orientation = ''portrait'', pg_margins_mm = Some 20,
     pg_columns = None \<rparr>"

text \<open>The state part of \<open>applyPageChrome\<close>: a missing page setup or page size is filled in.\<close>

definition applyPageChrome :: "doc \<Rightarrow> doc" where
  "applyPageChrome d =
     (let p = (case page d of None \<Rightarrow> default_page | Some p \<Rightarrow> p)
      in d\<lparr>page := Some (if pg_size p = [] then p\<lparr>pg_size := ''a4''\<rparr> else p)\<rparr>)"

definition renderBlocks :: "app \<Rightarrow> app" where
  "renderBlocks a = emit RenderBlocks (map_doc applyPageChrome a)"

definition scheduleAutosave :: "app \<Rightarrow> app" where
  "scheduleAutosave a =
     (case docId a of None \<Rightarrow> a
      | Some _ \<Rightarrow> (setSaveStatus ''Unsaved changes'' ''dirty'' (a\<lparr>dirty := True\<rparr>))
                   \<lparr>autosave_armed := True\<rparr>)"

section \<open>Undo and redo\<close>

text \<open>\<open>JSON.stringify(docState)\<close> is the document value; the stacks grow at the end.\<close>

definition pushUndo :: "app \<Rightarrow> app" where
  "pushUndo a =
     (let s = undoStack a @ [docState a]
      in a\<lparr>undoStack := (if length s > UNDO_MAX then tl s else s), redoStack := []\<rparr>)"

definition default_hf :: head_foot where
  "default_hf = \<lparr> hf_text = [], hf_page_numbers = False \<rparr>"

definition applyDoc :: "doc \<Rightarrow> app \<Rightarrow> app" where
  "applyDoc d a =
     (let d' = d\<lparr>page := Some (case page d of None \<Rightarrow> default_page | Some p \<Rightarrow> p),
                 doc_header := Some (case doc_header d of None \<Rightarrow> default_hf | Some h \<Rightarrow> h),
                 doc_footer := Some (case doc_footer d of None \<Rightarrow> default_hf | Some h \<Rightarrow> h)\<rparr>;
          a1 = emit RenderComments (renderBlocks (a\<lparr>docState := d'\<rparr>))
      in a1\<lparr>findMatches := [], findCursor := -1, lastFindQuery := []\<rparr>)"

definition restoreSnapshot :: "doc \<Rightarrow> app \<Rightarrow> app" where
  "restoreSnapshot d a = scheduleAutosave (applyDoc d a)"

definition undoEdit :: "app \<Rightarrow> app" where
  "undoEdit a =
     (if undoStack a = [] then setAuthStatus ''Nothing to undo'' True a
      else (let a1 = a\<lparr>redoStack := redoStack a @ [docState a],
                       undoStack := butlast (undoStack a)\<rparr>
            in setAuthStatus ''Undo'' False (restoreSnapshot (last (undoStack a)) a1)))"

definition redoEdit :: "app \<Rightarrow> app" where
  "redoEdit a =
     (if redoStack a = [] then setAuthStatus ''Nothing to redo'' True a
      else (let a1 = a\<lparr>undoStack := undoStack a @ [docState a],
                       redoStack := butlast (redoStack a)\<rparr>
            in setAuthStatus ''Redo'' False (restoreSnapshot (last (redoStack a)) a1)))"

section \<open>Autosave\<close>

text \<open>
  \<open>autosaveSnapshot\<close> awaits the server: the part before the \<open>await\<close> and the part after it
  are two steps, and other handlers may run in between.
\<close>

definition autosave_begin :: "app \<Rightarrow> app" where
  "autosave_begin a =
     (if docId a = None \<or> \<not> dirty a \<or> saving a then a
      else setSaveStatus ''Saving...'' ''saving'' (a\<lparr>saving := True\<rparr>))"

definition autosave_end :: "bool \<Rightarrow> string \<Rightarrow> app \<Rightarrow> app" where
  "autosave_end ok now a =
     (let a1 = a\<lparr>saving := False\<rparr>
      in if ok then setSaveStatus (''Saved - '' @ now) ''ok'' (a1\<lparr>dirty := False\<rparr>)
         else setSaveStatus ''Autosave failed - try Save now'' ''err'' a1)"

section \<open>Frame lemmas of the primitives\<close>

lemma find_block_Some: "find_block i bs = Some b \<Longrightarrow> b \<in> set bs \<and> b_id b = i"
  using find_Some_in [of "\<lambda>b. b_id b = i" bs b] by (simp add: find_block_def)

lemma find_block_upd:
  "(\<And>b. b_id (f b) = b_id b) \<Longrightarrow> find_block i (upd_block i f bs) = map_option f (find_block i bs)"
  by (simp add: find_block_def upd_block_def find_upd_first)

lemma find_block_upd_other:
  "(\<And>b. b_id (f b) = b_id b) \<Longrightarrow> i \<noteq> j \<Longrightarrow> find_block j (upd_block i f bs) = find_block j bs"
  by (simp add: find_block_def upd_block_def find_upd_first_other)

lemma ids_upd_block [simp]:
  "(\<And>b. b_id (f b) = b_id b) \<Longrightarrow> map b_id (upd_block i f bs) = map b_id bs"
  by (simp add: upd_block_def map_upd_first_cong)

lemma upd_block_cong:
  "(\<And>b. find_block i bs = Some b \<Longrightarrow> f b = g b) \<Longrightarrow> upd_block i f bs = upd_block i g bs"
  unfolding upd_block_def find_block_def by (rule upd_first_cong_find)

lemma upd_block_upd_block:
  "(\<And>b. b_id (f b) = b_id b) \<Longrightarrow>
     upd_block i g (upd_block i f bs) = upd_block i (\<lambda>b. g (f b)) bs"
  by (simp add: upd_block_def upd_first_upd_first)

lemma upd_block_missing [simp]: "find_block i bs = None \<Longrightarrow> upd_block i f bs = bs"
  by (simp add: upd_block_def find_block_def)

lemma block_index_upd [simp]:
  "(\<And>b. b_id (f b) = b_id b) \<Longrightarrow> block_index j (upd_block i f bs) = block_index j bs"
  by (simp add: block_index_def upd_block_def find_index_upd_first)

lemma block_index_None_iff: "block_index i bs = None \<longleftrightarrow> i \<notin> b_id ` set bs"
  by (auto simp: block_index_def find_index_None)

lemma find_block_None_iff: "find_block i bs = None \<longleftrightarrow> i \<notin> b_id ` set bs"
  by (auto simp: find_block_def find_None_iff)

lemma applyPageChrome_frame [simp]:
  "blocks (applyPageChrome d) = blocks d" "comments (applyPageChrome d) = comments d"
  "revisions (applyPageChrome d) = revisions d" "track_changes (applyPageChrome d) = track_changes d"
  "doc_styles (applyPageChrome d) = doc_styles d"
  by (simp_all add: applyPageChrome_def Let_def)

lemmas app_prims =
  map_doc_def map_blocks_def emit_def setAuthStatus_def setSaveStatus_def ws_send_def sendOp_def
  renderBlocks_def scheduleAutosave_def pushUndo_def

lemma prim_docState [simp]:
  "docState (emit e a) = docState a" "docState (setAuthStatus m b a) = docState a"
  "docState (setSaveStatus t s a) = docState a" "docState (ws_send w a) = docState a"
  "docState (sendOp oper a) = docState a" "docState (renderBlocks a) = applyPageChrome (docState a)"
  "docState (scheduleAutosave a) = docState a" "docState (pushUndo a) = docState a"
  "docState (map_doc f a) = f (docState a)"
  "docState (map_blocks g a) = (docState a)\<lparr>blocks := g (blocks (docState a))\<rparr>"
  by (simp_all add: app_prims Let_def split: option.splits)

lemma prim_ws_open [simp]:
  "ws_open (emit e a) = ws_open a" "ws_open (setAuthStatus m b a) = ws_open a"
  "ws_open (setSaveStatus t s a) = ws_open a" "ws_open (ws_send w a) = ws_open a"
  "ws_open (sendOp oper a) = ws_open a" "ws_open (renderBlocks a) = ws_open a"
  "ws_open (scheduleAutosave a) = ws_open a" "ws_open (pushUndo a) = ws_open a"
  "ws_open (map_doc f a) = ws_open a" "ws_open (map_blocks g a) = ws_open a"
  by (simp_all add: app_prims Let_def split: option.splits)

lemma prim_outbox [simp]:
  "outbox (emit e a) = outbox a" "outbox (setAuthStatus m b a) = outbox a"
  "outbox (setSaveStatus t s a) = outbox a"
  "outbox (ws_send w a) = outbox a @ (if ws_open a then [w] else [])"
  "outbox (sendOp oper a) = outbox a @ (if ws_open a then [Op oper] else [])"
  "outbox (renderBlocks a) = outbox a" "outbox (scheduleAutosave a) = outbox a"
  "outbox (pushUndo a) = outbox a" "outbox (map_doc f a) = outbox a"
  "outbox (map_blocks g a) = outbox a"
  by (simp_all add: app_prims Let_def split: option.splits)

lemma prim_undo [simp]:
  "undoStack (emit e a) = undoStack a" "undoStack (setAuthStatus m b a) = undoStack a"
  "undoStack (setSaveStatus t s a) = undoStack a" "undoStack (ws_send w a) = undoStack a"
  "undoStack (sendOp oper a) = undoStack a" "undoStack (renderBlocks a) = undoStack a"
  "undoStack (scheduleAutosave a) = undoStack a" "undoStack (map_doc f a) = undoStack a"
  "undoStack (map_blocks g a) = undoStack a"
  "redoStack (emit e a) = redoStack a" "redoStack (setAuthStatus m b a) = redoStack a"
  "redoStack (setSaveStatus t s a) = redoStack a" "redoStack (ws_send w a) = redoStack a"
  "redoStack (sendOp oper a) = redoStack a" "redoStack (renderBlocks a) = redoStack a"
  "redoStack (scheduleAutosave a) = redoStack a" "redoStack (map_doc f a) = redoStack a"
  "redoStack (map_blocks g a) = redoStack a" "redoStack (pushUndo a) = []"
  by (simp_all add: app_prims Let_def split: option.splits)

lemma prim_typing [simp]:
  "typingMarks (emit e a) = typingMarks a" "typingMarks (setAuthStatus m b a) = typingMarks a"
  "typingMarks (setSaveStatus t s a) = typingMarks a" "typingMarks (ws_send w a) = typingMarks a"
  "typingMarks (sendOp oper a) = typingMarks a" "typingMarks (renderBlocks a) = typingMarks a"
  "typingMarks (scheduleAutosave a) = typingMarks a" "typingMarks (pushUndo a) = typingMarks a"
  "typingMarks (map_doc f a) = typingMarks a" "typingMarks (map_blocks g a) = typingMarks a"
  by (simp_all add: app_prims Let_def split: option.splits)

lemma prim_docId [simp]:
  "docId (emit e a) = docId a" "docId (setAuthStatus m b a) = docId a"
  "docId (setSaveStatus t s a) = docId a" "docId (ws_send w a) = docId a"
  "docId (sendOp oper a) = docId a" "docId (renderBlocks a) = docId a"
  "docId (scheduleAutosave a) = docId a" "docId (pushUndo a) = docId a"
  "docId (map_doc f a) = docId a" "docId (map_blocks g a) = docId a"
  by (simp_all add: app_prims Let_def split: option.splits)

end
