(* ===== verification/Docs_Tables.thy ===== *)
theory Docs_Tables
  imports Docs_Model
begin

text \<open>
  Table blocks of the documents client (\<open>ui/docs/web/app.js\<close>, \<open>tableCellsFromBlock\<close> to
  \<open>deleteTableCol\<close>): the grid is kept twice, as \<open>table_cells\<close> and as tab-separated text
  in the block's spans, and peers only receive the text. The lemmas say when the text
  determines the grid and what each operation does to its shape.
\<close>

abbreviation TAB :: char where "TAB \<equiv> CHR 0x09"
abbreviation NL :: char where "NL \<equiv> CHR 0x0A"

definition tsv :: "string list list \<Rightarrow> string" where
  "tsv cells = str_join [NL] (map (str_join [TAB]) cells)"

definition tableCellsFromBlock :: "block \<Rightarrow> string list list" where
  "tableCellsFromBlock b =
     (case table_cells b of
        Some (r # rs) \<Rightarrow> r # rs
      | _ \<Rightarrow> map (split_char TAB) (filter (\<lambda>l. l \<noteq> []) (split_char NL (blockText b))))"

definition syncTableTsv :: "block \<Rightarrow> block" where
  "syncTableTsv b =
     (let cells = tableCellsFromBlock b
      in b\<lparr>table_cells := Some cells, inlines := [plain_span (tsv cells)]\<rparr>)"

definition refreshTableCellsFromInlines :: "block \<Rightarrow> block" where
  "refreshTableCellsFromInlines b =
     (if block_type b \<noteq> ''table'' then b
      else b\<lparr>table_cells := Some (rev (dropWhile (\<lambda>r. r = [[]])
               (rev (map (split_char TAB) (split_char NL (blockText b))))))\<rparr>)"

definition insertTableRow :: "block \<Rightarrow> block" where
  "insertTableRow b =
     (case tableCellsFromBlock b of [] \<Rightarrow> b
      | r # rs \<Rightarrow>
          (let cols = (if r = [] then 1 else length r)
           in syncTableTsv (b\<lparr>table_cells := Some ((r # rs) @ [replicate cols []])\<rparr>)))"

definition insertTableCol :: "block \<Rightarrow> block" where
  "insertTableCol b =
     syncTableTsv (b\<lparr>table_cells := Some (map (\<lambda>r. r @ [[]]) (tableCellsFromBlock b))\<rparr>)"

text \<open>\<open>None\<close> is the result \<open>false\<close>, with the block unchanged.\<close>

definition deleteTableRow :: "block \<Rightarrow> int option \<Rightarrow> block option" where
  "deleteTableRow b rowIdx =
     (let cells = tableCellsFromBlock b;
          r = (case rowIdx of None \<Rightarrow> int (length cells) - 1 | Some i \<Rightarrow> i)
      in if length cells \<le> 1 then None
         else if r < 0 \<or> r \<ge> int (length cells) then None
         else Some (syncTableTsv (b\<lparr>table_cells := Some (splice_del (nat r) cells)\<rparr>)))"

definition deleteTableCol :: "block \<Rightarrow> int option \<Rightarrow> block option" where
  "deleteTableCol b colIdx =
     (let cells = tableCellsFromBlock b
      in if cells = [] \<or> length (hd cells) \<le> 1 then None
         else (let c = (case colIdx of None \<Rightarrow> int (length (hd cells)) - 1 | Some i \<Rightarrow> i);
                   cut = (\<lambda>row. if 0 \<le> c \<and> c < int (length row) then splice_del (nat c) row else row)
               in Some (syncTableTsv (b\<lparr>table_cells := Some (map cut cells)\<rparr>))))"

text \<open>The messages of \<open>broadcastTableTextReplace\<close>, in the order they are sent.\<close>

definition broadcastTableTextReplace :: "string \<Rightarrow> string \<Rightarrow> string \<Rightarrow> op list" where
  "broadcastTableTextReplace blockId prevText nextText =
     (if prevText = nextText then []
      else (if prevText \<noteq> [] then [Delete_range blockId 0 (int (length prevText))] else [])
           @ (if nextText \<noteq> [] then [Insert_text blockId 0 nextText None] else []))"

text \<open>The new block and its grid of \<open>insertTableFromDialog\<close>: the values of the two number
  inputs are clamped, the first row holds the headings \<open>H1\<close>, \<open>H2\<close>, \<dots>\<close>

definition clamp_dim :: "int \<Rightarrow> string \<Rightarrow> nat" where
  "clamp_dim hi v =
     (let n = (case parse_int (if v = [] then ''3'' else v) of None \<Rightarrow> 3 | Some k \<Rightarrow> if k = 0 then 3 else k)
      in nat (min hi (max 1 n)))"

definition dialog_cells :: "nat \<Rightarrow> nat \<Rightarrow> string list list" where
  "dialog_cells rows cols =
     map (\<lambda>r. map (\<lambda>c. if r = 0 then ''H'' @ nat_str (c + 1) else []) [0..<cols]) [0..<rows]"

definition dialog_table_block :: "string \<Rightarrow> string \<Rightarrow> string \<Rightarrow> block" where
  "dialog_table_block newId rowsV colsV =
     (let cells = dialog_cells (clamp_dim 12 rowsV) (clamp_dim 8 colsV)
      in (new_block newId ''table'' [plain_span (tsv cells)])\<lparr>table_cells := Some cells\<rparr>)"

section \<open>When the text determines the grid\<close>

definition cell_ok :: "string \<Rightarrow> bool" where
  "cell_ok c \<longleftrightarrow> TAB \<notin> set c \<and> NL \<notin> set c"

definition grid_ok :: "string list list \<Rightarrow> bool" where
  "grid_ok cells \<longleftrightarrow>
     cells \<noteq> [] \<and> (\<forall>r\<in>set cells. r \<noteq> [] \<and> (\<forall>c\<in>set r. cell_ok c)) \<and> last cells \<noteq> [[]]"

definition rectangular :: "nat \<Rightarrow> string list list \<Rightarrow> bool" where
  "rectangular n cells \<longleftrightarrow> (\<forall>r\<in>set cells. length r = n)"

lemma set_str_join: "set (str_join sep ps) \<subseteq> set sep \<union> \<Union> (set ` set ps)"
  by (induction sep ps rule: str_join.induct) auto

lemma plain_span_text [simp]: "sp_text (plain_span t) = t"
  by (simp add: plain_span_def)

lemma tsv_lines:
  assumes "\<forall>r\<in>set cells. r \<noteq> [] \<and> (\<forall>c\<in>set r. cell_ok c)" "cells \<noteq> []"
  shows "split_char NL (tsv cells) = map (str_join [TAB]) cells"
    and "map (split_char TAB) (map (str_join [TAB]) cells) = cells"
proof -
  have "NL \<notin> set (str_join [TAB] r)" if "r \<in> set cells" for r
    using assms(1) that set_str_join [of "[TAB]" r] by (fastforce simp: cell_ok_def)
  then show "split_char NL (tsv cells) = map (str_join [TAB]) cells"
    unfolding tsv_def using assms(2) by (intro split_char_join) auto
  show "map (split_char TAB) (map (str_join [TAB]) cells) = cells"
    using assms(1) by (auto simp: map_idI split_char_join cell_ok_def)
qed

lemma refresh_tsv:
  assumes "grid_ok cells" "block_type b = ''table''" "blockText b = tsv cells"
  shows "table_cells (refreshTableCellsFromInlines b) = Some cells"
proof -
  have ok: "\<forall>r\<in>set cells. r \<noteq> [] \<and> (\<forall>c\<in>set r. cell_ok c)" and ne: "cells \<noteq> []"
    and l: "last cells \<noteq> [[]]" using assms(1) by (auto simp: grid_ok_def)
  have "map (split_char TAB) (split_char NL (blockText b)) = cells"
    using tsv_lines [OF ok ne] assms(3) by simp
  moreover have "dropWhile (\<lambda>r. r = [[]]) (rev cells) = rev cells"
    using ne l by (cases "rev cells") (auto simp: last_rev hd_rev)
  ultimately show ?thesis using assms(2) by (simp add: refreshTableCellsFromInlines_def)
qed

lemma sync_cells [simp]: "table_cells (syncTableTsv b) = Some (tableCellsFromBlock b)"
  by (simp add: syncTableTsv_def Let_def)

lemma sync_text [simp]: "blockText (syncTableTsv b) = tsv (tableCellsFromBlock b)"
  by (simp add: syncTableTsv_def Let_def blockText_def)

lemma cells_of_Some: "cs \<noteq> [] \<Longrightarrow> table_cells b = Some cs \<Longrightarrow> tableCellsFromBlock b = cs"
  by (cases cs) (simp_all add: tableCellsFromBlock_def)

lemma cells_upd [simp]:
  "cs \<noteq> [] \<Longrightarrow> tableCellsFromBlock (b\<lparr>table_cells := Some cs\<rparr>) = cs"
  by (rule cells_of_Some) simp_all

lemma cells_sync: "tableCellsFromBlock b \<noteq> [] \<Longrightarrow> tableCellsFromBlock (syncTableTsv b) = tableCellsFromBlock b"
  by (simp add: cells_of_Some)

lemma insertTableRow_cells:
  assumes "tableCellsFromBlock b = r # rs"
  shows "tableCellsFromBlock (insertTableRow b) = (r # rs) @ [replicate (if r = [] then 1 else length r) []]"
  using assms cells_sync [of "b\<lparr>table_cells := Some ((r # rs) @ [replicate (if r = [] then 1 else length r) []])\<rparr>"]
  by (simp add: insertTableRow_def Let_def)

lemma insertTableCol_cells:
  assumes "tableCellsFromBlock b \<noteq> []"
  shows "tableCellsFromBlock (insertTableCol b) = map (\<lambda>r. r @ [[]]) (tableCellsFromBlock b)"
  using assms cells_sync [of "b\<lparr>table_cells := Some (map (\<lambda>r. r @ [[]]) (tableCellsFromBlock b))\<rparr>"]
  by (simp add: insertTableCol_def)

lemma splice_del_ne: "1 < length xs \<Longrightarrow> splice_del i xs \<noteq> []"
  by (cases "i = 0") (auto simp: splice_del_def)

lemma deleteTableRow_cells:
  assumes "deleteTableRow b i = Some b'"
  shows "\<exists>k < length (tableCellsFromBlock b).
           tableCellsFromBlock b' = splice_del k (tableCellsFromBlock b) \<and>
           1 < length (tableCellsFromBlock b)"
proof -
  let ?cells = "tableCellsFromBlock b"
  let ?r = "case i of None \<Rightarrow> int (length ?cells) - 1 | Some k \<Rightarrow> k"
  have c: "1 < length ?cells" "0 \<le> ?r" "?r < int (length ?cells)"
    and b': "b' = syncTableTsv (b\<lparr>table_cells := Some (splice_del (nat ?r) ?cells)\<rparr>)"
    using assms by (auto simp: deleteTableRow_def Let_def split: if_splits)
  have "tableCellsFromBlock b' = splice_del (nat ?r) ?cells"
    using c(1) b' cells_sync [of "b\<lparr>table_cells := Some (splice_del (nat ?r) ?cells)\<rparr>"]
    by (simp add: splice_del_ne)
  moreover have "nat ?r < length ?cells" using c by linarith
  ultimately show ?thesis using c(1) by blast
qed

lemma set_splice_del_D: "x \<in> set (splice_del i xs) \<Longrightarrow> x \<in> set xs"
  by (rule subsetD [OF set_splice_del_subset])

lemma rectangular_ops:
  assumes "rectangular n (tableCellsFromBlock b)" "tableCellsFromBlock b \<noteq> []" "0 < n"
  shows "rectangular n (tableCellsFromBlock (insertTableRow b))"
    and "rectangular (Suc n) (tableCellsFromBlock (insertTableCol b))"
    and "deleteTableRow b i = Some b' \<Longrightarrow> rectangular n (tableCellsFromBlock b')"
proof -
  obtain r rs where c: "tableCellsFromBlock b = r # rs" using assms(2) by (cases "tableCellsFromBlock b") auto
  then have "length r = n" using assms(1) by (simp add: rectangular_def)
  then show "rectangular n (tableCellsFromBlock (insertTableRow b))"
    using assms(1,3) c by (simp only: insertTableRow_cells [OF c]) (auto simp: rectangular_def)
  show "rectangular (Suc n) (tableCellsFromBlock (insertTableCol b))"
    using assms(1,2) by (simp add: insertTableCol_cells rectangular_def)
  assume "deleteTableRow b i = Some b'"
  then obtain k where "tableCellsFromBlock b' = splice_del k (tableCellsFromBlock b)"
    using deleteTableRow_cells by blast
  then show "rectangular n (tableCellsFromBlock b')"
    using assms(1) set_splice_del_D [of _ k "tableCellsFromBlock b"] by (simp add: rectangular_def)
qed

lemma clamp_dim_bounds: "1 \<le> hi \<Longrightarrow> 1 \<le> clamp_dim hi v \<and> int (clamp_dim hi v) \<le> hi"
proof -
  assume hi: "1 \<le> hi"
  have "1 \<le> nat (min hi (max 1 n)) \<and> int (nat (min hi (max 1 n))) \<le> hi" for n :: int
    using hi by auto
  then show ?thesis unfolding clamp_dim_def Let_def by blast
qed

lemma dialog_rectangular: "rectangular cols (dialog_cells rows cols)"
  by (simp add: rectangular_def dialog_cells_def)

end
