(* ===== verification/Docs_Remote.thy ===== *)
theory Docs_Remote
  imports Docs_Tables
begin

text \<open>
  What a documents client does with messages from its peers (\<open>ui/docs/web/app.js\<close>,
  \<open>copyBlockShell\<close>, \<open>applyRemoteOp\<close>, \<open>onSyncMessage\<close>). The effect of an operation on
  the block list is \<open>remote_blocks\<close>; \<open>None\<close> is an early return without a repaint. The
  main invariant is that block ids stay distinct, and the frame lemmas say which blocks an
  operation can change.
\<close>

definition copyBlockShell :: "block \<Rightarrow> string \<Rightarrow> span list \<Rightarrow> block" where
  "copyBlockShell b newId spans =
     \<lparr> b_id = newId,
       block_type = (if block_type b = [] then ''paragraph'' else block_type b),
       heading_level = heading_level b,
       list_type = or_undefined (list_type b),
       align = Some (or_default (align b) ''left''),
       line_spacing = line_spacing b,
       indent_mm = indent_mm b,
       space_before_pt = space_before_pt b,
       space_after_pt = space_after_pt b,
       list_level = Some (or_zero (list_level b)),
       list_marker = list_marker b,
       list_restart = False,
       style_name = style_name b,
       lang = lang b,
       bookmark_name = None, image_url = None, image_object_id = None, box_width_pct = None,
       table_cells = None,
       inlines = coalesceInlines spans \<rparr>"

definition patch_of_op :: "marks_op \<Rightarrow> mark_patch" where
  "patch_of_op m =
     \<lparr> p_bold = mo_bold m, p_italic = mo_italic m, p_underline = mo_underline m,
       p_strike = mo_strike m, p_superscript = mo_superscript m, p_subscript = mo_subscript m,
       p_link_url = map_option (\<lambda>s. or_undefined (Some s)) (mo_link_url m),
       p_font_family = map_option (\<lambda>s. or_undefined (Some s)) (mo_font_family m),
       p_font_size_pt = map_option (\<lambda>n. num_or_undefined (Some n)) (mo_font_size_pt m),
       p_color = map_option (\<lambda>s. or_undefined (Some s)) (mo_color m),
       p_highlight = map_option (\<lambda>s. or_undefined (Some s)) (mo_highlight m) \<rparr>"

definition or_keep :: "'a option \<Rightarrow> 'a option \<Rightarrow> 'a option" where
  "or_keep new old = (case new of None \<Rightarrow> old | Some v \<Rightarrow> Some v)"

definition format_block :: "format_op \<Rightarrow> block \<Rightarrow> block" where
  "format_block f b =
     (let b1 = (if truthy_str (fo_align f) then b\<lparr>align := fo_align f\<rparr> else b);
          b2 = (if fo_clear_list f
                then b1\<lparr>list_type := None, list_marker := None, list_level := Some 0,
                        block_type := (if block_type b1 = ''list_item'' then ''paragraph'' else block_type b1)\<rparr>
                else (case fo_list_type f of None \<Rightarrow> b1
                      | Some t \<Rightarrow> b1\<lparr>list_type := or_undefined (Some t),
                          block_type := (if t \<noteq> [] then ''list_item'' else block_type b1)\<rparr>));
          b3 = b2\<lparr>indent_mm := or_keep (fo_indent_mm f) (indent_mm b2),
                  line_spacing := or_keep (fo_line_spacing f) (line_spacing b2),
                  list_level := or_keep (fo_list_level f) (list_level b2),
                  list_marker := or_keep (fo_list_marker f) (list_marker b2)\<rparr>
      in (case fo_style_name f of None \<Rightarrow> b3
          | Some s \<Rightarrow> b3\<lparr>style_name := or_undefined (Some s)\<rparr>))"

definition inline_patch :: "marks \<Rightarrow> string option \<Rightarrow> mark_patch" where
  "inline_patch m link =
     empty_patch\<lparr>p_bold := Some (bold m), p_italic := Some (italic m),
       p_underline := Some (underline m), p_strike := Some (strike m),
       p_superscript := Some (superscript m), p_subscript := Some (subscript m),
       p_link_url := map_option (\<lambda>s. or_undefined (Some s)) link\<rparr>"

definition split_blocks :: "string \<Rightarrow> int \<Rightarrow> string \<Rightarrow> block list \<Rightarrow> block list" where
  "split_blocks bid off newId bs =
     (case block_index bid bs of None \<Rightarrow> bs
      | Some idx \<Rightarrow>
          (let b = bs ! idx;
               parts = splitInlinesAt (inlines b) off;
               b' = b\<lparr>inlines := (if fst parts \<noteq> [] then fst parts
                                  else [spanFromMarks [] no_marks empty_patch])\<rparr>;
               neu = copyBlockShell b' newId (snd parts)
           in splice_ins (Suc idx) neu (bs[idx := b'])))"

definition merge_blocks_at :: "nat \<Rightarrow> block list \<Rightarrow> block list" where
  "merge_blocks_at idx bs =
     (let prevB = bs ! (idx - 1); cur = bs ! idx
      in splice_del idx (bs[idx - 1 := prevB\<lparr>inlines := coalesceInlines (inlines prevB @ inlines cur)\<rparr>]))"

definition insert_block_after :: "string option \<Rightarrow> block \<Rightarrow> block list \<Rightarrow> block list" where
  "insert_block_after after b bs =
     (case Option.bind after (\<lambda>i. block_index i bs) of
        Some idx \<Rightarrow> splice_ins (Suc idx) b bs
      | None \<Rightarrow> bs @ [b])"

definition on_block :: "string \<Rightarrow> (block \<Rightarrow> block) \<Rightarrow> block list \<Rightarrow> block list option" where
  "on_block bid f bs =
     (case find_block bid bs of None \<Rightarrow> None | Some _ \<Rightarrow> Some (upd_block bid f bs))"

fun remote_blocks :: "op \<Rightarrow> block list \<Rightarrow> block list option" where
  "remote_blocks (Insert_text bid off txt ms) bs =
     on_block bid (\<lambda>b. refreshTableCellsFromInlines
       (b\<lparr>inlines := insertTextPreserving (inlines b) off txt ms\<rparr>)) bs"
| "remote_blocks (Delete_range bid start stop) bs =
     on_block bid (\<lambda>b. refreshTableCellsFromInlines
       (b\<lparr>inlines := deleteRangePreserving (inlines b) start stop\<rparr>)) bs"
| "remote_blocks (Split_block bid off newId) bs =
     (if block_index bid bs = None \<or> newId \<in> b_id ` set bs then None
      else Some (split_blocks bid off newId bs))"
| "remote_blocks (Merge_blocks bid withPrev) bs =
     (if \<not> withPrev then None
      else (case block_index bid bs of
              Some (Suc i) \<Rightarrow> Some (merge_blocks_at (Suc i) bs)
            | _ \<Rightarrow> None))"
| "remote_blocks (Set_marks_range bid start stop m) bs =
     on_block bid (\<lambda>b. b\<lparr>inlines := applyMarksRangeLocal (inlines b) start stop (patch_of_op m)\<rparr>) bs"
| "remote_blocks (Set_block_type bid typ lvl lt lm) bs =
     on_block bid (\<lambda>b.
       (let b1 = b\<lparr>block_type := (if typ = [] then ''paragraph'' else typ), heading_level := lvl\<rparr>
        in if typ = ''list_item'' then b1\<lparr>list_type := Some (or_default lt ''bullet'')\<rparr> else b1)) bs"
| "remote_blocks (Insert_block after b) bs = Some (insert_block_after after b bs)"
| "remote_blocks (Set_block_format bid f) bs = on_block bid (format_block f) bs"
| "remote_blocks (Set_inline_marks bid m link) bs =
     on_block bid (\<lambda>b. b\<lparr>inlines := applyMarksRangeLocal (inlines b) 0 (int (length (blockText b)))
       (inline_patch m link)\<rparr>) bs"
| "remote_blocks (Add_comment c) bs = None"
| "remote_blocks (Resolve_comment i) bs = None"

definition add_remote_comment :: "comment \<Rightarrow> comment list \<Rightarrow> comment list" where
  "add_remote_comment c cs =
     (if c_id c \<in> c_id ` set cs then cs
      else cs @ [c\<lparr>c_resolved := False, c_start := None, c_end := None, c_quote := None\<rparr>])"

definition resolve_in :: "string \<Rightarrow> comment list \<Rightarrow> comment list" where
  "resolve_in i cs = upd_first (\<lambda>c. c_id c = i) (\<lambda>c. c\<lparr>c_resolved := True\<rparr>) cs"

definition applyRemoteOp :: "op \<Rightarrow> app \<Rightarrow> app" where
  "applyRemoteOp oper a =
     (case oper of
        Add_comment c \<Rightarrow>
          if c_id c = [] then a
          else emit RenderComments (map_doc (\<lambda>d. d\<lparr>comments := add_remote_comment c (comments d)\<rparr>) a)
      | Resolve_comment i \<Rightarrow>
          if i = [] then a
          else emit RenderComments (map_doc (\<lambda>d. d\<lparr>comments := resolve_in i (comments d)\<rparr>) a)
      | _ \<Rightarrow>
          (case remote_blocks oper (app_blocks a) of None \<Rightarrow> a
           | Some bs \<Rightarrow> renderBlocks (map_blocks (\<lambda>_. bs) a)))"

section \<open>Messages\<close>

text \<open>A message after \<open>JSON.parse\<close>: its sender where the code reads one.\<close>

datatype incoming =
    In_unparsable
  | In_ack
  | In_presence "string list"
  | In_caret string "caret_at option"
  | In_revision string string revision
  | In_op op

definition revision_update :: "string \<Rightarrow> revision \<Rightarrow> revision list \<Rightarrow> revision list" where
  "revision_update action r rs =
     (if action = ''add'' then (if r_id r \<in> r_id ` set rs then rs else rs @ [r])
      else if action = ''remove'' \<and> r_id r \<noteq> [] then filter (\<lambda>x. r_id x \<noteq> r_id r) rs
      else rs)"

definition onSyncMessage :: "incoming \<Rightarrow> app \<Rightarrow> app" where
  "onSyncMessage msg a =
     (case msg of
        In_unparsable \<Rightarrow> a
      | In_ack \<Rightarrow> a
      | In_presence peers \<Rightarrow> emit PaintPeers a
      | In_caret uid caret \<Rightarrow>
          (case caret of
             Some c \<Rightarrow> if uid \<noteq> [] \<and> uid \<noteq> userId a
                        then emit PaintPeers (a\<lparr>peerCursors := upsert uid c (peerCursors a)\<rparr>) else a
           | None \<Rightarrow> a)
      | In_revision from action r \<Rightarrow>
          if from \<noteq> [] \<and> from = userId a then a
          else renderBlocks (map_doc (\<lambda>d. d\<lparr>revisions := revision_update action r (revisions d)\<rparr>) a)
      | In_op oper \<Rightarrow> applyRemoteOp oper a)"

text \<open>A peer that receives a list of operations.\<close>

definition apply_ops :: "op list \<Rightarrow> app \<Rightarrow> app" where
  "apply_ops ops a = fold applyRemoteOp ops a"

definition step_blocks :: "op \<Rightarrow> block list \<Rightarrow> block list" where
  "step_blocks oper bs = (case remote_blocks oper bs of None \<Rightarrow> bs | Some bs' \<Rightarrow> bs')"

section \<open>Laws\<close>

lemma applyRemoteOp_blocks [simp]: "app_blocks (applyRemoteOp oper a) = step_blocks oper (app_blocks a)"
  by (cases oper) (auto simp: applyRemoteOp_def step_blocks_def split: option.splits)

lemma apply_ops_blocks: "app_blocks (apply_ops ops a) = fold step_blocks ops (app_blocks a)"
  by (induction ops arbitrary: a) (simp_all add: apply_ops_def)

lemma applyRemoteOp_outbox [simp]: "outbox (applyRemoteOp oper a) = outbox a"
  by (cases oper) (auto simp: applyRemoteOp_def split: option.splits)

lemma onSyncMessage_outbox: "outbox (onSyncMessage msg a) = outbox a"
  by (cases msg) (auto simp: onSyncMessage_def split: option.splits)

lemma refresh_id [simp]: "b_id (refreshTableCellsFromInlines b) = b_id b"
  by (simp add: refreshTableCellsFromInlines_def)

lemma refresh_inlines [simp]: "inlines (refreshTableCellsFromInlines b) = inlines b"
  by (simp add: refreshTableCellsFromInlines_def)

lemma refresh_not_table [simp]: "block_type b \<noteq> ''table'' \<Longrightarrow> refreshTableCellsFromInlines b = b"
  by (simp add: refreshTableCellsFromInlines_def)

lemma format_block_id [simp]: "b_id (format_block f b) = b_id b"
  by (simp add: format_block_def Let_def split: option.splits)

lemma format_block_inlines [simp]: "inlines (format_block f b) = inlines b"
  by (simp add: format_block_def Let_def split: option.splits)

lemma copyBlockShell_id [simp]: "b_id (copyBlockShell b i xs) = i"
  by (simp add: copyBlockShell_def)

lemma on_block_ids:
  "(\<And>b. b_id (f b) = b_id b) \<Longrightarrow> on_block i f bs = Some bs' \<Longrightarrow> map b_id bs' = map b_id bs"
  by (auto simp: on_block_def split: option.splits)

lemma block_index_Some:
  "block_index i bs = Some k \<Longrightarrow> k < length bs \<and> b_id (bs ! k) = i"
  using find_index_Some [of "\<lambda>b. b_id b = i" bs k] by (simp add: block_index_def)

lemma find_block_index:
  "find_block i bs = (case block_index i bs of None \<Rightarrow> None | Some k \<Rightarrow> Some (bs ! k))"
  by (simp add: find_block_def block_index_def find_find_index)

lemma upd_block_index:
  "upd_block i f bs = (case block_index i bs of None \<Rightarrow> bs | Some k \<Rightarrow> bs[k := f (bs ! k)])"
  by (simp add: upd_block_def block_index_def upd_first_find_index)

lemma ids_split_blocks:
  assumes "block_index bid bs = Some k"
  shows "map b_id (split_blocks bid off newId bs) = splice_ins (Suc k) newId (map b_id bs)"
  using assms block_index_Some [OF assms]
  by (simp add: split_blocks_def Let_def map_splice_ins map_list_update_same)

lemma ids_merge_blocks_at:
  "0 < k \<Longrightarrow> k < length bs \<Longrightarrow> map b_id (merge_blocks_at k bs) = splice_del k (map b_id bs)"
  by (simp add: merge_blocks_at_def Let_def map_splice_del map_list_update_same)

lemma ids_insert_block_after:
  "set (map b_id (insert_block_after af b bs)) = insert (b_id b) (set (map b_id bs))"
  "distinct (map b_id (insert_block_after af b bs)) \<longleftrightarrow>
     b_id b \<notin> b_id ` set bs \<and> distinct (map b_id bs)"
  by (auto simp: insert_block_after_def map_splice_ins split: option.splits)

text \<open>The block an operation is addressed to, for the operations that edit one block.\<close>

fun op_target :: "op \<Rightarrow> string option" where
  "op_target (Insert_text bid _ _ _) = Some bid"
| "op_target (Delete_range bid _ _) = Some bid"
| "op_target (Set_marks_range bid _ _ _) = Some bid"
| "op_target (Set_block_type bid _ _ _ _) = Some bid"
| "op_target (Set_block_format bid _) = Some bid"
| "op_target (Set_inline_marks bid _ _) = Some bid"
| "op_target _ = None"

lemma remote_on_target:
  assumes "op_target oper = Some bid"
  shows "\<exists>f. remote_blocks oper bs = on_block bid f bs \<and> (\<forall>b. b_id (f b) = b_id b)"
  using assms
proof (cases oper)
  case (Set_block_type bid' ty lvl lt lm)
  let ?f = "\<lambda>b. (let b1 = b\<lparr>block_type := (if ty = [] then ''paragraph'' else ty), heading_level := lvl\<rparr>
        in if ty = ''list_item'' then b1\<lparr>list_type := Some (or_default lt ''bullet'')\<rparr> else b1)"
  have "remote_blocks oper bs = on_block bid ?f bs" using assms Set_block_type by simp
  moreover have "\<forall>b. b_id (?f b) = b_id b" by (simp add: Let_def)
  ultimately show ?thesis by blast
qed auto

text \<open>Ids stay distinct under every remote operation except the insertion of a block whose
  id is taken, which the code does not check.\<close>

definition inserts_fresh :: "op \<Rightarrow> block list \<Rightarrow> bool" where
  "inserts_fresh oper bs \<longleftrightarrow>
     (case oper of Insert_block _ b \<Rightarrow> b_id b \<notin> b_id ` set bs | _ \<Rightarrow> True)"

lemma remote_blocks_distinct:
  assumes "distinct (map b_id bs)" "inserts_fresh oper bs" "remote_blocks oper bs = Some bs'"
  shows "distinct (map b_id bs')"
proof (cases oper)
  case (Split_block bid off newId)
  with assms(3) have n: "newId \<notin> b_id ` set bs" and bs': "bs' = split_blocks bid off newId bs"
    and "block_index bid bs \<noteq> None"
    by (auto split: if_splits)
  then obtain k where "block_index bid bs = Some k" by blast
  then show ?thesis using n bs' assms(1) by (simp add: ids_split_blocks)
next
  case (Merge_blocks bid w)
  with assms(3) obtain k where "block_index bid bs = Some (Suc k)" "bs' = merge_blocks_at (Suc k) bs"
    by (auto split: if_splits option.splits nat.splits)
  with assms(1) block_index_Some [of bid bs "Suc k"] show ?thesis
    by (simp add: ids_merge_blocks_at distinct_splice_del)
next
  case (Insert_block af b)
  with assms show ?thesis by (auto simp: ids_insert_block_after(2) inserts_fresh_def)
next
  case (Add_comment c)
  with assms show ?thesis by simp
next
  case (Resolve_comment i)
  with assms show ?thesis by simp
qed (use assms remote_on_target [of oper _ bs] on_block_ids [of _ _ bs bs'] in \<open>(simp; metis)\<close>)+

lemma step_on_block:
  "remote_blocks oper bs = on_block bid f bs \<Longrightarrow> step_blocks oper bs = upd_block bid f bs"
  by (auto simp: step_blocks_def on_block_def split: option.splits)

end
