(* ===== verification/Docs_Edit.thy ===== *)
theory Docs_Edit
  imports Docs_Remote
begin

text \<open>
  Typing in the documents client (\<open>ui/docs/web/app.js\<close>): the input handler with its
  debounced broadcast, the keys Enter, Shift+Enter and Backspace, the handlers of a table
  block, plain-text paste and symbol insertion, and the word counts. A handler takes what the
  browser supplies (selection offsets, new text, fresh ids) as arguments.
\<close>

section \<open>Counts\<close>

definition countWords :: "block list \<Rightarrow> nat" where
  "countWords bs =
     (let txt = str_join '' '' (map blockText bs)
      in if js_trim txt = [] then 0 else length (str_words (js_trim txt)))"

definition countChars :: "block list \<Rightarrow> nat" where
  "countChars bs = length (concat (map blockText bs))"

definition estimatePages :: "block list \<Rightarrow> nat" where
  "estimatePages bs = max 1 ((countWords bs + 249) div 250)"

section \<open>Input\<close>

definition ends_nl :: "string \<Rightarrow> bool" where
  "ends_nl s \<longleftrightarrow> s \<noteq> [] \<and> last s = NL"

text \<open>One trailing newline the browser added is stripped.\<close>

definition input_text :: "string \<Rightarrow> string \<Rightarrow> string" where
  "input_text prev raw = (if ends_nl raw \<and> \<not> ends_nl prev then butlast raw else raw)"

definition edit_inlines :: "string \<Rightarrow> (span list \<Rightarrow> span list) \<Rightarrow> app \<Rightarrow> app" where
  "edit_inlines bid f a = map_blocks (upd_block bid (\<lambda>b. b\<lparr>inlines := f (inlines b)\<rparr>)) a"

definition onBlockInput :: "string \<Rightarrow> string \<Rightarrow> string \<Rightarrow> app \<Rightarrow> app" where
  "onBlockInput blockId innerText revId a =
     (case find_block blockId (app_blocks a) of None \<Rightarrow> a
      | Some block \<Rightarrow>
         (let prev = blockText block; nxt = input_text prev innerText
          in if prev = nxt then a
             else (let a1 = pushUndo a;
                       rev = \<lparr> r_id = revId, r_block_id = blockId, r_kind = ''replace'',
                               r_before = prev, r_after = nxt, r_author_id = userId a \<rparr>;
                       a2 = (if track_changes (docState a1)
                             then ws_send (Revision_event ''add'' (userId a) rev)
                                    (map_doc (\<lambda>d. d\<lparr>revisions := revisions d @ [rev]\<rparr>) a1)
                             else a1);
                       d = diffText prev nxt;
                       a3 = edit_inlines blockId
                              (\<lambda>xs. apply_text_diff insertTextPreserving deleteRangePreserving xs d
                                 (typingMarks a2)) a2
                   in emit (WordCount (countWords (app_blocks a3)))
                        (a3\<lparr>sync_pending := Some (blockId, d)\<rparr>))))"

text \<open>The timer of \<open>onBlockInput\<close> fires: the last difference is sent, with the typing marks
  of that moment.\<close>

definition diff_ops :: "string \<Rightarrow> text_diff \<Rightarrow> marks option \<Rightarrow> op list" where
  "diff_ops bid d typing =
     (if d_deletedEnd d > d_start d
      then [Delete_range bid (int (d_start d)) (int (d_deletedEnd d))] else [])
     @ (if d_inserted d \<noteq> []
        then [Insert_text bid (int (d_start d)) (d_inserted d)
                (map_option (\<lambda>m. spanFromMarks [] m empty_patch) typing)] else [])"

definition send_all :: "op list \<Rightarrow> app \<Rightarrow> app" where
  "send_all ops a = fold sendOp ops a"

definition sync_fire :: "app \<Rightarrow> app" where
  "sync_fire a =
     (case sync_pending a of None \<Rightarrow> a
      | Some (bid, d) \<Rightarrow>
          scheduleAutosave (send_all (diff_ops bid d (typingMarks a)) (a\<lparr>sync_pending := None\<rparr>)))"

section \<open>Keys\<close>

datatype key = Enter | Shift_Enter | Backspace | Other_key

definition caret_or_end :: "(int \<times> int) option \<Rightarrow> block \<Rightarrow> int \<times> int" where
  "caret_or_end sel b =
     (case sel of Some p \<Rightarrow> p | None \<Rightarrow> (int (length (blockText b)), int (length (blockText b))))"

definition special_block :: "block \<Rightarrow> bool" where
  "special_block b \<longleftrightarrow> block_type b = ''image'' \<or> block_type b = ''table'' \<or> block_type b = ''page_break''"

definition exit_list :: "string \<Rightarrow> app \<Rightarrow> app" where
  "exit_list bid a =
     (let a1 = map_blocks (upd_block bid (\<lambda>b. b\<lparr>list_type := None, list_marker := None,
                 list_level := Some 0, block_type := ''paragraph''\<rparr>)) (pushUndo a);
          a2 = sendOp (Set_block_format bid (no_format_op\<lparr>fo_clear_list := True\<rparr>)) a1
      in scheduleAutosave (emit (SelectRange bid 0 0) (renderBlocks a2)))"

definition enter_split :: "string \<Rightarrow> int \<Rightarrow> string \<Rightarrow> app \<Rightarrow> app" where
  "enter_split bid caret newId a =
     (let a1 = map_blocks (split_blocks bid caret newId) (pushUndo a);
          a2 = sendOp (Split_block bid caret newId) a1
      in scheduleAutosave (emit (SelectRange newId 0 0) (renderBlocks a2)))"

definition soft_break :: "string \<Rightarrow> int \<times> int \<Rightarrow> app \<Rightarrow> app" where
  "soft_break bid offs a =
     (let (start, stop) = offs;
          a1 = pushUndo a;
          a2 = (if stop > start
                then sendOp (Delete_range bid start stop)
                       (edit_inlines bid (\<lambda>xs. deleteRangePreserving xs start stop) a1)
                else a1);
          a3 = edit_inlines bid (\<lambda>xs. insertTextPreserving xs start [NL] (typingMarks a2)) a2;
          a4 = sendOp (Insert_text bid start [NL]
                 (map_option (\<lambda>m. spanFromMarks [] m empty_patch) (typingMarks a3))) a3
      in scheduleAutosave (emit (SelectRange bid (start + 1) (start + 1)) (emit (PaintBlock bid) a4)))"

definition merge_back :: "string \<Rightarrow> nat \<Rightarrow> app \<Rightarrow> app" where
  "merge_back bid idx a =
     (let prevB = app_blocks a ! (idx - 1);
          mergeAt = int (length (blockText prevB));
          a1 = map_blocks (merge_blocks_at idx) (pushUndo a);
          a2 = sendOp (Merge_blocks bid True) a1
      in scheduleAutosave (emit (SelectRange (b_id prevB) mergeAt mergeAt) (renderBlocks a2)))"

definition onBlockKeydown :: "key \<Rightarrow> string \<Rightarrow> (int \<times> int) option \<Rightarrow> string \<Rightarrow> app \<Rightarrow> app" where
  "onBlockKeydown k bid sel newId a =
     (case find_block bid (app_blocks a) of None \<Rightarrow> a
      | Some block \<Rightarrow>
         if special_block block then a
         else (case k of
            Enter \<Rightarrow>
              if (truthy_str (list_type block) \<or> block_type block = ''list_item'')
                 \<and> js_trim (blockText block) = []
              then exit_list bid a
              else enter_split bid (fst (caret_or_end sel block)) newId a
          | Shift_Enter \<Rightarrow> soft_break bid (caret_or_end sel block) a
          | Backspace \<Rightarrow>
              (case sel of
                 Some (start, stop) \<Rightarrow>
                   if start \<noteq> stop \<or> start \<noteq> 0 then a
                   else (case block_index bid (app_blocks a) of
                           Some (Suc i) \<Rightarrow> merge_back bid (Suc i) a
                         | _ \<Rightarrow> a)
               | None \<Rightarrow> a)
          | Other_key \<Rightarrow> a))"

section \<open>Handlers of a table block\<close>

text \<open>The handlers \<open>renderBlocks\<close> installs on a table: a cell that loses focus, the four
  buttons. Each captured the block it was rendered for.\<close>

definition set_cell_at :: "nat \<Rightarrow> nat \<Rightarrow> string \<Rightarrow> string list list \<Rightarrow> string list list" where
  "set_cell_at r c v cells =
     (let row = cells ! r
      in cells[r := (if c < length row then row[c := v]
                     else row @ replicate (c - length row) [] @ [v])])"

definition table_changed :: "string \<Rightarrow> block \<Rightarrow> block \<Rightarrow> app \<Rightarrow> app" where
  "table_changed bid before after a =
     send_all (broadcastTableTextReplace bid (blockText before) (blockText after))
       (map_blocks (upd_block bid (\<lambda>_. after)) a)"

definition table_blur :: "string \<Rightarrow> nat \<Rightarrow> nat \<Rightarrow> string \<Rightarrow> app \<Rightarrow> app" where
  "table_blur bid r c nextVal a =
     (case find_block bid (app_blocks a) of None \<Rightarrow> a
      | Some block \<Rightarrow>
         (let cells = tableCellsFromBlock block
          in if r \<ge> length cells then a
             else if (if c < length (cells ! r) then cells ! r ! c else []) = nextVal then a
             else scheduleAutosave (table_changed bid block
                    (syncTableTsv (block\<lparr>table_cells := Some (set_cell_at r c nextVal cells)\<rparr>))
                    (pushUndo a))))"

definition table_button :: "string \<Rightarrow> (block \<Rightarrow> block option) \<Rightarrow> string \<Rightarrow> app \<Rightarrow> app" where
  "table_button bid f msg a =
     (case find_block bid (app_blocks a) of None \<Rightarrow> a
      | Some block \<Rightarrow>
         (case f block of
            None \<Rightarrow> setAuthStatus msg True (pushUndo a)
          | Some block' \<Rightarrow> scheduleAutosave (renderBlocks (table_changed bid block block' (pushUndo a)))))"

definition table_add_row :: "string \<Rightarrow> app \<Rightarrow> app" where
  "table_add_row bid a = table_button bid (\<lambda>b. Some (insertTableRow b)) [] a"

definition table_add_col :: "string \<Rightarrow> app \<Rightarrow> app" where
  "table_add_col bid a = table_button bid (\<lambda>b. Some (insertTableCol b)) [] a"

definition table_del_row :: "string \<Rightarrow> app \<Rightarrow> app" where
  "table_del_row bid a =
     table_button bid (\<lambda>b. deleteTableRow b None) ''Table needs at least one row'' a"

definition table_del_col :: "string \<Rightarrow> app \<Rightarrow> app" where
  "table_del_col bid a =
     table_button bid (\<lambda>b. deleteTableCol b None) ''Table needs at least one column'' a"

section \<open>Pasting and symbols\<close>

fun normalize_newlines :: "string \<Rightarrow> string" where
  "normalize_newlines [] = []"
| "normalize_newlines [c] = [if c = CHR 0x0D then NL else c]"
| "normalize_newlines (c # d # s) =
     (if c = CHR 0x0D \<and> d = NL then NL # normalize_newlines s
      else (if c = CHR 0x0D then NL else c) # normalize_newlines (d # s))"

fun paste_rest :: "string \<Rightarrow> (string \<times> string) list \<Rightarrow> app \<Rightarrow> app" where
  "paste_rest afterId [] a = a"
| "paste_rest afterId ((nid, part) # rest) a =
     (let nb = new_block nid ''paragraph'' [plain_span part];
          idx = (case block_index afterId (app_blocks a) of None \<Rightarrow> 0 | Some i \<Rightarrow> Suc i);
          a1 = map_blocks (splice_ins idx nb) a;
          a2 = sendOp (Insert_block (Some afterId) nb) a1
      in paste_rest nid rest a2)"

text \<open>\<open>newIds\<close> supplies a fresh id for every further paragraph.\<close>

definition pastePlainText :: "string option \<Rightarrow> (int \<times> int) option \<Rightarrow> string list \<Rightarrow> string option \<Rightarrow> app \<Rightarrow> app" where
  "pastePlainText cur sel newIds t a =
     (case (Option.bind cur (\<lambda>i. find_block i (app_blocks a)), t) of
        (Some block, Some raw) \<Rightarrow>
          (let parts = split_char NL (normalize_newlines raw);
               bid = b_id block;
               a1 = pushUndo a;
               (start, stop) = caret_or_end sel block;
               a2 = (if stop > start
                     then sendOp (Delete_range bid start stop)
                            (edit_inlines bid (\<lambda>xs. deleteRangePreserving xs start stop) a1)
                     else a1);
               a3 = (if hd parts \<noteq> []
                     then sendOp (Insert_text bid start (hd parts) None)
                            (edit_inlines bid (\<lambda>xs. insertTextPreserving xs start (hd parts)
                               (Some (case typingMarks a2 of Some m \<Rightarrow> m | None \<Rightarrow> blockMarks xs))) a2)
                     else a2);
               a4 = paste_rest bid (zip newIds (tl parts)) (emit (PaintBlock bid) a3);
               a5 = (if length parts > 1 then renderBlocks a4 else a4)
           in setAuthStatus ''Pasted plain text'' False (scheduleAutosave a5))
      | _ \<Rightarrow> a)"

definition insertSymbol :: "string option \<Rightarrow> string option \<Rightarrow> app \<Rightarrow> app" where
  "insertSymbol cur ch a =
     (case (Option.bind cur (\<lambda>i. find_block i (app_blocks a)), ch) of
        (Some block, Some glyph) \<Rightarrow>
          if glyph = [] then a
          else (let bid = b_id block;
                    at = int (length (blockText block));
                    a1 = pushUndo a;
                    a2 = edit_inlines bid (\<lambda>xs. insertTextPreserving xs at glyph
                           (Some (case typingMarks a1 of Some m \<Rightarrow> m | None \<Rightarrow> blockMarks xs))) a1;
                    a3 = sendOp (Insert_text bid at glyph None) (emit (PaintBlock bid) a2)
                in scheduleAutosave a3)
      | _ \<Rightarrow> a)"

end
