(* ===== verification/Docs_Replication.thy ===== *)
theory Docs_Replication
  imports Docs_Edit
begin

text \<open>
  Do peers see what the user sees? A handler \<open>replicates\<close> when a peer that held the same
  blocks and applies the messages the handler sent ends with the same blocks. The lemmas
  establish it for the typing handlers, and \<open>replicated_actions\<close> lifts it from single
  actions to whole sessions.
\<close>

definition deliver :: "wire \<Rightarrow> block list \<Rightarrow> block list" where
  "deliver w bs = (case w of Op oper \<Rightarrow> step_blocks oper bs | _ \<Rightarrow> bs)"

definition replicates :: "app \<Rightarrow> app \<Rightarrow> bool" where
  "replicates a a' \<longleftrightarrow>
     (\<exists>ws. outbox a' = outbox a @ ws \<and> fold deliver ws (app_blocks a) = app_blocks a')"

lemma deliver_simps [simp]:
  "deliver (Op oper) bs = step_blocks oper bs"
  "deliver (Revision_event x y r) bs = bs"
  by (simp_all add: deliver_def)

lemma replicatesI:
  "outbox a' = outbox a @ ws \<Longrightarrow> fold deliver ws (app_blocks a) = app_blocks a' \<Longrightarrow> replicates a a'"
  by (auto simp: replicates_def)

lemma replicates_same:
  "outbox a' = outbox a \<Longrightarrow> app_blocks a' = app_blocks a \<Longrightarrow> replicates a a'"
  by (rule replicatesI [of _ _ "[]"]) simp_all

lemma replicates_refl [simp]: "replicates a a"
  by (rule replicates_same) simp_all

lemma replicates_trans:
  assumes "replicates a b" "replicates b c"
  shows "replicates a c"
proof -
  obtain ws vs where "outbox b = outbox a @ ws" "fold deliver ws (app_blocks a) = app_blocks b"
    "outbox c = outbox b @ vs" "fold deliver vs (app_blocks b) = app_blocks c"
    using assms by (auto simp: replicates_def)
  then show ?thesis by (intro replicatesI [of _ _ "ws @ vs"]) simp_all
qed

lemma send_all_simps [simp]:
  "docState (send_all ops a) = docState a" "ws_open (send_all ops a) = ws_open a"
  "outbox (send_all ops a) = outbox a @ (if ws_open a then map Op ops else [])"
  by (induction ops arbitrary: a) (simp_all add: send_all_def)

lemma fold_deliver_ops: "fold deliver (map Op ops) bs = fold step_blocks ops bs"
  by (induction ops arbitrary: bs) simp_all

lemma edit_inlines_simps [simp]:
  "outbox (edit_inlines i f a) = outbox a" "ws_open (edit_inlines i f a) = ws_open a"
  "typingMarks (edit_inlines i f a) = typingMarks a"
  "blocks (docState (edit_inlines i f a)) = upd_block i (\<lambda>b. b\<lparr>inlines := f (inlines b)\<rparr>) (app_blocks a)"
  "track_changes (docState (edit_inlines i f a)) = track_changes (docState a)"
  by (simp_all add: edit_inlines_def)

section \<open>Operations as the peer applies them\<close>

lemma insert_typing_wire:
  "insertTextPreserving xs off t (map_option (\<lambda>m. spanFromMarks [] m empty_patch) ty)
   = insertTextPreserving xs off t ty"
proof (cases ty)
  case (Some m)
  have "withText (spanFromMarks [] m empty_patch) t = withText m t"
    by (simp add: withText_eq_norm norm_spanFromMarks)
  with Some show ?thesis by (simp add: insertTextPreserving_def insert_template_def)
qed simp

definition plain_block :: "string \<Rightarrow> block list \<Rightarrow> bool" where
  "plain_block bid bs \<longleftrightarrow> (\<forall>b. find_block bid bs = Some b \<longrightarrow> block_type b \<noteq> ''table'')"

lemma plain_block_code [code]:
  "plain_block bid bs = (case find_block bid bs of None \<Rightarrow> True | Some b \<Rightarrow> block_type b \<noteq> ''table'')"
  by (auto simp: plain_block_def split: option.splits)

lemma step_insert_plain:
  "plain_block bid bs \<Longrightarrow>
     step_blocks (Insert_text bid off t ms) bs
       = upd_block bid (\<lambda>b. b\<lparr>inlines := insertTextPreserving (inlines b) off t ms\<rparr>) bs"
  by (subst step_on_block [OF remote_blocks.simps(1)], rule upd_block_cong) (simp add: plain_block_def)

lemma step_delete_plain:
  "plain_block bid bs \<Longrightarrow>
     step_blocks (Delete_range bid s e) bs
       = upd_block bid (\<lambda>b. b\<lparr>inlines := deleteRangePreserving (inlines b) s e\<rparr>) bs"
  by (subst step_on_block [OF remote_blocks.simps(2)], rule upd_block_cong) (simp add: plain_block_def)

lemma plain_block_upd [simp]:
  "(\<And>b. b_id (g b) = b_id b) \<Longrightarrow> (\<And>b. block_type (g b) = block_type b) \<Longrightarrow>
     plain_block i (upd_block i g bs) = plain_block i bs"
  by (auto simp: plain_block_def find_block_upd)

lemma step_diff_ops:
  assumes "plain_block bid bs"
  shows "fold step_blocks (diff_ops bid d ty) bs =
    upd_block bid (\<lambda>b. b\<lparr>inlines :=
      apply_text_diff insertTextPreserving deleteRangePreserving (inlines b) d ty\<rparr>) bs"
proof -
  have id: "upd_block bid (\<lambda>b. b\<lparr>inlines := inlines b\<rparr>) bs = bs"
    by (simp add: upd_block_index list_update_id split: option.splits)
  show ?thesis using assms id
    by (simp add: diff_ops_def apply_text_diff_def Let_def step_delete_plain step_insert_plain
        insert_typing_wire upd_block_upd_block)
qed

lemma step_split:
  "newId \<notin> b_id ` set bs \<Longrightarrow> step_blocks (Split_block bid off newId) bs = split_blocks bid off newId bs"
  by (auto simp: step_blocks_def split_blocks_def split: option.splits)

lemma step_merge:
  "block_index bid bs = Some (Suc i) \<Longrightarrow> step_blocks (Merge_blocks bid True) bs = merge_blocks_at (Suc i) bs"
  by (simp add: step_blocks_def)

section \<open>The typing handlers replicate\<close>

lemma enter_split_replicates:
  "ws_open a \<Longrightarrow> newId \<notin> b_id ` set (app_blocks a) \<Longrightarrow> replicates a (enter_split bid caret newId a)"
  by (rule replicatesI [of _ _ "[Op (Split_block bid caret newId)]"])
    (simp_all add: enter_split_def Let_def step_split)

lemma merge_back_replicates:
  "ws_open a \<Longrightarrow> block_index bid (app_blocks a) = Some (Suc i) \<Longrightarrow> replicates a (merge_back bid (Suc i) a)"
  by (rule replicatesI [of _ _ "[Op (Merge_blocks bid True)]"])
    (simp_all add: merge_back_def Let_def step_merge)

lemma soft_break_replicates:
  assumes "ws_open a" "plain_block bid (app_blocks a)"
  shows "replicates a (soft_break bid offs a)"
proof -
  obtain s e where offs: "offs = (s, e)" by (cases offs)
  let ?ins = "Insert_text bid s [NL] (map_option (\<lambda>m. spanFromMarks [] m empty_patch) (typingMarks a))"
  show ?thesis
    by (rule replicatesI [of _ _ "map Op ((if e > s then [Delete_range bid s e] else []) @ [?ins])"])
      (use assms offs in \<open>simp_all add: soft_break_def Let_def step_delete_plain step_insert_plain
         insert_typing_wire\<close>)
qed

lemma exit_list_replicates:
  assumes "ws_open a" "find_block bid (app_blocks a) = Some b"
    "block_type b = ''list_item'' \<or> block_type b = ''paragraph''"
  shows "replicates a (exit_list bid a)"
proof (rule replicatesI)
  let ?f = "no_format_op\<lparr>fo_clear_list := True\<rparr>"
  show "outbox (exit_list bid a) = outbox a @ [Op (Set_block_format bid ?f)]"
    using assms(1) by (simp add: exit_list_def Let_def)
  have "format_block ?f b = b\<lparr>list_type := None, list_marker := None, list_level := Some 0, block_type := ''paragraph''\<rparr>"
    using assms(3) by (auto simp: format_block_def no_format_op_def Let_def or_keep_def truthy_str_def)
  then have "upd_block bid (format_block ?f) (app_blocks a) =
      upd_block bid (\<lambda>b. b\<lparr>list_type := None, list_marker := None, list_level := Some 0, block_type := ''paragraph''\<rparr>) (app_blocks a)"
    by (intro upd_block_cong) (simp add: assms(2))
  then show "fold deliver [Op (Set_block_format bid ?f)] (app_blocks a) = app_blocks (exit_list bid a)"
    by (simp add: exit_list_def Let_def step_on_block [OF remote_blocks.simps(8)])
qed

lemma special_not_table: "\<not> special_block b \<Longrightarrow> block_type b \<noteq> ''table''"
  by (simp add: special_block_def)

text \<open>A list entry is a list item or a paragraph with a list type; the code can also leave
  a list type on a heading.\<close>

definition list_shape_ok :: "string \<Rightarrow> block list \<Rightarrow> bool" where
  "list_shape_ok bid bs \<longleftrightarrow>
     (\<forall>b. find_block bid bs = Some b \<longrightarrow> truthy_str (list_type b) \<longrightarrow>
        block_type b = ''list_item'' \<or> block_type b = ''paragraph'')"

lemma list_shape_ok_code [code]:
  "list_shape_ok bid bs = (case find_block bid bs of None \<Rightarrow> True
     | Some b \<Rightarrow> truthy_str (list_type b) \<longrightarrow> block_type b = ''list_item'' \<or> block_type b = ''paragraph'')"
  by (auto simp: list_shape_ok_def split: option.splits)

lemma keydown_replicates:
  assumes "ws_open a" "newId \<notin> b_id ` set (app_blocks a)" "list_shape_ok bid (app_blocks a)"
  shows "replicates a (onBlockKeydown k bid sel newId a)"
proof (cases "find_block bid (app_blocks a)")
  case None
  then show ?thesis by (simp add: onBlockKeydown_def)
next
  case (Some b)
  show ?thesis
  proof (cases "special_block b")
    case True
    with Some show ?thesis by (simp add: onBlockKeydown_def)
  next
    case False
    then have pl: "plain_block bid (app_blocks a)" using Some special_not_table by (simp add: plain_block_def)
    have "(truthy_str (list_type b) \<or> block_type b = ''list_item'') \<Longrightarrow>
        block_type b = ''list_item'' \<or> block_type b = ''paragraph''"
      using assms(3) Some by (auto simp: list_shape_ok_def)
    with assms Some False pl show ?thesis
      by (auto simp: onBlockKeydown_def soft_break_replicates enter_split_replicates
          intro: exit_list_replicates merge_back_replicates split: key.split option.split nat.split)
  qed
qed

lemma onBlockInput_effect:
  fixes a bid tx rid b
  defines "a1 \<equiv> onBlockInput bid tx rid a"
    and "d \<equiv> diffText (blockText b) (input_text (blockText b) tx)"
  assumes b: "find_block bid (app_blocks a) = Some b" and ne: "input_text (blockText b) tx \<noteq> blockText b"
  shows "app_blocks a1 = upd_block bid (\<lambda>b. b\<lparr>inlines := apply_text_diff insertTextPreserving
      deleteRangePreserving (inlines b) d (typingMarks a)\<rparr>) (app_blocks a)"
    and "sync_pending a1 = Some (bid, d)" and "typingMarks a1 = typingMarks a"
    and "ws_open a1 = ws_open a"
    and "\<exists>ws. outbox a1 = outbox a @ ws \<and> fold deliver ws (app_blocks a) = app_blocks a"
proof -
  let ?rev = "\<lparr> r_id = rid, r_block_id = bid, r_kind = ''replace'', r_before = blockText b,
    r_after = input_text (blockText b) tx, r_author_id = userId a \<rparr>"
  have "outbox a1 = outbox a @ (if track_changes (docState a) \<and> ws_open a
      then [Revision_event ''add'' (userId a) ?rev] else [])"
    using b ne by (simp add: a1_def onBlockInput_def Let_def)
  moreover have "fold deliver (if track_changes (docState a) \<and> ws_open a
      then [Revision_event ''add'' (userId a) ?rev] else []) (app_blocks a) = app_blocks a"
    by simp
  ultimately show "\<exists>ws. outbox a1 = outbox a @ ws \<and> fold deliver ws (app_blocks a) = app_blocks a"
    by blast
qed (use b ne in \<open>simp_all add: a1_def d_def onBlockInput_def Let_def emit_def\<close>)

lemma input_then_sync_replicates:
  assumes "ws_open a" "plain_block bid (app_blocks a)"
    "find_block bid (app_blocks a) = Some b" "input_text (blockText b) tx \<noteq> blockText b"
  shows "replicates a (sync_fire (onBlockInput bid tx rid a))"
proof -
  let ?a1 = "onBlockInput bid tx rid a"
  let ?d = "diffText (blockText b) (input_text (blockText b) tx)"
  let ?ops = "diff_ops bid ?d (typingMarks a)"
  note e = onBlockInput_effect [OF assms(3,4), where rid = rid]
  obtain ws where ws: "outbox ?a1 = outbox a @ ws" "fold deliver ws (app_blocks a) = app_blocks a"
    using e(5) by blast
  have "outbox (sync_fire ?a1) = outbox a @ ws @ map Op ?ops"
    using ws e assms(1) by (simp add: sync_fire_def)
  moreover have "app_blocks (sync_fire ?a1) = app_blocks ?a1"
    using e(2) by (simp add: sync_fire_def)
  moreover have "fold deliver (ws @ map Op ?ops) (app_blocks a) = app_blocks ?a1"
    using ws(2) e(1) step_diff_ops [OF assms(2)] by (simp add: fold_deliver_ops)
  ultimately show ?thesis by (metis replicatesI)
qed

text \<open>After an input event the block's text is what the browser showed.\<close>

lemma input_text_shown:
  assumes "find_block bid (app_blocks a) = Some b" "input_text (blockText b) tx \<noteq> blockText b"
  shows "map_option blockText (find_block bid (app_blocks (onBlockInput bid tx rid a)))
     = Some (input_text (blockText b) tx)"
  using assms(1) docs_buffer.apply_diff_content [of "inlines b" "input_text (blockText b) tx"]
  by (simp add: onBlockInput_effect(1) [OF assms] find_block_upd blockText_def)

end
