(* ===== verification/Docs_Format.thy ===== *)
theory Docs_Format
  imports Docs_Edit
begin

text \<open>
  Formatting in the documents client (\<open>ui/docs/web/app.js\<close>, with the custom styles of
  \<open>era_plus.js\<close>): the selection targets, character marks, paragraph formats, lists, the
  format painter, block types and named styles. The browser's selection is the argument
  \<open>dom\<close>.
\<close>

section \<open>Selection\<close>

text \<open>
  \<open>d_cur\<close> is the block of the element \<open>selectedBlockEl()\<close> finds. \<open>d_sel\<close> is the DOM
  selection: the block and text offset of its anchor and of its focus, \<open>None\<close> for an end
  outside the blocks.
\<close>

record dom =
  d_cur :: "string option"
  d_sel :: "((string \<times> int) option \<times> (string \<times> int) option) option"

definition selectedBlock :: "dom \<Rightarrow> block list \<Rightarrow> block option" where
  "selectedBlock dm bs = Option.bind (d_cur dm) (\<lambda>i. find_block i bs)"

definition selectionOffsetsInBlock :: "dom \<Rightarrow> string \<Rightarrow> (int \<times> int) option" where
  "selectionOffsetsInBlock dm bid =
     (case d_sel dm of
        Some (Some (ai, ao), fo) \<Rightarrow>
          if ai \<noteq> bid then None
          else (let f = (case fo of Some (fi, fofs) \<Rightarrow> if fi = bid then fofs else ao | None \<Rightarrow> ao)
                in Some (min ao f, max ao f))
      | _ \<Rightarrow> None)"

definition selectionOrTypingRange :: "dom \<Rightarrow> string \<Rightarrow> (int \<times> int) option" where
  "selectionOrTypingRange dm bid =
     (case selectionOffsetsInBlock dm bid of
        Some (s, e) \<Rightarrow> if e > s then Some (s, e) else None
      | None \<Rightarrow> None)"

record target =
  t_id :: string
  t_start :: int
  t_end :: int
  t_collapsed :: bool

definition collapsed_target :: "string \<Rightarrow> target" where
  "collapsed_target i = \<lparr> t_id = i, t_start = 0, t_end = 0, t_collapsed = True \<rparr>"

text \<open>The blocks with an editable element, in document order.\<close>

definition editable_ids :: "block list \<Rightarrow> string list" where
  "editable_ids bs =
     map b_id (filter (\<lambda>b. block_type b \<noteq> ''page_break'' \<and> block_type b \<noteq> ''section_break'') bs)"

definition clamp_len :: "nat \<Rightarrow> int \<Rightarrow> int" where
  "clamp_len len x = max 0 (min (int len) x)"

definition multi_targets ::
  "block list \<Rightarrow> string list \<Rightarrow> nat \<Rightarrow> nat \<Rightarrow> int \<Rightarrow> int \<Rightarrow> target list" where
  "multi_targets bs els from til edgeStart edgeEnd =
     concat (map (\<lambda>i.
       (case find_block (els ! i) bs of None \<Rightarrow> []
        | Some b \<Rightarrow>
            (let len = length (blockText b);
                 s = (if i = from then clamp_len len edgeStart else 0);
                 e = (if i = til then clamp_len len edgeEnd else int len)
             in [\<lparr> t_id = b_id b, t_start = s, t_end = e, t_collapsed = (e \<le> s) \<rparr>])))
       [from..<Suc til])"

definition collectFormatTargets :: "dom \<Rightarrow> block list \<Rightarrow> target list" where
  "collectFormatTargets dm bs =
     (case d_sel dm of
        None \<Rightarrow> (case selectedBlock dm bs of None \<Rightarrow> [] | Some b \<Rightarrow> [collapsed_target (b_id b)])
      | Some (Some (ai, ao), Some (fi, fo)) \<Rightarrow>
          (let els = editable_ids bs
           in (case (find_index (\<lambda>i. i = ai) els, find_index (\<lambda>i. i = fi) els) of
                 (Some an, Some fn) \<Rightarrow>
                   if an = fn then
                     (case find_block ai bs of None \<Rightarrow> []
                      | Some b \<Rightarrow>
                          (case selectionOrTypingRange dm ai of
                             Some (s, e) \<Rightarrow> [\<lparr> t_id = ai, t_start = s, t_end = e, t_collapsed = False \<rparr>]
                           | None \<Rightarrow> [collapsed_target ai]))
                   else multi_targets bs els (min an fn) (max an fn)
                          (if an < fn then ao else fo) (if an < fn then fo else ao)
               | _ \<Rightarrow> []))
      | Some _ \<Rightarrow> (case selectedBlock dm bs of None \<Rightarrow> [] | Some b \<Rightarrow> [collapsed_target (b_id b)]))"

definition ranged_targets :: "target list \<Rightarrow> target list" where
  "ranged_targets ts = filter (\<lambda>t. \<not> t_collapsed t \<and> t_end t > t_start t) ts"

definition restoreMultiSelection :: "target list \<Rightarrow> app \<Rightarrow> app" where
  "restoreMultiSelection ts a =
     (case ts of [] \<Rightarrow> a
      | [t] \<Rightarrow> if \<not> t_collapsed t \<and> t_end t > t_start t
               then emit (SelectRange (t_id t) (t_start t) (t_end t)) a
               else emit (SelectRange (t_id t) (if t_end t \<noteq> 0 then t_end t else t_start t)
                      (if t_end t \<noteq> 0 then t_end t else t_start t)) a
      | t # _ \<Rightarrow> emit (SelectRange (t_id t) (t_start t) (t_end (last ts))) a)"

section \<open>Character marks\<close>

datatype mark = Bold | Italic | Underline | Strike | Superscript | Subscript

fun mark_on :: "mark \<Rightarrow> span \<Rightarrow> bool" where
  "mark_on Bold s = bold s" | "mark_on Italic s = italic s" | "mark_on Underline s = underline s"
| "mark_on Strike s = strike s" | "mark_on Superscript s = superscript s" | "mark_on Subscript s = subscript s"

fun mark_patch_of :: "mark \<Rightarrow> bool \<Rightarrow> mark_patch" where
  "mark_patch_of Bold v = empty_patch\<lparr>p_bold := Some v\<rparr>"
| "mark_patch_of Italic v = empty_patch\<lparr>p_italic := Some v\<rparr>"
| "mark_patch_of Underline v = empty_patch\<lparr>p_underline := Some v\<rparr>"
| "mark_patch_of Strike v = empty_patch\<lparr>p_strike := Some v\<rparr>"
| "mark_patch_of Superscript v = empty_patch\<lparr>p_superscript := Some v\<rparr>"
| "mark_patch_of Subscript v = empty_patch\<lparr>p_subscript := Some v\<rparr>"

fun mark_op_of :: "mark \<Rightarrow> bool \<Rightarrow> marks_op" where
  "mark_op_of Bold v = no_marks_op\<lparr>mo_bold := Some v\<rparr>"
| "mark_op_of Italic v = no_marks_op\<lparr>mo_italic := Some v\<rparr>"
| "mark_op_of Underline v = no_marks_op\<lparr>mo_underline := Some v\<rparr>"
| "mark_op_of Strike v = no_marks_op\<lparr>mo_strike := Some v\<rparr>"
| "mark_op_of Superscript v = no_marks_op\<lparr>mo_superscript := Some v\<rparr>"
| "mark_op_of Subscript v = no_marks_op\<lparr>mo_subscript := Some v\<rparr>"

fun mark_label :: "mark \<Rightarrow> string" where
  "mark_label Bold = ''bold''" | "mark_label Italic = ''italic''"
| "mark_label Underline = ''underline''" | "mark_label Strike = ''Strike''"
| "mark_label Superscript = ''superscript''" | "mark_label Subscript = ''subscript''"

fun all_on_loop :: "mark \<Rightarrow> int \<Rightarrow> int \<Rightarrow> nat \<Rightarrow> span list \<Rightarrow> bool" where
  "all_on_loop m start stop acc [] = True"
| "all_on_loop m start stop acc (s # xs) =
     (let a = acc; b = acc + length (sp_text s)
      in (if int b \<le> start \<or> int a \<ge> stop then True else mark_on m s) \<and> all_on_loop m start stop b xs)"

definition markAllOnInRange :: "span list \<Rightarrow> int \<Rightarrow> int \<Rightarrow> mark \<Rightarrow> bool" where
  "markAllOnInRange xs start stop m = all_on_loop m start stop 0 xs"

text \<open>The loop over the ranged targets that the mark commands share.\<close>

definition mark_target :: "mark_patch \<Rightarrow> marks_op \<Rightarrow> target \<Rightarrow> app \<Rightarrow> app" where
  "mark_target p mo t a =
     sendOp (Set_marks_range (t_id t) (t_start t) (t_end t) mo)
       (emit (PaintBlock (t_id t))
         (edit_inlines (t_id t) (\<lambda>xs. applyMarksRangeLocal xs (t_start t) (t_end t) p) a))"

definition mark_targets :: "mark_patch \<Rightarrow> marks_op \<Rightarrow> target list \<Rightarrow> app \<Rightarrow> app" where
  "mark_targets p mo ts a = fold (mark_target p mo) ts a"

definition target_inlines :: "target \<Rightarrow> block list \<Rightarrow> span list" where
  "target_inlines t bs = (case find_block (t_id t) bs of None \<Rightarrow> [] | Some b \<Rightarrow> inlines b)"

definition typing_base :: "app \<Rightarrow> span list \<Rightarrow> marks" where
  "typing_base a xs = (case typingMarks a of Some m \<Rightarrow> m | None \<Rightarrow> blockMarks xs)"

definition toggleMark :: "mark \<Rightarrow> dom \<Rightarrow> app \<Rightarrow> app" where
  "toggleMark m dm a =
     (let bs = app_blocks a; targets = collectFormatTargets dm bs
      in if targets = [] then setAuthStatus ''Select a paragraph first'' True a
         else (let ranged = ranged_targets targets
               in if ranged = [] then
                    (let base = typing_base a (target_inlines (hd targets) bs);
                         nextVal = (\<not> mark_on m base)
                     in setAuthStatus (mark_label m @ (if nextVal then '' on'' else '' off'') @ '' (typing)'')
                          False (a\<lparr>typingMarks := Some (assign_marks base (mark_patch_of m nextVal))\<rparr>))
                  else
                    (let allOn = (\<forall>t\<in>set ranged.
                           markAllOnInRange (target_inlines t bs) (t_start t) (t_end t) m);
                         nextVal = (\<not> allOn);
                         a1 = mark_targets (mark_patch_of m nextVal) (mark_op_of m nextVal) ranged (pushUndo a);
                         a2 = scheduleAutosave (restoreMultiSelection ranged a1)
                     in setAuthStatus (mark_label m @ (if nextVal then '' on'' else '' off'')) False a2)))"

definition setFontFamily :: "string \<Rightarrow> dom \<Rightarrow> app \<Rightarrow> app" where
  "setFontFamily fam dm a =
     (let bs = app_blocks a; targets = collectFormatTargets dm bs;
          patch = empty_patch\<lparr>p_font_family := Some (or_undefined (Some fam))\<rparr>
      in if targets = [] then a
         else (let ranged = ranged_targets targets
               in if ranged = [] then
                    setAuthStatus (''Font '' @ (if fam = [] then ''default'' else fam) @ '' (typing)'') False
                      (a\<lparr>typingMarks := Some (assign_marks
                         (typing_base a (target_inlines (hd targets) bs)) patch)\<rparr>)
                  else scheduleAutosave (restoreMultiSelection ranged
                         (mark_targets patch (no_marks_op\<lparr>mo_font_family := Some fam\<rparr>) ranged (pushUndo a)))))"

text \<open>\<open>n\<close> is \<open>pt ? parseInt(pt, 10) : 0\<close> for a size the select offers.\<close>

definition setFontSize :: "int \<Rightarrow> dom \<Rightarrow> app \<Rightarrow> app" where
  "setFontSize n dm a =
     (let bs = app_blocks a; targets = collectFormatTargets dm bs;
          patch = empty_patch\<lparr>p_font_size_pt := Some (num_or_undefined (Some n))\<rparr>
      in if targets = [] then a
         else (let ranged = ranged_targets targets
               in if ranged = [] then
                    a\<lparr>typingMarks := Some (assign_marks (typing_base a (target_inlines (hd targets) bs)) patch)\<rparr>
                  else scheduleAutosave (restoreMultiSelection ranged
                         (mark_targets patch (no_marks_op\<lparr>mo_font_size_pt := Some n\<rparr>) ranged (pushUndo a)))))"

text \<open>One range of one block, as \<open>setTextColor\<close>, \<open>setHighlightColor\<close> and \<open>setLink\<close> mark it:
  the selection is placed before the message is sent.\<close>

definition mark_block_range :: "mark_patch \<Rightarrow> marks_op \<Rightarrow> string \<Rightarrow> int \<times> int \<Rightarrow> app \<Rightarrow> app" where
  "mark_block_range p mo bid rng a =
     sendOp (Set_marks_range bid (fst rng) (snd rng) mo)
       (emit (SelectRange bid (fst rng) (snd rng)) (emit (PaintBlock bid)
         (edit_inlines bid (\<lambda>xs. applyMarksRangeLocal xs (fst rng) (snd rng) p) (pushUndo a))))"

definition range_or_all :: "dom \<Rightarrow> block \<Rightarrow> int \<times> int" where
  "range_or_all dm b =
     (case selectionOrTypingRange dm (b_id b) of Some r \<Rightarrow> r
      | None \<Rightarrow> (0, int (length (blockText b))))"

definition setTextColor :: "string \<Rightarrow> dom \<Rightarrow> app \<Rightarrow> app" where
  "setTextColor col dm a =
     (case selectedBlock dm (app_blocks a) of
        None \<Rightarrow> setAuthStatus ''Select a paragraph first'' True a
      | Some b \<Rightarrow>
          (let rng = range_or_all dm b;
               patch = empty_patch\<lparr>p_color := Some (or_undefined (Some col))\<rparr>
           in if fst rng = snd rng \<and> selectionOrTypingRange dm (b_id b) = None
              then setAuthStatus ''Text color (typing)'' False
                     (a\<lparr>typingMarks := Some (assign_marks (typing_base a (inlines b)) patch)\<rparr>)
              else setAuthStatus ''Text color applied'' False (scheduleAutosave
                     (mark_block_range patch (no_marks_op\<lparr>mo_color := Some col\<rparr>) (b_id b) rng a))))"

definition setHighlightColor :: "string \<Rightarrow> dom \<Rightarrow> app \<Rightarrow> app" where
  "setHighlightColor col dm a =
     (case selectedBlock dm (app_blocks a) of
        None \<Rightarrow> setAuthStatus ''Select a paragraph first'' True a
      | Some b \<Rightarrow> setAuthStatus ''Highlight applied'' False (scheduleAutosave
          (mark_block_range (empty_patch\<lparr>p_highlight := Some (or_undefined (Some col))\<rparr>)
             (no_marks_op\<lparr>mo_highlight := Some col\<rparr>) (b_id b) (range_or_all dm b) a)))"

text \<open>\<open>answer\<close> is what the prompt returns, \<open>None\<close> when it is cancelled.\<close>

definition setLink :: "string option \<Rightarrow> dom \<Rightarrow> app \<Rightarrow> app" where
  "setLink answer dm a =
     (case selectedBlock dm (app_blocks a) of
        None \<Rightarrow> setAuthStatus ''Select a paragraph first'' True a
      | Some b \<Rightarrow>
          (case answer of None \<Rightarrow> a
           | Some raw \<Rightarrow>
               (let url = js_trim raw
                in setAuthStatus (if url \<noteq> [] then ''Link set'' else ''Link removed'') False
                     (scheduleAutosave (mark_block_range
                        (empty_patch\<lparr>p_link_url := Some (or_undefined (Some url))\<rparr>)
                        (no_marks_op\<lparr>mo_link_url := Some url\<rparr>) (b_id b) (range_or_all dm b) a)))))"

definition clear_patch :: mark_patch where
  "clear_patch = \<lparr> p_bold = Some False, p_italic = Some False, p_underline = Some False,
     p_strike = Some False, p_superscript = Some False, p_subscript = Some False,
     p_link_url = Some None, p_font_family = Some None, p_font_size_pt = Some None,
     p_color = Some None, p_highlight = Some None \<rparr>"

definition clear_op :: marks_op where
  "clear_op = \<lparr> mo_bold = Some False, mo_italic = Some False, mo_underline = Some False,
     mo_strike = Some False, mo_superscript = Some False, mo_subscript = Some False,
     mo_link_url = Some [], mo_font_family = Some [], mo_font_size_pt = Some 0,
     mo_color = Some [], mo_highlight = Some [] \<rparr>"

definition clear_block_format :: "block \<Rightarrow> block" where
  "clear_block_format b = b\<lparr>align := Some ''left'', style_name := Some ''normal'',
     indent_mm := None, line_spacing := None, space_before_pt := None, space_after_pt := None,
     list_level := Some 0, list_marker := None, list_restart := False\<rparr>"

definition clear_format_op :: format_op where
  "clear_format_op = no_format_op\<lparr>fo_align := Some ''left'', fo_style_name := Some ''normal'',
     fo_indent_mm := Some 0, fo_line_spacing := Some ''1.15'', fo_space_before_pt := Some 0,
     fo_space_after_pt := Some 0, fo_clear_list := True\<rparr>"

definition clearFormatting :: "dom \<Rightarrow> app \<Rightarrow> app" where
  "clearFormatting dm a =
     (case selectedBlock dm (app_blocks a) of None \<Rightarrow> a
      | Some b \<Rightarrow>
          (let bid = b_id b;
               rng = range_or_all dm b;
               whole = (rng = (0, int (length (blockText b))));
               a1 = edit_inlines bid (\<lambda>xs. applyMarksRangeLocal xs (fst rng) (snd rng) clear_patch)
                      (pushUndo a);
               a2 = (if whole then sendOp (Set_block_format bid clear_format_op)
                               (map_blocks (upd_block bid clear_block_format) a1)
                     else a1);
               a3 = sendOp (Set_marks_range bid (fst rng) (snd rng) clear_op) (emit (PaintBlock bid) a2)
           in scheduleAutosave (emit (SelectRange bid (fst rng) (snd rng)) (a3\<lparr>typingMarks := None\<rparr>))))"

definition toggleScript :: "bool \<Rightarrow> dom \<Rightarrow> app \<Rightarrow> app" where
  "toggleScript super dm a =
     (case selectedBlock dm (app_blocks a) of None \<Rightarrow> a
      | Some b \<Rightarrow>
          (let marks = blockMarks (inlines b);
               on = (if super then \<not> superscript marks else \<not> subscript marks);
               sup = (super \<and> on); sb = (\<not> super \<and> on);
               a1 = edit_inlines (b_id b) (\<lambda>xs. [spanFromMarks (spans_text xs) marks
                      (empty_patch\<lparr>p_superscript := Some sup, p_subscript := Some sb\<rparr>)]) (pushUndo a);
               a2 = sendOp (Set_inline_marks (b_id b) (marks\<lparr>superscript := sup, subscript := sb\<rparr>) None)
                      (emit (PaintBlock (b_id b)) a1)
           in scheduleAutosave a2))"

section \<open>Paragraph formats\<close>

definition format_selected :: "string \<Rightarrow> (block \<Rightarrow> block) \<Rightarrow> format_op \<Rightarrow> app \<Rightarrow> app" where
  "format_selected bid f fo a =
     sendOp (Set_block_format bid fo) (emit (PaintBlock bid) (map_blocks (upd_block bid f) a))"

fun align_targets :: "string \<Rightarrow> string list \<Rightarrow> target list \<Rightarrow> app \<Rightarrow> app" where
  "align_targets al seen [] a = a"
| "align_targets al seen (t # ts) a =
     (if t_id t \<in> set seen then align_targets al seen ts a
      else align_targets al (t_id t # seen) ts
             (format_selected (t_id t) (\<lambda>b. b\<lparr>align := Some al\<rparr>) (no_format_op\<lparr>fo_align := Some al\<rparr>) a))"

definition setAlign :: "string \<Rightarrow> dom \<Rightarrow> app \<Rightarrow> app" where
  "setAlign al dm a =
     (let targets = collectFormatTargets dm (app_blocks a)
      in if targets = [] then a
         else setAuthStatus (''Align '' @ al) False (scheduleAutosave
                (restoreMultiSelection (filter (\<lambda>t. \<not> t_collapsed t) targets)
                  (align_targets al [] targets (pushUndo a)))))"

text \<open>\<open>mm\<close> is the rounded argument.\<close>

definition setIndentMm :: "int \<Rightarrow> dom \<Rightarrow> app \<Rightarrow> app" where
  "setIndentMm mm dm a =
     (case selectedBlock dm (app_blocks a) of None \<Rightarrow> a
      | Some b \<Rightarrow>
          (let nxt = max 0 (min 80 mm)
           in scheduleAutosave (format_selected (b_id b)
                (\<lambda>b. b\<lparr>indent_mm := num_or_undefined (Some nxt)\<rparr>)
                (no_format_op\<lparr>fo_indent_mm := Some nxt\<rparr>) (pushUndo a))))"

definition bumpIndent :: "int \<Rightarrow> dom \<Rightarrow> app \<Rightarrow> app" where
  "bumpIndent delta dm a =
     (case selectedBlock dm (app_blocks a) of None \<Rightarrow> a
      | Some b \<Rightarrow> setIndentMm (or_zero (indent_mm b) + delta) dm a)"

definition setLineSpacing :: "string \<Rightarrow> dom \<Rightarrow> app \<Rightarrow> app" where
  "setLineSpacing val dm a =
     (case selectedBlock dm (app_blocks a) of None \<Rightarrow> a
      | Some b \<Rightarrow>
          if val = [] then a
          else scheduleAutosave (format_selected (b_id b) (\<lambda>b. b\<lparr>line_spacing := Some val\<rparr>)
                 (no_format_op\<lparr>fo_line_spacing := Some val\<rparr>) (pushUndo a)))"

definition int_or_zero :: "string \<Rightarrow> int" where
  "int_or_zero s = (case parse_int s of None \<Rightarrow> 0 | Some n \<Rightarrow> n)"

definition setParaSpacing :: "string option \<Rightarrow> string option \<Rightarrow> dom \<Rightarrow> app \<Rightarrow> app" where
  "setParaSpacing before after dm a =
     (case (selectedBlock dm (app_blocks a), before, after) of
        (Some b, Some bef, Some aft) \<Rightarrow>
          (let x = int_or_zero bef; y = int_or_zero aft
           in scheduleAutosave (format_selected (b_id b)
                (\<lambda>b. b\<lparr>space_before_pt := Some x, space_after_pt := Some y\<rparr>)
                (no_format_op\<lparr>fo_space_before_pt := Some x, fo_space_after_pt := Some y\<rparr>) (pushUndo a)))
      | _ \<Rightarrow> a)"

definition restartListNumbering :: "dom \<Rightarrow> app \<Rightarrow> app" where
  "restartListNumbering dm a =
     (case selectedBlock dm (app_blocks a) of None \<Rightarrow> a
      | Some b \<Rightarrow> scheduleAutosave (setAuthStatus ''Numbering restart at this item (visible marker 1)'' False
          (format_selected (b_id b) (\<lambda>b. b\<lparr>list_restart := True\<rparr>)
             (no_format_op\<lparr>fo_list_restart := True\<rparr>) (pushUndo a))))"

definition setBlockLanguage :: "string option \<Rightarrow> dom \<Rightarrow> app \<Rightarrow> app" where
  "setBlockLanguage answer dm a =
     (case selectedBlock dm (app_blocks a) of
        None \<Rightarrow> setAuthStatus ''Select a paragraph first'' True a
      | Some b \<Rightarrow>
          (case answer of None \<Rightarrow> a
           | Some l \<Rightarrow>
               setAuthStatus (''Language: '' @ (if js_trim l = [] then ''default'' else js_trim l)) False
                 (scheduleAutosave (map_blocks (upd_block (b_id b)
                    (\<lambda>b. b\<lparr>lang := or_undefined (Some (js_trim l))\<rparr>)) (pushUndo a)))))"

section \<open>Block types and lists\<close>

definition setBlockType :: "string \<Rightarrow> int \<Rightarrow> dom \<Rightarrow> app \<Rightarrow> app" where
  "setBlockType blockType headingLevel dm a =
     (case selectedBlock dm (app_blocks a) of
        None \<Rightarrow> setAuthStatus ''Select a paragraph first'' True a
      | Some b \<Rightarrow>
          (let lt = (if blockType = ''list_item'' then Some ''bullet'' else None);
               a1 = sendOp (Set_block_type (b_id b) blockType headingLevel lt None) (pushUndo a);
               a2 = map_blocks (upd_block (b_id b) (\<lambda>b.
                      (let b1 = b\<lparr>block_type := blockType, heading_level := headingLevel\<rparr>
                       in if blockType = ''list_item'' then b1\<lparr>list_type := Some ''bullet''\<rparr> else b1))) a1
           in setAuthStatus (''Block type -> '' @ blockType
                @ (if headingLevel \<noteq> 0 then '' L'' @ int_str headingLevel else [])) False
                (scheduleAutosave (emit (PaintBlock (b_id b)) a2))))"

definition list_block :: "string \<Rightarrow> string option \<Rightarrow> block \<Rightarrow> block" where
  "list_block kind marker b =
     (let b1 = b\<lparr>block_type := ''list_item'', list_type := Some kind, heading_level := 0\<rparr>
      in if truthy_str marker then b1\<lparr>list_marker := marker\<rparr> else b1)"

fun list_targets ::
  "string \<Rightarrow> string option \<Rightarrow> bool \<Rightarrow> dom \<Rightarrow> string list \<Rightarrow> target list \<Rightarrow> app \<Rightarrow> app" where
  "list_targets kind marker single dm seen [] a = scheduleAutosave a"
| "list_targets kind marker single dm seen (t # ts) a =
     (if t_id t \<in> set seen then list_targets kind marker single dm seen ts a
      else (case find_block (t_id t) (app_blocks a) of
              None \<Rightarrow> list_targets kind marker single dm (t_id t # seen) ts a
            | Some b \<Rightarrow>
                if \<not> truthy_str marker \<and> block_type b = ''list_item'' \<and> list_type b = Some kind \<and> single
                then setBlockType ''paragraph'' 0 dm a
                else list_targets kind marker single dm (t_id t # seen) ts
                       (sendOp (Set_block_type (t_id t) ''list_item'' 0 (Some kind) (or_undefined marker))
                         (emit (PaintBlock (t_id t))
                           (map_blocks (upd_block (t_id t) (list_block kind marker)) a)))))"

definition setListType :: "string \<Rightarrow> string option \<Rightarrow> dom \<Rightarrow> app \<Rightarrow> app" where
  "setListType kind marker dm a =
     (let targets = collectFormatTargets dm (app_blocks a)
      in if targets = [] then setAuthStatus ''Select a paragraph first'' True a
         else list_targets kind marker (length targets = 1) dm [] targets (pushUndo a))"

definition bumpListLevel :: "int \<Rightarrow> dom \<Rightarrow> app \<Rightarrow> app" where
  "bumpListLevel delta dm a =
     (case selectedBlock dm (app_blocks a) of None \<Rightarrow> a
      | Some b \<Rightarrow>
          (let a1 = (if block_type b \<noteq> ''list_item'' then setListType ''bullet'' None dm a else a);
               nxt = max 0 (min 8 (or_zero (list_level b) + delta))
           in scheduleAutosave (format_selected (b_id b) (\<lambda>b. b\<lparr>list_level := Some nxt\<rparr>)
                (no_format_op\<lparr>fo_list_level := Some nxt\<rparr>) (pushUndo a1))))"

definition marker_name :: "string \<Rightarrow> string" where
  "marker_name m = str_join ''_'' (str_words (to_lower (js_trim m)))"

definition changeListMarker :: "string option \<Rightarrow> dom \<Rightarrow> app \<Rightarrow> app" where
  "changeListMarker answer dm a =
     (case (selectedBlock dm (app_blocks a), answer) of
        (Some b, Some m) \<Rightarrow>
          if m = [] then a
          else (let mk = marker_name m;
                    a1 = pushUndo a;
                    kind = (if str_includes ''decimal'' mk \<or> str_includes ''alpha'' mk \<or> str_includes ''roman'' mk
                            then ''ordered'' else ''bullet'');
                    a2 = (if block_type b \<noteq> ''list_item'' then setListType kind None dm a1 else a1)
                in scheduleAutosave (setAuthStatus (''List marker: '' @ mk) False
                     (format_selected (b_id b) (\<lambda>b. b\<lparr>list_marker := Some mk\<rparr>)
                        (no_format_op\<lparr>fo_list_marker := Some mk\<rparr>) a2)))
      | _ \<Rightarrow> a)"

section \<open>Format painter\<close>

definition armFormatPainter :: "dom \<Rightarrow> app \<Rightarrow> app" where
  "armFormatPainter dm a =
     (case selectedBlock dm (app_blocks a) of
        None \<Rightarrow> setAuthStatus ''Select a block to copy format'' True a
      | Some b \<Rightarrow>
          setAuthStatus ''Format Painter armed - click a block to apply'' False
            (a\<lparr>formatPainterClip := Some
               \<lparr> pc_align = align b, pc_indent_mm = indent_mm b, pc_line_spacing = line_spacing b,
                 pc_space_before_pt = space_before_pt b, pc_space_after_pt = space_after_pt b,
                 pc_style_name = style_name b, pc_list_type = list_type b,
                 pc_list_level = list_level b, pc_list_marker = list_marker b,
                 pc_marks = blockMarks (inlines b) \<rparr>\<rparr>))"

definition painter_patch :: "marks \<Rightarrow> mark_patch" where
  "painter_patch m =
     \<lparr> p_bold = Some (bold m), p_italic = Some (italic m), p_underline = Some (underline m),
       p_strike = Some (strike m), p_superscript = Some (superscript m), p_subscript = Some (subscript m),
       p_link_url = None,
       p_font_family = Some (or_undefined (font_family m)),
       p_font_size_pt = Some (num_or_undefined (font_size_pt m)),
       p_color = Some (or_undefined (color m)), p_highlight = Some (or_undefined (highlight m)) \<rparr>"

definition painter_op :: "marks \<Rightarrow> marks_op" where
  "painter_op m = no_marks_op\<lparr>mo_bold := Some (bold m), mo_italic := Some (italic m),
     mo_underline := Some (underline m), mo_strike := Some (strike m),
     mo_font_family := Some (or_empty (font_family m)),
     mo_font_size_pt := Some (or_zero (font_size_pt m)),
     mo_color := Some (or_empty (color m)), mo_highlight := Some (or_empty (highlight m))\<rparr>"

definition paint_format :: "painter_clip \<Rightarrow> block \<Rightarrow> block" where
  "paint_format c b = b\<lparr>align := pc_align c, indent_mm := pc_indent_mm c,
     line_spacing := pc_line_spacing c, space_before_pt := pc_space_before_pt c,
     space_after_pt := pc_space_after_pt c, style_name := pc_style_name c,
     list_type := pc_list_type c, list_level := pc_list_level c, list_marker := pc_list_marker c\<rparr>"

definition painter_format_op :: "painter_clip \<Rightarrow> format_op" where
  "painter_format_op c = no_format_op\<lparr>fo_align := pc_align c, fo_indent_mm := pc_indent_mm c,
     fo_line_spacing := pc_line_spacing c, fo_space_before_pt := pc_space_before_pt c,
     fo_space_after_pt := pc_space_after_pt c, fo_style_name := Some (or_empty (pc_style_name c)),
     fo_list_type := pc_list_type c, fo_list_level := pc_list_level c,
     fo_list_marker := pc_list_marker c\<rparr>"

definition applyFormatPainterTo :: "string option \<Rightarrow> app \<Rightarrow> app" where
  "applyFormatPainterTo cur a =
     (case (formatPainterClip a, Option.bind cur (\<lambda>i. find_block i (app_blocks a))) of
        (Some c, Some b) \<Rightarrow>
          (let bid = b_id b; m = pc_marks c; len = int (length (blockText b));
               a1 = map_blocks (upd_block bid (paint_format c)) (pushUndo a);
               a2 = edit_inlines bid (\<lambda>xs. applyMarksRangeLocal xs 0 len (painter_patch m)) a1;
               a3 = sendOp (Set_marks_range bid 0 len (painter_op m))
                      (sendOp (Set_block_format bid (painter_format_op c))
                        (a2\<lparr>formatPainterClip := None\<rparr>))
           in setAuthStatus ''Format applied'' False (scheduleAutosave (renderBlocks a3)))
      | _ \<Rightarrow> a)"

section \<open>Named styles\<close>

definition set_styles :: "(named_style list \<Rightarrow> named_style list) \<Rightarrow> app \<Rightarrow> app" where
  "set_styles f a = map_doc (\<lambda>d. d\<lparr>doc_styles := f (doc_styles d)\<rparr>) a"

definition same_name :: "string \<Rightarrow> named_style \<Rightarrow> bool" where
  "same_name n s \<longleftrightarrow> to_lower (st_name s) = to_lower n"

definition upsert_style :: "named_style \<Rightarrow> named_style list \<Rightarrow> named_style list" where
  "upsert_style s ss =
     (case find_index (same_name (st_name s)) ss of Some i \<Rightarrow> ss[i := s] | None \<Rightarrow> ss @ [s])"

text \<open>The arguments are the values of the dialog's inputs.\<close>

definition addOrUpdateStyle ::
  "string \<Rightarrow> string \<Rightarrow> string \<Rightarrow> bool \<Rightarrow> bool \<Rightarrow> app \<Rightarrow> app" where
  "addOrUpdateStyle nameV fontV sizeV boldV italicV a =
     (let name = js_trim nameV
      in if name = [] then setAuthStatus ''Style name required'' True a
         else (let s = \<lparr> st_name = name, st_font_family = or_undefined (Some (js_trim fontV)),
                         st_font_size_pt = (if int_or_zero sizeV = 0 then 12 else int_or_zero sizeV),
                         st_bold = boldV, st_italic = italicV \<rparr>
               in setAuthStatus (''Style saved: '' @ name) False
                    (scheduleAutosave (set_styles (upsert_style s) a))))"

definition deleteStyle :: "string \<Rightarrow> app \<Rightarrow> app" where
  "deleteStyle name a =
     setAuthStatus (''Style deleted: '' @ name) False
       (scheduleAutosave (set_styles (filter (\<lambda>x. st_name x \<noteq> name)) a))"

definition style_patch :: "named_style \<Rightarrow> mark_patch" where
  "style_patch s = empty_patch\<lparr>p_font_family := Some (st_font_family s),
     p_font_size_pt := Some (Some (st_font_size_pt s)), p_bold := Some (st_bold s),
     p_italic := Some (st_italic s)\<rparr>"

definition style_op :: "named_style \<Rightarrow> marks_op" where
  "style_op s = no_marks_op\<lparr>mo_font_family := Some (or_empty (st_font_family s)),
     mo_font_size_pt := Some (st_font_size_pt s), mo_bold := Some (st_bold s),
     mo_italic := Some (st_italic s)\<rparr>"

definition applyNamedStyle :: "string \<Rightarrow> dom \<Rightarrow> app \<Rightarrow> app" where
  "applyNamedStyle nameV dm a =
     (case find (same_name (js_trim nameV)) (doc_styles (docState a)) of
        None \<Rightarrow> setAuthStatus ''Select or add a style first'' True a
      | Some s \<Rightarrow>
          (case selectedBlock dm (app_blocks a) of
             None \<Rightarrow> setAuthStatus ''Select a paragraph first'' True a
           | Some b \<Rightarrow>
               (let bid = b_id b; rng = range_or_all dm b;
                    a1 = map_blocks (upd_block bid (\<lambda>b. b\<lparr>style_name := Some (st_name s)\<rparr>)) (pushUndo a);
                    a2 = edit_inlines bid
                           (\<lambda>xs. applyMarksRangeLocal xs (fst rng) (snd rng) (style_patch s)) a1;
                    a3 = sendOp (Set_marks_range bid (fst rng) (snd rng) (style_op s))
                           (sendOp (Set_block_format bid (no_format_op\<lparr>fo_style_name := Some (st_name s)\<rparr>))
                             (emit (PaintBlock bid) a2))
                in setAuthStatus (''Applied style '' @ st_name s) False (scheduleAutosave a3))))"

definition set_style_name :: "string \<Rightarrow> string \<Rightarrow> app \<Rightarrow> app" where
  "set_style_name bid st a = map_blocks (upd_block bid (\<lambda>b. b\<lparr>style_name := Some st\<rparr>)) a"

definition style_level :: "string \<Rightarrow> int option" where
  "style_level st = parse_int (str_replace st ''h'' [])"

definition applyStyle :: "string \<Rightarrow> dom \<Rightarrow> app \<Rightarrow> app" where
  "applyStyle st dm a =
     (if take 7 st = ''custom:'' then applyNamedStyle (drop 7 st) dm a
      else if st = ''p'' \<or> st = ''normal'' then
        (let a1 = setBlockType ''paragraph'' 0 dm a
         in (case selectedBlock dm (app_blocks a1) of None \<Rightarrow> a1
             | Some b \<Rightarrow> sendOp (Set_block_format (b_id b) (no_format_op\<lparr>fo_style_name := Some ''normal''\<rparr>))
                           (set_style_name (b_id b) ''normal'' a1)))
      else if st = ''quote'' \<or> st = ''caption'' then
        (let a1 = setBlockType ''paragraph'' 0 dm a
         in (case selectedBlock dm (app_blocks a1) of None \<Rightarrow> a1
             | Some b \<Rightarrow> scheduleAutosave
                 (sendOp (Set_block_format (b_id b) (no_format_op\<lparr>fo_style_name := Some st\<rparr>))
                   (set_style_name (b_id b) st (pushUndo a1)))))
      else if st = ''title'' then
        (let a1 = setBlockType ''heading'' 1 dm a
         in (case selectedBlock dm (app_blocks a1) of None \<Rightarrow> a1
             | Some b \<Rightarrow> emit (PaintBlock (b_id b)) (set_style_name (b_id b) ''title'' a1)))
      else (case style_level st of
              Some l \<Rightarrow> if 1 \<le> l \<and> l \<le> 6 then setBlockType ''heading'' l dm a else a
            | None \<Rightarrow> a))"

end
