(* ===== verification/Docs_Blocks.thy ===== *)
theory Docs_Blocks
  imports Docs_Format
begin

text \<open>
  Whole-block commands of the documents client (\<open>ui/docs/web/app.js\<close>, \<open>later.js\<close>,
  \<open>era_plus.js\<close>): inserting blocks of every kind, the table of contents, footnotes,
  searching and replacing, comments, page setup and header/footer.
\<close>

section \<open>Inserting blocks\<close>

definition insertBlockAfter :: "block \<Rightarrow> dom \<Rightarrow> app \<Rightarrow> app" where
  "insertBlockAfter block dm a =
     (let a1 = pushUndo a;
          after = selectedBlock dm (app_blocks a1);
          pos = (case after of None \<Rightarrow> length (app_blocks a1)
                 | Some b \<Rightarrow> (case block_index (b_id b) (app_blocks a1) of None \<Rightarrow> 0 | Some i \<Rightarrow> Suc i));
          a2 = map_blocks (splice_ins pos block) a1;
          a3 = sendOp (Insert_block (map_option b_id after) block) a2
      in scheduleAutosave (renderBlocks a3))"

definition insertHorizontalLine :: "string \<Rightarrow> dom \<Rightarrow> app \<Rightarrow> app" where
  "insertHorizontalLine newId dm a =
     insertBlockAfter ((new_block newId ''paragraph'' [plain_span []])\<lparr>style_name := Some ''horizontal_line''\<rparr>) dm a"

text \<open>Without a selected block the page break is appended and no message is sent.\<close>

definition insertPageBreak :: "string \<Rightarrow> dom \<Rightarrow> app \<Rightarrow> app" where
  "insertPageBreak newId dm a =
     (let a1 = pushUndo a; block = new_block newId ''page_break'' []
      in (case selectedBlock dm (app_blocks a1) of
            Some b \<Rightarrow>
              (let pos = (case block_index (b_id b) (app_blocks a1) of None \<Rightarrow> 0 | Some i \<Rightarrow> Suc i)
               in scheduleAutosave (renderBlocks
                    (sendOp (Insert_block (Some (b_id b)) block) (map_blocks (splice_ins pos block) a1))))
          | None \<Rightarrow> scheduleAutosave (renderBlocks (map_blocks (\<lambda>bs. bs @ [block]) a1))))"

definition insertTableFromDialog :: "string \<Rightarrow> string \<Rightarrow> string \<Rightarrow> dom \<Rightarrow> app \<Rightarrow> app" where
  "insertTableFromDialog newId rowsV colsV dm a =
     setAuthStatus (''Table '' @ nat_str (clamp_dim 12 rowsV) @ ''x'' @ nat_str (clamp_dim 8 colsV) @ '' inserted'') False
       (insertBlockAfter (dialog_table_block newId rowsV colsV) dm a)"

text \<open>The source of the image was chosen before: \<open>imageUrl\<close>, \<open>alt\<close>, \<open>objectId\<close>.\<close>

definition insertImageBlock :: "string \<Rightarrow> string \<Rightarrow> string \<Rightarrow> string \<Rightarrow> dom \<Rightarrow> app \<Rightarrow> app" where
  "insertImageBlock newId imageUrl alt objectId dm a =
     setAuthStatus ''Image inserted'' False
       (insertBlockAfter ((new_block newId ''image'' [plain_span alt])
          \<lparr>image_url := Some imageUrl, image_object_id := or_undefined (Some objectId)\<rparr>) dm a)"

definition insertBookmarkBlock :: "string \<Rightarrow> string option \<Rightarrow> dom \<Rightarrow> app \<Rightarrow> app" where
  "insertBookmarkBlock newId answer dm a =
     (case answer of None \<Rightarrow> a
      | Some n \<Rightarrow>
          if js_trim n = [] then a
          else setAuthStatus ''Bookmark inserted - use Go to bookmark / TOC'' False
                 (insertBlockAfter ((new_block newId ''bookmark'' [plain_span (''Bookmark: '' @ js_trim n)])
                    \<lparr>bookmark_name := Some (js_trim n)\<rparr>) dm a))"

definition insertSectionBreak :: "string \<Rightarrow> dom \<Rightarrow> app \<Rightarrow> app" where
  "insertSectionBreak newId dm a =
     setAuthStatus ''Section break inserted'' False (insertBlockAfter (new_block newId ''section_break'' []) dm a)"

text \<open>The answer \<open>text | 60%\<close> of \<open>insertTextBox\<close>: the text before the last bar, and the
  width when what follows the bar is two or three digits and an optional percent sign.\<close>

definition width_suffix :: "string \<Rightarrow> int option" where
  "width_suffix s =
     (let t = dropWhile is_space s;
          ds = takeWhile is_digit t;
          u = dropWhile is_space (drop (length ds) t);
          v = (if u \<noteq> [] \<and> hd u = CHR ''%'' then tl u else u)
      in if 2 \<le> length ds \<and> length ds \<le> 3 \<and> dropWhile is_space v = [] then Some (int (digits_val ds)) else None)"

definition box_match :: "string \<Rightarrow> (string \<times> int) option" where
  "box_match s =
     (let parts = split_char CHR ''|'' s;
          pre = str_join ''|'' (butlast parts);
          body = rev (dropWhile is_space (rev pre))
      in if length parts < 2 \<or> NL \<in> set body \<or> CHR 0x0D \<in> set body then None
         else map_option (\<lambda>w. (body, w)) (width_suffix (last parts)))"

definition textbox_content :: "string \<Rightarrow> string \<times> int" where
  "textbox_content raw =
     (let txt = (if js_trim raw = [] then ''Text box'' else js_trim raw)
      in (case box_match txt of None \<Rightarrow> (txt, 100)
          | Some (body, w) \<Rightarrow>
              ((if js_trim body = [] then ''Text box'' else js_trim body),
               min 100 (max 40 (if w = 0 then 100 else w)))))"

definition insertTextBox :: "string \<Rightarrow> string option \<Rightarrow> dom \<Rightarrow> app \<Rightarrow> app" where
  "insertTextBox newId answer dm a =
     (case answer of None \<Rightarrow> a
      | Some raw \<Rightarrow>
          (let (txt, w) = textbox_content raw
           in setAuthStatus (''Text box inserted ('' @ int_str w @ ''% width)'') False
                (insertBlockAfter ((new_block newId ''text_box'' [plain_span txt])
                   \<lparr>align := Some ''left'', box_width_pct := Some w\<rparr>) dm a)))"

section \<open>Table of contents\<close>

definition heading_style :: "string \<Rightarrow> bool" where
  "heading_style s \<longleftrightarrow>
     (case s of [h, d] \<Rightarrow> lower_char h = CHR ''h'' \<and> is_digit d \<and> 1 \<le> digit_val d \<and> digit_val d \<le> 6
      | _ \<Rightarrow> False)"

definition collectHeadingBlocks :: "block list \<Rightarrow> block list" where
  "collectHeadingBlocks bs =
     filter (\<lambda>b. block_type b = ''heading'' \<or> heading_level b > 0 \<or>
                 (truthy_str (style_name b) \<and> heading_style (or_empty (style_name b)))) bs"

definition tocTextFromHeadings :: "block list \<Rightarrow> string" where
  "tocTextFromHeadings hs =
     (if hs = [] then ''(No headings yet - add Heading 1-3 then refresh TOC)''
      else str_join [NL] (map (\<lambda>(i, b). nat_str (i + 1) @ ''. '' @ blockText b @ [TAB] @ ''#'' @ b_id b)
             (zip [0..<length hs] hs)))"

definition toc_spans :: "block list \<Rightarrow> span list" where
  "toc_spans bs = [plain_span (''Contents'' @ [NL] @ tocTextFromHeadings (collectHeadingBlocks bs))]"

definition refreshTocBlock :: "string \<Rightarrow> app \<Rightarrow> app" where
  "refreshTocBlock bid a =
     (let a1 = pushUndo a;
          a2 = edit_inlines bid (\<lambda>_. toc_spans (app_blocks a1)) a1
      in setAuthStatus ''TOC refreshed'' False (scheduleAutosave (renderBlocks a2)))"

definition insertTocBlock :: "string \<Rightarrow> dom \<Rightarrow> app \<Rightarrow> app" where
  "insertTocBlock newId dm a =
     setAuthStatus ''Table of contents inserted'' False
       (insertBlockAfter (new_block newId ''toc'' (toc_spans (app_blocks a))) dm a)"

text \<open>\<open>renderTocLinks\<close>: a line with exactly one separator is a link to the block after it.\<close>

definition toc_link :: "string \<Rightarrow> (string \<times> string) option" where
  "toc_link line = (case str_split (TAB # ''#'') line of [label, target] \<Rightarrow> Some (label, target) | _ \<Rightarrow> None)"

definition bookmark_key :: "block \<Rightarrow> string" where
  "bookmark_key b = or_default (bookmark_name b) (b_id b)"

definition goToBookmark :: "string option \<Rightarrow> app \<Rightarrow> app" where
  "goToBookmark answer a =
     (let bms = filter (\<lambda>b. block_type b = ''bookmark'') (app_blocks a)
      in if bms = [] then setAuthStatus ''No bookmarks in document'' True a
         else (case answer of None \<Rightarrow> a
               | Some name \<Rightarrow>
                   if js_trim name = [] then a
                   else (case find (\<lambda>b. bookmark_key b = js_trim name) bms of
                           None \<Rightarrow> setAuthStatus ''Bookmark not found'' True a
                         | Some b \<Rightarrow> setAuthStatus (''Jumped to bookmark '' @ js_trim name) False
                             (emit (Highlight (b_id b)) a))))"

section \<open>Footnotes\<close>

fun renumber_from :: "nat \<Rightarrow> block list \<Rightarrow> block list" where
  "renumber_from n [] = []"
| "renumber_from n (b # bs) =
     (if block_type b = ''footnote''
      then b\<lparr>bookmark_name := Some (''fn'' @ nat_str (Suc n))\<rparr> # renumber_from (Suc n) bs
      else b # renumber_from n bs)"

definition renumberFootnotes :: "block list \<Rightarrow> block list" where
  "renumberFootnotes bs = renumber_from 0 bs"

definition footnotes :: "block list \<Rightarrow> block list" where
  "footnotes bs = filter (\<lambda>b. block_type b = ''footnote'') bs"

definition insertFootnote :: "string \<Rightarrow> string option \<Rightarrow> dom \<Rightarrow> app \<Rightarrow> app" where
  "insertFootnote newId answer dm a =
     (case answer of None \<Rightarrow> a
      | Some note \<Rightarrow>
          if js_trim note = [] then a
          else
            (let a1 = map_blocks renumberFootnotes a;
                 mk = ''fn'' @ nat_str (length (footnotes (app_blocks a1)) + 1);
                 a2 = (case selectedBlock dm (app_blocks a1) of None \<Rightarrow> a1
                       | Some b \<Rightarrow>
                           if block_type b = ''footnote'' \<or> block_type b = ''section_break'' then a1
                           else
                             (let at = snd (caret_or_end (selectionOffsetsInBlock dm (b_id b)) b);
                                  marker = ''['' @ mk @ '']'';
                                  b1 = edit_inlines (b_id b) (\<lambda>xs. insertTextPreserving xs at marker
                                         (Some (blockMarks xs))) (pushUndo a1)
                              in emit (SelectRange (b_id b) at (at + int (length marker)))
                                   (sendOp (Insert_text (b_id b) at marker None) (emit (PaintBlock (b_id b)) b1))))
             in setAuthStatus (''Footnote '' @ mk @ '' inserted - click marker or note to jump'') False
                  (insertBlockAfter ((new_block newId ''footnote'' [plain_span (js_trim note)])
                     \<lparr>bookmark_name := Some mk\<rparr>) dm a2)))"

section \<open>Find and replace\<close>

definition collectFindMatches :: "string \<Rightarrow> block list \<Rightarrow> string list" where
  "collectFindMatches query bs =
     (if query = [] then []
      else map b_id (filter (\<lambda>b. str_includes (to_lower query) (to_lower (blockText b))) bs))"

definition findNext :: "string \<Rightarrow> app \<Rightarrow> app" where
  "findNext input a =
     (let query = js_trim input
      in if query = [] then a\<lparr>findMatches := [], findCursor := -1, lastFindQuery := []\<rparr>
         else
           (let a1 = (if query \<noteq> lastFindQuery a
                      then a\<lparr>findMatches := collectFindMatches query (app_blocks a), findCursor := -1,
                             lastFindQuery := query\<rparr>
                      else a)
            in if findMatches a1 = [] then setAuthStatus (''No matches for '' @ query) True a1
               else
                 (let cur = (findCursor a1 + 1) mod int (length (findMatches a1));
                      bid = findMatches a1 ! nat cur;
                      a2 = a1\<lparr>findCursor := cur\<rparr>
                  in if bid \<in> b_id ` set (app_blocks a2)
                     then setAuthStatus (''Match '' @ int_str (cur + 1) @ '' of ''
                            @ nat_str (length (findMatches a2))) False (emit (Highlight bid) a2)
                     else a2)))"

definition flatten_to :: "string \<Rightarrow> block \<Rightarrow> block" where
  "flatten_to t b = b\<lparr>inlines := [spanFromMarks t (blockMarks (inlines b)) empty_patch]\<rparr>"

fun replace_all :: "string \<Rightarrow> string \<Rightarrow> block list \<Rightarrow> block list \<times> nat" where
  "replace_all fnd repl [] = ([], 0)"
| "replace_all fnd repl (b # bs) =
     (let (bs', n) = replace_all fnd repl bs; pieces = str_split fnd (blockText b)
      in if inlines b = [] \<or> \<not> str_includes fnd (blockText b) then (b # bs', n)
         else (flatten_to (str_join repl pieces) b # bs', n + (length pieces - 1)))"

fun replace_one :: "string \<Rightarrow> string \<Rightarrow> block list \<Rightarrow> block list \<times> nat" where
  "replace_one fnd repl [] = ([], 0)"
| "replace_one fnd repl (b # bs) =
     (if inlines b = [] \<or> \<not> str_includes fnd (blockText b)
      then (let (bs', n) = replace_one fnd repl bs in (b # bs', n))
      else (flatten_to (str_replace (blockText b) fnd repl) b # bs, 1))"

definition doFindReplace :: "bool \<Rightarrow> string \<Rightarrow> string \<Rightarrow> app \<Rightarrow> app" where
  "doFindReplace all_mode findV withV a =
     (let fnd = js_trim findV
      in if fnd = [] then a
         else (let a1 = pushUndo a;
                   (bs, n) = (if all_mode then replace_all fnd withV (app_blocks a1)
                              else replace_one fnd withV (app_blocks a1));
                   a2 = map_blocks (\<lambda>_. bs) a1
               in setAuthStatus (if n \<noteq> 0 then ''Replaced '' @ nat_str n @ '' occurrence(s)'' else ''No matches'')
                    (n = 0) (scheduleAutosave (renderBlocks a2))))"

section \<open>Comments\<close>

definition slice :: "int \<Rightarrow> int \<Rightarrow> string \<Rightarrow> string" where
  "slice i j s = drop (nat i) (take (nat j) s)"

definition addComment :: "string \<Rightarrow> string option \<Rightarrow> dom \<Rightarrow> app \<Rightarrow> app" where
  "addComment newId answer dm a =
     (case selectedBlock dm (app_blocks a) of
        None \<Rightarrow> setAuthStatus ''Select a paragraph first'' True a
      | Some b \<Rightarrow>
          (case answer of None \<Rightarrow> a
           | Some raw \<Rightarrow>
               if js_trim raw = [] then a
               else
                 (let rng = (case selectionOffsetsInBlock dm (b_id b) of Some r \<Rightarrow> r
                             | None \<Rightarrow> (0, int (length (blockText b))));
                      q = slice (fst rng) (snd rng) (blockText b);
                      c = \<lparr> c_id = newId, c_block_id = b_id b, c_author_id = userId a,
                            c_text = js_trim raw, c_resolved = False, c_start = Some (fst rng),
                            c_end = Some (snd rng),
                            c_quote = Some (if q = [] then take 80 (blockText b) else q) \<rparr>;
                      a1 = map_doc (\<lambda>d. d\<lparr>comments := comments d @ [c]\<rparr>) a
                  in setAuthStatus ''Comment added'' False (scheduleAutosave
                       (emit RenderComments (sendOp (Add_comment c) a1))))))"

definition resolveComment :: "string \<Rightarrow> app \<Rightarrow> app" where
  "resolveComment i a =
     (if i \<notin> c_id ` set (comments (docState a)) then a
      else scheduleAutosave (emit RenderComments (sendOp (Resolve_comment i)
             (map_doc (\<lambda>d. d\<lparr>comments := resolve_in i (comments d)\<rparr>) a))))"

section \<open>Page setup, header and footer\<close>

definition commitPageSetup :: "string \<Rightarrow> string \<Rightarrow> string \<Rightarrow> app \<Rightarrow> app" where
  "commitPageSetup sz orient marginsV a =
     (let a1 = pushUndo a;
          cols = (case page (docState a1) of
                    None \<Rightarrow> 1 | Some p \<Rightarrow> if or_zero (pg_columns p) = 0 then 1 else or_zero (pg_columns p));
          mm = (if int_or_zero marginsV = 0 then 20 else int_or_zero marginsV);
          a2 = map_doc (\<lambda>d. applyPageChrome (d\<lparr>page := Some
                 \<lparr> pg_size = sz, pg_orientation = orient, pg_margins_mm = Some mm, pg_columns = Some cols \<rparr>\<rparr>)) a1
      in setAuthStatus ''Page setup updated'' False (scheduleAutosave a2))"

definition applyColumns :: "int \<Rightarrow> app \<Rightarrow> app" where
  "applyColumns n a =
     (let a1 = map_doc (\<lambda>d. applyPageChrome (d\<lparr>page := Some
            ((case page d of None \<Rightarrow> default_page | Some p \<Rightarrow> p)\<lparr>pg_columns := Some n\<rparr>)\<rparr>)) (pushUndo a)
      in setAuthStatus (''Columns: '' @ int_str n) False (scheduleAutosave a1))"

definition columns_choice :: "string \<Rightarrow> int" where
  "columns_choice v = min 3 (max 1 (if int_or_zero v = 0 then 1 else int_or_zero v))"

definition setColumns :: "string option \<Rightarrow> app \<Rightarrow> app" where
  "setColumns answer a = (case answer of None \<Rightarrow> a | Some v \<Rightarrow> applyColumns (columns_choice v) a)"

definition hf_or_default :: "head_foot option \<Rightarrow> head_foot" where
  "hf_or_default h = (case h of None \<Rightarrow> default_hf | Some x \<Rightarrow> x)"

definition showHeaderFooter :: "bool \<Rightarrow> app \<Rightarrow> app" where
  "showHeaderFooter numbers a =
     setAuthStatus ''Edit header/footer below the toolbar'' False
       (map_doc (\<lambda>d. d\<lparr>doc_header := Some (hf_or_default (doc_header d)),
          doc_footer := Some (let f = hf_or_default (doc_footer d)
                              in if numbers then f\<lparr>hf_page_numbers := True\<rparr> else f)\<rparr>) a)"

definition syncHeaderFooterFromInputs :: "string \<Rightarrow> string \<Rightarrow> bool \<Rightarrow> app \<Rightarrow> app" where
  "syncHeaderFooterFromInputs h f pn a =
     scheduleAutosave (map_doc (\<lambda>d. d\<lparr>doc_header := Some \<lparr> hf_text = h, hf_page_numbers = pn \<rparr>,
       doc_footer := Some \<lparr> hf_text = f, hf_page_numbers = pn \<rparr>\<rparr>) a)"

end
