(* ===== verification/Docs_Review.thy ===== *)
theory Docs_Review
  imports Docs_Blocks
begin

text \<open>
  Review and mail merge of the documents client (\<open>ui/docs/web/later.js\<close>): tracked
  revisions, the line comparison of two documents, CSV records and the merge of a template
  with them.
\<close>

section \<open>Tracked changes\<close>

definition toggleTrackChanges :: "bool \<Rightarrow> app \<Rightarrow> app" where
  "toggleTrackChanges on a =
     setAuthStatus (if on then ''Track changes on'' else ''Track changes off'') False
       (renderBlocks (scheduleAutosave (map_doc (\<lambda>d. d\<lparr>track_changes := on\<rparr>) a)))"

definition pendingRevisionFor :: "string \<Rightarrow> revision list \<Rightarrow> revision option" where
  "pendingRevisionFor bid revs = find (\<lambda>r. r_block_id r = bid) (rev revs)"

definition broadcastRevision :: "string \<Rightarrow> revision \<Rightarrow> app \<Rightarrow> app" where
  "broadcastRevision action r a = ws_send (Revision_event action (userId a) r) a"

definition drop_revision :: "string \<Rightarrow> app \<Rightarrow> app" where
  "drop_revision rid a = map_doc (\<lambda>d. d\<lparr>revisions := filter (\<lambda>x. r_id x \<noteq> rid) (revisions d)\<rparr>) a"

definition acceptRevision :: "revision \<Rightarrow> app \<Rightarrow> app" where
  "acceptRevision r a = scheduleAutosave (broadcastRevision ''remove'' r (drop_revision (r_id r) a))"

definition revert_block :: "revision \<Rightarrow> block list \<Rightarrow> block list" where
  "revert_block r bs = upd_block (r_block_id r) (flatten_to (r_before r)) bs"

definition rejectRevision :: "revision \<Rightarrow> app \<Rightarrow> app" where
  "rejectRevision r a =
     (let a1 = (case find_block (r_block_id r) (app_blocks a) of None \<Rightarrow> a
                | Some _ \<Rightarrow> map_blocks (revert_block r) (pushUndo a));
          a2 = broadcastRevision ''remove'' r (drop_revision (r_id r) a1)
      in scheduleAutosave (renderBlocks a2))"

definition acceptAll :: "app \<Rightarrow> app" where
  "acceptAll a =
     setAuthStatus ''All revisions accepted'' False
       (scheduleAutosave (map_doc (\<lambda>d. d\<lparr>revisions := []\<rparr>) a))"

definition rejectAll :: "app \<Rightarrow> app" where
  "rejectAll a =
     (let a1 = pushUndo a;
          a2 = map_blocks (fold revert_block (rev (revisions (docState a1)))) a1;
          a3 = map_doc (\<lambda>d. d\<lparr>revisions := []\<rparr>) a2
      in setAuthStatus ''All revisions rejected'' False (scheduleAutosave (renderBlocks a3)))"

section \<open>Comparing two documents\<close>

definition compare_at :: "string \<Rightarrow> string \<Rightarrow> string list" where
  "compare_at left right =
     (if left = right then [''  '' @ left]
      else (if left \<noteq> [] then [''- '' @ left] else []) @ (if right \<noteq> [] then [''+ '' @ right] else []))"

fun compare_lines :: "string list \<Rightarrow> string list \<Rightarrow> string list" where
  "compare_lines [] [] = []"
| "compare_lines (x # xs) [] = compare_at x [] @ compare_lines xs []"
| "compare_lines [] (y # ys) = compare_at [] y @ compare_lines [] ys"
| "compare_lines (x # xs) (y # ys) = compare_at x y @ compare_lines xs ys"

definition runCompare :: "block list \<Rightarrow> block list \<Rightarrow> string" where
  "runCompare mine other =
     (let out = str_join [NL] (compare_lines (map blockText mine) (map blockText other))
      in if out = [] then ''(identical)'' else out)"

section \<open>Mail merge\<close>

definition csv_rows :: "string \<Rightarrow> string list" where
  "csv_rows s = filter (\<lambda>l. l \<noteq> []) (map js_trim (split_char NL s))"

definition csv_cols :: "string \<Rightarrow> string list" where
  "csv_cols l = map js_trim (split_char CHR '','' l)"

definition csv_record :: "string list \<Rightarrow> string list \<Rightarrow> (string \<times> string) list" where
  "csv_record headers cols =
     fold (\<lambda>(i, h) obj. upsert h (if i < length cols then cols ! i else []) obj)
       (zip [0..<length headers] headers) []"

definition parseCsv :: "string \<Rightarrow> (string \<times> string) list list" where
  "parseCsv s =
     (case csv_rows s of
        h # r # rs \<Rightarrow> map (\<lambda>l. csv_record (csv_cols h) (csv_cols l)) (r # rs)
      | _ \<Rightarrow> [])"

definition fill_field :: "string \<times> string \<Rightarrow> string \<Rightarrow> string" where
  "fill_field kv body = str_join (snd kv) (str_split (''<<'' @ fst kv @ ''>>'') body)"

definition fill_template :: "string \<Rightarrow> (string \<times> string) list \<Rightarrow> string" where
  "fill_template template rec = fold fill_field rec template"

definition merge_parts :: "string \<Rightarrow> (string \<times> string) list list \<Rightarrow> string list" where
  "merge_parts template records =
     map (\<lambda>(idx, rec). ''--- Record '' @ nat_str (idx + 1) @ '' ---'' @ [NL] @ fill_template template rec)
       (zip [0..<length records] records)"

text \<open>\<open>Inl\<close> is the error status, \<open>Inr\<close> the downloaded text.\<close>

definition runMerge :: "string \<Rightarrow> block list \<Rightarrow> string + string" where
  "runMerge csv bs =
     (let records = parseCsv csv
      in if records = [] then Inl ''Need CSV header + at least one row''
         else Inr (str_join [NL, NL] (merge_parts (str_join [NL] (map blockText bs)) records)))"

end
