(* ===== verification/Docs_Format_Sync.thy ===== *)
theory Docs_Format_Sync
  imports Docs_Replication Docs_Review
begin

text \<open>
  The formatting and block commands of the documents client replicate like the typing
  handlers: for each of them, the message it sends makes a peer's blocks equal to its own.
\<close>

section \<open>Character marks replicate\<close>

lemma patch_of_mark_op: "patch_of_op (mark_op_of m v) = mark_patch_of m v"
  by (cases m) (simp_all add: patch_of_op_def no_marks_op_def empty_patch_def)

lemma patch_of_value_ops:
  "patch_of_op (no_marks_op\<lparr>mo_font_family := Some fam\<rparr>) = empty_patch\<lparr>p_font_family := Some (or_undefined (Some fam))\<rparr>"
  "patch_of_op (no_marks_op\<lparr>mo_font_size_pt := Some n\<rparr>) = empty_patch\<lparr>p_font_size_pt := Some (num_or_undefined (Some n))\<rparr>"
  "patch_of_op (no_marks_op\<lparr>mo_color := Some c\<rparr>) = empty_patch\<lparr>p_color := Some (or_undefined (Some c))\<rparr>"
  "patch_of_op (no_marks_op\<lparr>mo_highlight := Some c\<rparr>) = empty_patch\<lparr>p_highlight := Some (or_undefined (Some c))\<rparr>"
  "patch_of_op (no_marks_op\<lparr>mo_link_url := Some u\<rparr>) = empty_patch\<lparr>p_link_url := Some (or_undefined (Some u))\<rparr>"
  by (simp_all add: patch_of_op_def no_marks_op_def empty_patch_def)

lemma step_marks:
  "step_blocks (Set_marks_range bid s e m) bs =
     upd_block bid (\<lambda>b. b\<lparr>inlines := applyMarksRangeLocal (inlines b) s e (patch_of_op m)\<rparr>) bs"
  by (rule step_on_block) simp

lemma mark_target_simps [simp]: "ws_open (mark_target p mo t a) = ws_open a"
  by (simp add: mark_target_def)

lemma mark_target_replicates:
  "ws_open a \<Longrightarrow> patch_of_op mo = p \<Longrightarrow> replicates a (mark_target p mo t a)"
  by (rule replicatesI [of _ _ "[Op (Set_marks_range (t_id t) (t_start t) (t_end t) mo)]"])
    (simp_all add: mark_target_def step_marks)

lemma mark_targets_ws_open [simp]: "ws_open (mark_targets p mo ts a) = ws_open a"
  unfolding mark_targets_def by (induction ts arbitrary: a) simp_all

lemma mark_targets_replicates:
  "ws_open a \<Longrightarrow> patch_of_op mo = p \<Longrightarrow> replicates a (mark_targets p mo ts a)"
proof (induction ts arbitrary: a)
  case (Cons t ts)
  then have "replicates (mark_target p mo t a) (mark_targets p mo ts (mark_target p mo t a))" by simp
  with Cons.prems show ?case
    by (auto simp: mark_targets_def intro: replicates_trans mark_target_replicates)
qed (simp add: mark_targets_def)

lemma restoreMulti_frame [simp]:
  "docState (restoreMultiSelection ts a) = docState a" "outbox (restoreMultiSelection ts a) = outbox a"
  "ws_open (restoreMultiSelection ts a) = ws_open a"
  by (auto simp: restoreMultiSelection_def split: list.split)

text \<open>Steps that neither send nor change blocks may precede or follow.\<close>

lemma replicates_frame:
  assumes "replicates b c" "outbox b = outbox a" "app_blocks b = app_blocks a"
    "outbox d = outbox c" "app_blocks d = app_blocks c"
  shows "replicates a d"
  using assms by (auto simp: replicates_def)

lemma marked_replicates:
  "ws_open a \<Longrightarrow> patch_of_op mo = p \<Longrightarrow> outbox d = outbox (mark_targets p mo ts (pushUndo a)) \<Longrightarrow>
     app_blocks d = app_blocks (mark_targets p mo ts (pushUndo a)) \<Longrightarrow> replicates a d"
  by (rule replicates_frame [OF mark_targets_replicates [of "pushUndo a"]]) simp_all

lemma toggleMark_replicates: "ws_open a \<Longrightarrow> replicates a (toggleMark m dm a)"
  unfolding toggleMark_def Let_def
  by (auto intro: replicates_same marked_replicates [OF _ patch_of_mark_op])

lemma setFontFamily_replicates: "ws_open a \<Longrightarrow> replicates a (setFontFamily fam dm a)"
  unfolding setFontFamily_def Let_def
  by (auto intro: replicates_same marked_replicates [OF _ patch_of_value_ops(1)])

lemma setFontSize_replicates: "ws_open a \<Longrightarrow> replicates a (setFontSize n dm a)"
  unfolding setFontSize_def Let_def
  by (auto intro: replicates_same marked_replicates [OF _ patch_of_value_ops(2)])

lemma mark_block_range_replicates:
  "ws_open a \<Longrightarrow> patch_of_op mo = p \<Longrightarrow> outbox d = outbox (mark_block_range p mo bid rng a) \<Longrightarrow>
     app_blocks d = app_blocks (mark_block_range p mo bid rng a) \<Longrightarrow> replicates a d"
  by (rule replicatesI [of _ _ "[Op (Set_marks_range bid (fst rng) (snd rng) mo)]"])
    (simp_all add: mark_block_range_def step_marks)

lemma setTextColor_replicates: "ws_open a \<Longrightarrow> replicates a (setTextColor c dm a)"
  unfolding setTextColor_def Let_def
  by (auto intro: replicates_same mark_block_range_replicates [OF _ patch_of_value_ops(3)] split: option.split)

lemma setHighlightColor_replicates: "ws_open a \<Longrightarrow> replicates a (setHighlightColor c dm a)"
  unfolding setHighlightColor_def Let_def
  by (auto intro: replicates_same mark_block_range_replicates [OF _ patch_of_value_ops(4)] split: option.split)

lemma setLink_replicates: "ws_open a \<Longrightarrow> replicates a (setLink ans dm a)"
  unfolding setLink_def Let_def
  by (auto intro: replicates_same mark_block_range_replicates [OF _ patch_of_value_ops(5)] split: option.split)

section \<open>Paragraph formats and blocks replicate\<close>

lemma format_selected_frame [simp]:
  "ws_open (format_selected bid f fo a) = ws_open a"
  "outbox (format_selected bid f fo a) = outbox a @ (if ws_open a then [Op (Set_block_format bid fo)] else [])"
  "app_blocks (format_selected bid f fo a) = upd_block bid f (app_blocks a)"
  by (simp_all add: format_selected_def)

lemma step_format: "step_blocks (Set_block_format bid fo) bs = upd_block bid (format_block fo) bs"
  by (rule step_on_block) simp

lemma format_selected_replicates:
  assumes "ws_open a" "\<And>b. format_block fo b = f b"
  shows "replicates a (format_selected bid f fo a)"
proof -
  have "format_block fo = f" using assms(2) by (rule ext)
  with assms(1) show ?thesis
    by (intro replicatesI [of _ _ "[Op (Set_block_format bid fo)]"]) (simp_all add: step_format)
qed

lemma format_block_fields:
  "al \<noteq> [] \<Longrightarrow> format_block (no_format_op\<lparr>fo_align := Some al\<rparr>) b = b\<lparr>align := Some al\<rparr>"
  "format_block (no_format_op\<lparr>fo_indent_mm := Some n\<rparr>) b = b\<lparr>indent_mm := Some n\<rparr>"
  "format_block (no_format_op\<lparr>fo_line_spacing := Some v\<rparr>) b = b\<lparr>line_spacing := Some v\<rparr>"
  "format_block (no_format_op\<lparr>fo_list_level := Some n\<rparr>) b = b\<lparr>list_level := Some n\<rparr>"
  "format_block (no_format_op\<lparr>fo_list_marker := Some v\<rparr>) b = b\<lparr>list_marker := Some v\<rparr>"
  by (simp_all add: format_block_def no_format_op_def truthy_str_def or_keep_def Let_def)

lemma align_targets_replicates:
  "ws_open a \<Longrightarrow> al \<noteq> [] \<Longrightarrow> replicates a (align_targets al seen ts a)"
proof (induction ts arbitrary: seen a)
  case (Cons t ts)
  let ?a1 = "format_selected (t_id t) (\<lambda>b. b\<lparr>align := Some al\<rparr>) (no_format_op\<lparr>fo_align := Some al\<rparr>) a"
  have "replicates a ?a1"
    by (rule format_selected_replicates) (use Cons.prems in \<open>simp_all add: format_block_fields\<close>)
  moreover have "replicates ?a1 (align_targets al (t_id t # seen) ts ?a1)"
    by (rule Cons.IH) (use Cons.prems in simp_all)
  ultimately have "replicates a (align_targets al (t_id t # seen) ts ?a1)" by (rule replicates_trans)
  with Cons show ?case by simp
qed simp

lemma setAlign_replicates: "ws_open a \<Longrightarrow> al \<noteq> [] \<Longrightarrow> replicates a (setAlign al dm a)"
  unfolding setAlign_def Let_def
  by (auto intro: replicates_frame [OF align_targets_replicates [of "pushUndo a"]])

lemma setIndentMm_replicates: "ws_open a \<Longrightarrow> 0 < mm \<Longrightarrow> replicates a (setIndentMm mm dm a)"
  unfolding setIndentMm_def Let_def
  by (auto intro!: replicates_frame [OF format_selected_replicates [of "pushUndo a"]]
      simp: format_block_fields num_or_undefined_def split: option.split)

lemma setLineSpacing_replicates: "ws_open a \<Longrightarrow> replicates a (setLineSpacing v dm a)"
  unfolding setLineSpacing_def Let_def
  by (auto intro!: replicates_frame [OF format_selected_replicates [of "pushUndo a"]]
      simp: format_block_fields split: option.split)

lemma setBlockType_replicates:
  assumes "ws_open a" "bt \<noteq> []"
  shows "replicates a (setBlockType bt lvl dm a)"
proof (cases "selectedBlock dm (app_blocks a)")
  case (Some b)
  let ?o = "Set_block_type (b_id b) bt lvl (if bt = ''list_item'' then Some ''bullet'' else None) None"
  show ?thesis
    by (rule replicatesI [of _ _ "[Op ?o]"])
      (use assms Some in \<open>simp_all add: setBlockType_def Let_def or_default_def
        step_on_block [OF remote_blocks.simps(6)]\<close>)
qed (simp add: setBlockType_def replicates_same)

lemma selectedBlock_index:
  assumes "selectedBlock dm bs = Some b"
  obtains k where "block_index (b_id b) bs = Some k" "k < length bs" "bs ! k = b" "d_cur dm = Some (b_id b)"
proof -
  obtain i where i: "d_cur dm = Some i" "find_block i bs = Some b"
    using assms by (auto simp: selectedBlock_def bind_eq_Some_conv)
  from find_block_Some [OF i(2)] have "b_id b = i" by simp
  with i find_block_index [of i bs] block_index_Some [of i bs] that show thesis
    by (auto split: option.splits)
qed

lemma insertBlockAfter_replicates:
  assumes "ws_open a"
  shows "replicates a (insertBlockAfter blk dm a)"
proof (cases "selectedBlock dm (app_blocks a)")
  case None
  show ?thesis
    by (rule replicatesI [of _ _ "[Op (Insert_block None blk)]"])
      (use assms None in \<open>simp_all add: insertBlockAfter_def Let_def step_blocks_def
        insert_block_after_def splice_ins_def\<close>)
next
  case (Some b)
  then obtain k where k: "block_index (b_id b) (app_blocks a) = Some k" using selectedBlock_index by metis
  show ?thesis
    by (rule replicatesI [of _ _ "[Op (Insert_block (Some (b_id b)) blk)]"])
      (use assms Some k in \<open>simp_all add: insertBlockAfter_def Let_def step_blocks_def insert_block_after_def\<close>)
qed

end
