(* ===== verification/Era_Replica.thy ===== *)
theory Era_Replica
  imports Main
begin

text \<open>
  The interface between an editor and its peers, shared by the clients. An editor applies a
  user event to its own state and appends messages to an outbox; a peer that holds the same
  view applies the messages in order. \<open>replica\<close> asks this of single events and gives it for
  whole sessions.
\<close>

text \<open>Every event of the session is admissible in the state it meets.\<close>

fun all_ok :: "('e \<Rightarrow> 's \<Rightarrow> bool) \<Rightarrow> ('e \<Rightarrow> 's \<Rightarrow> 's) \<Rightarrow> 'e list \<Rightarrow> 's \<Rightarrow> bool" where
  "all_ok ok step [] s = True"
| "all_ok ok step (e # es) s = (ok e s \<and> all_ok ok step es (step e s))"

locale replica =
  fixes view :: "'s \<Rightarrow> 'v"
    and out :: "'s \<Rightarrow> 'm list"
    and recv :: "'m \<Rightarrow> 'v \<Rightarrow> 'v"
    and step :: "'e \<Rightarrow> 's \<Rightarrow> 's"
    and ok :: "'e \<Rightarrow> 's \<Rightarrow> bool"
  assumes step_replicates:
    "ok e s \<Longrightarrow> \<exists>ms. out (step e s) = out s @ ms \<and> fold recv ms (view s) = view (step e s)"
begin

lemma session_replicates:
  "all_ok ok step es s \<Longrightarrow>
     \<exists>ms. out (fold step es s) = out s @ ms \<and> fold recv ms (view s) = view (fold step es s)"
proof (induction es arbitrary: s)
  case Nil
  then show ?case by simp
next
  case (Cons e es)
  from Cons.prems have "ok e s" "all_ok ok step es (step e s)" by simp_all
  from step_replicates [OF this(1)] Cons.IH [OF this(2)] obtain ms ns
    where ms: "out (step e s) = out s @ ms" "fold recv ms (view s) = view (step e s)"
      and "out (fold step es (step e s)) = out (step e s) @ ns"
        "fold recv ns (view (step e s)) = view (fold step es (step e s))" by blast
  with ms have "out (fold step (e # es) s) = out s @ (ms @ ns) \<and>
      fold recv (ms @ ns) (view s) = view (fold step (e # es) s)" by simp
  then show ?case by blast
qed

text \<open>What was sent during the session rebuilds the view on a peer.\<close>

corollary peers_converge:
  assumes "all_ok ok step es s" "out s = []"
  shows "fold recv (out (fold step es s)) (view s) = view (fold step es s)"
  using session_replicates [OF assms(1)] assms(2) by auto

end

end
