(* ===== verification/Docs_Sessions.thy ===== *)
theory Docs_Sessions
  imports Docs_Format_Sync Era_Replica
begin

text \<open>
  Tables and whole editing sessions of the documents client. A table is broadcast as the
  replacement of its tab-separated text, from which a peer rebuilds the grid; \<open>table_ok\<close> and
  \<open>wide_grid\<close> say when that is faithful. \<open>edit_event\<close> collects the commands that replicate,
  and \<open>docs_peers\<close> interprets the interface \<open>replica\<close> on them.
\<close>

section \<open>Tables replicate\<close>

lemma plain_span_unmarked: "plain_span t = spanFromMarks t no_marks empty_patch"
  by (simp add: plain_span_def spanFromMarks_def no_marks_def or_undefined_def num_or_undefined_def Let_def)

lemma delete_all:
  assumes "t \<noteq> []"
  shows "deleteRangePreserving [plain_span t] 0 (int (length t)) = [plain_span []]"
proof -
  let ?d = "deleteRangePreserving [plain_span t] 0 (int (length t))"
  have "chars ?d = []" using assms by (simp add: delete_chars span_chars_def)
  moreover have "coalesced ?d" using assms by (simp add: deleteRangePreserving_def Let_def)
  ultimately show ?thesis
    by (auto simp: plain_span_unmarked coalesced_def chars_Nil_spans_ok spans_ok_def)
qed

lemma insert_fresh: "t \<noteq> [] \<Longrightarrow> insertTextPreserving [plain_span []] 0 t None = [plain_span t]"
  by (simp add: insertTextPreserving_def splitInlinesAt_def insert_template_def coalesceInlines_def
      withText_def plain_span_def spanFromMarks_def no_marks_def or_undefined_def num_or_undefined_def Let_def)

text \<open>A table block in the state every table handler leaves it in.\<close>

definition table_ok :: "block \<Rightarrow> bool" where
  "table_ok b \<longleftrightarrow> block_type b = ''table'' \<and> grid_ok (tableCellsFromBlock b) \<and> syncTableTsv b = b"

lemma table_okD:
  assumes "table_ok b"
  shows "table_cells b = Some (tableCellsFromBlock b)" "inlines b = [plain_span (blockText b)]"
    "blockText b = tsv (tableCellsFromBlock b)"
  using assms sync_cells [of b] sync_text [of b]
  by (simp_all add: table_ok_def) (metis (no_types, lifting) blockText_def block.select_convs(20)
      block.surjective block.update_convs(20) sync_text syncTableTsv_def)

lemma table_text_ne:
  assumes "grid_ok cells"
  shows "tsv cells \<noteq> []"
proof
  assume "tsv cells = []"
  moreover from assms have ok: "\<forall>r\<in>set cells. r \<noteq> [] \<and> (\<forall>c\<in>set r. cell_ok c)" "cells \<noteq> []"
    by (simp_all add: grid_ok_def)
  note tsv_lines [OF this]
  ultimately have "cells = [[[]]]" by (metis list.map(1,2) split_char.simps(1))
  then show False using assms by (simp add: grid_ok_def)
qed

lemma table_text_determines:
  assumes "table_ok b" "table_ok c" "blockText b = blockText c"
  shows "tableCellsFromBlock b = tableCellsFromBlock c"
  using assms refresh_tsv [of "tableCellsFromBlock b" b] refresh_tsv [of "tableCellsFromBlock c" b] table_okD(3)
  by (metis option.inject table_ok_def)

definition with_cells :: "string list list \<Rightarrow> block \<Rightarrow> block" where
  "with_cells cs b = syncTableTsv (b\<lparr>table_cells := Some cs\<rparr>)"

lemma with_cells_ok:
  "block_type b = ''table'' \<Longrightarrow> grid_ok cs \<Longrightarrow> table_ok (with_cells cs b) \<and> blockText (with_cells cs b) = tsv cs
     \<and> tableCellsFromBlock (with_cells cs b) = cs"
  by (cases cs) (simp_all add: table_ok_def with_cells_def syncTableTsv_def Let_def tableCellsFromBlock_def
      grid_ok_def blockText_def)

lemma with_cells_eq: "cs \<noteq> [] \<Longrightarrow> with_cells cs b = b\<lparr>table_cells := Some cs, inlines := [plain_span (tsv cs)]\<rparr>"
  by (simp add: with_cells_def syncTableTsv_def)

lemma refresh_overwrites:
  "\<exists>cs. refreshTableCellsFromInlines (b\<lparr>inlines := xs\<rparr>) = b\<lparr>table_cells := cs, inlines := xs\<rparr>"
  by (cases b) (simp add: refreshTableCellsFromInlines_def)

lemma refresh_twice:
  fixes b xs f
  defines "b1 \<equiv> refreshTableCellsFromInlines (b\<lparr>inlines := xs\<rparr>)"
  defines "b2 \<equiv> refreshTableCellsFromInlines (b1\<lparr>inlines := f (inlines b1)\<rparr>)"
  shows "b2 = b\<lparr>table_cells := table_cells b2, inlines := f xs\<rparr>"
proof -
  obtain cs ds where "b1 = b\<lparr>table_cells := cs, inlines := xs\<rparr>"
    "b2 = b1\<lparr>table_cells := ds, inlines := f (inlines b1)\<rparr>"
    using refresh_overwrites unfolding b1_def b2_def by blast
  then show ?thesis by (cases b) simp
qed

text \<open>What a peer makes of the two messages of \<open>broadcastTableTextReplace\<close>.\<close>

lemma table_changed_replicates:
  assumes "ws_open a" "find_block bid (app_blocks a) = Some b" "table_ok b" "grid_ok cs"
  shows "replicates a (table_changed bid b (with_cells cs b) a)"
proof (cases "blockText b = tsv cs")
  case True
  have bt: "block_type b = ''table''" using assms(3) by (simp add: table_ok_def)
  note ok = with_cells_ok [OF bt assms(4)]
  have "tableCellsFromBlock b = cs" using table_text_determines [OF assms(3)] ok True by metis
  then have "b\<lparr>table_cells := Some cs\<rparr> = b" using table_okD(1) [OF assms(3)] by (cases b) simp
  then have "with_cells cs b = b" using assms(3) by (simp add: with_cells_def table_ok_def)
  then have "upd_block bid (\<lambda>_. with_cells cs b) (app_blocks a) = upd_block bid (\<lambda>b. b) (app_blocks a)"
    by (intro upd_block_cong) (simp add: assms(2))
  also have "\<dots> = app_blocks a" by (simp add: upd_block_index split: option.splits)
  finally show ?thesis using True ok
    by (intro replicates_same) (simp_all add: table_changed_def broadcastTableTextReplace_def)
next
  case False
  have bt: "block_type b = ''table''" using assms(3) by (simp add: table_ok_def)
  note ok = with_cells_ok [OF bt assms(4)]
  have ne: "blockText b \<noteq> []" "tsv cs \<noteq> []"
    using table_text_ne assms(3,4) table_okD(3) [OF assms(3)] by (auto simp: table_ok_def)
  let ?del = "\<lambda>b. refreshTableCellsFromInlines (b\<lparr>inlines := deleteRangePreserving (inlines b) 0 (int (length (blockText b)))\<rparr>)"
  let ?ins = "\<lambda>b. refreshTableCellsFromInlines (b\<lparr>inlines := insertTextPreserving (inlines b) 0 (tsv cs) None\<rparr>)"
  let ?ops = "[Delete_range bid 0 (int (length (blockText b))), Insert_text bid 0 (tsv cs) None]"
  have d: "deleteRangePreserving (inlines b) 0 (int (length (blockText b))) = [plain_span []]"
    using ne delete_all table_okD(2) [OF assms(3)] by simp
  have shape: "?ins (?del b) = b\<lparr>table_cells := table_cells (?ins (?del b)), inlines := [plain_span (tsv cs)]\<rparr>"
    using refresh_twice [where b = b and xs = "[plain_span []]" and f = "\<lambda>xs. insertTextPreserving xs 0 (tsv cs) None"] d insert_fresh ne
    by simp
  have "table_cells (?ins (?del b)) = Some cs"
    by (rule refresh_tsv) (use assms(4) bt d insert_fresh ne in \<open>simp_all add: blockText_def refreshTableCellsFromInlines_def\<close>)
  with shape have "?ins (?del b) = with_cells cs b"
    using assms(4) by (simp add: with_cells_eq grid_ok_def)
  then have "fold step_blocks ?ops (app_blocks a) = upd_block bid (\<lambda>_. with_cells cs b) (app_blocks a)"
    by (simp add: step_on_block [OF remote_blocks.simps(1)] step_on_block [OF remote_blocks.simps(2)]
        upd_block_upd_block) (rule upd_block_cong, simp add: assms(2))
  then show ?thesis using assms(1) ok ne False
    by (intro replicatesI [of _ _ "map Op ?ops"])
      (simp_all add: table_changed_def broadcastTableTextReplace_def fold_deliver_ops)
qed

section \<open>The handlers of a table\<close>

text \<open>A grid that a peer reads back unchanged from its text: rectangular, at least two columns,
  no tab or newline in a cell.\<close>

definition wide_grid :: "nat \<Rightarrow> string list list \<Rightarrow> bool" where
  "wide_grid n cells \<longleftrightarrow> cells \<noteq> [] \<and> 2 \<le> n \<and> rectangular n cells \<and> (\<forall>r\<in>set cells. \<forall>c\<in>set r. cell_ok c)"

lemma wide_grid_ok: "wide_grid n cells \<Longrightarrow> grid_ok cells"
  by (force simp: wide_grid_def grid_ok_def rectangular_def dest: last_in_set)

lemma wide_grid_ops:
  assumes "wide_grid n cells"
  shows "wide_grid n (cells @ [replicate n []])"
    and "wide_grid (Suc n) (map (\<lambda>r. r @ [[]]) cells)"
    and "1 < length cells \<Longrightarrow> wide_grid n (splice_del k cells)"
    and "2 < n \<Longrightarrow> k < n \<Longrightarrow> wide_grid (n - 1) (map (splice_del k) cells)"
    and "r < length cells \<Longrightarrow> c < n \<Longrightarrow> cell_ok v \<Longrightarrow> wide_grid n (set_cell_at r c v cells)"
proof -
  show "wide_grid n (cells @ [replicate n []])" "wide_grid (Suc n) (map (\<lambda>r. r @ [[]]) cells)"
    using assms by (auto simp: wide_grid_def rectangular_def cell_ok_def)
  show "wide_grid n (splice_del k cells)" if "1 < length cells"
    using assms that splice_del_ne [OF that] by (auto simp: wide_grid_def rectangular_def dest: set_splice_del_D)
  show "wide_grid (n - 1) (map (splice_del k) cells)" if "2 < n" "k < n"
    using assms that by (auto simp: wide_grid_def rectangular_def length_splice_del dest: set_splice_del_D)
  assume "r < length cells" "c < n" "cell_ok v"
  moreover have "set (row[c := v]) \<subseteq> insert v (set row)" for row :: "string list"
    by (rule set_update_subset_insert)
  ultimately show "wide_grid n (set_cell_at r c v cells)"
    using assms nth_mem [of r cells]
    by (auto simp: wide_grid_def rectangular_def set_cell_at_def Let_def
        dest!: set_update_subset_insert [THEN subsetD])
qed

text \<open>The block the handlers of a table were rendered for, with \<open>n\<close> columns.\<close>

definition table_at :: "string \<Rightarrow> nat \<Rightarrow> block list \<Rightarrow> bool" where
  "table_at bid n bs \<longleftrightarrow>
     (case find_block bid bs of None \<Rightarrow> True
      | Some b \<Rightarrow> table_ok b \<and> wide_grid n (tableCellsFromBlock b))"

lemma table_ops_with_cells:
  assumes "wide_grid n (tableCellsFromBlock b)"
  shows "insertTableRow b = with_cells (tableCellsFromBlock b @ [replicate n []]) b"
    and "insertTableCol b = with_cells (map (\<lambda>r. r @ [[]]) (tableCellsFromBlock b)) b"
    and "deleteTableRow b None = (if length (tableCellsFromBlock b) \<le> 1 then None
           else Some (with_cells (splice_del (length (tableCellsFromBlock b) - 1) (tableCellsFromBlock b)) b))"
    and "deleteTableCol b None = Some (with_cells (map (splice_del (n - 1)) (tableCellsFromBlock b)) b)"
proof -
  obtain r rs where c: "tableCellsFromBlock b = r # rs" using assms by (cases "tableCellsFromBlock b") (auto simp: wide_grid_def)
  then have r: "length r = n" "2 \<le> n" using assms by (auto simp: wide_grid_def rectangular_def)
  show "insertTableRow b = with_cells (tableCellsFromBlock b @ [replicate n []]) b"
    using c r by (auto simp: insertTableRow_def with_cells_def Let_def)
  show "insertTableCol b = with_cells (map (\<lambda>r. r @ [[]]) (tableCellsFromBlock b)) b"
    by (simp add: insertTableCol_def with_cells_def)
  show "deleteTableRow b None = (if length (tableCellsFromBlock b) \<le> 1 then None
      else Some (with_cells (splice_del (length (tableCellsFromBlock b) - 1) (tableCellsFromBlock b)) b))"
    by (auto simp: deleteTableRow_def with_cells_def Let_def nat_diff_distrib)
  have "map (\<lambda>row. if 0 \<le> int n - 1 \<and> int n - 1 < int (length row)
        then splice_del (nat (int n - 1)) row else row) (tableCellsFromBlock b)
      = map (splice_del (n - 1)) (tableCellsFromBlock b)"
    using assms r by (intro map_cong) (auto simp: wide_grid_def rectangular_def nat_diff_distrib)
  then show "deleteTableCol b None = Some (with_cells (map (splice_del (n - 1)) (tableCellsFromBlock b)) b)"
    using c r by (simp add: deleteTableCol_def with_cells_def Let_def del: map_eq_conv)
qed

lemma table_button_replicates:
  assumes "ws_open a" "table_at bid n (app_blocks a)"
    "\<And>b. table_ok b \<Longrightarrow> wide_grid n (tableCellsFromBlock b) \<Longrightarrow>
       f b = None \<or> f b = Some (with_cells (g (tableCellsFromBlock b)) b) \<and> grid_ok (g (tableCellsFromBlock b))"
  shows "replicates a (table_button bid f msg a)"
proof (cases "find_block bid (app_blocks a)")
  case (Some b)
  then have b: "table_ok b" "wide_grid n (tableCellsFromBlock b)" using assms(2) by (simp_all add: table_at_def)
  show ?thesis
  proof (cases "f b")
    case None
    with Some show ?thesis by (simp add: table_button_def replicates_same)
  next
    case (Some b')
    then obtain cs where "grid_ok cs" "b' = with_cells cs b" using assms(3) [OF b] by auto
    with Some \<open>find_block bid _ = Some b\<close> assms(1) b(1)
      table_changed_replicates [of "pushUndo a" bid b cs] show ?thesis
      by (intro replicates_frame [of "pushUndo a" "table_changed bid b b' (pushUndo a)" a])
        (simp_all add: table_button_def)
  qed
qed (simp add: table_button_def)

lemma table_blur_replicates:
  assumes "ws_open a" "table_at bid n (app_blocks a)" "c < n" "cell_ok v"
  shows "replicates a (table_blur bid r c v a)"
proof (cases "find_block bid (app_blocks a)")
  case (Some b)
  then have b: "table_ok b" "wide_grid n (tableCellsFromBlock b)" using assms(2) by (simp_all add: table_at_def)
  show ?thesis
  proof (cases "r < length (tableCellsFromBlock b)")
    case True
    have "grid_ok (set_cell_at r c v (tableCellsFromBlock b))"
      using wide_grid_ok wide_grid_ops(5) [OF b(2) True assms(3,4)] by blast
    from table_changed_replicates [of "pushUndo a" bid b, OF _ _ b(1) this] assms(1) Some show ?thesis
      by (auto simp: table_blur_def Let_def with_cells_def [symmetric] intro: replicates_frame)
  qed (use Some in \<open>simp add: table_blur_def Let_def\<close>)
qed (simp add: table_blur_def)

lemma table_buttons_replicate:
  assumes "ws_open a" "table_at bid n (app_blocks a)"
  shows "replicates a (table_add_row bid a)" "replicates a (table_add_col bid a)"
    "replicates a (table_del_row bid a)" "2 < n \<Longrightarrow> replicates a (table_del_col bid a)"
proof -
  note ops = table_ops_with_cells wide_grid_ok [OF wide_grid_ops(1)] wide_grid_ok [OF wide_grid_ops(2)]
    wide_grid_ok [OF wide_grid_ops(3)] wide_grid_ok [OF wide_grid_ops(4)]
  show "replicates a (table_add_row bid a)"
    unfolding table_add_row_def
    by (rule table_button_replicates [OF assms, where g = "\<lambda>cs. cs @ [replicate n []]"]) (simp add: ops)
  show "replicates a (table_add_col bid a)"
    unfolding table_add_col_def
    by (rule table_button_replicates [OF assms, where g = "map (\<lambda>r. r @ [[]])"]) (simp add: ops)
  show "replicates a (table_del_row bid a)"
    unfolding table_del_row_def
    by (rule table_button_replicates [OF assms, where g = "\<lambda>cs. splice_del (length cs - 1) cs"]) (simp add: ops)
  show "replicates a (table_del_col bid a)" if "2 < n"
    unfolding table_del_col_def
    by (rule table_button_replicates [OF assms, where g = "map (splice_del (n - 1))"]) (use that in \<open>simp add: ops\<close>)
qed

section \<open>Sessions\<close>

datatype edit_event =
    Type_text string string string
  | Key_down key string "(int \<times> int) option" string
  | Toggle_mark mark dom
  | Font_family string dom
  | Font_size int dom
  | Text_color string dom
  | Highlight_color string dom
  | Link "string option" dom
  | Align string dom
  | Indent int dom
  | Line_spacing string dom
  | Block_type string int dom
  | New_block block dom
  | Table_cell string nat nat string
  | Table_row_add string
  | Table_col_add string
  | Table_row_del string
  | Table_col_del string

text \<open>A typed text is followed by the pause after which the client broadcasts it.\<close>

fun edit_step :: "edit_event \<Rightarrow> app \<Rightarrow> app" where
  "edit_step (Type_text bid tx rid) a = sync_fire (onBlockInput bid tx rid a)"
| "edit_step (Key_down k bid sel newId) a = onBlockKeydown k bid sel newId a"
| "edit_step (Toggle_mark m dm) a = toggleMark m dm a"
| "edit_step (Font_family fam dm) a = setFontFamily fam dm a"
| "edit_step (Font_size n dm) a = setFontSize n dm a"
| "edit_step (Text_color c dm) a = setTextColor c dm a"
| "edit_step (Highlight_color c dm) a = setHighlightColor c dm a"
| "edit_step (Link ans dm) a = setLink ans dm a"
| "edit_step (Align al dm) a = setAlign al dm a"
| "edit_step (Indent mm dm) a = setIndentMm mm dm a"
| "edit_step (Line_spacing v dm) a = setLineSpacing v dm a"
| "edit_step (Block_type bt lvl dm) a = setBlockType bt lvl dm a"
| "edit_step (New_block b dm) a = insertBlockAfter b dm a"
| "edit_step (Table_cell bid r c v) a = table_blur bid r c v a"
| "edit_step (Table_row_add bid) a = table_add_row bid a"
| "edit_step (Table_col_add bid) a = table_add_col bid a"
| "edit_step (Table_row_del bid) a = table_del_row bid a"
| "edit_step (Table_col_del bid) a = table_del_col bid a"

definition columns_of :: "string \<Rightarrow> block list \<Rightarrow> nat" where
  "columns_of bid bs = (case find_block bid bs of None \<Rightarrow> 2 | Some b \<Rightarrow> length (hd (tableCellsFromBlock b)))"

fun edit_ok :: "edit_event \<Rightarrow> app \<Rightarrow> bool" where
  "edit_ok (Type_text bid tx rid) a \<longleftrightarrow> ws_open a \<and> plain_block bid (app_blocks a) \<and> sync_pending a = None"
| "edit_ok (Key_down k bid sel newId) a \<longleftrightarrow>
     ws_open a \<and> newId \<notin> b_id ` set (app_blocks a) \<and> list_shape_ok bid (app_blocks a)"
| "edit_ok (Align al dm) a \<longleftrightarrow> ws_open a \<and> al \<noteq> []"
| "edit_ok (Indent mm dm) a \<longleftrightarrow> ws_open a \<and> 0 < mm"
| "edit_ok (Block_type bt lvl dm) a \<longleftrightarrow> ws_open a \<and> bt \<noteq> []"
| "edit_ok (Table_cell bid r c v) a \<longleftrightarrow>
     ws_open a \<and> table_at bid (columns_of bid (app_blocks a)) (app_blocks a)
     \<and> c < columns_of bid (app_blocks a) \<and> cell_ok v"
| "edit_ok (Table_row_add bid) a \<longleftrightarrow> ws_open a \<and> table_at bid (columns_of bid (app_blocks a)) (app_blocks a)"
| "edit_ok (Table_col_add bid) a \<longleftrightarrow> ws_open a \<and> table_at bid (columns_of bid (app_blocks a)) (app_blocks a)"
| "edit_ok (Table_row_del bid) a \<longleftrightarrow> ws_open a \<and> table_at bid (columns_of bid (app_blocks a)) (app_blocks a)"
| "edit_ok (Table_col_del bid) a \<longleftrightarrow> ws_open a \<and> table_at bid (columns_of bid (app_blocks a)) (app_blocks a)
     \<and> 2 < columns_of bid (app_blocks a)"
| "edit_ok _ a \<longleftrightarrow> ws_open a"

lemma type_text_replicates:
  assumes "ws_open a" "plain_block bid (app_blocks a)" "sync_pending a = None"
  shows "replicates a (sync_fire (onBlockInput bid tx rid a))"
proof (cases "find_block bid (app_blocks a)")
  case None
  with assms show ?thesis by (simp add: onBlockInput_def sync_fire_def)
next
  case (Some b)
  show ?thesis
  proof (cases "input_text (blockText b) tx = blockText b")
    case True
    with Some assms show ?thesis by (simp add: onBlockInput_def sync_fire_def)
  qed (use input_then_sync_replicates [OF assms(1,2) Some] in simp)
qed

lemma edit_replicates: "edit_ok e a \<Longrightarrow> replicates a (edit_step e a)"
  by (cases e; simp add: type_text_replicates keydown_replicates toggleMark_replicates
      setFontFamily_replicates setFontSize_replicates setTextColor_replicates
      setHighlightColor_replicates setLink_replicates setAlign_replicates setIndentMm_replicates
      setLineSpacing_replicates setBlockType_replicates insertBlockAfter_replicates;
      blast intro: table_blur_replicates table_buttons_replicate)

interpretation docs_peers: replica app_blocks outbox deliver edit_step edit_ok
  by unfold_locales (use edit_replicates in \<open>simp add: replicates_def\<close>)

end
