(* ===== verification/Era_History.thy ===== *)
theory Era_History
  imports Main
begin

text \<open>
  The undo contract of the editors. An editor keeps two stacks of checkpoints that grow at
  the end; it pushes a checkpoint before an edit, and undo and redo move the current document
  between the stacks. \<open>stable\<close> holds of documents that restoring leaves as they are (the
  clients fill in missing parts when they restore).
\<close>

locale history =
  fixes cur :: "'s \<Rightarrow> 'd"
    and undos :: "'s \<Rightarrow> 'd list"
    and redos :: "'s \<Rightarrow> 'd list"
    and checkpoint :: "'s \<Rightarrow> 's"
    and undo :: "'s \<Rightarrow> 's"
    and redo :: "'s \<Rightarrow> 's"
    and stable :: "'d \<Rightarrow> bool"
  assumes checkpoint_top: "undos (checkpoint s) \<noteq> []" "last (undos (checkpoint s)) = cur s"
    and undo_restores: "undos s \<noteq> [] \<Longrightarrow> stable (last (undos s)) \<Longrightarrow> cur (undo s) = last (undos s)"
    and undo_pops: "undos s \<noteq> [] \<Longrightarrow> undos (undo s) = butlast (undos s)"
    and undo_saves: "undos s \<noteq> [] \<Longrightarrow> redos (undo s) \<noteq> [] \<and> last (redos (undo s)) = cur s"
    and redo_restores: "redos s \<noteq> [] \<Longrightarrow> stable (last (redos s)) \<Longrightarrow> cur (redo s) = last (redos s)"
    and redo_saves: "redos s \<noteq> [] \<Longrightarrow> undos (redo s) \<noteq> [] \<and> last (undos (redo s)) = cur s"
begin

text \<open>An edit is whatever happened after a checkpoint, as long as the stack is still its own.\<close>

lemma undo_edit:
  assumes "stable (cur s)" "undos t = undos (checkpoint s)"
  shows "cur (undo t) = cur s"
  using assms checkpoint_top [of s] undo_restores [of t] by simp

lemma redo_undo:
  assumes "undos t \<noteq> []" "stable (cur t)"
  shows "cur (redo (undo t)) = cur t"
  using undo_saves [OF assms(1)] redo_restores [of "undo t"] assms(2) by simp

lemma undo_redo_undo:
  assumes "undos t \<noteq> []" "stable (cur (undo t))"
  shows "cur (undo (redo (undo t))) = cur (undo t)"
  using undo_saves [OF assms(1)] redo_saves [of "undo t"] undo_restores [of "redo (undo t)"] assms(2) by simp

lemma undos_funpow: "k \<le> length (undos s) \<Longrightarrow> undos ((undo ^^ k) s) = take (length (undos s) - k) (undos s)"
proof (induction k)
  case 0
  then show ?case by simp
next
  case (Suc k)
  then have ih: "undos ((undo ^^ k) s) = take (length (undos s) - k) (undos s)" by simp
  moreover from this Suc.prems have "undos ((undo ^^ k) s) \<noteq> []" by auto
  ultimately show ?case using undo_pops [of "(undo ^^ k) s"] Suc.prems by (simp add: butlast_take)
qed

text \<open>Undoing \<open>k + 1\<close> times restores the checkpoint \<open>k + 1\<close> from the top.\<close>

lemma undo_many:
  assumes "k < length (undos s)" "\<forall>d\<in>set (undos s). stable d"
  shows "cur ((undo ^^ Suc k) s) = undos s ! (length (undos s) - Suc k)"
proof -
  let ?t = "(undo ^^ k) s"
  have u: "undos ?t = take (length (undos s) - k) (undos s)" using undos_funpow [of k s] assms(1) by simp
  then have "undos ?t \<noteq> []" using assms(1) by auto
  moreover have "last (undos ?t) = undos s ! (length (undos s) - Suc k)"
    using u assms(1) \<open>undos ?t \<noteq> []\<close> by (simp add: last_conv_nth)
  moreover have "last (undos ?t) \<in> set (undos s)"
    using calculation assms(1) by simp
  ultimately show ?thesis using undo_restores [of ?t] assms(2) by simp
qed

end

end
