(* ===== verification/Docs_Laws.thy ===== *)
theory Docs_Laws
  imports Docs_Sessions Era_History
begin

text \<open>
  Laws of the documents client beyond replication: undo and redo, splitting and joining a
  paragraph, the effect of a mark command on the characters, the timers of the broadcast and
  of the autosave, footnote numbers, the counts of find and replace, the blocks a message of a peer
  may touch, and when the text of a table determines its grid.
\<close>

section \<open>Undo and redo\<close>

definition undo_bounded :: "app \<Rightarrow> bool" where
  "undo_bounded a \<longleftrightarrow> length (undoStack a) + length (redoStack a) \<le> UNDO_MAX"

lemma pushUndo_stack: "length (undoStack (pushUndo a)) \<le> max UNDO_MAX (length (undoStack a))"
  by (simp add: pushUndo_def Let_def)

lemma applyDoc_frame [simp]:
  "undoStack (applyDoc d a) = undoStack a" "redoStack (applyDoc d a) = redoStack a"
  "outbox (applyDoc d a) = outbox a" "app_blocks (applyDoc d a) = blocks d"
  by (simp_all add: applyDoc_def Let_def)

lemma restoreSnapshot_frame [simp]:
  "undoStack (restoreSnapshot d a) = undoStack a" "redoStack (restoreSnapshot d a) = redoStack a"
  "outbox (restoreSnapshot d a) = outbox a" "app_blocks (restoreSnapshot d a) = blocks d"
  by (simp_all add: restoreSnapshot_def)

lemma undo_bounded_ops:
  assumes "undo_bounded a"
  shows "undo_bounded (pushUndo a)" "undo_bounded (undoEdit a)" "undo_bounded (redoEdit a)"
  using assms by (auto simp: undo_bounded_def pushUndo_def undoEdit_def redoEdit_def Let_def UNDO_MAX_def
      simp flip: length_greater_0_conv)

text \<open>A document as \<open>applyDoc\<close> leaves it: page, header and footer are filled in.\<close>

definition complete_doc :: "doc \<Rightarrow> bool" where
  "complete_doc d \<longleftrightarrow> page d \<noteq> None \<and> pg_size (the (page d)) \<noteq> [] \<and> doc_header d \<noteq> None \<and> doc_footer d \<noteq> None"

lemma applyDoc_doc: "complete_doc d \<Longrightarrow> docState (applyDoc d a) = d"
  by (cases d) (auto simp: complete_doc_def applyDoc_def applyPageChrome_def Let_def)

lemma restoreSnapshot_doc: "complete_doc d \<Longrightarrow> docState (restoreSnapshot d a) = d"
  by (simp add: restoreSnapshot_def applyDoc_doc)

interpretation doc_history: history docState undoStack redoStack pushUndo undoEdit redoEdit complete_doc
  by unfold_locales
    (auto simp: undoEdit_def redoEdit_def pushUndo_def Let_def restoreSnapshot_doc UNDO_MAX_def tl_append split: list.split)

section \<open>Splitting and joining a paragraph\<close>

lemma splice_ins_update: "k < length xs \<Longrightarrow> (splice_ins (Suc k) x xs)[k := y] = splice_ins (Suc k) x (xs[k := y])"
  by (simp add: splice_ins_def list_update_append take_update_swap)

lemma split_then_merge:
  assumes "block_index bid bs = Some k"
  shows "merge_blocks_at (Suc k) (split_blocks bid off newId bs)
    = bs[k := (bs ! k)\<lparr>inlines := coalesceInlines (inlines (split_blocks bid off newId bs ! k) @ inlines (split_blocks bid off newId bs ! Suc k))\<rparr>]"
proof -
  have k: "k < length bs" using block_index_Some [OF assms] by simp
  obtain b' neu where sb: "split_blocks bid off newId bs = splice_ins (Suc k) neu (bs[k := b'])"
    and "b' = (bs ! k)\<lparr>inlines := inlines b'\<rparr>"
    using assms by (fastforce simp: split_blocks_def Let_def)
  moreover from this have "b'\<lparr>inlines := ys\<rparr> = (bs ! k)\<lparr>inlines := ys\<rparr>" for ys
    by (metis (no_types) block.surjective block.update_convs(20))
  moreover have "splice_ins (Suc k) neu (bs[k := b']) ! k = b'"
    using k by (simp add: splice_ins_def nth_append)
  ultimately show ?thesis
    using k by (simp add: merge_blocks_at_def Let_def splice_ins_update)
qed

lemma split_block_parts:
  fixes off newId
  assumes "block_index bid bs = Some k"
  defines "sb \<equiv> split_blocks bid off newId bs"
  shows "chars (inlines (sb ! k)) @ chars (inlines (sb ! Suc k)) = chars (inlines (bs ! k))"
    "b_id (sb ! Suc k) = newId" "b_id (sb ! k) = bid"
proof -
  let ?p = "splitInlinesAt (inlines (bs ! k)) off"
  let ?b = "(bs ! k)\<lparr>inlines := (if fst ?p \<noteq> [] then fst ?p else [spanFromMarks [] no_marks empty_patch])\<rparr>"
  have k: "k < length bs" "b_id (bs ! k) = bid" using block_index_Some [OF assms(1)] by simp_all
  then have "sb ! k = ?b" "sb ! Suc k = copyBlockShell ?b newId (snd ?p)"
    using assms(1) by (simp_all add: sb_def split_blocks_def Let_def splice_ins_def nth_append)
  moreover have "chars (fst ?p) @ chars (snd ?p) = chars (inlines (bs ! k))" by (simp add: split_chars)
  ultimately show "chars (inlines (sb ! k)) @ chars (inlines (sb ! Suc k)) = chars (inlines (bs ! k))"
    "b_id (sb ! Suc k) = newId" "b_id (sb ! k) = bid"
    using k by (auto simp: copyBlockShell_def)
qed

lemma enter_backspace:
  assumes "block_index bid bs = Some k"
  shows "\<exists>xs. merge_blocks_at (Suc k) (split_blocks bid off newId bs) = bs[k := (bs ! k)\<lparr>inlines := xs\<rparr>]
     \<and> coalesced xs \<and> chars xs = chars (inlines (bs ! k))"
  using split_then_merge [OF assms] split_block_parts(1) [OF assms] by (metis chars_simps(3) coalesce_chars coalesce_coalesced)

section \<open>Toggling a mark\<close>

definition mark_of_char :: "mark \<Rightarrow> char \<times> marks \<Rightarrow> bool" where
  "mark_of_char m c = mark_on m (snd c)"

lemma mark_on_norm [simp]: "mark_on m (norm_marks s) = mark_on m s"
  by (cases m) (simp_all add: norm_marks_def)

lemma all_on_loop_chars:
  "all_on_loop m (int s) (int e) acc xs \<Longrightarrow> i < length (chars xs) \<Longrightarrow> s \<le> acc + i \<Longrightarrow> acc + i < e \<Longrightarrow>
     mark_of_char m (chars xs ! i)"
proof (induction xs arbitrary: acc i)
  case (Cons x xs)
  show ?case
  proof (cases "i < length (sp_text x)")
    case True
    with Cons.prems have "mark_on m x" by (auto simp: Let_def split: if_splits)
    with True show ?thesis by (simp add: nth_append mark_of_char_def span_chars_def)
  next
    case False
    with Cons.IH [of "acc + length (sp_text x)" "i - length (sp_text x)"] Cons.prems show ?thesis
      by (simp add: nth_append span_chars_def Let_def)
  qed
qed simp

lemma mark_assign [simp]: "mark_on m (assign_marks s (mark_patch_of m v)) = v"
  by (cases m) (simp_all add: assign_marks_def empty_patch_def)

lemma patched_nth:
  assumes "p < q" "i < length cs"
  shows "(take p cs @ map f (take (q - p) (drop p cs)) @ drop q cs) ! i
    = (if p \<le> i \<and> i < q then f (cs ! i) else cs ! i)"
proof -
  have "q \<le> i \<Longrightarrow> q + (i - (p + (q - p))) = i" using assms(1) by simp
  then show ?thesis using assms by (simp add: nth_append min_def) linarith
qed

lemma apply_mark_nth:
  assumes "0 \<le> s" "s < e" "i < length (spans_text xs)"
  shows "mark_of_char m (chars (applyMarksRangeLocal xs s e (mark_patch_of m v)) ! i)
    = (if s \<le> int i \<and> int i < e then v else mark_of_char m (chars xs ! i))"
proof -
  have se: "nat s < nat e" using assms(1,2) by simp
  have "s \<le> int i \<and> int i < e \<longleftrightarrow> nat s \<le> i \<and> i < nat e" using assms(1) by linarith
  then show ?thesis using assms patched_nth [OF se, of i "chars xs" "patch_char (mark_patch_of m v)"]
    by (simp add: apply_marks_chars mark_of_char_def patch_char_def)
qed

lemma toggleMark_one:
  assumes "ranged_targets (collectFormatTargets dm (app_blocks a)) = [t]"
    "find_block (t_id t) (app_blocks a) = Some b"
  shows "app_blocks (toggleMark m dm a) = upd_block (t_id t) (\<lambda>b. b\<lparr>inlines := applyMarksRangeLocal (inlines b)
     (t_start t) (t_end t) (mark_patch_of m (\<not> markAllOnInRange (inlines b) (t_start t) (t_end t) m))\<rparr>) (app_blocks a)"
proof -
  have ne: "collectFormatTargets dm (app_blocks a) \<noteq> []" using assms(1) by (auto simp: ranged_targets_def)
  have "app_blocks (toggleMark m dm a) = upd_block (t_id t) (\<lambda>x. x\<lparr>inlines := applyMarksRangeLocal (inlines x)
     (t_start t) (t_end t) (mark_patch_of m (\<not> markAllOnInRange (inlines b) (t_start t) (t_end t) m))\<rparr>) (app_blocks a)"
    using assms ne by (simp add: toggleMark_def Let_def target_inlines_def mark_targets_def mark_target_def)
  also have "\<dots> = upd_block (t_id t) (\<lambda>b. b\<lparr>inlines := applyMarksRangeLocal (inlines b)
     (t_start t) (t_end t) (mark_patch_of m (\<not> markAllOnInRange (inlines b) (t_start t) (t_end t) m))\<rparr>) (app_blocks a)"
    by (rule upd_block_cong) (simp add: assms(2))
  finally show ?thesis .
qed

lemma toggle_effect:
  assumes "ranged_targets (collectFormatTargets dm (app_blocks a)) = [t]" "0 \<le> t_start t"
    "find_block (t_id t) (app_blocks a) = Some b"
  shows "\<exists>b'. find_block (t_id t) (app_blocks (toggleMark m dm a)) = Some b' \<and> blockText b' = blockText b \<and>
     (\<forall>i < length (blockText b). mark_of_char m (chars (inlines b') ! i) =
        (if t_start t \<le> int i \<and> int i < t_end t
         then \<not> markAllOnInRange (inlines b) (t_start t) (t_end t) m
         else mark_of_char m (chars (inlines b) ! i)))"
proof -
  have "t \<in> set (ranged_targets (collectFormatTargets dm (app_blocks a)))" using assms(1) by simp
  then have "t_start t < t_end t" by (simp add: ranged_targets_def)
  with assms show ?thesis
    by (simp add: toggleMark_one find_block_upd apply_mark_nth blockText_def apply_marks_text)
qed

section \<open>Timers\<close>

text \<open>Two inputs before the timer fires: only the difference between the second and the first
  text is sent.\<close>

lemma onBlockInput_untracked:
  assumes "\<not> track_changes (docState a)" "find_block bid (app_blocks a) = Some b"
    "input_text (blockText b) tx \<noteq> blockText b"
  shows "outbox (onBlockInput bid tx rid a) = outbox a" "\<not> track_changes (docState (onBlockInput bid tx rid a))"
  using assms by (simp_all add: onBlockInput_def Let_def)

lemma debounce_sends_last:
  assumes "ws_open a" "track_changes (docState a) = False" "find_block bid (app_blocks a) = Some b"
    "t1 = input_text (blockText b) x1" "t1 \<noteq> blockText b" "t2 = input_text t1 x2" "t2 \<noteq> t1"
  shows "outbox (sync_fire (onBlockInput bid x2 r2 (onBlockInput bid x1 r1 a)))
    = outbox a @ map Op (diff_ops bid (diffText t1 t2) (typingMarks a))"
proof -
  let ?a1 = "onBlockInput bid x1 r1 a"
  have f1: "input_text (blockText b) x1 \<noteq> blockText b" using assms by simp
  from input_text_shown [OF assms(3) f1] obtain b1 where b1: "find_block bid (app_blocks ?a1) = Some b1"
    "blockText b1 = t1" using assms(4) by auto
  have f2: "input_text (blockText b1) x2 \<noteq> blockText b1" using assms b1 by simp
  note e1 = onBlockInput_effect [OF assms(3) f1, where rid = r1]
    onBlockInput_untracked [OF _ assms(3) f1, where rid = r1]
  note e2 = onBlockInput_effect [OF b1(1) f2, where rid = r2]
    onBlockInput_untracked [OF _ b1(1) f2, where rid = r2]
  show ?thesis using assms(1,2,6) b1(2) e1 e2 by (simp add: sync_fire_def)
qed

text \<open>An edit while the snapshot is being saved is forgotten when the save ends.\<close>

lemma autosave_loses_edit:
  assumes "docId a \<noteq> None" "dirty a" "\<not> saving a"
  shows "dirty (scheduleAutosave (autosave_begin a)) \<and>
    \<not> dirty (autosave_end True now (scheduleAutosave (map_doc f (autosave_begin a))))"
  using assms by (auto simp: scheduleAutosave_def autosave_end_def autosave_begin_def setSaveStatus_def emit_def map_doc_def Let_def)

section \<open>Footnotes\<close>

lemma renumber_from_names:
  "map bookmark_name (footnotes (renumber_from n bs)) = map (\<lambda>k. Some (''fn'' @ nat_str k)) [Suc n..<Suc n + length (footnotes bs)]"
proof (induction n bs rule: renumber_from.induct)
  case (2 n b bs)
  then show ?case by (cases "block_type b = ''footnote''") (simp_all add: footnotes_def upt_conv_Cons del: upt_Suc)
qed (simp add: footnotes_def)

lemma renumber_from_frame:
  "map b_id (renumber_from n bs) = map b_id bs" "map inlines (renumber_from n bs) = map inlines bs"
  "map block_type (renumber_from n bs) = map block_type bs" "length (renumber_from n bs) = length bs"
  by (induction n bs rule: renumber_from.induct) simp_all

section \<open>Replacing\<close>

lemma length_str_join: "length (str_join r ps) = sum_list (map length ps) + (length ps - 1) * length r"
  by (induction r ps rule: str_join.induct) simp_all

lemma length_replaced:
  assumes "fnd \<noteq> []"
  shows "length (str_join r (str_split fnd s)) + (length (str_split fnd s) - 1) * length fnd
     = length s + (length (str_split fnd s) - 1) * length r"
proof -
  have "length s = sum_list (map length (str_split fnd s)) + (length (str_split fnd s) - 1) * length fnd"
    using assms length_str_join [of fnd "str_split fnd s"] by simp
  then show ?thesis by (simp add: length_str_join)
qed

lemma countChars_Cons: "countChars (b # bs) = length (blockText b) + countChars bs"
  by (simp add: countChars_def)

lemma flatten_to_simps [simp]: "blockText (flatten_to t b) = t" "b_id (flatten_to t b) = b_id b"
  by (simp_all add: flatten_to_def blockText_def)

lemma replace_all_text:
  assumes "replace_all fnd repl bs = (bs', n)" "fnd \<noteq> []"
  shows "map blockText bs' = map (\<lambda>b. if str_includes fnd (blockText b) then str_join repl (str_split fnd (blockText b))
       else blockText b) bs"
    "map b_id bs' = map b_id bs"
    "countChars bs' + n * length fnd = countChars bs + n * length repl"
proof -
  have "map blockText bs' = map (\<lambda>b. if str_includes fnd (blockText b) then str_join repl (str_split fnd (blockText b))
       else blockText b) bs \<and> map b_id bs' = map b_id bs \<and> countChars bs' + n * length fnd = countChars bs + n * length repl"
    using assms
  proof (induction bs arbitrary: bs' n)
    case Nil
    then show ?case by (simp add: countChars_def)
  next
    case (Cons b bs)
    obtain cs k where c: "replace_all fnd repl bs = (cs, k)" by (cases "replace_all fnd repl bs")
    note IH = Cons.IH [OF c assms(2)]
    have ne: "inlines b \<noteq> []" if "str_includes fnd (blockText b)"
      using that assms(2) by (auto simp: blockText_def str_includes_iff)
    show ?case
    proof (cases "str_includes fnd (blockText b)")
      case True
      with Cons.prems c ne have "bs' = flatten_to (str_join repl (str_split fnd (blockText b))) b # cs"
        "n = k + (length (str_split fnd (blockText b)) - 1)" by (auto simp: Let_def)
      with IH True length_replaced [OF assms(2), of repl "blockText b"] show ?thesis
        by (simp add: countChars_Cons algebra_simps)
    next
      case False
      with Cons.prems c have "bs' = b # cs" "n = k" by (auto simp: Let_def)
      with IH False show ?thesis by (simp add: countChars_Cons)
    qed
  qed
  then show "map blockText bs' = map (\<lambda>b. if str_includes fnd (blockText b) then str_join repl (str_split fnd (blockText b))
       else blockText b) bs"
    "map b_id bs' = map b_id bs" "countChars bs' + n * length fnd = countChars bs + n * length repl"
    by blast+
qed

section \<open>Messages from peers\<close>

text \<open>The blocks an operation may touch: the one it names, both halves of a split, a block and the
  one before it for a join, the block that is brought along.\<close>

fun op_touches :: "op \<Rightarrow> block list \<Rightarrow> string list" where
  "op_touches (Split_block bid off newId) bs = [bid, newId]"
| "op_touches (Merge_blocks bid withPrev) bs =
     (case block_index bid bs of Some (Suc k) \<Rightarrow> [bid, b_id (bs ! k)] | _ \<Rightarrow> [])"
| "op_touches (Insert_block after b) bs = [b_id b]"
| "op_touches oper bs = (case op_target oper of Some bid \<Rightarrow> [bid] | None \<Rightarrow> [])"

definition untouched :: "op \<Rightarrow> block list \<Rightarrow> block list \<Rightarrow> block list" where
  "untouched oper bs = filter (\<lambda>b. b_id b \<notin> set (op_touches oper bs))"

lemma filter_update: "\<not> P (xs ! i) \<Longrightarrow> \<not> P v \<Longrightarrow> filter P (xs[i := v]) = filter P xs"
proof (induction xs arbitrary: i)
  case (Cons x xs)
  then show ?case by (cases i) auto
qed simp

lemma filter_splice_ins: "\<not> P v \<Longrightarrow> filter P (splice_ins i v xs) = filter P xs"
  by (metis append_take_drop_id filter.simps(2) filter_append splice_ins_def)

lemma filter_splice_del:
  assumes "i < length xs" "\<not> P (xs ! i)"
  shows "filter P (splice_del i xs) = filter P xs"
proof -
  have "filter P xs = filter P (take i xs @ xs ! i # drop (Suc i) xs)" using id_take_nth_drop [OF assms(1)] by simp
  then show ?thesis using assms(2) by (simp add: splice_del_def)
qed

lemma filter_upd_first:
  "(\<And>x. P x \<Longrightarrow> \<not> Q x) \<Longrightarrow> (\<And>x. P x \<Longrightarrow> \<not> Q (f x)) \<Longrightarrow> filter Q (upd_first P f xs) = filter Q xs"
  by (induction xs) auto

lemma find_in_filter: "(\<And>x. P x \<Longrightarrow> Q x) \<Longrightarrow> find P (filter Q xs) = find P xs"
  by (induction xs) auto

lemma untouched_on_target:
  assumes "op_target oper = Some bid"
  shows "untouched oper bs (step_blocks oper bs) = untouched oper bs bs"
proof -
  obtain f where "remote_blocks oper bs = on_block bid f bs" "\<And>b. b_id (f b) = b_id b"
    using remote_on_target [OF assms] by blast
  moreover have "op_touches oper bs = [bid]" using assms by (cases oper) simp_all
  ultimately show ?thesis by (simp add: step_on_block untouched_def upd_block_def filter_upd_first)
qed

lemma step_untouched: "untouched oper bs (step_blocks oper bs) = untouched oper bs bs"
proof (cases oper)
  case (Split_block bid off newId)
  then show ?thesis
    by (auto simp: untouched_def step_blocks_def split_blocks_def Let_def filter_splice_ins filter_update
        dest: block_index_Some split: option.split)
next
  case (Merge_blocks bid w)
  then show ?thesis
    by (auto simp: untouched_def step_blocks_def merge_blocks_at_def Let_def filter_splice_del filter_update
        dest: block_index_Some split: option.split nat.split)
next
  case (Insert_block af b)
  then show ?thesis
    by (simp add: untouched_def step_blocks_def insert_block_after_def filter_splice_ins split: option.split)
next
  case (Add_comment c)
  then show ?thesis by (simp add: step_blocks_def)
next
  case (Resolve_comment i)
  then show ?thesis by (simp add: step_blocks_def)
qed (simp_all add: untouched_on_target)

lemma step_distinct_iff:
  assumes "distinct (map b_id bs)"
  shows "distinct (map b_id (step_blocks oper bs)) \<longleftrightarrow> inserts_fresh oper bs"
proof (cases "inserts_fresh oper bs")
  case True
  then show ?thesis using assms remote_blocks_distinct [OF assms True] by (simp add: step_blocks_def split: option.split)
next
  case False
  then obtain af b where "oper = Insert_block af b" "b_id b \<in> b_id ` set bs"
    by (cases oper) (auto simp: inserts_fresh_def)
  with False show ?thesis by (simp add: step_blocks_def ids_insert_block_after(2))
qed

section \<open>The grid and its text\<close>

lemma rectangular_deleteTableCol:
  assumes "rectangular n (tableCellsFromBlock b)" "deleteTableCol b i = Some b'"
  defines "c \<equiv> (case i of None \<Rightarrow> int n - 1 | Some k \<Rightarrow> k)"
  shows "1 < n \<and> rectangular (if 0 \<le> c \<and> c < int n then n - 1 else n) (tableCellsFromBlock b')
    \<and> length (tableCellsFromBlock b') = length (tableCellsFromBlock b)"
proof -
  let ?cells = "tableCellsFromBlock b"
  let ?cut = "\<lambda>row. if 0 \<le> c \<and> c < int (length row) then splice_del (nat c) row else row"
  have ne: "?cells \<noteq> []" and h: "1 < length (hd ?cells)"
    using assms(2) by (auto simp: deleteTableCol_def Let_def split: if_splits)
  then have n: "length (hd ?cells) = n" "1 < n" using assms(1) by (auto simp: rectangular_def)
  have "b' = syncTableTsv (b\<lparr>table_cells := Some (map ?cut ?cells)\<rparr>)"
    using assms(2) ne n(2) unfolding deleteTableCol_def Let_def n(1) c_def by simp
  then have "tableCellsFromBlock b' = map ?cut ?cells"
    using ne cells_sync [of "b\<lparr>table_cells := Some (map ?cut ?cells)\<rparr>"] by simp
  moreover have "length (?cut r) = (if 0 \<le> c \<and> c < int n then n - 1 else n)" if "r \<in> set ?cells" for r
    using that assms(1) by (auto simp: rectangular_def length_splice_del)
  ultimately show ?thesis using n(2) unfolding rectangular_def by (simp only: set_map length_map ball_simps) simp
qed

lemma split_char_subset: "p \<in> set (split_char c s) \<Longrightarrow> set p \<subseteq> set s"
  by (induction c s arbitrary: p rule: split_char.induct) (fastforce split: if_splits list.splits)+

lemma reread_cells:
  assumes "r \<in> set (map (split_char TAB) (split_char NL tx))" "v \<in> set r"
  shows "cell_ok v"
proof -
  obtain l where l: "l \<in> set (split_char NL tx)" "v \<in> set (split_char TAB l)" using assms by auto
  then show ?thesis using split_char_pieces [OF l(1)] split_char_pieces [OF l(2)] split_char_subset [OF l(2)]
    by (auto simp: cell_ok_def)
qed

text \<open>Reading the text again gives the grid exactly when no cell has a separator and the last row
  is not a single empty cell.\<close>

lemma reread_iff:
  assumes "block_type b = ''table''" "tableCellsFromBlock b \<noteq> []" "\<forall>r\<in>set (tableCellsFromBlock b). r \<noteq> []"
  shows "table_cells (refreshTableCellsFromInlines (syncTableTsv b)) = Some (tableCellsFromBlock b) \<longleftrightarrow>
    (\<forall>r\<in>set (tableCellsFromBlock b). \<forall>v\<in>set r. cell_ok v) \<and> last (tableCellsFromBlock b) \<noteq> [[]]"
proof -
  let ?cells = "tableCellsFromBlock b" and ?lines = "map (split_char TAB) (split_char NL (tsv (tableCellsFromBlock b)))"
  have t: "block_type (syncTableTsv b) = ''table''" using assms(1) by (simp add: syncTableTsv_def Let_def)
  have re: "table_cells (refreshTableCellsFromInlines (syncTableTsv b)) = Some (rev (dropWhile (\<lambda>r. r = [[]]) (rev ?lines)))"
    using t by (simp add: refreshTableCellsFromInlines_def)
  have "(\<forall>r\<in>set ?cells. \<forall>v\<in>set r. cell_ok v) \<and> last ?cells \<noteq> [[]]" if eq: "rev (dropWhile (\<lambda>r. r = [[]]) (rev ?lines)) = ?cells"
  proof
    have "set ?cells \<subseteq> set ?lines" using set_dropWhileD [of _ "\<lambda>r. r = [[]]" "rev ?lines"] by (subst eq [symmetric]) auto
    then show "\<forall>r\<in>set ?cells. \<forall>v\<in>set r. cell_ok v" using reread_cells by blast
    have d: "dropWhile (\<lambda>r. r = [[]]) (rev ?lines) = rev ?cells" by (subst eq [symmetric]) simp
    then have "dropWhile (\<lambda>r. r = [[]]) (rev ?lines) \<noteq> []" unfolding d using assms(2) by simp
    from hd_dropWhile [OF this] have "hd (rev ?cells) \<noteq> [[]]" unfolding d .
    then show "last ?cells \<noteq> [[]]" by (simp add: hd_rev)
  qed
  moreover have "table_cells (refreshTableCellsFromInlines (syncTableTsv b)) = Some ?cells"
    if "\<forall>r\<in>set ?cells. \<forall>v\<in>set r. cell_ok v" "last ?cells \<noteq> [[]]"
    using refresh_tsv [OF _ t sync_text] assms that by (simp add: grid_ok_def)
  ultimately show ?thesis using re by auto
qed

end
