(* ===== verification/Era_Hash.thy ===== *)
theory Era_Hash
  imports Era_Strings "HOL-Library.Word"
begin

text \<open>
  The string hash that picks the colour of a peer (\<open>hashStr\<close> of the document client, the loop of
  \<open>peerColor\<close> of the spreadsheet client). The bitwise \<open>| 0\<close> of each round is arithmetic modulo
  \<open>2 ^ 32\<close>, read as a signed number: before it the value is exact because it is far below
  \<open>2 ^ 53\<close>.
\<close>

fun hash_loop :: "32 word \<Rightarrow> string \<Rightarrow> 32 word" where
  "hash_loop h [] = h"
| "hash_loop h (c # s) = hash_loop (h * 31 + of_nat (of_char c)) s"

definition hashStr :: "string \<Rightarrow> int" where
  "hashStr s = sint (hash_loop 0 s)"

text \<open>\<open>colors[Math.abs(h) % colors.length]\<close>\<close>

definition pick_color :: "string list \<Rightarrow> string \<Rightarrow> string" where
  "pick_color colors uid = colors ! nat (\<bar>hashStr uid\<bar> mod int (length colors))"

lemma pick_color_in: "colors \<noteq> [] \<Longrightarrow> pick_color colors uid \<in> set colors"
  unfolding pick_color_def by (rule nth_mem) (simp add: nat_less_iff)

text \<open>The hash is the polynomial of the characters modulo \<open>2 ^ 32\<close>.\<close>

lemma hash_from: "hash_loop h s = h * 31 ^ length s + hash_loop 0 s"
proof (induction s arbitrary: h)
  case (Cons c s)
  show ?case using Cons [of "h * 31 + of_nat (of_char c)"] Cons [of "of_nat (of_char c)"]
    by (simp add: algebra_simps)
qed simp

lemma hash_append: "hash_loop 0 (s @ t) = hash_loop 0 s * 31 ^ length t + hash_loop 0 t"
proof -
  have "hash_loop h (s @ t) = hash_loop (hash_loop h s) t" for h
    by (induction s arbitrary: h) simp_all
  then show ?thesis using hash_from [of "hash_loop 0 s" t] by simp
qed

end
