(* ===== verification/Docs_Html.thy ===== *)
theory Docs_Html
  imports Docs_Model Era_Hash
begin

text \<open>
  The markup the documents client paints (\<open>ui/docs/web/app.js\<close>: \<open>escapeHtml\<close>,
  \<open>renderInlineHtml\<close>, \<open>hashStr\<close>, \<open>peerColor\<close>). The reading of the markup back as text,
  \<open>strip_tags\<close> and \<open>unescape\<close>, is the specification it is compared with.
\<close>

section \<open>Escaping\<close>

definition escapeHtml :: "string \<Rightarrow> string" where
  "escapeHtml s =
     replace_char CHR 0x22 ''&quot;'' (replace_char CHR ''>'' ''&gt;''
       (replace_char CHR ''<'' ''&lt;'' (replace_char CHR ''&'' ''&amp;'' s)))"

definition tagged :: "string \<Rightarrow> bool \<Rightarrow> string \<Rightarrow> string" where
  "tagged t on html = (if on then ''<'' @ t @ ''>'' @ html @ ''</'' @ t @ ''>'' else html)"

definition span_style :: "span \<Rightarrow> string list" where
  "span_style s =
     (if truthy_str (font_family s) then [''font-family:'' @ or_empty (font_family s)] else [])
     @ (if or_zero (font_size_pt s) \<noteq> 0 then [''font-size:'' @ int_str (or_zero (font_size_pt s)) @ ''pt''] else [])
     @ (if truthy_str (color s) then [''color:'' @ or_empty (color s)] else [])
     @ (if truthy_str (highlight s) then [''background:'' @ or_empty (highlight s)] else [])"

definition marked :: "span \<Rightarrow> string \<Rightarrow> string" where
  "marked s html =
     tagged ''sub'' (subscript s) (tagged ''sup'' (superscript s) (tagged ''s'' (strike s)
       (tagged ''u'' (underline s) (tagged ''i'' (italic s) (tagged ''b'' (bold s) html)))))"

definition styled :: "span \<Rightarrow> string \<Rightarrow> string" where
  "styled s html =
     (if span_style s = [] then html
      else ''<span style='' @ [CHR 0x22] @ str_join '';'' (span_style s) @ [CHR 0x22] @ ''>'' @ html @ ''</span>'')"

definition linked :: "span \<Rightarrow> string \<Rightarrow> string" where
  "linked s html =
     (if truthy_str (link_url s)
      then ''<a href='' @ [CHR 0x22] @ escapeHtml (or_empty (link_url s)) @ [CHR 0x22] @ '' target=''
           @ [CHR 0x22] @ ''_blank'' @ [CHR 0x22] @ '' rel='' @ [CHR 0x22] @ ''noopener noreferrer''
           @ [CHR 0x22] @ ''>'' @ html @ ''</a>''
      else html)"

definition render_span :: "span \<Rightarrow> string" where
  "render_span s =
     linked s (styled s (marked s (replace_char CHR 0x0A ''<br>'' (escapeHtml (sp_text s)))))"

definition renderInlineHtml :: "block \<Rightarrow> string" where
  "renderInlineHtml b = concat (map render_span (inlines b))"

section \<open>The colour of a peer\<close>

definition peer_colors :: "string list" where
  "peer_colors = [''#c45'', ''#2a7'', ''#36c'', ''#a6a'', ''#e80'', ''#088'']"

definition peerColor :: "string \<Rightarrow> string" where
  "peerColor uid = pick_color peer_colors uid"

section \<open>Reading markup back\<close>

text \<open>A line break is read as a newline, every other tag as nothing.\<close>

fun strip_tags :: "bool \<Rightarrow> string \<Rightarrow> string" where
  "strip_tags inside [] = []"
| "strip_tags False (c # s) =
     (if c = CHR ''<'' then if take 3 s = ''br>'' then CHR 0x0A # strip_tags False (drop 3 s) else strip_tags True s
      else c # strip_tags False s)"
| "strip_tags True (c # s) = (if c = CHR ''>'' then strip_tags False s else strip_tags True s)"

fun unescape :: "string \<Rightarrow> string" where
  "unescape [] = []"
| "unescape (c # s) =
     (if c = CHR ''&'' \<and> take 4 s = ''amp;'' then CHR ''&'' # unescape (drop 4 s)
      else if c = CHR ''&'' \<and> take 3 s = ''lt;'' then CHR ''<'' # unescape (drop 3 s)
      else if c = CHR ''&'' \<and> take 3 s = ''gt;'' then CHR ''>'' # unescape (drop 3 s)
      else if c = CHR ''&'' \<and> take 5 s = ''quot;'' then CHR 0x22 # unescape (drop 5 s)
      else c # unescape s)"

definition escape_char :: "char \<Rightarrow> string" where
  "escape_char c =
     (if c = CHR ''&'' then ''&amp;'' else if c = CHR ''<'' then ''&lt;''
      else if c = CHR ''>'' then ''&gt;'' else if c = CHR 0x22 then ''&quot;'' else [c])"

lemma replace_char_simps [simp]:
  "replace_char c r [] = []"
  "replace_char c r (x # s) = (if x = c then r else [x]) @ replace_char c r s"
  "replace_char c r (s @ t) = replace_char c r s @ replace_char c r t"
  by (simp_all add: replace_char_def)

lemma escape_one_pass: "escapeHtml s = concat (map escape_char s)"
  by (induction s) (auto simp: escapeHtml_def escape_char_def)

lemma unescape_escape: "unescape (escapeHtml s) = s"
  unfolding escape_one_pass by (induction s) (auto simp: escape_char_def)

lemma escape_safe:
  "set (escapeHtml s) \<inter> {CHR ''<'', CHR ''>'', CHR 0x22} = {}"
  unfolding escape_one_pass by (induction s) (auto simp: escape_char_def)

text \<open>\<open>html\<close> reads as \<open>t\<close> whatever follows it.\<close>

definition reads_as :: "string \<Rightarrow> string \<Rightarrow> bool" where
  "reads_as html t \<longleftrightarrow> (\<forall>s. strip_tags False (html @ s) = t @ strip_tags False s)"

lemma strip_inside: "CHR ''>'' \<notin> set t \<Longrightarrow> strip_tags True (t @ CHR ''>'' # s) = strip_tags False s"
  by (induction t) auto

lemma not_br: "CHR ''>'' \<notin> set t \<Longrightarrow> t \<noteq> ''br'' \<Longrightarrow> take 3 (t @ CHR ''>'' # s) \<noteq> ''br>''"
  by (cases t; cases "tl t"; cases "tl (tl t)") (auto simp: numeral_3_eq_3)

lemma reads_as_tag: "CHR ''>'' \<notin> set t \<Longrightarrow> t \<noteq> ''br'' \<Longrightarrow> reads_as (CHR ''<'' # t @ ''>'') []"
  using not_br [of t] by (simp add: reads_as_def strip_inside)

lemma reads_as_append: "reads_as h t \<Longrightarrow> reads_as h' t' \<Longrightarrow> reads_as (h @ h') (t @ t')"
  by (simp add: reads_as_def)

lemma reads_as_wrapped:
  assumes "reads_as h t" "CHR ''>'' \<notin> set o1" "CHR ''>'' \<notin> set c1" "o1 \<noteq> ''br''" "c1 \<noteq> ''br''"
  shows "reads_as (CHR ''<'' # o1 @ ''>'' @ h @ ''<'' @ c1 @ ''>'') t"
  using reads_as_append [OF reads_as_tag [OF assms(2,4)] reads_as_append [OF assms(1) reads_as_tag [OF assms(3,5)]]]
  by simp

lemma reads_as_tagged: "reads_as h t \<Longrightarrow> CHR ''>'' \<notin> set g \<Longrightarrow> g \<noteq> ''br'' \<Longrightarrow> reads_as (tagged g on h) t"
  using reads_as_wrapped [of h t g "CHR ''/'' # g"] by (simp add: tagged_def)

lemma reads_as_text: "CHR ''<'' \<notin> set s \<Longrightarrow> reads_as (replace_char CHR 0x0A ''<br>'' s) s"
  by (induction s) (auto simp: reads_as_def)

text \<open>The style values the code copies into the markup unescaped.\<close>

definition style_safe :: "span \<Rightarrow> bool" where
  "style_safe s \<longleftrightarrow> CHR ''>'' \<notin> set (or_empty (font_family s)) \<union> set (or_empty (color s)) \<union> set (or_empty (highlight s))"

lemma int_str_no_gt: "CHR ''>'' \<notin> set (int_str n)"
proof -
  have "CHR ''>'' \<notin> set (nat_str k)" for k using nat_str_digits [of "CHR ''>''" k] by (auto simp: is_digit_def)
  then show ?thesis by (simp add: int_str_def)
qed

lemma set_str_join_sub: "set (str_join sep ps) \<subseteq> set sep \<union> \<Union> (set ` set ps)"
  by (induction sep ps rule: str_join.induct) auto

lemma style_no_gt: "style_safe s \<Longrightarrow> CHR ''>'' \<notin> set (str_join '';'' (span_style s))"
  using set_str_join_sub [of "'';''" "span_style s"] int_str_no_gt
  by (fastforce simp: span_style_def style_safe_def split: if_splits)

lemma reads_as_marked: "reads_as h t \<Longrightarrow> reads_as (marked s h) t"
  by (simp add: marked_def reads_as_tagged)

lemma reads_as_styled: "reads_as h t \<Longrightarrow> style_safe s \<Longrightarrow> reads_as (styled s h) t"
  using reads_as_wrapped [of h t "''span style='' @ [CHR 0x22] @ str_join '';'' (span_style s) @ [CHR 0x22]" "''/span''"]
    style_no_gt [of s] by (simp add: styled_def)

lemma reads_as_linked: "reads_as h t \<Longrightarrow> reads_as (linked s h) t"
  using reads_as_wrapped [of h t "''a href='' @ [CHR 0x22] @ escapeHtml (or_empty (link_url s)) @ [CHR 0x22] @ '' target=''
        @ [CHR 0x22] @ ''_blank'' @ [CHR 0x22] @ '' rel='' @ [CHR 0x22] @ ''noopener noreferrer'' @ [CHR 0x22]" "''/a''"]
    escape_safe [of "or_empty (link_url s)"] by (auto simp: linked_def)

lemma render_span_reads:
  assumes "style_safe s"
  shows "reads_as (render_span s) (escapeHtml (sp_text s))"
proof -
  have "CHR ''<'' \<notin> set (escapeHtml (sp_text s))" using escape_safe [of "sp_text s"] by auto
  then show ?thesis unfolding render_span_def
    by (intro reads_as_linked reads_as_styled reads_as_marked reads_as_text assms)
qed

lemma render_reads:
  assumes "\<forall>s\<in>set (inlines b). style_safe s"
  shows "reads_as (renderInlineHtml b) (escapeHtml (blockText b))"
proof -
  have "reads_as (concat (map render_span xs)) (escapeHtml (spans_text xs))"
    if "\<forall>s\<in>set xs. style_safe s" for xs
    using that
  proof (induction xs)
    case (Cons x xs)
    then show ?case using reads_as_append [OF render_span_reads [of x]] by (simp add: escape_one_pass)
  qed (simp add: reads_as_def escapeHtml_def)
  with assms show ?thesis by (simp add: renderInlineHtml_def blockText_def)
qed

lemma html_reads_back:
  assumes "\<forall>s\<in>set (inlines b). style_safe s"
  shows "unescape (strip_tags False (renderInlineHtml b)) = blockText b"
  using render_reads [OF assms] by (auto simp: reads_as_def unescape_escape dest!: spec [of _ "[]"])

lemma peerColor_in: "peerColor uid \<in> set peer_colors"
  unfolding peerColor_def by (rule pick_color_in) (simp add: peer_colors_def)

end
