(* ===== verification/Docs_Properties.thy ===== *)
theory Docs_Properties
  imports Docs_Laws Docs_Html
begin

text \<open>
  The properties of the documents client, each with a witness on a concrete document.
\<close>

section \<open>Concrete documents\<close>

definition bold_span :: "string \<Rightarrow> span" where
  "bold_span t = (plain_span t)\<lparr>bold := True\<rparr>"

definition sample_doc :: "block list \<Rightarrow> doc" where
  "sample_doc bs = \<lparr> blocks = bs, comments = [], revisions = [], track_changes = False,
     page = Some default_page, doc_header = Some default_hf, doc_footer = Some default_hf, doc_styles = [] \<rparr>"

definition sample_app :: "block list \<Rightarrow> app" where
  "sample_app bs = \<lparr> docState = sample_doc bs, docId = Some ''d1'', docName = ''Doc'', userId = ''u1'',
     ws_open = True, outbox = [], ui = [], typingMarks = None, formatPainterClip = None, undoStack = [],
     redoStack = [], dirty = False, saving = False, autosave_armed = False, sync_pending = None,
     findMatches = [], findCursor = -1, lastFindQuery = [], peerCursors = [] \<rparr>"

definition two_blocks :: "block list" where
  "two_blocks = [new_block ''a'' ''paragraph'' [plain_span ''ab'', bold_span ''cd''],
                 new_block ''b'' ''paragraph'' [plain_span ''xy'']]"

definition range_sel :: "string \<Rightarrow> int \<Rightarrow> int \<Rightarrow> dom" where
  "range_sel i s e = \<lparr> d_cur = Some i, d_sel = Some (Some (i, s), Some (i, e)) \<rparr>"

definition sample_session :: "edit_event list" where
  "sample_session = [Toggle_mark Bold (range_sel ''a'' 0 3), Type_text ''b'' ''x1y'' ''r1'',
     Key_down Enter ''a'' (Some (2, 2)) ''n1'', Align ''center'' (range_sel ''n1'' 0 0)]"

definition sample_table :: "block list" where
  "sample_table = [(new_block ''t'' ''table'' [plain_span (tsv [[''p'', ''q''], [''r'', '''']])])
     \<lparr>table_cells := Some [[''p'', ''q''], [''r'', '''']]\<rparr>]"

section \<open>Convergence\<close>

text \<open>
  A session converges when a peer that held the same blocks and applies the messages the client
  sent, in order, ends with the same blocks.
\<close>

definition converges :: "edit_event list \<Rightarrow> app \<Rightarrow> bool" where
  "converges es a \<longleftrightarrow> fold deliver (outbox (fold edit_step es a)) (app_blocks a) = app_blocks (fold edit_step es a)"

definition typed_fast :: "app \<Rightarrow> app" where
  "typed_fast a = sync_fire (onBlockInput ''b'' ''xy12'' ''r2'' (onBlockInput ''b'' ''xy1'' ''r1'' a))"

definition listed_heading :: "block list" where
  "listed_heading = [(new_block ''h'' ''heading'' [plain_span []])\<lparr>list_type := Some ''bullet''\<rparr>]"

definition narrow_table :: "block list" where
  "narrow_table = [(new_block ''t'' ''table'' [plain_span ''p''])\<lparr>table_cells := Some [[''p'']]\<rparr>]"

text \<open>
  C1. Peers converge under the conditions of \<open>edit_ok\<close>: for every session made of typing, keys,
  character marks, paragraph formats, block types, block insertion and table edits, in which
  the socket is open, every input is followed by the 200 ms pause that broadcasts it before the next
  event, new blocks get new ids, indents are positive, alignments and block types not empty, a
  list type is on a list item or paragraph, and tables have at least two columns and cells without
  tab or newline. Each condition is needed: with a closed socket, two inputs within the pause, an
  id that is taken, indent 0, an empty alignment or block type, Enter in an empty heading that has a
  list type, a row added to a one-column table or a tab in a cell, the blocks of the peer differ.
\<close>

theorem docs_peers_converge:
  "(all_ok edit_ok edit_step es a \<and> outbox a = [] \<longrightarrow> converges es a)
   \<and> (let a0 = sample_app two_blocks; sel = range_sel ''b'' 0 0 in
        \<not> converges [Type_text ''b'' ''x1y'' ''r1''] (a0\<lparr>ws_open := False\<rparr>)
      \<and> fold deliver (outbox (typed_fast a0)) (app_blocks a0) \<noteq> app_blocks (typed_fast a0)
      \<and> \<not> converges [Key_down Enter ''a'' (Some (1, 1)) ''b''] a0
      \<and> \<not> converges [Indent 0 sel] a0 \<and> \<not> converges [Align [] sel] a0 \<and> \<not> converges [Block_type [] 0 sel] a0)
   \<and> \<not> converges [Key_down Enter ''h'' None ''n''] (sample_app listed_heading)
   \<and> \<not> converges [Table_row_add ''t''] (sample_app narrow_table)
   \<and> \<not> converges [Table_cell ''t'' 0 0 (''p'' @ [TAB])] (sample_app sample_table)"
proof -
  have "converges es a" if "all_ok edit_ok edit_step es a" "outbox a = []"
    unfolding converges_def by (rule docs_peers.peers_converge [OF that])
  moreover have "\<not> converges [Type_text ''b'' ''x1y'' ''r1''] ((sample_app two_blocks)\<lparr>ws_open := False\<rparr>)"
    "fold deliver (outbox (typed_fast (sample_app two_blocks))) (app_blocks (sample_app two_blocks)) \<noteq> app_blocks (typed_fast (sample_app two_blocks))"
    "\<not> converges [Key_down Enter ''a'' (Some (1, 1)) ''b''] (sample_app two_blocks)"
    "\<not> converges [Indent 0 (range_sel ''b'' 0 0)] (sample_app two_blocks)"
    "\<not> converges [Align [] (range_sel ''b'' 0 0)] (sample_app two_blocks)"
    "\<not> converges [Block_type [] 0 (range_sel ''b'' 0 0)] (sample_app two_blocks)"
    "\<not> converges [Key_down Enter ''h'' None ''n''] (sample_app listed_heading)"
    "\<not> converges [Table_row_add ''t''] (sample_app narrow_table)"
    "\<not> converges [Table_cell ''t'' 0 0 (''p'' @ [TAB])] (sample_app sample_table)" by code_simp+
  ultimately show ?thesis unfolding Let_def by blast
qed

theorem docs_peers_converge_witness:
  "converges sample_session (sample_app two_blocks)
   \<and> length (outbox (fold edit_step sample_session (sample_app two_blocks))) = 4"
proof
  have "all_ok edit_ok edit_step sample_session (sample_app two_blocks)" "outbox (sample_app two_blocks) = []" by code_simp+
  with docs_peers_converge show "converges sample_session (sample_app two_blocks)" by blast
  show "length (outbox (fold edit_step sample_session (sample_app two_blocks))) = 4" by code_simp
qed

text \<open>
  C2. What \<open>onBlockInput\<close> stores is what the browser shows: after an input event the text of
  the block is the element's text (less the newline the browser appends), and every other
  block is as before.
\<close>

theorem docs_input_shows_typed_text:
  assumes "find_block bid (app_blocks a) = Some b" "j \<noteq> bid"
  shows "map_option blockText (find_block bid (app_blocks (onBlockInput bid tx rid a)))
       = Some (input_text (blockText b) tx)
     \<and> find_block j (app_blocks (onBlockInput bid tx rid a)) = find_block j (app_blocks a)"
proof (cases "input_text (blockText b) tx = blockText b")
  case True
  with assms show ?thesis by (simp add: onBlockInput_def)
next
  case False
  show ?thesis using input_text_shown [OF assms(1) False] onBlockInput_effect(1) [OF assms(1) False] assms(2)
    by (simp add: find_block_upd_other)
qed

theorem docs_input_shows_typed_text_witness:
  "map_option blockText (find_block ''b'' (app_blocks (onBlockInput ''b'' ''x1y'' ''r'' (sample_app two_blocks))))
     = Some (input_text ''xy'' ''x1y'')
   \<and> find_block ''a'' (app_blocks (onBlockInput ''b'' ''x1y'' ''r'' (sample_app two_blocks)))
     = find_block ''a'' (app_blocks (sample_app two_blocks))"
  using docs_input_shows_typed_text [of "''b''" "sample_app two_blocks" "new_block ''b'' ''paragraph'' [plain_span ''xy'']"
    "''a''" "''x1y''" "''r''"]
  by (simp add: sample_app_def sample_doc_def two_blocks_def find_block_def new_block_def blockText_def)

section \<open>The span engine\<close>

text \<open>
  C3. \<open>insertTextPreserving\<close> on a canonical span list is insertion into the sequence of
  marked characters: the inserted characters carry the typing marks when there are any, and
  otherwise the marks left of the caret (right of it at the start, none in an empty
  paragraph); an offset outside the text is clamped.
\<close>

theorem docs_insert_refines:
  assumes "coalesced xs"
  shows "chars (insertTextPreserving xs off t ty) =
     (let k = clamp_off off (length (spans_text xs));
          m = (case ty of Some m \<Rightarrow> norm_marks m | None \<Rightarrow> caret_marks (chars xs) k)
      in take k (chars xs) @ map (\<lambda>c. (c, m)) t @ drop k (chars xs))"
  by (cases ty) (simp_all add: insert_typing_chars insert_plain_chars [OF assms] Let_def)

theorem docs_insert_refines_witness:
  "chars (insertTextPreserving [plain_span ''ab'', bold_span ''cd''] 3 ''Z'' None)
     = take 3 (chars [plain_span ''ab'', bold_span ''cd''])
       @ [(CHR ''Z'', caret_marks (chars [plain_span ''ab'', bold_span ''cd'']) 3)]
       @ drop 3 (chars [plain_span ''ab'', bold_span ''cd''])"
proof -
  have "coalesced [plain_span ''ab'', bold_span ''cd'']" by code_simp
  from docs_insert_refines [OF this, of 3 "''Z''" None] show ?thesis
    by (simp add: clamp_off_def plain_span_def bold_span_def)
qed

text \<open>
  C4. \<open>deleteRangePreserving\<close> and \<open>applyMarksRangeLocal\<close> act on exactly the characters of
  the range: deletion removes them, a patch rewrites their marks, all others are kept with
  their marks.
\<close>

theorem docs_range_edits_refine:
  assumes "0 \<le> start" "start < stop"
  shows "chars (deleteRangePreserving xs start stop)
       = take (nat start) (chars xs) @ drop (nat stop) (chars xs)
     \<and> chars (applyMarksRangeLocal xs start stop p)
       = take (nat start) (chars xs)
         @ map (patch_char p) (take (nat stop - nat start) (drop (nat start) (chars xs)))
         @ drop (nat stop) (chars xs)"
  using assms by (simp add: delete_chars apply_marks_chars)

theorem docs_range_edits_refine_witness:
  "chars (deleteRangePreserving [plain_span ''ab'', bold_span ''cd''] 1 3)
     = take 1 (chars [plain_span ''ab'', bold_span ''cd'']) @ drop 3 (chars [plain_span ''ab'', bold_span ''cd''])"
  using docs_range_edits_refine [of 1 3 "[plain_span ''ab'', bold_span ''cd'']" clear_patch] by simp

text \<open>
  C5. Span lists are kept canonical and the canonical form is unique: every edit returns a
  coalesced list, and two coalesced lists with the same marked characters have the same
  spans (up to the encodings of an absent value).
\<close>

theorem docs_canonical_form:
  "coalesced (insertTextPreserving xs off t ty) \<and> coalesced (deleteRangePreserving xs s e)
   \<and> coalesced (applyMarksRangeLocal xs s e p)
   \<and> (coalesced ys \<and> coalesced zs \<and> chars ys = chars zs \<longrightarrow> map span_key ys = map span_key zs)"
  using coalesced_determined by simp

theorem docs_canonical_form_witness:
  "map span_key (insertTextPreserving [plain_span ''ad''] 1 ''bc'' None)
     = map span_key (deleteRangePreserving [plain_span ''abcde''] 4 5)"
proof -
  let ?ys = "insertTextPreserving [plain_span ''ad''] 1 ''bc'' None"
  let ?zs = "deleteRangePreserving [plain_span ''abcde''] 4 5"
  have "coalesced ?ys \<and> coalesced ?zs \<and> chars ?ys = chars ?zs" by code_simp
  then show ?thesis using docs_canonical_form [of "[]" 0 "[]" None 0 0 clear_patch ?ys ?zs] by blast
qed

text \<open>
  Toggling a mark on a selected range of one block: the text is unchanged; every
  character of the range gets the mark, or loses it when all of the range had it; the mark
  of every other character is unchanged.
\<close>

theorem docs_toggle_mark:
  assumes "ranged_targets (collectFormatTargets dm (app_blocks a)) = [t]" "0 \<le> t_start t"
    "find_block (t_id t) (app_blocks a) = Some b"
  shows "\<exists>b'. find_block (t_id t) (app_blocks (toggleMark m dm a)) = Some b' \<and> blockText b' = blockText b \<and>
     (\<forall>i < length (blockText b). mark_of_char m (chars (inlines b') ! i) =
        (if t_start t \<le> int i \<and> int i < t_end t
         then \<not> markAllOnInRange (inlines b) (t_start t) (t_end t) m
         else mark_of_char m (chars (inlines b) ! i)))"
  by (rule toggle_effect [OF assms])

theorem docs_toggle_mark_witness:
  "\<exists>b'. find_block ''a'' (app_blocks (toggleMark Bold (range_sel ''a'' 1 3) (sample_app two_blocks))) = Some b'
     \<and> blockText b' = ''abcd'' \<and> mark_of_char Bold (chars (inlines b') ! 1) \<and> mark_of_char Bold (chars (inlines b') ! 2)"
proof -
  let ?t = "\<lparr> t_id = ''a'', t_start = 1, t_end = 3, t_collapsed = False \<rparr>"
  let ?b = "new_block ''a'' ''paragraph'' [plain_span ''ab'', bold_span ''cd'']"
  have "ranged_targets (collectFormatTargets (range_sel ''a'' 1 3) (app_blocks (sample_app two_blocks))) = [?t]"
    by code_simp
  moreover have "0 \<le> t_start ?t" by simp
  moreover have "find_block (t_id ?t) (app_blocks (sample_app two_blocks)) = Some ?b" by code_simp
  ultimately obtain b' where b': "find_block ''a'' (app_blocks (toggleMark Bold (range_sel ''a'' 1 3) (sample_app two_blocks))) = Some b'"
    "blockText b' = blockText ?b"
    "\<forall>i < length (blockText ?b). mark_of_char Bold (chars (inlines b') ! i) =
        (if 1 \<le> int i \<and> int i < 3 then \<not> markAllOnInRange (inlines ?b) 1 3 Bold
         else mark_of_char Bold (chars (inlines ?b) ! i))"
    using docs_toggle_mark [of "range_sel ''a'' 1 3" "sample_app two_blocks" ?t ?b Bold] by auto
  have "\<not> markAllOnInRange (inlines ?b) 1 3 Bold" and t: "blockText ?b = ''abcd''" by code_simp+
  with b'(3) have "mark_of_char Bold (chars (inlines b') ! 1) \<and> mark_of_char Bold (chars (inlines b') ! 2)" by simp
  with b'(1,2) t show ?thesis by auto
qed

section \<open>Messages from peers\<close>

text \<open>
  C6. What a message of a peer does to a document with distinct block ids. The ids are distinct
  afterwards exactly when the message does not insert a block whose id is taken: an inserted block
  is not checked, and such a message duplicates the id; a split with a taken id is ignored. All
  blocks but the ones the message names (the block, for a split also the new one, for a join also
  the one before it) are as before, in the same order, and found as before.
\<close>

theorem docs_remote_op_safe:
  assumes "distinct (map b_id (app_blocks a))"
  shows "(let bs = app_blocks a; bs' = app_blocks (applyRemoteOp oper a) in
      (distinct (map b_id bs') \<longleftrightarrow> (\<forall>after b. oper = Insert_block after b \<longrightarrow> b_id b \<notin> b_id ` set bs))
    \<and> untouched oper bs bs' = untouched oper bs bs
    \<and> (\<forall>j. j \<notin> set (op_touches oper bs) \<longrightarrow> find_block j bs' = find_block j bs))"
proof -
  have u: "untouched oper bs (step_blocks oper bs) = untouched oper bs bs" for bs by (rule step_untouched)
  have "find_block j (step_blocks oper bs) = find_block j bs" if "j \<notin> set (op_touches oper bs)" for j bs
  proof -
    have "find_block j (untouched oper bs bs') = find_block j bs'" for bs'
      unfolding untouched_def find_block_def by (rule find_in_filter) (use that in auto)
    then show ?thesis using u [of bs] by metis
  qed
  moreover have "inserts_fresh oper bs \<longleftrightarrow> (\<forall>after b. oper = Insert_block after b \<longrightarrow> b_id b \<notin> b_id ` set bs)" for bs
    by (cases oper) (auto simp: inserts_fresh_def)
  ultimately show ?thesis using u step_distinct_iff [OF assms] by (simp add: Let_def)
qed

theorem docs_remote_op_safe_witness:
  "distinct (map b_id (app_blocks (applyRemoteOp (Split_block ''a'' 2 ''c'') (sample_app two_blocks))))
   \<and> \<not> distinct (map b_id (app_blocks (applyRemoteOp (Insert_block None (new_block ''a'' ''paragraph'' [])) (sample_app two_blocks))))"
proof -
  have d: "distinct (map b_id (app_blocks (sample_app two_blocks)))" "''a'' \<in> b_id ` set (app_blocks (sample_app two_blocks))" by code_simp+
  show ?thesis using docs_remote_op_safe [OF d(1), of "Split_block ''a'' 2 ''c''"]
      docs_remote_op_safe [OF d(1), of "Insert_block None (new_block ''a'' ''paragraph'' [])"] d(2)
    by (simp add: Let_def new_block_def)
qed

text \<open>
  Splitting a paragraph and joining the two halves again gives back the block list, with
  the same marked characters in the block and its spans in canonical form.
\<close>

theorem docs_split_merge_roundtrip:
  assumes "block_index bid bs = Some k"
  shows "\<exists>xs. merge_blocks_at (Suc k) (split_blocks bid off newId bs) = bs[k := (bs ! k)\<lparr>inlines := xs\<rparr>]
     \<and> coalesced xs \<and> chars xs = chars (inlines (bs ! k))"
  by (rule enter_backspace [OF assms])

theorem docs_split_merge_roundtrip_witness:
  "\<exists>xs. merge_blocks_at 1 (split_blocks ''a'' 3 ''n'' two_blocks)
      = two_blocks[0 := (two_blocks ! 0)\<lparr>inlines := xs\<rparr>]
     \<and> coalesced xs \<and> chars xs = chars (inlines (two_blocks ! 0))"
proof -
  have "block_index ''a'' two_blocks = Some 0" by code_simp
  from docs_split_merge_roundtrip [OF this, of 3 "''n''"] show ?thesis by simp
qed

section \<open>Undo, timers\<close>

text \<open>
  Undo and redo: the two stacks together never exceed the bound; undoing the last edit
  restores the document before it, and redoing after an undo restores the document after it.
\<close>

theorem docs_undo_redo:
  assumes "complete_doc (docState a)" "complete_doc (docState b)"
    "undoStack b = undoStack (pushUndo a)" "undo_bounded b"
  shows "docState (undoEdit b) = docState a \<and> docState (redoEdit (undoEdit b)) = docState b
    \<and> undo_bounded (pushUndo b) \<and> undo_bounded (undoEdit b) \<and> undo_bounded (redoEdit b)"
proof -
  have "undoStack b \<noteq> []" using assms(3) doc_history.checkpoint_top(1) [of a] by simp
  then show ?thesis
    using doc_history.undo_edit [OF assms(1,3)] doc_history.redo_undo [OF _ assms(2)] undo_bounded_ops [OF assms(4)]
    by blast
qed

theorem docs_undo_redo_witness:
  "docState (undoEdit (toggleMark Italic (range_sel ''b'' 0 2) (sample_app two_blocks))) = sample_doc two_blocks"
proof -
  let ?a = "sample_app two_blocks" and ?b = "toggleMark Italic (range_sel ''b'' 0 2) (sample_app two_blocks)"
  have "complete_doc (docState ?a)" "complete_doc (docState ?b)" "undoStack ?b = undoStack (pushUndo ?a)"
    "undo_bounded ?b" by code_simp+
  from docs_undo_redo [OF this] show ?thesis by (simp add: sample_app_def)
qed

text \<open>
  C7. The broadcast timer keeps one difference only: when a second input arrives before the
  timer fires, the messages sent carry the difference between the second and the first text,
  and the first difference is never sent.
\<close>

theorem docs_debounce_drops_first_edit:
  assumes "ws_open a" "track_changes (docState a) = False" "find_block bid (app_blocks a) = Some b"
    "t1 = input_text (blockText b) x1" "t1 \<noteq> blockText b" "t2 = input_text t1 x2" "t2 \<noteq> t1"
  shows "outbox (sync_fire (onBlockInput bid x2 r2 (onBlockInput bid x1 r1 a)))
    = outbox a @ map Op (diff_ops bid (diffText t1 t2) (typingMarks a))"
  by (rule debounce_sends_last [OF assms])

theorem docs_debounce_drops_first_edit_witness:
  "outbox (sync_fire (onBlockInput ''b'' ''xy12'' ''r2'' (onBlockInput ''b'' ''xy1'' ''r1'' (sample_app two_blocks))))
     = [Op (Insert_text ''b'' 3 ''2'' None)]"
proof -
  let ?a = "sample_app two_blocks" and ?b = "new_block ''b'' ''paragraph'' [plain_span ''xy'']"
  have "ws_open ?a" "track_changes (docState ?a) = False" "find_block ''b'' (app_blocks ?a) = Some ?b"
    "''xy1'' = input_text (blockText ?b) ''xy1''" "''xy1'' \<noteq> blockText ?b"
    "''xy12'' = input_text ''xy1'' ''xy12''" "''xy12'' \<noteq> ''xy1''" by code_simp+
  note docs_debounce_drops_first_edit [OF this, of "''r2''" "''r1''"]
  also have "outbox ?a @ map Op (diff_ops ''b'' (diffText ''xy1'' ''xy12'') (typingMarks ?a))
      = [Op (Insert_text ''b'' 3 ''2'' None)]" by code_simp
  finally show ?thesis .
qed

text \<open>
  Autosave: an edit made while the snapshot is being saved marks the document dirty, and
  the end of the successful save clears the mark although the edit was not saved.
\<close>

theorem docs_autosave_clears_later_edit:
  assumes "docId a \<noteq> None" "dirty a" "\<not> saving a"
  shows "dirty (scheduleAutosave (autosave_begin a))
    \<and> \<not> dirty (autosave_end True now (scheduleAutosave (map_doc f (autosave_begin a))))"
  by (rule autosave_loses_edit [OF assms])

theorem docs_autosave_clears_later_edit_witness:
  "\<not> dirty (autosave_end True ''12:00'' (scheduleAutosave (map_doc (\<lambda>d. d\<lparr>blocks := []\<rparr>)
     (autosave_begin ((sample_app two_blocks)\<lparr>dirty := True\<rparr>)))))"
  using docs_autosave_clears_later_edit [of "(sample_app two_blocks)\<lparr>dirty := True\<rparr>" "''12:00''" "\<lambda>d. d\<lparr>blocks := []\<rparr>"]
  by (simp add: sample_app_def)

section \<open>Blocks\<close>

text \<open>
  C8. Tables with at least one column: inserting rows and columns and deleting a row or a column at any
  index keep the grid rectangular (an index outside the grid removes no column). A peer that reads
  the grid from its text gets it back exactly when no cell contains a tab or a newline and the last
  row is not a single empty cell: always for plain cells in two or more columns, never for the row
  that is added to a table of one column.
\<close>

theorem docs_table_grid:
  assumes "rectangular n (tableCellsFromBlock b)" "tableCellsFromBlock b \<noteq> []" "0 < n"
  shows "rectangular n (tableCellsFromBlock (insertTableRow b))
    \<and> rectangular (Suc n) (tableCellsFromBlock (insertTableCol b))
    \<and> (\<forall>i b'. deleteTableRow b i = Some b' \<longrightarrow> rectangular n (tableCellsFromBlock b'))
    \<and> (\<forall>i b'. deleteTableCol b i = Some b' \<longrightarrow>
         (let c = (case i of None \<Rightarrow> int n - 1 | Some k \<Rightarrow> k)
          in rectangular (if 0 \<le> c \<and> c < int n then n - 1 else n) (tableCellsFromBlock b')))
    \<and> (block_type b = ''table'' \<longrightarrow>
         (table_cells (refreshTableCellsFromInlines (syncTableTsv b)) = Some (tableCellsFromBlock b) \<longleftrightarrow>
            (\<forall>r\<in>set (tableCellsFromBlock b). \<forall>v\<in>set r. cell_ok v) \<and> last (tableCellsFromBlock b) \<noteq> [[]])
       \<and> (2 \<le> n \<longrightarrow> last (tableCellsFromBlock b) \<noteq> [[]])
       \<and> (n = 1 \<longrightarrow> table_cells (refreshTableCellsFromInlines (insertTableRow b)) \<noteq> Some (tableCellsFromBlock (insertTableRow b))))"
proof -
  have rows: "\<forall>r\<in>set (tableCellsFromBlock b). length r = n" using assms(1) by (simp add: rectangular_def)
  then have "length (last (tableCellsFromBlock b)) = n" using assms(2) by simp
  then have two: "last (tableCellsFromBlock b) \<noteq> [[]]" if "2 \<le> n" using that by auto
  have one: "table_cells (refreshTableCellsFromInlines (insertTableRow b)) \<noteq> Some (tableCellsFromBlock (insertTableRow b))"
    if "n = 1" "block_type b = ''table''"
  proof -
    obtain r rs where c: "tableCellsFromBlock b = r # rs" using assms(2) by (cases "tableCellsFromBlock b") auto
    with rows that(1) have r: "length r = 1" "r \<noteq> [] \<and> (\<forall>x\<in>set rs. x \<noteq> [])" by auto
    let ?b = "b\<lparr>table_cells := Some ((r # rs) @ [[[]]])\<rparr>"
    have "insertTableRow b = syncTableTsv ?b" using c r(1) by (auto simp: insertTableRow_def Let_def)
    moreover have "tableCellsFromBlock ?b = (r # rs) @ [[[]]]" by simp
    moreover have "tableCellsFromBlock (syncTableTsv ?b) = tableCellsFromBlock ?b" by (rule cells_sync) simp
    ultimately show ?thesis using reread_iff [of ?b] that(2) r by auto
  qed
  have "\<forall>r\<in>set (tableCellsFromBlock b). r \<noteq> []" using rows assms(3) by auto
  then show ?thesis
    using rectangular_ops [OF assms] rectangular_deleteTableCol [OF assms(1)] reread_iff [OF _ assms(2)] two one
    by (simp add: Let_def)
qed

theorem docs_table_grid_witness:
  "rectangular 2 (tableCellsFromBlock (insertTableRow (hd sample_table)))
   \<and> table_cells (refreshTableCellsFromInlines (syncTableTsv (hd sample_table))) = Some [[''p'', ''q''], [''r'', '''']]
   \<and> table_cells (refreshTableCellsFromInlines (insertTableRow (hd narrow_table))) \<noteq> Some (tableCellsFromBlock (insertTableRow (hd narrow_table)))"
proof -
  let ?b = "hd sample_table" and ?c = "hd narrow_table"
  have b: "rectangular 2 (tableCellsFromBlock ?b)" "tableCellsFromBlock ?b \<noteq> []" "0 < (2::nat)"
    and w: "\<forall>r\<in>set (tableCellsFromBlock ?b). \<forall>v\<in>set r. cell_ok v" "block_type ?b = ''table''"
      "tableCellsFromBlock ?b = [[''p'', ''q''], [''r'', '''']]" by code_simp+
  have c: "rectangular 1 (tableCellsFromBlock ?c)" "tableCellsFromBlock ?c \<noteq> []" "0 < (1::nat)" "block_type ?c = ''table''" by code_simp+
  from docs_table_grid [OF b] docs_table_grid [OF c(1-3)] w c(4) show ?thesis by simp
qed

text \<open>
  \<open>renumberFootnotes\<close> names the footnotes \<open>fn1\<close>, \<open>fn2\<close>, \<dots> in document order and
  leaves the ids, the types and the spans of all blocks as they are.
\<close>

theorem docs_footnotes_numbered:
  "map bookmark_name (footnotes (renumberFootnotes bs))
     = map (\<lambda>k. Some (''fn'' @ nat_str k)) [1..<Suc (length (footnotes bs))]
   \<and> map b_id (renumberFootnotes bs) = map b_id bs \<and> map inlines (renumberFootnotes bs) = map inlines bs
   \<and> map block_type (renumberFootnotes bs) = map block_type bs"
  using renumber_from_names [of 0 bs] renumber_from_frame [of 0 bs] by (simp add: renumberFootnotes_def del: upt_Suc)

text \<open>
  Replace all: the text of a block that contains the searched string is split at its
  occurrences and joined with the replacement, other blocks keep their text, ids are kept,
  and the reported number accounts for the change of the document's length.
\<close>

theorem docs_replace_all:
  assumes "replace_all fnd repl bs = (bs', n)" "fnd \<noteq> []"
  shows "map blockText bs' = map (\<lambda>b. if str_includes fnd (blockText b)
       then str_join repl (str_split fnd (blockText b)) else blockText b) bs
    \<and> map b_id bs' = map b_id bs
    \<and> countChars bs' + n * length fnd = countChars bs + n * length repl"
  using replace_all_text [OF assms] by blast

theorem docs_replace_all_witness:
  "map blockText (fst (replace_all ''b'' ''QQ'' two_blocks)) = [''aQQcd'', ''xy'']
   \<and> snd (replace_all ''b'' ''QQ'' two_blocks) = 1"
proof -
  obtain bs' n where r: "replace_all ''b'' ''QQ'' two_blocks = (bs', n)" by (cases "replace_all ''b'' ''QQ'' two_blocks")
  have "map (\<lambda>b. if str_includes ''b'' (blockText b) then str_join ''QQ'' (str_split ''b'' (blockText b)) else blockText b) two_blocks
      = [''aQQcd'', ''xy'']" "snd (replace_all ''b'' ''QQ'' two_blocks) = 1" by code_simp+
  with docs_replace_all [OF r] r show ?thesis by simp
qed

section \<open>Markup\<close>

text \<open>
  C9. The markup painted for a block reads back as its text: dropping the tags of
  \<open>renderInlineHtml\<close>, with a newline for every line break, and undoing the escapes gives the
  text, when no style value contains a closing angle bracket (style values are copied unescaped).
\<close>

theorem docs_html_reads_back:
  assumes "\<forall>s\<in>set (inlines b). style_safe s"
  shows "unescape (strip_tags False (renderInlineHtml b)) = blockText b"
  by (rule html_reads_back [OF assms])

theorem docs_html_reads_back_witness:
  "unescape (strip_tags False (renderInlineHtml (new_block ''a'' ''paragraph'' [bold_span ''x<b>&'']))) = ''x<b>&''"
proof -
  have "\<forall>s\<in>set (inlines (new_block ''a'' ''paragraph'' [bold_span ''x<b>&''])). style_safe s" by code_simp
  from docs_html_reads_back [OF this] show ?thesis by (simp add: blockText_def new_block_def bold_span_def)
qed

end
