(* ===== verification/Era_Url.thy ===== *)
theory Era_Url
  imports Era_Strings
begin

text \<open>
  Addresses: \<open>encodeURIComponent\<close>, the query parameters of \<open>URLSearchParams\<close> and the part of the
  URL parser that the clients rely on, the resolution of a reference that starts with a slash
  against the origin of the page. A character stands for a UTF-16 unit below 256, so its UTF-8
  form has one or two bytes.
\<close>

section \<open>Percent encoding\<close>

definition hex_digit :: "nat \<Rightarrow> char" where
  "hex_digit n = (if n < 10 then char_of (48 + n) else char_of (55 + n))"

definition hex_val :: "char \<Rightarrow> nat option" where
  "hex_val c =
     (if is_digit c then Some (of_char c - 48)
      else if 65 \<le> (of_char c :: nat) \<and> (of_char c :: nat) \<le> 70 then Some (of_char c - 55)
      else if 97 \<le> (of_char c :: nat) \<and> (of_char c :: nat) \<le> 102 then Some (of_char c - 87)
      else None)"

definition percent_byte :: "nat \<Rightarrow> string" where
  "percent_byte n = [CHR ''%'', hex_digit (n div 16), hex_digit (n mod 16)]"

definition utf8_bytes :: "char \<Rightarrow> nat list" where
  "utf8_bytes c = (let n = of_char c in if n < 128 then [n] else [192 + n div 64, 128 + n mod 64])"

definition percent_char :: "char \<Rightarrow> string" where
  "percent_char c = concat (map percent_byte (utf8_bytes c))"

definition uri_unreserved :: "char \<Rightarrow> bool" where
  "uri_unreserved c \<longleftrightarrow> is_digit c \<or> is_upper c \<or> is_lower c \<or> c \<in> set ''-_.!~*()'' \<or> c = CHR 0x27"

definition encodeURIComponent :: "string \<Rightarrow> string" where
  "encodeURIComponent s = concat (map (\<lambda>c. if uri_unreserved c then [c] else percent_char c) s)"

text \<open>Decoding of a form value: a plus is a space, a percent sign with two digits a byte.\<close>

fun form_bytes :: "string \<Rightarrow> nat list" where
  "form_bytes [] = []"
| "form_bytes (c # cs) =
     (if c = CHR ''+'' then 32 # form_bytes cs
      else if c = CHR ''%'' then
        (case cs of
           a # b # ds \<Rightarrow>
             (case (hex_val a, hex_val b) of
                (Some x, Some y) \<Rightarrow> (16 * x + y) # form_bytes ds
              | _ \<Rightarrow> of_char c # form_bytes cs)
         | _ \<Rightarrow> of_char c # form_bytes cs)
      else of_char c # form_bytes cs)"

fun utf8_text :: "nat list \<Rightarrow> string" where
  "utf8_text [] = []"
| "utf8_text [a] = [char_of a]"
| "utf8_text (a # b # ns) =
     (if 194 \<le> a \<and> a \<le> 195 \<and> 128 \<le> b \<and> b < 192 then char_of ((a - 192) * 64 + (b - 128)) # utf8_text ns
      else char_of a # utf8_text (b # ns))"

definition form_decode :: "string \<Rightarrow> string" where
  "form_decode s = utf8_text (form_bytes s)"

text \<open>\<open>new URLSearchParams(search).get(key)\<close>.\<close>

definition param_pair :: "string \<Rightarrow> string \<times> string" where
  "param_pair p =
     (form_decode (takeWhile (\<lambda>c. c \<noteq> CHR ''='') p), form_decode (tl (dropWhile (\<lambda>c. c \<noteq> CHR ''='') p)))"

definition search_params :: "string \<Rightarrow> (string \<times> string) list" where
  "search_params search =
     map param_pair (filter (\<lambda>p. p \<noteq> [])
       (split_char CHR ''&'' (if search \<noteq> [] \<and> hd search = CHR ''?'' then tl search else search)))"

definition param_get :: "string \<Rightarrow> string \<Rightarrow> string option" where
  "param_get search key = map_of (search_params search) key"

lemma of_char_less [simp]: "(of_char c :: nat) < 256"
  by (cases c) (simp add: of_char_Char) 

lemma hex_val_digit [simp]: "n < 16 \<Longrightarrow> hex_val (hex_digit n) = Some n"
  by (auto simp: hex_digit_def hex_val_def is_digit_def)

lemma form_bytes_percent [simp]: "n < 256 \<Longrightarrow> form_bytes (percent_byte n @ cs) = n # form_bytes cs"
  by (simp add: percent_byte_def)

lemma uri_unreserved_plain:
  "uri_unreserved c \<Longrightarrow> c \<noteq> CHR ''+'' \<and> c \<noteq> CHR ''%'' \<and> c \<noteq> CHR ''&'' \<and> (of_char c :: nat) < 128"
  by (auto simp: uri_unreserved_def is_digit_def is_upper_def is_lower_def)

lemma utf8_bytes_less: "n \<in> set (utf8_bytes c) \<Longrightarrow> n < 256"
proof -
  have "(of_char c :: nat) div 64 < 4" using of_char_less [of c] by linarith
  then show "n \<in> set (utf8_bytes c) \<Longrightarrow> n < 256" by (auto simp: utf8_bytes_def Let_def split: if_splits)
qed

lemma form_bytes_percent_char [simp]: "form_bytes (percent_char c @ cs) = utf8_bytes c @ form_bytes cs"
proof -
  have "form_bytes (concat (map percent_byte ns) @ cs) = ns @ form_bytes cs" if "\<forall>n\<in>set ns. n < 256" for ns
    using that by (induction ns) (simp_all add: append_assoc)
  then show ?thesis using utf8_bytes_less by (simp add: percent_char_def)
qed

lemma form_bytes_encode: "form_bytes (encodeURIComponent s) = concat (map utf8_bytes s)"
proof (induction s)
  case Nil
  then show ?case by (simp add: encodeURIComponent_def)
next
  case (Cons c s)
  show ?case
  proof (cases "uri_unreserved c")
    case True
    then show ?thesis using Cons uri_unreserved_plain [of c]
      by (auto simp: encodeURIComponent_def utf8_bytes_def Let_def)
  next
    case False
    then show ?thesis using Cons by (simp add: encodeURIComponent_def)
  qed
qed

lemma utf8_text_ascii: "a < 128 \<Longrightarrow> utf8_text (a # ns) = char_of a # utf8_text ns"
  by (cases ns) simp_all

lemma utf8_text_bytes [simp]: "utf8_text (concat (map utf8_bytes s)) = s"
proof (induction s)
  case Nil
  then show ?case by simp
next
  case (Cons c s)
  have n: "(of_char c :: nat) div 64 < 4" using of_char_less [of c] by linarith
  have e: "(of_char c :: nat) = (of_char c div 64) * 64 + of_char c mod 64" by simp
  show ?case
  proof (cases "(of_char c :: nat) < 128")
    case True
    then show ?thesis using Cons by (simp add: utf8_bytes_def Let_def utf8_text_ascii)
  next
    case False
    then have "2 \<le> (of_char c :: nat) div 64" by linarith
    then show ?thesis using Cons n e False by (simp add: utf8_bytes_def Let_def)
  qed
qed

text \<open>A form value written with \<open>encodeURIComponent\<close> is read back.\<close>

lemma form_decode_encode [simp]: "form_decode (encodeURIComponent s) = s"
  by (simp add: form_decode_def form_bytes_encode)

lemma percent_char_chars: "d \<in> set (percent_char c) \<Longrightarrow> uri_unreserved d \<or> d = CHR ''%''"
proof -
  have hx: "uri_unreserved (hex_digit n)" if "n < 16" for n
    using that by (auto simp: hex_digit_def uri_unreserved_def is_digit_def is_upper_def)
  assume "d \<in> set (percent_char c)"
  then show ?thesis using hx utf8_bytes_less [of _ c]
    by (auto simp: percent_char_def percent_byte_def less_mult_imp_div_less split: if_splits)
qed

lemma encode_chars: "c \<in> set (encodeURIComponent s) \<Longrightarrow> uri_unreserved c \<or> c = CHR ''%''"
  using percent_char_chars by (auto simp: encodeURIComponent_def split: if_splits)

lemma encode_no_separator: "CHR ''&'' \<notin> set (encodeURIComponent s)"
  using encode_chars [of "CHR ''&''" s] uri_unreserved_plain [of "CHR ''&''"] by auto

lemma param_get_encoded:
  assumes "\<forall>c\<in>set key. uri_unreserved c" "key \<noteq> []"
  shows "param_get (CHR ''?'' # key @ CHR ''='' # encodeURIComponent v) key = Some v"
proof -
  have eq: "CHR ''='' \<notin> set key" and am: "CHR ''&'' \<notin> set key"
    using assms by (auto simp: uri_unreserved_def is_digit_def is_upper_def is_lower_def)
  have k: "encodeURIComponent key = key" using assms(1) by (induction key) (auto simp: encodeURIComponent_def)
  have "split_char CHR ''&'' (key @ CHR ''='' # encodeURIComponent v) = [key @ CHR ''='' # encodeURIComponent v]"
    using am encode_no_separator by (intro split_char_no_sep) auto
  moreover have "takeWhile (\<lambda>c. c \<noteq> CHR ''='') (key @ CHR ''='' # encodeURIComponent v) = key"
    using eq by (subst takeWhile_append2) auto
  moreover have "dropWhile (\<lambda>c. c \<noteq> CHR ''='') (key @ CHR ''='' # encodeURIComponent v) = CHR ''='' # encodeURIComponent v"
    using eq by (subst dropWhile_append2) auto
  ultimately show ?thesis using k form_decode_encode [of key]
    by (simp add: param_get_def search_params_def param_pair_def)
qed

section \<open>Writing parameters\<close>

text \<open>How \<open>URLSearchParams\<close> writes its pairs: a space is a plus, letters, digits and \<open>*-._\<close> stay.\<close>

definition form_plain :: "char \<Rightarrow> bool" where
  "form_plain c \<longleftrightarrow> is_digit c \<or> is_upper c \<or> is_lower c \<or> c \<in> set ''*-._''"

definition form_encode :: "string \<Rightarrow> string" where
  "form_encode s = concat (map (\<lambda>c. if form_plain c then [c] else if c = CHR '' '' then ''+'' else percent_char c) s)"

definition form_pair :: "string \<times> string \<Rightarrow> string" where
  "form_pair p = form_encode (fst p) @ CHR ''='' # form_encode (snd p)"

definition query_string :: "(string \<times> string) list \<Rightarrow> string" where
  "query_string ps = str_join ''&'' (map form_pair ps)"

lemma form_plain_unreserved: "form_plain c \<Longrightarrow> uri_unreserved c"
  by (auto simp: form_plain_def uri_unreserved_def)

lemma form_bytes_form: "form_bytes (form_encode s) = concat (map utf8_bytes s)"
proof (induction s)
  case (Cons c s)
  have "utf8_bytes CHR '' '' = [32]" by (simp add: utf8_bytes_def)
  then show ?case using Cons uri_unreserved_plain [OF form_plain_unreserved, of c]
    by (cases "form_plain c") (auto simp: form_encode_def utf8_bytes_def Let_def)
qed (simp add: form_encode_def)

lemma form_decode_form [simp]: "form_decode (form_encode s) = s"
  by (simp add: form_decode_def form_bytes_form)

lemma form_chars: "c \<in> set (form_encode s) \<Longrightarrow> c \<noteq> CHR ''&'' \<and> c \<noteq> CHR ''=''"
proof -
  assume "c \<in> set (form_encode s)"
  then have "uri_unreserved c \<or> c = CHR ''%'' \<or> c = CHR ''+''"
    using percent_char_chars form_plain_unreserved by (auto simp: form_encode_def split: if_splits)
  then show ?thesis by (auto simp: uri_unreserved_def is_digit_def is_upper_def is_lower_def)
qed

lemma param_pair_form [simp]: "param_pair (form_pair p) = p"
proof -
  have "CHR ''='' \<notin> set (form_encode (fst p))" using form_chars by blast
  then have "takeWhile (\<lambda>c. c \<noteq> CHR ''='') (form_pair p) = form_encode (fst p)"
    "dropWhile (\<lambda>c. c \<noteq> CHR ''='') (form_pair p) = CHR ''='' # form_encode (snd p)"
    unfolding form_pair_def by (subst takeWhile_append2 dropWhile_append2; auto)+
  then show ?thesis by (simp add: param_pair_def)
qed

text \<open>Written pairs are read back.\<close>

lemma search_params_query: "ps \<noteq> [] \<Longrightarrow> search_params (CHR ''?'' # query_string ps) = ps"
proof -
  assume ps: "ps \<noteq> []"
  have "\<forall>p\<in>set (map form_pair ps). CHR ''&'' \<notin> set p" using form_chars by (auto simp: form_pair_def)
  then have "split_char CHR ''&'' (query_string ps) = map form_pair ps"
    using ps unfolding query_string_def by (intro split_char_join) auto
  moreover have "filter (\<lambda>p. p \<noteq> []) (map form_pair ps) = map form_pair ps" by (simp add: filter_id_conv form_pair_def)
  ultimately show ?thesis by (simp add: search_params_def comp_def)
qed

section \<open>Resolving a reference\<close>

text \<open>
  \<open>new URL(ref, origin)\<close> for a reference that starts with a slash. Tabs and line ends are
  dropped and a backslash counts as a slash. Two slashes introduce a host: the host, port and
  path of that form are read by the argument \<open>auth\<close>, which gives the origin and the rest of the
  address, or \<open>None\<close> when the host is invalid. Otherwise the reference is a path on the page's
  own origin, whose segments \<open>.\<close> and \<open>..\<close> are resolved.
\<close>

definition url_strip :: "string \<Rightarrow> string" where
  "url_strip s =
     filter (\<lambda>c. c \<notin> {CHR 0x09, CHR 0x0A, CHR 0x0D})
       (rev (dropWhile (\<lambda>c. (of_char c :: nat) \<le> 32) (rev (dropWhile (\<lambda>c. (of_char c :: nat) \<le> 32) s))))"

definition is_slash :: "char \<Rightarrow> bool" where
  "is_slash c \<longleftrightarrow> c = CHR ''/'' \<or> c = CHR 0x5C"

fun path_segments :: "string \<Rightarrow> string list" where
  "path_segments [] = [[]]"
| "path_segments (c # cs) =
     (if is_slash c then [] # path_segments cs
      else (case path_segments cs of [] \<Rightarrow> [[c]] | p # ps \<Rightarrow> (c # p) # ps))"

definition single_dot :: "string \<Rightarrow> bool" where
  "single_dot p \<longleftrightarrow> to_lower p \<in> {''.'', ''%2e''}"

definition double_dot :: "string \<Rightarrow> bool" where
  "double_dot p \<longleftrightarrow> to_lower p \<in> {''..'', ''.%2e'', ''%2e.'', ''%2e%2e''}"

definition path_encode :: "string \<Rightarrow> string" where
  "path_encode p =
     concat (map (\<lambda>c. if (of_char c :: nat) \<le> 32 \<or> 126 < (of_char c :: nat) \<or> c \<in> set ''\"#<>?^`{}''
                      then percent_char c else [c]) p)"

definition query_encode :: "string \<Rightarrow> string" where
  "query_encode q =
     concat (map (\<lambda>c. if (of_char c :: nat) \<le> 32 \<or> 126 < (of_char c :: nat) \<or> c \<in> set ''\"#<>'' \<or> c = CHR 0x27
                      then percent_char c else [c]) q)"

definition hash_encode :: "string \<Rightarrow> string" where
  "hash_encode h =
     concat (map (\<lambda>c. if (of_char c :: nat) \<le> 32 \<or> 126 < (of_char c :: nat) \<or> c \<in> set ''\"<>`''
                      then percent_char c else [c]) h)"

fun resolve_segments :: "string list \<Rightarrow> string list \<Rightarrow> string list" where
  "resolve_segments out [] = out"
| "resolve_segments out (p # ps) =
     (if double_dot p then resolve_segments (butlast out @ (if ps = [] then [[]] else [])) ps
      else if single_dot p then resolve_segments (out @ (if ps = [] then [[]] else [])) ps
      else resolve_segments (out @ [path_encode p]) ps)"

definition url_pathname :: "string \<Rightarrow> string" where
  "url_pathname path = concat (map (\<lambda>p. CHR ''/'' # p) (resolve_segments [] (path_segments path)))"

definition resolve_path :: "string \<Rightarrow> string" where
  "resolve_path s =
     (let beforeHash = takeWhile (\<lambda>c. c \<noteq> CHR ''#'') s;
          fragment = tl (dropWhile (\<lambda>c. c \<noteq> CHR ''#'') s);
          path = takeWhile (\<lambda>c. c \<noteq> CHR ''?'') beforeHash;
          query = tl (dropWhile (\<lambda>c. c \<noteq> CHR ''?'') beforeHash)
      in url_pathname path @ (if query = [] then [] else CHR ''?'' # query_encode query)
         @ (if fragment = [] then [] else CHR ''#'' # hash_encode fragment))"

definition new_url :: "(string \<Rightarrow> (string \<times> string) option) \<Rightarrow> string \<Rightarrow> string \<Rightarrow> (string \<times> string) option" where
  "new_url auth origin ref =
     (case url_strip ref of
        a # b # rest \<Rightarrow> if is_slash a \<and> is_slash b then auth rest else Some (origin, resolve_path (b # rest))
      | [a] \<Rightarrow> Some (origin, resolve_path [])
      | [] \<Rightarrow> Some (origin, resolve_path []))"

end
