(* ===== verification/Docs_View.thy ===== *)
theory Docs_View
  imports Docs_Properties Era_Url Complex_Main
begin

text \<open>
  The page of the documents client (\<open>ui/docs/web/app.js\<close>): \<open>renderBlocks\<close> with
  \<open>paintPeerCursors\<close>, the comments, the counts, the ruler, footnote marks, the spelling pass, and
  the reading of an element back when the user types into it. An element is described as data:
  the attributes the code sets, its content, and the labels appended to it.
\<close>

section \<open>An element\<close>

text \<open>The content: markup put into \<open>innerHTML\<close>; a text; an image with its address, its alternative
  text and whether it is fetched with the token first; the lines of a table of contents with the
  block each links to.\<close>

datatype shown =
    Html string
  | Plain string
  | Picture string string bool
  | Toc_lines "(string \<times> string option) list"

record block_view =
  v_id :: string
  v_type :: string
  v_classes :: "string list"
  v_line :: nat
  v_editable :: bool
  v_list_restart :: bool
  v_list_marker :: "string option"
  v_level :: "string option"
  v_list :: "string option"
  v_style :: "(string \<times> string) list"
  v_title :: "string option"
  v_content :: shown
  v_badge :: bool
  v_carets :: "(string \<times> string) list"

abbreviation QT :: string where "QT \<equiv> [CHR 0x22]"

definition or_paragraph :: "block \<Rightarrow> string" where
  "or_paragraph b = (if block_type b = [] then ''paragraph'' else block_type b)"

definition break_type :: "string \<Rightarrow> bool" where
  "break_type t \<longleftrightarrow> t = ''page_break'' \<or> t = ''section_break''"

definition page_break_style :: "(string \<times> string) list" where
  "page_break_style = [(''textAlign'', ''center''), (''color'', ''var(--era-muted)''),
     (''borderTop'', ''1px dashed var(--era-line)''), (''margin'', ''1rem 0''), (''padding'', ''0.25rem'')]"

definition break_view :: "nat \<Rightarrow> block \<Rightarrow> block_view" where
  "break_view line b =
     (let pb = (block_type b = ''page_break'')
      in \<lparr> v_id = b_id b, v_type = block_type b, v_classes = (if pb then [''doc-block'', ''doc-page-break''] else [''doc-block'']),
           v_line = line, v_editable = False, v_list_restart = False, v_list_marker = None, v_level = None,
           v_list = None, v_style = (if pb then page_break_style else []), v_title = None,
           v_content = Plain (if pb then ''- Page break -'' else ''- Section break -''),
           v_badge = False, v_carets = [] \<rparr>)"

section \<open>Contents\<close>

definition special_type :: "string \<Rightarrow> bool" where
  "special_type t \<longleftrightarrow> t \<in> {''image'', ''table'', ''bookmark'', ''toc'', ''footnote''}"

definition td_html :: "nat \<Rightarrow> nat \<Rightarrow> string \<Rightarrow> string" where
  "td_html r c t = ''<td contenteditable='' @ QT @ ''true'' @ QT @ '' data-r='' @ QT @ nat_str r @ QT
     @ '' data-c='' @ QT @ nat_str c @ QT @ ''>'' @ escapeHtml t @ ''</td>''"

definition tr_html :: "nat \<Rightarrow> string list \<Rightarrow> string" where
  "tr_html r row = ''<tr>'' @ concat (map (\<lambda>(c, t). td_html r c t) (enumerate 0 row)) @ ''</tr>''"

definition op_button :: "string \<Rightarrow> string \<Rightarrow> string" where
  "op_button cls label = ''<button type='' @ QT @ ''button'' @ QT @ '' class='' @ QT @ ''era-btn era-tbl-'' @ cls @ QT
     @ ''>'' @ label @ ''</button>''"

definition table_html :: "string list list \<Rightarrow> string" where
  "table_html rows =
     ''<table class='' @ QT @ ''era-doc-table'' @ QT @ ''><tbody>''
     @ concat (map (\<lambda>(r, row). tr_html r row) (enumerate 0 rows)) @ ''</tbody></table>''
     @ ''<div class='' @ QT @ ''era-table-ops'' @ QT @ ''>''
     @ str_join '' '' [op_button ''row'' ''+ Row'', op_button ''col'' ''+ Col'', op_button ''del-row'' ''- Row'',
          op_button ''del-col'' ''- Col''] @ ''</div>''"

definition bookmark_html :: "block \<Rightarrow> string" where
  "bookmark_html b =
     ''<a href='' @ QT @ ''#bm-'' @ encodeURIComponent (bookmark_key b) @ QT @ '' class='' @ QT @ ''doc-bookmark'' @ QT
     @ '' id='' @ QT @ ''bm-'' @ escapeHtml (bookmark_key b) @ QT @ ''>''
     @ escapeHtml (or_default (Some (blockText b)) (or_default (bookmark_name b) ''bookmark'')) @ ''</a>''"

definition footnote_html :: "block \<Rightarrow> string" where
  "footnote_html b =
     (let k = escapeHtml (or_default (bookmark_name b) ''fn'')
      in ''<sup class='' @ QT @ ''doc-fn-mark'' @ QT @ '' data-fn='' @ QT @ k @ QT @ '' title='' @ QT
         @ ''Jump to reference'' @ QT @ ''>['' @ k @ '']</sup> '' @ escapeHtml (blockText b))"

definition suggestion_html :: "revision \<Rightarrow> block \<Rightarrow> string" where
  "suggestion_html r b =
     ''<span class='' @ QT @ ''rev-del'' @ QT @ ''>'' @ escapeHtml (r_before r) @ ''</span> <span class='' @ QT
     @ ''rev-ins'' @ QT @ ''>'' @ escapeHtml (or_default (Some (r_after r)) (blockText b)) @ ''</span>''"

definition renderTocLinks :: "block \<Rightarrow> (string \<times> string option) list" where
  "renderTocLinks b =
     map (\<lambda>line. case toc_link line of Some (label, target) \<Rightarrow> (label, Some target) | None \<Rightarrow> (line, None))
       (split_char NL (blockText b))"

definition picture :: "block \<Rightarrow> string \<Rightarrow> shown" where
  "picture b src = Picture src (or_default (Some (blockText b)) ''image'') (take 22 src = ''/api/v1/drive/objects/'')"

definition hr_block :: "block \<Rightarrow> bool" where
  "hr_block b \<longleftrightarrow> style_name b = Some ''horizontal_line'' \<and> \<not> (block_type b = ''image'' \<and> truthy_str (image_url b))
     \<and> block_type b \<notin> {''table'', ''bookmark'', ''toc''}"

definition block_content :: "bool \<Rightarrow> revision option \<Rightarrow> block \<Rightarrow> shown" where
  "block_content track pending b =
     (if block_type b = ''image'' \<and> truthy_str (image_url b) then picture b (or_empty (image_url b))
      else if block_type b = ''table'' then Html (table_html (tableCellsFromBlock b))
      else if block_type b = ''bookmark'' then Html (bookmark_html b)
      else if block_type b = ''toc'' then Toc_lines (renderTocLinks b)
      else if style_name b = Some ''horizontal_line'' then Html ''<hr/>''
      else if block_type b = ''footnote'' then Html (footnote_html b)
      else (case pending of
              Some r \<Rightarrow> if track then Html (suggestion_html r b) else Html (renderInlineHtml b)
            | None \<Rightarrow> Html (renderInlineHtml b)))"

section \<open>The page\<close>

definition view_type :: "string \<Rightarrow> string" where
  "view_type t = (if t \<in> {''heading'', ''list_item'', ''text_box''} \<or> special_type t then t else ''paragraph'')"

definition text_style :: "block \<Rightarrow> (string \<times> string) list" where
  "text_style b =
     (if or_paragraph b = ''text_box''
      then [(''width'', int_str (min 100 (max 40 (case box_width_pct b of Some w \<Rightarrow> w | None \<Rightarrow> 100))) @ ''%''),
            (''maxWidth'', ''100%''), (''boxSizing'', ''border-box'')] else [])
     @ (if truthy_str (align b) then [(''textAlign'', or_empty (align b))] else [])
     @ (if or_zero (indent_mm b) \<noteq> 0 then [(''paddingLeft'', int_str (or_zero (indent_mm b)) @ ''mm'')] else [])
     @ (if style_name b = Some ''title'' then [(''fontSize'', ''1.75rem'')] else [])"

definition text_view :: "doc \<Rightarrow> nat \<Rightarrow> block \<Rightarrow> block_view" where
  "text_view d line b =
     (let t = or_paragraph b; pending = pendingRevisionFor (b_id b) (revisions d)
      in \<lparr> v_id = b_id b, v_type = view_type t,
           v_classes = ''doc-block'' # (if pending \<noteq> None then [''doc-block-suggested''] else [])
             @ (if t = ''text_box'' then [''doc-textbox''] else []) @ (if hr_block b then [''doc-hr''] else []),
           v_line = line, v_editable = (\<not> special_type t \<and> \<not> hr_block b), v_list_restart = list_restart b,
           v_list_marker = or_undefined (list_marker b),
           v_level = (if t = ''heading''
                      then Some (int_str (if heading_level b = 0 then 1 else heading_level b)) else None),
           v_list = (if list_type b = Some ''ordered'' then Some ''ordered'' else None),
           v_style = text_style b,
           v_title = (if t = ''footnote'' \<and> \<not> hr_block b then Some (''Footnote '' @ or_empty (bookmark_name b)) else None),
           v_content = block_content (track_changes d) pending b, v_badge = (pending \<noteq> None), v_carets = [] \<rparr>)"

text \<open>The first loop numbers every block, the last one numbers the text blocks again, without the
  breaks; a break keeps the number of the first loop.\<close>

fun block_views :: "doc \<Rightarrow> nat \<Rightarrow> nat \<Rightarrow> block list \<Rightarrow> block_view list" where
  "block_views d n line [] = []"
| "block_views d n line (b # bs) =
     (if break_type (or_paragraph b) then break_view (Suc n) b # block_views d (Suc n) line bs
      else text_view d (Suc line) b # block_views d (Suc n) (Suc line) bs)"

text \<open>The label of a peer goes to the first element with the block id of its caret.\<close>

definition caret_label :: "string \<Rightarrow> string \<Rightarrow> string \<times> string" where
  "caret_label uid col = (take 8 uid, or_default (Some col) ''#c45'')"

definition paint_caret :: "string \<times> caret_at \<Rightarrow> block_view list \<Rightarrow> block_view list" where
  "paint_caret p vs =
     (case p of (uid, bid, off, col) \<Rightarrow>
        if bid = [] then vs
        else upd_first (\<lambda>v. v_id v = bid) (\<lambda>v. v\<lparr>v_carets := v_carets v @ [caret_label uid col]\<rparr>) vs)"

definition paintPeerCursors :: "(string \<times> caret_at) list \<Rightarrow> block_view list \<Rightarrow> block_view list" where
  "paintPeerCursors peers vs = fold paint_caret peers (map (\<lambda>v. v\<lparr>v_carets := []\<rparr>) vs)"

definition page_view :: "app \<Rightarrow> block_view list" where
  "page_view a = paintPeerCursors (peerCursors a) (block_views (docState a) 0 0 (app_blocks a))"

section \<open>Reading an element\<close>

text \<open>
  The text of the markup, and the labels after it. How the browser reports a label, which is
  positioned absolutely (with line breaks around it, in capitals), is the argument \<open>lab\<close>.
\<close>

fun content_text :: "shown \<Rightarrow> string" where
  "content_text (Html h) = unescape (strip_tags False h)"
| "content_text (Plain t) = t"
| "content_text (Picture src alt fetched) = []"
| "content_text (Toc_lines ls) = str_join [NL] (map fst ls)"

definition labels :: "block_view \<Rightarrow> string list" where
  "labels v = (if v_badge v then [''suggested''] else []) @ map fst (v_carets v)"

definition labels_text :: "(string \<Rightarrow> string) \<Rightarrow> block_view \<Rightarrow> string" where
  "labels_text lab v = concat (map lab (labels v))"

definition innerText :: "(string \<Rightarrow> string) \<Rightarrow> block_view \<Rightarrow> string" where
  "innerText lab v = content_text (v_content v) @ labels_text lab v"

definition surface_input :: "block_view \<Rightarrow> string \<Rightarrow> string \<Rightarrow> app \<Rightarrow> app" where
  "surface_input v raw revId a = (if v_editable v then onBlockInput (v_id v) raw revId a else a)"

definition surface_keydown :: "block_view \<Rightarrow> key \<Rightarrow> (int \<times> int) option \<Rightarrow> string \<Rightarrow> app \<Rightarrow> app" where
  "surface_keydown v k sel newId a = (if v_editable v then onBlockKeydown k (v_id v) sel newId a else a)"

section \<open>What the page shows of a text block\<close>

lemma paint_caret_frame: "map (\<lambda>v. v\<lparr>v_carets := []\<rparr>) (paint_caret p vs) = map (\<lambda>v. v\<lparr>v_carets := []\<rparr>) vs"
  by (cases p) (simp add: paint_caret_def map_upd_first_cong)

lemma paint_carets_frame:
  "map (\<lambda>v. v\<lparr>v_carets := []\<rparr>) (fold paint_caret ps vs) = map (\<lambda>v. v\<lparr>v_carets := []\<rparr>) vs"
  by (induction ps arbitrary: vs) (simp_all add: paint_caret_frame)

lemma block_views_blank: "map (\<lambda>v. v\<lparr>v_carets := []\<rparr>) (block_views d n l bs) = block_views d n l bs"
  by (induction d n l bs rule: block_views.induct) (simp_all add: break_view_def text_view_def Let_def)

lemma page_view_frame: "map (\<lambda>v. v\<lparr>v_carets := []\<rparr>) (page_view a) = block_views (docState a) 0 0 (app_blocks a)"
  by (simp add: page_view_def paintPeerCursors_def paint_carets_frame comp_def block_views_blank)

lemma editable_text_view:
  "w \<in> set (block_views d n l bs) \<Longrightarrow> v_editable w \<Longrightarrow> \<exists>b line. b \<in> set bs \<and> w = text_view d line b"
  by (induction d n l bs rule: block_views.induct) (auto simp: break_view_def Let_def split: if_splits)

definition body_text :: "bool \<Rightarrow> revision option \<Rightarrow> block \<Rightarrow> string" where
  "body_text track pending b =
     (case pending of
        Some r \<Rightarrow> if track then r_before r @ '' '' @ or_default (Some (r_after r)) (blockText b) else blockText b
      | None \<Rightarrow> blockText b)"

lemma reads_as_escaped: "reads_as (escapeHtml s) (escapeHtml s)"
proof -
  have "reads_as t t" if "CHR ''<'' \<notin> set t" for t using that by (induction t) (auto simp: reads_as_def)
  then show ?thesis using escape_safe [of s] by blast
qed

lemma escape_append: "escapeHtml (s @ t) = escapeHtml s @ escapeHtml t"
  by (simp add: escape_one_pass)

lemma escape_space: "escapeHtml (CHR '' '' # t) = CHR '' '' # escapeHtml t"
  by (simp add: escape_one_pass escape_char_def)

lemma reads_as_content: "reads_as h (escapeHtml t) \<Longrightarrow> content_text (Html h) = t"
  using unescape_escape [of t] by (auto simp: reads_as_def dest!: spec [of _ "[]"])

lemma suggestion_reads: "content_text (Html (suggestion_html r b)) = r_before r @ '' '' @ or_default (Some (r_after r)) (blockText b)"
proof -
  let ?cls = "\<lambda>c. ''span class='' @ QT @ c @ QT"
  have w: "reads_as (CHR ''<'' # ?cls c @ ''>'' @ escapeHtml t @ ''<'' @ ''/span'' @ ''>'') (escapeHtml t)" if "CHR ''>'' \<notin> set c" for c t
    using that by (intro reads_as_wrapped reads_as_escaped) auto
  have sp: "reads_as '' '' '' ''" by (simp add: reads_as_def)
  show ?thesis unfolding suggestion_html_def
    using reads_as_append [OF w [of "''rev-del''" "r_before r"] reads_as_append [OF sp w [of "''rev-ins''" "or_default (Some (r_after r)) (blockText b)"]]]
    by (intro reads_as_content) (simp add: escape_append escape_space)
qed

lemma text_view_body:
  assumes "v_editable (text_view d line b)" "\<forall>s\<in>set (inlines b). style_safe s"
  shows "content_text (v_content (text_view d line b))
       = body_text (track_changes d) (pendingRevisionFor (b_id b) (revisions d)) b"
proof -
  have n: "content_text (Html (renderInlineHtml b)) = blockText b" using reads_as_content [OF render_reads [OF assms(2)]] .
  from assms(1) have "\<not> special_type (block_type b)" "\<not> hr_block b"
    by (auto simp: text_view_def Let_def or_paragraph_def special_type_def split: if_splits)
  then have c: "block_content t p b = (case p of Some r \<Rightarrow> if t then Html (suggestion_html r b) else Html (renderInlineHtml b)
      | None \<Rightarrow> Html (renderInlineHtml b))" for t p
    by (auto simp: block_content_def special_type_def hr_block_def)
  then show ?thesis using n suggestion_reads
    by (auto simp: text_view_def Let_def body_text_def simp del: content_text.simps split: option.splits)
qed

text \<open>The labels of a block: a pending suggestion, then the peers whose caret is in it.\<close>

definition carets_in :: "(string \<times> caret_at) list \<Rightarrow> string \<Rightarrow> (string \<times> string) list" where
  "carets_in peers bid =
     map (\<lambda>p. caret_label (fst p) (snd (snd (snd p)))) (filter (\<lambda>p. fst (snd p) = bid \<and> bid \<noteq> []) peers)"

lemma upd_first_distinct:
  "distinct (map f xs) \<Longrightarrow> upd_first (\<lambda>x. f x = k) g xs = map (\<lambda>x. if f x = k then g x else x) xs"
  by (induction xs) (auto simp: image_iff intro!: map_idI [symmetric])

lemma paint_caret_map:
  "distinct (map v_id vs) \<Longrightarrow> paint_caret p vs = map (\<lambda>v. v\<lparr>v_carets := v_carets v @ carets_in [p] (v_id v)\<rparr>) vs"
  by (cases p) (auto simp: paint_caret_def carets_in_def upd_first_distinct intro!: map_idI [symmetric])

lemma paint_carets_map:
  "distinct (map v_id vs) \<Longrightarrow> fold paint_caret ps vs = map (\<lambda>v. v\<lparr>v_carets := v_carets v @ carets_in ps (v_id v)\<rparr>) vs"
proof (induction ps arbitrary: vs)
  case (Cons p ps)
  have "map v_id (paint_caret p vs) = map v_id vs" using Cons.prems by (simp add: paint_caret_map comp_def)
  moreover have "carets_in (p # ps) i = carets_in [p] i @ carets_in ps i" for i by (simp add: carets_in_def)
  ultimately show ?case using Cons by (simp add: paint_caret_map comp_def)
qed (simp add: carets_in_def)

lemma block_views_ids: "map v_id (block_views d n l bs) = map b_id bs"
  by (induction d n l bs rule: block_views.induct) (simp_all add: break_view_def text_view_def Let_def)

lemma page_view_carets:
  assumes "distinct (map b_id (app_blocks a))" "v \<in> set (page_view a)"
  shows "v_carets v = carets_in (peerCursors a) (v_id v)"
  using assms by (auto simp: page_view_def paintPeerCursors_def paint_carets_map block_views_ids comp_def)

lemma page_view_block:
  assumes "distinct (map b_id (app_blocks a))" "v \<in> set (page_view a)" "v_editable v" "find_block (v_id v) (app_blocks a) = Some b"
  obtains line where "v\<lparr>v_carets := []\<rparr> = text_view (docState a) line b"
proof -
  have "v\<lparr>v_carets := []\<rparr> \<in> set (block_views (docState a) 0 0 (app_blocks a))"
    unfolding page_view_frame [symmetric] using assms(2) by simp
  with editable_text_view [OF this] assms(3) obtain b' line
    where b': "b' \<in> set (app_blocks a)" "v\<lparr>v_carets := []\<rparr> = text_view (docState a) line b'" by auto
  have "b_id b' = v_id v" using arg_cong [OF b'(2), of v_id] by (simp add: text_view_def Let_def)
  moreover have "b \<in> set (app_blocks a)" "b_id b = v_id v" using find_block_Some [OF assms(4)] by simp_all
  ultimately have "b' = b" using b'(1) assms(1) by (metis distinct_map inj_on_eq_iff)
  with b'(2) that show thesis by blast
qed

lemma page_labels:
  assumes "distinct (map b_id (app_blocks a))" "v \<in> set (page_view a)" "v_editable v" "find_block (v_id v) (app_blocks a) = Some b"
  shows "labels v = (if pendingRevisionFor (v_id v) (revisions (docState a)) \<noteq> None then [''suggested''] else [])
      @ map fst (carets_in (peerCursors a) (v_id v))"
proof -
  obtain line where v: "v\<lparr>v_carets := []\<rparr> = text_view (docState a) line b" using page_view_block [OF assms] .
  have "b_id b = v_id v" using find_block_Some [OF assms(4)] by simp
  then have "v_badge v = (pendingRevisionFor (v_id v) (revisions (docState a)) \<noteq> None)"
    using arg_cong [OF v, of v_badge] by (simp add: text_view_def Let_def)
  then show ?thesis by (simp add: labels_def page_view_carets [OF assms(1,2)])
qed

lemma page_text:
  assumes "distinct (map b_id (app_blocks a))" "v \<in> set (page_view a)" "v_editable v" "find_block (v_id v) (app_blocks a) = Some b"
    "\<forall>s\<in>set (inlines b). style_safe s"
  shows "content_text (v_content v) = body_text (track_changes (docState a)) (pendingRevisionFor (v_id v) (revisions (docState a))) b"
proof -
  obtain line where v: "v\<lparr>v_carets := []\<rparr> = text_view (docState a) line b" using page_view_block [OF assms(1-4)] .
  have "v_editable (text_view (docState a) line b)" "b_id b = v_id v"
    using assms(3) arg_cong [OF v, of v_editable] find_block_Some [OF assms(4)] by simp_all
  with text_view_body [OF _ assms(5)] arg_cong [OF v, of v_content] show ?thesis by simp
qed

lemma onBlockInput_text:
  assumes "find_block bid (app_blocks a) = Some b"
  shows "map_option blockText (find_block bid (app_blocks (onBlockInput bid tx rid a))) = Some (input_text (blockText b) tx)"
proof (cases "input_text (blockText b) tx = blockText b")
  case True
  with assms show ?thesis by (simp add: onBlockInput_def)
qed (rule input_text_shown [OF assms])

text \<open>
  C10. Typing on the page: the element of a text block shows the text of the block (the old and the
  new text of a pending suggestion while changes are tracked), followed by the label of a pending
  suggestion and the names of the peers whose caret is in the block. An input event reads the
  whole element: the labels become part of the text of the block.
\<close>

theorem docs_page_typing:
  assumes "distinct (map b_id (app_blocks a))" "find_block (v_id v) (app_blocks a) = Some b"
    "\<forall>s\<in>set (inlines b). style_safe s" "v \<in> set (page_view a)" "v_editable v" "\<not> ends_nl (t @ labels_text lab v)"
  shows "innerText lab v
      = body_text (track_changes (docState a)) (pendingRevisionFor (v_id v) (revisions (docState a))) b @ labels_text lab v
    \<and> labels v = (if pendingRevisionFor (v_id v) (revisions (docState a)) \<noteq> None then [''suggested''] else [])
        @ map fst (carets_in (peerCursors a) (v_id v))
    \<and> map_option blockText (find_block (v_id v) (app_blocks (surface_input v (t @ labels_text lab v) rid a)))
      = Some (t @ labels_text lab v)"
  using page_text [OF assms(1,4,5,2,3)] page_labels [OF assms(1,4,5,2)] onBlockInput_text [OF assms(2), of "t @ labels_text lab v" rid] assms(5,6)
  by (simp add: innerText_def surface_input_def input_text_def)

definition bob_here :: app where
  "bob_here = (sample_app two_blocks)\<lparr>peerCursors := [(''bob'', ''b'', 2, ''#c45'')]\<rparr>"

definition b_element :: block_view where
  "b_element = page_view bob_here ! 1"

theorem docs_page_typing_witness:
  "innerText id b_element = ''xybob''
   \<and> map_option blockText (find_block ''b'' (app_blocks (surface_input b_element ''xyzbob'' ''r'' bob_here))) = Some ''xyzbob''"
proof -
  let ?b = "new_block ''b'' ''paragraph'' [plain_span ''xy'']"
  have v: "v_id b_element = ''b''" "v_editable b_element" "labels_text id b_element = ''bob''" "distinct (map b_id (app_blocks bob_here))"
    "find_block ''b'' (app_blocks bob_here) = Some ?b" "\<forall>s\<in>set (inlines ?b). style_safe s" "\<not> ends_nl ''xyzbob''"
    "track_changes (docState bob_here) = False" "revisions (docState bob_here) = []"
    by code_simp+
  have "length (page_view bob_here) = 2" by code_simp
  then have "b_element \<in> set (page_view bob_here)" unfolding b_element_def by simp
  from docs_page_typing [OF v(4) _ v(6) this v(2), of "''xyz''" id "''r''"] v show ?thesis
    by (simp add: body_text_def pendingRevisionFor_def blockText_def new_block_def plain_span_def)
qed

end
