(* ===== verification/Docs_Tools.thy ===== *)
theory Docs_Tools
  imports Docs_View
begin

text \<open>
  The tools around the page of the documents client (\<open>ui/docs/web/app.js\<close>): placing the caret
  (\<open>pointInBlock\<close>), the comments, the counts, the ruler, footnote marks, presence and the spelling
  pass.
\<close>

section \<open>Placing the caret\<close>

text \<open>The text nodes of an element in document order. A point is a node and an offset in it;
  \<open>None\<close> is the element itself.\<close>

fun point_loop :: "nat \<Rightarrow> nat \<Rightarrow> (nat \<times> nat) option \<Rightarrow> string list \<Rightarrow> (nat \<times> nat) option" where
  "point_loop i remaining prev [] = prev"
| "point_loop i remaining prev (node # nodes) =
     (if remaining \<le> length node then Some (i, remaining)
      else point_loop (Suc i) (remaining - length node) (Some (i, length node)) nodes)"

definition pointInBlock :: "string list \<Rightarrow> int \<Rightarrow> (nat \<times> nat) option" where
  "pointInBlock nodes offset = point_loop 0 (nat (max 0 offset)) None nodes"

text \<open>The ends of the range \<open>selectRangeInBlock\<close> selects.\<close>

definition range_points :: "string list \<Rightarrow> int \<Rightarrow> int \<Rightarrow> (nat \<times> nat) option \<times> (nat \<times> nat) option" where
  "range_points nodes start stop =
     (pointInBlock nodes (max 0 (min start stop)), pointInBlock nodes (max 0 (max start stop)))"

text \<open>The text offset of a point: the length of the text before it.\<close>

definition point_offset :: "string list \<Rightarrow> (nat \<times> nat) option \<Rightarrow> nat" where
  "point_offset nodes p = (case p of None \<Rightarrow> 0 | Some (i, k) \<Rightarrow> length (concat (take i nodes)) + k)"

definition point_ok :: "string list \<Rightarrow> nat \<times> nat \<Rightarrow> bool" where
  "point_ok nodes p \<longleftrightarrow> fst p < length nodes \<and> snd p \<le> length (nodes ! fst p)"

lemma point_loop_offset:
  assumes "i = length before" "length (concat before) = base"
    "case prev of None \<Rightarrow> before = [] | Some p \<Rightarrow> point_ok (before @ nodes) p \<and> point_offset (before @ nodes) (Some p) = base"
  shows "point_offset (before @ nodes) (point_loop i k prev nodes) = min (base + k) (base + length (concat nodes))
     \<and> (case point_loop i k prev nodes of None \<Rightarrow> before @ nodes = [] | Some p \<Rightarrow> point_ok (before @ nodes) p)"
  using assms
proof (induction nodes arbitrary: i k prev "before" base)
  case Nil
  then show ?case by (auto simp: point_offset_def split: option.splits)
next
  case (Cons node nodes)
  show ?case
  proof (cases "k \<le> length node")
    case True
    with Cons.prems show ?thesis by (simp add: point_offset_def point_ok_def)
  next
    case False
    have "point_ok ((before @ [node]) @ nodes) (i, length node)"
      "point_offset ((before @ [node]) @ nodes) (Some (i, length node)) = base + length node"
      using Cons.prems by (simp_all add: point_ok_def point_offset_def)
    with Cons.IH [of "Suc i" "before @ [node]" "base + length node" "Some (i, length node)" "k - length node"] Cons.prems False
    show ?thesis by (auto simp: add.assoc split: option.splits)
  qed
qed

lemma pointInBlock_offset:
  "point_offset nodes (pointInBlock nodes off) = min (nat off) (length (concat nodes))"
  "pointInBlock nodes off = Some p \<Longrightarrow> point_ok nodes p"
  using point_loop_offset [where i = 0 and before = "[]" and base = 0 and prev = None and nodes = nodes and k = "nat (max 0 off)"] by (auto simp: pointInBlock_def)

section \<open>Comments\<close>

definition comment_html :: "comment \<Rightarrow> string" where
  "comment_html c =
     ''<div><strong>'' @ escapeHtml (or_default (Some (c_author_id c)) ''user'') @ ''</strong>''
     @ (if c_resolved c then '' - resolved'' else []) @ ''</div>''
     @ (if truthy_str (c_quote c)
        then ''<div class='' @ QT @ ''era-hint'' @ QT @ '' style='' @ QT @ ''font-style:italic'' @ QT @ ''>'' @ QT
          @ escapeHtml (or_empty (c_quote c)) @ QT @ ''</div>'' else [])
     @ ''<div>'' @ escapeHtml (c_text c) @ ''</div>''"

text \<open>A row: its markup, whether it has the button that resolves the comment, the comment, and the
  block a click on it goes to.\<close>

record comment_row =
  cr_html :: string
  cr_button :: bool
  cr_id :: string
  cr_block :: string

definition renderComments :: "comment list \<Rightarrow> comment_row list" where
  "renderComments cs =
     map (\<lambda>c. \<lparr> cr_html = comment_html c, cr_button = (\<not> c_resolved c), cr_id = c_id c, cr_block = c_block_id c \<rparr>) cs"

definition highlight_element :: "string \<Rightarrow> app \<Rightarrow> app" where
  "highlight_element bid a = (if bid \<in> v_id ` set (page_view a) then emit (Highlight bid) a else a)"

definition comment_click :: "bool \<Rightarrow> comment_row \<Rightarrow> app \<Rightarrow> app" where
  "comment_click on_button r a =
     (if on_button then if cr_button r then resolveComment (cr_id r) a else a else highlight_element (cr_block r) a)"

section \<open>Counts, presence\<close>

definition openWordCountDialog :: "block list \<Rightarrow> nat \<times> nat \<times> nat" where
  "openWordCountDialog bs = (countWords bs, countChars bs, if countWords bs \<noteq> 0 then estimatePages bs else 0)"

definition doc_chip :: "string \<Rightarrow> string" where
  "doc_chip uid = (if length uid > 12 then take 10 uid @ ''...'' else uid)"

definition doc_presence_peers :: "string \<Rightarrow> string list \<Rightarrow> (string \<times> string) list" where
  "doc_presence_peers self peers =
     map (\<lambda>uid. (doc_chip uid, peerColor uid)) (filter (\<lambda>p. p \<noteq> [] \<and> p \<noteq> self) peers)"

definition broadcastCaret :: "string \<Rightarrow> int \<Rightarrow> app \<Rightarrow> app" where
  "broadcastCaret bid off a = ws_send (Presence_caret (userId a) bid off (peerColor (userId a))) a"

section \<open>The ruler\<close>

text \<open>The marker is dragged over a track that stands for 80 mm. Positions are exact.\<close>

datatype ruler_event = Marker_down | Marker_move rat | Marker_up | Track_down rat

definition pxToMm :: "rat \<Rightarrow> rat \<Rightarrow> rat \<Rightarrow> rat" where
  "pxToMm left width clientX = max 0 (min width (clientX - left)) / width * 80"

definition js_round :: "rat \<Rightarrow> int" where
  "js_round x = \<lfloor>x + 1 / 2\<rfloor>"

definition ruler_step :: "rat \<Rightarrow> rat \<Rightarrow> dom \<Rightarrow> ruler_event \<Rightarrow> bool \<times> app \<Rightarrow> bool \<times> app" where
  "ruler_step left width dm e s =
     (case e of
        Marker_down \<Rightarrow> (True, snd s)
      | Marker_move x \<Rightarrow> (fst s, if fst s then setIndentMm (js_round (pxToMm left width x)) dm (snd s) else snd s)
      | Marker_up \<Rightarrow> (False, snd s)
      | Track_down x \<Rightarrow> (fst s, setIndentMm (js_round (pxToMm left width x)) dm (snd s)))"

text \<open>What the ruler shows: the indent of the selected block, the margins, and the shift of the
  track in hundredths of a rem.\<close>

definition syncRulerFromSelection :: "dom \<Rightarrow> app \<Rightarrow> int \<times> int \<times> int" where
  "syncRulerFromSelection dm a =
     (let mm = (case selectedBlock dm (app_blocks a) of None \<Rightarrow> 0 | Some b \<Rightarrow> or_zero (indent_mm b));
          given = (case page (docState a) of None \<Rightarrow> 0 | Some p \<Rightarrow> or_zero (pg_margins_mm p));
          margins = (if given = 0 then 20 else given)
      in (mm, margins, min 40 margins * 15))"

section \<open>Footnote marks\<close>

text \<open>\<open>textContent\<close> of an element: no newline for a line break, and the button of a table of
  contents is read too.\<close>

fun drop_tags :: "bool \<Rightarrow> string \<Rightarrow> string" where
  "drop_tags inside [] = []"
| "drop_tags False (c # s) = (if c = CHR ''<'' then drop_tags True s else c # drop_tags False s)"
| "drop_tags True (c # s) = drop_tags (c \<noteq> CHR ''>'') s"

fun shown_textContent :: "shown \<Rightarrow> string" where
  "shown_textContent (Html h) = unescape (drop_tags False h)"
| "shown_textContent (Plain t) = t"
| "shown_textContent (Picture src alt fetched) = []"
| "shown_textContent (Toc_lines ls) = concat (map fst ls) @ ''Refresh TOC''"

definition textContent :: "block_view \<Rightarrow> string" where
  "textContent v = shown_textContent (v_content v) @ concat (labels v)"

text \<open>The regular expression of a footnote mark, a match at the start of a string.\<close>

definition fn_match :: "string \<Rightarrow> nat option" where
  "fn_match s =
     (let ds = takeWhile is_digit (drop 3 s)
      in if to_lower (take 3 s) = ''[fn'' \<and> ds \<noteq> [] \<and> take 1 (drop (3 + length ds) s) = '']''
         then Some (4 + length ds) else None)"

function fn_scan :: "nat \<Rightarrow> string \<Rightarrow> (nat \<times> string) list" where
  "fn_scan i [] = []"
| "fn_scan i (c # s) =
     (case fn_match (c # s) of
        Some n \<Rightarrow> (i, take n (c # s)) # fn_scan (i + n) (drop n (c # s))
      | None \<Rightarrow> fn_scan (Suc i) s)"
  by pat_completeness auto
termination
  by (relation "measure (\<lambda>(i, s). length s)") (auto simp: fn_match_def Let_def split: if_splits)

text \<open>The mark that the caret is in or at, without its brackets.\<close>

definition fn_hit :: "string \<Rightarrow> nat \<Rightarrow> string option" where
  "fn_hit full off =
     map_option (\<lambda>m. butlast (tl (snd m))) (find (\<lambda>(i, m). i \<le> off \<and> off \<le> i + length m) (fn_scan 0 full))"

definition footnote_key :: "block \<Rightarrow> string" where
  "footnote_key b = or_default (bookmark_name b) ''fn''"

definition surface_click :: "string \<Rightarrow> string \<Rightarrow> nat \<Rightarrow> app \<Rightarrow> app" where
  "surface_click typ full off a =
     (if typ = ''footnote'' then a
      else (case fn_hit full off of None \<Rightarrow> a
            | Some key \<Rightarrow>
                (case find (\<lambda>b. block_type b = ''footnote'' \<and> \<not> hr_block b \<and> footnote_key b = key) (app_blocks a) of
                   None \<Rightarrow> a | Some b \<Rightarrow> emit (Highlight (b_id b)) a)))"

text \<open>A click on the mark of a footnote goes to the first element that shows the mark.\<close>

definition footnote_mark_click :: "block \<Rightarrow> app \<Rightarrow> app" where
  "footnote_mark_click fn a =
     (let mark = ''['' @ or_empty (bookmark_name fn) @ '']''
      in case find (\<lambda>v. v_type v \<noteq> ''footnote'' \<and> str_includes mark (textContent v)) (page_view a) of
           None \<Rightarrow> a | Some v \<Rightarrow> emit (Highlight (v_id v)) a)"

section \<open>Spelling\<close>

text \<open>
  The word lists, without the words that have letters outside the model's characters (they cannot
  occur in a text of the model). The lists are plain objects, so the name of the inherited property
  \<open>constructor\<close> counts as a word.
\<close>

definition spell_words :: "string \<Rightarrow> string list" where
  "spell_words lg =
     (if lg = ''en'' then [''the'', ''and'', ''for'', ''that'', ''with'', ''this'', ''from'', ''have'', ''document'', ''office'',
         ''era'', ''drive'', ''table'', ''sheet'', ''presentation'', ''project'', ''paragraph'', ''heading'', ''comment'',
         ''version'', ''export'']
      else if lg = ''az'' then [''bu'', ''ofis''] else [])"

definition in_dict :: "string \<Rightarrow> string \<Rightarrow> string \<Rightarrow> bool" where
  "in_dict docLang lg key \<longleftrightarrow> key \<in> set (spell_words ''en'' @ spell_words docLang @ spell_words lg) \<or> key = ''constructor''"

definition spell_letter :: "char \<Rightarrow> bool" where
  "spell_letter c \<longleftrightarrow> is_upper c \<or> is_lower c \<or> 192 \<le> (of_char c :: nat)"

definition vowel :: "char \<Rightarrow> bool" where
  "vowel c \<longleftrightarrow> lower_char c \<in> set ''aeiou''"

fun has_run :: "(char \<Rightarrow> bool) \<Rightarrow> nat \<Rightarrow> nat \<Rightarrow> string \<Rightarrow> bool" where
  "has_run P n k [] \<longleftrightarrow> n \<le> k"
| "has_run P n k (c # s) \<longleftrightarrow> n \<le> k \<or> has_run P n (if P c then Suc k else 0) s"

definition possible_typo :: "string \<Rightarrow> string \<Rightarrow> string set \<Rightarrow> string \<Rightarrow> bool" where
  "possible_typo docLang lg ignored w \<longleftrightarrow>
     to_lower w \<notin> ignored \<and> 4 \<le> length w \<and> list_all spell_letter w \<and> \<not> in_dict docLang lg (to_lower w)
     \<and> (has_run vowel 3 0 w \<or> has_run (\<lambda>c. \<not> vowel c) 5 0 w)"

definition spell_flag :: "string \<Rightarrow> string" where
  "spell_flag w = ''<span class='' @ QT @ ''spell-flag'' @ QT @ '' title='' @ QT @ ''Possible typo - dblclick to ignore'' @ QT
     @ '' data-word='' @ QT @ escapeHtml (to_lower w) @ QT @ ''>'' @ escapeHtml w @ ''</span>''"

text \<open>\<open>split(/(\s+)/)\<close>: words and the white space between them; empty pieces are left out.\<close>

function word_pieces :: "string \<Rightarrow> string list" where
  "word_pieces [] = []"
| "word_pieces (c # s) =
     (let P = (\<lambda>x. is_space x = is_space c) in takeWhile P (c # s) # word_pieces (dropWhile P s))"
  by pat_completeness auto
termination
  by (relation "measure length") (auto simp: le_imp_less_Suc length_dropWhile_le)

definition spell_html :: "string \<Rightarrow> string \<Rightarrow> string set \<Rightarrow> string \<Rightarrow> string" where
  "spell_html docLang lg ignored t =
     concat (map (\<lambda>w. if possible_typo docLang lg ignored w then spell_flag w else escapeHtml w) (word_pieces t))"

definition lang_code :: "string \<Rightarrow> string" where
  "lang_code s = to_lower (take 2 s)"

text \<open>The new markup of every element but pictures and tables, and the number of flags.\<close>

definition spell_block :: "string \<Rightarrow> string set \<Rightarrow> block \<Rightarrow> (string \<times> string) option" where
  "spell_block docLang ignored b =
     (if block_type b = ''image'' \<or> block_type b = ''table'' then None
      else Some (b_id b, spell_html docLang (lang_code (or_default (lang b) docLang)) ignored (blockText b)))"

definition spell_count :: "string \<Rightarrow> string set \<Rightarrow> block \<Rightarrow> nat" where
  "spell_count docLang ignored b =
     (if block_type b = ''image'' \<or> block_type b = ''table'' then 0
      else length (filter (possible_typo docLang (lang_code (or_default (lang b) docLang)) ignored) (word_pieces (blockText b))))"

definition runSpellingLite :: "string \<Rightarrow> string set \<Rightarrow> app \<Rightarrow> (string \<times> string) list \<times> app" where
  "runSpellingLite language ignored a =
     (let docLang = lang_code (or_default (Some language) ''en'');
          flags = sum_list (map (spell_count docLang ignored) (app_blocks a))
      in (List.map_filter (spell_block docLang ignored) (app_blocks a),
          setAuthStatus (if flags \<noteq> 0 then ''Spelling ('' @ docLang @ ''): '' @ nat_str flags @ '' issue(s) - dblclick to ignore''
            else ''Spelling ('' @ docLang @ ''): no issues flagged'') False a))"

lemma concat_word_pieces: "concat (word_pieces t) = t"
  by (induction t rule: word_pieces.induct) (simp_all add: Let_def)

lemma spell_reads_back: "content_text (Html (spell_html docLang lg ignored t)) = t"
proof -
  have "CHR ''>'' \<notin> set (escapeHtml s)" for s using escape_safe [of s] by auto
  then have flag: "reads_as (spell_flag w) (escapeHtml w)" for w
    using reads_as_wrapped [OF reads_as_escaped [of w], of "''span class='' @ QT @ ''spell-flag'' @ QT @ '' title='' @ QT
        @ ''Possible typo - dblclick to ignore'' @ QT @ '' data-word='' @ QT @ escapeHtml (to_lower w) @ QT" "''/span''"]
    by (simp add: spell_flag_def)
  have "reads_as (concat (map (\<lambda>w. if possible_typo docLang lg ignored w then spell_flag w else escapeHtml w) ws)) (escapeHtml (concat ws))" for ws
  proof (induction ws)
    case (Cons w ws)
    then show ?case using reads_as_append [OF flag [of w]] reads_as_append [OF reads_as_escaped [of w]] by (simp add: escape_append)
  qed (simp add: reads_as_def escape_one_pass)
  from this [of "word_pieces t"] show ?thesis unfolding spell_html_def concat_word_pieces by (rule reads_as_content)
qed

section \<open>Dragging the indent\<close>

definition indent_doc :: "string \<Rightarrow> doc \<Rightarrow> int \<Rightarrow> doc" where
  "indent_doc bid d x = d\<lparr>blocks := upd_block bid (\<lambda>b. b\<lparr>indent_mm := num_or_undefined (Some x)\<rparr>) (blocks d)\<rparr>"

lemma indent_doc_twice [simp]: "indent_doc i (indent_doc i d x) y = indent_doc i d y"
  by (simp add: indent_doc_def upd_block_def upd_first_upd_first)

lemma indent_doc_again: "indent_doc i (indent_doc i d x) = indent_doc i d"
  by (rule ext) simp

lemma selected_indent:
  assumes "selectedBlock dm (blocks d) = Some b"
  shows "\<exists>b'. selectedBlock dm (blocks (indent_doc (b_id b) d x)) = Some b' \<and> b_id b' = b_id b"
proof -
  from assms have b: "d_cur dm = Some (b_id b)" "find_block (b_id b) (blocks d) = Some b"
    by (auto simp: selectedBlock_def bind_eq_Some_conv dest: find_block_Some)
  then show ?thesis by (simp add: selectedBlock_def indent_doc_def find_block_upd)
qed

lemma setIndentMm_doc:
  assumes "selectedBlock dm (app_blocks a) = Some b"
  shows "docState (setIndentMm mm dm a) = indent_doc (b_id b) (docState a) (max 0 (min 80 mm))"
    "undoStack (setIndentMm mm dm a) = undoStack (pushUndo a)"
  using assms
  by (simp_all add: setIndentMm_def Let_def scheduleAutosave_def setSaveStatus_def emit_def format_selected_def sendOp_def
      ws_send_def map_blocks_def map_doc_def pushUndo_def indent_doc_def split: option.splits)

definition drag :: "rat \<Rightarrow> rat \<Rightarrow> dom \<Rightarrow> rat list \<Rightarrow> app \<Rightarrow> app" where
  "drag left width dm xs a = snd (fold (\<lambda>x. ruler_step left width dm (Marker_move x)) xs (True, a))"

lemma drag_Cons: "drag left width dm (x # xs) a = drag left width dm xs (setIndentMm (js_round (pxToMm left width x)) dm a)"
  by (simp add: drag_def ruler_step_def)

lemma pushUndo_last: "length (undoStack a) \<le> UNDO_MAX \<Longrightarrow>
    undoStack (pushUndo a) = drop (length (undoStack a) + 1 - UNDO_MAX) (undoStack a @ [docState a])"
  by (cases "length (undoStack a) = UNDO_MAX") (auto simp: pushUndo_def Let_def drop_Suc UNDO_MAX_def tl_append split: list.split)

text \<open>The documents in front of the moves of a drag, of which the stack keeps the last ones.\<close>

lemma drag_stack:
  assumes "selectedBlock dm (app_blocks a) = Some b" "length (undoStack a) \<le> UNDO_MAX"
  shows "\<exists>ms. length ms = length xs - 1 \<and> set ms \<subseteq> {0..80}
    \<and> undoStack (drag left width dm xs a)
      = (let ds = undoStack a @ (if xs = [] then [] else docState a # map (indent_doc (b_id b) (docState a)) ms)
         in drop (length ds - UNDO_MAX) ds)"
  using assms
proof (induction xs arbitrary: a b)
  case Nil
  then show ?case by (simp add: drag_def)
next
  case (Cons x xs)
  let ?m = "max 0 (min 80 (js_round (pxToMm left width x)))" and ?a = "setIndentMm (js_round (pxToMm left width x)) dm a"
  let ?st = "undoStack a @ [docState a]"
  note e = setIndentMm_doc [OF Cons.prems(1), of "js_round (pxToMm left width x)"]
  have u: "undoStack ?a = drop (length ?st - UNDO_MAX) ?st" unfolding e(2) using pushUndo_last [OF Cons.prems(2)] by simp
  then have "length (undoStack ?a) \<le> UNDO_MAX" by simp
  moreover obtain b' where b': "selectedBlock dm (app_blocks ?a) = Some b'" "b_id b' = b_id b"
    using selected_indent [OF Cons.prems(1)] unfolding e(1) by blast
  ultimately obtain ms where ms: "length ms = length xs - 1" "set ms \<subseteq> {0..80}"
    "undoStack (drag left width dm xs ?a) = (let ds = undoStack ?a @ (if xs = [] then []
        else docState ?a # map (indent_doc (b_id b') (docState ?a)) ms) in drop (length ds - UNDO_MAX) ds)"
    using Cons.IH [of ?a b'] by blast
  have cut: "drop (length (drop k ys @ zs) - n) (drop k ys @ zs) = drop (length (ys @ zs) - n) (ys @ zs)"
    if "k = length ys - n" for k n and ys zs :: "doc list" using that by (cases "length ys \<le> n") (auto simp: add.commute)
  show ?case
  proof (cases "xs = []")
    case True
    with ms(3) u show ?thesis by (intro exI [of _ "[]"]) (auto simp: drag_Cons)
  next
    case False
    let ?zs = "map (indent_doc (b_id b) (docState a)) (?m # ms)"
    have "undoStack (drag left width dm (x # xs) a)
        = drop (length (drop (length ?st - UNDO_MAX) ?st @ ?zs) - UNDO_MAX) (drop (length ?st - UNDO_MAX) ?st @ ?zs)"
      using False by (simp only: drag_Cons ms(3) Let_def u if_False e(1) b'(2) indent_doc_again list.map)
    also have "\<dots> = drop (length (?st @ ?zs) - UNDO_MAX) (?st @ ?zs)" by (rule cut) simp
    finally have "undoStack (drag left width dm (x # xs) a) = drop (length (?st @ ?zs) - UNDO_MAX) (?st @ ?zs)" .
    then show ?thesis using ms(1,2) False by (intro exI [of _ "?m # ms"]) (cases xs; auto)
  qed
qed

section \<open>Properties\<close>

text \<open>
  C11. Placing the caret: for every offset \<open>pointInBlock\<close> gives a point inside a text node whose text
  offset is that offset, cut to the length of the text; so a restored selection covers the
  characters it covered before the repaint, with its ends in order.
\<close>

theorem docs_caret_point:
  "point_offset nodes (pointInBlock nodes off) = min (nat off) (length (concat nodes))
   \<and> (case pointInBlock nodes off of None \<Rightarrow> nodes = [] | Some p \<Rightarrow> point_ok nodes p)
   \<and> map_prod (point_offset nodes) (point_offset nodes) (range_points nodes start stop)
     = (min (nat (min start stop)) (length (concat nodes)), min (nat (max start stop)) (length (concat nodes)))"
proof -
  have "case pointInBlock nodes off of None \<Rightarrow> nodes = [] | Some p \<Rightarrow> point_ok nodes p"
    using point_loop_offset [where i = 0 and before = "[]" and base = 0 and prev = None and nodes = nodes and k = "nat (max 0 off)"]
    by (auto simp: pointInBlock_def split: option.splits)
  moreover have "nat (max 0 x) = nat x" for x :: int by simp
  ultimately show ?thesis by (simp add: pointInBlock_offset(1) range_points_def)
qed

text \<open>
  One drag of the ruler marker pushes an undo entry for every pointer move: after more than 40
  moves the whole undo stack consists of documents that differ from the one before the drag by the
  indent of the selected block only, and nothing before the drag can be undone any more.
\<close>

theorem docs_ruler_drag:
  assumes "selectedBlock dm (app_blocks a) = Some b" "length (undoStack a) \<le> UNDO_MAX" "UNDO_MAX < length xs"
    "d \<in> set (undoStack (drag left width dm xs a))"
  shows "length (undoStack (drag left width dm xs a)) = UNDO_MAX \<and> (\<exists>x\<in>{0..80}. d = indent_doc (b_id b) (docState a) x)"
proof -
  obtain ms where ms: "length ms = length xs - 1" "set ms \<subseteq> {0..80}"
    "undoStack (drag left width dm xs a) = (let ds = undoStack a @ (if xs = [] then [] else docState a # map (indent_doc (b_id b) (docState a)) ms)
         in drop (length ds - UNDO_MAX) ds)" using drag_stack [OF assms(1,2)] by blast
  have n: "UNDO_MAX \<le> length ms" "xs \<noteq> []" using assms(3) ms(1) by auto
  with ms(3) have u: "undoStack (drag left width dm xs a) = drop (length ms - UNDO_MAX) (map (indent_doc (b_id b) (docState a)) ms)"
    by (simp add: Let_def Suc_diff_le)
  then have "d \<in> indent_doc (b_id b) (docState a) ` set ms" using assms(4) by (auto dest: in_set_dropD)
  with ms(2) u n(1) show ?thesis by auto
qed

theorem docs_ruler_drag_witness:
  "(let st = undoStack (drag 0 100 (range_sel ''b'' 0 0) (replicate 41 50) (sample_app two_blocks))
    in length st = 40 \<and> map blockText (blocks (hd st)) = [''abcd'', ''xy''])"
proof -
  let ?st = "undoStack (drag 0 100 (range_sel ''b'' 0 0) (replicate 41 50) (sample_app two_blocks))"
  have sel: "selectedBlock (range_sel ''b'' 0 0) (app_blocks (sample_app two_blocks)) = Some (new_block ''b'' ''paragraph'' [plain_span ''xy''])"
    "length (undoStack (sample_app two_blocks)) \<le> UNDO_MAX" by code_simp+
  have long: "UNDO_MAX < length (replicate 41 (50 :: rat))" by (simp add: UNDO_MAX_def)
  note t = docs_ruler_drag [OF sel long, where left = 0 and width = 100]
  have "set ?st \<noteq> {}"
    using drag_stack [OF sel, where left = 0 and width = 100 and xs = "replicate 41 50"] by (auto simp: Let_def UNDO_MAX_def)
  then have h: "hd ?st \<in> set ?st" by simp
  from t [OF h] obtain x where x: "length ?st = UNDO_MAX" "hd ?st = indent_doc ''b'' (docState (sample_app two_blocks)) x"
    by (auto simp: new_block_def)
  then show ?thesis by (simp add: UNDO_MAX_def indent_doc_def sample_app_def sample_doc_def two_blocks_def upd_block_def
        new_block_def blockText_def plain_span_def bold_span_def)
qed

end
