(* ===== verification/Shell_Session.thy ===== *)
theory Shell_Session
  imports Era_Url Complex_Main
begin

text \<open>
  The session of a page (\<open>ui/office-shell/web/shell.js\<close>): the stored token, its expiry, the
  redirect to the sign-in page; and the sign-in page itself (\<open>ui/office-shell/web/login.js\<close>).

  \<open>jwt\<close> is what \<open>JSON.parse(atob(part))\<close> makes of the middle part of a token, \<open>None\<close> when it
  throws; \<open>now\<close> is \<open>Date.now()\<close>. A missing token is the empty string.
\<close>

section \<open>Tokens\<close>

datatype exp_claim = No_exp | Exp_num rat | Exp_nan

record claims =
  cl_sub :: "string option"
  cl_email :: "string option"
  cl_tenant_id :: "string option"
  cl_exp :: exp_claim

record session =
  era_token :: string
  pageAddress :: string
  href :: "string option"

definition token_part :: "string \<Rightarrow> string option" where
  "token_part token =
     (case split_char CHR ''.'' token of
        _ # p # _ \<Rightarrow> Some (map (\<lambda>c. if c = CHR ''-'' then CHR ''+'' else if c = CHR ''_'' then CHR ''/'' else c) p)
      | _ \<Rightarrow> None)"

definition parseJwtPayload :: "(string \<Rightarrow> claims option) \<Rightarrow> string \<Rightarrow> claims option" where
  "parseJwtPayload jwt token =
     (if token = [] then None
      else (case token_part token of
              None \<Rightarrow> None
            | Some p \<Rightarrow> if p = [] then None else jwt p))"

definition isTokenExpired :: "(string \<Rightarrow> claims option) \<Rightarrow> int \<Rightarrow> session \<Rightarrow> string \<Rightarrow> bool" where
  "isTokenExpired jwt now s token =
     (let t = or_default (Some token) (era_token s) in
      if t = [] then True
      else (case parseJwtPayload jwt t of
              None \<Rightarrow> True
            | Some p \<Rightarrow>
                (case cl_exp p of
                   No_exp \<Rightarrow> False
                 | Exp_nan \<Rightarrow> False
                 | Exp_num e \<Rightarrow> e * 1000 \<le> of_int (now - 30 * 1000))))"

definition loginUrl :: "session \<Rightarrow> string \<Rightarrow> string" where
  "loginUrl s next =
     ''/login?next='' @ encodeURIComponent (or_default (Some (or_default (Some next) (pageAddress s))) ''/drive/'')"

definition redirectToLogin :: "string \<Rightarrow> session \<Rightarrow> session" where
  "redirectToLogin next s = s\<lparr>era_token := [], href := Some (loginUrl s next)\<rparr>"

definition requireAuthOrRedirect :: "(string \<Rightarrow> claims option) \<Rightarrow> int \<Rightarrow> session \<Rightarrow> session \<times> bool" where
  "requireAuthOrRedirect jwt now s =
     (if era_token s = [] \<or> isTokenExpired jwt now s (era_token s) then (redirectToLogin [] s, False) else (s, True))"

definition handleUnauthorized :: "int \<Rightarrow> session \<Rightarrow> session \<times> bool" where
  "handleUnauthorized status s = (if status \<noteq> 401 then (s, False) else (redirectToLogin [] s, True))"

text \<open>The headers that \<open>authFetch\<close> adds to those of the caller, and what it does with the reply.\<close>

definition auth_headers :: "session \<Rightarrow> (string \<times> string) list \<Rightarrow> (string \<times> string) list" where
  "auth_headers s hs =
     (if era_token s \<noteq> [] \<and> or_empty (map_of hs ''Authorization'') = [] \<and> or_empty (map_of hs ''authorization'') = []
      then upsert ''Authorization'' (''Bearer '' @ era_token s) hs else hs)"

definition authFetch :: "((string \<times> string) list \<Rightarrow> int) \<Rightarrow> (string \<times> string) list \<Rightarrow> session \<Rightarrow> session \<times> int" where
  "authFetch fetch hs s = (let status = fetch (auth_headers s hs) in (fst (handleUnauthorized status s), status))"

definition signOut :: "string \<Rightarrow> session \<Rightarrow> session" where
  "signOut next s = s\<lparr>era_token := [], href := Some (loginUrl s (or_default (Some next) ''/drive/''))\<rparr>"

definition session_watch :: "(string \<Rightarrow> claims option) \<Rightarrow> int \<Rightarrow> session \<Rightarrow> session" where
  "session_watch jwt now s =
     (if era_token s \<noteq> [] \<and> isTokenExpired jwt now s (era_token s) then redirectToLogin [] s else s)"

text \<open>The account chip: lamp, label, title; a click signs out after a confirmation or opens the sign-in page.\<close>

record user_chip =
  chip_lamp :: bool
  chip_label :: string
  chip_title :: string

definition syncUserChip :: "(string \<Rightarrow> claims option) \<Rightarrow> int \<Rightarrow> session \<Rightarrow> user_chip" where
  "syncUserChip jwt now s =
     (if era_token s = [] \<or> isTokenExpired jwt now s (era_token s) then
        \<lparr> chip_lamp = False, chip_label = ''Sign in'', chip_title = ''Sign in to ERA Office'' \<rparr>
      else
        (let p = parseJwtPayload jwt (era_token s);
             email = or_empty (Option.bind p cl_email);
             sub = or_empty (Option.bind p cl_sub);
             who = or_default (Some email) sub
         in \<lparr> chip_lamp = True, chip_label = or_default (Some who) ''Account'',
              chip_title = who @ '' - signed in - click to sign out'' \<rparr>))"

definition user_chip_click :: "(string \<Rightarrow> claims option) \<Rightarrow> int \<Rightarrow> bool \<Rightarrow> session \<Rightarrow> session" where
  "user_chip_click jwt now confirmed s =
     (if chip_lamp (syncUserChip jwt now s) then (if confirmed then signOut [] s else s)
      else s\<lparr>href := Some (loginUrl s [])\<rparr>)"

section \<open>Status texts\<close>

record toast =
  to_text :: string
  to_class :: string
  to_show :: bool
  to_timer :: "nat option"

definition toastStatus :: "string \<Rightarrow> bool \<Rightarrow> toast \<Rightarrow> toast" where
  "toastStatus msg isErr t =
     (if msg = [] \<or> to_lower (js_trim msg) = ''token present'' then t\<lparr>to_text := [], to_show := False\<rparr>
      else \<lparr> to_text = msg, to_class = (if isErr then ''era-status err'' else ''era-status ok''), to_show = True,
             to_timer = Some (if isErr then 5000 else 2200) \<rparr>)"

definition toast_timer :: "toast \<Rightarrow> toast" where
  "toast_timer t = t\<lparr>to_show := False, to_timer := None\<rparr>"

definition save_pill_map :: "string \<Rightarrow> string \<Rightarrow> (string \<times> string) option" where
  "save_pill_map state detail =
     map_of [(''idle'', ''All changes saved'', ''ok''), (''dirty'', ''Unsaved changes'', ''dirty''),
             (''saving'', ''Saving...'', []), (''ok'', ''Saved'', ''ok''),
             (''err'', or_default (Some detail) ''Save failed'', ''err'')] state"

text \<open>Text, class and \<open>data-state\<close> of the pill.\<close>

definition setSavePill :: "string \<Rightarrow> string \<Rightarrow> string \<times> string \<times> string" where
  "setSavePill state detail =
     (let m = (case save_pill_map state detail of Some p \<Rightarrow> p | None \<Rightarrow> (''All changes saved'', ''ok''));
          txt1 = (if state = ''ok'' \<and> detail \<noteq> [] then detail else fst m)
      in (txt1, ''era-save-pill'' @ (if snd m = [] then [] else CHR '' '' # snd m), or_default (Some state) ''idle''))"

definition setStatus :: "string \<Rightarrow> string \<Rightarrow> string \<times> string" where
  "setStatus t kind = (t, ''era-status'' @ (if kind = [] then [] else CHR '' '' # kind))"

text \<open>Leaving the title field: an empty title becomes the fallback; the result is the value shown and committed.\<close>

definition doc_title_blur :: "string option \<Rightarrow> string \<Rightarrow> string \<times> string" where
  "doc_title_blur fallback v =
     (let t = js_trim v; shown = (if t = [] then or_default fallback ''Untitled'' else v)
      in (shown, if t = [] then shown else t))"

end
