(* ===== verification/Era_Base64.thy ===== *)
theory Era_Base64
  imports Era_Url
begin

text \<open>
  Base 64 as the clients use it: \<open>btoa\<close> and \<open>atob\<close> of the browser, the variant for addresses
  (\<open>b64url\<close> of the mail page, the tokens), and the chunked encoding of a file. Bytes are numbers
  below 256.
\<close>

section \<open>Encoding\<close>

definition b64_char :: "nat \<Rightarrow> char" where
  "b64_char n =
     (if n < 26 then char_of (65 + n) else if n < 52 then char_of (71 + n) else if n < 62 then char_of (n - 4)
      else if n = 62 then CHR ''+'' else CHR ''/'')"

fun btoa :: "nat list \<Rightarrow> string" where
  "btoa [] = []"
| "btoa [a] = [b64_char (a div 4), b64_char (a mod 4 * 16), CHR ''='', CHR ''='']"
| "btoa [a, b] = [b64_char (a div 4), b64_char (a mod 4 * 16 + b div 16), b64_char (b mod 16 * 4), CHR ''='']"
| "btoa (a # b # c # bs) =
     b64_char (a div 4) # b64_char (a mod 4 * 16 + b div 16) # b64_char (b mod 16 * 4 + c div 64) # b64_char (c mod 64) # btoa bs"

definition b64url :: "nat list \<Rightarrow> string" where
  "b64url bytes =
     rev (dropWhile (\<lambda>c. c = CHR ''='')
       (rev (map (\<lambda>c. if c = CHR ''+'' then CHR ''-'' else if c = CHR ''/'' then CHR ''_'' else c) (btoa bytes))))"

text \<open>\<open>arrayBufferToBase64\<close>: the bytes are collected in chunks of 32768, then encoded.\<close>

function chunked :: "nat \<Rightarrow> nat list \<Rightarrow> nat list \<Rightarrow> nat list" where
  "chunked n binary bytes =
     (if bytes = [] \<or> n = 0 then binary else chunked n (binary @ take n bytes) (drop n bytes))"
  by pat_completeness auto
termination
  by (relation "measure (\<lambda>(n, binary, bytes). length bytes)") auto

declare chunked.simps [simp del]

definition arrayBufferToBase64 :: "nat list \<Rightarrow> string" where
  "arrayBufferToBase64 bytes = btoa (chunked 32768 [] bytes)"

section \<open>Decoding\<close>

definition b64_val :: "char \<Rightarrow> nat option" where
  "b64_val c =
     (if is_upper c then Some (of_char c - 65) else if is_lower c then Some (of_char c - 71)
      else if is_digit c then Some (of_char c + 4) else if c = CHR ''+'' then Some 62
      else if c = CHR ''/'' then Some 63 else None)"

fun sextets_bytes :: "nat list \<Rightarrow> nat list option" where
  "sextets_bytes [] = Some []"
| "sextets_bytes [w] = None"
| "sextets_bytes [w, x] = Some [w * 4 + x div 16]"
| "sextets_bytes [w, x, y] = Some [w * 4 + x div 16, x mod 16 * 16 + y div 4]"
| "sextets_bytes (w # x # y # z # ws) =
     map_option (\<lambda>bs. (w * 4 + x div 16) # (x mod 16 * 16 + y div 4) # (y mod 4 * 64 + z) # bs) (sextets_bytes ws)"

fun strip_padding :: "nat \<Rightarrow> string \<Rightarrow> string" where
  "strip_padding 0 s = s"
| "strip_padding (Suc n) s = (if s \<noteq> [] \<and> last s = CHR ''='' then strip_padding n (butlast s) else s)"

definition atob :: "string \<Rightarrow> nat list option" where
  "atob s =
     (let t = filter (\<lambda>c. c \<notin> {CHR '' '', CHR 0x09, CHR 0x0A, CHR 0x0C, CHR 0x0D}) s;
          u = (if length t mod 4 = 0 then strip_padding 2 t else t)
      in if list_all (\<lambda>c. b64_val c \<noteq> None) u then sextets_bytes (map (the \<circ> b64_val) u) else None)"

section \<open>Laws\<close>

lemma chunked_all: "n \<noteq> 0 \<Longrightarrow> chunked n binary bytes = binary @ bytes"
  by (induction n binary bytes rule: chunked.induct) (subst chunked.simps, simp)

lemma arrayBufferToBase64_btoa: "arrayBufferToBase64 bytes = btoa bytes"
  by (simp add: arrayBufferToBase64_def chunked_all)

definition url_safe :: "char \<Rightarrow> bool" where
  "url_safe c \<longleftrightarrow> is_digit c \<or> is_upper c \<or> is_lower c \<or> c = CHR ''-'' \<or> c = CHR ''_''"

definition url_char :: "char \<Rightarrow> char" where
  "url_char c = (if c = CHR ''+'' then CHR ''-'' else if c = CHR ''/'' then CHR ''_'' else c)"

lemma of_char_small: "n < 256 \<Longrightarrow> (of_char (char_of n :: char) :: nat) = n"
  by (rule of_char_char_of_less)

lemma b64_char_safe: "n < 64 \<Longrightarrow> url_safe (url_char (b64_char n)) \<and> url_char (b64_char n) \<noteq> CHR ''=''"
proof -
  assume n: "n < 64"
  have "url_safe c \<Longrightarrow> c \<noteq> CHR ''=''" for c by (auto simp: url_safe_def is_digit_def is_upper_def is_lower_def)
  moreover have "url_safe (url_char (b64_char n))"
  proof (cases "n < 62")
    case True
    then have "url_safe (b64_char n)"
      by (auto simp: b64_char_def url_safe_def is_digit_def is_upper_def is_lower_def)
    then show ?thesis by (auto simp: url_char_def url_safe_def)
  next
    case False
    then have "n = 62 \<or> n = 63" using n by auto
    then show ?thesis by (auto simp: b64_char_def url_char_def url_safe_def)
  qed
  ultimately show ?thesis by blast
qed

lemma btoa_shape:
  "\<forall>b\<in>set bs. b < 256 \<Longrightarrow>
    \<exists>s k. btoa bs = s @ replicate k CHR ''='' \<and> (\<forall>c\<in>set s. url_safe (url_char c) \<and> url_char c \<noteq> CHR ''='')
      \<and> length s = (4 * length bs + 2) div 3"
proof (induction bs rule: btoa.induct)
  case 1
  then show ?case by (intro exI [of _ "[]"] exI [of _ 0]) simp
next
  case (2 a)
  have "a div 4 < 64" "a mod 4 * 16 < 64" using 2 by (auto simp: less_mult_imp_div_less)
  then show ?case using b64_char_safe
    by (intro exI [of _ "[b64_char (a div 4), b64_char (a mod 4 * 16)]"] exI [of _ 2]) (simp add: numeral_2_eq_2)
next
  case (3 a b)
  have "a div 4 < 64" "a mod 4 * 16 + b div 16 < 64" "b mod 16 * 4 < 64" using 3 by (auto simp: less_mult_imp_div_less)
  then show ?case using b64_char_safe
    by (intro exI [of _ "[b64_char (a div 4), b64_char (a mod 4 * 16 + b div 16), b64_char (b mod 16 * 4)]"] exI [of _ 1]) simp
next
  case (4 a b c bs)
  then obtain s k where s: "btoa bs = s @ replicate k CHR ''=''"
    "\<forall>c\<in>set s. url_safe (url_char c) \<and> url_char c \<noteq> CHR ''=''" "length s = (4 * length bs + 2) div 3" by auto
  let ?q = "[b64_char (a div 4), b64_char (a mod 4 * 16 + b div 16), b64_char (b mod 16 * 4 + c div 64), b64_char (c mod 64)]"
  have "a div 4 < 64" "a mod 4 * 16 + b div 16 < 64" "b mod 16 * 4 + c div 64 < 64" "c mod 64 < 64"
    using "4.prems" by (auto simp: less_mult_imp_div_less)
  then have "\<forall>c\<in>set (?q @ s). url_safe (url_char c) \<and> url_char c \<noteq> CHR ''=''" using b64_char_safe s(2) by simp
  moreover have "btoa (a # b # c # bs) = (?q @ s) @ replicate k CHR ''=''" using s(1) by simp
  moreover have "length (?q @ s) = (4 * length (a # b # c # bs) + 2) div 3" using s(3) by simp
  ultimately show ?case by blast
qed

text \<open>The text of \<open>n\<close> bytes has no padding and four characters for every three bytes, all safe in an address.\<close>

lemma b64url_safe:
  assumes "\<forall>b\<in>set bs. b < 256"
  shows "length (b64url bs) = (4 * length bs + 2) div 3 \<and> (\<forall>c\<in>set (b64url bs). url_safe c)"
proof -
  obtain s k where s: "btoa bs = s @ replicate k CHR ''=''"
    "\<forall>c\<in>set s. url_safe (url_char c) \<and> url_char c \<noteq> CHR ''=''" "length s = (4 * length bs + 2) div 3"
    using btoa_shape [OF assms] by blast
  have "map url_char (btoa bs) = map url_char s @ replicate k CHR ''=''" using s(1) by (simp add: url_char_def)
  then have "b64url bs = rev (dropWhile (\<lambda>c. c = CHR ''='') (replicate k CHR ''='' @ rev (map url_char s)))"
    by (simp add: b64url_def url_char_def cong: map_cong)
  also have "dropWhile (\<lambda>c. c = CHR ''='') (replicate k CHR ''='' @ rev (map url_char s)) = rev (map url_char s)"
    using s(2) by (subst dropWhile_append2) (auto simp: dropWhile_eq_self_iff hd_rev last_map)
  finally have "b64url bs = map url_char s" by simp
  then show ?thesis using s(2,3) by auto
qed

text \<open>The groups of six bits; decoding gives the bytes back, with or without the padding.\<close>

fun sextets :: "nat list \<Rightarrow> nat list" where
  "sextets [] = []"
| "sextets [a] = [a div 4, a mod 4 * 16]"
| "sextets [a, b] = [a div 4, a mod 4 * 16 + b div 16, b mod 16 * 4]"
| "sextets (a # b # c # bs) = a div 4 # (a mod 4 * 16 + b div 16) # (b mod 16 * 4 + c div 64) # c mod 64 # sextets bs"

lemma sextets_small: "\<forall>b\<in>set bs. b < 256 \<Longrightarrow> \<forall>n\<in>set (sextets bs). n < 64"
  by (induction bs rule: sextets.induct) (auto simp: less_mult_imp_div_less)

lemma sextets_roundtrip: "\<forall>b\<in>set bs. b < 256 \<Longrightarrow> sextets_bytes (sextets bs) = Some bs"
proof (induction bs rule: sextets.induct)
  case (4 a b c bs)
  then have "sextets_bytes (sextets bs) = Some bs" "a < 256" "b < 256" "c < 256" by auto
  moreover from this have "b div 16 < 16" "c div 64 < 4" by (simp_all add: less_mult_imp_div_less)
  ultimately show ?case by simp
next
  case (3 a b)
  then have "b div 16 < 16" by (simp add: less_mult_imp_div_less)
  then show ?case by simp
qed simp_all

lemma b64_val_char: "n < 64 \<Longrightarrow> b64_val (b64_char n) = Some n"
  by (auto simp: b64_val_def b64_char_def is_upper_def is_lower_def is_digit_def of_char_small)

definition padding :: "nat list \<Rightarrow> nat" where
  "padding bs = (2 * length bs) mod 3"

lemma padding_Cons3: "padding (a # b # c # bs) = padding bs"
  unfolding padding_def by simp presburger

lemma btoa_sextets: "btoa bs = map b64_char (sextets bs) @ replicate (padding bs) CHR ''=''"
proof (induction bs rule: sextets.induct)
  case (4 a b c bs)
  moreover have "padding (a # b # c # bs) = padding bs" by (rule padding_Cons3)
  ultimately show ?case by simp
qed (simp_all add: padding_def numeral_2_eq_2)

lemma padding_small: "padding bs \<le> 2"
  by (simp add: padding_def)

lemma sextets_length: "length (sextets bs) mod 4 = (4 - padding bs) mod 4"
proof (induction bs rule: sextets.induct)
  case (4 a b c bs)
  moreover have "padding (a # b # c # bs) = padding bs" by (rule padding_Cons3)
  ultimately show ?case by simp
qed (simp_all add: padding_def)

lemma strip_padding_replicate:
  "k \<le> n \<Longrightarrow> (s \<noteq> [] \<Longrightarrow> last s \<noteq> CHR ''='') \<Longrightarrow> strip_padding n (s @ replicate k CHR ''='') = s"
proof (induction n arbitrary: k)
  case (Suc n)
  then show ?case
  proof (cases k)
    case (Suc j)
    have e: "s @ replicate k CHR ''='' = (s @ replicate j CHR ''='') @ [CHR ''='']" using Suc by (simp add: replicate_append_same)
    have "strip_padding n (s @ replicate j CHR ''='') = s" using Suc.IH [of j] Suc.prems Suc by simp
    then show ?thesis unfolding e by (simp del: append_assoc)
  qed auto
qed simp

lemma b64_char_plain: "n < 64 \<Longrightarrow> b64_char n \<notin> {CHR '' '', CHR 0x09, CHR 0x0A, CHR 0x0C, CHR 0x0D, CHR ''=''}"
  using b64_val_char [of n] by (auto simp: b64_val_def is_upper_def is_lower_def is_digit_def)

lemma atob_sextets:
  assumes "\<forall>b\<in>set bs. b < 256" "k = 0 \<or> k = padding bs"
  shows "atob (map b64_char (sextets bs) @ replicate k CHR ''='') = Some bs"
proof -
  let ?s = "map b64_char (sextets bs)" and ?W = "{CHR '' '', CHR 0x09, CHR 0x0A, CHR 0x0C, CHR 0x0D}"
  note small = sextets_small [OF assms(1)]
  have plain: "\<forall>c\<in>set ?s. c \<notin> ?W \<and> c \<noteq> CHR ''='' \<and> b64_val c \<noteq> None" using small by (simp add: b64_val_char b64_char_plain [simplified])
  then have f: "filter (\<lambda>c. c \<notin> ?W) (?s @ replicate k CHR ''='') = ?s @ replicate k CHR ''=''"
    by (simp add: filter_id_conv)
  have "?s \<noteq> [] \<Longrightarrow> last ?s \<noteq> CHR ''=''" using bspec [OF plain last_in_set [of ?s]] by simp
  moreover have "k \<le> 2" using assms(2) padding_small by auto
  ultimately have st: "strip_padding 2 (?s @ replicate k CHR ''='') = ?s" using strip_padding_replicate [of k 2 ?s] by blast
  have "length (?s @ replicate k CHR ''='') mod 4 \<noteq> 0 \<Longrightarrow> k = 0"
  proof (rule ccontr)
    assume c: "length (?s @ replicate k CHR ''='') mod 4 \<noteq> 0" "k \<noteq> 0"
    then have "k = padding bs" using assms(2) by simp
    with c(1) have "(length (sextets bs) mod 4 + padding bs) mod 4 \<noteq> 0" by (simp add: mod_add_left_eq)
    then show False using padding_small [of bs] unfolding sextets_length [of bs] by (cases "padding bs"; simp)
  qed
  then have u: "(if length (?s @ replicate k CHR ''='') mod 4 = 0 then strip_padding 2 (?s @ replicate k CHR ''='') else ?s @ replicate k CHR ''='') = ?s"
    using st by auto
  have "map (the \<circ> b64_val) ?s = sextets bs" using small by (simp add: map_idI b64_val_char)
  with plain show ?thesis unfolding atob_def f Let_def u by (simp add: list_all_iff sextets_roundtrip [OF assms(1)] del: map_map)
qed

text \<open>The variant for addresses: undoing the two replaced characters gives text that \<open>atob\<close> reads.\<close>

definition plain_char :: "char \<Rightarrow> char" where
  "plain_char c = (if c = CHR ''-'' then CHR ''+'' else if c = CHR ''_'' then CHR ''/'' else c)"

lemma b64url_sextets:
  assumes "\<forall>b\<in>set bs. b < 256"
  shows "b64url bs = map (url_char \<circ> b64_char) (sextets bs)"
proof -
  have "\<forall>n\<in>set (sextets bs). url_char (b64_char n) \<noteq> CHR ''=''" using sextets_small [OF assms] b64_char_safe by blast
  then have n: "\<forall>c\<in>set (map (url_char \<circ> b64_char) (sextets bs)). c \<noteq> CHR ''=''" by simp
  have "map url_char (btoa bs) = map (url_char \<circ> b64_char) (sextets bs) @ replicate (padding bs) CHR ''=''"
    by (simp add: btoa_sextets url_char_def)
  moreover have "b64url bs = rev (dropWhile (\<lambda>c. c = CHR ''='') (rev (map url_char (btoa bs))))" by (simp add: b64url_def url_char_def cong: map_cong)
  ultimately have "b64url bs = rev (dropWhile (\<lambda>c. c = CHR ''='') (replicate (padding bs) CHR ''='' @ rev (map (url_char \<circ> b64_char) (sextets bs))))"
    by simp
  also have "dropWhile (\<lambda>c. c = CHR ''='') (replicate (padding bs) CHR ''='' @ rev (map (url_char \<circ> b64_char) (sextets bs)))
      = rev (map (url_char \<circ> b64_char) (sextets bs))"
    using n by (subst dropWhile_append2) (auto simp: dropWhile_eq_self_iff hd_rev last_map)
  finally show ?thesis by simp
qed

lemma atob_b64url:
  assumes "\<forall>b\<in>set bs. b < 256"
  shows "atob (map plain_char (b64url bs)) = Some bs"
proof -
  have "plain_char (url_char (b64_char n)) = b64_char n" if "n < 64" for n
    using b64_val_char [OF that] by (auto simp: plain_char_def url_char_def b64_val_def is_upper_def is_lower_def is_digit_def)
  then have "map plain_char (b64url bs) = map b64_char (sextets bs)" using sextets_small [OF assms] by (simp add: b64url_sextets [OF assms])
  then show ?thesis using atob_sextets [OF assms, of 0] by simp
qed

end
