(* ===== verification/Office_Page.thy ===== *)
theory Office_Page
  imports Shell_Session Era_Base64
begin

text \<open>
  The page around an office client: the session of the shell, the storage of the tab, the address,
  the requests sent. \<open>identity\<close>, \<open>authHeaders\<close>, \<open>officeFetch\<close>, the identifier in the address and
  the address of the socket are the same in \<open>ui/docs/web/app.js\<close>, \<open>ui/tables/web/app.js\<close> and
  \<open>ui/office-ai/web/app.js\<close>. The status of a reply is an argument; the clients read the rest of a
  reply only where it is an argument too.
\<close>

record office_request =
  rq_method :: string
  rq_url :: string
  rq_headers :: "(string \<times> string) list"
  rq_body :: "(string \<times> string) list"

record 'a office_page =
  op_session :: session
  op_store :: "(string \<times> string) list"
  op_search :: string
  op_origin :: string
  op_sent :: "office_request list"
  op_client :: 'a

definition on_client :: "('a \<Rightarrow> 'a) \<Rightarrow> 'a office_page \<Rightarrow> 'a office_page" where
  "on_client f p = p\<lparr>op_client := f (op_client p)\<rparr>"

definition goto_page :: "string \<Rightarrow> 'a office_page \<Rightarrow> 'a office_page" where
  "goto_page url p = p\<lparr>op_session := (op_session p)\<lparr>href := Some url\<rparr>\<rparr>"

abbreviation signed_in :: "'a office_page \<Rightarrow> bool" where
  "signed_in p \<equiv> era_token (op_session p) \<noteq> []"

section \<open>Who is signed in\<close>

record office_user =
  tenantId :: string
  ou_userId :: string

definition identity :: "(string \<Rightarrow> claims option) \<Rightarrow> session \<Rightarrow> office_user" where
  "identity jwt s =
     (let c = parseJwtPayload jwt (era_token s)
      in \<lparr> tenantId = or_default (Option.bind c cl_tenant_id) ''t-demo'', ou_userId = or_default (Option.bind c cl_sub) ''u-alice'' \<rparr>)"

definition authHeaders :: "(string \<Rightarrow> claims option) \<Rightarrow> session \<Rightarrow> (string \<times> string) list \<Rightarrow> (string \<times> string) list" where
  "authHeaders jwt s extra =
     upsert ''X-ERA-Tenant'' (tenantId (identity jwt s)) (upsert ''X-ERA-User'' (ou_userId (identity jwt s))
       (if era_token s \<noteq> [] then upsert ''Authorization'' (''Bearer '' @ era_token s) extra else extra))"

definition request :: "string \<Rightarrow> string \<Rightarrow> (string \<times> string) list \<Rightarrow> (string \<times> string) list \<Rightarrow> office_request" where
  "request m url hs body = \<lparr> rq_method = m, rq_url = url, rq_headers = hs, rq_body = body \<rparr>"

text \<open>The request goes out with the headers; a reply 401 drops the token and opens the sign-in page.\<close>

definition officeFetch :: "(string \<Rightarrow> claims option) \<Rightarrow> office_request \<Rightarrow> int \<Rightarrow> 'a office_page \<Rightarrow> 'a office_page" where
  "officeFetch jwt rq status p =
     (let s = op_session p
      in p\<lparr>op_session := fst (handleUnauthorized status s),
           op_sent := op_sent p @ [rq\<lparr>rq_headers := auth_headers s (authHeaders jwt s (rq_headers rq))\<rparr>]\<rparr>)"

definition status_ok :: "int \<Rightarrow> bool" where
  "status_ok status \<longleftrightarrow> 200 \<le> status \<and> status < 300"

definition json_header :: "(string \<times> string) list" where
  "json_header = [(''Content-Type'', ''application/json'')]"

definition user_fields :: "(string \<Rightarrow> claims option) \<Rightarrow> session \<Rightarrow> (string \<times> string) list" where
  "user_fields jwt s = [(''tenant_id'', tenantId (identity jwt s)), (''user_id'', ou_userId (identity jwt s))]"

definition sign_in_first :: string where
  "sign_in_first = ''Sign in via Drive first (era_token).''"

section \<open>Addresses\<close>

definition strip_slash :: "string \<Rightarrow> string" where
  "strip_slash s = (if s \<noteq> [] \<and> last s = CHR ''/'' then butlast s else s)"

text \<open>The last part of the path, unless it is the name of the product.\<close>

definition path_id :: "string \<Rightarrow> string \<Rightarrow> string option" where
  "path_id product pathname =
     (let i = last (split_char CHR ''/'' (strip_slash pathname)) in if i \<noteq> [] \<and> i \<noteq> product then Some i else None)"

definition socket_url :: "string \<Rightarrow> bool \<Rightarrow> string \<Rightarrow> string \<Rightarrow> string \<Rightarrow> string" where
  "socket_url product https host token i =
     (if https then ''wss:'' else ''ws:'') @ ''//'' @ host @ ''/api/v1/'' @ product @ ''/'' @ i @ ''/sync''
     @ (if token \<noteq> [] then ''?access_token='' @ encodeURIComponent token else [])"

section \<open>Laws\<close>

lemma office_frame [simp]:
  "op_client (officeFetch jwt rq st p) = op_client p" "op_store (officeFetch jwt rq st p) = op_store p"
  "op_search (officeFetch jwt rq st p) = op_search p" "op_client (goto_page u p) = op_client p"
  "op_sent (goto_page u p) = op_sent p" "op_sent (on_client f p) = op_sent p" "op_session (on_client f p) = op_session p"
  "op_client (on_client f p) = f (op_client p)" "op_store (on_client f p) = op_store p" "op_search (on_client f p) = op_search p"
  "op_store (goto_page u p) = op_store p"
  by (simp_all add: officeFetch_def Let_def goto_page_def on_client_def)

lemma officeFetch_url: "map rq_url (op_sent (officeFetch jwt rq st p)) = map rq_url (op_sent p) @ [rq_url rq]"
  by (simp add: officeFetch_def Let_def)

lemma officeFetch_session: "st \<noteq> 401 \<Longrightarrow> op_session (officeFetch jwt rq st p) = op_session p"
  by (simp add: officeFetch_def Let_def handleUnauthorized_def)

lemma officeFetch_unauthorized:
  "era_token (op_session (officeFetch jwt rq 401 p)) = []"
  "href (op_session (officeFetch jwt rq 401 p)) = Some (loginUrl (op_session p) [])"
  by (simp_all add: officeFetch_def Let_def handleUnauthorized_def redirectToLogin_def)

text \<open>The header of the token is there once, whatever the caller passed.\<close>

lemma officeFetch_bearer:
  assumes "signed_in p"
  shows "map_of (rq_headers (last (op_sent (officeFetch jwt rq st p)))) ''Authorization'' = Some (''Bearer '' @ era_token (op_session p))"
  using assms by (simp add: officeFetch_def Let_def authHeaders_def auth_headers_def)

lemma split_char_append: "split_char c (s @ c # t) = split_char c s @ split_char c t"
  by (induction s) (auto split: list.splits)

lemma path_id_of:
  assumes "CHR ''/'' \<notin> set i" "i \<noteq> []" "i \<noteq> product"
  shows "path_id product (CHR ''/'' # product' @ CHR ''/'' # i) = Some i"
proof -
  have "last i \<noteq> CHR ''/''" using assms(1) last_in_set [OF assms(2)] by metis
  then have "strip_slash (CHR ''/'' # product' @ CHR ''/'' # i) = (CHR ''/'' # product') @ CHR ''/'' # i"
    using assms(2) by (simp add: strip_slash_def)
  then show ?thesis using assms(2,3) by (simp only: path_id_def Let_def split_char_append split_char_no_sep [OF assms(1)]) simp
qed

end
