(* ===== verification/Docs_Files.thy ===== *)
theory Docs_Files
  imports Docs_Tools Office_Page
begin

text \<open>
  Documents and the services (\<open>ui/docs/web/app.js\<close>): opening a document, also from a link of the
  communications product, creating, renaming, sharing, saving, importing and exporting, the list of
  versions, picking an image, the socket, and the start of the page. Replies are arguments.
\<close>

type_synonym docs_page = "app office_page"

definition docs_status :: "string \<Rightarrow> bool \<Rightarrow> docs_page \<Rightarrow> docs_page" where
  "docs_status msg isErr p = on_client (setAuthStatus msg isErr) p"

definition setDocTitleUI :: "string \<Rightarrow> app \<Rightarrow> app" where
  "setDocTitleUI name a =
     (let n = or_default (Some name) ''Untitled'' in emit (DocTitle n) (a\<lparr>docName := n\<rparr>))"

definition setDocMeta :: "string \<Rightarrow> app \<Rightarrow> app" where
  "setDocMeta t a = emit (DocMeta t) a"

definition doc_url :: "string \<Rightarrow> string" where
  "doc_url i = ''/api/v1/docs/'' @ i"

definition object_url :: "string \<Rightarrow> string" where
  "object_url i = ''/api/v1/drive/objects/'' @ encodeURIComponent i"

section \<open>The socket\<close>

text \<open>A new socket is not open until the browser says so.\<close>

definition docs_connectSync :: "app \<Rightarrow> app" where
  "docs_connectSync a = a\<lparr>ws_open := False\<rparr>"

definition socket_opened :: "app \<Rightarrow> app" where
  "socket_opened a = a\<lparr>ws_open := True\<rparr>"

definition socket_closed :: "app \<Rightarrow> app" where
  "socket_closed a = a\<lparr>ws_open := False\<rparr>"

definition presence_tick :: "app \<Rightarrow> app" where
  "presence_tick a = ws_send Presence_heartbeat a"

section \<open>Opening\<close>

definition intent_params :: "string \<Rightarrow> string option \<times> string option" where
  "intent_params search = (or_undefined (param_get search ''intent_exp''), or_undefined (param_get search ''intent_sig''))"

definition intent_query :: "string \<Rightarrow> string \<Rightarrow> string" where
  "intent_query e g = CHR ''?'' # query_string [(''intent_exp'', e), (''intent_sig'', g)]"

definition verifyCommsIntent :: "(string \<Rightarrow> claims option) \<Rightarrow> string \<Rightarrow> int \<Rightarrow> docs_page \<Rightarrow> docs_page \<times> bool" where
  "verifyCommsIntent jwt i status p =
     (case intent_params (op_search p) of
        (None, None) \<Rightarrow> (p, True)
      | (Some e, Some g) \<Rightarrow>
          (let p1 = officeFetch jwt (request ''GET'' (doc_url i @ ''/verify-intent'' @ intent_query e g)
                      (authHeaders jwt (op_session p) []) []) status p
           in if status_ok status then (p1, True)
              else (docs_status (''Edit link expired or invalid ('' @ int_str status @ '').'') True p1, False))
      | _ \<Rightarrow> (docs_status ''Invalid Comms edit link (missing intent).'' True p, False))"

text \<open>\<open>data.name || data.Name || 'Untitled'\<close>\<close>

definition loadDriveName :: "(string \<Rightarrow> claims option) \<Rightarrow> string \<Rightarrow> int \<Rightarrow> string option \<Rightarrow> string option \<Rightarrow> docs_page \<Rightarrow> docs_page" where
  "loadDriveName jwt i status name Name p =
     (let p1 = officeFetch jwt (request ''GET'' (object_url i @ ''/meta'') (authHeaders jwt (op_session p) []) []) status p;
          n = or_default name (or_default Name ''Untitled'')
      in if status_ok status then on_client (setDocMeta (''Document: '' @ n) \<circ> setDocTitleUI n) p1 else p1)"

definition load_url :: "string \<Rightarrow> string \<Rightarrow> string" where
  "load_url i search =
     doc_url i @ (case intent_params search of (Some e, Some g) \<Rightarrow> intent_query e g | _ \<Rightarrow> [])"

record load_replies =
  lr_intent :: int
  lr_doc :: "int \<times> doc"
  lr_meta :: int
  lr_name :: "string option"
  lr_Name :: "string option"

definition open_doc :: "string \<Rightarrow> doc \<Rightarrow> app \<Rightarrow> app" where
  "open_doc i d a =
     setDocTitleUI ''Untitled'' (setSaveStatus ''All changes saved'' ''ok'' (setAuthStatus ''Document open'' False
       (setDocMeta (''Document: '' @ i) (applyDoc d a))))"

definition loadDoc :: "(string \<Rightarrow> claims option) \<Rightarrow> string \<Rightarrow> load_replies \<Rightarrow> docs_page \<Rightarrow> docs_page" where
  "loadDoc jwt i r p =
     (case verifyCommsIntent jwt i (lr_intent r) p of
        (p1, False) \<Rightarrow> p1
      | (p1, True) \<Rightarrow>
          (let status = fst (lr_doc r);
               p2 = officeFetch jwt (request ''GET'' (load_url i (op_search p)) (authHeaders jwt (op_session p1) []) []) status p1
           in if status_ok status
              then on_client (docs_connectSync \<circ> emit PaintPeers)
                     (loadDriveName jwt i (lr_meta r) (lr_name r) (lr_Name r) (on_client (open_doc i (snd (lr_doc r))) p2))
              else if status = 401 then p2
              else docs_status (if status = 403 then ''Access denied for this document''
                                else ''Failed to load document: '' @ int_str status) True p2))"

section \<open>Creating and importing\<close>

definition createDocument :: "(string \<Rightarrow> claims option) \<Rightarrow> string \<Rightarrow> int \<Rightarrow> string option \<Rightarrow> docs_page \<Rightarrow> docs_page" where
  "createDocument jwt now status newId p =
     (if \<not> signed_in p then docs_status sign_in_first True p
      else (let s = op_session p;
                p1 = officeFetch jwt (request ''POST'' ''/api/v1/docs'' (authHeaders jwt s json_header)
                       (user_fields jwt s @ [(''name'', ''Untitled-'' @ now @ ''.erad'')])) status p
            in if \<not> status_ok status
               then docs_status (if status = 502 \<or> status = 409 then ''Create failed: name conflict or Drive bind ('' @ int_str status @ '')''
                                 else ''Create failed: '' @ int_str status) True p1
               else (case or_undefined newId of
                       None \<Rightarrow> docs_status ''Create failed: no drive_object_id'' True p1
                     | Some i \<Rightarrow> goto_page (''/docs/'' @ i) p1)))"

definition import_error :: "int \<Rightarrow> string" where
  "import_error status =
     (if status = 409 then ''Import failed: a file with this name already exists in Drive''
      else if status = 502 then ''Import failed: Docs could not write to Drive (502) - retry or check Drive''
      else if status = 400 then ''Import failed: unsupported or corrupt docx''
      else ''Import failed: '' @ int_str status)"

text \<open>\<open>None\<close> when no file was chosen.\<close>

definition import_docx :: "(string \<Rightarrow> claims option) \<Rightarrow> (string \<times> nat list) option \<Rightarrow> int \<Rightarrow> string option \<Rightarrow> docs_page \<Rightarrow> docs_page" where
  "import_docx jwt file status newId p =
     (case file of
        None \<Rightarrow> p
      | Some (name, bytes) \<Rightarrow>
          if \<not> signed_in p then docs_status sign_in_first True p
          else (let s = op_session p;
                    p1 = officeFetch jwt (request ''POST'' ''/api/v1/docs/import'' (authHeaders jwt s json_header)
                           (user_fields jwt s @ [(''docx_base64'', arrayBufferToBase64 bytes), (''name'', name)])) status
                           (docs_status ''Importing docx...'' False p)
                in if \<not> status_ok status then docs_status (import_error status) True p1
                   else (case or_undefined newId of
                           None \<Rightarrow> docs_status ''Import failed: no drive_object_id'' True p1
                         | Some i \<Rightarrow> goto_page (''/docs/'' @ i) p1)))"

text \<open>The name of the downloaded file, when there is one.\<close>

definition export_docx :: "(string \<Rightarrow> claims option) \<Rightarrow> int \<Rightarrow> docs_page \<Rightarrow> docs_page \<times> string option" where
  "export_docx jwt status p =
     (case docId (op_client p) of
        None \<Rightarrow> (docs_status ''Open a document first'' True p, None)
      | Some i \<Rightarrow>
          (let p1 = officeFetch jwt (request ''POST'' (doc_url i @ ''/export/docx'') (authHeaders jwt (op_session p) []) []) status
                      (docs_status ''Exporting docx...'' False p)
           in if status_ok status then (docs_status ''Export ready'' False p1, Some (or_default (Some i) ''export'' @ ''.docx''))
              else (docs_status (''Export failed: '' @ int_str status) True p1, None)))"

section \<open>Saving, renaming, sharing\<close>

text \<open>\<open>None\<close>: no document; the service keeps the document itself, only the user is sent.\<close>

definition snapshotDoc :: "(string \<Rightarrow> claims option) \<Rightarrow> int \<Rightarrow> docs_page \<Rightarrow> docs_page \<times> bool" where
  "snapshotDoc jwt status p =
     (case docId (op_client p) of
        None \<Rightarrow> (p, False)
      | Some i \<Rightarrow>
          (let s = op_session p;
               p1 = officeFetch jwt (request ''POST'' (doc_url i @ ''/snapshot'') (authHeaders jwt s json_header) (user_fields jwt s)) status p;
               msg = (if status = 403 then ''Save failed: access denied'' else ''Snapshot failed: '' @ int_str status)
           in if status_ok status then (p1, True)
              else if status = 401 then (p1, False)
              else (on_client (setSaveStatus msg ''err'' \<circ> setAuthStatus msg True) p1, False)))"

definition save_button :: "(string \<Rightarrow> claims option) \<Rightarrow> int \<Rightarrow> string \<Rightarrow> docs_page \<Rightarrow> docs_page" where
  "save_button jwt status now p =
     (if docId (op_client p) = None then p
      else (let p1 = on_client (\<lambda>a. setSaveStatus ''Saving...'' ''saving'' (a\<lparr>autosave_armed := False, saving := True\<rparr>)) p;
                (p2, ok) = snapshotDoc jwt status p1
            in on_client (\<lambda>a. (let a1 = a\<lparr>saving := False\<rparr> in
                 if ok then setSaveStatus (''Saved - '' @ now) ''ok'' (setAuthStatus ''Saved to Drive'' False (a1\<lparr>dirty := False\<rparr>))
                 else setSaveStatus ''Save failed'' ''err'' a1)) p2))"

definition renameDriveObject :: "(string \<Rightarrow> claims option) \<Rightarrow> string \<Rightarrow> int \<Rightarrow> docs_page \<Rightarrow> docs_page" where
  "renameDriveObject jwt name status p =
     (case docId (op_client p) of
        None \<Rightarrow> p
      | Some i \<Rightarrow>
          if name = [] \<or> name = docName (op_client p) then p
          else (let p1 = officeFetch jwt (request ''PATCH'' (object_url i) (authHeaders jwt (op_session p) json_header)
                           [(''name'', name)]) status p
                in if status_ok status
                   then on_client (setAuthStatus ''Renamed'' False \<circ> setDocMeta (''Document: '' @ name) \<circ> setDocTitleUI name) p1
                   else on_client (\<lambda>a. setDocTitleUI (docName a) (setAuthStatus (''Rename failed: '' @ int_str status) True a)) p1))"

text \<open>The link in the dialog and the link to the access list; without a document the file manager opens.\<close>

definition docs_openShareDialog :: "docs_page \<Rightarrow> docs_page \<times> (string \<times> string) option" where
  "docs_openShareDialog p =
     (case docId (op_client p) of
        None \<Rightarrow> (goto_page ''/drive/'' p, None)
      | Some i \<Rightarrow> (p, Some (op_origin p @ ''/docs/'' @ encodeURIComponent i, ''/drive/?share='' @ encodeURIComponent i)))"

section \<open>Versions and images\<close>

record version_entry =
  ve_version :: "string option"
  ve_Version :: "string option"
  ve_created_at :: "string option"
  ve_CreatedAt :: "string option"
  ve_size_bytes :: "int option"

definition doc_version_line :: "version_entry \<Rightarrow> string" where
  "doc_version_line v =
     (let created = or_default (ve_created_at v) (or_empty (ve_CreatedAt v))
      in ''v'' @ or_default (ve_version v) (or_default (ve_Version v) ''?'')
         @ (if created \<noteq> [] then '' - '' @ created else [])
         @ (case ve_size_bytes v of None \<Rightarrow> [] | Some n \<Rightarrow> '' - '' @ int_str n @ '' B''))"

definition openVersionsDialog :: "(string \<Rightarrow> claims option) \<Rightarrow> int \<Rightarrow> version_entry list \<Rightarrow> docs_page \<Rightarrow> docs_page \<times> string list" where
  "openVersionsDialog jwt status vs p =
     (case docId (op_client p) of
        None \<Rightarrow> (docs_status ''Open a document first'' True p, [])
      | Some i \<Rightarrow>
          (officeFetch jwt (request ''GET'' (object_url i @ ''/versions'') (authHeaders jwt (op_session p) []) []) status p,
           if \<not> status_ok status then [''Failed: '' @ int_str status]
           else if vs = [] then [''No versions yet''] else map doc_version_line vs))"

record drive_entry =
  de_id :: string
  de_name :: "string option"
  de_content_type :: "string option"

definition is_image :: "drive_entry \<Rightarrow> bool" where
  "is_image e \<longleftrightarrow> take 6 (to_lower (or_empty (de_content_type e))) = ''image/''
     \<or> list_ex (\<lambda>x. ends_with x (to_lower (or_empty (de_name e)))) [''.png'', ''.jpg'', ''.jpeg'', ''.gif'', ''.webp'']"

datatype picked_image = Paste_url | Drive_image string string string

text \<open>The choices of the dialog: the images, then a pasted address.\<close>

definition image_options :: "drive_entry list \<Rightarrow> (string \<times> string) list" where
  "image_options objs =
     map (\<lambda>(i, e). (nat_str i, or_default (de_name e) (de_id e))) (enumerate 0 objs) @ [(''url'', ''Paste URL instead...'')]"

definition image_picked :: "drive_entry list \<Rightarrow> string \<Rightarrow> picked_image option" where
  "image_picked objs pick =
     (if pick = ''url'' then Some Paste_url
      else (case parse_int pick of
              None \<Rightarrow> None
            | Some n \<Rightarrow> if n < 0 \<or> int (length objs) \<le> n then None
                        else (let e = objs ! nat n in Some (Drive_image (object_url (de_id e)) (de_id e) (or_empty (de_name e))))))"

definition pickDriveImageObject ::
  "(string \<Rightarrow> claims option) \<Rightarrow> int \<Rightarrow> drive_entry list \<Rightarrow> string option \<Rightarrow> docs_page \<Rightarrow> docs_page \<times> picked_image option" where
  "pickDriveImageObject jwt status objects pick p =
     (let p1 = officeFetch jwt (request ''GET'' ''/api/v1/drive/folders/_root/children'' (authHeaders jwt (op_session p) []) []) status p;
          objs = filter is_image objects
      in if \<not> status_ok status then (p1, None)
         else if objs = [] then (docs_status ''No images in Drive root - paste URL or upload first'' True p1, None)
         else (p1, Option.bind pick (image_picked objs)))"

section \<open>The start of the page\<close>

definition docs_boot ::
  "(string \<Rightarrow> claims option) \<Rightarrow> int \<Rightarrow> string \<Rightarrow> load_replies \<Rightarrow> string \<Rightarrow> int \<Rightarrow> string option \<Rightarrow> docs_page \<Rightarrow> docs_page" where
  "docs_boot jwt now pathname r stamp status newId p =
     (let p1 = (on_client (emit PaintPeers) p)\<lparr>op_session := fst (requireAuthOrRedirect jwt now (op_session p))\<rparr>
      in case path_id ''docs'' pathname of
           Some i \<Rightarrow> loadDoc jwt i r (on_client (\<lambda>a. a\<lparr>docId := Some i\<rparr>) p1)
         | None \<Rightarrow>
             if signed_in p1
             then createDocument jwt stamp status newId
                    (on_client (\<lambda>a. setDocTitleUI ''Untitled'' (setDocMeta ''Creating Untitled...'' (a\<lparr>docId := None\<rparr>))) p1)
             else on_client (\<lambda>a. a\<lparr>docId := None\<rparr>) p1)"

section \<open>Laws\<close>

text \<open>The parameters of an edit link are read back by the service from both requests.\<close>

lemma intent_query_params: "search_params (intent_query e g) = [(''intent_exp'', e), (''intent_sig'', g)]"
  unfolding intent_query_def by (rule search_params_query) simp

lemma intent_query_read:
  "param_get (intent_query e g) ''intent_exp'' = Some e" "param_get (intent_query e g) ''intent_sig'' = Some g"
  by (simp_all add: param_get_def intent_query_params)

text \<open>A request for the document itself: its address starts with that of the document and is not
  the address of the verification.\<close>

definition doc_requests :: "string \<Rightarrow> docs_page \<Rightarrow> string list" where
  "doc_requests i p = filter (\<lambda>u. u = doc_url i \<or> (\<exists>q. u = doc_url i @ CHR ''?'' # q)) (map rq_url (op_sent p))"

lemma verify_requests:
  "doc_requests i (fst (verifyCommsIntent jwt i st p)) = doc_requests i p"
  by (auto simp: verifyCommsIntent_def doc_requests_def docs_status_def officeFetch_url request_def doc_url_def Let_def
      split: prod.splits option.splits)

lemma verify_frame:
  "docState (op_client (fst (verifyCommsIntent jwt i st p))) = docState (op_client p)"
  "op_search (fst (verifyCommsIntent jwt i st p)) = op_search p"
  by (auto simp: verifyCommsIntent_def docs_status_def setAuthStatus_def emit_def Let_def split: prod.splits option.splits)

lemma verify_refuses:
  "snd (verifyCommsIntent jwt i st p) \<longleftrightarrow>
     (case intent_params (op_search p) of (None, None) \<Rightarrow> True | (Some e, Some g) \<Rightarrow> status_ok st | _ \<Rightarrow> False)"
  by (auto simp: verifyCommsIntent_def Let_def split: prod.splits option.splits)

definition link_ok :: "load_replies \<Rightarrow> string \<Rightarrow> bool" where
  "link_ok r search =
     (case intent_params search of (None, None) \<Rightarrow> True | (Some e, Some g) \<Rightarrow> status_ok (lr_intent r) | _ \<Rightarrow> False)"

lemma loadDriveName_frame:
  "docState (op_client (loadDriveName jwt i st n N p)) = docState (op_client p)"
  "doc_requests i (loadDriveName jwt i st n N p) = doc_requests i p"
  by (auto simp: loadDriveName_def Let_def setDocMeta_def setDocTitleUI_def emit_def doc_requests_def officeFetch_url
      request_def object_url_def doc_url_def)

lemma load_url_request: "load_url i s = doc_url i \<or> (\<exists>q. load_url i s = doc_url i @ CHR ''?'' # q)"
  by (auto simp: load_url_def intent_query_def split: prod.splits option.splits)

lemma open_doc_state: "docState (open_doc i d a) = docState (applyDoc d a)"
  by (simp add: open_doc_def setDocTitleUI_def setSaveStatus_def setAuthStatus_def setDocMeta_def emit_def Let_def)

lemma applyDoc_state: "docState (applyDoc d a) = docState (applyDoc d b)"
  by (simp add: applyDoc_def renderBlocks_def emit_def map_doc_def Let_def)

lemma load_frame:
  assumes "verifyCommsIntent jwt i (lr_intent r) p = (p1, True)"
  shows "docState (op_client (loadDoc jwt i r p))
      = (if status_ok (fst (lr_doc r)) then docState (applyDoc (snd (lr_doc r)) (op_client p)) else docState (op_client p1))"
    "doc_requests i (loadDoc jwt i r p) = doc_requests i p1 @ [load_url i (op_search p)]"
proof -
  have f: "doc_requests i (on_client f q) = doc_requests i q" for f q by (simp add: doc_requests_def)
  have q: "doc_requests i (officeFetch jwt (request ''GET'' (load_url i (op_search p)) hs []) st p1)
      = doc_requests i p1 @ [load_url i (op_search p)]" for hs st
    using load_url_request [of i "op_search p"] by (auto simp: doc_requests_def officeFetch_url request_def)
  show "doc_requests i (loadDoc jwt i r p) = doc_requests i p1 @ [load_url i (op_search p)]"
    using assms q by (simp add: loadDoc_def Let_def docs_status_def f loadDriveName_frame)
  show "docState (op_client (loadDoc jwt i r p))
      = (if status_ok (fst (lr_doc r)) then docState (applyDoc (snd (lr_doc r)) (op_client p)) else docState (op_client p1))"
    using assms applyDoc_state [of "snd (lr_doc r)" "op_client p1" "op_client p"]
    by (simp add: loadDoc_def Let_def docs_status_def loadDriveName_frame open_doc_state docs_connectSync_def emit_def setAuthStatus_def)
qed

lemma load_outcome:
  "docState (op_client (loadDoc jwt i r p))
    = (if link_ok r (op_search p) \<and> status_ok (fst (lr_doc r)) then docState (applyDoc (snd (lr_doc r)) (op_client p))
       else docState (op_client p))"
  "doc_requests i (loadDoc jwt i r p) = doc_requests i p @ (if link_ok r (op_search p) then [load_url i (op_search p)] else [])"
proof -
  obtain p1 ok where v: "verifyCommsIntent jwt i (lr_intent r) p = (p1, ok)" by (cases "verifyCommsIntent jwt i (lr_intent r) p") auto
  have ok: "ok = link_ok r (op_search p)" using verify_refuses [of jwt i "lr_intent r" p] v by (simp add: link_ok_def)
  have k: "docState (op_client p1) = docState (op_client p)" "doc_requests i p1 = doc_requests i p"
    using verify_frame(1) [of jwt i "lr_intent r" p] verify_requests [of i jwt "lr_intent r" p] v by simp_all
  show "docState (op_client (loadDoc jwt i r p))
    = (if link_ok r (op_search p) \<and> status_ok (fst (lr_doc r)) then docState (applyDoc (snd (lr_doc r)) (op_client p))
       else docState (op_client p))"
  proof (cases ok)
    case True
    with v load_frame(1) [of jwt i r p p1] k ok show ?thesis by simp
  qed (use v k ok in \<open>simp add: loadDoc_def\<close>)
  show "doc_requests i (loadDoc jwt i r p) = doc_requests i p @ (if link_ok r (op_search p) then [load_url i (op_search p)] else [])"
  proof (cases ok)
    case True
    with v load_frame(2) [of jwt i r p p1] k ok show ?thesis by simp
  qed (use v k ok in \<open>simp add: loadDoc_def\<close>)
qed

lemma loadDoc_docId: "docId (op_client (loadDoc jwt i r p)) = docId (op_client p)"
proof -
  have "docId (op_client (fst (verifyCommsIntent jwt i st p))) = docId (op_client p)" for st
    by (auto simp: verifyCommsIntent_def docs_status_def setAuthStatus_def emit_def Let_def split: prod.splits option.splits)
  moreover have "docId (op_client (loadDriveName jwt i st n N q)) = docId (op_client q)" for st n N q
    by (simp add: loadDriveName_def Let_def setDocMeta_def setDocTitleUI_def emit_def)
  moreover have "docId (open_doc i d a) = docId a" for d a
    by (simp add: open_doc_def setDocTitleUI_def setSaveStatus_def setAuthStatus_def setDocMeta_def emit_def applyDoc_def renderBlocks_def map_doc_def Let_def)
  ultimately show ?thesis
    by (auto simp: loadDoc_def Let_def docs_status_def docs_connectSync_def emit_def setAuthStatus_def split: prod.splits bool.splits dest!: arg_cong [of _ _ fst])
qed

section \<open>Properties\<close>

text \<open>
  C12. An edit link of the communications product: the document is requested, once, only if the
  address carries no intent, or both of its parameters and the service verified them; the request
  carries the same two parameters, as the service reads them. The document on the page is replaced
  only then, and only by a successful reply.
\<close>

theorem docs_edit_link:
  "doc_requests i (loadDoc jwt i r p) = doc_requests i p @ (if link_ok r (op_search p) then [load_url i (op_search p)] else [])
   \<and> docState (op_client (loadDoc jwt i r p))
     = (if link_ok r (op_search p) \<and> status_ok (fst (lr_doc r)) then docState (applyDoc (snd (lr_doc r)) (op_client p))
        else docState (op_client p))
   \<and> (case intent_params (op_search p) of
        (Some e, Some g) \<Rightarrow> (let q = drop (length (doc_url i)) (load_url i (op_search p))
           in param_get q ''intent_exp'' = Some e \<and> param_get q ''intent_sig'' = Some g)
      | _ \<Rightarrow> load_url i (op_search p) = doc_url i)"
  using load_outcome [where jwt = jwt and i = i and r = r and p = p]
  by (auto simp: load_url_def intent_query_read Let_def split: prod.splits option.splits)

text \<open>
  A new document opens: when the service answers the creation with an identifier, the page the
  client goes to reads that identifier from its address and requests that document.
\<close>

theorem docs_new_opens:
  assumes "signed_in p" "status_ok status" "i \<noteq> []" "CHR ''/'' \<notin> set i" "i \<noteq> ''docs''"
    "href (op_session (createDocument jwt stamp status (Some i) p)) = Some url" "op_search q = []"
  shows "path_id ''docs'' url = Some i
    \<and> doc_requests i (docs_boot jwt now url r stamp' status' newId q) = doc_requests i q @ [doc_url i]
    \<and> docId (op_client (docs_boot jwt now url r stamp' status' newId q)) = Some i"
proof -
  have st: "status \<noteq> 401" using assms(2) by (auto simp: status_ok_def)
  have "url = ''/docs/'' @ i"
    using assms(1,2,3,6) by (simp add: createDocument_def Let_def or_undefined_def goto_page_def split: if_splits)
  then have url: "path_id ''docs'' url = Some i" using path_id_of [OF assms(4,3,5), of "''docs''"] by simp
  let ?q = "on_client (\<lambda>a. a\<lparr>docId := Some i\<rparr>) ((on_client (emit PaintPeers) q)\<lparr>op_session := fst (requireAuthOrRedirect jwt now (op_session q))\<rparr>)"
  have boot: "docs_boot jwt now url r stamp' status' newId q = loadDoc jwt i r ?q" by (simp add: docs_boot_def Let_def url)
  have "intent_params [] = (None, None)" by code_simp
  then have l: "link_ok r (op_search ?q)" "load_url i (op_search ?q) = doc_url i" using assms(7) by (simp_all add: link_ok_def load_url_def)
  have "doc_requests i ?q = doc_requests i q" by (simp add: doc_requests_def)
  then show ?thesis using url l load_outcome(2) [where jwt = jwt and i = i and r = r and p = ?q] loadDoc_docId [of jwt i r ?q] unfolding boot by simp
qed

theorem docs_new_opens_witness:
  "(let p = \<lparr> op_session = \<lparr> era_token = ''t'', pageAddress = ''/docs/'', href = None \<rparr>, op_store = [], op_search = [],
               op_origin = ''https://o'', op_sent = [], op_client = sample_app [] \<rparr>;
        r = \<lparr> lr_intent = 200, lr_doc = (200, sample_doc two_blocks), lr_meta = 404, lr_name = None, lr_Name = None \<rparr>
    in href (op_session (createDocument (\<lambda>_. None) ''7'' 201 (Some ''d9'') p)) = Some ''/docs/d9''
       \<and> doc_requests ''d9'' (docs_boot (\<lambda>_. None) 0 ''/docs/d9'' r ''8'' 200 None p) = [''/api/v1/docs/d9''])"
proof -
  let ?p = "\<lparr> op_session = \<lparr> era_token = ''t'', pageAddress = ''/docs/'', href = None \<rparr>, op_store = [], op_search = [],
               op_origin = ''https://o'', op_sent = [], op_client = sample_app [] \<rparr>"
  let ?r = "\<lparr> lr_intent = 200, lr_doc = (200, sample_doc two_blocks), lr_meta = 404, lr_name = None, lr_Name = None \<rparr>"
  have h: "href (op_session (createDocument (\<lambda>_. None) ''7'' 201 (Some ''d9'') ?p)) = Some ''/docs/d9''" by code_simp
  have "doc_requests ''d9'' ?p = []" by (simp add: doc_requests_def)
  with h docs_new_opens [of ?p 201 "''d9''" "\<lambda>_. None" "''7''" "''/docs/d9''" ?p 0 ?r "''8''" 200 None]
  show ?thesis by (simp add: status_ok_def doc_url_def Let_def)
qed

end
