(* ===== verification/Office_Ai.thy ===== *)
theory Office_Ai
  imports Docs_Files
begin

text \<open>
  The assistant panel (\<open>ui/office-ai/web/app.js\<close>) and the two buttons of the documents client that
  hand a text to it through the storage of the tab. The panel runs in the same tab, so it finds the
  storage the document page left; a reply of the service is an argument.
\<close>

section \<open>Handing a document over\<close>

definition handoff_text :: "app \<Rightarrow> string" where
  "handoff_text a = str_join [NL, NL] (filter (\<lambda>t. t \<noteq> []) (map blockText (app_blocks a)))"

definition summarizeAI :: "docs_page \<Rightarrow> docs_page" where
  "summarizeAI p =
     (let t = handoff_text (op_client p) in
      if js_trim t = [] then docs_status ''Document has no text to summarize'' True p
      else goto_page ''/office-ai/'' (p\<lparr>op_store := obj_del ''era_office_ai_mode'' (upsert ''era_office_ai_text'' t (op_store p))\<rparr>))"

definition rewriteAI :: "docs_page \<Rightarrow> docs_page" where
  "rewriteAI p =
     (let t = handoff_text (op_client p) in
      if js_trim t = [] then docs_status ''Document has no text to rewrite'' True p
      else goto_page ''/office-ai/?mode=rewrite''
             (p\<lparr>op_store := upsert ''era_office_ai_mode'' ''rewrite'' (upsert ''era_office_ai_text'' t (op_store p))\<rparr>))"

section \<open>The panel\<close>

record ai =
  ai_source :: string
  ai_instruction :: string
  ai_result :: string
  ai_badge :: "string \<times> string"
  ai_rewrite :: bool
  ai_summarizing :: bool
  ai_rewriting :: bool
  ai_status :: "(string \<times> bool) list"

type_synonym ai_page = "ai office_page"

definition ai_setAuthStatus :: "string \<Rightarrow> bool \<Rightarrow> ai \<Rightarrow> ai" where
  "ai_setAuthStatus msg isErr a = a\<lparr>ai_status := ai_status a @ [(msg, isErr)]\<rparr>"

definition setMode :: "string \<Rightarrow> ai \<Rightarrow> ai" where
  "setMode mode a =
     a\<lparr>ai_badge := (if mode = [] then ([], []) else (''mode='' @ mode, if mode = ''ollama'' then ''ollama'' else ''stub''))\<rparr>"

definition uiMode :: "ai_page \<Rightarrow> ai_page \<times> string" where
  "uiMode p =
     (let mode = or_default (param_get (op_search p) ''mode'') (or_empty (map_of (op_store p) ''era_office_ai_mode''))
      in (if mode \<noteq> [] then p\<lparr>op_store := obj_del ''era_office_ai_mode'' (op_store p)\<rparr> else p,
          if mode = ''rewrite'' then ''rewrite'' else ''summarize''))"

definition applyUiMode :: "string \<Rightarrow> ai \<Rightarrow> ai" where
  "applyUiMode mode a = a\<lparr>ai_rewrite := (mode = ''rewrite'')\<rparr>"

definition clearAll :: "ai_page \<Rightarrow> ai_page" where
  "clearAll p =
     on_client (\<lambda>a. ai_setAuthStatus (if signed_in p then ''Token present'' else sign_in_first) (\<not> signed_in p)
       (setMode [] (a\<lparr>ai_source := [], ai_instruction := [], ai_result := []\<rparr>))) p"

text \<open>A reply: its status, the text of the field that is shown, the whole of it as text, its mode.\<close>

record ai_reply =
  ar_status :: int
  ar_text :: "string option"
  ar_json :: string
  ar_mode :: "string option"

definition show_reply :: "string \<Rightarrow> string \<Rightarrow> ai_reply \<Rightarrow> ai \<Rightarrow> ai" where
  "show_reply what ready r a =
     (if \<not> status_ok (ar_status r)
      then if ar_status r = 401 then a
           else (ai_setAuthStatus (what @ '' failed: '' @ int_str (ar_status r)) True a)\<lparr>ai_result := []\<rparr>
      else (let m = or_default (ar_mode r) ''stub''
            in ai_setAuthStatus (ready @ '' ready ('' @ m @ '')'') False
                 (setMode m (a\<lparr>ai_result := or_default (ar_text r) (ar_json r)\<rparr>))))"

definition ai_guard :: "(string \<Rightarrow> ai_page \<Rightarrow> ai_page) \<Rightarrow> ai_page \<Rightarrow> ai_page" where
  "ai_guard f p =
     (if \<not> signed_in p then on_client (ai_setAuthStatus sign_in_first True) p
      else (let t = js_trim (ai_source (op_client p))
            in if t = [] then on_client (ai_setAuthStatus ''Paste source text first'' True) p else f t p))"

definition summarize :: "(string \<Rightarrow> claims option) \<Rightarrow> ai_reply \<Rightarrow> ai_page \<Rightarrow> ai_page" where
  "summarize jwt r =
     ai_guard (\<lambda>t p.
       (let p1 = on_client (\<lambda>a. setMode [] (ai_setAuthStatus ''Summarizing...'' False (a\<lparr>ai_summarizing := True\<rparr>))) p;
            p2 = officeFetch jwt (request ''POST'' ''/api/v1/docs-ai/summarize'' (authHeaders jwt (op_session p1) json_header)
                   [(''text'', t)]) (ar_status r) p1
        in on_client (\<lambda>a. (show_reply ''Summarize'' ''Summary'' r a)\<lparr>ai_summarizing := False\<rparr>) p2))"

definition rewrite :: "(string \<Rightarrow> claims option) \<Rightarrow> ai_reply \<Rightarrow> ai_page \<Rightarrow> ai_page" where
  "rewrite jwt r =
     ai_guard (\<lambda>t p.
       (let p1 = on_client (\<lambda>a. setMode [] (ai_setAuthStatus ''Rewriting...'' False (a\<lparr>ai_rewriting := True\<rparr>))) p;
            p2 = officeFetch jwt (request ''POST'' ''/api/v1/docs-ai/rewrite'' (authHeaders jwt (op_session p1) json_header)
                   [(''text'', t), (''instruction'', js_trim (ai_instruction (op_client p)))]) (ar_status r) p1
        in on_client (\<lambda>a. (show_reply ''Rewrite'' ''Rewrite'' r a)\<lparr>ai_rewriting := False\<rparr>) p2))"

definition ai_command :: "(string \<Rightarrow> claims option) \<Rightarrow> ai_reply \<Rightarrow> string \<Rightarrow> ai_page \<Rightarrow> ai_page" where
  "ai_command jwt r cmd p =
     (if cmd = ''file.openDrive'' then goto_page ''/drive/'' p
      else if cmd = ''file.clear'' then clearAll p
      else if cmd = ''tools.summarize'' then summarize jwt r (on_client (applyUiMode ''summarize'') p)
      else if cmd = ''tools.rewrite'' then rewrite jwt r (on_client (applyUiMode ''rewrite'') p)
      else if cmd = ''help.about''
        then on_client (ai_setAuthStatus ''ERA Office AI - air-gap assist (stub / in-contour Ollama)'' False) p
      else p)"

definition given_text :: "string \<Rightarrow> string" where
  "given_text search = or_default (param_get search ''text'') (or_empty (param_get search ''q''))"

definition stored_text :: "(string \<times> string) list \<Rightarrow> string" where
  "stored_text store = or_empty (map_of store ''era_office_ai_text'')"

definition ai_prefill :: "ai_page \<Rightarrow> ai_page" where
  "ai_prefill p =
     (let given = given_text (op_search p); stored = stored_text (op_store p);
          t = (if given \<noteq> [] then given else stored);
          p1 = (if given = [] \<and> stored \<noteq> [] then p\<lparr>op_store := obj_del ''era_office_ai_text'' (op_store p)\<rparr> else p)
      in if t \<noteq> [] then on_client (\<lambda>a. a\<lparr>ai_source := t\<rparr>) p1 else p1)"

definition ai_boot :: "(string \<Rightarrow> claims option) \<Rightarrow> int \<Rightarrow> ai_page \<Rightarrow> ai_page" where
  "ai_boot jwt now p =
     (let (p1, mode) = uiMode p; p2 = ai_prefill (on_client (applyUiMode mode) p1)
      in p2\<lparr>op_session := fst (requireAuthOrRedirect jwt now (op_session p2))\<rparr>)"

section \<open>Laws\<close>

lemma ai_prefill_client:
  "op_client (ai_prefill p)
    = (op_client p)\<lparr>ai_source := (if given_text (op_search p) \<noteq> [] then given_text (op_search p)
        else if stored_text (op_store p) \<noteq> [] then stored_text (op_store p) else ai_source (op_client p))\<rparr>"
  by (simp add: ai_prefill_def Let_def)

lemma ai_prefill_store: "given_text (op_search p) = [] \<Longrightarrow> stored_text (op_store (ai_prefill p)) = []"
  by (simp add: ai_prefill_def Let_def) (simp add: stored_text_def)

lemma uiMode_frame:
  "op_client (fst (uiMode p)) = op_client p" "op_search (fst (uiMode p)) = op_search p"
  "stored_text (op_store (fst (uiMode p))) = stored_text (op_store p)"
  by (simp_all add: uiMode_def Let_def stored_text_def)

lemma ai_boot_source:
  "ai_source (op_client (ai_boot jwt now p)) = (if given_text (op_search p) \<noteq> [] then given_text (op_search p)
     else if stored_text (op_store p) \<noteq> [] then stored_text (op_store p) else ai_source (op_client p))"
  "ai_rewrite (op_client (ai_boot jwt now p)) = (snd (uiMode p) = ''rewrite'')"
  using uiMode_frame [of p] by (simp_all add: ai_boot_def Let_def split_beta ai_prefill_client applyUiMode_def)

lemma ai_boot_store: "given_text (op_search p) = [] \<Longrightarrow> stored_text (op_store (ai_boot jwt now p)) = []"
  using uiMode_frame [of p] by (simp add: ai_boot_def Let_def split_beta ai_prefill_store)

text \<open>The request carries the text on the page, trimmed.\<close>

lemma summarize_sends:
  assumes "signed_in p" "js_trim (ai_source (op_client p)) \<noteq> []"
  shows "rq_body (last (op_sent (summarize jwt r p))) = [(''text'', js_trim (ai_source (op_client p)))]"
    "rq_url (last (op_sent (summarize jwt r p))) = ''/api/v1/docs-ai/summarize''"
  using assms by (simp_all add: summarize_def ai_guard_def Let_def officeFetch_def request_def)

lemma rewrite_sends:
  assumes "signed_in p" "js_trim (ai_source (op_client p)) \<noteq> []"
  shows "rq_body (last (op_sent (rewrite jwt r p)))
      = [(''text'', js_trim (ai_source (op_client p))), (''instruction'', js_trim (ai_instruction (op_client p)))]"
    "rq_url (last (op_sent (rewrite jwt r p))) = ''/api/v1/docs-ai/rewrite''"
  using assms by (simp_all add: rewrite_def ai_guard_def Let_def officeFetch_def request_def)

lemma param_get_examples:
  "param_get [] k = None" "param_get ''?mode=rewrite'' ''mode'' = Some ''rewrite''"
  "param_get ''?mode=rewrite'' ''text'' = None" "param_get ''?mode=rewrite'' ''q'' = None"
  by (simp add: param_get_def search_params_def) code_simp+

section \<open>Property\<close>

text \<open>
  C14. The hand-off from a document to the assistant: the panel opened in the same tab shows the text
  of the document, in the mode of the button, and the service gets that text; the storage is
  emptied, so a second visit does not show it again. The text is taken from the storage even when
  the panel then goes to the sign-in page.
\<close>

theorem ai_handoff:
  assumes "js_trim (handoff_text (op_client p)) \<noteq> []"
    "op_store q = op_store (if rw then rewriteAI p else summarizeAI p)" "op_search q = (if rw then ''?mode=rewrite'' else [])"
    "op_store q' = op_store (ai_boot jwt now q)" "op_search q' = op_search q"
  shows "ai_source (op_client (ai_boot jwt now q)) = handoff_text (op_client p)
    \<and> ai_rewrite (op_client (ai_boot jwt now q)) = rw
    \<and> ai_source (op_client (ai_boot jwt now' q')) = ai_source (op_client q')
    \<and> (let s = (if rw then rewrite else summarize) jwt r ((ai_boot jwt now q)\<lparr>op_session := ses\<lparr>era_token := c # tok\<rparr>\<rparr>)
       in map_of (rq_body (last (op_sent s))) ''text'' = Some (js_trim (handoff_text (op_client p))))"
proof -
  let ?t = "handoff_text (op_client p)"
  have ne: "?t \<noteq> []" using assms(1) by auto
  have st: "map_of (op_store q) ''era_office_ai_text'' = Some ?t"
    "map_of (op_store q) ''era_office_ai_mode'' = (if rw then Some ''rewrite'' else None)"
    using assms(1,2) by (auto simp: rewriteAI_def summarizeAI_def Let_def)
  have g: "given_text (op_search q) = []" using assms(3) by (simp add: given_text_def or_default_def param_get_examples)
  have "snd (uiMode q) = ''rewrite'' \<longleftrightarrow> rw" using st(2) assms(3) by (simp add: uiMode_def Let_def or_default_def param_get_examples)
  then have b: "ai_source (op_client (ai_boot jwt now q)) = ?t" "ai_rewrite (op_client (ai_boot jwt now q)) = rw"
    using st(1) ne g by (simp_all add: ai_boot_source stored_text_def)
  have "stored_text (op_store q') = []" "given_text (op_search q') = []" using ai_boot_store [OF g] g assms(4,5) by simp_all
  then have "ai_source (op_client (ai_boot jwt now' q')) = ai_source (op_client q')" by (simp add: ai_boot_source)
  moreover have "map_of (rq_body (last (op_sent ((if rw then rewrite else summarize) jwt r ((ai_boot jwt now q)\<lparr>op_session := ses\<lparr>era_token := c # tok\<rparr>\<rparr>))))) ''text''
      = Some (js_trim ?t)"
    using b(1) assms(1) by (simp add: summarize_sends rewrite_sends)
  ultimately show ?thesis using b by (simp add: Let_def)
qed

theorem ai_handoff_witness:
  "(let ses = \<lparr> era_token = ''t'', pageAddress = ''/docs/d1'', href = None \<rparr>;
        p = \<lparr> op_session = ses, op_store = [], op_search = [], op_origin = ''https://o'', op_sent = [], op_client = sample_app two_blocks \<rparr>;
        q = \<lparr> op_session = ses, op_store = op_store (rewriteAI p), op_search = ''?mode=rewrite'', op_origin = ''https://o'', op_sent = [],
              op_client = \<lparr> ai_source = [], ai_instruction = [], ai_result = [], ai_badge = ([], []), ai_rewrite = False,
                ai_summarizing = False, ai_rewriting = False, ai_status = [] \<rparr> \<rparr>
    in ai_source (op_client (ai_boot (\<lambda>_. None) 0 q)) = ''abcd'' @ [NL, NL] @ ''xy'')"
proof -
  let ?ses = "\<lparr> era_token = ''t'', pageAddress = ''/docs/d1'', href = None \<rparr>"
  let ?p = "\<lparr> op_session = ?ses, op_store = [], op_search = [], op_origin = ''https://o'', op_sent = [], op_client = sample_app two_blocks \<rparr>"
  let ?q = "\<lparr> op_session = ?ses, op_store = op_store (rewriteAI ?p), op_search = ''?mode=rewrite'', op_origin = ''https://o'', op_sent = [],
      op_client = \<lparr> ai_source = [], ai_instruction = [], ai_result = [], ai_badge = ([], []), ai_rewrite = False,
        ai_summarizing = False, ai_rewriting = False, ai_status = [] \<rparr> \<rparr>"
  have t: "handoff_text (op_client ?p) = ''abcd'' @ [NL, NL] @ ''xy''" by code_simp
  have "js_trim (handoff_text (op_client ?p)) \<noteq> []" by code_simp
  from ai_handoff [OF this, of ?q True "?q\<lparr>op_store := op_store (ai_boot (\<lambda>_. None) 0 ?q)\<rparr>" "\<lambda>_. None" 0]
  have "ai_source (op_client (ai_boot (\<lambda>_. None) 0 ?q)) = handoff_text (op_client ?p)" by simp
  with t show ?thesis by (simp add: Let_def)
qed

end
