(* ===== verification/Docs_Menu.thy ===== *)
theory Docs_Menu
  imports Office_Ai
begin

text \<open>
  The menu, the keyboard and the controls of the documents page (\<open>ui/docs/web/app.js\<close>,
  \<open>era_plus.js\<close>, \<open>later.js\<close>): which handler a command calls and with what. The selection, the answers
  of the dialogs, the clipboard, the chosen image and fresh identifiers are one record of inputs.
\<close>

record menu_input =
  mi_dom :: dom
  mi_id :: string
  mi_ids :: "string list"
  mi_answer :: "string option"
  mi_second :: "string option"
  mi_clip :: "string option option"
  mi_image :: "(string \<times> string \<times> string) option"

definition selected_id :: "menu_input \<Rightarrow> app \<Rightarrow> string option" where
  "selected_id e a = map_option b_id (selectedBlock (mi_dom e) (app_blocks a))"

definition paste_text :: "menu_input \<Rightarrow> string option \<Rightarrow> app \<Rightarrow> app" where
  "paste_text e t a =
     pastePlainText (selected_id e a) (Option.bind (selected_id e a) (selectionOffsetsInBlock (mi_dom e))) (mi_ids e) t a"

text \<open>\<open>None\<close>: the browser refused to read the clipboard; \<open>Some None\<close>: it holds no text.\<close>

definition menu_paste :: "menu_input \<Rightarrow> app \<Rightarrow> app" where
  "menu_paste e a =
     (case mi_clip e of
        None \<Rightarrow> setAuthStatus ''Paste failed - try Paste plain (HTML from Word not supported)'' True a
      | Some None \<Rightarrow> setAuthStatus ''Rich HTML paste from Word is out of MVP - use Paste plain'' True a
      | Some t \<Rightarrow> paste_text e t a)"

definition menu_paste_plain :: "menu_input \<Rightarrow> app \<Rightarrow> app" where
  "menu_paste_plain e a =
     (case mi_clip e of
        None \<Rightarrow> setAuthStatus ''Paste plain failed (clipboard permission)'' True a
      | Some t \<Rightarrow> paste_text e t a)"

definition toggleSuggesting :: "app \<Rightarrow> app" where
  "toggleSuggesting a =
     (if docId a = None then setAuthStatus ''Open a document first'' True a
      else (let on = (\<not> track_changes (docState a))
            in setAuthStatus (if on then ''Suggesting on - edits recorded as revisions'' else ''Suggesting off'') False
                 (renderBlocks (scheduleAutosave (map_doc (\<lambda>d. d\<lparr>track_changes := on\<rparr>) a)))))"

text \<open>The image to insert: \<open>mode\<close> is the first choice, \<open>picked\<close> the outcome of the picker.\<close>

definition typed_url :: "string option \<Rightarrow> (string \<times> string \<times> string) option" where
  "typed_url answer =
     (case answer of None \<Rightarrow> None | Some u \<Rightarrow> if js_trim u = [] then None else Some (js_trim u, [], []))"

definition image_source :: "string option \<Rightarrow> picked_image option \<Rightarrow> string option \<Rightarrow> (string \<times> string \<times> string) option" where
  "image_source mode picked answer =
     (case mode of
        None \<Rightarrow> None
      | Some m \<Rightarrow>
          if m \<noteq> ''drive'' then typed_url answer
          else (case picked of
                  None \<Rightarrow> None
                | Some Paste_url \<Rightarrow> typed_url answer
                | Some (Drive_image url oid alt) \<Rightarrow> Some (url, alt, oid)))"

definition menu_image :: "menu_input \<Rightarrow> app \<Rightarrow> app" where
  "menu_image e a =
     (case mi_image e of None \<Rightarrow> a | Some (url, alt, oid) \<Rightarrow> insertImageBlock (mi_id e) url alt oid (mi_dom e) a)"

section \<open>Commands\<close>

text \<open>The commands that work on the document. Those of the extension files are added to the same
  table. Commands that only open a dialog or focus a control are not in it; what the dialog or the
  control does when it is left is below.\<close>

definition docs_commands :: "menu_input \<Rightarrow> (string \<times> (app \<Rightarrow> app)) list" where
  "docs_commands e =
     (let dm = mi_dom e; i = mi_id e; ans = mi_answer e in
      [(''edit.undo'', undoEdit), (''edit.redo'', redoEdit),
       (''edit.paste'', menu_paste e), (''edit.pastePlain'', menu_paste_plain e), (''view.suggest'', toggleSuggesting),
       (''insert.link'', setLink ans dm), (''insert.comment'', addComment i ans dm), (''insert.pageBreak'', insertPageBreak i dm),
       (''insert.header'', showHeaderFooter False), (''insert.footer'', showHeaderFooter False),
       (''insert.pageNumbers'', showHeaderFooter True), (''insert.image'', menu_image e), (''insert.toc'', insertTocBlock i dm),
       (''insert.bookmark'', insertBookmarkBlock i ans dm), (''edit.gotoBookmark'', goToBookmark ans),
       (''format.bold'', toggleMark Bold dm), (''format.italic'', toggleMark Italic dm),
       (''format.underline'', toggleMark Underline dm), (''format.strike'', toggleMark Strike dm),
       (''format.language'', setBlockLanguage ans dm), (''format.title'', applyStyle ''title'' dm),
       (''format.h1'', applyStyle ''h1'' dm), (''format.h2'', applyStyle ''h2'' dm), (''format.h3'', applyStyle ''h3'' dm),
       (''format.h4'', applyStyle ''h4'' dm), (''format.h5'', applyStyle ''h5'' dm), (''format.h6'', applyStyle ''h6'' dm),
       (''edit.formatPainter'', armFormatPainter dm), (''insert.symbol'', (\<lambda>a. insertSymbol (selected_id e a) ans a)),
       (''insert.hr'', insertHorizontalLine i dm), (''format.super'', toggleScript True dm), (''format.sub'', toggleScript False dm),
       (''format.normal'', applyStyle ''normal'' dm), (''format.quote'', applyStyle ''quote'' dm),
       (''format.caption'', applyStyle ''caption'' dm), (''format.alignLeft'', setAlign ''left'' dm),
       (''format.alignCenter'', setAlign ''center'' dm), (''format.alignRight'', setAlign ''right'' dm),
       (''format.alignJustify'', setAlign ''justify'' dm), (''format.indentDec'', bumpIndent (- 10) dm),
       (''format.indentInc'', bumpIndent 10 dm), (''format.paraSpacing'', setParaSpacing ans (mi_second e) dm),
       (''format.bullet'', setListType ''bullet'' None dm), (''format.numbered'', setListType ''ordered'' None dm),
       (''format.listLevelDec'', bumpListLevel (- 1) dm), (''format.listLevelInc'', bumpListLevel 1 dm),
       (''format.listMarker'', changeListMarker ans dm), (''format.listRestart'', restartListNumbering dm),
       (''format.clear'', clearFormatting dm), (''insert.section'', insertSectionBreak i dm),
       (''insert.footnote'', insertFootnote i ans dm), (''insert.textbox'', insertTextBox i ans dm)])"

definition docs_command :: "menu_input \<Rightarrow> string \<Rightarrow> app \<Rightarrow> app" where
  "docs_command e cmd a = (case map_of (docs_commands e) cmd of Some h \<Rightarrow> h a | None \<Rightarrow> a)"

text \<open>The keys of the page.\<close>

definition docs_shortcut :: "bool \<Rightarrow> bool \<Rightarrow> string \<Rightarrow> app \<Rightarrow> app" where
  "docs_shortcut ctrl shift k a =
     (if ctrl \<and> to_lower k = ''z'' \<and> \<not> shift then undoEdit a
      else if ctrl \<and> (to_lower k = ''y'' \<or> to_lower k = ''z'' \<and> shift) then redoEdit a
      else a)"

section \<open>Controls and dialogs\<close>

text \<open>The controls of the toolbar, of the ruler and of the dialogs, the buttons of the panels (revisions,
  styles, comments) and of tables, and the events of the page: an input, a key, a left table cell.\<close>

datatype docs_control =
    C_style string
  | C_font string
  | C_size int
  | C_size_step int "int"
  | C_color string
  | C_highlight string
  | C_spacing string
  | C_list string "string option"
  | C_painter_click
  | C_table string string
  | C_page string string string
  | C_columns string
  | C_replace bool string string
  | C_header_footer string string bool
  | C_ruler int
  | C_toc_refresh string
  | C_track bool
  | C_accept revision
  | C_reject revision
  | C_accept_all
  | C_reject_all
  | C_style_save string string string bool bool
  | C_style_delete string
  | C_style_apply string
  | C_comment bool comment_row
  | C_input string string string
  | C_key key string "(int \<times> int) option" string
  | C_cell string nat nat string
  | C_row_add string
  | C_col_add string
  | C_row_del string
  | C_col_del string

definition doc_font_sizes :: "int list" where
  "doc_font_sizes = [10, 11, 12, 14, 16, 18, 24]"

text \<open>The size the two buttons choose from the size \<open>cur\<close> of the selector.\<close>

definition next_size :: "int \<Rightarrow> int \<Rightarrow> int" where
  "next_size cur delta =
     (let idx = (case find_index (\<lambda>n. n = cur) doc_font_sizes of Some i \<Rightarrow> int i | None \<Rightarrow> 1)
      in doc_font_sizes ! nat (max 0 (min (int (length doc_font_sizes) - 1) (idx + delta))))"

fun docs_control_step :: "menu_input \<Rightarrow> docs_control \<Rightarrow> app \<Rightarrow> app" where
  "docs_control_step e (C_style st) a = applyStyle st (mi_dom e) a"
| "docs_control_step e (C_font fam) a = setFontFamily fam (mi_dom e) a"
| "docs_control_step e (C_size n) a = setFontSize n (mi_dom e) a"
| "docs_control_step e (C_size_step cur delta) a = setFontSize (next_size cur delta) (mi_dom e) a"
| "docs_control_step e (C_color c) a = setTextColor c (mi_dom e) a"
| "docs_control_step e (C_highlight c) a = setHighlightColor c (mi_dom e) a"
| "docs_control_step e (C_spacing v) a = setLineSpacing v (mi_dom e) a"
| "docs_control_step e (C_list kind marker) a = setListType kind marker (mi_dom e) a"
| "docs_control_step e C_painter_click a =
     (if formatPainterClip a = None then a else applyFormatPainterTo (selected_id e a) a)"
| "docs_control_step e (C_table r c) a = insertTableFromDialog (mi_id e) r c (mi_dom e) a"
| "docs_control_step e (C_page sz orient m) a = commitPageSetup sz orient m a"
| "docs_control_step e (C_columns v) a = applyColumns (columns_choice v) a"
| "docs_control_step e (C_replace all_mode f r) a = doFindReplace all_mode f r a"
| "docs_control_step e (C_header_footer h f n) a = syncHeaderFooterFromInputs h f n a"
| "docs_control_step e (C_ruler mm) a = setIndentMm mm (mi_dom e) a"
| "docs_control_step e (C_toc_refresh bid) a = refreshTocBlock bid a"
| "docs_control_step e (C_track on) a = toggleTrackChanges on a"
| "docs_control_step e (C_accept r) a = acceptRevision r a"
| "docs_control_step e (C_reject r) a = rejectRevision r a"
| "docs_control_step e C_accept_all a = acceptAll a"
| "docs_control_step e C_reject_all a = rejectAll a"
| "docs_control_step e (C_style_save nm ff sz bo it) a = addOrUpdateStyle nm ff sz bo it a"
| "docs_control_step e (C_style_delete nm) a = deleteStyle nm a"
| "docs_control_step e (C_style_apply nm) a = applyNamedStyle nm (mi_dom e) a"
| "docs_control_step e (C_comment on_button r) a = comment_click on_button r a"
| "docs_control_step e (C_input bid tx rid) a = onBlockInput bid tx rid a"
| "docs_control_step e (C_key k bid sel newId) a = onBlockKeydown k bid sel newId a"
| "docs_control_step e (C_cell bid r c v) a = table_blur bid r c v a"
| "docs_control_step e (C_row_add bid) a = table_add_row bid a"
| "docs_control_step e (C_col_add bid) a = table_add_col bid a"
| "docs_control_step e (C_row_del bid) a = table_del_row bid a"
| "docs_control_step e (C_col_del bid) a = table_del_col bid a"

section \<open>Panels\<close>

definition style_hint :: "named_style \<Rightarrow> string" where
  "style_hint s =
     or_empty (st_font_family s) @ '' '' @ (if st_font_size_pt s = 0 then [] else int_str (st_font_size_pt s)) @ ''pt''
     @ (if st_bold s then '' bold'' else []) @ (if st_italic s then '' italic'' else [])"

text \<open>The rows of the styles dialog, and the options the gallery of styles gets.\<close>

definition renderStylesList :: "doc \<Rightarrow> (string \<times> string) list" where
  "renderStylesList d =
     (if doc_styles d = [] then [(''No custom styles yet'', [])] else map (\<lambda>s. (st_name s, style_hint s)) (doc_styles d))"

definition syncStylesIntoGallery :: "doc \<Rightarrow> (string \<times> string) list" where
  "syncStylesIntoGallery d = map (\<lambda>s. (''custom:'' @ st_name s, st_name s @ '' (custom)'')) (doc_styles d)"

text \<open>What the fields of the dialog show after a click on a style.\<close>

definition style_fields :: "named_style \<Rightarrow> string \<times> string \<times> string \<times> bool \<times> bool" where
  "style_fields s =
     (st_name s, or_default (st_font_family s) ''Arial'', int_str (if st_font_size_pt s = 0 then 12 else st_font_size_pt s),
      st_bold s, st_italic s)"

definition revision_html :: "revision \<Rightarrow> string" where
  "revision_html r =
     ''<div><code>'' @ escapeHtml (r_kind r) @ ''</code> - '' @ escapeHtml (r_author_id r)
     @ ''</div><div class='' @ QT @ ''rev-del'' @ QT @ ''>'' @ escapeHtml (r_before r)
     @ ''</div><div class='' @ QT @ ''rev-ins'' @ QT @ ''>'' @ escapeHtml (r_after r) @ ''</div>''"

definition renderRevisionsList :: "doc \<Rightarrow> string list" where
  "renderRevisionsList d = (if revisions d = [] then [''No revisions yet''] else map revision_html (revisions d))"

text \<open>The fields of the page setup dialog.\<close>

definition openPageSetup :: "doc \<Rightarrow> string \<times> string \<times> int" where
  "openPageSetup d =
     (case page d of
        None \<Rightarrow> (''a4'', ''portrait'', 20)
      | Some p \<Rightarrow> (or_default (Some (pg_size p)) ''a4'', or_default (Some (pg_orientation p)) ''portrait'',
                   case pg_margins_mm p of None \<Rightarrow> 20 | Some m \<Rightarrow> m))"

text \<open>Whether the marks are shown, and whether the blocks are numbered with the numbers they get.\<close>

definition toggleShowMarks :: "bool \<times> app \<Rightarrow> bool \<times> app" where
  "toggleShowMarks b =
     (\<not> fst b, setAuthStatus (if \<not> fst b then ''Formatting marks on'' else ''Formatting marks off'') False (snd b))"

definition toggleLineNumbers :: "bool \<Rightarrow> block_view list \<Rightarrow> bool \<times> string option list" where
  "toggleLineNumbers on vs = (\<not> on, map (\<lambda>i. if on then None else Some (nat_str (i + 1))) [0..<length vs])"

section \<open>Commands of the page\<close>

text \<open>The extension files call \<open>fetch\<close> itself: a refused session has no effect on the page.\<close>

definition plain_fetch :: "office_request \<Rightarrow> docs_page \<Rightarrow> docs_page" where
  "plain_fetch rq p = p\<lparr>op_sent := op_sent p @ [rq]\<rparr>"

text \<open>\<open>None\<close>: the request failed.\<close>

definition download_as :: "(string \<Rightarrow> claims option) \<Rightarrow> string \<Rightarrow> string \<Rightarrow> int option \<Rightarrow> docs_page \<Rightarrow> docs_page \<times> string option" where
  "download_as jwt ext label status p =
     (case docId (op_client p) of
        None \<Rightarrow> (docs_status ''Open a document first'' True p, None)
      | Some i \<Rightarrow>
          (let p1 = plain_fetch (request ''POST'' (''/api/v1/docs/'' @ encodeURIComponent i @ ''/export/'' @ ext)
                      (authHeaders jwt (op_session p) []) []) (docs_status (''Exporting '' @ label @ ''...'') False p)
           in if pred_option status_ok status \<and> status \<noteq> None
              then (docs_status (label @ '' export ready'') False p1, Some (or_default (Some i) ''export'' @ CHR ''.'' # ext))
              else (docs_status (label @ '' export failed'') True p1, None)))"

definition downloadOdt :: "(string \<Rightarrow> claims option) \<Rightarrow> int option \<Rightarrow> docs_page \<Rightarrow> docs_page \<times> string option" where
  "downloadOdt jwt status p = download_as jwt ''odt'' ''ODT'' status p"

definition downloadRtf :: "(string \<Rightarrow> claims option) \<Rightarrow> int option \<Rightarrow> docs_page \<Rightarrow> docs_page \<times> string option" where
  "downloadRtf jwt status p = download_as jwt ''rtf'' ''RTF'' status p"

text \<open>The comparison with another document: the text the dialog shows, before it \<open>shown_text\<close>.\<close>

definition compare_command :: "(string \<Rightarrow> claims option) \<Rightarrow> string \<Rightarrow> string \<Rightarrow> (int \<times> block list) option \<Rightarrow> docs_page \<Rightarrow> docs_page \<times> string" where
  "compare_command jwt shown_text other reply p =
     (let i = js_trim other in
      if i = [] then (p, shown_text)
      else (let p1 = plain_fetch (request ''GET'' (''/api/v1/docs/'' @ encodeURIComponent i) (authHeaders jwt (op_session p) []) []) p
            in case reply of
                 None \<Rightarrow> (p1, ''Compare failed'')
               | Some (status, bs) \<Rightarrow>
                   if \<not> status_ok status then (p1, ''Failed: '' @ int_str status)
                   else (docs_status ''Compare done'' False p1, runCompare (app_blocks (op_client p)) bs)))"

record page_input =
  pi_jwt :: "string \<Rightarrow> claims option"
  pi_stamp :: string
  pi_status :: int
  pi_newId :: "string option"
  pi_versions :: "version_entry list"

definition docs_page_command :: "page_input \<Rightarrow> menu_input \<Rightarrow> string \<Rightarrow> docs_page \<Rightarrow> docs_page" where
  "docs_page_command q e cmd p =
     (let jwt = pi_jwt q; st = pi_status q in
      if cmd = ''file.new'' then createDocument jwt (pi_stamp q) st (pi_newId q) p
      else if cmd = ''file.open'' then goto_page ''/drive/'' p
      else if cmd = ''file.share'' then fst (docs_openShareDialog p)
      else if cmd = ''file.export'' then fst (export_docx jwt st p)
      else if cmd = ''file.odt'' then fst (downloadOdt jwt (Some st) p)
      else if cmd = ''file.rtf'' then fst (downloadRtf jwt (Some st) p)
      else if cmd = ''file.pdf'' then docs_status ''Print / Save as PDF - use the browser Print dialog (no server PDF)'' False p
      else if cmd = ''file.print'' then docs_status ''Print / Save as PDF - browser dialog'' False p
      else if cmd = ''file.versions'' then fst (openVersionsDialog jwt st (pi_versions q) p)
      else if cmd = ''file.save'' then save_button jwt st (pi_stamp q) p
      else if cmd = ''view.printLayout'' then docs_status ''Print layout'' False p
      else if cmd = ''tools.summarize'' then summarizeAI p
      else if cmd = ''tools.rewrite'' then rewriteAI p
      else if cmd = ''help.shortcuts'' then docs_status ''Ctrl+Z undo - Ctrl+Y redo - Find in toolbar - Format via menu'' False p
      else on_client (docs_command e cmd) p)"

section \<open>Every command can be undone\<close>

text \<open>\<open>n\<close> checkpoints were pushed on the way from \<open>a\<close> to \<open>b\<close>, the first of them of \<open>a\<close>.\<close>

fun pushed :: "nat \<Rightarrow> app \<Rightarrow> app \<Rightarrow> bool" where
  "pushed 0 a b \<longleftrightarrow> undoStack b = undoStack a"
| "pushed (Suc n) a b \<longleftrightarrow> (\<exists>c. undoStack c = undoStack (pushUndo a) \<and> pushed n c b)"

text \<open>The checkpoint of \<open>a\<close> is the \<open>n\<close>-th from the end, as long as the bound of the stack allows it.\<close>

lemma pushed_entry:
  assumes "pushed n a b" "n \<le> UNDO_MAX" "d # rest = drop (length (undoStack a) - m) (undoStack a)" "m \<le> length (undoStack a)" "n + m \<le> UNDO_MAX" "0 < m"
  shows "n + m \<le> length (undoStack b) \<and> undoStack b ! (length (undoStack b) - (n + m)) = d"
  using assms
proof (induction n a b arbitrary: m rest rule: pushed.induct)
  case (1 a b)
  then show ?case by (metis add_0 drop_eq_Nil hd_drop_conv_nth list.distinct(1) list.sel(1) not_le_imp_less pushed.simps(1))
next
  case (2 n a b)
  then obtain c where c: "undoStack c = undoStack (pushUndo a)" "pushed n c b" by auto
  let ?s = "undoStack a @ [docState a]"
  have l: "length (undoStack a) \<ge> m" using 2(5) by simp
  have sc: "undoStack c = (if length ?s > UNDO_MAX then tl ?s else ?s)" by (simp add: c(1) pushUndo_def Let_def)
  have "drop (length (undoStack c) - Suc m) (undoStack c) = d # rest @ [docState a]"
  proof (cases "length ?s > UNDO_MAX")
    case True
    then have "undoStack c = drop 1 ?s" using sc by (simp add: drop_Suc del: drop_append)
    moreover have "length (undoStack a) - m \<ge> 1" using True 2(6) by simp
    ultimately show ?thesis using 2(4) l by (simp add: Suc_diff_Suc)
  qed (use sc 2(4) l in \<open>simp add: Suc_diff_le\<close>)
  moreover have "Suc m \<le> length (undoStack c)" using sc l 2(6) by auto
  ultimately show ?case using 2(1) [OF c(2), of "rest @ [docState a]" "Suc m"] 2(3,6) by simp
qed

lemma pushed_undo:
  assumes "pushed n a b" "0 < n" "n \<le> UNDO_MAX" "complete_doc (docState a)"
  shows "docState ((undoEdit ^^ n) b) = docState a"
proof -
  obtain k c where n: "n = Suc k" and c: "undoStack c = undoStack (pushUndo a)" "pushed k c b"
    using assms(1,2) by (cases n) auto
  have ne: "undoStack c \<noteq> []" "last (undoStack c) = docState a" using doc_history.checkpoint_top [of a] c(1) by simp_all
  then have "[docState a] = drop (length (undoStack c) - 1) (undoStack c)" by (metis append_butlast_last_id append_eq_conv_conj length_butlast)
  then have e: "k + 1 \<le> length (undoStack b)" "undoStack b ! (length (undoStack b) - (k + 1)) = docState a"
    using pushed_entry [OF c(2), of "docState a" "[]" 1] assms(3) n ne(1) by (simp_all add: Suc_le_eq)
  let ?t = "(undoEdit ^^ k) b"
  have u: "undoStack ?t = take (length (undoStack b) - k) (undoStack b)" using doc_history.undos_funpow [of k b] e(1) by simp
  moreover have "take (length (undoStack b) - k) (undoStack b) = take (length (undoStack b) - Suc k) (undoStack b) @ [docState a]"
    using e take_Suc_conv_app_nth [of "length (undoStack b) - Suc k" "undoStack b"] by (simp add: Suc_diff_Suc)
  ultimately have "undoStack ?t \<noteq> []" "last (undoStack ?t) = docState a" by simp_all
  then show ?thesis using doc_history.undo_restores [of ?t] assms(4) n by simp
qed

lemma pushed_trans: "pushed (Suc m) a b \<Longrightarrow> pushed (Suc n) b c \<Longrightarrow> pushed (Suc m + Suc n) a c"
proof (induction m arbitrary: a)
  case 0
  then show ?case by auto (metis)
next
  case (Suc m)
  then obtain d where d: "undoStack d = undoStack (pushUndo a)" "pushed (Suc m) d b" by auto
  from Suc.IH [OF d(2) Suc.prems(2)] d(1) show ?case by auto
qed

lemma pushed_cong: "pushed n a b \<Longrightarrow> undoStack b' = undoStack b \<Longrightarrow> pushed n a b'"
  by (induction n arbitrary: a) auto

text \<open>Nothing changed, or at most \<open>n\<close> checkpoints were pushed, the first of them of \<open>a\<close>.\<close>

definition undoable :: "nat \<Rightarrow> app \<Rightarrow> app \<Rightarrow> bool" where
  "undoable n a b \<longleftrightarrow> docState b = docState a \<and> undoStack b = undoStack a \<or> (\<exists>k. 1 \<le> k \<and> k \<le> n \<and> pushed k a b)"

lemma undoable_same: "docState b = docState a \<Longrightarrow> undoStack b = undoStack a \<Longrightarrow> undoable n a b"
  by (simp add: undoable_def)

lemma undoable_one: "undoStack b = undoStack (pushUndo a) \<Longrightarrow> 1 \<le> n \<Longrightarrow> undoable n a b"
  unfolding undoable_def by (intro disjI2 exI [of _ 1]) auto

lemma undoable_mono: "undoable m a b \<Longrightarrow> m \<le> n \<Longrightarrow> undoable n a b"
  unfolding undoable_def by (meson order_trans)

lemma undoable_push:
  assumes "undoable n a b" "undoStack c = undoStack (pushUndo b)"
  shows "undoable (Suc n) a c"
proof (cases "docState b = docState a \<and> undoStack b = undoStack a")
  case True
  with assms(2) have "undoStack c = undoStack (pushUndo a)" by (simp add: pushUndo_def Let_def)
  then show ?thesis by (rule undoable_one) simp
next
  case False
  then obtain k where k: "1 \<le> k" "k \<le> n" "pushed k a b" using assms(1) by (auto simp: undoable_def)
  then have "pushed (Suc (k - 1) + Suc 0) a c" using assms(2) by (intro pushed_trans [of _ _ b]) auto
  with k(1,2) show ?thesis unfolding undoable_def by (intro disjI2 exI [of _ "Suc k"]) simp
qed

lemma undoable_twice: "undoStack c = undoStack (pushUndo a) \<Longrightarrow> undoStack b = undoStack (pushUndo c) \<Longrightarrow> undoable 2 a b"
  using undoable_push [OF undoable_one, of c a 1 b] by (simp add: numeral_2_eq_2)

lemma undoable_from_push:
  assumes "undoable n c b" "undoStack c = undoStack (pushUndo a)" "undoStack b' = undoStack b"
  shows "undoable (Suc n) a b'"
proof (cases "undoStack b = undoStack c")
  case True
  with assms(2,3) show ?thesis by (intro undoable_one) simp_all
next
  case False
  then obtain k where "k \<le> n" "pushed k c b" using assms(1) by (auto simp: undoable_def)
  with assms(2) pushed_cong [OF _ assms(3)] show ?thesis unfolding undoable_def by (intro disjI2 exI [of _ "Suc k"]) auto
qed

lemma undoable_undo:
  assumes "undoable n a b" "complete_doc (docState a)" "n \<le> UNDO_MAX"
  shows "\<exists>k\<le>n. docState ((undoEdit ^^ k) b) = docState a"
proof (cases "docState b = docState a")
  case True
  then show ?thesis by (intro exI [of _ 0]) simp
next
  case False
  then obtain k where "1 \<le> k" "k \<le> n" "pushed k a b" using assms(1) by (auto simp: undoable_def)
  with pushed_undo [of k a b] assms(2,3) show ?thesis by auto
qed

section \<open>The commands one by one\<close>

lemma undo_frame [simp]:
  "undoStack (edit_inlines i f a) = undoStack a" "undoStack (restoreMultiSelection ts a) = undoStack a"
  "docState (restoreMultiSelection ts a) = docState a" "undoStack (format_selected i g fo a) = undoStack a"
  "undoStack (mark_target p mo t a) = undoStack a"
  by (simp_all add: edit_inlines_def restoreMultiSelection_def format_selected_def mark_target_def split: list.split)

lemma undo_frame_loops [simp]:
  "undoStack (mark_targets p mo ts a) = undoStack a" "undoStack (align_targets al seen ts a) = undoStack a"
  "undoStack (paste_rest i ps a) = undoStack a"
proof -
  show "undoStack (mark_targets p mo ts a) = undoStack a"
    unfolding mark_targets_def by (induction ts arbitrary: a) simp_all
  show "undoStack (align_targets al seen ts a) = undoStack a" by (induction al seen ts a rule: align_targets.induct) simp_all
  show "undoStack (paste_rest i ps a) = undoStack a" by (induction i ps a rule: paste_rest.induct) (simp_all add: Let_def)
qed

lemmas undoable_cases = undoable_same undoable_one

lemma block_commands:
  "undoable 1 a (insertBlockAfter blk dm a)" "undoable 1 a (insertPageBreak i dm a)" "undoable 1 a (insertTocBlock i dm a)"
  "undoable 1 a (insertHorizontalLine i dm a)" "undoable 1 a (insertSectionBreak i dm a)"
  "undoable 1 a (insertBookmarkBlock i ans dm a)" "undoable 1 a (insertTextBox i ans dm a)" "undoable 1 a (menu_image e a)"
  "undoable 1 a (insertTableFromDialog i r c dm a)"
proof -
  have b: "undoStack (insertBlockAfter blk dm a) = undoStack (pushUndo a)" for blk by (simp add: insertBlockAfter_def Let_def)
  show "undoable 1 a (insertBlockAfter blk dm a)" "undoable 1 a (insertTocBlock i dm a)"
    "undoable 1 a (insertHorizontalLine i dm a)" "undoable 1 a (insertSectionBreak i dm a)" "undoable 1 a (insertTableFromDialog i r c dm a)"
    by (rule undoable_one; simp add: b insertTocBlock_def insertHorizontalLine_def insertSectionBreak_def insertTableFromDialog_def)+
  show "undoable 1 a (insertPageBreak i dm a)" by (rule undoable_one) (simp_all add: insertPageBreak_def Let_def split: option.split)
  show "undoable 1 a (insertBookmarkBlock i ans dm a)" "undoable 1 a (insertTextBox i ans dm a)"
    by (auto simp: b insertBookmarkBlock_def insertTextBox_def Let_def intro: undoable_cases split: option.split prod.split)
  show "undoable 1 a (menu_image e a)"
    by (auto simp: menu_image_def insertImageBlock_def insertBlockAfter_def Let_def intro: undoable_cases split: option.split)
qed

lemma format_commands:
  "undoable 1 a (toggleMark m dm a)" "undoable 1 a (setLink ans dm a)" "undoable 1 a (toggleScript up dm a)"
  "undoable 1 a (clearFormatting dm a)" "undoable 1 a (setAlign al dm a)" "undoable 1 a (bumpIndent k dm a)"
  "undoable 1 a (setParaSpacing ans ans2 dm a)" "undoable 1 a (restartListNumbering dm a)" "undoable 1 a (setBlockLanguage ans dm a)"
  by (auto simp: toggleMark_def setLink_def mark_block_range_def toggleScript_def clearFormatting_def setAlign_def bumpIndent_def
      setIndentMm_def setParaSpacing_def restartListNumbering_def setBlockLanguage_def Let_def intro: undoable_cases split: option.split)

lemma control_commands:
  "undoable 1 a (setFontFamily fam dm a)" "undoable 1 a (setFontSize n dm a)" "undoable 1 a (setTextColor c dm a)"
  "undoable 1 a (setHighlightColor c dm a)" "undoable 1 a (setLineSpacing v dm a)" "undoable 1 a (applyFormatPainterTo cur a)"
  "undoable 1 a (commitPageSetup sz orient mg a)" "undoable 1 a (applyColumns k a)" "undoable 1 a (applyNamedStyle nm dm a)"
  by (auto simp: setFontFamily_def setFontSize_def setTextColor_def setHighlightColor_def setLineSpacing_def mark_block_range_def
      applyFormatPainterTo_def commitPageSetup_def applyColumns_def applyNamedStyle_def Let_def intro: undoable_cases split: option.split)

lemma text_commands:
  "undoable 1 a (pastePlainText cur sel ids raw a)" "undoable 1 a (insertSymbol cur ans a)" "undoable 1 a (doFindReplace all_mode f r a)"
  "undoable 1 a (menu_paste e a)" "undoable 1 a (menu_paste_plain e a)"
proof -
  show p: "undoable 1 a (pastePlainText cur sel ids raw a)" for cur sel ids raw
    by (auto simp: pastePlainText_def Let_def intro: undoable_cases split: option.split prod.split)
  show "undoable 1 a (insertSymbol cur ans a)"
    by (auto simp: insertSymbol_def Let_def intro: undoable_cases split: option.split)
  show "undoable 1 a (doFindReplace all_mode f r a)"
    by (auto simp: doFindReplace_def Let_def intro: undoable_cases split: prod.split)
  show "undoable 1 a (menu_paste e a)" "undoable 1 a (menu_paste_plain e a)"
    using p by (auto simp: menu_paste_def menu_paste_plain_def paste_text_def intro: undoable_same split: option.split)
qed

lemma still_commands:
  "undoable n a (goToBookmark ans a)" "undoable n a (armFormatPainter dm a)"
  "complete_doc (docState a) \<Longrightarrow> undoable n a (showHeaderFooter False a)"
proof -
  show "undoable n a (goToBookmark ans a)" "undoable n a (armFormatPainter dm a)"
    by (auto simp: goToBookmark_def armFormatPainter_def Let_def intro: undoable_same split: option.split)
  assume "complete_doc (docState a)"
  then show "undoable n a (showHeaderFooter False a)"
    by (intro undoable_same) (auto simp: showHeaderFooter_def complete_doc_def hf_or_default_def Let_def)
qed

text \<open>Block types, lists and styles: commands that call one another, each with its own checkpoint.\<close>

lemma setBlockType_undoable: "undoable 1 a (setBlockType ty lv dm a)"
  by (auto simp: setBlockType_def Let_def intro: undoable_cases split: option.split)

lemma list_targets_stack:
  "undoStack (list_targets kind mk single dm seen ts a) = undoStack a
   \<or> (\<exists>c. undoStack c = undoStack a \<and> undoStack (list_targets kind mk single dm seen ts a) = undoStack (pushUndo c))"
proof (induction kind mk single dm seen ts a rule: list_targets.induct)
  case (2 kind mk single dm seen t ts a)
  have "undoStack (setBlockType ''paragraph'' 0 dm a) = undoStack a \<or> undoStack (setBlockType ''paragraph'' 0 dm a) = undoStack (pushUndo a)"
    by (simp add: setBlockType_def Let_def split: option.split)
  then show ?case using 2 by (auto split: option.split)
qed simp

lemma setListType_undoable: "undoable 2 a (setListType kind mk dm a)"
proof (cases "collectFormatTargets dm (app_blocks a) = []")
  case False
  let ?ts = "collectFormatTargets dm (app_blocks a)"
  have e: "setListType kind mk dm a = list_targets kind mk (length ?ts = 1) dm [] ?ts (pushUndo a)"
    using False by (simp add: setListType_def Let_def)
  from list_targets_stack [of kind mk "length ?ts = 1" dm "[]" ?ts "pushUndo a"] show ?thesis
    unfolding e by (auto intro: undoable_one undoable_twice)
qed (simp add: setListType_def undoable_same)

lemma bumpListLevel_undoable: "undoable 3 a (bumpListLevel k dm a)"
proof (cases "selectedBlock dm (app_blocks a)")
  case (Some b)
  let ?a1 = "if block_type b \<noteq> ''list_item'' then setListType ''bullet'' None dm a else a"
  have "undoable 2 a ?a1" using setListType_undoable by (simp add: undoable_same)
  then have "undoable (Suc 2) a (bumpListLevel k dm a)"
    by (rule undoable_push) (simp add: bumpListLevel_def Some Let_def)
  then show ?thesis by (simp add: numeral_3_eq_3 numeral_2_eq_2)
qed (simp add: bumpListLevel_def undoable_same)

lemma changeListMarker_undoable: "undoable 3 a (changeListMarker ans dm a)"
proof (cases "selectedBlock dm (app_blocks a)")
  case (Some b)
  show ?thesis
  proof (cases ans)
    case (Some m)
    let ?kind = "if str_includes ''decimal'' (marker_name m) \<or> str_includes ''alpha'' (marker_name m) \<or> str_includes ''roman'' (marker_name m)
      then ''ordered'' else ''bullet''"
    let ?a2 = "if block_type b \<noteq> ''list_item'' then setListType ?kind None dm (pushUndo a) else pushUndo a"
    have "undoable 2 (pushUndo a) ?a2" using setListType_undoable by (simp add: undoable_same)
    then have "undoable (Suc 2) a (changeListMarker ans dm a)" if "m \<noteq> []"
      by (rule undoable_from_push) (use that in \<open>simp_all add: changeListMarker_def \<open>selectedBlock dm (app_blocks a) = Some b\<close> Some Let_def\<close>)
    then show ?thesis
      by (cases "m = []") (simp_all add: numeral_3_eq_3 numeral_2_eq_2 changeListMarker_def \<open>selectedBlock dm (app_blocks a) = Some b\<close> Some undoable_same)
  qed (simp add: changeListMarker_def \<open>selectedBlock dm (app_blocks a) = Some b\<close> undoable_same)
qed (simp add: changeListMarker_def undoable_same)

lemma undoable_if: "undoable n a x \<Longrightarrow> undoable n a y \<Longrightarrow> undoable n a (if c then x else y)"
  by simp

lemma undoable_option: "undoable n a z \<Longrightarrow> (\<And>b. undoable n a (g b)) \<Longrightarrow> undoable n a (case q of None \<Rightarrow> z | Some b \<Rightarrow> g b)"
  by (simp split: option.split)

lemma applyStyle_undoable: "undoable 2 a (applyStyle st dm a)"
proof -
  have n: "undoable 2 a (applyNamedStyle nm dm a)" for nm using undoable_mono [OF control_commands(9)] by simp
  show ?thesis
  proof (cases "selectedBlock dm (app_blocks a)")
    case None
    then have s: "setBlockType ty lv dm a = setAuthStatus ''Select a paragraph first'' True a" for ty lv by (simp add: setBlockType_def)
    have same: "undoable 2 a (setAuthStatus m er a)" "undoable 2 a a" for m er by (simp_all add: undoable_same)
    show ?thesis unfolding applyStyle_def s Let_def prim_docState None option.case by (intro undoable_if undoable_option n same)
  next
    case (Some b)
    have s: "undoStack (setBlockType ty lv dm a) = undoStack (pushUndo a)" for ty lv
      by (simp add: setBlockType_def Some Let_def)
    have one: "undoStack x = undoStack (pushUndo a) \<Longrightarrow> undoable 2 a x" for x by (rule undoable_one) simp_all
    have two: "undoStack x = undoStack (pushUndo (setBlockType ''paragraph'' 0 dm a)) \<Longrightarrow> undoable 2 a x" for x by (rule undoable_twice [OF s])
    have same: "undoable 2 a a" by (simp add: undoable_same)
    show ?thesis unfolding applyStyle_def Let_def set_style_name_def
      by (intro undoable_if undoable_option n same; (rule one, simp add: s; fail)?; rule two, simp)
  qed
qed

lemma undoable_three: "undoable 1 a b \<Longrightarrow> undoable 3 a b" "undoable 2 a b \<Longrightarrow> undoable 3 a b"
  by (auto intro: undoable_mono)

lemmas commands_three =
  block_commands [THEN undoable_three(1)] format_commands [THEN undoable_three(1)] control_commands [THEN undoable_three(1)]
  text_commands [THEN undoable_three(1)] still_commands(1,2) [where n = 3] setListType_undoable [THEN undoable_three(2)]
  applyStyle_undoable [THEN undoable_three(2)] bumpListLevel_undoable changeListMarker_undoable

text \<open>The commands without a checkpoint, or with a checkpoint that comes too late.\<close>

definition not_undoable :: "string list" where
  "not_undoable = [''edit.undo'', ''edit.redo'', ''view.suggest'', ''insert.comment'', ''insert.pageNumbers'', ''insert.footnote'']"

lemma commands_undoable:
  assumes "complete_doc (docState a)"
  shows "list_all (\<lambda>(cmd, h). cmd \<in> set not_undoable \<or> undoable 3 a (h a)) (docs_commands e)"
  by (simp only: docs_commands_def Let_def not_undoable_def list.set insert_iff list.pred_inject prod.case simp_thms
      commands_three still_commands(3) [OF assms])

lemma commands_without_checkpoint:
  "list_all (\<lambda>(cmd, h). cmd \<in> {''view.suggest'', ''insert.comment'', ''insert.pageNumbers''} \<longrightarrow> undoStack (h a) = undoStack a) (docs_commands e)"
proof -
  have "undoStack (toggleSuggesting a) = undoStack a" "undoStack (addComment i ans dm a) = undoStack a"
    "undoStack (showHeaderFooter b a) = undoStack a" for i ans dm b
    by (simp_all add: toggleSuggesting_def addComment_def showHeaderFooter_def Let_def split: option.split)
  then show ?thesis by (simp add: docs_commands_def Let_def)
qed

text \<open>The controls that change the document and push no checkpoint: the fields of header and footer,
  the checkbox of tracked changes, accepting revisions, rejecting one whose block is gone, saving and
  deleting a style, and the list of comments.\<close>

fun no_checkpoint :: "docs_control \<Rightarrow> app \<Rightarrow> bool" where
  "no_checkpoint (C_header_footer h f n) a = True"
| "no_checkpoint (C_track on) a = True"
| "no_checkpoint (C_accept r) a = True"
| "no_checkpoint (C_reject r) a \<longleftrightarrow> find_block (r_block_id r) (app_blocks a) = None"
| "no_checkpoint C_accept_all a = True"
| "no_checkpoint (C_style_save nm ff sz bo it) a = True"
| "no_checkpoint (C_style_delete nm) a = True"
| "no_checkpoint (C_comment on_button r) a = True"
| "no_checkpoint c a = False"

lemma review_stacks [simp]:
  "undoStack (toggleTrackChanges on a) = undoStack a" "undoStack (acceptRevision r a) = undoStack a"
  "undoStack (acceptAll a) = undoStack a" "undoStack (addOrUpdateStyle nm ff sz bo it a) = undoStack a"
  "undoStack (deleteStyle nm a) = undoStack a" "undoStack (comment_click on_button row a) = undoStack a"
  "undoStack (syncHeaderFooterFromInputs h f n a) = undoStack a"
  "undoStack (rejectRevision r a) = (if find_block (r_block_id r) (app_blocks a) = None then undoStack a else undoStack (pushUndo a))"
  "undoStack (rejectAll a) = undoStack (pushUndo a)"
  by (simp_all add: toggleTrackChanges_def acceptRevision_def broadcastRevision_def drop_revision_def acceptAll_def
      addOrUpdateStyle_def deleteStyle_def set_styles_def comment_click_def highlight_element_def resolveComment_def
      syncHeaderFooterFromInputs_def rejectRevision_def rejectAll_def Let_def split: option.split)

lemma reject_undoable: "find_block (r_block_id r) (app_blocks a) \<noteq> None \<Longrightarrow> undoable 3 a (rejectRevision r a)"
  by (rule undoable_one) auto

lemma table_changed_stack [simp]: "undoStack (table_changed bid b b' a) = undoStack a"
proof -
  have "undoStack (send_all ops x) = undoStack x" for ops x unfolding send_all_def by (induction ops arbitrary: x) simp_all
  then show ?thesis by (simp add: table_changed_def)
qed

lemma table_undoable:
  "undoable 1 a (table_blur bid r c v a)" "undoable 1 a (table_add_row bid a)" "undoable 1 a (table_add_col bid a)"
  "undoable 1 a (table_del_row bid a)" "undoable 1 a (table_del_col bid a)"
proof -
  show "undoable 1 a (table_blur bid r c v a)"
    by (auto simp: table_blur_def Let_def intro: undoable_cases split: option.split)
  have "undoable 1 a (table_button bid f msg a)" for f msg
    by (auto simp: table_button_def intro: undoable_cases split: option.split)
  then show "undoable 1 a (table_add_row bid a)" "undoable 1 a (table_add_col bid a)"
    "undoable 1 a (table_del_row bid a)" "undoable 1 a (table_del_col bid a)"
    by (simp_all add: table_add_row_def table_add_col_def table_del_row_def table_del_col_def)
qed

lemma page_undoable:
  "undoable 1 a (setIndentMm mm dm a)" "undoable 1 a (refreshTocBlock bid a)" "undoable 1 a (onBlockInput bid tx rid a)"
  "undoable 1 a (onBlockKeydown k bid sel newId a)"
proof -
  show "undoable 1 a (setIndentMm mm dm a)" "undoable 1 a (refreshTocBlock bid a)" "undoable 1 a (onBlockInput bid tx rid a)"
    by (auto simp: setIndentMm_def refreshTocBlock_def onBlockInput_def Let_def intro: undoable_cases split: option.split)
  have "undoable 1 a (exit_list bid a)" "undoable 1 a (enter_split bid off newId a)" "undoable 1 a (soft_break bid off2 a)"
    "undoable 1 a (merge_back bid idx a)" for off off2 idx
    by (auto simp: exit_list_def enter_split_def soft_break_def merge_back_def Let_def intro!: undoable_one split: prod.split)
  then show "undoable 1 a (onBlockKeydown k bid sel newId a)"
    by (cases k) (simp_all add: onBlockKeydown_def Let_def undoable_same split: option.split nat.split)
qed

lemma control_undoable: "\<not> no_checkpoint c a \<Longrightarrow> undoable 3 a (docs_control_step e c a)"
  by (cases c) (simp_all add: commands_three table_undoable [THEN undoable_three(1)] page_undoable [THEN undoable_three(1)]
      undoable_same undoable_one reject_undoable)

lemma control_no_checkpoint: "no_checkpoint c a \<Longrightarrow> undoStack (docs_control_step e c a) = undoStack a"
  by (cases c) simp_all

section \<open>Property\<close>

text \<open>
  C13. Undo after a command: on a document as the page keeps it, every command of the menu and every
  control, panel button, input, key and table edit of the page can be undone by pressing undo at most
  three times (some commands call others and push a checkpoint each), with these exceptions. In the
  menu: undo and redo themselves, the suggesting mode, comments, page numbers and footnotes (whose
  checkpoint comes after a first change). Among the controls: the header and footer fields, the
  checkbox of tracked changes, accepting one or all revisions, rejecting a revision whose block is
  gone, saving and deleting a style and the list of comments. Of these, all but undo, redo and footnotes
  push no checkpoint at all.
\<close>

theorem docs_menu_undo:
  assumes "complete_doc (docState a)" "cmd \<notin> set not_undoable" "\<not> no_checkpoint c a"
    "cmd' \<in> {''view.suggest'', ''insert.comment'', ''insert.pageNumbers''}" "no_checkpoint c' a"
  shows "(\<exists>k\<le>3. docState ((undoEdit ^^ k) (docs_command e cmd a)) = docState a)
    \<and> (\<exists>k\<le>3. docState ((undoEdit ^^ k) (docs_control_step e c a)) = docState a)
    \<and> undoStack (docs_command e cmd' a) = undoStack a \<and> undoStack (docs_control_step e c' a) = undoStack a"
proof (intro conjI)
  have u: "undoable 3 a x \<Longrightarrow> \<exists>k\<le>3. docState ((undoEdit ^^ k) x) = docState a" for x
    by (rule undoable_undo [OF _ assms(1)]) (simp_all add: UNDO_MAX_def)
  have "undoable 3 a (docs_command e cmd a)"
  proof (cases "map_of (docs_commands e) cmd")
    case (Some h)
    then show ?thesis using commands_undoable [OF assms(1), of e] map_of_SomeD [OF Some] assms(2)
      by (auto simp: docs_command_def list_all_iff)
  qed (simp add: docs_command_def undoable_same)
  then show "\<exists>k\<le>3. docState ((undoEdit ^^ k) (docs_command e cmd a)) = docState a" by (rule u)
  show "\<exists>k\<le>3. docState ((undoEdit ^^ k) (docs_control_step e c a)) = docState a" by (rule u [OF control_undoable [OF assms(3)]])
  show "undoStack (docs_command e cmd' a) = undoStack a"
    using commands_without_checkpoint [of a e] assms(4) map_of_SomeD [of "docs_commands e" cmd']
    by (auto simp: docs_command_def list_all_iff split: option.split)
  show "undoStack (docs_control_step e c' a) = undoStack a" by (rule control_no_checkpoint [OF assms(5)])
qed

definition bullet_input :: menu_input where
  "bullet_input = \<lparr> mi_dom = range_sel ''b'' 0 0, mi_id = ''n1'', mi_ids = [], mi_answer = Some ''decimal'', mi_second = None,
     mi_clip = None, mi_image = None \<rparr>"

text \<open>Changing the marker of a paragraph that is not in a list takes two steps back.\<close>

theorem docs_menu_undo_witness:
  "(let a = sample_app two_blocks; b = docs_command bullet_input ''format.listMarker'' a
    in length (undoStack b) = 2 \<and> docState ((undoEdit ^^ 2) b) = docState a
       \<and> (\<exists>k\<le>3. docState ((undoEdit ^^ k) b) = docState a) \<and> undoStack (docs_command bullet_input ''view.suggest'' a) = undoStack a
       \<and> undoStack (docs_control_step bullet_input C_accept_all a) = undoStack a)"
proof -
  let ?a = "sample_app two_blocks" and ?e = bullet_input
  have "complete_doc (docState ?a)" "''format.listMarker'' \<notin> set not_undoable" "\<not> no_checkpoint (C_style ''h1'') ?a"
    "''view.suggest'' \<in> {''view.suggest'', ''insert.comment'', ''insert.pageNumbers''}" "no_checkpoint C_accept_all ?a" by code_simp+
  from docs_menu_undo [OF this, of ?e]
  have "\<exists>k\<le>3. docState ((undoEdit ^^ k) (docs_command ?e ''format.listMarker'' ?a)) = docState ?a"
    "undoStack (docs_command ?e ''view.suggest'' ?a) = undoStack ?a" "undoStack (docs_control_step ?e C_accept_all ?a) = undoStack ?a" by simp_all
  moreover have "length (undoStack (docs_command ?e ''format.listMarker'' ?a)) = 2"
    "docState ((undoEdit ^^ 2) (docs_command ?e ''format.listMarker'' ?a)) = docState ?a" by code_simp+
  ultimately show ?thesis unfolding Let_def by blast
qed

end
