(* ===== verification/Desktop_Solo.thy ===== *)
theory Desktop_Solo
  imports Docs_Files
begin

text \<open>
  The desktop program (\<open>apps/era-office-desktop\<close>): the start script of the single-user pages
  (\<open>src-tauri/assets/solo-docs-boot.js\<close>), which stores a token of its own, takes the redirects of
  the shell away and sends the file commands to the local bridge; and the launcher (\<open>ui/app.js\<close>).
  A request to the bridge is answered by a status, or fails (\<open>None\<close>).
\<close>

section \<open>The token of the single user\<close>

definition text_bytes :: "string \<Rightarrow> nat list" where
  "text_bytes s = map of_char s"

definition json_string :: "string \<Rightarrow> string" where
  "json_string s = QT @ s @ QT"

definition json_fields :: "(string \<times> string) list \<Rightarrow> string" where
  "json_fields fs = ''{'' @ str_join '','' (map (\<lambda>(k, v). json_string k @ '':'' @ v) fs) @ ''}''"

definition solo_exp :: "int \<Rightarrow> int" where
  "solo_exp now = now div 1000 + 86400 * 3650"

definition solo_payload :: "int \<Rightarrow> string" where
  "solo_payload now =
     json_fields [(''sub'', json_string ''solo-user''), (''tenant_id'', json_string ''solo''), (''name'', json_string ''Solo''),
       (''exp'', int_str (solo_exp now))]"

definition solo_header :: string where
  "solo_header = json_fields [(''alg'', json_string ''none''), (''typ'', json_string ''JWT'')]"

definition solo_token :: "int \<Rightarrow> string" where
  "solo_token now = b64url (text_bytes solo_header) @ ''.'' @ b64url (text_bytes (solo_payload now)) @ ''.''"

definition solo_boot_session :: "int \<Rightarrow> session \<Rightarrow> session" where
  "solo_boot_session now s = s\<lparr>era_token := solo_token now\<rparr>"

text \<open>The functions of the shell after \<open>patchShell\<close>. The fetch wrapper of the shell keeps calling
  the function it was built with.\<close>

definition solo_requireAuthOrRedirect :: "session \<Rightarrow> session \<times> bool" where
  "solo_requireAuthOrRedirect s = (s, True)"

definition solo_redirectToLogin :: "session \<Rightarrow> session" where
  "solo_redirectToLogin s = s"

definition solo_handleUnauthorized :: "int \<Rightarrow> session \<Rightarrow> session \<times> bool" where
  "solo_handleUnauthorized status s = (s, False)"

text \<open>The wait for the shell: a try every 20 ms until it is there, 101 tries at most; the number of
  tries and whether the shell was patched.\<close>

function wait_shell :: "(nat \<Rightarrow> bool) \<Rightarrow> nat \<Rightarrow> nat \<times> bool" where
  "wait_shell ready n =
     (if ready n then (n, True) else if n \<ge> 100 then (n, False) else wait_shell ready (Suc n))"
  by pat_completeness auto
termination
  by (relation "measure (\<lambda>(r, n). 101 - n)") auto

section \<open>The file commands\<close>

definition productPrefix :: "string \<Rightarrow> string" where
  "productPrefix path =
     (if starts_with ''/tables'' path then ''tables'' else if starts_with ''/presentations'' path then ''presentations''
      else if starts_with ''/projects'' path then ''projects'' else if starts_with ''/docs'' path then ''docs'' else ''hub'')"

definition productFileQs :: "string \<Rightarrow> string" where
  "productFileQs path = (let pref = productPrefix path in if pref = ''hub'' then ''docs'' else pref)"

datatype bridge_request =
    Bridge string
  | Snapshot string doc
  | Product_save

record solo =
  so_requests :: "bridge_request list"
  so_href :: "string option"
  so_reloaded :: bool

definition bridge_send :: "bridge_request \<Rightarrow> solo \<Rightarrow> solo" where
  "bridge_send r s = s\<lparr>so_requests := so_requests s @ [r]\<rparr>"

text \<open>\<open>call\<close>: a status that is no success and a failed request only leave a warning.\<close>

definition bridge_call :: "string \<Rightarrow> string \<Rightarrow> bool \<Rightarrow> (int \<times> string option) option \<Rightarrow> solo \<Rightarrow> solo" where
  "bridge_call path url thenReload reply s =
     (let s1 = bridge_send (Bridge url) s in
      case reply of
        None \<Rightarrow> s1
      | Some (status, objId) \<Rightarrow>
          if \<not> status_ok status \<or> \<not> thenReload then s1
          else (let pref = productPrefix path; i = or_default objId ''solo''
                in if pref = ''hub'' then s1\<lparr>so_reloaded := True\<rparr>
                   else s1\<lparr>so_href := Some (''/'' @ pref @ ''/'' @ i)\<rparr>))"

definition bridge_url :: "string \<Rightarrow> string \<Rightarrow> string" where
  "bridge_url path cmd = ''/api/v1/solo/file/'' @ cmd @ ''?product='' @ encodeURIComponent (productFileQs path)"

definition solo_open :: "string \<Rightarrow> (int \<times> string option) option \<Rightarrow> solo \<Rightarrow> solo" where
  "solo_open path reply s = bridge_call path (bridge_url path ''open'') True reply s"

text \<open>
  The replaced \<open>snapshotDoc\<close> of the documents page sends the document; its promise is rejected only
  when the request fails, a status that is no success just makes its value false.
\<close>

definition snapshot_rejects :: "int option \<Rightarrow> bool" where
  "snapshot_rejects reply = (reply = None)"

definition solo_snapshot :: "(string \<times> doc) option \<Rightarrow> int option \<Rightarrow> solo \<Rightarrow> solo \<times> bool" where
  "solo_snapshot opened reply s =
     (case opened of None \<Rightarrow> (s, True)
      | Some (i, d) \<Rightarrow> (bridge_send (Snapshot i d) s, \<not> snapshot_rejects reply))"

text \<open>
  Save and Save As of a page: on the documents page the snapshot comes first; elsewhere the save
  command the product had before, if it had one (\<open>prev\<close>) and it is called at all; the file is
  written whether or not that command succeeded.
\<close>

definition solo_save ::
  "string \<Rightarrow> string \<Rightarrow> bool \<Rightarrow> bool \<Rightarrow> (string \<times> doc) option \<Rightarrow> int option \<Rightarrow> (int \<times> string option) option \<Rightarrow> solo \<Rightarrow> solo" where
  "solo_save path cmd hasSnapshot prev d snapReply reply s =
     (let file = bridge_call path (bridge_url path cmd) False reply;
          usesPrev = (prev \<and> (cmd = ''save'' \<or> productPrefix path = ''presentations''))
      in if productPrefix path = ''docs'' \<and> hasSnapshot
         then (case solo_snapshot d snapReply s of (s1, ok) \<Rightarrow> if ok then file s1 else s1)
         else if usesPrev then file (bridge_send Product_save s)
         else file s)"

text \<open>Links of the navigation: whether the click is cancelled, and where it goes instead.\<close>

definition wireNav :: "string \<Rightarrow> bool \<times> string option" where
  "wireNav url =
     (if url = ''/mail/'' \<or> starts_with ''/office-ai'' url then (True, None)
      else if url = ''/drive/'' then (True, Some ''/'') else (False, None))"

section \<open>The launcher\<close>

record launcher =
  la_bootShown :: bool
  la_corpForm :: bool
  la_serverUrl :: string
  la_status :: "string \<times> bool"
  la_invoked :: "string list"

record desktop_config =
  dc_profile :: string
  dc_server_url :: "string option"
  dc_sku :: "string option"
  dc_first_run :: bool

definition invoke :: "string \<Rightarrow> launcher \<Rightarrow> launcher" where
  "invoke cmd l = l\<lparr>la_invoked := la_invoked l @ [cmd]\<rparr>"

definition setBootStatus :: "string \<Rightarrow> bool \<Rightarrow> launcher \<Rightarrow> launcher" where
  "setBootStatus msg isErr l = l\<lparr>la_status := (msg, isErr)\<rparr>"

definition showBoot :: "bool \<Rightarrow> launcher \<Rightarrow> launcher" where
  "showBoot corp l = l\<lparr>la_bootShown := True, la_corpForm := corp\<rparr>"

text \<open>A command of the program gives a text or fails with a message.\<close>

definition openSoloEntry :: "string + string \<Rightarrow> launcher \<Rightarrow> launcher" where
  "openSoloEntry r l =
     (let l1 = invoke ''solo_entry_go'' (setBootStatus ''Opening Solo...'' False l)
      in case r of Inr h \<Rightarrow> setBootStatus (''Solo: '' @ h) False l1 | Inl e \<Rightarrow> setBootStatus e True l1)"

definition pickSolo :: "string + unit \<Rightarrow> string + string \<Rightarrow> launcher \<Rightarrow> launcher" where
  "pickSolo cfg r l =
     (let l1 = invoke ''config_set solo'' l
      in case cfg of Inl e \<Rightarrow> setBootStatus e True l1 | Inr _ \<Rightarrow> openSoloEntry r l1)"

definition pickCorp :: "launcher \<Rightarrow> launcher" where
  "pickCorp l = setBootStatus [] False (showBoot True l)"

definition corpBack :: "launcher \<Rightarrow> launcher" where
  "corpBack l = setBootStatus [] False (l\<lparr>la_corpForm := False\<rparr>)"

definition corpConnect :: "string + unit \<Rightarrow> string + string \<Rightarrow> launcher \<Rightarrow> launcher" where
  "corpConnect cfg r l =
     (let url = js_trim (la_serverUrl l)
      in if url = [] then setBootStatus ''Enter Workspace URL'' True l
         else (let l1 = invoke (''config_set corporate '' @ url) (setBootStatus ''Saving...'' False l)
               in case cfg of
                    Inl e \<Rightarrow> setBootStatus e True l1
                  | Inr _ \<Rightarrow>
                      (case r of
                         Inl e \<Rightarrow> setBootStatus e True (invoke ''corp_go'' l1)
                       | Inr h \<Rightarrow> setBootStatus (''Opening '' @ h @ ''...'') False (invoke ''corp_go'' l1))))"

definition launcher_boot :: "string + desktop_config \<Rightarrow> string + string \<Rightarrow> launcher \<Rightarrow> launcher" where
  "launcher_boot reply r l0 =
     (let l = invoke ''config_get'' l0 in
      case reply of
        Inl e \<Rightarrow> setBootStatus e True (showBoot False l)
      | Inr c \<Rightarrow>
          if dc_profile c = ''corporate'' \<and> truthy_str (dc_server_url c)
          then (let l1 = invoke ''corp_go'' (setBootStatus ''Connecting to Workspace...'' False
                           ((showBoot True l)\<lparr>la_serverUrl := or_empty (dc_server_url c)\<rparr>))
                in case r of Inl e \<Rightarrow> setBootStatus e True l1 | Inr _ \<Rightarrow> l1)
          else if dc_profile c = ''corporate'' then (showBoot True l)\<lparr>la_serverUrl := or_empty (dc_server_url c)\<rparr>
          else if truthy_str (dc_sku c) \<and> dc_sku c \<noteq> Some ''suite'' then openSoloEntry r l
          else if dc_first_run c then showBoot False l
          else openSoloEntry r l)"

section \<open>Laws\<close>

lemma text_bytes_less: "\<forall>b\<in>set (text_bytes s). b < 256"
  by (simp add: text_bytes_def)

lemma text_bytes_back: "map char_of (text_bytes s) = s"
  by (simp add: text_bytes_def comp_def)

lemma b64url_no_dot: "CHR ''.'' \<notin> set (b64url (text_bytes s))"
  using b64url_safe [OF text_bytes_less [of s]] by (auto simp: url_safe_def is_digit_def is_upper_def is_lower_def)

lemma solo_token_part: "token_part (solo_token now) = Some (map plain_char (b64url (text_bytes (solo_payload now))))"
proof -
  have "split_char CHR ''.'' (solo_token now) = [b64url (text_bytes solo_header), b64url (text_bytes (solo_payload now)), []]"
    using b64url_no_dot by (simp add: solo_token_def split_char_append_sep)
  then show ?thesis by (simp add: token_part_def plain_char_def cong: map_cong)
qed

definition decode_claims :: "(string \<Rightarrow> claims option) \<Rightarrow> string \<Rightarrow> claims option" where
  "decode_claims json part = Option.bind (atob part) (\<lambda>bs. json (map char_of bs))"

lemma solo_claims: "parseJwtPayload (decode_claims json) (solo_token now) = json (solo_payload now)"
proof -
  have "length (b64url (text_bytes (solo_payload now))) = (4 * length (solo_payload now) + 2) div 3"
    using b64url_safe [OF text_bytes_less] by (simp add: text_bytes_def)
  moreover have "length (solo_payload now) \<ge> 1" by (simp add: solo_payload_def json_fields_def)
  ultimately have "b64url (text_bytes (solo_payload now)) \<noteq> []" by auto
  then show ?thesis using atob_b64url [OF text_bytes_less, of "solo_payload now"]
    by (simp add: parseJwtPayload_def solo_token_part decode_claims_def text_bytes_back) (simp add: solo_token_def)
qed

section \<open>Properties\<close>

text \<open>
  C15. The token of the single-user pages, on a browser whose JSON reader reads the text
  \<open>{"sub":"solo-user","tenant_id":"solo","name":"Solo","exp":E}\<close> as the claims written there, where
  \<open>E\<close> is ten years of 365 days after the second of the start: the shell decodes the token to these
  claims, and takes it as signed in up to 30 seconds after \<open>E\<close> and no longer. Only the exported
  functions of the shell are replaced, so a reply 401 still drops the token and opens the sign-in
  page.
\<close>

theorem solo_signed_in:
  assumes "E = now div 1000 + 10 * 365 * 24 * 60 * 60"
    "c = \<lparr> cl_sub = Some ''solo-user'', cl_email = None, cl_tenant_id = Some ''solo'', cl_exp = Exp_num (of_int E) \<rparr>"
    "json (''{'' @ QT @ ''sub'' @ QT @ '':'' @ QT @ ''solo-user'' @ QT @ '','' @ QT @ ''tenant_id'' @ QT @ '':'' @ QT @ ''solo'' @ QT
        @ '','' @ QT @ ''name'' @ QT @ '':'' @ QT @ ''Solo'' @ QT @ '','' @ QT @ ''exp'' @ QT @ '':'' @ int_str E @ ''}'') = Some c"
    "op_session p = solo_boot_session now s"
  shows "parseJwtPayload (decode_claims json) (era_token (op_session p)) = Some c
    \<and> (\<forall>t. requireAuthOrRedirect (decode_claims json) t (op_session p) =
          (if t < (E + 30) * 1000 then (op_session p, True) else (redirectToLogin [] (op_session p), False)))
    \<and> era_token (op_session (officeFetch (decode_claims json) rq 401 p)) = []
    \<and> href (op_session (officeFetch (decode_claims json) rq 401 p)) = Some (loginUrl (op_session p) [])"
proof -
  have tok: "era_token (op_session p) = solo_token now" using assms(4) by (simp add: solo_boot_session_def)
  have ne: "solo_token now \<noteq> []" by (simp add: solo_token_def)
  have E: "solo_exp now = E" by (simp add: solo_exp_def assms(1))
  have js: "json (solo_payload now) = Some c"
    using assms(3) by (simp add: solo_payload_def json_fields_def json_string_def E)
  have "isTokenExpired (decode_claims json) t (op_session p) (era_token (op_session p)) \<longleftrightarrow> \<not> t < (E + 30) * 1000" for t
  proof -
    have "of_int E * 1000 \<le> (of_int t :: rat) - 30 * 1000 \<longleftrightarrow> (of_int (E * 1000) :: rat) \<le> of_int (t - 30 * 1000)" by simp
    also have "\<dots> \<longleftrightarrow> \<not> t < (E + 30) * 1000" unfolding of_int_le_iff by auto
    finally show ?thesis using js ne by (simp add: isTokenExpired_def tok or_default_def solo_claims assms(2))
  qed
  then show ?thesis using tok ne js by (simp add: requireAuthOrRedirect_def solo_claims officeFetch_unauthorized)
qed

text \<open>
  Saving on the single-user documents page: the open document is sent first and then the file
  is written, unless the request with the document fails; a refusal of the document by the bridge
  does not stop the file from being written.
\<close>

theorem solo_docs_save:
  assumes "productPrefix path = ''docs''"
  shows "so_requests (solo_save path cmd True prev (Some (i, d)) snapReply reply s)
    = so_requests s @ Snapshot i d # (if snapReply = None then [] else [Bridge (bridge_url path cmd)])"
  using assms by (auto simp: solo_save_def solo_snapshot_def snapshot_rejects_def bridge_call_def bridge_send_def Let_def split: option.splits prod.splits)

theorem solo_docs_save_witness:
  "so_requests (solo_save ''/docs/d1'' ''save'' True True (Some (''d1'', sample_doc two_blocks)) (Some 500) None
     \<lparr> so_requests = [], so_href = None, so_reloaded = False \<rparr>)
   = [Snapshot ''d1'' (sample_doc two_blocks), Bridge ''/api/v1/solo/file/save?product=docs'']"
proof -
  have "productPrefix ''/docs/d1'' = ''docs''" "bridge_url ''/docs/d1'' ''save'' = ''/api/v1/solo/file/save?product=docs''" by code_simp+
  then show ?thesis using solo_docs_save [of "''/docs/d1''"] by simp
qed

definition solo_json :: "string \<Rightarrow> claims option" where
  "solo_json t = (if starts_with (''{'' @ QT @ ''sub'' @ QT @ '':'' @ QT @ ''solo-user'') t
     then Some \<lparr> cl_sub = Some ''solo-user'', cl_email = None, cl_tenant_id = Some ''solo'', cl_exp = Exp_num 315360000 \<rparr> else None)"

theorem solo_signed_in_witness:
  "(let p = \<lparr> op_session = solo_boot_session 0 \<lparr> era_token = [], pageAddress = ''/docs/'', href = None \<rparr>, op_store = [], op_search = [],
             op_origin = ''http://localhost'', op_sent = [], op_client = () \<rparr>
    in requireAuthOrRedirect (decode_claims solo_json) 315360000000 (op_session p) = (op_session p, True))"
proof -
  let ?p = "\<lparr> op_session = solo_boot_session 0 \<lparr> era_token = [], pageAddress = ''/docs/'', href = None \<rparr>, op_store = [], op_search = [],
             op_origin = ''http://localhost'', op_sent = [], op_client = () \<rparr>"
  from solo_signed_in [of 315360000 0 _ solo_json ?p, OF _ refl] show ?thesis
    by (simp add: solo_json_def starts_with_def Let_def)
qed

end
