(* ===== verification/Tables_Addr.thy ===== *)
theory Tables_Addr
  imports Era_Strings
begin

text \<open>
  Cell addresses and ranges of the spreadsheet client (\<open>ui/tables/web/app.js\<close>): column
  letters, \<open>A1\<close> addresses, \<open>A1:B2\<close> ranges. Addresses round-trip through their printed form
  and the key of a range names it.
\<close>

section \<open>Columns\<close>

definition letter :: "nat \<Rightarrow> char" where
  "letter d = char_of (65 + d)"

function col_loop :: "nat \<Rightarrow> string \<Rightarrow> string" where
  "col_loop n s =
     (let s' = letter (n mod 26) # s
      in if n div 26 = 0 then s' else col_loop (n div 26 - 1) s')"
  by pat_completeness auto
termination
  by (relation "measure fst") (auto simp: div_less_dividend less_imp_diff_less)

declare col_loop.simps [simp del]

definition colLetter :: "nat \<Rightarrow> string" where
  "colLetter c = col_loop c []"

fun col_index_loop :: "int \<Rightarrow> string \<Rightarrow> int" where
  "col_index_loop n [] = n - 1"
| "col_index_loop n (c # s) =
     (if is_upper c then col_index_loop (n * 26 + (int (of_char c) - 64)) s else -1)"

definition colIndex :: "string \<Rightarrow> int" where
  "colIndex letters = col_index_loop 0 (to_upper letters)"

section \<open>Addresses\<close>

record addr =
  a_col :: nat
  a_row :: nat

definition is_alpha :: "char \<Rightarrow> bool" where
  "is_alpha c \<longleftrightarrow> is_upper c \<or> is_lower c"

definition parseAddr :: "string \<Rightarrow> addr option" where
  "parseAddr s =
     (let letters = takeWhile is_alpha s; digits = dropWhile is_alpha s
      in if letters = [] \<or> digits = [] \<or> \<not> list_all is_digit digits then None
         else if colIndex letters < 0 then None
         else Some \<lparr> a_col = nat (colIndex letters), a_row = digits_val digits \<rparr>)"

definition makeAddr :: "nat \<Rightarrow> nat \<Rightarrow> string" where
  "makeAddr col row = colLetter col @ nat_str row"

section \<open>Ranges\<close>

record cell_range =
  c1 :: nat
  r1 :: nat
  c2 :: nat
  r2 :: nat
  key :: string

definition make_range :: "addr \<Rightarrow> addr \<Rightarrow> cell_range" where
  "make_range a b =
     \<lparr> c1 = min (a_col a) (a_col b), r1 = min (a_row a) (a_row b),
       c2 = max (a_col a) (a_col b), r2 = max (a_row a) (a_row b),
       key = makeAddr (min (a_col a) (a_col b)) (min (a_row a) (a_row b)) @ '':''
             @ makeAddr (max (a_col a) (a_col b)) (max (a_row a) (a_row b)) \<rparr>"

text \<open>\<open>parts[1] || parts[0]\<close>.\<close>

definition second_part :: "string list \<Rightarrow> string" where
  "second_part parts = (if length parts > 1 \<and> parts ! 1 \<noteq> [] then parts ! 1 else hd parts)"

definition parseRangeStr :: "string \<Rightarrow> cell_range option" where
  "parseRangeStr s =
     (let parts = split_char CHR '':'' (js_trim (to_upper s))
      in (case (parseAddr (hd parts), parseAddr (second_part parts)) of
            (Some a, Some b) \<Rightarrow> Some (make_range a b)
          | _ \<Rightarrow> None))"

definition in_range :: "nat \<Rightarrow> nat \<Rightarrow> cell_range \<Rightarrow> bool" where
  "in_range c r m \<longleftrightarrow> c1 m \<le> c \<and> c \<le> c2 m \<and> r1 m \<le> r \<and> r \<le> r2 m"

definition rangesOverlap :: "cell_range \<Rightarrow> cell_range \<Rightarrow> bool" where
  "rangesOverlap a b \<longleftrightarrow> \<not> (c2 a < c1 b \<or> c1 a > c2 b \<or> r2 a < r1 b \<or> r1 a > r2 b)"

definition single_cell :: "cell_range \<Rightarrow> bool" where
  "single_cell m \<longleftrightarrow> c1 m = c2 m \<and> r1 m = r2 m"

section \<open>Laws\<close>

lemma letter_props [simp]:
  assumes "d < 26"
  shows "is_upper (letter d)" "(of_char (letter d) :: nat) = 65 + d" "upper_char (letter d) = letter d"
proof -
  show "(of_char (letter d) :: nat) = 65 + d" using assms by (simp add: letter_def of_char_char_of_less)
  then show u: "is_upper (letter d)" using assms by (simp add: is_upper_def)
  show "upper_char (letter d) = letter d" by (rule upper_char_upper [OF u])
qed

lemma col_loop_app: "col_loop n s = colLetter n @ s"
proof (induction n arbitrary: s rule: less_induct)
  case (less n)
  show ?case
  proof (cases "n div 26 = 0")
    case True
    then show ?thesis by (simp add: colLetter_def col_loop.simps [of n])
  next
    case False
    then have lt: "n div 26 - 1 < n" by (simp add: less_imp_diff_less div_less_dividend)
    have step: "col_loop n t = colLetter (n div 26 - 1) @ letter (n mod 26) # t" for t
      using False less [OF lt] by (simp add: col_loop.simps [of n] Let_def)
    show ?thesis using step [of s] step [of "[]"] unfolding colLetter_def [of n] by simp
  qed
qed

lemma colLetter_rec:
  "colLetter n = (if n < 26 then [letter n] else colLetter (n div 26 - 1) @ [letter (n mod 26)])"
proof -
  have "colLetter n = (if n div 26 = 0 then [letter (n mod 26)]
      else col_loop (n div 26 - 1) [letter (n mod 26)])"
    unfolding colLetter_def by (subst col_loop.simps) (simp add: Let_def)
  then show ?thesis unfolding col_loop_app by (auto simp: div_eq_0_iff)
qed

lemma colLetter_ne [simp]: "colLetter n \<noteq> []"
  by (subst colLetter_rec) simp

lemma colLetter_upper: "c \<in> set (colLetter n) \<Longrightarrow> is_upper c"
proof (induction n rule: less_induct)
  case (less n)
  show ?case
  proof (cases "n < 26")
    case True
    with less.prems show ?thesis by (simp add: colLetter_rec [of n])
  next
    case False
    then have q: "n div 26 - 1 < n" by (simp add: less_imp_diff_less div_less_dividend)
    from False less.prems have "c \<in> set (colLetter (n div 26 - 1)) \<or> c = letter (n mod 26)"
      by (auto simp: colLetter_rec [of n])
    then show ?thesis using less.IH [OF q] by auto
  qed
qed

lemma to_upper_colLetter [simp]: "to_upper (colLetter n) = colLetter n"
  unfolding to_upper_def by (rule map_idI) (simp add: upper_char_upper colLetter_upper)

lemma col_index_loop_snoc:
  "\<forall>c\<in>set s. is_upper c \<Longrightarrow> is_upper d \<Longrightarrow>
     col_index_loop n (s @ [d]) = (col_index_loop n s + 1) * 26 + (int (of_char d) - 65)"
  by (induction s arbitrary: n) simp_all

lemma col_index_colLetter: "col_index_loop 0 (colLetter n) = int n"
proof (induction n rule: less_induct)
  case (less n)
  show ?case
  proof (cases "n < 26")
    case True
    then show ?thesis by (simp add: colLetter_rec [of n])
  next
    case False
    let ?q = "n div 26 - 1"
    have q: "?q < n" using False by (simp add: less_imp_diff_less div_less_dividend)
    have "1 \<le> n div 26" using False by (simp add: div_greater_zero_iff Suc_le_eq)
    then have "int ?q + 1 = int (n div 26)" by simp
    then have n: "int n = (int ?q + 1) * 26 + int (n mod 26)" by (simp add: zdiv_int zmod_int)
    have "col_index_loop 0 (colLetter n) = (int ?q + 1) * 26 + (int (65 + n mod 26) - 65)"
      using False less [OF q] col_index_loop_snoc [of "colLetter ?q" "letter (n mod 26)" 0] colLetter_upper
      by (simp add: colLetter_rec [of n])
    with n show ?thesis by simp
  qed
qed

lemma colIndex_colLetter [simp]: "colIndex (colLetter n) = int n"
  by (simp add: colIndex_def col_index_colLetter)

lemma takeWhile_append_all: "\<forall>x\<in>set xs. P x \<Longrightarrow> \<forall>y\<in>set ys. \<not> P y \<Longrightarrow>
    takeWhile P (xs @ ys) = xs \<and> dropWhile P (xs @ ys) = ys"
  by (induction xs) (auto simp: takeWhile_eq_Nil_iff dropWhile_eq_self_iff neq_Nil_conv)

lemma is_digit_not_alpha: "is_digit c \<Longrightarrow> \<not> is_alpha c"
  by (simp add: is_digit_def is_alpha_def is_upper_def is_lower_def)

lemma parse_makeAddr [simp]: "parseAddr (makeAddr c r) = Some \<lparr> a_col = c, a_row = r \<rparr>"
proof -
  have "takeWhile is_alpha (makeAddr c r) = colLetter c \<and> dropWhile is_alpha (makeAddr c r) = nat_str r"
    unfolding makeAddr_def
    by (rule takeWhile_append_all) (use colLetter_upper nat_str_digits is_digit_not_alpha in \<open>auto simp: is_alpha_def\<close>)
  moreover have "list_all is_digit (nat_str r)" by (auto simp: list_all_iff dest: nat_str_digits)
  ultimately show ?thesis by (simp add: parseAddr_def)
qed

lemma makeAddr_inj: "makeAddr c r = makeAddr c' r' \<longleftrightarrow> c = c' \<and> r = r'"
  by (metis addr.select_convs option.inject parse_makeAddr)

lemma colLetter_index:
  "s \<noteq> [] \<Longrightarrow> \<forall>c\<in>set s. is_upper c \<Longrightarrow>
     0 \<le> col_index_loop 0 s \<and> colLetter (nat (col_index_loop 0 s)) = s"
proof (induction s rule: rev_induct)
  case (snoc d s)
  define v where "v = (of_char d :: nat) - 65"
  have d: "65 \<le> (of_char d :: nat)" "(of_char d :: nat) \<le> 90" using snoc.prems by (auto simp: is_upper_def)
  then have v: "v < 26" "int (of_char d) - 65 = int v" "letter v = d" by (auto simp: v_def letter_def)
  have e: "col_index_loop 0 (s @ [d]) = (col_index_loop 0 s + 1) * 26 + int v"
    using snoc.prems v(2) by (simp add: col_index_loop_snoc)
  show ?case
  proof (cases "s = []")
    case True
    with e v show ?thesis by (simp add: colLetter_rec [of v])
  next
    case False
    with snoc obtain q where q: "col_index_loop 0 s = int q" "colLetter q = s"
      by (metis (no_types, lifting) UnCI int_nat_eq set_append)
    let ?n = "Suc q * 26 + v"
    have n: "col_index_loop 0 (s @ [d]) = int ?n" using e q(1) by (simp add: algebra_simps)
    have "?n mod 26 = v" using v(1) by (simp only: mod_mult_self3 mod_less)
    moreover have "\<not> ?n < 26" "?n div 26 - 1 = q" using v(1) by simp_all
    ultimately have "colLetter ?n = s @ [d]" using q(2) v(3) by (simp only: colLetter_rec [of ?n] if_False)
    then show ?thesis using n by (simp only: nat_int) simp
  qed
qed simp

section \<open>Ranges are named by their keys\<close>

lemma makeAddr_chars: "x \<in> set (makeAddr c r) \<Longrightarrow> is_upper x \<or> is_digit x"
  by (auto simp: makeAddr_def dest: colLetter_upper nat_str_digits)

lemma upper_or_digit:
  "is_upper x \<or> is_digit x \<Longrightarrow> upper_char x = x \<and> \<not> is_space x \<and> x \<noteq> CHR '':''"
  by (auto simp: upper_char_upper upper_char_digit is_upper_def is_digit_def is_space_def Let_def)

lemma to_upper_makeAddr [simp]: "to_upper (makeAddr c r) = makeAddr c r"
  unfolding to_upper_def by (rule map_idI) (use makeAddr_chars upper_or_digit in blast)

lemma makeAddr_ne [simp]: "makeAddr c r \<noteq> []"
  by (simp add: makeAddr_def)

lemma range_key_text:
  fixes c r c' r'
  defines "k \<equiv> makeAddr c r @ CHR '':'' # makeAddr c' r'"
  shows "js_trim (to_upper k) = k" "split_char CHR '':'' k = [makeAddr c r, makeAddr c' r']"
proof -
  have colon: "upper_char CHR '':'' = CHR '':''" by (simp add: upper_char_def is_lower_def)
  have cons: "to_upper (CHR '':'' # x) = CHR '':'' # to_upper x" for x by (simp add: to_upper_def colon)
  have up: "to_upper k = k" by (simp add: k_def to_upper_append cons)
  have "hd k \<in> set (makeAddr c r)" "last k \<in> set (makeAddr c' r')"
    by (simp_all add: k_def hd_append)
  then have "\<not> is_space (hd k)" "\<not> is_space (last k)" using makeAddr_chars upper_or_digit by blast+
  then show "js_trim (to_upper k) = k" using up by (simp add: js_trim_no_space_ends)
  have "CHR '':'' \<notin> set (makeAddr c r)" "CHR '':'' \<notin> set (makeAddr c' r')"
    using makeAddr_chars upper_or_digit by blast+
  then show "split_char CHR '':'' k = [makeAddr c r, makeAddr c' r']"
    using split_char_append_sep [of "CHR '':''" "makeAddr c r" "makeAddr c' r'"] split_char_no_sep
    by (simp add: k_def)
qed

text \<open>A range as \<open>parseRangeStr\<close> builds it.\<close>

definition wf_range :: "cell_range \<Rightarrow> bool" where
  "wf_range m \<longleftrightarrow> c1 m \<le> c2 m \<and> r1 m \<le> r2 m \<and> key m = makeAddr (c1 m) (r1 m) @ '':'' @ makeAddr (c2 m) (r2 m)"

lemma make_range_wf [simp]: "wf_range (make_range a b)"
  by (auto simp: wf_range_def make_range_def)

lemma parse_range_key: "wf_range m \<Longrightarrow> parseRangeStr (key m) = Some m"
  by (cases m) (simp add: wf_range_def parseRangeStr_def range_key_text second_part_def make_range_def min_def max_def)

lemma parse_range_wf: "parseRangeStr s = Some m \<Longrightarrow> wf_range m"
  by (auto simp: parseRangeStr_def Let_def split: option.splits)

lemma rangesOverlap_iff:
  assumes "wf_range a" "wf_range b"
  shows "rangesOverlap a b \<longleftrightarrow> (\<exists>c r. in_range c r a \<and> in_range c r b)"
proof
  assume "rangesOverlap a b"
  then have "in_range (max (c1 a) (c1 b)) (max (r1 a) (r1 b)) a \<and> in_range (max (c1 a) (c1 b)) (max (r1 a) (r1 b)) b"
    using assms by (auto simp: rangesOverlap_def in_range_def wf_range_def)
  then show "\<exists>c r. in_range c r a \<and> in_range c r b" by blast
qed (auto simp: rangesOverlap_def in_range_def)

lemma overlap_sym: "rangesOverlap a b = rangesOverlap b a"
  by (auto simp: rangesOverlap_def)

end
