(* ===== verification/Tables_Sheet.thy ===== *)
theory Tables_Sheet
  imports Tables_Addr
begin

text \<open>
  The state of the spreadsheet client (\<open>ui/tables/web/app.js\<close>): the cells, tabs, merges,
  protection, selection and panes, the messages it sends, and what it does with messages from
  the server. The numeric renderings \<open>toFixed(2)\<close> and \<open>Math.round(n * 100)\<close> of a parsed
  floating-point number are the argument \<open>num_fmt\<close>; whether a text parses as a number is
  modelled exactly. Every cell and option object is a record with the empty value for an
  absent key; a cell's \<open>value\<close> keeps the difference between absent and empty.
\<close>

section \<open>State\<close>

record cell =
  c_value :: "string option"
  formula :: string
  format :: string
  cbold :: bool
  font :: string
  font_size :: int
  calign :: string
  wrap :: bool
  border :: bool
  border_sides :: string
  c_note :: string

definition empty_cell :: cell where
  "empty_cell = \<lparr> c_value = None, formula = [], format = [], cbold = False, font = [], font_size = 0,
     calign = [], wrap = False, border = False, border_sides = [], c_note = [] \<rparr>"

type_synonym cells = "(string \<times> cell) list"

record clause =
  cl_col :: nat
  cl_mode :: string
  cl_value :: string

record filter_opts =
  f_clause :: clause
  f_and :: "clause option"

type_synonym snapshot = "(string \<times> string) list"

record sheet_chart =
  ch_type :: string
  ch_range :: string
  ch_title :: string

record tab =
  t_name :: string
  t_cells :: cells
  t_merges :: "string list"
  t_ranges :: "string list"
  t_protected :: bool
  t_freeze_rows :: nat
  t_freeze_cols :: nat
  t_filter :: "filter_opts option"
  t_scenarios :: "(string \<times> snapshot) list"
  t_charts :: "sheet_chart list"

record style_patch =
  sp_bold :: "bool option"
  sp_font :: "string option"
  sp_font_size :: "int option"
  sp_align :: "string option"
  sp_wrap :: "bool option"
  sp_border :: "bool option"
  sp_sides :: "string option"
  sp_note :: "string option"

definition no_style :: style_patch where
  "no_style = \<lparr> sp_bold = None, sp_font = None, sp_font_size = None, sp_align = None, sp_wrap = None,
     sp_border = None, sp_sides = None, sp_note = None \<rparr>"

datatype sheet_op =
    Set_cell string string string
  | Set_cell_style string style_patch
  | Set_format string string
  | Set_merges "string list"
  | Set_protected_ranges "string list"
  | Protect_sheet bool
  | Freeze_panes nat nat
  | Sort_range nat bool
  | Insert_row nat
  | Insert_col nat
  | Delete_row nat
  | Delete_col nat
  | Switch_sheet nat
  | Rename_sheet nat string
  | Reorder_sheet nat nat
  | Add_sheet string
  | Set_filter "filter_opts option"
  | Set_scenarios "(string \<times> snapshot) list"
  | Set_charts "sheet_chart list"
  | Presence_cell string

datatype sheet_ui = S_Status string bool | S_Paint | S_Render

record sheet =
  sheetId :: "string option"
  cells :: cells
  sheets :: "tab list"
  sheetTabNames :: "string list"
  activeSheetIndex :: nat
  open_ws :: bool
  sent :: "sheet_op list"
  activeAddr :: string
  selAnchorAddr :: "string option"
  editing :: bool
  freezeRows :: nat
  freezeCols :: nat
  filterText :: string
  filterOpts :: "filter_opts option"
  sheetProtected :: bool
  cellMerges :: "cell_range list"
  protectedRanges :: "string list"
  colWidths :: "int list"
  peerCells :: "(string \<times> string \<times> string) list"
  me :: string
  scenariosStore :: "(string \<times> snapshot) list"
  findCellMatches :: "string list"
  findCellCursor :: int
  lastFindCellQ :: string
  refresh_due :: bool
  shown :: "sheet_ui list"

definition CAPACITY_ROWS :: nat where "CAPACITY_ROWS = 10000"
definition CAPACITY_COLS :: nat where "CAPACITY_COLS = 621"

section \<open>Primitives\<close>

definition show_status :: "string \<Rightarrow> bool \<Rightarrow> sheet \<Rightarrow> sheet" where
  "show_status msg isErr s = s\<lparr>shown := shown s @ [S_Status msg isErr]\<rparr>"

definition sendSheetOp :: "sheet_op \<Rightarrow> sheet \<Rightarrow> sheet" where
  "sendSheetOp oper s = (if open_ws s then s\<lparr>sent := sent s @ [oper]\<rparr> else s)"

definition sendCell :: "string \<Rightarrow> string \<Rightarrow> string \<Rightarrow> sheet \<Rightarrow> sheet" where
  "sendCell ad v f s = sendSheetOp (Set_cell ad v f) s"

definition broadcastPresenceCell :: "string \<Rightarrow> sheet \<Rightarrow> sheet" where
  "broadcastPresenceCell ad s = (if ad = [] then s else sendSheetOp (Presence_cell ad) s)"

text \<open>Painting announces the active cell to the peers.\<close>

definition paintSelection :: "sheet \<Rightarrow> sheet" where
  "paintSelection s = broadcastPresenceCell (activeAddr s) s"

definition paintGridValues :: "sheet \<Rightarrow> sheet" where
  "paintGridValues s = paintSelection (s\<lparr>shown := shown s @ [S_Paint]\<rparr>)"

definition renderGrid :: "sheet \<Rightarrow> sheet" where
  "renderGrid s =
     paintGridValues (s\<lparr>selAnchorAddr := (case selAnchorAddr s of None \<Rightarrow> Some (activeAddr s) | Some x \<Rightarrow> Some x),
                        shown := shown s @ [S_Render]\<rparr>)"

definition scheduleRefresh :: "sheet \<Rightarrow> sheet" where
  "scheduleRefresh s = s\<lparr>refresh_due := True\<rparr>"

definition need_sheet :: "sheet \<Rightarrow> sheet" where
  "need_sheet s = show_status ''Open a sheet first'' True s"

section \<open>Cells\<close>

definition cell_in :: "cells \<Rightarrow> string \<Rightarrow> cell option" where
  "cell_in cs ad = (case map_of cs ad of Some c \<Rightarrow> Some c | None \<Rightarrow> map_of cs (to_upper ad))"

definition cellOf :: "sheet \<Rightarrow> string \<Rightarrow> cell" where
  "cellOf s ad = (case cell_in (cells s) ad of Some c \<Rightarrow> c | None \<Rightarrow> empty_cell)"

definition formulaFor :: "sheet \<Rightarrow> string \<Rightarrow> string" where
  "formulaFor s ad = formula (cellOf s ad)"

text \<open>\<open>isNaN(parseFloat(s))\<close>: no number at the start of the text.\<close>

definition float_nan :: "string \<Rightarrow> bool" where
  "float_nan s =
     (let t = dropWhile is_space s;
          u = (if t \<noteq> [] \<and> (hd t = CHR ''-'' \<or> hd t = CHR ''+'') then tl t else t)
      in \<not> (take 8 u = ''Infinity'' \<or> (u \<noteq> [] \<and> is_digit (hd u))
            \<or> (length u \<ge> 2 \<and> hd u = CHR ''.'' \<and> is_digit (u ! 1))))"

record num_fmt =
  to_fixed2 :: "string \<Rightarrow> string"
  to_percent :: "string \<Rightarrow> string"

definition displayFor :: "num_fmt \<Rightarrow> sheet \<Rightarrow> string \<Rightarrow> string" where
  "displayFor F s ad =
     (let c = cellOf s ad; raw = or_empty (c_value c); fmt = format c
      in if fmt = [] \<or> raw = [] then raw
         else if fmt = ''0.00'' \<and> \<not> float_nan raw then to_fixed2 F raw
         else if fmt = ''%'' \<and> \<not> float_nan raw then to_percent F raw
         else raw)"

section \<open>Merges and protection\<close>

definition loadMergesFromList :: "string list \<Rightarrow> sheet \<Rightarrow> sheet" where
  "loadMergesFromList xs s = s\<lparr>cellMerges := List.map_filter parseRangeStr xs\<rparr>"

definition range_key :: "string \<Rightarrow> string option" where
  "range_key t = map_option key (parseRangeStr t)"

definition loadProtectedRangesFromList :: "string list \<Rightarrow> sheet \<Rightarrow> sheet" where
  "loadProtectedRangesFromList xs s = s\<lparr>protectedRanges := List.map_filter range_key xs\<rparr>"

definition isCoveredByMerge :: "cell_range list \<Rightarrow> nat \<Rightarrow> nat \<Rightarrow> bool" where
  "isCoveredByMerge ms c r = list_ex (\<lambda>m. \<not> (c = c1 m \<and> r = r1 m) \<and> in_range c r m) ms"

definition mergeAt :: "cell_range list \<Rightarrow> nat \<Rightarrow> nat \<Rightarrow> cell_range option" where
  "mergeAt ms c r = find (\<lambda>m. c1 m = c \<and> r1 m = r) ms"

definition isAddrRangeProtected :: "sheet \<Rightarrow> string \<Rightarrow> bool" where
  "isAddrRangeProtected s ad =
     (case parseAddr ad of None \<Rightarrow> False
      | Some p \<Rightarrow> list_ex (\<lambda>k. case parseRangeStr k of None \<Rightarrow> False
                    | Some m \<Rightarrow> in_range (a_col p) (a_row p) m) (protectedRanges s))"

definition isAddrProtected :: "sheet \<Rightarrow> string \<Rightarrow> bool" where
  "isAddrProtected s ad \<longleftrightarrow> sheetProtected s \<or> isAddrRangeProtected s ad"

definition upd_active_tab :: "(tab \<Rightarrow> tab) \<Rightarrow> sheet \<Rightarrow> sheet" where
  "upd_active_tab f s =
     (if activeSheetIndex s < length (sheets s)
      then s\<lparr>sheets := (sheets s)[activeSheetIndex s := f (sheets s ! activeSheetIndex s)]\<rparr> else s)"

definition persistMerges :: "sheet \<Rightarrow> sheet" where
  "persistMerges s =
     (let ks = map key (cellMerges s)
      in sendSheetOp (Set_merges ks) (upd_active_tab (\<lambda>t. t\<lparr>t_merges := ks\<rparr>) s))"

definition persistProtectedRanges :: "sheet \<Rightarrow> sheet" where
  "persistProtectedRanges s =
     sendSheetOp (Set_protected_ranges (protectedRanges s))
       (upd_active_tab (\<lambda>t. t\<lparr>t_ranges := protectedRanges s\<rparr>) s)"

definition currentSelectionRange :: "sheet \<Rightarrow> cell_range option" where
  "currentSelectionRange s =
     (case (parseAddr (or_default (selAnchorAddr s) (activeAddr s)), parseAddr (activeAddr s)) of
        (Some a, Some b) \<Rightarrow> Some (make_range a b)
      | _ \<Rightarrow> None)"

definition selectionLabel :: "sheet \<Rightarrow> string" where
  "selectionLabel s =
     (case currentSelectionRange s of None \<Rightarrow> activeAddr s
      | Some m \<Rightarrow> if single_cell m then makeAddr (c1 m) (r1 m) else key m)"

definition selectionMergeRange :: "sheet \<Rightarrow> cell_range option" where
  "selectionMergeRange s =
     (case currentSelectionRange s of None \<Rightarrow> None | Some m \<Rightarrow> if single_cell m then None else Some m)"

text \<open>\<open>answer\<close> is what the prompt returns when no range is selected.\<close>

definition mergeCellsLite :: "string option \<Rightarrow> sheet \<Rightarrow> sheet" where
  "mergeCellsLite answer s =
     (if sheetId s = None then need_sheet s
      else if sheetProtected s then show_status ''Sheet is protected - unprotect to merge'' True s
      else
        (let sel = selectionMergeRange s;
             parsed = (case sel of Some m \<Rightarrow> Some m | None \<Rightarrow> Option.bind answer parseRangeStr)
         in if sel = None \<and> answer = None then s
            else (case parsed of
                    None \<Rightarrow> show_status ''Need a multi-cell range to merge'' True s
                  | Some m \<Rightarrow>
                      if single_cell m then show_status ''Need a multi-cell range to merge'' True s
                      else show_status (''Merged '' @ key m) False (renderGrid (persistMerges
                             (s\<lparr>cellMerges := filter (\<lambda>x. \<not> rangesOverlap x m) (cellMerges s) @ [m]\<rparr>))))))"

definition unmergeCellsLite :: "sheet \<Rightarrow> sheet" where
  "unmergeCellsLite s =
     (if sheetId s = None then s
      else (case parseAddr (activeAddr s) of None \<Rightarrow> s
            | Some p \<Rightarrow>
                (let ms = filter (\<lambda>m. \<not> in_range (a_col p) (a_row p) m) (cellMerges s);
                     s1 = s\<lparr>cellMerges := ms\<rparr>
                 in if length ms = length (cellMerges s)
                    then show_status (''No merge at '' @ activeAddr s) True s1
                    else show_status (''Unmerged at '' @ activeAddr s) False (renderGrid (persistMerges s1)))))"

datatype protect_action = Add_sel | Add_custom | Clear_ranges

definition protectRangesLite :: "protect_action option \<Rightarrow> string option \<Rightarrow> sheet \<Rightarrow> sheet" where
  "protectRangesLite action answer s =
     (if sheetId s = None then need_sheet s
      else (case action of None \<Rightarrow> s
            | Some Clear_ranges \<Rightarrow>
                show_status ''Protected ranges cleared'' False
                  (paintGridValues (persistProtectedRanges (s\<lparr>protectedRanges := []\<rparr>)))
            | Some act \<Rightarrow>
                (let sel = (let l = selectionLabel s in if l \<noteq> [] then l
                            else if activeAddr s \<noteq> [] then activeAddr s else ''A1'');
                     parsed = (if act = Add_sel
                               then (case currentSelectionRange s of Some m \<Rightarrow> Some m | None \<Rightarrow> parseRangeStr sel)
                               else Option.bind answer parseRangeStr)
                 in if act = Add_custom \<and> answer = None then s
                    else (case parsed of None \<Rightarrow> show_status ''Invalid range'' True s
                          | Some m \<Rightarrow>
                              show_status (''Protected range '' @ key m) False (paintGridValues
                                (persistProtectedRanges (s\<lparr>protectedRanges :=
                                   (if key m \<in> set (protectedRanges s) then protectedRanges s
                                    else protectedRanges s @ [key m])\<rparr>)))))))"

definition toggleProtectSheet :: "sheet \<Rightarrow> sheet" where
  "toggleProtectSheet s =
     (if sheetId s = None then need_sheet s
      else (let on = (\<not> sheetProtected s)
            in show_status (if on then ''Sheet protected'' else ''Sheet unprotected'') False
                 (sendSheetOp (Protect_sheet on) (s\<lparr>sheetProtected := on\<rparr>))))"

end
