(* ===== verification/Tables_Sync.thy ===== *)
theory Tables_Sync
  imports Tables_Sheet Era_Hash
begin

text \<open>
  Messages from the server to the spreadsheet client (\<open>ui/tables/web/app.js\<close>:
  \<open>syncSheetTabsFromState\<close>, \<open>applySyncEnvelope\<close>, the socket handler of \<open>connectSync\<close>,
  \<open>loadSheet\<close> after the response) and the sheet tabs.
\<close>

text \<open>The colour of a peer: the loop of \<open>peerColor\<close> is the shared hash, over five colours.\<close>

definition tables_peerColor :: "string \<Rightarrow> string" where
  "tables_peerColor uid = pick_color [''#c45'', ''#2a7'', ''#36c'', ''#a6a'', ''#e80''] uid"

section \<open>Loading a sheet\<close>

record sheet_doc =
  sd_cells :: cells
  sd_sheets :: "tab list"
  sd_sheet_names :: "string list"
  sd_active_sheet :: "nat option"
  sd_protected :: "bool option"
  sd_freeze_rows :: "nat option"
  sd_freeze_cols :: "nat option"
  sd_merges :: "string list option"
  sd_ranges :: "string list option"

definition loadScenariosFromTab :: "(string \<times> snapshot) list \<Rightarrow> sheet \<Rightarrow> sheet" where
  "loadScenariosFromTab xs s = s\<lparr>scenariosStore := fold (\<lambda>(n, sn) st. upsert n sn st) xs []\<rparr>"

definition load_tab :: "tab option \<Rightarrow> sheet \<Rightarrow> sheet" where
  "load_tab tb s =
     (case tb of None \<Rightarrow> s\<lparr>sheetProtected := False\<rparr>
      | Some t \<Rightarrow>
          loadScenariosFromTab (t_scenarios t)
            ((loadProtectedRangesFromList (t_ranges t) (loadMergesFromList (t_merges t)
               (s\<lparr>sheetProtected := t_protected t, freezeRows := t_freeze_rows t,
                  freezeCols := t_freeze_cols t\<rparr>)))\<lparr>filterOpts := t_filter t\<rparr>))"

definition when_some :: "'a option \<Rightarrow> ('a \<Rightarrow> sheet \<Rightarrow> sheet) \<Rightarrow> sheet \<Rightarrow> sheet" where
  "when_some x f s = (case x of None \<Rightarrow> s | Some v \<Rightarrow> f v s)"

definition tab_at :: "tab list \<Rightarrow> nat \<Rightarrow> tab option" where
  "tab_at ts i = (if i < length ts then Some (ts ! i) else None)"

definition syncSheetTabsFromState :: "sheet_doc \<Rightarrow> sheet \<Rightarrow> sheet" where
  "syncSheetTabsFromState d s =
     (let s1 = (if sd_sheets d \<noteq> [] then
                  load_tab (tab_at (sd_sheets d) (case sd_active_sheet d of Some i \<Rightarrow> i | None \<Rightarrow> activeSheetIndex s))
                    (s\<lparr>sheetTabNames := map (\<lambda>t. if t_name t = [] then ''Sheet'' else t_name t) (sd_sheets d)\<rparr>)
                else if sd_sheet_names d \<noteq> [] then s\<lparr>sheetTabNames := sd_sheet_names d\<rparr>
                else s)
      in when_some (sd_ranges d) loadProtectedRangesFromList
          (when_some (sd_merges d) loadMergesFromList
          (when_some (sd_freeze_cols d) (\<lambda>n s. s\<lparr>freezeCols := n\<rparr>)
          (when_some (sd_freeze_rows d) (\<lambda>n s. s\<lparr>freezeRows := n\<rparr>)
          (when_some (sd_protected d) (\<lambda>b s. s\<lparr>sheetProtected := b\<rparr>)
          (when_some (sd_active_sheet d) (\<lambda>i s. s\<lparr>activeSheetIndex := i\<rparr>) s1))))))"

text \<open>\<open>loadSheet\<close> when the response arrived: the grid is drawn again when there is none or the
  window changed.\<close>

definition loadSheet :: "string \<Rightarrow> sheet_doc \<Rightarrow> bool \<Rightarrow> bool \<Rightarrow> sheet \<Rightarrow> sheet" where
  "loadSheet i d quiet redraw s =
     (let s1 = syncSheetTabsFromState d (s\<lparr>cells := sd_cells d, sheets := sd_sheets d, sheetId := Some i\<rparr>);
          s2 = (if quiet then s1 else show_status ''Sheet open'' False s1)
      in if redraw then renderGrid s2 else paintGridValues s2)"

section \<open>Messages\<close>

record envelope =
  en_cells :: cells
  en_active :: "nat option"
  en_names :: "string list"
  en_protected :: "bool option"
  en_freeze_rows :: "nat option"
  en_freeze_cols :: "nat option"
  en_op :: "sheet_op option"

definition applyCells :: "cells \<Rightarrow> sheet \<Rightarrow> sheet" where
  "applyCells cs s = paintGridValues (s\<lparr>cells := cs\<rparr>)"

definition apply_envelope_op :: "sheet_op option \<Rightarrow> sheet \<Rightarrow> sheet" where
  "apply_envelope_op oper s =
     (case oper of
        Some (Protect_sheet b) \<Rightarrow> s\<lparr>sheetProtected := b\<rparr>
      | Some (Freeze_panes r c) \<Rightarrow> s\<lparr>freezeRows := r, freezeCols := c\<rparr>
      | Some (Set_merges ks) \<Rightarrow> loadMergesFromList ks s
      | Some (Set_protected_ranges ks) \<Rightarrow> loadProtectedRangesFromList ks s
      | Some (Sort_range c a) \<Rightarrow> scheduleRefresh s
      | Some (Set_filter f) \<Rightarrow> s\<lparr>filterOpts := f\<rparr>
      | Some (Set_scenarios xs) \<Rightarrow> upd_active_tab (\<lambda>t. t\<lparr>t_scenarios := xs\<rparr>) (loadScenariosFromTab xs s)
      | _ \<Rightarrow> s)"

definition redraws :: "sheet_op option \<Rightarrow> bool" where
  "redraws oper = (case oper of Some (Set_merges ks) \<Rightarrow> True | Some (Set_protected_ranges ks) \<Rightarrow> True | _ \<Rightarrow> False)"

definition applySyncEnvelope :: "envelope \<Rightarrow> sheet \<Rightarrow> sheet" where
  "applySyncEnvelope e s =
     (let s1 = applyCells (en_cells e) s;
          s2 = when_some (en_active e) (\<lambda>i s. s\<lparr>activeSheetIndex := i\<rparr>) s1;
          s3 = (if en_names e \<noteq> [] then s2\<lparr>sheetTabNames := en_names e\<rparr> else s2);
          s4 = when_some (en_protected e) (\<lambda>b s. s\<lparr>sheetProtected := b\<rparr>) s3;
          s5 = when_some (en_freeze_cols e) (\<lambda>n s. s\<lparr>freezeCols := n\<rparr>)
                 (when_some (en_freeze_rows e) (\<lambda>n s. s\<lparr>freezeRows := n\<rparr>) s4);
          s6 = apply_envelope_op (en_op e) s5
      in if redraws (en_op e) then renderGrid s6 else paintGridValues s6)"

text \<open>A single operation of a peer. The style keys of the message other than the four are not
  read.\<close>

definition remote_set_cell :: "string \<Rightarrow> string \<Rightarrow> string \<Rightarrow> sheet \<Rightarrow> sheet" where
  "remote_set_cell ad v f s =
     (let prev = (case map_of (cells s) ad of Some c \<Rightarrow> c | None \<Rightarrow> empty_cell);
          c = empty_cell\<lparr>c_value := Some v, formula := f, format := format prev, cbold := cbold prev,
                calign := calign prev, wrap := wrap prev, border := border prev\<rparr>
      in scheduleRefresh (paintGridValues (s\<lparr>cells := upsert ad c (cells s)\<rparr>)))"

definition get_style :: "'a option \<Rightarrow> 'a \<Rightarrow> 'a" where
  "get_style x d = (case x of None \<Rightarrow> d | Some v \<Rightarrow> v)"

definition remote_set_style :: "string \<Rightarrow> style_patch \<Rightarrow> sheet \<Rightarrow> sheet" where
  "remote_set_style ad p s =
     (let c = (case map_of (cells s) ad of Some c \<Rightarrow> c | None \<Rightarrow> empty_cell\<lparr>c_value := Some []\<rparr>);
          c' = c\<lparr>cbold := get_style (sp_bold p) (cbold c), calign := get_style (sp_align p) (calign c),
                 wrap := get_style (sp_wrap p) (wrap c), border := get_style (sp_border p) (border c)\<rparr>
      in paintGridValues (s\<lparr>cells := upsert ad c' (cells s)\<rparr>))"

datatype sheet_msg =
    M_ack
  | M_unparsable
  | M_presence "string list"
  | M_presence_cell string string string
  | M_protected_error
  | M_envelope envelope
  | M_op sheet_op

definition on_sheet_message :: "sheet_msg \<Rightarrow> sheet \<Rightarrow> sheet" where
  "on_sheet_message msg s =
     (case msg of
        M_ack \<Rightarrow> scheduleRefresh s
      | M_unparsable \<Rightarrow> s
      | M_presence ps \<Rightarrow> s
      | M_presence_cell uid ad color \<Rightarrow>
          if uid \<noteq> [] \<and> uid \<noteq> me s \<and> ad \<noteq> []
          then s\<lparr>peerCells := upsert uid (ad, or_default (Some color) (tables_peerColor uid)) (peerCells s)\<rparr> else s
      | M_protected_error \<Rightarrow> show_status ''Sheet is protected - unprotect to edit'' True (s\<lparr>sheetProtected := True\<rparr>)
      | M_envelope e \<Rightarrow> applySyncEnvelope e s
      | M_op (Set_cell ad v f) \<Rightarrow> remote_set_cell ad v f s
      | M_op (Set_cell_style ad p) \<Rightarrow> remote_set_style ad p s
      | M_op _ \<Rightarrow> s)"

section \<open>Tabs\<close>

definition switch_tab :: "nat \<Rightarrow> sheet \<Rightarrow> sheet" where
  "switch_tab i s = (if i = activeSheetIndex s then s else sendSheetOp (Switch_sheet i) s)"

text \<open>\<open>xs.splice(from, 1)\<close> then \<open>xs.splice(to, 0, x)\<close>.\<close>

definition move_item :: "nat \<Rightarrow> nat \<Rightarrow> 'a list \<Rightarrow> 'a list" where
  "move_item from to xs = splice_ins to (xs ! from) (splice_del from xs)"

text \<open>The dragged tab is one of the list.\<close>

definition drop_tab :: "nat \<Rightarrow> nat \<Rightarrow> sheet \<Rightarrow> sheet" where
  "drop_tab from i s =
     (if from = i \<or> from \<ge> length (sheetTabNames s) then s
      else scheduleRefresh ((sendSheetOp (Reorder_sheet from i) s)
             \<lparr>sheetTabNames := move_item from i (sheetTabNames s),
              activeSheetIndex := (if activeSheetIndex s = from then i else activeSheetIndex s)\<rparr>))"

definition renameActiveSheetTab :: "string option \<Rightarrow> sheet \<Rightarrow> sheet" where
  "renameActiveSheetTab answer s =
     (if sheetId s = None then s
      else (case answer of None \<Rightarrow> s
            | Some n \<Rightarrow>
                if js_trim n = [] then s
                else (sendSheetOp (Rename_sheet (activeSheetIndex s) (js_trim n)) s)
                       \<lparr>sheetTabNames := (sheetTabNames s)[activeSheetIndex s := js_trim n]\<rparr>))"

definition add_sheet_tab :: "sheet \<Rightarrow> sheet" where
  "add_sheet_tab s =
     (if sheetId s = None then need_sheet s
      else (let n = ''Sheet'' @ nat_str (length (sheetTabNames s) + 1)
            in show_status (''Adding sheet '' @ n @ ''...'') False (sendSheetOp (Add_sheet n) s)))"

section \<open>Frame lemmas\<close>

lemma sheet_prim_cells [simp]:
  "cells (show_status m b s) = cells s" "cells (sendSheetOp oper s) = cells s"
  "cells (broadcastPresenceCell ad s) = cells s" "cells (paintSelection s) = cells s"
  "cells (paintGridValues s) = cells s" "cells (renderGrid s) = cells s" "cells (scheduleRefresh s) = cells s"
  "cells (upd_active_tab f s) = cells s" "cells (sendCell ad v f' s) = cells s" "cells (need_sheet s) = cells s"
  by (simp_all add: show_status_def sendSheetOp_def broadcastPresenceCell_def paintSelection_def
      paintGridValues_def renderGrid_def scheduleRefresh_def upd_active_tab_def sendCell_def need_sheet_def)

lemma sheet_prim_prot [simp]:
  "sheetProtected (show_status m b s) = sheetProtected s" "sheetProtected (sendSheetOp oper s) = sheetProtected s"
  "sheetProtected (paintGridValues s) = sheetProtected s" "sheetProtected (scheduleRefresh s) = sheetProtected s"
  "sheetProtected (sendCell ad v f' s) = sheetProtected s" "sheetProtected (need_sheet s) = sheetProtected s"
  "sheetProtected (renderGrid s) = sheetProtected s"
  "protectedRanges (show_status m b s) = protectedRanges s" "protectedRanges (sendSheetOp oper s) = protectedRanges s"
  "protectedRanges (paintGridValues s) = protectedRanges s" "protectedRanges (scheduleRefresh s) = protectedRanges s"
  "protectedRanges (sendCell ad v f' s) = protectedRanges s" "protectedRanges (need_sheet s) = protectedRanges s"
  "protectedRanges (renderGrid s) = protectedRanges s"
  by (simp_all add: show_status_def sendSheetOp_def broadcastPresenceCell_def paintSelection_def
      paintGridValues_def renderGrid_def scheduleRefresh_def sendCell_def need_sheet_def)

lemma sheet_prim_merges [simp]:
  "cellMerges (show_status m b s) = cellMerges s" "cellMerges (sendSheetOp oper s) = cellMerges s"
  "cellMerges (paintGridValues s) = cellMerges s" "cellMerges (renderGrid s) = cellMerges s"
  "cellMerges (scheduleRefresh s) = cellMerges s" "cellMerges (upd_active_tab f s) = cellMerges s"
  "cellMerges (persistMerges s) = cellMerges s" "cellMerges (need_sheet s) = cellMerges s"
  by (simp_all add: show_status_def sendSheetOp_def broadcastPresenceCell_def paintSelection_def
      paintGridValues_def renderGrid_def scheduleRefresh_def upd_active_tab_def persistMerges_def need_sheet_def Let_def)

lemma prot_cong:
  "sheetProtected s' = sheetProtected s \<Longrightarrow> protectedRanges s' = protectedRanges s \<Longrightarrow>
     isAddrProtected s' ad = isAddrProtected s ad"
  by (simp add: isAddrProtected_def isAddrRangeProtected_def split: option.split)

end
