(* ===== verification/Tables_Grid.thy ===== *)
theory Tables_Grid
  imports Tables_Sync
begin

text \<open>
  The virtual grid of the spreadsheet client (\<open>ui/tables/web/app.js\<close>): the window of
  rendered cells as a function of the scroll position, the cells \<open>renderGrid\<close> draws with
  their spans, and moving the selection. Scroll positions and sizes of the browser are
  arguments; they are whole pixels.
\<close>

section \<open>The window\<close>

definition SCROLL_COL_W :: int where "SCROLL_COL_W = 88"
definition SCROLL_ROW_H :: int where "SCROLL_ROW_H = 28"
definition DEFAULT_VIEW_ROWS :: nat where "DEFAULT_VIEW_ROWS = 40"
definition DEFAULT_VIEW_COLS :: nat where "DEFAULT_VIEW_COLS = 26"
definition WIN_ROW_PAD :: nat where "WIN_ROW_PAD = 8"
definition WIN_COL_PAD :: nat where "WIN_COL_PAD = 4"

text \<open>\<open>colWidths[c] || SCROLL_COL_W\<close>.\<close>

definition colWidthAt :: "int list \<Rightarrow> nat \<Rightarrow> int" where
  "colWidthAt ws c = (if c < length ws \<and> ws ! c \<noteq> 0 then ws ! c else SCROLL_COL_W)"

definition gridOffsetLeft :: "int list \<Rightarrow> nat \<Rightarrow> int" where
  "gridOffsetLeft ws startCol = sum_list (map (colWidthAt ws) [0..<startCol])"

definition gridOffsetTop :: "nat \<Rightarrow> int" where
  "gridOffsetTop startRow = (int startRow - 1) * SCROLL_ROW_H"

definition rowHeaderWidthPx :: "nat \<Rightarrow> nat \<Rightarrow> nat" where
  "rowHeaderWidthPx startRow winRows =
     (let maxShown = max (max 99 (startRow + winRows - 1)) CAPACITY_ROWS;
          digits = length (nat_str maxShown)
      in max 36 (12 + digits * 9))"

record window =
  startRow :: nat
  startCol :: nat
  winRows :: nat
  winCols :: nat

text \<open>The first column whose right edge lies beyond the scroll position, the last one if there
  is none.\<close>

fun start_col_loop :: "int list \<Rightarrow> int \<Rightarrow> int \<Rightarrow> nat \<Rightarrow> nat \<Rightarrow> nat" where
  "start_col_loop ws sl acc c 0 = c - 1"
| "start_col_loop ws sl acc c (Suc n) =
     (if acc + colWidthAt ws c > sl then c else start_col_loop ws sl (acc + colWidthAt ws c) (Suc c) n)"

text \<open>\<open>Math.ceil(x / y)\<close> for a positive \<open>y\<close>.\<close>

definition ceil_div :: "int \<Rightarrow> int \<Rightarrow> int" where
  "ceil_div x y = - ((- x) div y)"

definition updateWindowFromScroll :: "int list \<Rightarrow> int \<Rightarrow> int \<Rightarrow> int \<Rightarrow> int \<Rightarrow> window" where
  "updateWindowFromScroll ws scrollTop scrollLeft clientHeight clientWidth =
     (let st = max 0 scrollTop; sl = max 0 scrollLeft;
          sr = nat (min (int CAPACITY_ROWS) (max 1 (st div SCROLL_ROW_H + 1)));
          sc = start_col_loop ws sl 0 0 CAPACITY_COLS
      in \<lparr> startRow = sr, startCol = sc,
           winRows = nat (min (int CAPACITY_ROWS - int sr + 1)
              (max (int DEFAULT_VIEW_ROWS) (ceil_div clientHeight SCROLL_ROW_H + int WIN_ROW_PAD))),
           winCols = nat (min (int CAPACITY_COLS - int sc)
              (max (int DEFAULT_VIEW_COLS) (ceil_div clientWidth SCROLL_COL_W + int WIN_COL_PAD))) \<rparr>)"

definition endRow :: "window \<Rightarrow> nat" where
  "endRow w = min CAPACITY_ROWS (startRow w + winRows w - 1)"

definition endCol :: "window \<Rightarrow> nat" where
  "endCol w = min (CAPACITY_COLS - 1) (startCol w + winCols w - 1)"

section \<open>The drawn cells\<close>

record td =
  td_addr :: string
  td_colspan :: nat
  td_rowspan :: nat

text \<open>\<open>None\<close> where the loop of \<open>renderGrid\<close> skips the cell.\<close>

definition td_at :: "cell_range list \<Rightarrow> window \<Rightarrow> nat \<Rightarrow> nat \<Rightarrow> td option" where
  "td_at ms w c r =
     (if isCoveredByMerge ms c r then None
      else (case mergeAt ms c r of
              Some m \<Rightarrow> Some \<lparr> td_addr = makeAddr c r, td_colspan = min (c2 m) (endCol w) - c + 1,
                               td_rowspan = min (r2 m) (endRow w) - r + 1 \<rparr>
            | None \<Rightarrow> Some \<lparr> td_addr = makeAddr c r, td_colspan = 1, td_rowspan = 1 \<rparr>))"

definition render_rows :: "cell_range list \<Rightarrow> window \<Rightarrow> (nat \<times> td list) list" where
  "render_rows ms w =
     map (\<lambda>r. (r, List.map_filter (\<lambda>c. td_at ms w c r) [startCol w..<Suc (endCol w)]))
       [startRow w..<Suc (endRow w)]"

section \<open>Moving the selection\<close>

definition clamp_pos :: "int \<Rightarrow> int \<Rightarrow> addr" where
  "clamp_pos c r =
     \<lparr> a_col = nat (max 0 (min (int CAPACITY_COLS - 1) c)),
       a_row = nat (max 1 (min (int CAPACITY_ROWS) r)) \<rparr>"

definition addr_str :: "addr \<Rightarrow> string" where
  "addr_str p = makeAddr (a_col p) (a_row p)"

definition moveActive :: "int \<Rightarrow> int \<Rightarrow> bool \<Rightarrow> sheet \<Rightarrow> sheet" where
  "moveActive dc dr ext s =
     (let p = (case parseAddr (activeAddr s) of Some p \<Rightarrow> p | None \<Rightarrow> \<lparr> a_col = 0, a_row = 1 \<rparr>);
          ad = addr_str (clamp_pos (int (a_col p) + dc) (int (a_row p) + dr));
          anchor = (if \<not> ext then Some ad
                    else if truthy_str (selAnchorAddr s) then selAnchorAddr s else Some (activeAddr s))
      in paintSelection (renderGrid (s\<lparr>selAnchorAddr := anchor, activeAddr := ad\<rparr>)))"

definition within_capacity :: "addr \<Rightarrow> bool" where
  "within_capacity p \<longleftrightarrow> 1 \<le> a_row p \<and> a_row p \<le> CAPACITY_ROWS \<and> a_col p < CAPACITY_COLS"

text \<open>The result of \<open>goToAddr\<close> is whether the address was accepted. A range is not checked
  against the capacity.\<close>

definition goToAddr :: "string \<Rightarrow> sheet \<Rightarrow> bool \<times> sheet" where
  "goToAddr raw s =
     (let t = to_upper (js_trim raw)
      in if str_includes '':'' t then
           (case parseRangeStr t of
              None \<Rightarrow> (False, show_status ''Invalid address'' True s)
            | Some m \<Rightarrow>
                (True, show_status (''Select '' @ key m) False (paintSelection (renderGrid
                   (s\<lparr>selAnchorAddr := Some (makeAddr (c1 m) (r1 m)),
                      activeAddr := makeAddr (c2 m) (r2 m)\<rparr>)))))
         else
           (case parseAddr t of
              None \<Rightarrow> (False, show_status ''Invalid address'' True s)
            | Some p \<Rightarrow>
                if \<not> within_capacity p then (False, show_status ''Invalid address'' True s)
                else (True, show_status (''Go to '' @ addr_str p) False (paintSelection (renderGrid
                        (s\<lparr>activeAddr := addr_str p, selAnchorAddr := Some (addr_str p)\<rparr>))))))"

definition openFreezePanes :: "bool option \<Rightarrow> sheet \<Rightarrow> sheet" where
  "openFreezePanes apply_mode s =
     (if sheetId s = None then need_sheet s
      else (case apply_mode of None \<Rightarrow> s
            | Some on \<Rightarrow>
                (let p = parseAddr (activeAddr s);
                     rows = (case p of Some q \<Rightarrow> a_row q - 1 | None \<Rightarrow> 0);
                     cols = (case p of Some q \<Rightarrow> a_col q | None \<Rightarrow> 0);
                     s1 = (if on then s\<lparr>freezeRows := rows, freezeCols := cols\<rparr>
                           else s\<lparr>freezeRows := 0, freezeCols := 0\<rparr>);
                     s2 = sendSheetOp (Freeze_panes (freezeRows s1) (freezeCols s1)) s1
                 in show_status (if freezeRows s2 \<noteq> 0 \<or> freezeCols s2 \<noteq> 0
                      then ''Freeze panes at selection: '' @ nat_str (freezeRows s2) @ '' row(s), ''
                           @ nat_str (freezeCols s2) @ '' col(s)''
                      else ''Freeze panes cleared'') False s2)))"

section \<open>Laws of the window\<close>


lemma start_col_loop_less: "0 < c + n \<Longrightarrow> start_col_loop ws sl acc c n < c + n"
proof (induction n arbitrary: acc c)
  case (Suc n)
  from Suc.IH [of "Suc c" "acc + colWidthAt ws c"] show ?case by simp
qed simp

text \<open>The left edge of the first drawn column is not right of the scroll position.\<close>

lemma start_col_loop_edge:
  assumes "acc = gridOffsetLeft ws c" "acc \<le> sl" "\<And>k. 0 \<le> colWidthAt ws k"
  shows "gridOffsetLeft ws (start_col_loop ws sl acc c n) \<le> sl"
  using assms
proof (induction n arbitrary: acc c)
  case 0
  have "gridOffsetLeft ws (c - 1) \<le> gridOffsetLeft ws c"
    using "0.prems"(3) by (cases c) (simp_all add: gridOffsetLeft_def)
  with 0 show ?case by simp
next
  case (Suc n)
  have "acc + colWidthAt ws c = gridOffsetLeft ws (Suc c)" using Suc.prems(1) by (simp add: gridOffsetLeft_def)
  from Suc.IH [OF this] Suc.prems show ?case by auto
qed

lemma window_bounds:
  fixes ws st sl h wd
  defines "w \<equiv> updateWindowFromScroll ws st sl h wd"
  shows "1 \<le> startRow w" "startRow w \<le> CAPACITY_ROWS" "startCol w < CAPACITY_COLS"
    "1 \<le> winRows w" "1 \<le> winCols w"
    "startRow w + winRows w - 1 \<le> CAPACITY_ROWS" "startCol w + winCols w - 1 < CAPACITY_COLS"
proof -
  define sr where "sr = nat (min (int CAPACITY_ROWS) (max 1 (max 0 st div SCROLL_ROW_H + 1)))"
  define sc where "sc = start_col_loop ws (max 0 sl) 0 0 CAPACITY_COLS"
  have sc: "sc < CAPACITY_COLS"
    using start_col_loop_less [of 0 CAPACITY_COLS ws "max 0 sl" 0] unfolding sc_def by (simp add: CAPACITY_COLS_def)
  have sr: "1 \<le> sr" "sr \<le> CAPACITY_ROWS" unfolding sr_def by (auto simp: CAPACITY_ROWS_def)
  have w: "startRow w = sr" "startCol w = sc"
    "winRows w = nat (min (int CAPACITY_ROWS - int sr + 1) (max (int DEFAULT_VIEW_ROWS) (ceil_div h SCROLL_ROW_H + int WIN_ROW_PAD)))"
    "winCols w = nat (min (int CAPACITY_COLS - int sc) (max (int DEFAULT_VIEW_COLS) (ceil_div wd SCROLL_COL_W + int WIN_COL_PAD)))"
    unfolding w_def updateWindowFromScroll_def Let_def sr_def sc_def by (simp_all only: window.select_convs)
  have d: "1 \<le> max (int DEFAULT_VIEW_ROWS) x" "1 \<le> max (int DEFAULT_VIEW_COLS) x" for x
    by (simp_all add: DEFAULT_VIEW_ROWS_def DEFAULT_VIEW_COLS_def max_def)
  show "1 \<le> startRow w" "startRow w \<le> CAPACITY_ROWS" "startCol w < CAPACITY_COLS" unfolding w(1,2) by (rule sr sc)+
  have one: "1 \<le> nat (min a b)" if "1 \<le> a" "1 \<le> b" for a b :: int using that by simp
  show "1 \<le> winRows w" unfolding w(3) by (rule one [OF _ d(1)]) (use sr(2) in linarith)
  show "1 \<le> winCols w" unfolding w(4) by (rule one [OF _ d(2)]) (use sc in linarith)
  have sum: "k + nat (min a b) \<le> k + nat a" for k and a b :: int by simp
  have "startRow w + winRows w \<le> sr + nat (int CAPACITY_ROWS - int sr + 1)"
    unfolding w(1,3) by (rule sum)
  also have "\<dots> = CAPACITY_ROWS + 1" using sr(2) by linarith
  finally show "startRow w + winRows w - 1 \<le> CAPACITY_ROWS" by simp
  have "startCol w + winCols w \<le> sc + nat (int CAPACITY_COLS - int sc)" unfolding w(2,4) by (rule sum)
  also have "\<dots> = CAPACITY_COLS" using sc by linarith
  finally show "startCol w + winCols w - 1 < CAPACITY_COLS" using sc by linarith
qed

section \<open>The drawn cells tile the window\<close>

definition merges_ok :: "cell_range list \<Rightarrow> bool" where
  "merges_ok ms \<longleftrightarrow> list_all wf_range ms \<and> sorted_wrt (\<lambda>a b. \<not> rangesOverlap a b) ms"

definition in_window :: "window \<Rightarrow> nat \<times> nat \<Rightarrow> bool" where
  "in_window w p \<longleftrightarrow> startCol w \<le> fst p \<and> fst p \<le> endCol w \<and> startRow w \<le> snd p \<and> snd p \<le> endRow w"

text \<open>No merged range reaches into the window from above or from the left.\<close>

definition anchored :: "window \<Rightarrow> cell_range list \<Rightarrow> bool" where
  "anchored w ms \<longleftrightarrow>
     list_all (\<lambda>m. c2 m < startCol w \<or> endCol w < c1 m \<or> r2 m < startRow w \<or> endRow w < r1 m
                 \<or> in_window w (c1 m, r1 m)) ms"

definition covers :: "nat \<times> nat \<Rightarrow> td \<Rightarrow> nat \<times> nat \<Rightarrow> bool" where
  "covers p t q \<longleftrightarrow> fst p \<le> fst q \<and> fst q < fst p + td_colspan t \<and> snd p \<le> snd q \<and> snd q < snd p + td_rowspan t"

definition draws :: "cell_range list \<Rightarrow> window \<Rightarrow> nat \<times> nat \<Rightarrow> nat \<times> nat \<Rightarrow> bool" where
  "draws ms w p q \<longleftrightarrow> in_window w p \<and> (case td_at ms w (fst p) (snd p) of None \<Rightarrow> False | Some t \<Rightarrow> covers p t q)"

lemma merges_unique:
  assumes "merges_ok ms" "m \<in> set ms" "m' \<in> set ms" "in_range c r m" "in_range c r m'"
  shows "m = m'"
proof (rule ccontr)
  assume "m \<noteq> m'"
  then have "\<not> rangesOverlap m m'"
    using assms(1-3) unfolding merges_ok_def sorted_wrt_iff_nth_less in_set_conv_nth
    by (metis linorder_neqE_nat overlap_sym)
  moreover have "wf_range m" "wf_range m'" using assms(1-3) by (auto simp: merges_ok_def list_all_iff)
  ultimately show False using assms(4,5) rangesOverlap_iff by blast
qed

lemma anchor_in_range: "wf_range m \<Longrightarrow> in_range (c1 m) (r1 m) m"
  by (simp add: wf_range_def in_range_def)

lemma mergeAt_Some: "mergeAt ms c r = Some m \<Longrightarrow> m \<in> set ms \<and> c1 m = c \<and> r1 m = r"
  using find_Some_in [of "\<lambda>m. c1 m = c \<and> r1 m = r" ms m] by (simp add: mergeAt_def)

lemma td_at_free:
  assumes "merges_ok ms" "\<And>m. m \<in> set ms \<Longrightarrow> \<not> in_range c r m"
  shows "td_at ms w c r = Some \<lparr> td_addr = makeAddr c r, td_colspan = 1, td_rowspan = 1 \<rparr>"
proof -
  have "\<not> isCoveredByMerge ms c r" using assms(2) by (auto simp: isCoveredByMerge_def list_ex_iff)
  moreover have "mergeAt ms c r = None"
  proof (rule ccontr)
    assume "mergeAt ms c r \<noteq> None"
    then obtain m where m: "m \<in> set ms" "c1 m = c" "r1 m = r" using mergeAt_Some by blast
    moreover have "wf_range m" using assms(1) m(1) by (auto simp: merges_ok_def list_all_iff)
    ultimately show False using anchor_in_range [of m] assms(2) by blast
  qed
  ultimately show ?thesis by (simp add: td_at_def)
qed

lemma td_at_merged:
  assumes "merges_ok ms" "m \<in> set ms" "in_range c r m"
  shows "td_at ms w c r = (if c = c1 m \<and> r = r1 m
     then Some \<lparr> td_addr = makeAddr c r, td_colspan = min (c2 m) (endCol w) - c + 1,
                 td_rowspan = min (r2 m) (endRow w) - r + 1 \<rparr> else None)"
proof (cases "c = c1 m \<and> r = r1 m")
  case True
  have "\<not> isCoveredByMerge ms c r"
  proof
    assume "isCoveredByMerge ms c r"
    then obtain m' where "m' \<in> set ms" "\<not> (c = c1 m' \<and> r = r1 m')" "in_range c r m'"
      by (auto simp: isCoveredByMerge_def list_ex_iff)
    with merges_unique [OF assms(1,2) _ assms(3)] True show False by blast
  qed
  moreover have "mergeAt ms c r = Some m"
  proof (cases "mergeAt ms c r")
    case None
    with True assms(2) show ?thesis by (auto simp: mergeAt_def find_None_iff)
  next
    case (Some m')
    then have m': "m' \<in> set ms" "c1 m' = c" "r1 m' = r" using mergeAt_Some by blast+
    have "wf_range m'" using assms(1) m'(1) by (auto simp: merges_ok_def list_all_iff)
    then have "in_range c r m'" using anchor_in_range m' by blast
    with merges_unique [OF assms(1,2) m'(1) assms(3)] Some show ?thesis by simp
  qed
  ultimately show ?thesis using True by (simp add: td_at_def)
next
  case False
  then have "isCoveredByMerge ms c r" using assms(2,3) by (auto simp: isCoveredByMerge_def list_ex_iff)
  with False show ?thesis by (auto simp: td_at_def)
qed

lemma draws_free:
  assumes "merges_ok ms" "\<And>m. m \<in> set ms \<Longrightarrow> \<not> in_range (fst p) (snd p) m"
  shows "draws ms w p q \<longleftrightarrow> in_window w p \<and> q = p"
  by (cases p; cases q) (use td_at_free [OF assms, of w] in \<open>auto simp: draws_def covers_def\<close>)

lemma draws_merged:
  assumes "merges_ok ms" "m \<in> set ms" "in_range (fst p) (snd p) m" "in_window w q"
  shows "draws ms w p q \<longleftrightarrow> in_window w p \<and> p = (c1 m, r1 m) \<and> in_range (fst q) (snd q) m"
  using td_at_merged [OF assms(1-3), of w] assms(3,4)
  by (cases p; cases q) (auto simp: draws_def covers_def in_range_def in_window_def split: if_splits)

text \<open>The cell that stands for a position: the first cell of the merged range it lies in, or itself.\<close>

definition cell_owner :: "cell_range list \<Rightarrow> nat \<times> nat \<Rightarrow> nat \<times> nat" where
  "cell_owner ms q = (case find (in_range (fst q) (snd q)) ms of None \<Rightarrow> q | Some m \<Rightarrow> (c1 m, r1 m))"

lemma cell_owner_free: "(\<And>m. m \<in> set ms \<Longrightarrow> \<not> in_range (fst q) (snd q) m) \<Longrightarrow> cell_owner ms q = q"
  by (simp add: cell_owner_def find_None_iff split: option.splits) (metis find_Some_in)

lemma cell_owner_merged:
  assumes "merges_ok ms" "m \<in> set ms" "in_range (fst q) (snd q) m"
  shows "cell_owner ms q = (c1 m, r1 m)"
proof (cases "find (in_range (fst q) (snd q)) ms")
  case None
  with assms(2,3) show ?thesis by (simp add: find_None_iff)
next
  case (Some m')
  then have "m' \<in> set ms \<and> in_range (fst q) (snd q) m'" using find_Some_in [of "in_range (fst q) (snd q)" ms m'] by simp
  then have "m = m'" using merges_unique [OF assms(1,2) _ assms(3)] by blast
  with Some show ?thesis by (simp add: cell_owner_def)
qed

lemma draws_iff:
  assumes "merges_ok ms" "in_window w q"
  shows "draws ms w p q \<longleftrightarrow> in_window w p \<and> p = cell_owner ms q"
proof (cases "\<exists>m\<in>set ms. in_range (fst p) (snd p) m")
  case True
  then obtain m where m: "m \<in> set ms" "in_range (fst p) (snd p) m" by blast
  note d = draws_merged [OF assms(1) m assms(2)]
  show ?thesis
  proof (cases "\<exists>m'\<in>set ms. in_range (fst q) (snd q) m'")
    case True
    then obtain m' where m': "m' \<in> set ms" "in_range (fst q) (snd q) m'" by blast
    have "wf_range m'" using assms(1) m'(1) by (auto simp: merges_ok_def list_all_iff)
    then have "in_range (c1 m') (r1 m') m'" by (rule anchor_in_range)
    then have "p = (c1 m', r1 m') \<or> in_range (fst q) (snd q) m \<Longrightarrow> m = m'"
      using merges_unique [OF assms(1) m(1) m'(1)] m(2) m'(2) by auto
    then show ?thesis using d cell_owner_merged [OF assms(1) m'] m'(2) by auto
  next
    case False
    then show ?thesis using d cell_owner_free [of ms q] m by auto
  qed
next
  case False
  then have d: "draws ms w p q \<longleftrightarrow> in_window w p \<and> q = p" using draws_free [OF assms(1)] by blast
  show ?thesis
  proof (cases "\<exists>m'\<in>set ms. in_range (fst q) (snd q) m'")
    case True
    then obtain m' where m': "m' \<in> set ms" "in_range (fst q) (snd q) m'" by blast
    have "wf_range m'" using assms(1) m'(1) by (auto simp: merges_ok_def list_all_iff)
    then have "in_range (c1 m') (r1 m') m'" by (rule anchor_in_range)
    then show ?thesis using d cell_owner_merged [OF assms(1) m'] m' False by auto
  next
    case False
    then show ?thesis using d cell_owner_free [of ms q] by auto
  qed
qed

lemma anchored_owner:
  assumes "merges_ok ms" "anchored w ms" "in_window w q"
  shows "in_window w (cell_owner ms q)"
proof (cases "\<exists>m\<in>set ms. in_range (fst q) (snd q) m")
  case True
  then obtain m where m: "m \<in> set ms" "in_range (fst q) (snd q) m" by blast
  then show ?thesis using assms(2,3) cell_owner_merged [OF assms(1) m]
    by (auto simp: anchored_def list_all_iff in_window_def in_range_def)
next
  case False
  then show ?thesis using assms(3) cell_owner_free [of ms q] by auto
qed

section \<open>Merging keeps the ranges apart\<close>

lemma merges_ok_filter: "merges_ok ms \<Longrightarrow> merges_ok (filter P ms)"
  by (auto simp: merges_ok_def list_all_iff sorted_wrt_filter)

lemma merges_ok_add:
  "merges_ok ms \<Longrightarrow> wf_range m \<Longrightarrow> merges_ok (filter (\<lambda>x. \<not> rangesOverlap x m) ms @ [m])"
  by (auto simp: merges_ok_def list_all_iff sorted_wrt_append sorted_wrt_filter)

lemma currentSelectionRange_wf: "currentSelectionRange s = Some m \<Longrightarrow> wf_range m"
  by (auto simp: currentSelectionRange_def split: option.splits)

lemma merge_ops_ok:
  assumes "merges_ok (cellMerges s)"
  shows "merges_ok (cellMerges (mergeCellsLite ans s))" "merges_ok (cellMerges (unmergeCellsLite s))"
proof -
  have wf: "wf_range m" if "(case selectionMergeRange s of Some m \<Rightarrow> Some m | None \<Rightarrow> Option.bind ans parseRangeStr) = Some m" for m
    using that currentSelectionRange_wf parse_range_wf
    by (auto simp: selectionMergeRange_def bind_eq_Some_conv split: option.splits if_splits)
  show "merges_ok (cellMerges (mergeCellsLite ans s))"
    using assms wf by (auto simp: mergeCellsLite_def Let_def merges_ok_add split: option.splits)
  show "merges_ok (cellMerges (unmergeCellsLite s))"
    using assms by (auto simp: unmergeCellsLite_def Let_def merges_ok_filter split: option.splits)
qed

text \<open>What was merged is known to the server by its key, and loading the keys gives the ranges back.\<close>

lemma map_filter_parse: "list_all wf_range ms \<Longrightarrow> List.map_filter parseRangeStr (map key ms) = ms"
  by (induction ms) (simp_all add: List.map_filter_def parse_range_key)

end
