(* ===== verification/Tables_Edit.thy ===== *)
theory Tables_Edit
  imports Tables_Grid
begin

text \<open>
  Editing in the spreadsheet client (\<open>ui/tables/web/app.js\<close>): committing a cell, filling,
  formats, styles and borders, filtering, searching, CSV export, scenarios and subtotals.
\<close>

section \<open>Committing a cell\<close>

definition commit_text :: "string \<Rightarrow> string" where
  "commit_text raw = js_trim (map (\<lambda>c. if c = CHR 0xA0 then CHR '' '' else c) raw)"

definition commitCell :: "string \<Rightarrow> string \<Rightarrow> sheet \<Rightarrow> sheet" where
  "commitCell ad raw s =
     (if isAddrProtected s ad then
        paintGridValues (show_status (if sheetProtected s then ''Sheet is protected - unprotect to edit''
                                      else ''Cell is in a protected range'') True s)
      else
        (let t = commit_text raw;
             isf = (t \<noteq> [] \<and> hd t = CHR ''='');
             f = (if isf then t else []);
             v = (if isf then [] else t);
             prev = cellOf s ad
         in if or_empty (c_value prev) = v \<and> formula prev = f then paintGridValues s
            else
              (let c = empty_cell\<lparr>c_value := Some (if v \<noteq> [] then v else or_empty (c_value prev)), formula := f\<rparr>
               in scheduleRefresh (sendCell ad v f (s\<lparr>cells := upsert ad c (cells s)\<rparr>)))))"

definition clearActiveCell :: "sheet \<Rightarrow> sheet" where
  "clearActiveCell s = (if sheetId s = None then s else commitCell (activeAddr s) [] s)"

definition pasteValuesActive :: "sheet \<Rightarrow> sheet" where
  "pasteValuesActive s =
     (if sheetId s = None \<or> activeAddr s = [] then show_status ''Select a cell first'' True s
      else
        (let ad = activeAddr s; v = or_empty (c_value (cellOf s ad));
             k = (if map_of (cells s) ad \<noteq> None then ad else to_upper ad);
             s1 = (case map_of (cells s) k of None \<Rightarrow> s
                   | Some c \<Rightarrow> s\<lparr>cells := upsert k (c\<lparr>formula := [], c_value := Some v\<rparr>) (cells s)\<rparr>)
         in show_status ''Pasted values (cleared formula on active cell)'' False
              (paintGridValues (sendCell ad v [] s1))))"

section \<open>Filling\<close>

text \<open>
  The replacement of \<open>/([A-Z]+)(\d+)/gi\<close> in \<open>adjustFormulaRows\<close>: scanning from the left, a
  maximal run of letters that is followed by digits is a match together with all the digits.
\<close>

function adjust_refs :: "int \<Rightarrow> string \<Rightarrow> string" where
  "adjust_refs d s =
     (case s of [] \<Rightarrow> []
      | c # rest \<Rightarrow>
          if \<not> is_alpha c then c # adjust_refs d rest
          else (let col = takeWhile is_alpha s; after = dropWhile is_alpha s;
                    row = takeWhile is_digit after; rest' = dropWhile is_digit after
                in if row = [] then col @ adjust_refs d after
                   else (let n = int (digits_val row) + d
                         in (if n < 1 then col @ row else to_upper col @ int_str n) @ adjust_refs d rest')))"
  by pat_completeness auto
termination
proof (relation "measure (\<lambda>(d, s). length s)")
  fix d :: int and s rest and c :: char
  assume s: "s = c # rest"
  have "length (dropWhile is_alpha rest) \<le> length rest" "length (dropWhile is_digit (dropWhile is_alpha rest)) \<le> length (dropWhile is_alpha rest)"
    by (rule length_dropWhile_le)+
  then show "\<And>x xa xb xc. \<not> \<not> is_alpha c \<Longrightarrow> x = takeWhile is_alpha s \<Longrightarrow> xa = dropWhile is_alpha s \<Longrightarrow>
      xb = takeWhile is_digit xa \<Longrightarrow> xc = dropWhile is_digit xa \<Longrightarrow> xb = [] \<Longrightarrow>
      ((d, xa), d, s) \<in> measure (\<lambda>(d, s). length s)"
    using s by simp
  show "\<And>x xa xb xc y. \<not> \<not> is_alpha c \<Longrightarrow> x = takeWhile is_alpha s \<Longrightarrow> xa = dropWhile is_alpha s \<Longrightarrow>
      xb = takeWhile is_digit xa \<Longrightarrow> xc = dropWhile is_digit xa \<Longrightarrow> xb \<noteq> [] \<Longrightarrow>
      y = int (digits_val xb) + d \<Longrightarrow> ((d, xc), d, s) \<in> measure (\<lambda>(d, s). length s)"
    using s \<open>length (dropWhile is_alpha rest) \<le> length rest\<close>
      \<open>length (dropWhile is_digit (dropWhile is_alpha rest)) \<le> length (dropWhile is_alpha rest)\<close> by simp
qed auto

declare adjust_refs.simps [simp del]

definition adjustFormulaRows :: "string \<Rightarrow> int \<Rightarrow> string" where
  "adjustFormulaRows f d = (if f = [] \<or> d = 0 then f else adjust_refs d f)"

definition source_text :: "cell \<Rightarrow> string" where
  "source_text c = (if formula c \<noteq> [] then [] else or_empty (c_value c))"

fun fill_down_loop :: "addr \<Rightarrow> cell \<Rightarrow> nat list \<Rightarrow> sheet \<Rightarrow> sheet" where
  "fill_down_loop p src [] s = s"
| "fill_down_loop p src (i # is) s =
     (if a_row p + i > CAPACITY_ROWS then s
      else fill_down_loop p src is
             (commitCell (makeAddr (a_col p) (a_row p + i))
                (if formula src \<noteq> [] then adjustFormulaRows (formula src) (int i) else source_text src) s))"

fun fill_right_loop :: "addr \<Rightarrow> cell \<Rightarrow> nat list \<Rightarrow> sheet \<Rightarrow> sheet" where
  "fill_right_loop p src [] s = s"
| "fill_right_loop p src (i # is) s =
     (if a_col p + i \<ge> CAPACITY_COLS then s
      else fill_right_loop p src is
             (commitCell (makeAddr (a_col p + i) (a_row p))
                (if formula src \<noteq> [] then formula src else source_text src) s))"

definition fill_active :: "(addr \<Rightarrow> cell \<Rightarrow> nat list \<Rightarrow> sheet \<Rightarrow> sheet) \<Rightarrow> string \<Rightarrow> sheet \<Rightarrow> sheet" where
  "fill_active loop msg s =
     (if sheetId s = None then need_sheet s
      else (case parseAddr (activeAddr s) of None \<Rightarrow> s
            | Some p \<Rightarrow>
                (let src = cellOf s (activeAddr s)
                 in if formula src = [] \<and> source_text src = [] then show_status ''Active cell is empty'' True s
                    else show_status msg False (loop p src [1, 2, 3, 4, 5] s))))"

definition fillDownActive :: "sheet \<Rightarrow> sheet" where
  "fillDownActive s = fill_active fill_down_loop ''Filled down 5 rows'' s"

definition fillRightActive :: "sheet \<Rightarrow> sheet" where
  "fillRightActive s = fill_active fill_right_loop ''Filled right 5 cols'' s"

section \<open>Formats, styles, borders\<close>

definition setNumberFormat :: "string \<Rightarrow> sheet \<Rightarrow> sheet" where
  "setNumberFormat fmt s =
     (if sheetId s = None then s
      else if isAddrProtected s (activeAddr s) then
        show_status (if sheetProtected s then ''Sheet is protected - unprotect to edit''
                     else ''Cell is in a protected range'') True s
      else
        (let ad = activeAddr s;
             c = (case map_of (cells s) ad of Some c \<Rightarrow> c | None \<Rightarrow> empty_cell\<lparr>c_value := Some []\<rparr>);
             s1 = (sendSheetOp (Set_format ad fmt) s)\<lparr>cells := upsert ad (c\<lparr>format := fmt\<rparr>) (cells s)\<rparr>
         in show_status (''Format -> '' @ (if fmt = [] then ''automatic'' else fmt)) False (paintGridValues s1)))"

definition style_cell :: "style_patch \<Rightarrow> cell \<Rightarrow> cell" where
  "style_cell p c =
     c\<lparr>cbold := get_style (sp_bold p) (cbold c), font := get_style (sp_font p) (font c),
       font_size := get_style (sp_font_size p) (font_size c), calign := get_style (sp_align p) (calign c),
       wrap := get_style (sp_wrap p) (wrap c), border := get_style (sp_border p) (border c),
       border_sides := get_style (sp_sides p) (border_sides c), c_note := get_style (sp_note p) (c_note c)\<rparr>"

definition style_base :: "sheet \<Rightarrow> string \<Rightarrow> cell" where
  "style_base s ad =
     (case map_of (cells s) (to_upper ad) of Some c \<Rightarrow> c
      | None \<Rightarrow> (case map_of (cells s) ad of Some c \<Rightarrow> c | None \<Rightarrow> empty_cell))"

text \<open>The message does not carry the font and its size.\<close>

definition setCellStylePatch :: "style_patch \<Rightarrow> sheet \<Rightarrow> sheet" where
  "setCellStylePatch p s =
     (if sheetId s = None \<or> activeAddr s = [] then show_status ''Select a cell first'' True s
      else
        (let ad = activeAddr s;
             s1 = s\<lparr>cells := upsert (to_upper ad) (style_cell p (style_base s ad)) (cells s)\<rparr>;
             s2 = sendSheetOp (Set_cell_style ad (p\<lparr>sp_font := None, sp_font_size := None\<rparr>)) s1
         in show_status (if sp_note p \<noteq> None then ''Note saved on '' @ ad else ''Cell style updated'') False
              (paintGridValues s2)))"

definition clean_sides :: "string \<Rightarrow> string" where
  "clean_sides t = filter (\<lambda>c. c \<in> {CHR ''t'', CHR ''r'', CHR ''b'', CHR ''l''}) (to_lower t)"

definition patchBorderAt :: "string \<Rightarrow> string \<Rightarrow> sheet \<Rightarrow> sheet" where
  "patchBorderAt ad sides s =
     (if sheetId s = None \<or> ad = [] then s
      else
        (let k = to_upper ad; cleaned = clean_sides sides;
             c = (style_base s ad)\<lparr>border := (cleaned \<noteq> []), border_sides := cleaned\<rparr>
         in sendSheetOp (Set_cell_style k (no_style\<lparr>sp_border := Some (cleaned \<noteq> []), sp_sides := Some cleaned\<rparr>))
              (s\<lparr>cells := upsert k c (cells s)\<rparr>)))"

definition range_cells :: "cell_range \<Rightarrow> (nat \<times> nat) list" where
  "range_cells m = concat (map (\<lambda>r. map (\<lambda>c. (c, r)) [c1 m..<Suc (c2 m)]) [r1 m..<Suc (r2 m)])"

definition outer_sides :: "cell_range \<Rightarrow> nat \<Rightarrow> nat \<Rightarrow> string" where
  "outer_sides m c r =
     (if r = r1 m then ''t'' else []) @ (if r = r2 m then ''b'' else [])
     @ (if c = c1 m then ''l'' else []) @ (if c = c2 m then ''r'' else [])"

definition applyBorderPreset :: "string \<Rightarrow> sheet \<Rightarrow> sheet" where
  "applyBorderPreset preset s =
     (if sheetId s = None then need_sheet s
      else (case (case currentSelectionRange s of Some m \<Rightarrow> Some m | None \<Rightarrow> parseRangeStr (activeAddr s)) of
              None \<Rightarrow> s
            | Some m \<Rightarrow>
                (let outer = (preset = ''tblr-outer''); sides = clean_sides preset;
                     s1 = fold (\<lambda>(c, r). patchBorderAt (makeAddr c r) (if outer then outer_sides m c r else sides))
                            (range_cells m) s
                 in paintGridValues (show_status
                      (if outer then ''Outer borders applied''
                       else if sides \<noteq> [] then ''Borders: '' @ sides else ''Borders cleared'') False s1))))"

section \<open>Rows and columns, sorting\<close>

definition insertRowAtActive :: "sheet \<Rightarrow> sheet" where
  "insertRowAtActive s =
     (case parseAddr (activeAddr s) of None \<Rightarrow> s
      | Some p \<Rightarrow> if sheetId s = None then s
                   else show_status (''Inserting row '' @ nat_str (a_row p)) False
                          (scheduleRefresh (sendSheetOp (Insert_row (a_row p)) s)))"

definition insertColAtActive :: "sheet \<Rightarrow> sheet" where
  "insertColAtActive s =
     (case parseAddr (activeAddr s) of None \<Rightarrow> s
      | Some p \<Rightarrow> if sheetId s = None then s
                   else show_status ''Inserting column'' False
                          (scheduleRefresh (sendSheetOp (Insert_col (a_col p + 1)) s)))"

definition deleteRowAtActive :: "sheet \<Rightarrow> sheet" where
  "deleteRowAtActive s =
     (case parseAddr (activeAddr s) of None \<Rightarrow> s
      | Some p \<Rightarrow> if sheetId s = None then s else scheduleRefresh (sendSheetOp (Delete_row (a_row p)) s))"

definition deleteColAtActive :: "sheet \<Rightarrow> sheet" where
  "deleteColAtActive s =
     (case parseAddr (activeAddr s) of None \<Rightarrow> s
      | Some p \<Rightarrow> if sheetId s = None then s else scheduleRefresh (sendSheetOp (Delete_col (a_col p + 1)) s))"

definition sortActiveColumn :: "bool \<Rightarrow> sheet \<Rightarrow> sheet" where
  "sortActiveColumn asc s =
     (if sheetId s = None then need_sheet s
      else if sheetProtected s then show_status ''Sheet is protected - unprotect to sort'' True s
      else (case parseAddr (activeAddr s) of None \<Rightarrow> s
            | Some p \<Rightarrow> scheduleRefresh (show_status
                ((if asc then ''Sorting rows A-Z by column '' else ''Sorting rows Z-A by column '')
                 @ colLetter (a_col p) @ ''...'') False (sendSheetOp (Sort_range (a_col p + 1) asc) s))))"

end
