(* ===== verification/Tables_Data.thy ===== *)
theory Tables_Data
  imports Tables_Edit "HOL-Library.Product_Lexorder"
begin

text \<open>
  Data commands of the spreadsheet client (\<open>ui/tables/web/app.js\<close>): the row filter, the
  cell search, CSV export, scenarios, consolidation and subtotals.
\<close>

section \<open>Filter\<close>

definition matchFilterClause :: "num_fmt \<Rightarrow> sheet \<Rightarrow> nat \<Rightarrow> clause \<Rightarrow> bool" where
  "matchFilterClause F s row cl =
     (let t = js_trim (displayFor F s (makeAddr (cl_col cl) row));
          mode = (if cl_mode cl = [] then ''contains'' else cl_mode cl);
          v = js_trim (cl_value cl)
      in if mode = ''empty'' then t = []
         else if mode = ''notempty'' then t \<noteq> []
         else if mode = ''equals'' then to_lower t = to_lower v
         else str_includes (to_lower v) (to_lower t))"

definition search_text :: "num_fmt \<Rightarrow> sheet \<Rightarrow> string \<Rightarrow> string" where
  "search_text F s ad = to_lower (displayFor F s ad @ '' '' @ formulaFor s ad)"

definition rowMatchesFilter :: "num_fmt \<Rightarrow> sheet \<Rightarrow> nat \<Rightarrow> bool" where
  "rowMatchesFilter F s row =
     (case filterOpts s of
        Some f \<Rightarrow> matchFilterClause F s row (f_clause f)
                   \<and> (case f_and f of None \<Rightarrow> True | Some cl \<Rightarrow> matchFilterClause F s row cl)
      | None \<Rightarrow>
          (let q = to_lower (js_trim (filterText s))
           in q = [] \<or> list_ex (\<lambda>ad. (case parseAddr ad of None \<Rightarrow> False
                | Some p \<Rightarrow> a_row p = row \<and> str_includes q (search_text F s ad))) (map fst (cells s))))"

text \<open>Closing the filter dialog: \<open>clear\<close>, \<open>apply\<close> with the values of its inputs.\<close>

definition filter_clear :: "sheet \<Rightarrow> sheet" where
  "filter_clear s =
     show_status ''Filter cleared'' False (sendSheetOp (Set_filter None) (s\<lparr>filterOpts := None, filterText := []\<rparr>))"

definition filter_apply :: "clause \<Rightarrow> clause \<Rightarrow> sheet \<Rightarrow> sheet" where
  "filter_apply cl andc s =
     (let f = \<lparr> f_clause = cl, f_and = (if js_trim (cl_value andc) \<noteq> [] then Some andc else None) \<rparr>
      in show_status (''Filter options applied (col '' @ colLetter (cl_col cl) @ '')'') False
           (sendSheetOp (Set_filter (Some f)) (s\<lparr>filterOpts := Some f, filterText := []\<rparr>)))"

section \<open>Search\<close>

text \<open>Keys of the cell object are cell addresses, ordered by row and then by column.\<close>

definition addr_rank :: "string \<Rightarrow> nat \<times> nat" where
  "addr_rank ad = (case parseAddr ad of Some p \<Rightarrow> (a_row p, a_col p) | None \<Rightarrow> (0, 0))"

definition find_matches :: "num_fmt \<Rightarrow> string \<Rightarrow> sheet \<Rightarrow> string list" where
  "find_matches F q s =
     filter (\<lambda>ad. str_includes q (search_text F s ad)) (sort_key addr_rank (map fst (cells s)))"

definition findNextCell :: "num_fmt \<Rightarrow> string \<Rightarrow> sheet \<Rightarrow> sheet" where
  "findNextCell F input s =
     (let q = to_lower (js_trim input)
      in if q = [] then s
         else
           (let s1 = (if q \<noteq> lastFindCellQ s
                      then s\<lparr>findCellMatches := find_matches F q s, lastFindCellQ := q, findCellCursor := -1\<rparr>
                      else s)
            in if findCellMatches s1 = [] then show_status ''No matches'' True s1
               else
                 (let cur = (findCellCursor s1 + 1) mod int (length (findCellMatches s1))
                  in show_status (''Match '' @ int_str (cur + 1) @ '' of '' @ nat_str (length (findCellMatches s1)))
                       False (paintSelection (renderGrid
                         (s1\<lparr>findCellCursor := cur, activeAddr := findCellMatches s1 ! nat cur\<rparr>))))))"

section \<open>CSV\<close>

abbreviation QUOTE :: char where "QUOTE \<equiv> CHR 0x22"
abbreviation CR :: char where "CR \<equiv> CHR 0x0D"
abbreviation LF :: char where "LF \<equiv> CHR 0x0A"

definition csv_special :: "char \<Rightarrow> bool" where
  "csv_special c \<longleftrightarrow> c = QUOTE \<or> c = CHR '','' \<or> c = LF \<or> c = CR"

definition csvEscape :: "string \<Rightarrow> string" where
  "csvEscape v =
     (if list_ex csv_special v
      then QUOTE # concat (map (\<lambda>c. if c = QUOTE then [QUOTE, QUOTE] else [c]) v) @ [QUOTE] else v)"

definition used_extent :: "cells \<Rightarrow> nat \<times> nat" where
  "used_extent cs =
     fold (\<lambda>ad (mr, mc). (case parseAddr ad of None \<Rightarrow> (mr, mc)
             | Some p \<Rightarrow> (max mr (a_row p), max mc (a_col p)))) (map fst cs) (1, 0)"

definition csv_values :: "num_fmt \<Rightarrow> sheet \<Rightarrow> string list list" where
  "csv_values F s =
     (let (mr, mc) = used_extent (cells s);
          maxR = min mr CAPACITY_ROWS; maxC = min mc (CAPACITY_COLS - 1)
      in map (\<lambda>r. map (\<lambda>c. displayFor F s (makeAddr c r)) [0..<Suc maxC]) [1..<Suc maxR])"

definition csv_text :: "string list list \<Rightarrow> string" where
  "csv_text rows = str_join [CR, LF] (map (\<lambda>row. str_join '','' (map csvEscape row)) rows) @ [CR, LF]"

text \<open>\<open>None\<close> when there is no sheet, else the text of the downloaded file.\<close>

definition exportCsv :: "num_fmt \<Rightarrow> sheet \<Rightarrow> string option" where
  "exportCsv F s = (if sheetId s = None then None else Some (csv_text (csv_values F s)))"

section \<open>Scenarios\<close>

definition persistScenarios :: "sheet \<Rightarrow> sheet" where
  "persistScenarios s =
     sendSheetOp (Set_scenarios (scenariosStore s)) (upd_active_tab (\<lambda>t. t\<lparr>t_scenarios := scenariosStore s\<rparr>) s)"

definition scenario_text :: "cell \<Rightarrow> string" where
  "scenario_text c = (if formula c \<noteq> [] then formula c else or_empty (c_value c))"

definition column_snapshot :: "nat \<Rightarrow> sheet \<Rightarrow> snapshot" where
  "column_snapshot col s =
     List.map_filter (\<lambda>ad. (case parseAddr ad of None \<Rightarrow> None
        | Some p \<Rightarrow> if a_col p = col \<and> scenario_text (cellOf s ad) \<noteq> []
                    then Some (ad, scenario_text (cellOf s ad)) else None)) (map fst (cells s))"

definition saveActiveColumnScenario :: "string \<Rightarrow> sheet \<Rightarrow> bool \<times> sheet" where
  "saveActiveColumnScenario name s =
     (let n = js_trim name
      in if n = [] then (False, show_status ''Scenario name required'' True s)
         else (case parseAddr (activeAddr s) of None \<Rightarrow> (False, s)
               | Some p \<Rightarrow>
                   (let snap = column_snapshot (a_col p) s
                    in (True, show_status (''Scenario saved: '' @ n @ '' ('' @ nat_str (length snap) @ '' cells)'') False
                          (persistScenarios (s\<lparr>scenariosStore := upsert n snap (scenariosStore s)\<rparr>))))))"

definition applyScenario :: "string \<Rightarrow> sheet \<Rightarrow> bool \<times> sheet" where
  "applyScenario name s =
     (let n = js_trim name
      in (case map_of (scenariosStore s) n of
            None \<Rightarrow> (False, show_status ''Scenario not found'' True s)
          | Some snap \<Rightarrow>
              (True, show_status (''Scenario applied: '' @ n) False
                 (paintGridValues (fold (\<lambda>(ad, v). commitCell ad v) snap s)))))"

section \<open>Consolidation\<close>

text \<open>\<open>sum_text\<close> is the sum of the parsed texts (0 for a text that is no number), printed.\<close>

definition cellsMapForSheetRef :: "string \<Rightarrow> sheet \<Rightarrow> cells option" where
  "cellsMapForSheetRef sheetRef s =
     (let r = js_trim sheetRef
      in if r = [] \<or> to_lower r = ''active'' then Some (cells s)
         else
           (let idx = (case find_index (\<lambda>n. to_lower n = to_lower r) (sheetTabNames s) of
                         Some i \<Rightarrow> int i
                       | None \<Rightarrow> (case parse_int r of Some n \<Rightarrow> n | None \<Rightarrow> -1))
            in if idx < 0 \<or> idx \<ge> int (length (sheets s)) then None
               else Some (t_cells (sheets s ! nat idx))))"

definition range_corners :: "string \<Rightarrow> (addr \<times> addr) option" where
  "range_corners rng =
     (let parts = split_char CHR '':'' (to_upper rng)
      in (case (parseAddr (hd parts), parseAddr (second_part parts)) of
            (Some a, Some b) \<Rightarrow> Some (a, b) | _ \<Rightarrow> None))"

definition collectRangeValues :: "num_fmt \<Rightarrow> sheet \<Rightarrow> string \<Rightarrow> string list option" where
  "collectRangeValues F s rng =
     map_option (\<lambda>(a, b). map (\<lambda>(c, r). let ad = makeAddr c r; d = displayFor F s ad
                                        in if d \<noteq> [] then d else or_empty (c_value (cellOf s ad)))
                    (range_cells (make_range a b))) (range_corners rng)"

definition collectRangeValuesFromMap :: "string \<Rightarrow> cells \<Rightarrow> string list option" where
  "collectRangeValuesFromMap rng cs =
     map_option (\<lambda>(a, b). map (\<lambda>(c, r). (case cell_in cs (makeAddr c r) of
                                            Some x \<Rightarrow> or_empty (c_value x) | None \<Rightarrow> []))
                    (range_cells (make_range a b))) (range_corners rng)"

definition runConsolidate :: "num_fmt \<Rightarrow> (string list \<Rightarrow> string) \<Rightarrow> string \<Rightarrow> string \<Rightarrow> string \<Rightarrow> sheet \<Rightarrow> sheet" where
  "runConsolidate F sum_text sheetRef rng targetAddr s =
     (let t = to_upper (js_trim targetAddr)
      in if parseAddr t = None then show_status ''Consolidate: bad target'' True s
         else (case cellsMapForSheetRef sheetRef s of
                 None \<Rightarrow> show_status ''Consolidate: unknown sheet (use active, name, or index)'' True s
               | Some cs \<Rightarrow>
                   (let r = js_trim sheetRef;
                        act = (r = [] \<or> to_lower r = ''active'')
                    in (case (if act then collectRangeValues F s rng else collectRangeValuesFromMap rng cs) of
                          None \<Rightarrow> show_status ''Consolidate: bad range'' True s
                        | Some vals \<Rightarrow>
                            show_status (''Consolidated sum '' @ sum_text vals @ '' -> '' @ t) False
                              (paintGridValues (commitCell t (sum_text vals) s))))))"

section \<open>Subtotals\<close>

definition has_data :: "num_fmt \<Rightarrow> sheet \<Rightarrow> nat \<Rightarrow> nat \<Rightarrow> bool" where
  "has_data F s vcol r =
     (let raw = displayFor F s (makeAddr vcol r)
      in (raw \<noteq> [] \<and> \<not> float_nan raw) \<or> formulaFor s (makeAddr vcol r) \<noteq> []
         \<or> (vcol > 0 \<and> displayFor F s (makeAddr (vcol - 1) r) \<noteq> []))"

text \<open>The first and the last row of the first block of rows with data.\<close>

fun scan_block :: "(nat \<Rightarrow> bool) \<Rightarrow> nat list \<Rightarrow> (nat \<times> nat) option \<Rightarrow> (nat \<times> nat) option" where
  "scan_block P [] b = b"
| "scan_block P (r # rs) None = scan_block P rs (if P r then Some (r, r) else None)"
| "scan_block P (r # rs) (Some (a, z)) = (if P r then scan_block P rs (Some (a, r)) else Some (a, z))"

record group =
  g_label :: string
  g_from :: nat
  g_to :: nat

fun group_loop :: "(nat \<Rightarrow> string) \<Rightarrow> nat \<Rightarrow> string \<Rightarrow> nat \<Rightarrow> nat list \<Rightarrow> group list" where
  "group_loop lab gstart glab z [] = [\<lparr> g_label = glab, g_from = gstart, g_to = z \<rparr>]"
| "group_loop lab gstart glab z (r # rs) =
     (if lab r \<noteq> glab
      then \<lparr> g_label = glab, g_from = gstart, g_to = r - 1 \<rparr> # group_loop lab r (lab r) z rs
      else group_loop lab gstart glab z rs)"

definition group_label :: "num_fmt \<Rightarrow> sheet \<Rightarrow> nat \<Rightarrow> nat \<Rightarrow> string" where
  "group_label F s gcol r =
     (let d = displayFor F s (makeAddr gcol r) in if d = [] then ''(blank)'' else d)"

definition subtotal_groups :: "num_fmt \<Rightarrow> sheet \<Rightarrow> nat \<Rightarrow> nat \<Rightarrow> nat \<Rightarrow> group list" where
  "subtotal_groups F s vcol a z =
     (if vcol > 0 then group_loop (group_label F s (vcol - 1)) a (group_label F s (vcol - 1) a) z [Suc a..<Suc z]
      else [\<lparr> g_label = ''Subtotal'', g_from = a, g_to = z \<rparr>])"

fun write_groups :: "nat \<Rightarrow> nat \<Rightarrow> group list \<Rightarrow> sheet \<Rightarrow> sheet" where
  "write_groups vcol out [] s = s"
| "write_groups vcol out (g # gs) s =
     (let l = colLetter vcol;
          f = ''=SUM('' @ l @ nat_str (g_from g) @ '':'' @ l @ nat_str (g_to g) @ '')'';
          lad = makeAddr (if vcol > 0 then vcol - 1 else 1) out
      in write_groups vcol (Suc out) gs
           (commitCell (makeAddr vcol out) f (commitCell lad (g_label g @ '' total'') s)))"

definition insertSubtotalLite :: "num_fmt \<Rightarrow> sheet \<Rightarrow> sheet" where
  "insertSubtotalLite F s =
     (if sheetId s = None then need_sheet s
      else if sheetProtected s then show_status ''Sheet is protected - unprotect to edit'' True s
      else (case parseAddr (activeAddr s) of None \<Rightarrow> s
            | Some p \<Rightarrow>
                (let vcol = a_col p;
                     scanMax = min CAPACITY_ROWS (fst (used_extent (cells s)))
                 in (case scan_block (has_data F s vcol) [1..<Suc scanMax] None of
                       None \<Rightarrow> show_status ''Subtotal: no contiguous data in active column'' True s
                     | Some (a, z) \<Rightarrow>
                         (let gs = subtotal_groups F s vcol a z
                          in show_status (''Subtotal: '' @ nat_str (length gs) @ '' group(s) below data - '' @ colLetter vcol)
                               False (paintGridValues (write_groups vcol (Suc z) gs s)))))))"

end
