(* ===== verification/Tables_Laws.thy ===== *)
theory Tables_Laws
  imports Tables_Data "HOL-Library.Multiset"
begin

text \<open>
  Laws of the spreadsheet client: protected cells, the CSV file, subtotal groups, references
  in filled formulas, the selection and the sheet tabs.
\<close>

section \<open>Protected cells\<close>

text \<open>
  A store of cells with locked keys: writing leaves every other key and every locked key as
  it is and changes no lock. Then no sequence of writes changes a locked key.
\<close>

locale locked_store =
  fixes look :: "'s \<Rightarrow> 'k \<Rightarrow> 'c option"
    and put :: "'k \<Rightarrow> 'v \<Rightarrow> 's \<Rightarrow> 's"
    and locked :: "'s \<Rightarrow> 'k \<Rightarrow> bool"
  assumes write_other: "j \<noteq> k \<Longrightarrow> look (put k v s) j = look s j"
    and write_locked: "locked s k \<Longrightarrow> look (put k v s) k = look s k"
    and write_locks: "locked (put k v s) j = locked s j"
begin

lemma write_keeps: "locked s j \<Longrightarrow> look (put k v s) j = look s j"
  using write_other write_locked by (cases "j = k") auto

lemma writes_keep: "locked s j \<Longrightarrow> look (fold (\<lambda>(k, v). put k v) kvs s) j = look s j
    \<and> locked (fold (\<lambda>(k, v). put k v) kvs s) j"
  by (induction kvs arbitrary: s) (auto simp: write_keeps write_locks)

end

lemma commitCell_prot [simp]:
  "sheetProtected (commitCell ad raw s) = sheetProtected s" "protectedRanges (commitCell ad raw s) = protectedRanges s"
  by (simp_all add: commitCell_def Let_def)

lemma commitCell_look:
  "map_of (cells (commitCell ad raw s)) j =
     (if j = ad \<and> \<not> isAddrProtected s ad then map_of (cells (commitCell ad raw s)) ad else map_of (cells s) j)"
  by (auto simp: commitCell_def Let_def)

interpretation sheet_cells: locked_store "\<lambda>s. map_of (cells s)" commitCell isAddrProtected
proof
  fix j k v s
  show "j \<noteq> k \<Longrightarrow> map_of (cells (commitCell k v s)) j = map_of (cells s) j"
    using commitCell_look [of k v s j] by simp
  show "isAddrProtected s k \<Longrightarrow> map_of (cells (commitCell k v s)) k = map_of (cells s) k"
    using commitCell_look [of k v s k] by simp
  show "isAddrProtected (commitCell k v s) j = isAddrProtected s j"
    by (rule prot_cong) simp_all
qed

text \<open>The bulk commands are sequences of commits.\<close>

lemma fill_down_writes: "\<exists>kvs. fill_down_loop p src is s = fold (\<lambda>(k, v). commitCell k v) kvs s"
proof (induction "is" arbitrary: s)
  case Nil
  then show ?case by (intro exI [of _ "[]"]) simp
next
  case (Cons i rest)
  let ?k = "makeAddr (a_col p) (a_row p + i)"
  let ?v = "if formula src \<noteq> [] then adjustFormulaRows (formula src) (int i) else source_text src"
  obtain kvs where k: "fill_down_loop p src rest (commitCell ?k ?v s) = fold (\<lambda>(k, v). commitCell k v) kvs (commitCell ?k ?v s)"
    using Cons by blast
  show ?case
  proof (cases "a_row p + i > CAPACITY_ROWS")
    case True
    then show ?thesis by (intro exI [of _ "[]"]) simp
  next
    case False
    with k show ?thesis by (intro exI [of _ "(?k, ?v) # kvs"]) simp
  qed
qed

lemma fill_right_writes: "\<exists>kvs. fill_right_loop p src is s = fold (\<lambda>(k, v). commitCell k v) kvs s"
proof (induction "is" arbitrary: s)
  case Nil
  then show ?case by (intro exI [of _ "[]"]) simp
next
  case (Cons i rest)
  let ?k = "makeAddr (a_col p + i) (a_row p)"
  let ?v = "if formula src \<noteq> [] then formula src else source_text src"
  obtain kvs where k: "fill_right_loop p src rest (commitCell ?k ?v s) = fold (\<lambda>(k, v). commitCell k v) kvs (commitCell ?k ?v s)"
    using Cons by blast
  show ?case
  proof (cases "a_col p + i \<ge> CAPACITY_COLS")
    case True
    then show ?thesis by (intro exI [of _ "[]"]) simp
  next
    case False
    with k show ?thesis by (intro exI [of _ "(?k, ?v) # kvs"]) simp
  qed
qed

lemma write_groups_writes: "\<exists>kvs. write_groups vcol out gs s = fold (\<lambda>(k, v). commitCell k v) kvs s"
proof (induction gs arbitrary: out s)
  case Nil
  then show ?case by (intro exI [of _ "[]"]) simp
next
  case (Cons g gs)
  let ?f = "''=SUM('' @ colLetter vcol @ nat_str (g_from g) @ '':'' @ colLetter vcol @ nat_str (g_to g) @ '')''"
  let ?l = "makeAddr (if vcol > 0 then vcol - 1 else 1) out"
  let ?s = "commitCell (makeAddr vcol out) ?f (commitCell ?l (g_label g @ '' total'') s)"
  obtain kvs where "write_groups vcol (Suc out) gs ?s = fold (\<lambda>(k, v). commitCell k v) kvs ?s"
    using Cons by blast
  then show ?case
    by (intro exI [of _ "(?l, g_label g @ '' total'') # (makeAddr vcol out, ?f) # kvs"]) (simp add: Let_def)
qed

text \<open>Commands that change cells only through \<open>commitCell\<close>.\<close>

definition commits_only :: "sheet \<Rightarrow> sheet \<Rightarrow> bool" where
  "commits_only s s' \<longleftrightarrow> (\<exists>kvs. cells s' = cells (fold (\<lambda>(k, v). commitCell k v) kvs s))"

lemma commits_onlyI: "\<exists>kvs. t = fold (\<lambda>(k, v). commitCell k v) kvs s \<Longrightarrow> cells s' = cells t \<Longrightarrow> commits_only s s'"
  by (auto simp: commits_only_def)

lemma commits_only_same: "cells s' = cells s \<Longrightarrow> commits_only s s'"
  unfolding commits_only_def by (intro exI [of _ "[]"]) simp

lemma commits_only_one: "cells s' = cells (commitCell ad v s) \<Longrightarrow> commits_only s s'"
  unfolding commits_only_def by (intro exI [of _ "[(ad, v)]"]) simp

lemma fill_active_commits:
  assumes "\<And>p src is s. \<exists>kvs. loop p src is s = fold (\<lambda>(k, v). commitCell k v) kvs s"
  shows "commits_only s (fill_active loop msg s)"
proof -
  have "commits_only s (show_status msg False (loop p src ks s))" for p src ks
    by (rule commits_onlyI [OF assms]) simp
  then show ?thesis by (auto simp: fill_active_def Let_def intro: commits_only_same split: option.split)
qed

lemma bulk_commits:
  "commits_only s (fillDownActive s)" "commits_only s (fillRightActive s)" "commits_only s (clearActiveCell s)"
  "commits_only s (snd (applyScenario name s))" "commits_only s (insertSubtotalLite F s)"
  "commits_only s (runConsolidate F sm sref rng t s)"
proof -
  show "commits_only s (fillDownActive s)" "commits_only s (fillRightActive s)"
    unfolding fillDownActive_def fillRightActive_def
    by (rule fill_active_commits, rule fill_down_writes, rule fill_active_commits, rule fill_right_writes)
  show "commits_only s (clearActiveCell s)"
    by (auto simp: clearActiveCell_def intro: commits_only_same commits_only_one)
  show "commits_only s (snd (applyScenario name s))"
    by (auto simp: applyScenario_def Let_def commits_only_def intro: exI [of _ "[]"] split: option.split)
  show "commits_only s (insertSubtotalLite F s)"
    by (auto simp: insertSubtotalLite_def Let_def intro: commits_only_same commits_onlyI [OF write_groups_writes] split: option.split)
  show "commits_only s (runConsolidate F sm sref rng t s)"
    by (auto simp: runConsolidate_def Let_def intro: commits_only_same commits_only_one split: option.split)
qed

lemma commits_only_locked:
  assumes "commits_only s s'" "isAddrProtected s ad"
  shows "map_of (cells s') ad = map_of (cells s) ad"
proof -
  from assms(1) obtain kvs where "cells s' = cells (fold (\<lambda>(k, v). commitCell k v) kvs s)"
    by (auto simp: commits_only_def)
  with sheet_cells.writes_keep [OF assms(2), of kvs] show ?thesis by simp
qed

section \<open>The CSV file\<close>

text \<open>Reading a CSV text (RFC 4180): the specification the export is compared with.\<close>

datatype csv_mode = Field_start | Plain | Quoted | Quote_seen

fun csv_read :: "csv_mode \<Rightarrow> string \<Rightarrow> string list \<Rightarrow> string \<Rightarrow> string list list" where
  "csv_read m acc row [] = (if acc = [] \<and> row = [] then [] else [row @ [acc]])"
| "csv_read Quoted acc row (c # s) =
     (if c = QUOTE then csv_read Quote_seen acc row s else csv_read Quoted (acc @ [c]) row s)"
| "csv_read m acc row (c # s) =
     (if m = Quote_seen \<and> c = QUOTE then csv_read Quoted (acc @ [c]) row s
      else if m = Field_start \<and> c = QUOTE then csv_read Quoted [] row s
      else if c = CHR '','' then csv_read Field_start [] (row @ [acc]) s
      else if c = CR then csv_read m acc row s
      else if c = LF then (row @ [acc]) # csv_read Field_start [] [] s
      else csv_read Plain (acc @ [c]) row s)"

lemma csv_read_plain:
  "\<not> list_ex csv_special v \<Longrightarrow> v \<noteq> [] \<Longrightarrow> m = Field_start \<or> m = Plain \<Longrightarrow>
     csv_read m acc row (v @ s) = csv_read Plain (acc @ v) row s"
proof (induction v arbitrary: acc m)
  case (Cons c v)
  then have c: "c \<noteq> QUOTE" "c \<noteq> CHR '',''" "c \<noteq> LF" "c \<noteq> CR" by (auto simp: csv_special_def)
  then have "csv_read m acc row ((c # v) @ s) = csv_read Plain (acc @ [c]) row (v @ s)"
    using Cons.prems(3) by auto
  with Cons show ?case by (cases "v = []") auto
qed simp

lemma csv_read_quoted:
  "csv_read Quoted acc row (concat (map (\<lambda>c. if c = QUOTE then [QUOTE, QUOTE] else [c]) v) @ QUOTE # s)
     = csv_read Quote_seen (acc @ v) row s"
  by (induction v arbitrary: acc) auto

lemma csv_read_field:
  "\<exists>m. m \<noteq> Quoted \<and> csv_read Field_start [] row (csvEscape v @ s) = csv_read m v row s \<and> (v = [] \<or> m \<noteq> Field_start)"
proof (cases "list_ex csv_special v")
  case True
  then have "csv_read Field_start [] row (csvEscape v @ s) = csv_read Quote_seen v row s"
    using csv_read_quoted [of "[]" row v s] by (simp add: csvEscape_def)
  then show ?thesis by (intro exI [of _ Quote_seen]) simp
next
  case False
  then show ?thesis
    using csv_read_plain [OF False, of Field_start "[]" row s]
    by (cases "v = []") (auto simp: csvEscape_def intro: exI [of _ Plain] exI [of _ Field_start])
qed

lemma csv_read_ends:
  "m \<noteq> Quoted \<Longrightarrow> csv_read m v row (CHR '','' # s) = csv_read Field_start [] (row @ [v]) s"
  "m \<noteq> Quoted \<Longrightarrow> csv_read m v row (CR # LF # s) = (row @ [v]) # csv_read Field_start [] [] s"
  by (cases m; simp)+

lemma csv_read_row:
  "vs \<noteq> [] \<Longrightarrow> csv_read Field_start [] row (str_join '','' (map csvEscape vs) @ CR # LF # s)
     = (row @ vs) # csv_read Field_start [] [] s"
proof (induction vs arbitrary: row)
  case (Cons v vs)
  show ?case
  proof (cases vs)
    case Nil
    obtain m where "m \<noteq> Quoted" "csv_read Field_start [] row (csvEscape v @ CR # LF # s) = csv_read m v row (CR # LF # s)"
      using csv_read_field by blast
    with Nil show ?thesis by (simp add: csv_read_ends)
  next
    case (Cons w ws)
    let ?rest = "str_join '','' (map csvEscape vs) @ CR # LF # s"
    obtain m where "m \<noteq> Quoted" "csv_read Field_start [] row (csvEscape v @ CHR '','' # ?rest) = csv_read m v row (CHR '','' # ?rest)"
      using csv_read_field by blast
    with Cons Cons.IH [of "row @ [v]"] show ?thesis by (simp add: csv_read_ends)
  qed
qed simp

lemma csv_text_rows: "rows \<noteq> [] \<Longrightarrow> csv_text (r # rows) = str_join '','' (map csvEscape r) @ CR # LF # csv_text rows"
  by (cases rows) (simp_all add: csv_text_def)

lemma csv_roundtrip: "rows \<noteq> [] \<Longrightarrow> \<forall>r\<in>set rows. r \<noteq> [] \<Longrightarrow> csv_read Field_start [] [] (csv_text rows) = rows"
proof (induction rows)
  case (Cons r rows)
  show ?case
  proof (cases "rows = []")
    case True
    then show ?thesis using Cons.prems csv_read_row [of r "[]" "[]"] by (simp add: csv_text_def)
  next
    case False
    with Cons csv_read_row [of r "[]" "csv_text rows"] show ?thesis by (simp add: csv_text_rows)
  qed
qed simp

lemma used_extent_row: "1 \<le> fst (used_extent cs)"
proof -
  have "1 \<le> fst (fold (\<lambda>ad (mr, mc). (case parseAddr ad of None \<Rightarrow> (mr, mc)
             | Some p \<Rightarrow> (max mr (a_row p), max mc (a_col p)))) ks (a, b))" if "1 \<le> a" for ks and a b :: nat
    using that by (induction ks arbitrary: a b) (auto split: option.split)
  then show ?thesis by (simp add: used_extent_def)
qed

lemma csv_values_shape: "csv_values F s \<noteq> [] \<and> (\<forall>r\<in>set (csv_values F s). r \<noteq> [])"
proof -
  obtain mr mc where e: "used_extent (cells s) = (mr, mc)" by (cases "used_extent (cells s)")
  then have "1 \<le> mr" using used_extent_row [of "cells s"] by simp
  then have "1 \<le> min mr CAPACITY_ROWS" by (simp add: CAPACITY_ROWS_def)
  with e show ?thesis by (auto simp: csv_values_def Let_def)
qed

section \<open>Subtotal groups\<close>

lemma group_loop_props:
  assumes "\<forall>r. gstart \<le> r \<and> r < k \<longrightarrow> lab r = glab" "gstart < k" "k \<le> Suc z"
  shows "let gs = group_loop lab gstart glab z [k..<Suc z]
    in concat (map (\<lambda>g. [g_from g..<Suc (g_to g)]) gs) = [gstart..<Suc z]
       \<and> (\<forall>g\<in>set gs. g_from g \<le> g_to g \<and> (\<forall>r. g_from g \<le> r \<and> r \<le> g_to g \<longrightarrow> lab r = g_label g))
       \<and> gs \<noteq> [] \<and> g_label (hd gs) = glab \<and> successively (\<lambda>a b. g_label a \<noteq> g_label b) gs"
  using assms
proof (induction "Suc z - k" arbitrary: k gstart glab)
  case 0
  then have "k = Suc z" by simp
  with 0 show ?case by (auto simp: Let_def less_Suc_eq_le)
next
  case (Suc n)
  then have k: "[k..<Suc z] = k # [Suc k..<Suc z]" "k \<le> z" by (auto simp: upt_conv_Cons)
  show ?case
  proof (cases "lab k = glab")
    case True
    have "\<forall>r. gstart \<le> r \<and> r < Suc k \<longrightarrow> lab r = glab" using Suc.prems True by (auto simp: less_Suc_eq)
    moreover have "n = Suc z - Suc k" "gstart < Suc k" "Suc k \<le> Suc z" using Suc k by auto
    ultimately show ?thesis using Suc.hyps(1) [of "Suc k" gstart glab] True k(1) by (simp del: upt_Suc)
  next
    case False
    let ?gs = "group_loop lab k (lab k) z [Suc k..<Suc z]"
    have one: "\<forall>r. k \<le> r \<and> r < Suc k \<longrightarrow> lab r = lab k" by (auto simp: less_Suc_eq)
    have b: "n = Suc z - Suc k" "k < Suc k" "Suc k \<le> Suc z" using Suc k by auto
    have gs: "concat (map (\<lambda>g. [g_from g..<Suc (g_to g)]) ?gs) = [k..<Suc z]"
      "\<forall>g\<in>set ?gs. g_from g \<le> g_to g \<and> (\<forall>r. g_from g \<le> r \<and> r \<le> g_to g \<longrightarrow> lab r = g_label g)"
      "?gs \<noteq> []" "g_label (hd ?gs) = lab k" "successively (\<lambda>a b. g_label a \<noteq> g_label b) ?gs"
      using Suc.hyps(1) [OF b(1) one b(2,3)] unfolding Let_def by blast+
    have "k + (Suc z - k) = Suc z" using Suc.prems(3) by simp
    then have "[gstart..<k] @ [k..<Suc z] = [gstart..<Suc z]"
      using Suc.prems(2) upt_add_eq_append [of gstart k "Suc z - k"] by (simp only: less_imp_le)
    moreover have "Suc (k - 1) = k" using Suc.prems(2) by simp
    ultimately have "concat (map (\<lambda>g. [g_from g..<Suc (g_to g)]) (\<lparr> g_label = glab, g_from = gstart, g_to = k - 1 \<rparr> # ?gs)) = [gstart..<Suc z]"
      using gs(1) by (simp del: upt_Suc)
    moreover have "gstart \<le> k - 1" "\<forall>r. gstart \<le> r \<and> r \<le> k - 1 \<longrightarrow> lab r = glab"
      using Suc.prems by auto
    moreover have "group_loop lab gstart glab z [k..<Suc z] = \<lparr> g_label = glab, g_from = gstart, g_to = k - 1 \<rparr> # ?gs"
      using False k(1) by simp
    ultimately show ?thesis using gs(2-5) False by (simp add: Let_def successively_Cons del: upt_Suc)
  qed
qed

lemma subtotal_partition:
  assumes "a \<le> z"
  shows "concat (map (\<lambda>g. [g_from g..<Suc (g_to g)]) (subtotal_groups F s vcol a z)) = [a..<Suc z]"
    "0 < vcol \<Longrightarrow> g \<in> set (subtotal_groups F s vcol a z) \<Longrightarrow> g_from g \<le> r \<Longrightarrow> r \<le> g_to g \<Longrightarrow>
       group_label F s (vcol - 1) r = g_label g"
    "0 < vcol \<Longrightarrow> successively (\<lambda>a b. g_label a \<noteq> g_label b) (subtotal_groups F s vcol a z)"
proof -
  have "\<forall>r. a \<le> r \<and> r < Suc a \<longrightarrow> group_label F s (vcol - 1) r = group_label F s (vcol - 1) a"
    by (auto simp: less_Suc_eq)
  from group_loop_props [OF this] assms
  show "concat (map (\<lambda>g. [g_from g..<Suc (g_to g)]) (subtotal_groups F s vcol a z)) = [a..<Suc z]"
    "0 < vcol \<Longrightarrow> g \<in> set (subtotal_groups F s vcol a z) \<Longrightarrow> g_from g \<le> r \<Longrightarrow> r \<le> g_to g \<Longrightarrow>
       group_label F s (vcol - 1) r = g_label g"
    "0 < vcol \<Longrightarrow> successively (\<lambda>a b. g_label a \<noteq> g_label b) (subtotal_groups F s vcol a z)"
    by (auto simp: subtotal_groups_def Let_def simp del: upt_Suc)
qed

section \<open>Filled formulas\<close>

lemma is_alpha_upper: "is_upper c \<Longrightarrow> is_alpha c"
  by (simp add: is_alpha_def)

lemma adjust_refs_Nil [simp]: "adjust_refs d [] = []"
  by (subst adjust_refs.simps) simp

lemma adjust_refs_other: "\<not> is_alpha c \<Longrightarrow> adjust_refs d (c # s) = c # adjust_refs d s"
  by (subst adjust_refs.simps) simp

lemma adjust_refs_alpha:
  assumes "s \<noteq> []" "is_alpha (hd s)" "takeWhile is_alpha s = col" "dropWhile is_alpha s = after"
    "takeWhile is_digit after = row" "dropWhile is_digit after = rest" "row \<noteq> []" "1 \<le> int (digits_val row) + d"
  shows "adjust_refs d s = to_upper col @ int_str (int (digits_val row) + d) @ adjust_refs d rest"
  using assms by (subst adjust_refs.simps) (auto simp: Let_def split: list.split)

text \<open>A reference that is not continued by a letter or a digit is moved down by the distance.\<close>

lemma adjust_refs_ref:
  assumes "rest = [] \<or> (\<not> is_digit (hd rest))" "1 \<le> int r + d"
  shows "adjust_refs d (makeAddr c r @ rest) = makeAddr c (nat (int r + d)) @ adjust_refs d rest"
proof -
  have al: "takeWhile is_alpha (makeAddr c r @ rest) = colLetter c"
    "dropWhile is_alpha (makeAddr c r @ rest) = nat_str r @ rest"
  proof -
    obtain x xs where x: "nat_str r = x # xs" by (cases "nat_str r") auto
    then have "\<not> is_alpha x" using nat_str_digits [of x r] is_digit_not_alpha by simp
    moreover have "\<forall>y\<in>set (colLetter c). is_alpha y" using colLetter_upper is_alpha_upper by blast
    ultimately show "takeWhile is_alpha (makeAddr c r @ rest) = colLetter c"
      "dropWhile is_alpha (makeAddr c r @ rest) = nat_str r @ rest"
      using x by (simp_all add: makeAddr_def takeWhile_append2 dropWhile_append2)
  qed
  have dg: "takeWhile is_digit (nat_str r @ rest) = nat_str r" "dropWhile is_digit (nat_str r @ rest) = rest"
    using assms(1) nat_str_digits [of _ r]
    by (cases rest; auto simp: takeWhile_append2 dropWhile_append2 takeWhile_eq_all_conv)+
  have "hd (makeAddr c r @ rest) \<in> set (colLetter c)" by (simp add: makeAddr_def hd_append)
  then have hd: "is_alpha (hd (makeAddr c r @ rest))" using colLetter_upper is_alpha_upper by blast
  have "int_str (int r + d) = nat_str (nat (int r + d))" using assms(2) by (simp add: int_str_def)
  with adjust_refs_alpha [OF _ hd al dg, of d] assms(2) show ?thesis by (simp add: makeAddr_def)
qed

section \<open>Selection\<close>

lemma clamp_pos_within: "within_capacity (clamp_pos c r)"
  by (auto simp: within_capacity_def clamp_pos_def CAPACITY_ROWS_def CAPACITY_COLS_def)

lemma sheet_prim_active [simp]:
  "activeAddr (show_status m b s) = activeAddr s" "activeAddr (sendSheetOp oper s) = activeAddr s"
  "activeAddr (paintSelection s) = activeAddr s" "activeAddr (paintGridValues s) = activeAddr s"
  "activeAddr (renderGrid s) = activeAddr s"
  by (simp_all add: show_status_def sendSheetOp_def broadcastPresenceCell_def paintSelection_def
      paintGridValues_def renderGrid_def)

lemma parse_addr_str [simp]: "parseAddr (addr_str p) = Some p"
  by (cases p) (simp add: addr_str_def)

lemma moveActive_within:
  "\<exists>p. parseAddr (activeAddr (moveActive dc dr ext s)) = Some p \<and> within_capacity p"
  using clamp_pos_within by (simp add: moveActive_def Let_def)

section \<open>Tabs\<close>

lemma mset_move_item:
  assumes "from < length xs"
  shows "mset (move_item from to xs) = mset xs"
proof -
  have "xs = take from xs @ xs ! from # drop (Suc from) xs" using assms by (simp add: id_take_nth_drop)
  then have "mset xs = {#xs ! from#} + mset (splice_del from xs)"
    unfolding splice_del_def by (metis add_mset_add_single mset.simps(2) mset_append union_commute union_mset_add_mset_right)
  moreover have "mset (splice_ins to y ys) = {#y#} + mset ys" for y :: 'a and ys
    unfolding splice_ins_def by (metis add_mset_add_single append_take_drop_id mset.simps(2) mset_append union_commute union_mset_add_mset_right)
  ultimately show ?thesis by (simp add: move_item_def)
qed

lemma move_item_target:
  "from < length xs \<Longrightarrow> to < length xs \<Longrightarrow> move_item from to xs ! to = xs ! from"
  by (simp add: move_item_def splice_ins_def nth_append length_splice_del min_def)

lemma move_item_between:
  assumes "to < from" "from < length xs" "to \<le> i" "i < from"
  shows "move_item from to xs ! Suc i = xs ! i"
proof -
  have "i - to < from - to" using assms by linarith
  with assms show ?thesis by (simp add: move_item_def splice_ins_def splice_del_def nth_append min_def)
qed

end
