(* ===== verification/Tables_Properties.thy ===== *)
theory Tables_Properties
  imports Tables_Laws
begin

text \<open>
  The properties of the spreadsheet client, each with a witness on a concrete sheet.
\<close>

section \<open>A concrete sheet\<close>

definition text_cell :: "string \<Rightarrow> cell" where
  "text_cell t = empty_cell\<lparr>c_value := Some t\<rparr>"

definition plain_fmt :: num_fmt where
  "plain_fmt = \<lparr> to_fixed2 = (\<lambda>s. s), to_percent = (\<lambda>s. s) \<rparr>"

definition sample_sheet :: "cells \<Rightarrow> sheet" where
  "sample_sheet cs = \<lparr> sheetId = Some ''s1'', cells = cs, sheets = [], sheetTabNames = [''P'', ''Q'', ''R''],
     activeSheetIndex = 0, open_ws = True, sent = [], activeAddr = ''A1'', selAnchorAddr = None, editing = False,
     freezeRows = 0, freezeCols = 0, filterText = [], filterOpts = None, sheetProtected = False, cellMerges = [],
     protectedRanges = [], colWidths = [], peerCells = [], me = ''u1'', scenariosStore = [], findCellMatches = [],
     findCellCursor = -1, lastFindCellQ = [], refresh_due = False, shown = [] \<rparr>"

definition two_cells :: cells where
  "two_cells = [(''A1'', text_cell ''x,y''), (''B2'', text_cell ''7'')]"

definition small_window :: window where
  "small_window = \<lparr> startRow = 1, startCol = 0, winRows = 40, winCols = 26 \<rparr>"

section \<open>Addresses and ranges\<close>

text \<open>
  Addresses round-trip: what \<open>makeAddr\<close> prints \<open>parseAddr\<close> reads back, and every non-empty
  upper-case column name is the name \<open>colLetter\<close> gives to its index.
\<close>

theorem tables_addr_roundtrip:
  assumes "s \<noteq> []" "\<forall>x\<in>set s. is_upper x"
  shows "parseAddr (makeAddr c r) = Some \<lparr> a_col = c, a_row = r \<rparr> \<and> colLetter (nat (colIndex s)) = s"
proof -
  have "to_upper s = s" unfolding to_upper_def by (rule map_idI) (use assms(2) upper_char_upper in blast)
  then show ?thesis using colLetter_index [OF assms] by (simp add: colIndex_def)
qed

theorem tables_addr_roundtrip_witness:
  "parseAddr (makeAddr 620 9) = Some \<lparr> a_col = 620, a_row = 9 \<rparr> \<and> colLetter (nat (colIndex ''WW'')) = ''WW''"
proof -
  have "\<forall>x\<in>set ''WW''. is_upper x" by code_simp
  with tables_addr_roundtrip [of "''WW''" 620 9] show ?thesis by simp
qed

text \<open>
  A range is named by its key: reading the key of a parsed range gives the range back,
  and \<open>rangesOverlap\<close> holds exactly when two parsed ranges have a cell in common.
\<close>

theorem tables_range_key:
  assumes "parseRangeStr s = Some a" "parseRangeStr t = Some b"
  shows "parseRangeStr (key a) = Some a
    \<and> (rangesOverlap a b \<longleftrightarrow> (\<exists>c r. in_range c r a \<and> in_range c r b))"
  using parse_range_key rangesOverlap_iff parse_range_wf assms by blast

theorem tables_range_key_witness:
  "\<exists>a b. parseRangeStr ''b3:a1'' = Some a \<and> parseRangeStr ''C3:D4'' = Some b
     \<and> parseRangeStr (key a) = Some a \<and> \<not> (\<exists>c r. in_range c r a \<and> in_range c r b)"
proof -
  let ?a = "\<lparr> c1 = 0, r1 = 1, c2 = 1, r2 = 3, key = ''A1:B3'' \<rparr>"
  let ?b = "\<lparr> c1 = 2, r1 = 3, c2 = 3, r2 = 4, key = ''C3:D4'' \<rparr>"
  have ab: "parseRangeStr ''b3:a1'' = Some ?a" "parseRangeStr ''C3:D4'' = Some ?b" by code_simp+
  moreover have "\<not> rangesOverlap ?a ?b" by code_simp
  ultimately show ?thesis using tables_range_key [OF ab] by blast
qed

section \<open>Merged cells\<close>

text \<open>
  C17. Merged ranges stay apart: merging and unmerging keep the ranges well formed and
  pairwise disjoint, and the list of keys that is stored on the server loads back as the same
  ranges.
\<close>

theorem tables_merges_disjoint:
  assumes "merges_ok (cellMerges s)"
  shows "merges_ok (cellMerges (mergeCellsLite ans s)) \<and> merges_ok (cellMerges (unmergeCellsLite s))
    \<and> cellMerges (loadMergesFromList (map key (cellMerges s)) s) = cellMerges s"
  using merge_ops_ok [OF assms] map_filter_parse assms by (simp add: merges_ok_def loadMergesFromList_def)

theorem tables_merges_disjoint_witness:
  "merges_ok (cellMerges (mergeCellsLite (Some ''B1:C2'') (mergeCellsLite (Some ''A1:B1'') (sample_sheet []))))
   \<and> map key (cellMerges (mergeCellsLite (Some ''B1:C2'') (mergeCellsLite (Some ''A1:B1'') (sample_sheet [])))) = [''B1:C2'']"
proof
  have "merges_ok (cellMerges (mergeCellsLite (Some ''A1:B1'') (sample_sheet [])))" by code_simp
  from tables_merges_disjoint [OF this, of "Some ''B1:C2''"]
  show "merges_ok (cellMerges (mergeCellsLite (Some ''B1:C2'') (mergeCellsLite (Some ''A1:B1'') (sample_sheet []))))" by blast
  show "map key (cellMerges (mergeCellsLite (Some ''B1:C2'') (mergeCellsLite (Some ''A1:B1'') (sample_sheet [])))) = [''B1:C2'']"
    by code_simp
qed

text \<open>
  C18. Which cell is drawn for a position of the window: the first cell of the merged range the
  position lies in, or its own cell, if that cell is in the window, and none otherwise. So when no
  merged range reaches into the window from above or the left, the drawn cells tile the window,
  every position covered by exactly one; and a position of a range whose first cell is scrolled
  out of the window is covered by no cell at all.
\<close>

theorem tables_grid_tiles:
  assumes "merges_ok ms" "in_window w q"
  shows "(\<forall>p. draws ms w p q \<longleftrightarrow> in_window w p \<and> p = cell_owner ms q)
    \<and> (anchored w ms \<longrightarrow> (\<exists>!p. draws ms w p q))
    \<and> (\<forall>m\<in>set ms. in_range (fst q) (snd q) m \<and> \<not> in_window w (c1 m, r1 m) \<longrightarrow> \<not> (\<exists>p. draws ms w p q))"
proof -
  note d = draws_iff [OF assms]
  have "\<not> (\<exists>p. draws ms w p q)" if "m \<in> set ms" "in_range (fst q) (snd q) m" "\<not> in_window w (c1 m, r1 m)" for m
    using d cell_owner_merged [OF assms(1) that(1,2)] that(3) by auto
  moreover have "\<exists>!p. draws ms w p q" if "anchored w ms"
    using d anchored_owner [OF assms(1) that assms(2)] by metis
  ultimately show ?thesis using d by blast
qed

theorem tables_grid_tiles_witness:
  "(\<exists>!p. draws [make_range \<lparr> a_col = 1, a_row = 2 \<rparr> \<lparr> a_col = 3, a_row = 3 \<rparr>] small_window p (2, 3))
    \<and> \<not> (\<exists>p. draws [make_range \<lparr> a_col = 0, a_row = 1 \<rparr> \<lparr> a_col = 0, a_row = 5 \<rparr>] (small_window\<lparr>startRow := 3\<rparr>) p (0, 4))"
proof
  let ?m = "make_range \<lparr> a_col = 1, a_row = 2 \<rparr> \<lparr> a_col = 3, a_row = 3 \<rparr>"
  have "merges_ok [?m]" "in_window small_window (2, 3)" "anchored small_window [?m]" by code_simp+
  then show "\<exists>!p. draws [?m] small_window p (2, 3)" using tables_grid_tiles [of "[?m]" small_window "(2, 3)"] by blast
next
  let ?m = "make_range \<lparr> a_col = 0, a_row = 1 \<rparr> \<lparr> a_col = 0, a_row = 5 \<rparr>" and ?w = "small_window\<lparr>startRow := 3\<rparr>"
  have "merges_ok [?m]" "in_window ?w (0, 4)" "in_range 0 4 ?m" "\<not> in_window ?w (c1 ?m, r1 ?m)" by code_simp+
  then show "\<not> (\<exists>p. draws [?m] ?w p (0, 4))" using tables_grid_tiles [of "[?m]" ?w "(0, 4)"] by auto
qed

section \<open>The window and the selection\<close>

text \<open>
  The virtual window lies within the capacity of the grid, is never empty, and its first
  column starts at or left of the scroll position (column widths are not negative).
\<close>

theorem tables_window_in_capacity:
  assumes "w = updateWindowFromScroll ws st sl h wd" "\<And>k. 0 \<le> colWidthAt ws k"
  shows "1 \<le> startRow w \<and> startRow w + winRows w - 1 \<le> CAPACITY_ROWS \<and> 1 \<le> winRows w
    \<and> startCol w + winCols w - 1 < CAPACITY_COLS \<and> 1 \<le> winCols w
    \<and> gridOffsetLeft ws (startCol w) \<le> max 0 sl"
proof -
  have sc: "startCol w = start_col_loop ws (max 0 sl) 0 0 CAPACITY_COLS"
    unfolding assms(1) updateWindowFromScroll_def Let_def by (simp only: window.select_convs)
  have "gridOffsetLeft ws (startCol w) \<le> max 0 sl"
    unfolding sc by (rule start_col_loop_edge [OF _ _ assms(2)]) (simp_all add: gridOffsetLeft_def)
  then show ?thesis using window_bounds [of ws st sl h wd] unfolding assms(1) by blast
qed

theorem tables_window_in_capacity_witness:
  "gridOffsetLeft [] (startCol (updateWindowFromScroll [] 280 200 600 900)) \<le> 200"
proof -
  have "\<And>k. 0 \<le> colWidthAt [] k" by (simp add: colWidthAt_def SCROLL_COL_W_def)
  from tables_window_in_capacity [OF refl this, of 280 200 600 900] show ?thesis by simp
qed

text \<open>
  Moving the selection never leaves the grid: after \<open>moveActive\<close> the active address is a
  cell within the capacity, and \<open>goToAddr\<close> accepts a single address only within it.
\<close>

theorem tables_move_within_capacity:
  "(\<exists>p. parseAddr (activeAddr (moveActive dc dr ext s)) = Some p \<and> within_capacity p)
   \<and> (fst (goToAddr raw s) \<and> \<not> str_includes '':'' (to_upper (js_trim raw)) \<longrightarrow>
        (\<exists>p. parseAddr (activeAddr (snd (goToAddr raw s))) = Some p \<and> within_capacity p))"
  using moveActive_within [of dc dr ext s]
  by (auto simp: goToAddr_def Let_def split: option.split if_splits)

theorem tables_move_within_capacity_witness:
  "\<exists>p. parseAddr (activeAddr (snd (goToAddr '' ww10 '' (sample_sheet [])))) = Some p \<and> within_capacity p"
proof -
  have "fst (goToAddr '' ww10 '' (sample_sheet []))" "\<not> str_includes '':'' (to_upper (js_trim '' ww10 ''))" by code_simp+
  with tables_move_within_capacity [of 0 0 False "sample_sheet []" "'' ww10 ''"] show ?thesis by blast
qed

section \<open>Editing\<close>

text \<open>
  Protected cells are kept: no commit, fill, clear, scenario, subtotal or consolidation
  changes a cell of a protected sheet or range.
\<close>

theorem tables_protected_cells_kept:
  assumes "isAddrProtected s ad"
    "s' \<in> {commitCell a v s, fillDownActive s, fillRightActive s, clearActiveCell s, snd (applyScenario n s),
            insertSubtotalLite F s, runConsolidate F sm sref rng t s}"
  shows "map_of (cells s') ad = map_of (cells s) ad"
  using assms commits_only_locked [OF _ assms(1)] bulk_commits commits_only_one [of s' a v s] by auto

theorem tables_protected_cells_kept_witness:
  "map_of (cells (fillDownActive ((sample_sheet two_cells)\<lparr>protectedRanges := [''A2:A3'']\<rparr>))) ''A3'' = None"
proof -
  let ?s = "(sample_sheet two_cells)\<lparr>protectedRanges := [''A2:A3'']\<rparr>"
  have "isAddrProtected ?s ''A3''" "map_of (cells ?s) ''A3'' = None" by code_simp+
  with tables_protected_cells_kept [of ?s "''A3''" "fillDownActive ?s"] show ?thesis by simp
qed

text \<open>
  Clearing a cell that holds a value sends the empty text but keeps the old value in the
  local cell.
\<close>

theorem tables_clear_keeps_local_value:
  assumes "\<not> isAddrProtected s ad" "map_of (cells s) ad = Some c" "c_value c = Some v" "v \<noteq> []" "open_ws s"
  shows "map_option c_value (map_of (cells (commitCell ad [] s)) ad) = Some (Some v)
    \<and> sent (commitCell ad [] s) = sent s @ [Set_cell ad [] []]"
  using assms by (simp add: commitCell_def commit_text_def cellOf_def cell_in_def Let_def sendCell_def
      sendSheetOp_def scheduleRefresh_def)

theorem tables_clear_keeps_local_value_witness:
  "map_option c_value (map_of (cells (commitCell ''B2'' [] (sample_sheet two_cells))) ''B2'') = Some (Some ''7'')"
proof -
  let ?s = "sample_sheet two_cells"
  have "\<not> isAddrProtected ?s ''B2''" "map_of (cells ?s) ''B2'' = Some (text_cell ''7'')"
    "c_value (text_cell ''7'') = Some ''7''" "''7'' \<noteq> []" "open_ws ?s" by code_simp+
  from tables_clear_keeps_local_value [OF this] show ?thesis by blast
qed

text \<open>
  Filling down moves a reference by the row distance: an operand before and after an
  operator character is rewritten to the same column in the moved row.
\<close>

theorem tables_fill_moves_references:
  assumes "d \<noteq> 0" "1 \<le> int r + d" "1 \<le> int r' + d" "\<not> is_alpha x" "\<not> is_digit x"
  shows "adjustFormulaRows (''='' @ makeAddr c r @ x # makeAddr c' r') d
    = ''='' @ makeAddr c (nat (int r + d)) @ x # makeAddr c' (nat (int r' + d))"
proof -
  have eq: "\<not> is_alpha CHR ''=''" by code_simp
  have "adjust_refs d (makeAddr c' r') = makeAddr c' (nat (int r' + d))"
    using adjust_refs_ref [of "[]" r' d c'] assms(3) by simp
  with assms show ?thesis
    by (simp add: adjustFormulaRows_def adjust_refs_other [OF eq] adjust_refs_ref adjust_refs_other)
qed

theorem tables_fill_moves_references_witness:
  "adjustFormulaRows (''='' @ makeAddr 0 1 @ CHR ''+'' # makeAddr 27 9) 2 = ''=A3+AB11''"
proof -
  have "\<not> is_alpha CHR ''+''" "\<not> is_digit CHR ''+''" by code_simp+
  from tables_fill_moves_references [OF _ _ _ this, of 2 1 9 0 27]
  have "adjustFormulaRows (''='' @ makeAddr 0 1 @ CHR ''+'' # makeAddr 27 9) 2 = ''='' @ makeAddr 0 3 @ CHR ''+'' # makeAddr 27 11"
    by simp
  also have "\<dots> = ''=A3+AB11''" by code_simp
  finally show ?thesis .
qed

text \<open>
  A function name that ends in digits is rewritten like a reference: filling
  \<open>=LOG10(A1)\<close> down by one row gives a formula with another function.
\<close>

theorem tables_fill_rewrites_function_name:
  "adjustFormulaRows ''=LOG10(A1)'' 1 = ''=LOG11(A2)''"
  by code_simp

section \<open>Data\<close>

text \<open>
  C19. The exported CSV file reads back as the displayed values: an RFC 4180 reader applied to
  the text of \<open>exportCsv\<close> gives the rows of displayed texts.
\<close>

theorem tables_csv_roundtrip:
  assumes "exportCsv F s = Some t"
  shows "csv_read Field_start [] [] t = csv_values F s"
  using assms csv_roundtrip csv_values_shape by (auto simp: exportCsv_def split: if_splits)

theorem tables_csv_roundtrip_witness:
  "csv_read Field_start [] [] (csv_text (csv_values plain_fmt (sample_sheet two_cells))) = [[''x,y'', []], [[], ''7'']]"
proof -
  have "exportCsv plain_fmt (sample_sheet two_cells) = Some (csv_text (csv_values plain_fmt (sample_sheet two_cells)))"
    by (simp add: exportCsv_def sample_sheet_def)
  from tables_csv_roundtrip [OF this] have "csv_read Field_start [] [] (csv_text (csv_values plain_fmt (sample_sheet two_cells)))
      = csv_values plain_fmt (sample_sheet two_cells)" .
  also have "\<dots> = [[''x,y'', []], [[], ''7'']]" by code_simp
  finally show ?thesis .
qed

text \<open>
  Subtotals: the groups partition the rows of the block in order, all rows of a group
  have its label, and neighbouring groups have different labels.
\<close>

theorem tables_subtotal_groups:
  assumes "a \<le> z" "0 < vcol"
  shows "concat (map (\<lambda>g. [g_from g..<Suc (g_to g)]) (subtotal_groups F s vcol a z)) = [a..<Suc z]
    \<and> (\<forall>g\<in>set (subtotal_groups F s vcol a z). \<forall>r. g_from g \<le> r \<and> r \<le> g_to g \<longrightarrow>
         group_label F s (vcol - 1) r = g_label g)
    \<and> successively (\<lambda>g h. g_label g \<noteq> g_label h) (subtotal_groups F s vcol a z)"
  using subtotal_partition [OF assms(1)] assms(2) by blast

theorem tables_subtotal_groups_witness:
  "concat (map (\<lambda>g. [g_from g..<Suc (g_to g)]) (subtotal_groups plain_fmt (sample_sheet two_cells) 1 1 2)) = [1, 2]"
proof -
  have "[1..<Suc 2] = [1, 2]" by code_simp
  with tables_subtotal_groups [of 1 2 1 plain_fmt "sample_sheet two_cells"] show ?thesis by simp
qed

text \<open>
  Reordering tabs by dragging keeps the collection of names and follows the active tab
  when it is the one dragged; when another tab is dragged from behind to before the active
  one, the active index is not moved with the tab it named.
\<close>

theorem tables_reorder_tabs:
  assumes "from < length (sheetTabNames s)" "i < length (sheetTabNames s)" "from \<noteq> i"
  shows "mset (sheetTabNames (drop_tab from i s)) = mset (sheetTabNames s)
    \<and> (activeSheetIndex s = from \<longrightarrow>
         sheetTabNames (drop_tab from i s) ! activeSheetIndex (drop_tab from i s) = sheetTabNames s ! from)
    \<and> (i \<le> activeSheetIndex s \<and> activeSheetIndex s < from \<longrightarrow>
         activeSheetIndex (drop_tab from i s) = activeSheetIndex s
         \<and> sheetTabNames (drop_tab from i s) ! Suc (activeSheetIndex s) = sheetTabNames s ! activeSheetIndex s)"
proof -
  have "sheetTabNames (drop_tab from i s) = move_item from i (sheetTabNames s)"
    "activeSheetIndex (drop_tab from i s) = (if activeSheetIndex s = from then i else activeSheetIndex s)"
    using assms by (simp_all add: drop_tab_def scheduleRefresh_def)
  then show ?thesis using assms by (auto simp: mset_move_item move_item_target move_item_between)
qed

theorem tables_reorder_tabs_witness:
  "sheetTabNames (drop_tab 2 0 (sample_sheet [])) ! Suc 0 = ''P'' \<and> activeSheetIndex (drop_tab 2 0 (sample_sheet [])) = 0"
  using tables_reorder_tabs [of 2 "sample_sheet []" 0] by (simp add: sample_sheet_def)

end
