(* ===== verification/Tables_Input.thy ===== *)
theory Tables_Input
  imports Tables_Properties
begin

text \<open>
  Editing a cell in place (\<open>ui/tables/web/app.js\<close>, from \<open>beginCellEdit\<close> to \<open>onCellKey\<close>, and the
  formula bar, the address box, the search and the list of notes): what the keyboard, the mouse, a
  change of focus and a redraw (by the server, by scrolling, by resizing the page) do to the cell
  that is being edited. The state holds which element has the focus (\<open>In_field\<close>: another input or
  a dialog) and the text of the cell that has it; the commits are recorded in order, and so are
  the addresses that were gone to without a check of the capacity. A focused cell that a redraw removes from the page loses
  the focus; whether the browser reports this with a \<open>focusout\<close> event is an argument.
\<close>

section \<open>State\<close>

datatype focus = In_cell string | In_bar | In_field | Elsewhere

record grid_input =
  gi_sheet :: sheet
  gi_focus :: focus
  gi_text :: string
  gi_selecting :: bool
  gi_commits :: "(string \<times> string) list"
  gi_jumps :: "string list"

abbreviation gi_editing :: "grid_input \<Rightarrow> bool" where
  "gi_editing g \<equiv> editing (gi_sheet g)"

abbreviation gi_active :: "grid_input \<Rightarrow> string" where
  "gi_active g \<equiv> activeAddr (gi_sheet g)"

definition on_sheet :: "(sheet \<Rightarrow> sheet) \<Rightarrow> grid_input \<Rightarrow> grid_input" where
  "on_sheet f g = g\<lparr>gi_sheet := f (gi_sheet g)\<rparr>"

text \<open>A cell that is being edited is not painted.\<close>

definition paintCellTd :: "num_fmt \<Rightarrow> string \<Rightarrow> grid_input \<Rightarrow> grid_input" where
  "paintCellTd F ad g =
     (if gi_editing g \<and> ad = gi_active g \<and> gi_focus g = In_cell ad then g
      else if gi_focus g = In_cell ad then g\<lparr>gi_text := displayFor F (gi_sheet g) ad\<rparr>
      else g)"

definition paint_focused :: "num_fmt \<Rightarrow> grid_input \<Rightarrow> grid_input" where
  "paint_focused F g = (case gi_focus g of In_cell ad \<Rightarrow> paintCellTd F ad g | _ \<Rightarrow> g)"

text \<open>The focused cell is painted again when a change of the sheet painted the grid.\<close>

definition sheet_change :: "num_fmt \<Rightarrow> (sheet \<Rightarrow> sheet) \<Rightarrow> grid_input \<Rightarrow> grid_input" where
  "sheet_change F f g =
     (let g1 = on_sheet f g in
      if count_list (shown (gi_sheet g1)) S_Paint = count_list (shown (gi_sheet g)) S_Paint then g1 else paint_focused F g1)"

definition commit_input :: "num_fmt \<Rightarrow> string \<Rightarrow> string \<Rightarrow> grid_input \<Rightarrow> grid_input" where
  "commit_input F ad raw g = (sheet_change F (commitCell ad raw) g)\<lparr>gi_commits := gi_commits g @ [(ad, raw)]\<rparr>"

section \<open>Beginning and ending an edit\<close>

definition endCellEditIfNeeded :: "num_fmt \<Rightarrow> grid_input \<Rightarrow> grid_input" where
  "endCellEditIfNeeded F g =
     (if \<not> gi_editing g then g
      else (let g1 = on_sheet (\<lambda>s. s\<lparr>editing := False\<rparr>) g in
            case gi_focus g of
              In_cell ad \<Rightarrow> paintCellTd F ad (commit_input F ad (gi_text g) g1)
            | _ \<Rightarrow> g1))"

text \<open>The handler of \<open>focusout\<close> for the cell that had the focus.\<close>

definition cell_focusout :: "num_fmt \<Rightarrow> grid_input \<Rightarrow> grid_input" where
  "cell_focusout F g =
     (case gi_focus g of
        In_cell ad \<Rightarrow>
          if gi_editing g
          then paintCellTd F ad (commit_input F ad (gi_text g) (on_sheet (\<lambda>s. s\<lparr>editing := False\<rparr>) g))
          else g
      | _ \<Rightarrow> g)"

definition cell_focusin :: "string \<Rightarrow> grid_input \<Rightarrow> grid_input" where
  "cell_focusin ad g =
     (if gi_editing g then g else on_sheet (\<lambda>s. paintSelection (s\<lparr>activeAddr := ad\<rparr>)) g)"

definition move_focus :: "num_fmt \<Rightarrow> focus \<Rightarrow> grid_input \<Rightarrow> grid_input" where
  "move_focus F f g =
     (if f = gi_focus g then g
      else (let g1 = (cell_focusout F g)\<lparr>gi_focus := f\<rparr> in
            case f of
              In_cell ad \<Rightarrow> cell_focusin ad (g1\<lparr>gi_text := displayFor F (gi_sheet g1) ad\<rparr>)
            | _ \<Rightarrow> g1))"

text \<open>A cell begins to be edited while it has the focus; \<open>seed\<close> is the character typed, if any.\<close>

definition beginCellEdit :: "num_fmt \<Rightarrow> string \<Rightarrow> string option \<Rightarrow> grid_input \<Rightarrow> grid_input" where
  "beginCellEdit F ad seed g =
     (let g1 = on_sheet (\<lambda>s. paintSelection (s\<lparr>activeAddr := ad, editing := True\<rparr>)) g;
          f = formulaFor (gi_sheet g1) ad
      in g1\<lparr>gi_text := (case seed of Some t \<Rightarrow> t | None \<Rightarrow> if f \<noteq> [] then f else displayFor F (gi_sheet g1) ad)\<rparr>)"

definition selectCellOnly :: "num_fmt \<Rightarrow> string \<Rightarrow> bool \<Rightarrow> grid_input \<Rightarrow> grid_input" where
  "selectCellOnly F ad ext g =
     move_focus F (In_cell ad)
       (on_sheet (\<lambda>s. paintSelection
            (s\<lparr>selAnchorAddr := (if ext then selAnchorAddr s else Some ad), activeAddr := ad, editing := False\<rparr>))
          (endCellEditIfNeeded F g))"

definition extendSelectionTo :: "num_fmt \<Rightarrow> string \<Rightarrow> grid_input \<Rightarrow> grid_input" where
  "extendSelectionTo F ad g =
     on_sheet (\<lambda>s. paintSelection
         (s\<lparr>selAnchorAddr := (if truthy_str (selAnchorAddr s) then selAnchorAddr s
                else Some (if activeAddr s \<noteq> [] then activeAddr s else ad)),
            activeAddr := ad, editing := False\<rparr>))
       (endCellEditIfNeeded F g)"

section \<open>Moving\<close>

text \<open>An address of the grid.\<close>

definition addr_ok :: "string \<Rightarrow> bool" where
  "addr_ok ad = (case parseAddr ad of None \<Rightarrow> False | Some p \<Rightarrow> within_capacity p)"

text \<open>Cells are drawn within the capacity, of a merged range only the first one.\<close>

definition has_td :: "sheet \<Rightarrow> string \<Rightarrow> bool" where
  "has_td s ad =
     (case parseAddr ad of
        None \<Rightarrow> False
      | Some p \<Rightarrow> within_capacity p \<and> \<not> isCoveredByMerge (cellMerges s) (a_col p) (a_row p))"

text \<open>\<open>moveActive\<close> with its focus: it runs when no cell is edited, the redraw drops the focus, the new cell takes it.\<close>

definition move_cell :: "num_fmt \<Rightarrow> int \<Rightarrow> int \<Rightarrow> bool \<Rightarrow> grid_input \<Rightarrow> grid_input" where
  "move_cell F dc dr ext g =
     (let g1 = (on_sheet (moveActive dc dr ext) g)\<lparr>gi_focus := Elsewhere\<rparr> in
      if has_td (gi_sheet g1) (gi_active g1) then move_focus F (In_cell (gi_active g1)) g1 else g1)"

definition arrow :: "string \<Rightarrow> (int \<times> int) option" where
  "arrow k = map_of [(''ArrowUp'', (0, -1)), (''ArrowDown'', (0, 1)), (''ArrowLeft'', (-1, 0)), (''ArrowRight'', (1, 0))] k"

section \<open>The keyboard\<close>

definition clear_key :: "num_fmt \<Rightarrow> grid_input \<Rightarrow> grid_input" where
  "clear_key F g =
     (if sheetId (gi_sheet g) = None then g else commit_input F (gi_active g) [] g)"

definition onCellKey :: "num_fmt \<Rightarrow> string \<Rightarrow> bool \<Rightarrow> bool \<Rightarrow> string \<Rightarrow> grid_input \<Rightarrow> grid_input" where
  "onCellKey F k shift mods ad g =
     (if \<not> gi_editing g then
        if k = ''F2'' \<or> k = ''Enter'' \<and> \<not> shift then beginCellEdit F ad None g
        else if k = ''Delete'' \<or> k = ''Backspace'' then clear_key F g
        else if arrow k \<noteq> None \<and> \<not> mods then move_cell F (fst (the (arrow k))) (snd (the (arrow k))) shift g
        else if k = ''Tab'' then move_cell F (if shift then -1 else 1) 0 False g
        else if length k = 1 \<and> \<not> mods then beginCellEdit F ad (Some k) g
        else g
      else
        if k = ''Enter'' \<and> \<not> shift then move_cell F 0 1 False (move_focus F Elsewhere g)
        else if k = ''Escape'' then
          on_sheet paintSelection (paintCellTd F ad (on_sheet (\<lambda>s. s\<lparr>editing := False\<rparr>) g))
        else if k = ''Tab'' then move_cell F (if shift then -1 else 1) 0 False (move_focus F Elsewhere g)
        else g)"

text \<open>The handler of the page, for a key pressed outside cells, inputs and dialogs.\<close>

definition document_keydown :: "num_fmt \<Rightarrow> string \<Rightarrow> bool \<Rightarrow> bool \<Rightarrow> grid_input \<Rightarrow> grid_input" where
  "document_keydown F k shift mods g =
     (if sheetId (gi_sheet g) = None \<or> gi_editing g then g
      else if arrow k \<noteq> None \<and> \<not> mods then move_cell F (fst (the (arrow k))) (snd (the (arrow k))) shift g
      else g)"

definition key_pressed :: "num_fmt \<Rightarrow> string \<Rightarrow> bool \<Rightarrow> bool \<Rightarrow> grid_input \<Rightarrow> grid_input" where
  "key_pressed F k shift mods g =
     (case gi_focus g of
        In_cell ad \<Rightarrow> onCellKey F k shift mods ad g
      | In_bar \<Rightarrow> g
      | In_field \<Rightarrow> g
      | Elsewhere \<Rightarrow> document_keydown F k shift mods g)"

text \<open>Enter in the formula bar commits its text to the active cell and leaves the bar.\<close>

definition formula_enter :: "num_fmt \<Rightarrow> string \<Rightarrow> grid_input \<Rightarrow> grid_input" where
  "formula_enter F t g =
     (commit_input F (gi_active g) t (on_sheet (\<lambda>s. s\<lparr>editing := False\<rparr>) g))\<lparr>gi_focus := Elsewhere\<rparr>"

section \<open>The mouse\<close>

definition mouse_down :: "num_fmt \<Rightarrow> string \<Rightarrow> bool \<Rightarrow> grid_input \<Rightarrow> grid_input" where
  "mouse_down F ad shift g =
     (let s = gi_sheet g in
      if shift \<and> (truthy_str (selAnchorAddr s) \<or> activeAddr s \<noteq> []) then
        extendSelectionTo F ad
          (on_sheet (\<lambda>s. if truthy_str (selAnchorAddr s) then s else s\<lparr>selAnchorAddr := Some (activeAddr s)\<rparr>) g)
      else
        (selectCellOnly F ad False (on_sheet (\<lambda>s. s\<lparr>selAnchorAddr := Some ad\<rparr>) g))\<lparr>gi_selecting := True\<rparr>)"

definition mouse_move :: "num_fmt \<Rightarrow> string option \<Rightarrow> grid_input \<Rightarrow> grid_input" where
  "mouse_move F over g =
     (case over of
        Some ad \<Rightarrow> if gi_selecting g \<and> ad \<noteq> gi_active g then extendSelectionTo F ad g else g
      | None \<Rightarrow> g)"

definition mouse_up :: "grid_input \<Rightarrow> grid_input" where
  "mouse_up g = g\<lparr>gi_selecting := False\<rparr>"

text \<open>A double click: the first of its two presses selects the cell and gives it the focus.\<close>

definition dblclick :: "num_fmt \<Rightarrow> string \<Rightarrow> grid_input \<Rightarrow> grid_input" where
  "dblclick F ad g =
     beginCellEdit F ad None
       (on_sheet (\<lambda>s. s\<lparr>selAnchorAddr := Some ad\<rparr>) (mouse_up (mouse_down F ad False g)))"

section \<open>Messages and redraws\<close>

text \<open>Drawing the grid again removes the focused cell; \<open>fires\<close>: the browser reports a \<open>focusout\<close>.\<close>

definition redraw_grid :: "num_fmt \<Rightarrow> bool \<Rightarrow> grid_input \<Rightarrow> grid_input" where
  "redraw_grid F fires g =
     (case gi_focus g of
        In_cell ad \<Rightarrow> (if fires then cell_focusout F g else g)\<lparr>gi_focus := Elsewhere\<rparr>
      | _ \<Rightarrow> g)"

definition msg_redraws :: "sheet_msg \<Rightarrow> bool" where
  "msg_redraws msg = (case msg of M_envelope e \<Rightarrow> redraws (en_op e) | _ \<Rightarrow> False)"

definition message_arrives :: "num_fmt \<Rightarrow> bool \<Rightarrow> sheet_msg \<Rightarrow> grid_input \<Rightarrow> grid_input" where
  "message_arrives F fires msg g =
     (let g1 = sheet_change F (on_sheet_message msg) g in if msg_redraws msg then redraw_grid F fires g1 else g1)"

definition refresh_arrives :: "num_fmt \<Rightarrow> bool \<Rightarrow> string \<Rightarrow> sheet_doc \<Rightarrow> bool \<Rightarrow> grid_input \<Rightarrow> grid_input" where
  "refresh_arrives F fires i d redraw g =
     (let g1 = sheet_change F (loadSheet i d True redraw) g in if redraw then redraw_grid F fires g1 else g1)"

text \<open>Scrolling draws the grid again when the window of drawn cells changed, resizing the page always does.\<close>

definition scroll_redraw :: "num_fmt \<Rightarrow> bool \<Rightarrow> bool \<Rightarrow> grid_input \<Rightarrow> grid_input" where
  "scroll_redraw F fires changed g = (if changed then redraw_grid F fires (on_sheet renderGrid g) else g)"

definition resize_redraw :: "num_fmt \<Rightarrow> bool \<Rightarrow> grid_input \<Rightarrow> grid_input" where
  "resize_redraw F fires g = (if sheetId (gi_sheet g) = None then g else redraw_grid F fires (on_sheet renderGrid g))"

section \<open>Going to a cell\<close>

text \<open>
  Enter in the address box. A single address is checked and its cell takes the focus, if it is
  drawn; the corners of a range are taken as they are. Then the box is left.
\<close>

definition box_corners :: "string \<Rightarrow> string list" where
  "box_corners raw =
     (let t = to_upper (js_trim raw) in
      if str_includes '':'' t
      then (case parseRangeStr t of None \<Rightarrow> [] | Some m \<Rightarrow> [makeAddr (c1 m) (r1 m), makeAddr (c2 m) (r2 m)])
      else [])"

definition go_to :: "num_fmt \<Rightarrow> string \<Rightarrow> bool \<Rightarrow> grid_input \<Rightarrow> grid_input" where
  "go_to F raw drawn g =
     (case goToAddr raw (gi_sheet g) of
        (ok, s) \<Rightarrow>
          (let g1 = g\<lparr>gi_sheet := s, gi_focus := Elsewhere, gi_jumps := gi_jumps g @ box_corners raw\<rparr>
           in if ok \<and> \<not> str_includes '':'' (to_upper (js_trim raw)) \<and> drawn
              then move_focus F (In_cell (gi_active g1)) g1 else g1))"

text \<open>A click on an item of the list of notes goes to the address of the item.\<close>

definition note_click :: "num_fmt \<Rightarrow> string \<Rightarrow> bool \<Rightarrow> grid_input \<Rightarrow> grid_input" where
  "note_click F ad drawn g =
     (let show = (if parseAddr ad = None then (\<lambda>s. s) else renderGrid);
          g1 = (on_sheet (\<lambda>s. paintSelection (show (s\<lparr>activeAddr := ad\<rparr>))) g)
                 \<lparr>gi_focus := Elsewhere, gi_jumps := gi_jumps g @ [ad]\<rparr>
      in if drawn then move_focus F (In_cell ad) g1 else g1)"

text \<open>The search goes to the next match, if there is one.\<close>

definition find_click :: "num_fmt \<Rightarrow> string \<Rightarrow> bool \<Rightarrow> grid_input \<Rightarrow> grid_input" where
  "find_click F q drawn g =
     (let g1 = on_sheet (findNextCell F q) g in
      if to_lower (js_trim q) = [] \<or> findCellMatches (gi_sheet g1) = [] then g1
      else (let g2 = g1\<lparr>gi_jumps := gi_jumps g @ [gi_active g1]\<rparr>
            in if drawn then move_focus F (In_cell (gi_active g2)) g2 else g2))"

section \<open>Sessions\<close>

datatype input_event =
    E_key string bool bool
  | E_type string
  | E_press string bool
  | E_move "string option"
  | E_release
  | E_double string
  | E_focus focus
  | E_bar string
  | E_msg sheet_msg
  | E_refresh string sheet_doc bool
  | E_scroll bool
  | E_resize
  | E_goto string bool
  | E_note string bool
  | E_find string bool

text \<open>
  Presses hit drawn cells. The browser edits the text of a cell only while it is edited, and
  moves the focus on its own into a cell only when none is edited or to the active cell, the one
  that a redraw leaves in the tab order. The address box has the focus when Enter is pressed in
  it; a press on the list of notes or on the button of the search takes the focus from a cell
  before the click is handled. A cell that takes the focus is a drawn one.
\<close>

inductive input_step :: "num_fmt \<Rightarrow> bool \<Rightarrow> input_event \<Rightarrow> grid_input \<Rightarrow> grid_input \<Rightarrow> bool" for F fires where
  key: "input_step F fires (E_key k shift mods) g (key_pressed F k shift mods g)"
| typing: "gi_editing g \<Longrightarrow> gi_focus g = In_cell (gi_active g) \<Longrightarrow> input_step F fires (E_type t) g (g\<lparr>gi_text := t\<rparr>)"
| press: "has_td (gi_sheet g) ad \<Longrightarrow> input_step F fires (E_press ad shift) g (mouse_down F ad shift g)"
| move: "(\<forall>ad. over = Some ad \<longrightarrow> has_td (gi_sheet g) ad) \<Longrightarrow> input_step F fires (E_move over) g (mouse_move F over g)"
| release: "input_step F fires E_release g (mouse_up g)"
| double: "has_td (gi_sheet g) ad \<Longrightarrow> input_step F fires (E_double ad) g (dblclick F ad g)"
| focus: "(\<forall>ad. f = In_cell ad \<longrightarrow> has_td (gi_sheet g) ad \<and> (\<not> gi_editing g \<or> ad = gi_active g)) \<Longrightarrow>
    input_step F fires (E_focus f) g (move_focus F f g)"
| bar: "gi_focus g = In_bar \<Longrightarrow> input_step F fires (E_bar t) g (formula_enter F t g)"
| msg: "input_step F fires (E_msg m) g (message_arrives F fires m g)"
| refresh: "input_step F fires (E_refresh i d redraw) g (refresh_arrives F fires i d redraw g)"
| scroll: "input_step F fires (E_scroll changed) g (scroll_redraw F fires changed g)"
| resize: "input_step F fires E_resize g (resize_redraw F fires g)"
| goto: "gi_focus g = In_field \<Longrightarrow> g' = go_to F raw drawn g \<Longrightarrow> (\<forall>ad. gi_focus g' = In_cell ad \<longrightarrow> has_td (gi_sheet g') ad) \<Longrightarrow>
    input_step F fires (E_goto raw drawn) g g'"
| noted: "(\<forall>ad. gi_focus g \<noteq> In_cell ad) \<Longrightarrow> g' = note_click F ad drawn g \<Longrightarrow> (drawn \<longrightarrow> has_td (gi_sheet g) ad) \<Longrightarrow>
    input_step F fires (E_note ad drawn) g g'"
| search: "(\<forall>ad. gi_focus g \<noteq> In_cell ad) \<Longrightarrow> g' = find_click F q drawn g \<Longrightarrow> (\<forall>ad. gi_focus g' = In_cell ad \<longrightarrow> has_td (gi_sheet g') ad) \<Longrightarrow>
    input_step F fires (E_find q drawn) g g'"

inductive_cases input_stepE: "input_step F fires e g g'"

inductive input_reach :: "num_fmt \<Rightarrow> bool \<Rightarrow> grid_input \<Rightarrow> bool" for F fires where
  start: "\<not> gi_editing g \<Longrightarrow> gi_focus g = Elsewhere \<Longrightarrow> gi_commits g = [] \<Longrightarrow> gi_jumps g = [] \<Longrightarrow> addr_ok (gi_active g) \<Longrightarrow>
    selAnchorAddr (gi_sheet g) = None \<Longrightarrow> input_reach F fires g"
| step: "input_reach F fires g \<Longrightarrow> input_step F fires e g g' \<Longrightarrow> input_reach F fires g'"

section \<open>Laws\<close>

lemma on_sheet_simps [simp]:
  "gi_sheet (on_sheet f g) = f (gi_sheet g)" "gi_focus (on_sheet f g) = gi_focus g" "gi_text (on_sheet f g) = gi_text g"
  "gi_selecting (on_sheet f g) = gi_selecting g" "gi_commits (on_sheet f g) = gi_commits g" "gi_jumps (on_sheet f g) = gi_jumps g"
  by (simp_all add: on_sheet_def)

lemma paintCellTd_simps [simp]:
  "gi_sheet (paintCellTd F ad g) = gi_sheet g" "gi_focus (paintCellTd F ad g) = gi_focus g"
  "gi_selecting (paintCellTd F ad g) = gi_selecting g" "gi_commits (paintCellTd F ad g) = gi_commits g" "gi_jumps (paintCellTd F ad g) = gi_jumps g"
  by (simp_all add: paintCellTd_def)

lemma paint_focused_simps [simp]:
  "gi_sheet (paint_focused F g) = gi_sheet g" "gi_focus (paint_focused F g) = gi_focus g"
  "gi_selecting (paint_focused F g) = gi_selecting g" "gi_commits (paint_focused F g) = gi_commits g" "gi_jumps (paint_focused F g) = gi_jumps g"
  by (simp_all add: paint_focused_def split: focus.splits)

lemma sheet_change_simps [simp]:
  "gi_sheet (sheet_change F f g) = f (gi_sheet g)" "gi_focus (sheet_change F f g) = gi_focus g"
  "gi_selecting (sheet_change F f g) = gi_selecting g" "gi_commits (sheet_change F f g) = gi_commits g" "gi_jumps (sheet_change F f g) = gi_jumps g"
  by (simp_all add: sheet_change_def Let_def)

lemma commit_input_simps [simp]:
  "gi_sheet (commit_input F ad raw g) = commitCell ad raw (gi_sheet g)" "gi_focus (commit_input F ad raw g) = gi_focus g"
  "gi_selecting (commit_input F ad raw g) = gi_selecting g" "gi_commits (commit_input F ad raw g) = gi_commits g @ [(ad, raw)]"
  "gi_jumps (commit_input F ad raw g) = gi_jumps g"
  by (simp_all add: commit_input_def)

text \<open>The cell that is edited and its text.\<close>

definition edit_of :: "grid_input \<Rightarrow> (string \<times> string) option" where
  "edit_of g = (case gi_focus g of In_cell ad \<Rightarrow> if gi_editing g then Some (ad, gi_text g) else None | _ \<Rightarrow> None)"

lemma edit_of_Some: "edit_of g = Some (ad, t) \<longleftrightarrow> gi_focus g = In_cell ad \<and> gi_editing g \<and> gi_text g = t"
  by (auto simp: edit_of_def split: focus.splits)

definition edit_inv :: "grid_input \<Rightarrow> bool" where
  "edit_inv g \<longleftrightarrow> (\<forall>ad. gi_editing g \<longrightarrow> gi_focus g = In_cell ad \<longrightarrow> ad = gi_active g)"

lemma sheet_editing [simp]:
  "editing (show_status m b s) = editing s" "editing (sendSheetOp oper s) = editing s"
  "editing (paintSelection s) = editing s" "editing (paintGridValues s) = editing s" "editing (renderGrid s) = editing s"
  "editing (scheduleRefresh s) = editing s" "editing (sendCell ad v f s) = editing s" "activeAddr (scheduleRefresh s) = activeAddr s"
  "activeAddr (sendCell ad v f s) = activeAddr s"
  by (simp_all add: show_status_def sendSheetOp_def broadcastPresenceCell_def paintSelection_def
      paintGridValues_def renderGrid_def scheduleRefresh_def sendCell_def)

lemma commitCell_edit [simp]:
  "editing (commitCell ad raw s) = editing s" "activeAddr (commitCell ad raw s) = activeAddr s"
  by (simp_all add: commitCell_def Let_def)

lemma moveActive_edit [simp]: "editing (moveActive dc dr ext s) = editing s"
  by (simp add: moveActive_def Let_def)

lemma loading_edit [simp]:
  "editing (load_tab tb s) = editing s" "activeAddr (load_tab tb s) = activeAddr s"
  "editing (loadMergesFromList ks s) = editing s" "activeAddr (loadMergesFromList ks s) = activeAddr s"
  "editing (loadProtectedRangesFromList ks s) = editing s" "activeAddr (loadProtectedRangesFromList ks s) = activeAddr s"
  "editing (upd_active_tab f s) = editing s" "activeAddr (upd_active_tab f s) = activeAddr s"
  "editing (loadScenariosFromTab xs s) = editing s" "activeAddr (loadScenariosFromTab xs s) = activeAddr s"
  by (simp_all add: load_tab_def loadMergesFromList_def loadProtectedRangesFromList_def upd_active_tab_def
      loadScenariosFromTab_def split: option.splits)

lemma loadSheet_edit [simp]:
  "editing (loadSheet i d q r s) = editing s" "activeAddr (loadSheet i d q r s) = activeAddr s"
  by (simp_all add: loadSheet_def syncSheetTabsFromState_def when_some_def Let_def split: option.splits)

lemma envelope_edit:
  "editing (apply_envelope_op oper s) = editing s" "activeAddr (apply_envelope_op oper s) = activeAddr s"
  by (simp_all add: apply_envelope_op_def split: option.splits sheet_op.splits)

lemma message_edit [simp]:
  "editing (on_sheet_message m s) = editing s" "activeAddr (on_sheet_message m s) = activeAddr s"
  by (simp_all add: on_sheet_message_def applySyncEnvelope_def envelope_edit applyCells_def when_some_def remote_set_cell_def
      remote_set_style_def Let_def split: sheet_msg.splits sheet_op.splits option.splits)

text \<open>What ending the current edit commits.\<close>

definition ended :: "grid_input \<Rightarrow> (string \<times> string) list" where
  "ended g = (case edit_of g of None \<Rightarrow> [] | Some p \<Rightarrow> [p])"

lemma ended_idle [simp]: "\<not> gi_editing g \<Longrightarrow> ended g = []"
  by (simp add: ended_def edit_of_def split: focus.splits)

lemma endEdit_simps [simp]:
  "gi_commits (endCellEditIfNeeded F g) = gi_commits g @ ended g" "\<not> gi_editing (endCellEditIfNeeded F g)"
  "gi_focus (endCellEditIfNeeded F g) = gi_focus g"
  by (auto simp: endCellEditIfNeeded_def ended_def edit_of_def Let_def split: focus.splits)

lemma focusout_simps [simp]:
  "gi_commits (cell_focusout F g) = gi_commits g @ ended g" "gi_focus (cell_focusout F g) = gi_focus g"
  "gi_active (cell_focusout F g) = gi_active g"
  "gi_editing (cell_focusout F g) \<longleftrightarrow> gi_editing g \<and> edit_of g = None"
  by (auto simp: cell_focusout_def ended_def edit_of_def split: focus.splits)

lemma move_focus_commits: "gi_commits (move_focus F f g) = (if f = gi_focus g then gi_commits g else gi_commits g @ ended g)"
  by (auto simp: move_focus_def cell_focusin_def Let_def split: focus.splits)

lemma move_focus_focus [simp]: "gi_focus (move_focus F f g) = f"
  by (auto simp: move_focus_def cell_focusin_def Let_def split: focus.splits)

lemma move_focus_editing:
  "gi_editing (move_focus F f g) \<longleftrightarrow> gi_editing g \<and> (f = gi_focus g \<or> edit_of g = None)"
  by (auto simp: move_focus_def cell_focusin_def Let_def split: focus.splits)

lemma extend_simps [simp]:
  "gi_commits (extendSelectionTo F ad g) = gi_commits g @ ended g" "\<not> gi_editing (extendSelectionTo F ad g)"
  by (simp_all add: extendSelectionTo_def)

lemma select_simps [simp]:
  "gi_commits (selectCellOnly F ad ext g) = gi_commits g @ ended g" "\<not> gi_editing (selectCellOnly F ad ext g)"
  "gi_focus (selectCellOnly F ad ext g) = In_cell ad"
  by (simp_all add: selectCellOnly_def move_focus_commits move_focus_editing)

lemma ended_cong: "gi_focus g' = gi_focus g \<Longrightarrow> gi_editing g' = gi_editing g \<Longrightarrow> gi_text g' = gi_text g \<Longrightarrow> ended g' = ended g"
  by (simp add: ended_def edit_of_def split: focus.splits)

lemma mouse_down_simps [simp]:
  "gi_commits (mouse_down F ad shift g) = gi_commits g @ ended g" "\<not> gi_editing (mouse_down F ad shift g)"
  by (auto simp: mouse_down_def Let_def intro!: ended_cong split: if_splits)

lemma mouse_down_focus: "gi_focus (mouse_down F ad False g) = In_cell ad"
  by (simp add: mouse_down_def)

lemma dblclick_simps:
  "gi_commits (dblclick F ad g) = gi_commits g @ ended g" "gi_focus (dblclick F ad g) = In_cell ad" "gi_active (dblclick F ad g) = ad"
  by (simp_all add: dblclick_def beginCellEdit_def mouse_up_def mouse_down_focus Let_def)

lemma move_cell_simps [simp]:
  "\<not> gi_editing g \<Longrightarrow> gi_commits (move_cell F dc dr ext g) = gi_commits g"
  "\<not> gi_editing g \<Longrightarrow> \<not> gi_editing (move_cell F dc dr ext g)"
  by (simp_all add: move_cell_def move_focus_commits move_focus_editing Let_def)

lemma text_kept:
  assumes "edit_of g = Some (ad, t)" "ad = gi_active g" "editing (f (gi_sheet g)) = gi_editing g"
    "activeAddr (f (gi_sheet g)) = gi_active g"
  shows "edit_of (sheet_change F f g) = Some (ad, t)"
  using assms by (auto simp: edit_of_Some sheet_change_def paint_focused_def paintCellTd_def Let_def)

lemma edit_inv_idle: "\<not> gi_editing g \<Longrightarrow> edit_inv g"
  by (simp add: edit_inv_def)

lemma edit_inv_cong: "edit_inv g \<Longrightarrow> gi_focus g' = gi_focus g \<Longrightarrow> gi_editing g' = gi_editing g \<Longrightarrow> gi_active g' = gi_active g \<Longrightarrow> edit_inv g'"
  by (simp add: edit_inv_def)

lemma inv_text_kept:
  assumes "edit_inv g" "edit_of g = Some p" "editing (f (gi_sheet g)) = gi_editing g" "activeAddr (f (gi_sheet g)) = gi_active g"
  shows "edit_of (sheet_change F f g) = Some p"
proof (cases p)
  case (Pair ad t)
  moreover from this have "ad = gi_active g" using assms(1,2) by (simp add: edit_inv_def edit_of_Some)
  ultimately show ?thesis using assms by (simp add: text_kept)
qed

lemma edit_inv_redraw: "edit_inv g \<Longrightarrow> edit_inv (redraw_grid F fires g)"
  by (auto simp: redraw_grid_def edit_inv_def split: focus.splits)

lemma begin_simps [simp]:
  "gi_commits (beginCellEdit F ad seed g) = gi_commits g" "gi_focus (beginCellEdit F ad seed g) = gi_focus g"
  "gi_active (beginCellEdit F ad seed g) = ad" "gi_editing (beginCellEdit F ad seed g)"
  by (simp_all add: beginCellEdit_def Let_def)

lemma edit_inv_key: "edit_inv g \<Longrightarrow> edit_inv (key_pressed F k shift mods g)"
proof (cases "gi_focus g")
  case (In_cell ad)
  assume inv: "edit_inv g"
  have b: "edit_inv (beginCellEdit F ad seed g)" for seed by (simp add: edit_inv_def In_cell)
  have idle: "\<not> gi_editing g \<Longrightarrow> edit_inv (clear_key F g)" by (simp add: clear_key_def edit_inv_def)
  have m: "edit_inv (move_cell F dc dr False (move_focus F Elsewhere g))" for dc dr
    using In_cell by (intro edit_inv_idle move_cell_simps) (simp add: move_focus_editing edit_of_def)
  have e: "edit_inv (on_sheet paintSelection (paintCellTd F ad (on_sheet (\<lambda>s. s\<lparr>editing := False\<rparr>) g)))"
    by (rule edit_inv_idle) simp
  have c: "\<not> gi_editing g \<Longrightarrow> edit_inv (move_cell F dc dr ext g)" for dc dr ext by (rule edit_inv_idle) simp
  show ?thesis
    using inv b idle m c e by (simp add: key_pressed_def In_cell onCellKey_def)
qed (auto simp: key_pressed_def document_keydown_def intro: edit_inv_idle)

lemma move_focus_same [simp]: "move_focus F (gi_focus g) g = g"
  by (simp add: move_focus_def)

lemma move_focus_active: "gi_editing (move_focus F f g) \<Longrightarrow> gi_active (move_focus F f g) = gi_active g"
  by (cases f) (auto simp: move_focus_def cell_focusin_def Let_def split: if_splits)

lemma edit_inv_focus:
  assumes "edit_inv g" "\<forall>ad. f = In_cell ad \<longrightarrow> \<not> gi_editing g \<or> ad = gi_active g"
  shows "edit_inv (move_focus F f g)"
  using assms move_focus_active [of F f g] by (auto simp: edit_inv_def move_focus_editing)

lemma go_to_focus: "gi_focus (go_to F raw drawn g) = In_cell ad \<Longrightarrow> ad = gi_active (go_to F raw drawn g)"
  by (auto simp: go_to_def move_focus_def cell_focusin_def cell_focusout_def Let_def split: prod.splits if_splits)

lemma note_focus: "gi_focus (note_click F ad drawn g) = In_cell a \<Longrightarrow> a = gi_active (note_click F ad drawn g)"
  by (auto simp: note_click_def move_focus_def cell_focusin_def cell_focusout_def Let_def split: if_splits)

lemma find_focus:
  assumes "\<forall>ad. gi_focus g \<noteq> In_cell ad" "gi_focus (find_click F q drawn g) = In_cell a"
  shows "a = gi_active (find_click F q drawn g)"
  using assms by (auto simp: find_click_def move_focus_def cell_focusin_def cell_focusout_def Let_def split: if_splits focus.splits)

lemma edit_inv_step: "input_step F fires e g g' \<Longrightarrow> edit_inv g \<Longrightarrow> edit_inv g'"
proof (induction rule: input_step.induct)
  case (key k shift mods g)
  then show ?case by (rule edit_inv_key)
next
  case (focus f g)
  then show ?case by (intro edit_inv_focus) auto
next
  case (move over g)
  then show ?case by (auto simp: mouse_move_def intro: edit_inv_idle split: option.split)
next
  case (double g ad)
  then show ?case by (simp add: edit_inv_def dblclick_simps)
next
  case (msg m g)
  then have "edit_inv (sheet_change F (on_sheet_message m) g)" by (auto intro: edit_inv_cong)
  then show ?case by (simp add: message_arrives_def edit_inv_redraw Let_def)
next
  case (refresh i d redraw g)
  then have "edit_inv (sheet_change F (loadSheet i d True redraw) g)" by (auto intro: edit_inv_cong)
  then show ?case by (cases redraw) (simp_all add: refresh_arrives_def edit_inv_redraw Let_def)
next
  case (scroll changed g)
  then have "edit_inv (on_sheet renderGrid g)" by (auto intro: edit_inv_cong)
  then show ?case using scroll by (simp add: scroll_redraw_def edit_inv_redraw)
next
  case (resize g)
  then have "edit_inv (on_sheet renderGrid g)" by (auto intro: edit_inv_cong)
  then show ?case using resize by (simp add: resize_redraw_def edit_inv_redraw)
next
  case (goto g g' raw drawn)
  then show ?case using go_to_focus by (auto simp: edit_inv_def)
next
  case (noted g g' ad drawn)
  then show ?case using note_focus by (auto simp: edit_inv_def)
next
  case (search g g' q drawn)
  then show ?case using find_focus by (auto simp: edit_inv_def)
qed (auto simp: mouse_up_def formula_enter_def edit_inv_def)

lemma edit_inv_reach: "input_reach F fires g \<Longrightarrow> edit_inv g"
  by (induction rule: input_reach.induct) (auto simp: edit_inv_idle edit_inv_step)

text \<open>What a step does to the edit in progress: it goes on, it is committed, or it is dropped.\<close>

definition drops :: "bool \<Rightarrow> grid_input \<Rightarrow> input_event \<Rightarrow> bool" where
  "drops fires g e =
     (case e of
        E_key k shift mods \<Rightarrow> k = ''Escape''
      | E_msg m \<Rightarrow> \<not> fires \<and> msg_redraws m
      | E_refresh i d redraw \<Rightarrow> \<not> fires \<and> redraw
      | E_scroll changed \<Rightarrow> \<not> fires \<and> changed
      | E_resize \<Rightarrow> \<not> fires \<and> sheetId (gi_sheet g) \<noteq> None
      | _ \<Rightarrow> False)"

definition edit_outcome :: "bool \<Rightarrow> input_event \<Rightarrow> string \<times> string \<Rightarrow> grid_input \<Rightarrow> grid_input \<Rightarrow> bool" where
  "edit_outcome fires e p g g' \<longleftrightarrow>
     (if drops fires g e then edit_of g' = None \<and> gi_commits g' = gi_commits g
      else (\<exists>t. edit_of g' = Some (fst p, t) \<and> (t = snd p \<or> e = E_type t) \<and> gi_commits g' = gi_commits g)
           \<or> gi_commits g' = gi_commits g @ [p])"

lemma outcome_committed: "gi_commits g' = gi_commits g @ [p] \<Longrightarrow> \<not> drops fires g e \<Longrightarrow> edit_outcome fires e p g g'"
  by (simp add: edit_outcome_def)

lemma outcome_kept: "edit_of g' = Some p \<Longrightarrow> gi_commits g' = gi_commits g \<Longrightarrow> \<not> drops fires g e \<Longrightarrow> edit_outcome fires e p g g'"
  by (cases p) (simp add: edit_outcome_def)

lemma no_drops [simp]:
  "\<not> drops fires g (E_type t)" "\<not> drops fires g (E_press ad shift)" "\<not> drops fires g (E_move over)" "\<not> drops fires g E_release"
  "\<not> drops fires g (E_double ad)" "\<not> drops fires g (E_focus f)"
  by (simp_all add: drops_def)

lemma key_outcome:
  assumes "edit_of g = Some p"
  shows "edit_outcome fires (E_key k shift mods) p g (key_pressed F k shift mods g)"
proof -
  obtain ad t where p: "p = (ad, t)" "gi_focus g = In_cell ad" "gi_editing g" "gi_text g = t"
    using assms by (cases p) (auto simp: edit_of_Some)
  have m: "gi_commits (move_cell F dc dr False (move_focus F Elsewhere g)) = gi_commits g @ [p]" for dc dr
    using p assms by (subst move_cell_simps) (simp_all add: move_focus_editing move_focus_commits ended_def)
  have "key_pressed F k shift mods g = g" if "k \<noteq> ''Escape''" "\<not> (k = ''Enter'' \<and> \<not> shift)" "k \<noteq> ''Tab''"
    using p that by (auto simp: key_pressed_def onCellKey_def)
  then consider "k = ''Escape''" | "k = ''Enter'' \<and> \<not> shift \<or> k = ''Tab''" | "key_pressed F k shift mods g = g \<and> k \<noteq> ''Escape''"
    by blast
  then show ?thesis
  proof cases
    case 1
    then show ?thesis using p by (auto simp: edit_outcome_def drops_def key_pressed_def onCellKey_def edit_of_def)
  next
    case 2
    then show ?thesis using p m by (auto simp: key_pressed_def onCellKey_def drops_def intro!: outcome_committed)
  next
    case 3
    then show ?thesis using assms by (simp add: outcome_kept drops_def)
  qed
qed

lemma redraw_outcome:
  assumes "edit_of g1 = Some p" "drops fires g e \<longleftrightarrow> \<not> fires" "gi_commits g1 = gi_commits g"
  shows "edit_outcome fires e p g (redraw_grid F fires g1)"
  using assms by (cases p; cases fires) (auto simp: edit_outcome_def redraw_grid_def edit_of_Some ended_def, auto simp: edit_of_def)

lemma edit_step:
  assumes "input_step F fires e g g'" "edit_inv g" "edit_of g = Some p"
  shows "edit_outcome fires e p g g'"
  using assms
proof (induction rule: input_step.induct)
  case (key k shift mods g)
  then show ?case by (simp add: key_outcome)
next
  case (typing g t)
  then show ?case by (cases p) (auto simp: edit_outcome_def drops_def edit_of_Some)
next
  case (move over g)
  then show ?case
    by (cases over) (simp_all add: mouse_move_def ended_def outcome_kept outcome_committed)
next
  case (release g)
  then show ?case by (cases p, intro outcome_kept) (simp_all add: mouse_up_def edit_of_Some drops_def)
next
  case (focus f g)
  then show ?case
    by (cases "f = gi_focus g") (simp_all add: ended_def move_focus_commits outcome_kept outcome_committed)
next
  case (bar g t)
  then show ?case by (simp add: edit_of_def)
next
  case (msg m g)
  have "edit_of (sheet_change F (on_sheet_message m) g) = Some p"
    using msg by (intro inv_text_kept) simp_all
  then show ?case
    using redraw_outcome [of "sheet_change F (on_sheet_message m) g" p fires g "E_msg m" F]
    by (cases "msg_redraws m") (simp_all add: message_arrives_def Let_def drops_def outcome_kept)
next
  case (refresh i d redraw g)
  have "edit_of (sheet_change F (loadSheet i d True redraw) g) = Some p"
    using refresh by (intro inv_text_kept) simp_all
  then show ?case
    using redraw_outcome [of "sheet_change F (loadSheet i d True redraw) g" p fires g "E_refresh i d redraw" F]
    by (cases redraw) (simp_all add: refresh_arrives_def Let_def drops_def outcome_kept)
next
  case (scroll changed g)
  then have "edit_of (on_sheet renderGrid g) = Some p" by (cases p) (simp add: edit_of_Some)
  then show ?case using scroll redraw_outcome [of "on_sheet renderGrid g" p fires g "E_scroll changed" F]
    by (cases changed) (simp_all add: scroll_redraw_def drops_def outcome_kept)
next
  case (resize g)
  then have "edit_of (on_sheet renderGrid g) = Some p" by (cases p) (simp add: edit_of_Some)
  then show ?case using resize redraw_outcome [of "on_sheet renderGrid g" p fires g E_resize F]
    by (cases "sheetId (gi_sheet g) = None") (simp_all add: resize_redraw_def drops_def outcome_kept)
next
  case (goto g g' raw drawn)
  then show ?case by (simp add: edit_of_def)
next
  case (noted g g' ad drawn)
  then show ?case by (simp add: edit_of_def split: focus.splits)
next
  case (search g g' q drawn)
  then show ?case by (simp add: edit_of_def split: focus.splits)
qed (auto simp: ended_def dblclick_simps drops_def intro!: outcome_committed)

section \<open>Protected cells\<close>

definition keeps_locked :: "sheet \<Rightarrow> sheet \<Rightarrow> bool" where
  "keeps_locked s s' \<longleftrightarrow> sheetProtected s' = sheetProtected s \<and> protectedRanges s' = protectedRanges s
     \<and> (\<forall>ad. isAddrProtected s ad \<longrightarrow> map_of (cells s') ad = map_of (cells s) ad)"

lemma keeps_locked_refl [simp]: "keeps_locked s s"
  by (simp add: keeps_locked_def)

lemma keeps_locked_trans: "keeps_locked s s' \<Longrightarrow> keeps_locked s' s'' \<Longrightarrow> keeps_locked s s''"
  using prot_cong [of s' s] by (auto simp: keeps_locked_def)

lemma keeps_locked_commit: "keeps_locked s (commitCell ad v s)"
  using commits_only_locked [OF commits_only_one] by (simp add: keeps_locked_def)

lemma paintSelection_prot [simp]:
  "sheetProtected (paintSelection s) = sheetProtected s" "protectedRanges (paintSelection s) = protectedRanges s"
  by (simp_all add: paintSelection_def broadcastPresenceCell_def)

lemma keeps_locked_same:
  "sheetProtected s' = sheetProtected s \<Longrightarrow> protectedRanges s' = protectedRanges s \<Longrightarrow> cells s' = cells s \<Longrightarrow> keeps_locked s s'"
  by (simp add: keeps_locked_def)

lemma keeps_locked_commit_idle: "keeps_locked s (commitCell ad v (s\<lparr>editing := False\<rparr>))"
  by (rule keeps_locked_trans [OF keeps_locked_same keeps_locked_commit]) simp_all

lemma keeps_end: "keeps_locked (gi_sheet g) (gi_sheet (endCellEditIfNeeded F g))"
  by (auto simp: endCellEditIfNeeded_def Let_def keeps_locked_commit_idle intro: keeps_locked_same split: focus.split)

lemma keeps_focusout: "keeps_locked (gi_sheet g) (gi_sheet (cell_focusout F g))"
  by (auto simp: cell_focusout_def keeps_locked_commit_idle split: focus.split)

lemma keeps_focus: "keeps_locked (gi_sheet g) (gi_sheet (move_focus F f g))"
proof -
  have "keeps_locked (gi_sheet (cell_focusout F g)) (gi_sheet (move_focus F f g))" if "f \<noteq> gi_focus g"
    using that by (auto simp: move_focus_def cell_focusin_def Let_def intro: keeps_locked_same split: focus.split)
  then show ?thesis using keeps_locked_trans [OF keeps_focusout] by (cases "f = gi_focus g") auto
qed

lemma keeps_extend: "keeps_locked (gi_sheet g) (gi_sheet (extendSelectionTo F ad g))"
  by (rule keeps_locked_trans [OF keeps_end]) (auto simp: extendSelectionTo_def intro: keeps_locked_same)

lemma keeps_select: "keeps_locked (gi_sheet g) (gi_sheet (selectCellOnly F ad ext g))"
  unfolding selectCellOnly_def
  by (rule keeps_locked_trans [OF keeps_end keeps_locked_trans [OF keeps_locked_same keeps_focus]]) simp_all

lemma keeps_mouse_down: "keeps_locked (gi_sheet g) (gi_sheet (mouse_down F ad shift g))"
  unfolding mouse_down_def Let_def
  by (auto intro!: keeps_locked_trans [OF keeps_locked_same keeps_extend] keeps_locked_trans [OF keeps_locked_same keeps_select] split: if_splits)

lemma keeps_move: "keeps_locked (gi_sheet g) (gi_sheet (move_cell F dc dr ext g))"
proof -
  let ?g = "(on_sheet (moveActive dc dr ext) g)\<lparr>gi_focus := Elsewhere\<rparr>"
  have "keeps_locked (gi_sheet g) (gi_sheet ?g)" by (rule keeps_locked_same) (simp_all add: moveActive_def Let_def)
  then show ?thesis using keeps_locked_trans [OF _ keeps_focus] by (auto simp: move_cell_def Let_def)
qed

lemma keeps_begin: "keeps_locked (gi_sheet g) (gi_sheet (beginCellEdit F ad seed g))"
  by (rule keeps_locked_same) (simp_all add: beginCellEdit_def Let_def)

lemma keeps_key: "keeps_locked (gi_sheet g) (gi_sheet (key_pressed F k shift mods g))"
proof -
  have e: "keeps_locked (gi_sheet g) (gi_sheet (on_sheet paintSelection (paintCellTd F ad (on_sheet (\<lambda>s. s\<lparr>editing := False\<rparr>) g))))" for ad
    by (rule keeps_locked_same) simp_all
  have "keeps_locked (gi_sheet g) (gi_sheet (clear_key F g))" by (simp add: clear_key_def keeps_locked_commit)
  moreover have "keeps_locked (gi_sheet g) (gi_sheet (move_cell F dc dr False (move_focus F Elsewhere g)))" for dc dr
    by (rule keeps_locked_trans [OF keeps_focus keeps_move])
  ultimately show ?thesis using e keeps_begin keeps_move
    by (simp add: key_pressed_def onCellKey_def document_keydown_def split: focus.split)
qed

definition from_server :: "input_event \<Rightarrow> bool" where
  "from_server e = (case e of E_msg m \<Rightarrow> True | E_refresh i d redraw \<Rightarrow> True | _ \<Rightarrow> False)"

lemma jump_sheet [simp]:
  "sheetProtected (snd (goToAddr raw s)) = sheetProtected s" "protectedRanges (snd (goToAddr raw s)) = protectedRanges s"
  "cells (snd (goToAddr raw s)) = cells s"
  "sheetProtected (findNextCell F q s) = sheetProtected s" "protectedRanges (findNextCell F q s) = protectedRanges s"
  "cells (findNextCell F q s) = cells s"
  by (simp_all add: goToAddr_def findNextCell_def show_status_def renderGrid_def Let_def split: option.splits)

lemma render_prot [simp]: "sheetProtected (renderGrid s) = sheetProtected s" "protectedRanges (renderGrid s) = protectedRanges s"
  "cells (renderGrid s) = cells s"
  by (simp_all add: renderGrid_def split: option.splits)

lemma keeps_redraw: "keeps_locked (gi_sheet g) (gi_sheet (redraw_grid F fires (on_sheet renderGrid g)))"
  by (rule keeps_locked_trans [of _ "renderGrid (gi_sheet g)"], rule keeps_locked_same)
    (use keeps_focusout [of "on_sheet renderGrid g" F] in \<open>simp_all add: redraw_grid_def split: focus.split\<close>)

lemma keeps_jumps:
  "keeps_locked (gi_sheet g) (gi_sheet (go_to F raw drawn g))"
  "keeps_locked (gi_sheet g) (gi_sheet (note_click F ad drawn g))"
  "keeps_locked (gi_sheet g) (gi_sheet (find_click F q drawn g))"
proof -
  have f: "keeps_locked (gi_sheet g) (gi_sheet (move_focus F f g1))"
    if "sheetProtected (gi_sheet g1) = sheetProtected (gi_sheet g)" "protectedRanges (gi_sheet g1) = protectedRanges (gi_sheet g)"
      "cells (gi_sheet g1) = cells (gi_sheet g)" for f g1
    by (rule keeps_locked_trans [OF keeps_locked_same keeps_focus]) (simp_all add: that)
  show "keeps_locked (gi_sheet g) (gi_sheet (go_to F raw drawn g))"
    using jump_sheet(1-3) [of raw "gi_sheet g"]
    by (cases "goToAddr raw (gi_sheet g)") (simp add: go_to_def Let_def f keeps_locked_same)
  show "keeps_locked (gi_sheet g) (gi_sheet (note_click F ad drawn g))"
    by (cases drawn; cases "parseAddr ad = None") (simp_all add: note_click_def Let_def f keeps_locked_same)
  show "keeps_locked (gi_sheet g) (gi_sheet (find_click F q drawn g))"
    by (cases drawn) (simp_all add: find_click_def Let_def f keeps_locked_same)
qed

lemma keeps_step: "input_step F fires e g g' \<Longrightarrow> \<not> from_server e \<Longrightarrow> keeps_locked (gi_sheet g) (gi_sheet g')"
proof (induction rule: input_step.induct)
  case (double g ad)
  let ?g = "on_sheet (\<lambda>s. s\<lparr>selAnchorAddr := Some ad\<rparr>) (mouse_up (mouse_down F ad False g))"
  have "keeps_locked (gi_sheet g) (gi_sheet ?g)"
    by (rule keeps_locked_trans [OF keeps_mouse_down keeps_locked_same]) (simp_all add: mouse_up_def)
  then show ?case unfolding dblclick_def by (rule keeps_locked_trans [OF _ keeps_begin])
next
  case (bar g t)
  then show ?case by (simp add: formula_enter_def keeps_locked_commit_idle)
qed (auto simp: keeps_redraw keeps_jumps scroll_redraw_def resize_redraw_def keeps_key keeps_mouse_down keeps_focus keeps_extend mouse_move_def mouse_up_def from_server_def split: option.split)

section \<open>Addresses\<close>

text \<open>Every address the editor holds is an address of the grid or one that was gone to without a check.\<close>

definition known :: "string list \<Rightarrow> string \<Rightarrow> bool" where
  "known jumps ad \<longleftrightarrow> addr_ok ad \<or> ad \<in> set jumps"

definition input_ok :: "grid_input \<Rightarrow> bool" where
  "input_ok g \<longleftrightarrow> known (gi_jumps g) (gi_active g) \<and> pred_option (known (gi_jumps g)) (selAnchorAddr (gi_sheet g))
     \<and> (\<forall>ad. gi_focus g = In_cell ad \<longrightarrow> known (gi_jumps g) ad) \<and> list_all (\<lambda>p. known (gi_jumps g) (fst p)) (gi_commits g)"

lemma known_ok: "addr_ok ad \<Longrightarrow> known jumps ad"
  by (simp add: known_def)

lemma known_more: "known jumps ad \<Longrightarrow> known (jumps @ others) ad"
  by (auto simp: known_def)

lemma jumps_kept [simp]:
  "gi_jumps (endCellEditIfNeeded F g) = gi_jumps g" "gi_jumps (cell_focusout F g) = gi_jumps g"
  "gi_jumps (move_focus F f g) = gi_jumps g" "gi_jumps (extendSelectionTo F ad g) = gi_jumps g"
  "gi_jumps (selectCellOnly F ad ext g) = gi_jumps g" "gi_jumps (mouse_down F ad shift g) = gi_jumps g"
  "gi_jumps (beginCellEdit F ad seed g) = gi_jumps g" "gi_jumps (move_cell F dc dr ext g) = gi_jumps g"
  "gi_jumps (redraw_grid F fires g) = gi_jumps g"
proof -
  show e: "gi_jumps (endCellEditIfNeeded F g) = gi_jumps g" and o: "gi_jumps (cell_focusout F g) = gi_jumps g" for g
    by (simp_all add: endCellEditIfNeeded_def cell_focusout_def Let_def split: focus.split)
  show f: "gi_jumps (move_focus F f g) = gi_jumps g" for f g
    by (simp add: move_focus_def cell_focusin_def o Let_def split: focus.split)
  show x: "gi_jumps (extendSelectionTo F ad g) = gi_jumps g" and c: "gi_jumps (selectCellOnly F ad ext g) = gi_jumps g" for ext g
    by (simp_all add: extendSelectionTo_def selectCellOnly_def e f)
  show "gi_jumps (mouse_down F ad shift g) = gi_jumps g" "gi_jumps (move_cell F dc dr ext g) = gi_jumps g"
    by (simp_all add: mouse_down_def move_cell_def x c f Let_def)
  show "gi_jumps (beginCellEdit F ad seed g) = gi_jumps g" "gi_jumps (redraw_grid F fires g) = gi_jumps g"
    by (simp_all add: beginCellEdit_def redraw_grid_def o Let_def split: focus.split)
qed

lemma has_td_ok: "has_td s ad \<Longrightarrow> addr_ok ad"
  by (auto simp: has_td_def addr_ok_def split: option.splits)

lemma addr_ok_nonempty: "addr_ok ad \<Longrightarrow> ad \<noteq> []"
  by (auto simp: addr_ok_def parseAddr_def Let_def split: option.splits if_splits)

lemma moveActive_ok: "addr_ok (activeAddr (moveActive dc dr ext s))"
  using moveActive_within [of dc dr ext s] by (auto simp: addr_ok_def)

lemma anchor_prims [simp]:
  "selAnchorAddr (paintSelection s) = selAnchorAddr s" "selAnchorAddr (sendSheetOp oper s) = selAnchorAddr s"
  "selAnchorAddr (paintGridValues s) = selAnchorAddr s" "selAnchorAddr (show_status m b s) = selAnchorAddr s"
  "selAnchorAddr (commitCell ad v s) = selAnchorAddr s"
  by (simp_all add: paintSelection_def sendSheetOp_def broadcastPresenceCell_def paintGridValues_def show_status_def
      commitCell_def scheduleRefresh_def sendCell_def Let_def)

lemma ok_end: "input_ok g \<Longrightarrow> input_ok (endCellEditIfNeeded F g)"
  by (auto simp: input_ok_def endCellEditIfNeeded_def Let_def split: focus.splits)

lemma ok_focus: "input_ok g \<Longrightarrow> (\<forall>ad. f = In_cell ad \<longrightarrow> known (gi_jumps g) ad) \<Longrightarrow> input_ok (move_focus F f g)"
  by (auto simp: input_ok_def move_focus_def cell_focusout_def cell_focusin_def Let_def split: focus.splits)

lemma ok_extend: "input_ok g \<Longrightarrow> known (gi_jumps g) ad \<Longrightarrow> input_ok (extendSelectionTo F ad g)"
  using ok_end [of g F] by (auto simp: input_ok_def extendSelectionTo_def)

lemma ok_select: "input_ok g \<Longrightarrow> known (gi_jumps g) ad \<Longrightarrow> input_ok (selectCellOnly F ad False g)"
  unfolding selectCellOnly_def using ok_end [of g F] by (intro ok_focus) (auto simp: input_ok_def)

lemma ok_mouse_down: "input_ok g \<Longrightarrow> known (gi_jumps g) ad \<Longrightarrow> input_ok (mouse_down F ad shift g)"
proof -
  assume g: "input_ok g" "known (gi_jumps g) ad"
  have "input_ok (on_sheet (\<lambda>s. if truthy_str (selAnchorAddr s) then s else s\<lparr>selAnchorAddr := Some (activeAddr s)\<rparr>) g)"
    "input_ok (on_sheet (\<lambda>s. s\<lparr>selAnchorAddr := Some ad\<rparr>) g)" using g by (simp_all add: input_ok_def)
  then have "input_ok (extendSelectionTo F ad
      (on_sheet (\<lambda>s. if truthy_str (selAnchorAddr s) then s else s\<lparr>selAnchorAddr := Some (activeAddr s)\<rparr>) g))"
    "input_ok (selectCellOnly F ad False (on_sheet (\<lambda>s. s\<lparr>selAnchorAddr := Some ad\<rparr>) g))"
    using g(2) by (simp_all add: ok_extend ok_select)
  then show ?thesis unfolding mouse_down_def Let_def by (auto simp: input_ok_def)
qed

lemma ok_begin: "input_ok g \<Longrightarrow> known (gi_jumps g) ad \<Longrightarrow> input_ok (beginCellEdit F ad seed g)"
  by (auto simp: input_ok_def beginCellEdit_def Let_def)

lemma anchor_move: "selAnchorAddr (moveActive dc dr ext s) \<in> {Some (activeAddr (moveActive dc dr ext s)), selAnchorAddr s, Some (activeAddr s)}"
  by (auto simp: moveActive_def renderGrid_def Let_def split: option.splits)

lemma ok_move: "input_ok g \<Longrightarrow> input_ok (move_cell F dc dr ext g)"
proof -
  assume g: "input_ok g"
  let ?g = "(on_sheet (moveActive dc dr ext) g)\<lparr>gi_focus := Elsewhere\<rparr>"
  have "input_ok ?g" using g moveActive_ok [of dc dr ext "gi_sheet g"] anchor_move [of dc dr ext "gi_sheet g"]
    by (auto simp: input_ok_def known_ok)
  then show ?thesis using ok_focus [of ?g] has_td_ok by (auto simp: move_cell_def Let_def known_ok)
qed

lemma ok_key: "input_ok g \<Longrightarrow> input_ok (key_pressed F k shift mods g)"
proof -
  assume g: "input_ok g"
  have b: "gi_focus g = In_cell ad \<Longrightarrow> input_ok (beginCellEdit F ad seed g)" for ad seed
    using g ok_begin by (simp add: input_ok_def)
  have e: "input_ok (on_sheet paintSelection (paintCellTd F ad (on_sheet (\<lambda>s. s\<lparr>editing := False\<rparr>) g)))" for ad
    using g by (simp add: input_ok_def)
  have c: "input_ok (clear_key F g)" using g by (simp add: input_ok_def clear_key_def)
  have m: "input_ok (move_cell F dc dr False (move_focus F Elsewhere g))" for dc dr using g by (simp add: ok_move ok_focus)
  show ?thesis using g b e c m ok_move [OF g]
    by (simp add: key_pressed_def onCellKey_def document_keydown_def split: focus.split)
qed

lemma anchor_loading:
  "selAnchorAddr (on_sheet_message m s) \<in> {selAnchorAddr s, Some (activeAddr s)}"
  "selAnchorAddr (loadSheet i d q r s) \<in> {selAnchorAddr s, Some (activeAddr s)}"
proof -
  have tab: "selAnchorAddr (load_tab tb s) = selAnchorAddr s" "selAnchorAddr (apply_envelope_op oper s) = selAnchorAddr s" for tb oper s
    by (simp_all add: load_tab_def loadScenariosFromTab_def loadProtectedRangesFromList_def loadMergesFromList_def
        apply_envelope_op_def scheduleRefresh_def upd_active_tab_def split: option.split sheet_op.split)
  have r: "selAnchorAddr (renderGrid s) = (if selAnchorAddr s = None then Some (activeAddr s) else selAnchorAddr s)" for s
    by (simp add: renderGrid_def split: option.split)
  have ld: "selAnchorAddr (loadMergesFromList ks s) = selAnchorAddr s" "selAnchorAddr (loadProtectedRangesFromList ks s) = selAnchorAddr s" for ks s
    by (simp_all add: loadProtectedRangesFromList_def loadMergesFromList_def)
  have env: "selAnchorAddr (applySyncEnvelope e s) \<in> {selAnchorAddr s, Some (activeAddr s)}" for e
    by (simp add: r applySyncEnvelope_def applyCells_def when_some_def tab envelope_edit Let_def split: option.split)
  then show "selAnchorAddr (on_sheet_message m s) \<in> {selAnchorAddr s, Some (activeAddr s)}"
    by (simp add: on_sheet_message_def remote_set_cell_def remote_set_style_def scheduleRefresh_def Let_def split: sheet_msg.split sheet_op.split)
  have "selAnchorAddr (syncSheetTabsFromState d s) = selAnchorAddr s" "activeAddr (syncSheetTabsFromState d s) = activeAddr s" for s
    by (simp_all add: syncSheetTabsFromState_def when_some_def tab ld Let_def split: option.split)
  then show "selAnchorAddr (loadSheet i d q r s) \<in> {selAnchorAddr s, Some (activeAddr s)}"
    by (simp add: r loadSheet_def Let_def)
qed

lemma ok_change:
  assumes "input_ok g" "activeAddr (f (gi_sheet g)) = gi_active g" "selAnchorAddr (f (gi_sheet g)) \<in> {selAnchorAddr (gi_sheet g), Some (gi_active g)}"
  shows "input_ok (sheet_change F f g)"
  using assms by (auto simp: input_ok_def)

lemma ok_redraw: "input_ok g \<Longrightarrow> input_ok (redraw_grid F fires g)"
  by (auto simp: input_ok_def redraw_grid_def cell_focusout_def split: focus.splits)

lemma ok_render: "input_ok g \<Longrightarrow> input_ok (on_sheet renderGrid g)"
  by (auto simp: input_ok_def renderGrid_def split: option.splits)

text \<open>Where \<open>goToAddr\<close> goes.\<close>

lemma goto_cases:
  fixes raw s
  defines "s' \<equiv> snd (goToAddr raw s)"
  shows "(activeAddr s' = activeAddr s \<and> selAnchorAddr s' = selAnchorAddr s)
    \<or> (\<exists>a b. box_corners raw = [a, b] \<and> selAnchorAddr s' = Some a \<and> activeAddr s' = b)
    \<or> (\<exists>p. within_capacity p \<and> activeAddr s' = addr_str p \<and> selAnchorAddr s' = Some (addr_str p))"
proof (cases "str_includes '':'' (to_upper (js_trim raw))")
  case True
  then show ?thesis by (cases "parseRangeStr (to_upper (js_trim raw))") (simp_all add: s'_def goToAddr_def box_corners_def renderGrid_def show_status_def)
next
  case False
  then show ?thesis
    by (cases "parseAddr (to_upper (js_trim raw))") (auto simp: s'_def goToAddr_def renderGrid_def show_status_def)
qed

lemma goto_known:
  assumes "known J (activeAddr s)" "pred_option (known J) (selAnchorAddr s)"
  shows "known (J @ box_corners raw) (activeAddr (snd (goToAddr raw s)))"
    "pred_option (known (J @ box_corners raw)) (selAnchorAddr (snd (goToAddr raw s)))"
proof -
  let ?s = "snd (goToAddr raw s)" and ?J = "J @ box_corners raw"
  consider (same) "activeAddr ?s = activeAddr s" "selAnchorAddr ?s = selAnchorAddr s"
    | (corners) a b where "box_corners raw = [a, b]" "selAnchorAddr ?s = Some a" "activeAddr ?s = b"
    | (single) p where "within_capacity p" "activeAddr ?s = addr_str p" "selAnchorAddr ?s = Some (addr_str p)"
    using goto_cases [of raw s] by blast
  then have "known ?J (activeAddr ?s) \<and> pred_option (known ?J) (selAnchorAddr ?s)"
  proof cases
    case same
    then show ?thesis using assms known_more by (auto intro: option.pred_mono_strong)
  next
    case corners
    then show ?thesis by (simp add: known_def)
  next
    case single
    then have "addr_ok (addr_str p)" by (simp add: addr_ok_def addr_str_def within_capacity_def)
    then show ?thesis using single by (simp add: known_def)
  qed
  then show "known ?J (activeAddr ?s)" "pred_option (known ?J) (selAnchorAddr ?s)" by blast+
qed

lemma ok_goto: "input_ok g \<Longrightarrow> input_ok (go_to F raw drawn g)"
proof -
  assume g: "input_ok g"
  obtain ok s where e: "goToAddr raw (gi_sheet g) = (ok, s)" by (cases "goToAddr raw (gi_sheet g)")
  let ?g1 = "g\<lparr>gi_sheet := s, gi_focus := Elsewhere, gi_jumps := gi_jumps g @ box_corners raw\<rparr>"
  have "input_ok ?g1"
    using g goto_known [of "gi_jumps g" "gi_sheet g" raw] e by (auto simp: input_ok_def list_all_iff intro: known_more)
  moreover from this have "input_ok (move_focus F (In_cell (gi_active ?g1)) ?g1)" by (intro ok_focus) (auto simp: input_ok_def)
  ultimately show ?thesis by (simp add: go_to_def e Let_def)
qed

lemma ok_note: "input_ok g \<Longrightarrow> input_ok (note_click F ad drawn g)"
proof -
  assume g: "input_ok g"
  let ?g1 = "(on_sheet (\<lambda>s. paintSelection ((if parseAddr ad = None then (\<lambda>s. s) else renderGrid) (s\<lparr>activeAddr := ad\<rparr>))) g)
                 \<lparr>gi_focus := Elsewhere, gi_jumps := gi_jumps g @ [ad]\<rparr>"
  have "input_ok ?g1" using g known_more [of "gi_jumps g" _ "[ad]"]
    by (auto simp: input_ok_def renderGrid_def known_def list_all_iff split: option.splits)
  moreover from this have "input_ok (move_focus F (In_cell ad) ?g1)" by (intro ok_focus) (auto simp: known_def)
  ultimately show ?thesis by (simp add: note_click_def Let_def)
qed

lemma matches_prims [simp]:
  "findCellMatches (paintSelection s) = findCellMatches s" "findCellMatches (sendSheetOp oper s) = findCellMatches s"
  "findCellMatches (paintGridValues s) = findCellMatches s" "findCellMatches (show_status m b s) = findCellMatches s"
  "findCellMatches (commitCell ad v s) = findCellMatches s"
  by (simp_all add: paintSelection_def sendSheetOp_def broadcastPresenceCell_def paintGridValues_def show_status_def
      commitCell_def scheduleRefresh_def sendCell_def Let_def)

lemma find_anchor:
  "selAnchorAddr (findNextCell F q s) \<in> {selAnchorAddr s, Some (activeAddr (findNextCell F q s))}"
  "to_lower (js_trim q) = [] \<or> findCellMatches (findNextCell F q s) = [] \<Longrightarrow>
     activeAddr (findNextCell F q s) = activeAddr s \<and> selAnchorAddr (findNextCell F q s) = selAnchorAddr s"
  by (auto simp: findNextCell_def renderGrid_def show_status_def Let_def split: option.splits if_splits)

lemma ok_find: "input_ok g \<Longrightarrow> input_ok (find_click F q drawn g)"
proof -
  assume g: "input_ok g"
  let ?g1 = "on_sheet (findNextCell F q) g"
  let ?g2 = "?g1\<lparr>gi_jumps := gi_jumps g @ [gi_active ?g1]\<rparr>"
  have n: "input_ok ?g1" if "to_lower (js_trim q) = [] \<or> findCellMatches (gi_sheet ?g1) = []"
    using find_anchor(2) [of q F "gi_sheet g"] that g by (simp add: input_ok_def)
  have "input_ok ?g2" using g known_more [of "gi_jumps g" _ "[gi_active ?g1]"] find_anchor(1) [of F q "gi_sheet g"]
      option.pred_mono_strong [of "known (gi_jumps g)" "selAnchorAddr (gi_sheet g)" "known (gi_jumps g @ [gi_active ?g1])"]
    by (auto simp: input_ok_def list_all_iff known_def)
  moreover from this have "input_ok (move_focus F (In_cell (gi_active ?g2)) ?g2)" by (intro ok_focus) (auto simp: input_ok_def)
  ultimately show ?thesis using n by (simp add: find_click_def Let_def)
qed

lemma ok_step: "input_step F fires e g g' \<Longrightarrow> input_ok g \<Longrightarrow> input_ok g'"
proof (induction rule: input_step.induct)
  case (double g ad)
  then have "input_ok (mouse_down F ad False g)" "known (gi_jumps g) ad" by (auto intro: ok_mouse_down known_ok has_td_ok)
  then show ?case unfolding dblclick_def by (intro ok_begin) (auto simp: input_ok_def mouse_up_def)
next
  case (msg m g)
  then have "input_ok (sheet_change F (on_sheet_message m) g)" using anchor_loading(1) by (intro ok_change) auto
  then show ?case by (simp add: message_arrives_def ok_redraw Let_def)
next
  case (refresh i d redraw g)
  then have "input_ok (sheet_change F (loadSheet i d True redraw) g)" using anchor_loading(2) by (intro ok_change) auto
  then show ?case by (cases redraw) (simp_all add: refresh_arrives_def ok_redraw Let_def)
next
  case (move over g)
  then show ?case by (auto simp: mouse_move_def intro: ok_extend known_ok has_td_ok split: option.split)
next
  case (focus f g)
  then show ?case by (intro ok_focus) (auto dest: has_td_ok intro: known_ok)
next
  case (bar g t)
  then show ?case by (simp add: input_ok_def formula_enter_def)
next
  case (release g)
  then show ?case by (simp add: input_ok_def mouse_up_def)
next
  case (typing g t)
  then show ?case by (simp add: input_ok_def)
qed (auto simp: scroll_redraw_def resize_redraw_def
    intro: ok_key ok_mouse_down known_ok has_td_ok ok_redraw ok_render ok_goto ok_note ok_find)

text \<open>Which addresses a step goes to without a check.\<close>

definition jumps_of :: "input_event \<Rightarrow> grid_input \<Rightarrow> string list" where
  "jumps_of e g' =
     (case e of
        E_goto raw drawn \<Rightarrow> box_corners raw
      | E_note ad drawn \<Rightarrow> [ad]
      | E_find q drawn \<Rightarrow> (if to_lower (js_trim q) = [] \<or> findCellMatches (gi_sheet g') = [] then [] else [gi_active g'])
      | _ \<Rightarrow> [])"

lemma jumps_misc:
  "gi_jumps (key_pressed F k shift mods g) = gi_jumps g" "gi_jumps (dblclick F ad g) = gi_jumps g"
  "gi_jumps (mouse_move F over g) = gi_jumps g" "gi_jumps (message_arrives F fires m g) = gi_jumps g"
  "gi_jumps (refresh_arrives F fires i d redraw g) = gi_jumps g" "gi_jumps (formula_enter F t g) = gi_jumps g"
  by (simp_all add: key_pressed_def onCellKey_def document_keydown_def clear_key_def dblclick_def mouse_up_def mouse_move_def
      message_arrives_def refresh_arrives_def formula_enter_def Let_def split: focus.split option.split)

lemma focus_active: "ad = gi_active g \<Longrightarrow> gi_active (move_focus F (In_cell ad) g) = ad"
  by (simp add: move_focus_def cell_focusin_def Let_def)

lemma focus_matches: "findCellMatches (gi_sheet (move_focus F f g)) = findCellMatches (gi_sheet g)"
  by (simp add: move_focus_def cell_focusin_def cell_focusout_def Let_def split: focus.split)

lemma jumps_step: "input_step F fires e g g' \<Longrightarrow> gi_jumps g' = gi_jumps g @ jumps_of e g'"
proof (induction rule: input_step.induct)
  case (goto g g' raw drawn)
  then show ?case by (simp add: go_to_def jumps_of_def Let_def split: prod.split)
next
  case (noted g g' ad drawn)
  then show ?case by (simp add: note_click_def jumps_of_def Let_def)
next
  case (search g g' q drawn)
  then show ?case
    by (auto simp: find_click_def jumps_of_def Let_def focus_active focus_matches)
qed (simp_all add: jumps_misc jumps_of_def scroll_redraw_def resize_redraw_def mouse_up_def)

lemma ok_reach: "input_reach F fires g \<Longrightarrow> input_ok g"
proof (induction rule: input_reach.induct)
  case (start g)
  then show ?case by (simp add: input_ok_def known_ok)
qed (rule ok_step)

lemma goto_outside: "\<not> addr_ok (gi_active (go_to F ''A1:ZZ9'' drawn g))"
proof -
  have "str_includes '':'' (to_upper (js_trim ''A1:ZZ9''))" "\<not> addr_ok ''ZZ9''" by code_simp+
  moreover have "parseRangeStr (to_upper (js_trim ''A1:ZZ9'')) = Some (make_range \<lparr> a_col = 0, a_row = 1 \<rparr> \<lparr> a_col = 701, a_row = 9 \<rparr>)"
    "makeAddr (c2 (make_range \<lparr> a_col = 0, a_row = 1 \<rparr> \<lparr> a_col = 701, a_row = 9 \<rparr>)) (r2 (make_range \<lparr> a_col = 0, a_row = 1 \<rparr> \<lparr> a_col = 701, a_row = 9 \<rparr>)) = ''ZZ9''"
    by code_simp+
  ultimately show ?thesis by (simp add: go_to_def goToAddr_def Let_def)
qed

section \<open>Properties\<close>


definition input_start :: grid_input where
  "input_start = \<lparr> gi_sheet = sample_sheet two_cells, gi_focus = Elsewhere, gi_text = [], gi_selecting = False, gi_commits = [], gi_jumps = [] \<rparr>"

definition input_typed :: grid_input where
  "input_typed = (dblclick plain_fmt ''B2'' input_start)\<lparr>gi_text := ''42''\<rparr>"

lemma input_typed_reach: "input_reach plain_fmt False input_typed"
proof -
  have "has_td (gi_sheet input_start) ''B2''" by code_simp
  then have "input_step plain_fmt False (E_double ''B2'') input_start (dblclick plain_fmt ''B2'' input_start)" by (rule input_step.double)
  moreover have "input_reach plain_fmt False input_start" by (rule input_reach.start) code_simp+
  ultimately have r: "input_reach plain_fmt False (dblclick plain_fmt ''B2'' input_start)" by (rule input_reach.step [rotated])
  have "gi_editing (dblclick plain_fmt ''B2'' input_start)" by (simp add: dblclick_def)
  then have "input_step plain_fmt False (E_type ''42'') (dblclick plain_fmt ''B2'' input_start) input_typed"
    unfolding input_typed_def by (rule input_step.typing) (simp add: dblclick_simps)
  with r show ?thesis by (rule input_reach.step)
qed


text \<open>
  C21. In every session of input the active cell, the anchor of the selection and every committed
  cell are addresses of the grid, or addresses that were gone to without a check: the corners of a
  range typed into the address box, the item clicked in the list of notes, a match of the search.
  The range \<open>A1:ZZ9\<close> in the address box does leave the grid. And no event but what arrives from
  the server changes a protected cell.
\<close>

theorem tables_input_typed:
  assumes "input_reach F fires g" "input_step F fires e g g'"
  shows "(let ok = (\<lambda>ad. addr_ok ad \<or> ad \<in> set (gi_jumps g'))
     in ok (gi_active g') \<and> pred_option ok (selAnchorAddr (gi_sheet g')) \<and> (\<forall>p\<in>set (gi_commits g'). ok (fst p)))
    \<and> gi_jumps g' = gi_jumps g @
        (case e of E_goto raw drawn \<Rightarrow> box_corners raw
         | E_note ad drawn \<Rightarrow> [ad]
         | E_find q drawn \<Rightarrow> (if to_lower (js_trim q) = [] \<or> findCellMatches (gi_sheet g') = [] then [] else [gi_active g'])
         | _ \<Rightarrow> [])
    \<and> (\<not> addr_ok (gi_active (go_to F ''A1:ZZ9'' drawn g)))
    \<and> ((\<forall>m. e \<noteq> E_msg m) \<and> (\<forall>i d r. e \<noteq> E_refresh i d r) \<and> isAddrProtected (gi_sheet g) ad
        \<longrightarrow> map_of (cells (gi_sheet g')) ad = map_of (cells (gi_sheet g)) ad)"
proof -
  have k: "known J = (\<lambda>ad. addr_ok ad \<or> ad \<in> set J)" for J by (auto simp: known_def)
  have "\<not> from_server e" if "\<forall>m. e \<noteq> E_msg m" "\<forall>i d r. e \<noteq> E_refresh i d r"
    using that by (cases e) (auto simp: from_server_def)
  then have "map_of (cells (gi_sheet g')) ad = map_of (cells (gi_sheet g)) ad"
    if "\<forall>m. e \<noteq> E_msg m" "\<forall>i d r. e \<noteq> E_refresh i d r" "isAddrProtected (gi_sheet g) ad"
    using that keeps_step [OF assms(2)] by (simp add: keeps_locked_def)
  moreover have "\<not> addr_ok (gi_active (go_to F ''A1:ZZ9'' drawn g))" by (rule goto_outside)
  ultimately show ?thesis
    using ok_step [OF assms(2) ok_reach [OF assms(1)]] jumps_step [OF assms(2)]
    by (simp add: input_ok_def list_all_iff k jumps_of_def Let_def)
qed

theorem tables_input_typed_witness:
  "addr_ok (gi_active (key_pressed plain_fmt ''Tab'' False False input_typed))
   \<and> gi_active (key_pressed plain_fmt ''Tab'' False False input_typed) = ''C2''"
proof -
  let ?g' = "key_pressed plain_fmt ''Tab'' False False input_typed"
  have "input_step plain_fmt False (E_key ''Tab'' False False) input_typed ?g'"
    by (rule input_step.key)
  moreover have "gi_active ?g' = ''C2''" "gi_jumps ?g' = []" by code_simp+
  ultimately show ?thesis
    using tables_input_typed [OF input_typed_reach, of "E_key ''Tab'' False False" ?g', unfolded Let_def, THEN conjunct1, THEN conjunct1]
    by simp
qed

end
