(* ===== verification/Era_Arrays.thy ===== *)
theory Era_Arrays
  imports Era_Prelude "HOL-Library.Multiset"
begin

text \<open>
  Arrays and sets of the language: the stable sort of \<open>Array.prototype.sort\<close>, and \<open>Set\<close> objects
  as lists without repetition in the order in which their members were added.
\<close>

section \<open>Arrays\<close>

text \<open>\<open>Array.prototype.sort\<close> is stable; \<open>le a b\<close> says that \<open>a\<close> may stay before \<open>b\<close>.\<close>

fun insert_by :: "('a \<Rightarrow> 'a \<Rightarrow> bool) \<Rightarrow> 'a \<Rightarrow> 'a list \<Rightarrow> 'a list" where
  "insert_by le x [] = [x]"
| "insert_by le x (y # ys) = (if le x y then x # y # ys else y # insert_by le x ys)"

definition js_sort :: "('a \<Rightarrow> 'a \<Rightarrow> bool) \<Rightarrow> 'a list \<Rightarrow> 'a list" where
  "js_sort le xs = foldr (insert_by le) xs []"

text \<open>The members of a \<open>Set\<close> in the order in which they were first added.\<close>

definition js_set :: "'a list \<Rightarrow> 'a list" where
  "js_set xs = rev (remdups (rev xs))"

section \<open>Sorting\<close>

lemma mset_insert_by [simp]: "mset (insert_by le x xs) = add_mset x (mset xs)"
  by (induction xs) auto

lemma mset_js_sort [simp]: "mset (js_sort le xs) = mset xs"
  by (induction xs) (simp_all add: js_sort_def)

lemma set_js_sort [simp]: "set (js_sort le xs) = set xs"
  using mset_js_sort [of le xs] by (metis set_mset_mset)

lemma distinct_js_sort [simp]: "distinct (js_sort le xs) = distinct xs"
  using mset_js_sort [of le xs] by (metis mset_eq_imp_distinct_iff)

lemma js_set_props [simp]: "distinct (js_set xs)" "set (js_set xs) = set xs"
  by (simp_all add: js_set_def)

lemma insert_by_last:
  assumes "zs \<noteq> []" "le y (last zs)"
  shows "last (insert_by le y zs) = last zs \<and> insert_by le y zs \<noteq> []"
  using assms by (induction zs) auto

lemma insert_by_end: "\<forall>z\<in>set zs. \<not> le x z \<Longrightarrow> last (insert_by le x zs) = x \<and> insert_by le x zs \<noteq> []"
  by (induction zs) auto

text \<open>An element that every other one precedes strictly is sorted to the end.\<close>

lemma js_sort_last:
  assumes "x \<in> set xs" "distinct xs" "\<And>y. y \<in> set xs \<Longrightarrow> y \<noteq> x \<Longrightarrow> le y x \<and> \<not> le x y"
  shows "last (js_sort le xs) = x"
  using assms
proof (induction xs)
  case Nil
  then show ?case by simp
next
  case (Cons y ys)
  have js: "js_sort le (y # ys) = insert_by le y (js_sort le ys)" by (simp add: js_sort_def)
  show ?case
  proof (cases "y = x")
    case True
    with Cons.prems have "\<forall>z\<in>set (js_sort le ys). \<not> le x z" by auto
    then show ?thesis using insert_by_end True js by metis
  next
    case False
    with Cons.prems have "x \<in> set ys" by simp
    with Cons have "last (js_sort le ys) = x" by simp
    moreover have "js_sort le ys \<noteq> []" using \<open>x \<in> set ys\<close> set_js_sort [of le ys] by (metis empty_iff list.set(1))
    moreover have "le y x" using Cons.prems False by simp
    ultimately show ?thesis using insert_by_last js by metis
  qed
qed

section \<open>Sets\<close>

definition set_add :: "'a \<Rightarrow> 'a list \<Rightarrow> 'a list" where
  "set_add x xs = (if x \<in> set xs then xs else xs @ [x])"

definition set_delete :: "'a \<Rightarrow> 'a list \<Rightarrow> 'a list" where
  "set_delete x xs = filter (\<lambda>y. y \<noteq> x) xs"

lemma set_add_props [simp]: "set (set_add x xs) = insert x (set xs)" "distinct (set_add x xs) = distinct xs"
  by (auto simp: set_add_def)

lemma set_delete_props [simp]: "set (set_delete x xs) = set xs - {x}" "distinct xs \<Longrightarrow> distinct (set_delete x xs)"
  by (auto simp: set_delete_def)

lemma fold_set_add [simp]: "set (fold set_add ys xs) = set xs \<union> set ys" "distinct (fold set_add ys xs) = distinct xs"
  by (induction ys arbitrary: xs) auto

lemma set_add_mem [simp]: "x \<in> set xs \<Longrightarrow> set_add x xs = xs"
  by (simp add: set_add_def)

end
