(* ===== verification/Tables_View.thy ===== *)
theory Tables_View
  imports Tables_Input Era_Arrays Complex_Main
begin

text \<open>
  What the spreadsheet client paints (\<open>ui/tables/web/app.js\<close>): the look of a cell, notes, peers,
  column headers and their widths, scrolling to a cell, frozen panes, tabs, charts. Pages are
  described as data, without the markup around it; the renderings of numbers with a fixed number
  of decimals are left as numbers.
\<close>

section \<open>Peers\<close>

definition chip_text :: "string \<Rightarrow> string" where
  "chip_text uid = (if length uid > 10 then take 8 uid @ ''...'' else uid)"

text \<open>The chips with their colours; the empty list is shown as a dash.\<close>

definition updatePresencePeers :: "string \<Rightarrow> string list \<Rightarrow> (string \<times> string) list" where
  "updatePresencePeers self peers =
     map (\<lambda>uid. (chip_text uid, tables_peerColor uid)) (filter (\<lambda>p. p \<noteq> [] \<and> p \<noteq> self) peers)"

text \<open>The outline of a drawn cell: the last peer that is in it.\<close>

definition paintPeerCells :: "(string \<times> string \<times> string) list \<Rightarrow> string \<Rightarrow> string option" where
  "paintPeerCells peers ad =
     (case filter (\<lambda>p. fst (snd p) = ad) peers of
        [] \<Rightarrow> None
      | ps \<Rightarrow> if ad = [] then None else Some (or_default (Some (snd (snd (last ps)))) ''#c45''))"

section \<open>The look of a cell\<close>

record td_style =
  ts_bold :: bool
  ts_family :: string
  ts_size :: string
  ts_align :: string
  ts_prewrap :: bool
  ts_top :: bool
  ts_right :: bool
  ts_bottom :: bool
  ts_left :: bool

definition cell_sides :: "cell \<Rightarrow> string" where
  "cell_sides c = to_lower (or_default (Some (border_sides c)) (if border c then ''tblr'' else []))"

definition applyCellChrome :: "cell \<Rightarrow> td_style" where
  "applyCellChrome c =
     (let sides = cell_sides c in
      \<lparr> ts_bold = cbold c, ts_family = font c, ts_size = (if font_size c \<noteq> 0 then int_str (font_size c) @ ''pt'' else []),
        ts_align = calign c, ts_prewrap = wrap c, ts_top = (CHR ''t'' \<in> set sides), ts_right = (CHR ''r'' \<in> set sides),
        ts_bottom = (CHR ''b'' \<in> set sides), ts_left = (CHR ''l'' \<in> set sides) \<rparr>)"

record td_view =
  tv_text :: string
  tv_formula :: bool
  tv_protected :: bool
  tv_title :: string
  tv_style :: td_style

definition cell_title :: "sheet \<Rightarrow> string \<Rightarrow> string" where
  "cell_title s ad =
     (let c = cellOf s ad in
      if c_note c \<noteq> [] then ''Note: '' @ c_note c
      else or_default (Some (formulaFor s ad)) (if isAddrRangeProtected s ad then ''Protected range'' else []))"

definition td_view_of :: "num_fmt \<Rightarrow> sheet \<Rightarrow> string \<Rightarrow> td_view" where
  "td_view_of F s ad =
     \<lparr> tv_text = displayFor F s ad, tv_formula = (formulaFor s ad \<noteq> []), tv_protected = isAddrRangeProtected s ad,
       tv_title = cell_title s ad, tv_style = applyCellChrome (cellOf s ad) \<rparr>"

text \<open>The selection: the active cell and the other cells of the selected range.\<close>

definition selection_class :: "sheet \<Rightarrow> string \<Rightarrow> bool \<times> bool" where
  "selection_class s ad =
     (let inSel = (case (currentSelectionRange s, parseAddr ad) of
                     (Some m, Some p) \<Rightarrow> in_range (a_col p) (a_row p) m
                   | _ \<Rightarrow> False)
      in (inSel \<and> ad \<noteq> activeAddr s, ad = activeAddr s))"

text \<open>The notes of the sheet in the order of their addresses as texts; the body is escaped, the address is not.\<close>

fun str_le :: "string \<Rightarrow> string \<Rightarrow> bool" where
  "str_le [] b = True"
| "str_le (x # a) [] = False"
| "str_le (x # a) (y # b) = ((of_char x :: nat) < of_char y \<or> x = y \<and> str_le a b)"

definition note_escape :: "string \<Rightarrow> string" where
  "note_escape t = replace_char CHR ''<'' ''&lt;'' (replace_char CHR ''&'' ''&amp;'' t)"

definition renderCellNotesRail :: "sheet \<Rightarrow> (string \<times> string) list" where
  "renderCellNotesRail s =
     map (\<lambda>ad. (ad, note_escape (c_note (the (map_of (cells s) ad)))))
       (js_sort str_le (filter (\<lambda>ad. c_note (the (map_of (cells s) ad)) \<noteq> []) (map fst (cells s))))"

section \<open>Sizes and scrolling\<close>

definition totalGridWidth :: "int list \<Rightarrow> nat \<Rightarrow> int" where
  "totalGridWidth ws rhW = int rhW + sum_list (map (colWidthAt ws) [0..<CAPACITY_COLS])"

definition totalGridHeight :: int where
  "totalGridHeight = SCROLL_ROW_H + int CAPACITY_ROWS * SCROLL_ROW_H"

text \<open>The size of the element that gives the scroll bars their length.\<close>

definition syncGridPhantomSize :: "int list \<Rightarrow> window \<Rightarrow> int \<times> int" where
  "syncGridPhantomSize ws w = (totalGridWidth ws (rowHeaderWidthPx (startRow w) (winRows w)), totalGridHeight)"

record scroll_area =
  sa_top :: int
  sa_left :: int
  sa_height :: int
  sa_width :: int

definition view_height :: "scroll_area \<Rightarrow> int" where
  "view_height a = max (SCROLL_ROW_H * 2) (sa_height a - SCROLL_ROW_H)"

definition view_width :: "nat \<Rightarrow> scroll_area \<Rightarrow> int" where
  "view_width rhW a = max (SCROLL_COL_W * 2) (sa_width a - int rhW)"

definition next_top :: "nat \<Rightarrow> scroll_area \<Rightarrow> int" where
  "next_top row a =
     (let targetTop = gridOffsetTop row; viewH = view_height a in
      if targetTop < sa_top a then targetTop
      else if targetTop + SCROLL_ROW_H > sa_top a + viewH then max 0 (targetTop - viewH + SCROLL_ROW_H * 2)
      else sa_top a)"

definition next_left :: "int list \<Rightarrow> nat \<Rightarrow> nat \<Rightarrow> scroll_area \<Rightarrow> int" where
  "next_left ws rhW col a =
     (let targetLeft = gridOffsetLeft ws col; viewW = view_width rhW a; w = colWidthAt ws col in
      if targetLeft < sa_left a then targetLeft
      else if targetLeft + w > sa_left a + viewW then max 0 (targetLeft - viewW + w * 2)
      else sa_left a)"

text \<open>The new scroll position; the window is computed from it and the grid drawn again.\<close>

definition ensureAddrVisible :: "int list \<Rightarrow> window \<Rightarrow> string \<Rightarrow> scroll_area \<Rightarrow> scroll_area \<times> window" where
  "ensureAddrVisible ws w ad a =
     (case parseAddr ad of
        None \<Rightarrow> (a, w)
      | Some p \<Rightarrow>
          (let a' = a\<lparr>sa_top := next_top (a_row p) a,
                      sa_left := next_left ws (rowHeaderWidthPx (startRow w) (winRows w)) (a_col p) a\<rparr>
           in (a', updateWindowFromScroll ws (sa_top a') (sa_left a') (sa_height a') (sa_width a'))))"

text \<open>The buttons that scroll on; \<open>full\<close> is the scroll height or width of the page.\<close>

definition addRows :: "int \<Rightarrow> nat \<Rightarrow> scroll_area \<Rightarrow> scroll_area" where
  "addRows full n a = a\<lparr>sa_top := min full (sa_top a + int (if n = 0 then 100 else n) * SCROLL_ROW_H)\<rparr>"

definition addCols :: "int \<Rightarrow> nat \<Rightarrow> scroll_area \<Rightarrow> scroll_area" where
  "addCols full n a = a\<lparr>sa_left := min full (sa_left a + int (if n = 0 then 26 else n) * SCROLL_COL_W)\<rparr>"

definition updateSheetStats :: "window \<Rightarrow> string" where
  "updateSheetStats w =
     ''Window '' @ nat_str (startRow w) @ ''-'' @ nat_str (endRow w) @ '' x '' @ colLetter (startCol w) @ ''-''
     @ colLetter (endCol w) @ '' - capacity '' @ nat_str CAPACITY_ROWS @ '' x WW''"

text \<open>The column headers with their widths, and the drag that resizes one.\<close>

definition renderColHeader :: "int list \<Rightarrow> window \<Rightarrow> int \<times> nat \<times> (string \<times> int) list" where
  "renderColHeader ws w =
     (gridOffsetLeft ws (startCol w), rowHeaderWidthPx (startRow w) (winRows w),
      map (\<lambda>c. (colLetter c, colWidthAt ws c)) [startCol w..<Suc (endCol w)])"

definition set_width :: "nat \<Rightarrow> int \<Rightarrow> int list \<Rightarrow> int list" where
  "set_width c v ws = (ws @ replicate (Suc c - length ws) 0)[c := v]"

definition resize_column :: "nat \<Rightarrow> int \<Rightarrow> int \<Rightarrow> int list \<Rightarrow> int list" where
  "resize_column c startW dx ws = set_width c (max 48 (startW + dx)) ws"

section \<open>Frozen panes\<close>

definition toggleFreeze :: "bool \<Rightarrow> bool \<times> string" where
  "toggleFreeze on = (\<not> on, if \<not> on then ''Freeze on (header + col A)'' else ''Freeze off'')"

text \<open>The top of the cells of a row and the left edge of a cell, when they are frozen; \<open>rowH\<close> is the height of a drawn row.\<close>

definition frozen_top :: "sheet \<Rightarrow> int \<Rightarrow> nat \<Rightarrow> int option" where
  "frozen_top s rowH r =
     (if (freezeRows s > 0 \<or> freezeCols s > 0) \<and> r \<le> freezeRows s then Some (SCROLL_ROW_H + (int r - 1) * rowH) else None)"

definition frozen_left :: "sheet \<Rightarrow> nat \<Rightarrow> nat \<Rightarrow> int option" where
  "frozen_left s rhW c =
     (if (freezeRows s > 0 \<or> freezeCols s > 0) \<and> c < freezeCols s
      then Some (int rhW + gridOffsetLeft (colWidths s) c) else None)"

definition applyFreezePanesStyles :: "sheet \<Rightarrow> window \<Rightarrow> int \<Rightarrow> (string \<times> int option \<times> int option) list" where
  "applyFreezePanesStyles s w rowH =
     concat (map (\<lambda>(r, tds). map (\<lambda>t. (td_addr t, frozen_top s rowH r,
         case parseAddr (td_addr t) of None \<Rightarrow> None
         | Some p \<Rightarrow> frozen_left s (rowHeaderWidthPx (startRow w) (winRows w)) (a_col p))) tds)
       (render_rows (cellMerges s) w))"

section \<open>Tabs, protection, filter\<close>

definition renderSheetTabs :: "sheet \<Rightarrow> (string \<times> bool) list" where
  "renderSheetTabs s = map (\<lambda>i. (sheetTabNames s ! i, i = activeSheetIndex s)) [0..<length (sheetTabNames s)]"

text \<open>Double click on a tab: the tab is switched to, and 50 ms later the active tab is renamed.\<close>

definition tab_dblclick :: "nat \<Rightarrow> sheet \<Rightarrow> sheet" where
  "tab_dblclick i s = (if i \<noteq> activeSheetIndex s then sendSheetOp (Switch_sheet i) s else s)"

text \<open>The formula bar is read only on a protected sheet, whose status text gets a suffix once.\<close>

definition rtrim :: "string \<Rightarrow> string" where
  "rtrim t = rev (dropWhile is_space (rev t))"

definition strip_protected :: "string \<Rightarrow> string" where
  "strip_protected t =
     (let u = rtrim t; n = length u - 9; v = rtrim (take n u) in
      if 9 \<le> length u \<and> drop n u = ''Protected'' \<and> v \<noteq> [] \<and> last v = CHR ''-'' then rtrim (butlast v) else t)"

definition updateProtectUi :: "sheet \<Rightarrow> string \<Rightarrow> bool \<times> string" where
  "updateProtectUi s meta =
     (sheetProtected s,
      if sheetId s = None then meta
      else (let base = strip_protected meta in if sheetProtected s then base @ '' - Protected'' else base))"

definition applyRowFilter :: "num_fmt \<Rightarrow> sheet \<Rightarrow> window \<Rightarrow> (nat \<times> bool) list" where
  "applyRowFilter F s w = map (\<lambda>r. (r, \<not> rowMatchesFilter F s r)) [startRow w..<Suc (endRow w)]"

definition fillFilterColSelect :: "sheet \<Rightarrow> string list" where
  "fillFilterColSelect s =
     (let cols = List.map_filter (\<lambda>p. map_option a_col (parseAddr (fst p))) (cells s);
          maxC = min (CAPACITY_COLS - 1) (foldl max (DEFAULT_VIEW_COLS - 1) cols)
      in map colLetter [0..<Suc maxC])"

text \<open>What the filter dialog shows: column, mode and value of the first clause, and those of the second if there is one.\<close>

definition openFilterOptions :: "sheet \<Rightarrow> (nat \<times> string \<times> string) option \<times> (nat \<times> string \<times> string) option \<times> nat option" where
  "openFilterOptions s =
     (let shown_clause = (\<lambda>c. (cl_col c, or_default (Some (cl_mode c)) ''contains'', cl_value c)) in
      case filterOpts s of
        Some fo \<Rightarrow> (Some (shown_clause (f_clause fo)), map_option shown_clause (f_and fo), None)
      | None \<Rightarrow> (None, None, map_option a_col (parseAddr (activeAddr s))))"

section \<open>Charts\<close>

definition chart_padL :: rat where "chart_padL = 36"
definition chart_plotW :: rat where "chart_plotW = 312"
definition chart_padT :: rat where "chart_padT = 12"
definition chart_plotH :: rat where "chart_plotH = 126"

definition chart_max :: "rat list \<Rightarrow> rat" where
  "chart_max vals = foldl max 1 vals"

definition chart_min :: "rat list \<Rightarrow> rat" where
  "chart_min vals = foldl min 0 vals"

definition chart_span :: "rat list \<Rightarrow> rat" where
  "chart_span vals = (let d = chart_max vals - chart_min vals in if d = 0 then 1 else d)"

definition chart_y :: "rat list \<Rightarrow> rat \<Rightarrow> rat" where
  "chart_y vals v = chart_padT + chart_plotH - (v - chart_min vals) / chart_span vals * chart_plotH"

definition line_point :: "rat list \<Rightarrow> nat \<Rightarrow> rat \<times> rat" where
  "line_point vals i =
     (let n = length vals in
      (chart_padL + (if n \<le> 1 then chart_plotW / 2 else of_nat i * chart_plotW / of_nat (n - 1)), chart_y vals (vals ! i)))"

definition bar_width :: "nat \<Rightarrow> int" where
  "bar_width n = max 4 (312 div int (max 1 n) - 2)"

record chart_bar =
  cb_x :: int
  cb_y :: int
  cb_w :: int
  cb_h :: int

text \<open>\<open>Math.round\<close> of the height; a bar is at least one pixel high.\<close>

definition chart_rect :: "rat list \<Rightarrow> nat \<Rightarrow> chart_bar" where
  "chart_rect vals i =
     (let bw = bar_width (length vals);
          bh = \<lfloor>(vals ! i - chart_min vals) / chart_span vals * chart_plotH + 1 / 2\<rfloor>
      in \<lparr> cb_x = 36 + int i * (bw + 2) + 1, cb_y = 12 + 126 - bh, cb_w = bw, cb_h = max 1 bh \<rparr>)"

datatype chart_view =
    No_chart
  | No_values string
  | Bar_chart string "chart_bar list" rat rat
  | Line_chart string "(rat \<times> rat) list" rat rat
  | Sparkline string "(rat \<times> rat) list"

text \<open>The axis labels are rounded to hundredths.\<close>

definition hundredths :: "rat \<Rightarrow> rat" where
  "hundredths x = of_int \<lfloor>x * 100 + 1 / 2\<rfloor> / 100"

definition drawBarChart :: "string \<Rightarrow> rat list \<Rightarrow> string \<Rightarrow> chart_view" where
  "drawBarChart rng vals chartType =
     (let top = hundredths (chart_max vals); bottom = hundredths (chart_min vals) in
      if vals = [] then No_values rng
      else if to_lower chartType = ''line'' then Line_chart rng (map (line_point vals) [0..<length vals]) top bottom
      else Bar_chart rng (map (chart_rect vals) [0..<length vals]) top bottom)"

definition list_min :: "rat list \<Rightarrow> rat" where
  "list_min vals = foldl min (hd vals) vals"

definition list_max :: "rat list \<Rightarrow> rat" where
  "list_max vals = foldl max (hd vals) vals"

definition spark_point :: "rat list \<Rightarrow> nat \<Rightarrow> rat \<times> rat" where
  "spark_point vals i =
     (let n = length vals; lo = list_min vals; d = list_max vals - lo; span = (if d = 0 then 1 else d) in
      (if n \<le> 1 then 80 else 2 + of_nat i * 156 / of_nat (n - 1), 36 - 3 - (vals ! i - lo) / span * 30))"

definition drawSparklineSvg :: "string \<Rightarrow> rat list \<Rightarrow> chart_view" where
  "drawSparklineSvg label vals = Sparkline label (map (spark_point vals) [0..<length vals])"

text \<open>The values of a range as numbers: \<open>num\<close> reads a text, a text that is no number counts as 0.\<close>

definition chart_values :: "num_fmt \<Rightarrow> (string \<Rightarrow> rat) \<Rightarrow> sheet \<Rightarrow> string \<Rightarrow> rat list option" where
  "chart_values F num s rng = map_option (map num) (collectRangeValues F s rng)"

definition restoreCharts :: "num_fmt \<Rightarrow> (string \<Rightarrow> rat) \<Rightarrow> sheet \<Rightarrow> sheet_chart list \<Rightarrow> chart_view \<Rightarrow> chart_view" where
  "restoreCharts F num s charts old =
     (case charts of
        [] \<Rightarrow> No_chart
      | ch # _ \<Rightarrow>
          (case chart_values F num s (ch_range ch) of
             None \<Rightarrow> old
           | Some vals \<Rightarrow>
               if to_lower (ch_type ch) = ''sparkline'' then drawSparklineSvg (ch_range ch) vals
               else drawBarChart (ch_range ch) vals (or_default (Some (ch_type ch)) ''bar'')))"

text \<open>The charts of a tab are stored with it and sent.\<close>

definition save_charts :: "sheet_chart list \<Rightarrow> sheet \<Rightarrow> sheet" where
  "save_charts charts s = sendSheetOp (Set_charts charts) (upd_active_tab (\<lambda>t. t\<lparr>t_charts := charts\<rparr>) s)"

text \<open>Inserting a chart, with the answers to the two dialogs.\<close>

definition renderLiteChart ::
  "num_fmt \<Rightarrow> (string \<Rightarrow> rat) \<Rightarrow> string option \<Rightarrow> string option \<Rightarrow> chart_view \<times> sheet \<Rightarrow> chart_view \<times> sheet" where
  "renderLiteChart F num kind rng vs =
     (let s = snd vs in
      if or_empty kind = [] \<or> js_trim (or_empty rng) = [] then vs
      else (case chart_values F num s (or_empty rng) of
              None \<Rightarrow> (fst vs, show_status ''Bad range'' True s)
            | Some [] \<Rightarrow> (fst vs, show_status ''No numeric values in range'' True s)
            | Some vals \<Rightarrow>
                (drawBarChart (to_upper (or_empty rng)) vals (or_empty kind),
                 show_status ''Chart saved on sheet tab'' False
                   (save_charts [\<lparr> ch_type = or_empty kind, ch_range = to_upper (or_empty rng), ch_title = [] \<rparr>] s))))"

definition chart_type_button :: "string \<Rightarrow> rat list \<Rightarrow> string \<Rightarrow> sheet \<Rightarrow> chart_view \<times> sheet" where
  "chart_type_button rng vals t s =
     (drawBarChart rng vals t, save_charts [\<lparr> ch_type = t, ch_range = to_upper rng, ch_title = [] \<rparr>] s)"

definition renderLiteSparkline ::
  "num_fmt \<Rightarrow> (string \<Rightarrow> rat) \<Rightarrow> string option \<Rightarrow> chart_view \<times> sheet \<Rightarrow> chart_view \<times> sheet" where
  "renderLiteSparkline F num rng vs =
     (let s = snd vs; t = to_upper (or_empty rng) in
      if js_trim (or_empty rng) = [] then vs
      else (case chart_values F num s (or_empty rng) of
              None \<Rightarrow> (fst vs, show_status ''Bad range'' True s)
            | Some vals \<Rightarrow>
                (drawSparklineSvg t vals,
                 show_status (''Sparkline saved - '' @ t) False
                   (save_charts [\<lparr> ch_type = ''sparkline'', ch_range = t, ch_title = ''sparkline'' \<rparr>] s))))"

text \<open>The range that the dialog offers.\<close>

definition chart_dialog_range :: "sheet \<Rightarrow> string" where
  "chart_dialog_range s =
     (let def0 = or_default (Some (selectionLabel s)) ''A1:A5'' in if str_includes '':'' def0 then def0 else ''A1:A5'')"

definition clearSheetCharts :: "sheet \<Rightarrow> chart_view \<times> sheet" where
  "clearSheetCharts s = (No_chart, show_status ''Chart cleared'' False (save_charts [] s))"

section \<open>The cell scrolled to is visible\<close>

lemma next_top_visible:
  assumes "1 \<le> row"
  shows "next_top row a \<le> gridOffsetTop row" "gridOffsetTop row + SCROLL_ROW_H \<le> next_top row a + view_height a"
proof -
  have "0 \<le> gridOffsetTop row" using assms by (simp add: gridOffsetTop_def SCROLL_ROW_H_def)
  moreover have "2 * SCROLL_ROW_H \<le> view_height a" by (simp add: view_height_def)
  moreover have "0 \<le> SCROLL_ROW_H" by (simp add: SCROLL_ROW_H_def)
  ultimately show "next_top row a \<le> gridOffsetTop row" "gridOffsetTop row + SCROLL_ROW_H \<le> next_top row a + view_height a"
    by (auto simp: next_top_def Let_def)
qed

lemma next_left_visible:
  assumes "0 \<le> colWidthAt ws col" "2 * colWidthAt ws col \<le> view_width rhW a" "0 \<le> gridOffsetLeft ws col"
  shows "next_left ws rhW col a \<le> gridOffsetLeft ws col"
    "gridOffsetLeft ws col + colWidthAt ws col \<le> next_left ws rhW col a + view_width rhW a"
  using assms by (auto simp: next_left_def Let_def)

lemma gridOffsetLeft_Suc: "gridOffsetLeft ws (Suc c) = gridOffsetLeft ws c + colWidthAt ws c"
  by (simp add: gridOffsetLeft_def)

lemma gridOffsetLeft_span: "c \<le> d \<Longrightarrow> \<forall>k. lo \<le> colWidthAt ws k \<Longrightarrow> gridOffsetLeft ws c + lo * (int d - int c) \<le> gridOffsetLeft ws d"
proof (induction d)
  case (Suc d)
  show ?case
  proof (cases "c = Suc d")
    case False
    then have "gridOffsetLeft ws c + lo * (int d - int c) \<le> gridOffsetLeft ws d" using Suc by simp
    moreover have "lo \<le> colWidthAt ws d" using Suc.prems(2) by blast
    ultimately show ?thesis by (simp add: gridOffsetLeft_Suc algebra_simps)
  qed simp
qed simp

text \<open>The first drawn column reaches beyond the scroll position, unless it is the last one.\<close>

lemma start_col_loop_right:
  assumes "acc = gridOffsetLeft ws c"
  shows "start_col_loop ws sl acc c n = c + n - 1 \<or> sl < gridOffsetLeft ws (Suc (start_col_loop ws sl acc c n))"
  using assms
proof (induction n arbitrary: acc c)
  case (Suc n)
  from Suc.IH [of "acc + colWidthAt ws c" "Suc c"] Suc.prems show ?case by (auto simp: gridOffsetLeft_Suc)
qed simp

lemma row_drawn:
  assumes "1 \<le> row" "row \<le> CAPACITY_ROWS" "tp \<le> gridOffsetTop row" "gridOffsetTop row + SCROLL_ROW_H \<le> tp + view_height a"
    "0 \<le> tp" "w = updateWindowFromScroll ws tp left (sa_height a) wd"
  shows "startRow w \<le> row \<and> row \<le> endRow w"
proof -
  define q where "q = tp div SCROLL_ROW_H"
  have sr: "startRow w = nat (min (int CAPACITY_ROWS) (max 1 (q + 1)))"
    using assms(5,6) by (simp add: updateWindowFromScroll_def Let_def q_def max_def)
  have q: "0 \<le> q" "28 * q \<le> tp" "tp < 28 * q + 28" using assms(5) unfolding q_def SCROLL_ROW_H_def by auto
  have qr: "q + 1 \<le> int row" using q(2) assms(3) by (simp add: gridOffsetTop_def SCROLL_ROW_H_def)
  have srq: "int (startRow w) = q + 1" using sr q(1) qr assms(2) by simp
  define m where "m = ceil_div (sa_height a) SCROLL_ROW_H"
  have m: "sa_height a \<le> 28 * m" unfolding m_def ceil_div_def SCROLL_ROW_H_def by simp
  have wr: "int (winRows w) = min (int CAPACITY_ROWS - int (startRow w) + 1) (max (int DEFAULT_VIEW_ROWS) (m + int WIN_ROW_PAD))"
  proof -
    have "winRows w = nat (min (int CAPACITY_ROWS - int (startRow w) + 1) (max (int DEFAULT_VIEW_ROWS) (m + int WIN_ROW_PAD)))"
      unfolding assms(6) updateWindowFromScroll_def Let_def m_def by (simp only: window.select_convs)
    moreover have "0 \<le> int CAPACITY_ROWS - int (startRow w) + 1" using srq qr assms(2) by linarith
    moreover have "0 \<le> max (int DEFAULT_VIEW_ROWS) (m + int WIN_ROW_PAD)" by (simp add: max_def)
    ultimately show ?thesis by simp
  qed
  have "28 * int row \<le> tp + max 56 (sa_height a - 28)"
    using assms(4) by (simp add: gridOffsetTop_def view_height_def SCROLL_ROW_H_def algebra_simps)
  then have "int row \<le> q + max 40 (m + 8)" using q(3) m by linarith
  then have "int row \<le> int (startRow w) + int (winRows w) - 1"
    using wr srq assms(2) by (simp add: DEFAULT_VIEW_ROWS_def WIN_ROW_PAD_def min_def)
  then show ?thesis using srq qr assms(2) by (simp add: endRow_def)
qed

lemma col_drawn:
  assumes "col < CAPACITY_COLS" "\<forall>k. SCROLL_COL_W \<le> colWidthAt ws k" "0 \<le> lf"
    "lf \<le> gridOffsetLeft ws col" "gridOffsetLeft ws col + colWidthAt ws col \<le> lf + view_width rhW a" "36 \<le> rhW"
    "w = updateWindowFromScroll ws tp lf h (sa_width a)"
  shows "startCol w \<le> col \<and> col \<le> endCol w"
proof -
  define sc where "sc = startCol w"
  have sc: "sc = start_col_loop ws lf 0 0 CAPACITY_COLS"
    using assms(3) unfolding sc_def assms(7) updateWindowFromScroll_def Let_def by (simp add: max_def)
  have big: "88 \<le> colWidthAt ws k" for k using assms(2) by (simp add: SCROLL_COL_W_def)
  have pos: "\<And>k. 0 \<le> colWidthAt ws k" using big order_trans [OF zero_le_numeral] by blast
  have right: "sc = CAPACITY_COLS - 1 \<or> lf < gridOffsetLeft ws (Suc sc)"
    using start_col_loop_right [of 0 ws 0 lf CAPACITY_COLS] sc by (simp add: gridOffsetLeft_def)
  have less: "gridOffsetLeft ws sc \<le> lf" using start_col_loop_edge [of 0 ws 0 lf CAPACITY_COLS] sc assms(3) pos
    by (simp add: gridOffsetLeft_def)
  have "sc \<le> col"
  proof (rule ccontr)
    assume c: "\<not> sc \<le> col"
    then have "gridOffsetLeft ws (Suc col) \<le> gridOffsetLeft ws sc"
      using gridOffsetLeft_span [of "Suc col" sc 0 ws] pos by auto
    moreover have "0 < colWidthAt ws col" using big [of col] by linarith
    ultimately show False using less assms(4) by (simp add: gridOffsetLeft_Suc)
  qed
  moreover have "col \<le> endCol w"
  proof (cases "sc = CAPACITY_COLS - 1")
    case True
    then have "col \<le> sc" using assms(1) by simp
    then show ?thesis using window_bounds(5) [of ws tp lf h "sa_width a"] assms(1,7) True by (simp add: endCol_def sc_def)
  next
    case False
    then have "lf < gridOffsetLeft ws (Suc sc)" using right by blast
    moreover have "gridOffsetLeft ws (Suc sc) + 88 * (int col - int sc) \<le> gridOffsetLeft ws (Suc col)"
      using gridOffsetLeft_span [of "Suc sc" "Suc col" 88 ws] assms(2) \<open>sc \<le> col\<close> by (simp add: SCROLL_COL_W_def)
    ultimately have d: "88 * (int col - int sc) < view_width rhW a" using assms(5) by (simp add: gridOffsetLeft_Suc)
    define m where "m = ceil_div (sa_width a) SCROLL_COL_W"
    have m: "sa_width a \<le> 88 * m" unfolding m_def ceil_div_def SCROLL_COL_W_def by simp
    have wc: "winCols w = nat (min (int CAPACITY_COLS - int sc) (max (int DEFAULT_VIEW_COLS) (m + int WIN_COL_PAD)))"
      unfolding sc_def assms(7) updateWindowFromScroll_def Let_def m_def by (simp only: window.select_convs)
    have "88 * (int col - int sc) < max 176 (sa_width a - 36)"
      using d assms(6) unfolding view_width_def SCROLL_COL_W_def by linarith
    then consider "88 * (int col - int sc) < 176" | "88 * (int col - int sc) < 88 * m" using m by linarith
    then have "int col < int sc + max 26 (m + 4)" by cases simp_all
    then have "int col < int sc + int (winCols w)"
      using assms(1) unfolding wc DEFAULT_VIEW_COLS_def WIN_COL_PAD_def by (simp add: min_def)
    then show ?thesis using assms(1) unfolding endCol_def sc_def by linarith
  qed
  ultimately show ?thesis unfolding sc_def by simp
qed

section \<open>Charts fit\<close>

lemma foldl_rat_max_ge: "(x :: rat) \<le> foldl max x vs" "v \<in> set vs \<Longrightarrow> v \<le> foldl max x vs"
proof (induction vs arbitrary: x)
  case (Cons y vs)
  { case 1 show ?case using Cons.IH(1) [of "max x y"] by simp }
  { case 2 then show ?case using Cons.IH(1) [of "max x y"] Cons.IH(2) [of "max x y"] by auto }
qed simp_all

lemma foldl_min_le: "foldl min (x :: rat) vs \<le> x" "v \<in> set vs \<Longrightarrow> foldl min x vs \<le> v"
proof (induction vs arbitrary: x)
  case (Cons y vs)
  { case 1 show ?case using Cons.IH(1) [of "min x y"] by simp }
  { case 2 then show ?case using Cons.IH(1) [of "min x y"] Cons.IH(2) [of "min x y"] by auto }
qed simp_all

lemma chart_span_pos: "0 < chart_span vals" "chart_span vals = chart_max vals - chart_min vals"
proof -
  have "chart_min vals \<le> 0" "1 \<le> chart_max vals" by (simp_all add: chart_min_def chart_max_def foldl_rat_max_ge foldl_min_le)
  then show "0 < chart_span vals" "chart_span vals = chart_max vals - chart_min vals" by (simp_all add: chart_span_def Let_def)
qed

lemma chart_share:
  assumes "v \<in> set vals"
  shows "0 \<le> (v - chart_min vals) / chart_span vals * chart_plotH" "(v - chart_min vals) / chart_span vals * chart_plotH \<le> chart_plotH"
proof -
  have v: "chart_min vals \<le> v" "v \<le> chart_max vals" using assms by (simp_all add: chart_min_def chart_max_def foldl_rat_max_ge foldl_min_le)
  have d: "0 \<le> (v - chart_min vals) / chart_span vals" "(v - chart_min vals) / chart_span vals \<le> 1"
    using v chart_span_pos [of vals] by (simp_all add: field_simps)
  show "0 \<le> (v - chart_min vals) / chart_span vals * chart_plotH" using d(1) by (intro mult_nonneg_nonneg) (simp_all add: chart_plotH_def)
  show "(v - chart_min vals) / chart_span vals * chart_plotH \<le> chart_plotH"
    using mult_right_mono [OF d(2), of chart_plotH] by (simp add: chart_plotH_def)
qed

lemma bar_height:
  assumes "v \<in> set vals"
  shows "0 \<le> \<lfloor>(v - chart_min vals) / chart_span vals * chart_plotH + 1 / 2\<rfloor>"
    "\<lfloor>(v - chart_min vals) / chart_span vals * chart_plotH + 1 / 2\<rfloor> \<le> 126"
proof -
  let ?x = "(v - chart_min vals) / chart_span vals * chart_plotH"
  have x: "0 \<le> ?x" "?x \<le> 126" using chart_share [OF assms] by (simp_all add: chart_plotH_def)
  show "0 \<le> \<lfloor>?x + 1 / 2\<rfloor>" using x(1) by simp
  have "\<lfloor>?x + 1 / 2\<rfloor> < 127" using x(2) unfolding floor_less_iff by simp
  then show "\<lfloor>?x + 1 / 2\<rfloor> \<le> 126" by simp
qed

lemma bar_pitch: "1 \<le> n \<Longrightarrow> n \<le> 52 \<Longrightarrow> int n * (bar_width n + 2) \<le> 312"
proof -
  assume n: "1 \<le> n" "n \<le> 52"
  have "312 div 52 \<le> 312 div int n" using n by (intro zdiv_mono2) simp_all
  then have "bar_width n + 2 = 312 div int n" using n by (simp add: bar_width_def max_def)
  then have "int n * (bar_width n + 2) = int n * (312 div int n)" by simp
  moreover have "int n * (312 div int n) + 312 mod int n = 312" by (rule mult_div_mod_eq)
  moreover have "0 \<le> 312 mod int n" using n by (intro pos_mod_sign) simp
  ultimately show ?thesis by linarith
qed

text \<open>Columns of 48 pixels: the drawn columns end before the one that was gone to.\<close>

definition wide_area :: scroll_area where
  "wide_area = \<lparr> sa_top = 0, sa_left = 0, sa_height = 600, sa_width = 2000 \<rparr>"

lemma narrow_offset: "c \<le> 100 \<Longrightarrow> gridOffsetLeft (replicate 100 48) c = 48 * int c"
  by (induction c) (simp_all add: gridOffsetLeft_Suc colWidthAt_def gridOffsetLeft_def)

lemma narrow_not_drawn: "\<not> in_window (snd (ensureAddrVisible (replicate 100 48) small_window ''BI1'' wide_area)) (60, 1)"
proof -
  let ?ws = "replicate 100 48 :: int list"
  let ?r = "int (rowHeaderWidthPx (startRow small_window) (winRows small_window))"
  define w where "w = updateWindowFromScroll ?ws (next_top 1 wide_area) (976 + ?r) 600 2000"
  have "length (nat_str 10000) = 5" by (simp add: nat_str.simps)
  then have r: "0 \<le> ?r" "?r \<le> 100" by (simp_all add: small_window_def rowHeaderWidthPx_def Let_def CAPACITY_ROWS_def)
  have "colWidthAt ?ws 60 = 48" by (simp add: colWidthAt_def)
  then have "next_left ?ws (nat ?r) 60 wide_area = 976 + ?r"
    using r narrow_offset [of 60] by (simp add: next_left_def Let_def wide_area_def view_width_def SCROLL_COL_W_def)
  moreover have "parseAddr ''BI1'' = Some \<lparr> a_col = 60, a_row = 1 \<rparr>" by code_simp
  ultimately have e: "snd (ensureAddrVisible ?ws small_window ''BI1'' wide_area) = w"
    by (simp add: ensureAddrVisible_def Let_def w_def wide_area_def)
  have nn: "0 \<le> colWidthAt ?ws k" for k by (simp add: colWidthAt_def SCROLL_COL_W_def)
  have sc: "startCol w = start_col_loop ?ws (976 + ?r) 0 0 CAPACITY_COLS"
    unfolding w_def updateWindowFromScroll_def Let_def using r by (simp only: window.select_convs)
  have le: "gridOffsetLeft ?ws (startCol w) \<le> 976 + ?r"
    unfolding sc by (rule start_col_loop_edge [OF _ _ nn]) (use r in \<open>simp_all add: gridOffsetLeft_def\<close>)
  have "startCol w < 24"
  proof (rule ccontr)
    assume "\<not> startCol w < 24"
    then have "gridOffsetLeft ?ws 24 \<le> gridOffsetLeft ?ws (startCol w)" using gridOffsetLeft_span [of 24 "startCol w" 0] nn by simp
    with le r narrow_offset [of 24] show False by simp
  qed
  moreover have "winCols w \<le> 27"
    unfolding w_def updateWindowFromScroll_def Let_def
    by (simp add: DEFAULT_VIEW_COLS_def WIN_COL_PAD_def ceil_div_def SCROLL_COL_W_def)
  ultimately have "endCol w < 60" by (simp add: endCol_def)
  then show ?thesis unfolding e by (simp add: in_window_def)
qed

section \<open>Properties\<close>

text \<open>
  C22. Going to a cell of the grid, from a scroll position that is not negative. The cell's row is
  then inside the visible part and among the drawn rows. Its column is inside the visible part if
  twice its width fits and no width is negative; it is also among the drawn columns if, moreover,
  no column is narrower than the nominal 88 pixels. The last condition is needed: with columns of
  48 pixels, the least width that dragging allows, going to column 61 in a view 2000 pixels wide
  leaves the column undrawn.
\<close>

theorem tables_cell_visible:
  assumes "parseAddr ad = Some p" "within_capacity p" "0 \<le> sa_top a" "0 \<le> sa_left a"
    "rhW = rowHeaderWidthPx (startRow w) (winRows w)" "(a', w') = ensureAddrVisible ws w ad a"
  shows "(sa_top a' \<le> gridOffsetTop (a_row p) \<and> gridOffsetTop (a_row p) + SCROLL_ROW_H \<le> sa_top a' + view_height a
      \<and> startRow w' \<le> a_row p \<and> a_row p \<le> endRow w')
    \<and> ((\<forall>k. 0 \<le> colWidthAt ws k) \<and> 2 * colWidthAt ws (a_col p) \<le> view_width rhW a
        \<longrightarrow> sa_left a' \<le> gridOffsetLeft ws (a_col p)
          \<and> gridOffsetLeft ws (a_col p) + colWidthAt ws (a_col p) \<le> sa_left a' + view_width rhW a)
    \<and> ((\<forall>k. 88 \<le> colWidthAt ws k) \<and> 2 * colWidthAt ws (a_col p) \<le> view_width rhW a
        \<longrightarrow> in_window w' (a_col p, a_row p))
    \<and> \<not> in_window (snd (ensureAddrVisible (replicate 100 48) small_window ''BI1'' wide_area)) (60, 1)"
proof -
  have p: "1 \<le> a_row p" "a_row p \<le> CAPACITY_ROWS" "a_col p < CAPACITY_COLS" using assms(2) by (simp_all add: within_capacity_def)
  have a': "sa_top a' = next_top (a_row p) a" "sa_left a' = next_left ws rhW (a_col p) a" "sa_height a' = sa_height a" "sa_width a' = sa_width a"
    and w': "w' = updateWindowFromScroll ws (sa_top a') (sa_left a') (sa_height a) (sa_width a)"
    using assms(1,5,6) by (simp_all add: ensureAddrVisible_def Let_def)
  note t = next_top_visible [OF p(1), of a]
  have "0 \<le> gridOffsetTop (a_row p)" using p(1) by (simp add: gridOffsetTop_def SCROLL_ROW_H_def)
  then have "0 \<le> sa_top a'" unfolding a'(1) using assms(3) by (simp add: next_top_def Let_def)
  then have row: "startRow w' \<le> a_row p \<and> a_row p \<le> endRow w'"
    using row_drawn [OF p(1,2) _ _ _ w'] t a'(1) by simp
  have left: "sa_left a' \<le> gridOffsetLeft ws (a_col p) \<and> 0 \<le> sa_left a'
      \<and> gridOffsetLeft ws (a_col p) + colWidthAt ws (a_col p) \<le> sa_left a' + view_width rhW a"
    if big: "\<forall>k. 0 \<le> colWidthAt ws k" and fits: "2 * colWidthAt ws (a_col p) \<le> view_width rhW a"
  proof -
    have off: "0 \<le> gridOffsetLeft ws (a_col p)" unfolding gridOffsetLeft_def using big by (intro sum_list_nonneg) auto
    then have "0 \<le> sa_left a'" unfolding a'(2) using assms(4) by (simp add: next_left_def Let_def)
    then show ?thesis using next_left_visible [OF _ fits off] big a'(2) by simp
  qed
  have col: "startCol w' \<le> a_col p \<and> a_col p \<le> endCol w'"
    if "\<forall>k. 88 \<le> colWidthAt ws k" "2 * colWidthAt ws (a_col p) \<le> view_width rhW a"
  proof -
    have "\<forall>k. 0 \<le> colWidthAt ws k" using that(1) by (meson order_trans zero_le_numeral)
    then have l: "sa_left a' \<le> gridOffsetLeft ws (a_col p)" "0 \<le> sa_left a'"
      "gridOffsetLeft ws (a_col p) + colWidthAt ws (a_col p) \<le> sa_left a' + view_width rhW a" using left that(2) by blast+
    moreover have "\<forall>k. SCROLL_COL_W \<le> colWidthAt ws k" using that(1) by (simp add: SCROLL_COL_W_def)
    moreover have "36 \<le> rhW" using assms(5) by (simp add: rowHeaderWidthPx_def Let_def)
    ultimately show ?thesis using col_drawn [OF p(3) _ l(2) _ _ _ w'] by blast
  qed
  show ?thesis using t row left col a'(1) narrow_not_drawn by (simp add: in_window_def)
qed

definition small_area :: scroll_area where
  "small_area = \<lparr> sa_top = 0, sa_left = 0, sa_height = 600, sa_width = 1000 \<rparr>"

theorem tables_cell_visible_witness:
  "in_window (snd (ensureAddrVisible [] small_window ''AZ100'' small_area)) (51, 100)"
proof -
  have "parseAddr ''AZ100'' = Some \<lparr> a_col = 51, a_row = 100 \<rparr>" "within_capacity \<lparr> a_col = 51, a_row = 100 \<rparr>" by code_simp+
  moreover have "\<forall>k. 88 \<le> colWidthAt [] k" by (simp add: colWidthAt_def SCROLL_COL_W_def)
  moreover have "2 * colWidthAt [] 51 \<le> view_width (rowHeaderWidthPx (startRow small_window) (winRows small_window)) small_area"
    by (simp add: colWidthAt_def view_width_def)
  moreover have "0 \<le> sa_top small_area" "0 \<le> sa_left small_area" by (simp_all add: small_area_def)
  ultimately show ?thesis
    using tables_cell_visible [of "''AZ100''" "\<lparr> a_col = 51, a_row = 100 \<rparr>" small_area _ small_window _ _ "[]"] by (metis addr.select_convs prod.collapse)
qed

text \<open>
  A bar chart of at most 52 values lies inside its plot, 312 by 126 pixels from the axes; the
  points of a line chart do for any number of values. From 53 values on the last bar leaves the plot.
\<close>

theorem tables_chart_fits:
  assumes "i < length vals"
  shows "(let b = chart_rect vals i in 0 \<le> 138 - cb_y b \<and> 12 \<le> cb_y b \<and> cb_y b + cb_h b \<le> 139
       \<and> 36 < cb_x b \<and> (length vals \<le> 52 \<longrightarrow> cb_x b + cb_w b < 36 + 312))
    \<and> (52 < length vals \<longrightarrow> 36 + 312 < cb_x (chart_rect vals (length vals - 1)) + cb_w (chart_rect vals (length vals - 1)))
    \<and> chart_padL \<le> fst (line_point vals i) \<and> fst (line_point vals i) \<le> chart_padL + chart_plotW
    \<and> chart_padT \<le> snd (line_point vals i) \<and> snd (line_point vals i) \<le> chart_padT + chart_plotH"
proof -
  let ?n = "length vals" and ?b = "bar_width (length vals)"
  have m: "vals ! i \<in> set vals" using assms by simp
  have b: "4 \<le> ?b" by (simp add: bar_width_def)
  have "0 \<le> int i * (?b + 2)" using b by simp
  then have x: "36 < cb_x (chart_rect vals i)" by (simp add: chart_rect_def Let_def)
  have small: "cb_x (chart_rect vals i) + cb_w (chart_rect vals i) < 36 + 312" if "?n \<le> 52"
  proof -
    have "(int i + 1) * (?b + 2) \<le> int ?n * (?b + 2)" using assms b by (intro mult_right_mono) auto
    also have "\<dots> \<le> 312" using bar_pitch [of ?n] assms that by linarith
    finally show ?thesis by (simp add: chart_rect_def Let_def algebra_simps)
  qed
  have large: "36 + 312 < cb_x (chart_rect vals (?n - 1)) + cb_w (chart_rect vals (?n - 1))" if "52 < ?n"
  proof -
    have "int 52 * (4 + 2) \<le> int (?n - 1) * (?b + 2)" using that b by (intro mult_mono) auto
    then have "312 \<le> int (?n - 1) * (?b + 2)" by (simp del: of_nat_diff)
    moreover have "312 < k + 1 + ?b" if "312 \<le> k" for k using that b by linarith
    ultimately have "312 < int (?n - 1) * (?b + 2) + 1 + ?b" by blast
    then show ?thesis by (simp add: chart_rect_def Let_def del: of_nat_diff)
  qed
  have xl: "0 \<le> of_nat i * chart_plotW / of_nat (?n - 1)" "of_nat i * chart_plotW / of_nat (?n - 1) \<le> chart_plotW" if "1 < ?n"
    using assms that by (simp_all add: chart_plotW_def field_simps)
  have y: "12 \<le> cb_y (chart_rect vals i)" "cb_y (chart_rect vals i) \<le> 138" "cb_y (chart_rect vals i) + cb_h (chart_rect vals i) \<le> 139"
    using bar_height [OF m] unfolding chart_rect_def Let_def chart_bar.select_convs by linarith+
  have "chart_padL \<le> fst (line_point vals i)" "fst (line_point vals i) \<le> chart_padL + chart_plotW"
    using xl by (auto simp: line_point_def Let_def chart_plotW_def)
  moreover have "chart_padT \<le> snd (line_point vals i)" "snd (line_point vals i) \<le> chart_padT + chart_plotH"
    using chart_share [OF m] by (simp_all add: line_point_def chart_y_def Let_def)
  ultimately show ?thesis using y x small large by (simp add: Let_def)
qed

theorem tables_chart_fits_witness:
  "cb_x (chart_rect [3, 1, 2] 2) + cb_w (chart_rect [3, 1, 2] 2) < 36 + 312"
  using tables_chart_fits [of 2 "[3, 1, 2]"] by (simp add: Let_def)

end
