(* ===== verification/Tables_WhatIf.thy ===== *)
theory Tables_WhatIf
  imports Tables_View
begin

text \<open>
  Goal seek of the spreadsheet client (\<open>ui/tables/web/app.js\<close>: \<open>evalSimpleFormula\<close>,
  \<open>localNumericFor\<close>, \<open>computeWhatIfSeek\<close>, \<open>runWhatIfSeek\<close>) and the scenario dialog. The finite
  floating-point numbers of the language are rationals, and every arithmetic operation is the
  exact one followed by the rounding \<open>ns_rnd\<close>; infinite numbers are left out. The rounding, the
  reading of a number, its text, the value of an arithmetic text and the shortened text of the
  error are the argument \<open>num_sys\<close>; \<open>None\<close> is a text without a value.
\<close>

record num_sys =
  ns_rnd :: "rat \<Rightarrow> rat"
  ns_parse :: "string \<Rightarrow> rat option"
  ns_text :: "rat \<Rightarrow> string"
  ns_eval :: "string \<Rightarrow> rat option"
  ns_precision :: "rat \<Rightarrow> string"

section \<open>Local evaluation\<close>

text \<open>Every match of letters followed by digits is replaced.\<close>

function replace_refs :: "(string \<Rightarrow> string) \<Rightarrow> string \<Rightarrow> string" where
  "replace_refs f [] = []"
| "replace_refs f (c # s) =
     (if \<not> is_alpha c then c # replace_refs f s
      else (let col = takeWhile is_alpha (c # s); after = dropWhile is_alpha s;
                row = takeWhile is_digit after
            in if row = [] then col @ replace_refs f after
               else f (col @ row) @ replace_refs f (dropWhile is_digit after)))"
  by pat_completeness auto
termination
proof (relation "measure (\<lambda>(f, s). length s)")
  fix s :: string
  have "length (dropWhile is_digit (dropWhile is_alpha s)) \<le> length s"
    using length_dropWhile_le [of is_digit "dropWhile is_alpha s"] length_dropWhile_le [of is_alpha s] by simp
  then show "\<And>f c x y z. \<not> \<not> is_alpha c \<Longrightarrow> x = takeWhile is_alpha (c # s) \<Longrightarrow> y = dropWhile is_alpha s \<Longrightarrow>
      z = takeWhile is_digit y \<Longrightarrow> z \<noteq> [] \<Longrightarrow> ((f, dropWhile is_digit y), f, c # s) \<in> measure (\<lambda>(f, s). length s)" by simp
qed (auto simp: le_imp_less_Suc length_dropWhile_le)

definition ref_text :: "num_sys \<Rightarrow> sheet \<Rightarrow> string \<Rightarrow> string" where
  "ref_text N s m = (case ns_parse N (or_empty (c_value (cellOf s (to_upper m)))) of None \<Rightarrow> ''0'' | Some n \<Rightarrow> ns_text N n)"

definition arith_char :: "char \<Rightarrow> bool" where
  "arith_char c \<longleftrightarrow> is_digit c \<or> is_space c \<or> c \<in> set ''+-*/().''"

definition evalSimpleFormula :: "num_sys \<Rightarrow> sheet \<Rightarrow> string \<Rightarrow> rat option" where
  "evalSimpleFormula N s fo =
     (let f = js_trim fo in
      if f = [] \<or> hd f \<noteq> CHR ''='' then None
      else (let expr = replace_refs (ref_text N s) (js_trim (tl f))
            in if expr \<noteq> [] \<and> list_all arith_char expr then ns_eval N expr else None))"

definition localNumericFor :: "num_fmt \<Rightarrow> num_sys \<Rightarrow> sheet \<Rightarrow> string \<Rightarrow> rat option" where
  "localNumericFor F N s ad =
     (let c = cellOf s ad;
          shown_value = ns_parse N (or_default (Some (displayFor F s ad)) (or_empty (c_value c)))
      in if formula c \<noteq> []
         then (case evalSimpleFormula N s (formula c) of Some v \<Rightarrow> Some v | None \<Rightarrow> shown_value)
         else shown_value)"

section \<open>The search\<close>

definition plain_value :: "string \<Rightarrow> cell" where
  "plain_value t = empty_cell\<lparr>c_value := Some t\<rparr>"

definition probe :: "num_fmt \<Rightarrow> num_sys \<Rightarrow> string \<Rightarrow> string \<Rightarrow> sheet \<Rightarrow> string \<Rightarrow> sheet \<times> rat option" where
  "probe F N fAddr cAddr s t =
     (let s1 = s\<lparr>cells := upsert cAddr (plain_value t) (cells s)\<rparr> in (s1, localNumericFor F N s1 fAddr))"

text \<open>The best value so far; no error yet is infinity.\<close>

record best_so_far =
  bs_x :: rat
  bs_err :: "rat option"
  bs_got :: "rat option"

definition better :: "rat \<Rightarrow> rat option \<Rightarrow> bool" where
  "better err b \<longleftrightarrow> (case b of None \<Rightarrow> True | Some e \<Rightarrow> err < e)"

text \<open>The loop over \<open>n\<close> steps on the interval from \<open>lo\<close> to \<open>hi\<close>; \<open>f\<close> is the value at a point.\<close>

fun seek_loop :: "(rat \<Rightarrow> rat) \<Rightarrow> (rat \<Rightarrow> rat option) \<Rightarrow> rat \<Rightarrow> bool \<Rightarrow> nat \<Rightarrow> rat \<Rightarrow> rat \<Rightarrow> best_so_far \<Rightarrow> best_so_far" where
  "seek_loop rnd f target rising 0 lo hi b = b"
| "seek_loop rnd f target rising (Suc n) lo hi b =
     (let mid = rnd (rnd (lo + hi) / 2) in
      case f mid of
        None \<Rightarrow> seek_loop rnd f target rising n mid hi b
      | Some got \<Rightarrow>
          (let err = \<bar>rnd (got - target)\<bar>;
               b1 = (if better err (bs_err b) then \<lparr> bs_x = mid, bs_err = Some err, bs_got = Some got \<rparr> else b)
           in if err < rnd (1 / 10 ^ 8) then b1\<lparr>bs_x := mid, bs_got := Some got\<rparr>
              else if rising = (got < target) then seek_loop rnd f target rising n mid hi b1
              else seek_loop rnd f target rising n lo mid b1))"

text \<open>The interval: around the solution of the line through the two probes, if they differ.\<close>

definition seek_interval :: "(rat \<Rightarrow> rat) \<Rightarrow> rat \<Rightarrow> rat option \<Rightarrow> rat option \<Rightarrow> rat \<times> rat" where
  "seek_interval rnd target y0 y1 =
     (case (y0, y1) of
        (Some a, Some b) \<Rightarrow>
          if \<bar>rnd (b - a)\<bar> > rnd (1 / 10 ^ 12)
          then (let est = rnd (rnd (target - a) / rnd (b - a)); pad = max 1000 (rnd (\<bar>est\<bar> * 2)) in (rnd (est - pad), rnd (est + pad)))
          else (- (10 ^ 9), 10 ^ 9)
      | _ \<Rightarrow> (- (10 ^ 9), 10 ^ 9))"

definition seek_rising :: "rat option \<Rightarrow> rat option \<Rightarrow> bool" where
  "seek_rising y0 y1 = (case (y0, y1) of (Some a, Some b) \<Rightarrow> b \<ge> a | _ \<Rightarrow> True)"

definition seek :: "(rat \<Rightarrow> rat) \<Rightarrow> (rat \<Rightarrow> rat option) \<Rightarrow> rat option \<Rightarrow> rat option \<Rightarrow> rat \<Rightarrow> best_so_far" where
  "seek rnd f y0 y1 target =
     (case seek_interval rnd target y0 y1 of (lo, hi) \<Rightarrow>
        seek_loop rnd f target (seek_rising y0 y1) 64 lo hi \<lparr> bs_x = 0, bs_err = None, bs_got = None \<rparr>)"

text \<open>\<open>Math.round(best * 1e8) / 1e8\<close>, unless the number is large or tiny.\<close>

definition seek_text :: "num_sys \<Rightarrow> rat \<Rightarrow> string" where
  "seek_text N x =
     ns_text N (if \<bar>x\<bar> \<ge> 10 ^ 4 \<or> (\<bar>x\<bar> > 0 \<and> \<bar>x\<bar> < ns_rnd N (1 / 10 ^ 3)) then x
                else ns_rnd N (of_int \<lfloor>ns_rnd N (x * 10 ^ 8) + 1 / 2\<rfloor> / 10 ^ 8))"

definition restore_cell :: "string \<Rightarrow> cell \<Rightarrow> cells \<Rightarrow> cells" where
  "restore_cell ad prev cs = (if c_value prev \<noteq> None \<or> formula prev \<noteq> [] then upsert ad prev cs else obj_del ad cs)"

definition put_back_cell :: "string \<Rightarrow> cell \<Rightarrow> cells \<Rightarrow> cells" where
  "put_back_cell ad prev cs = (if formula prev \<noteq> [] \<or> c_value prev \<noteq> None then upsert ad prev cs else cs)"

record seek_result =
  sr_fAddr :: string
  sr_cAddr :: string
  sr_target :: rat
  sr_out :: string
  sr_best :: best_so_far
  sr_prevFormula :: cell

definition computeWhatIfSeek ::
  "num_fmt \<Rightarrow> num_sys \<Rightarrow> string \<Rightarrow> string \<Rightarrow> string \<Rightarrow> sheet \<Rightarrow> sheet \<times> (string + seek_result)" where
  "computeWhatIfSeek F N formulaAddr target changeAddr s =
     (let fAddr = to_upper (js_trim formulaAddr); cAddr = to_upper (js_trim changeAddr) in
      case ns_parse N target of
        None \<Rightarrow> (s, Inl ''What-if: bad inputs'')
      | Some t \<Rightarrow>
          if parseAddr fAddr = None \<or> parseAddr cAddr = None then (s, Inl ''What-if: bad inputs'')
          else (let prevChange = cellOf s cAddr; prevFormula = cellOf s fAddr;
                    y0 = snd (probe F N fAddr cAddr s ''0''); y1 = snd (probe F N fAddr cAddr s ''1'');
                    b = seek (ns_rnd N) (\<lambda>x. snd (probe F N fAddr cAddr s (ns_text N x))) y0 y1 t;
                    probed = cells (fst (probe F N fAddr cAddr s []))
                in (s\<lparr>cells := put_back_cell fAddr prevFormula (restore_cell cAddr prevChange probed)\<rparr>,
                    Inr \<lparr> sr_fAddr = fAddr, sr_cAddr = cAddr, sr_target = t, sr_out = seek_text N (bs_x b), sr_best = b,
                          sr_prevFormula = prevFormula \<rparr>)))"

definition seek_message :: "num_sys \<Rightarrow> seek_result \<Rightarrow> string" where
  "seek_message N r =
     sr_cAddr r @ ''='' @ sr_out r @ '' -> '' @ sr_fAddr r @ '' ~ ''
     @ (case bs_got (sr_best r) of None \<Rightarrow> ''?'' | Some g \<Rightarrow> ns_text N (ns_rnd N (of_int \<lfloor>ns_rnd N (g * 10 ^ 6) + 1 / 2\<rfloor> / 10 ^ 6)))
     @ '' (target '' @ ns_text N (sr_target r) @ '', err ''
     @ (case bs_err (sr_best r) of None \<Rightarrow> ''Infinity'' | Some e \<Rightarrow> ns_precision N e) @ '')''"

text \<open>The text of the preview, and the sheet. Applying commits the found value; when the target cell
  has a formula, the changed cell and the local value of the formula are stored as well.\<close>

definition runWhatIfSeek ::
  "num_fmt \<Rightarrow> num_sys \<Rightarrow> string \<Rightarrow> string \<Rightarrow> string \<Rightarrow> bool \<Rightarrow> sheet \<Rightarrow> sheet \<times> string" where
  "runWhatIfSeek F N formulaAddr target changeAddr apply_it s =
     (case computeWhatIfSeek F N formulaAddr target changeAddr s of
        (s1, Inl e) \<Rightarrow> (show_status e True s1, e)
      | (s1, Inr r) \<Rightarrow>
          (let msg = seek_message N r in
           if \<not> apply_it then (show_status (''What-if preview - '' @ msg) False s1, ''Preview: '' @ msg)
           else (let s2 = commitCell (sr_cAddr r) (sr_out r) s1;
                     pf = sr_prevFormula r;
                     s3 = s2\<lparr>cells := upsert (sr_cAddr r) (plain_value (sr_out r)) (cells s2)\<rparr>;
                     v = (case evalSimpleFormula N s3 (formula pf) of Some x \<Rightarrow> ns_text N x | None \<Rightarrow> or_empty (c_value pf));
                     s4 = (if formula pf \<noteq> []
                           then paintGridValues (s3\<lparr>cells := upsert (sr_fAddr r)
                                  (empty_cell\<lparr>c_value := Some v, formula := formula pf, format := format pf\<rparr>) (cells s3)\<rparr>)
                           else s2)
                 in (show_status (''What-if: '' @ msg) False s4, ''Applied: '' @ msg))))"

section \<open>The interval shrinks\<close>

text \<open>
  What is used of the rounding of floating-point numbers: it is monotone, idempotent and odd,
  doubling is exact up to \<open>B\<close>, and the error is at most \<open>eps\<close> of the number, or of 1 for small
  ones. Double precision has these laws with \<open>eps = 2 ^ - 53\<close> and \<open>B = 2 ^ 1022\<close>.
\<close>

definition rounding :: "(rat \<Rightarrow> rat) \<Rightarrow> rat \<Rightarrow> rat \<Rightarrow> bool" where
  "rounding rnd eps B \<longleftrightarrow>
     (\<forall>x y. x \<le> y \<longrightarrow> rnd x \<le> rnd y) \<and> (\<forall>x. rnd (rnd x) = rnd x) \<and> (\<forall>x. rnd (- x) = - rnd x)
     \<and> (\<forall>x. rnd x = x \<and> \<bar>x\<bar> \<le> B \<longrightarrow> rnd (2 * x) = 2 * x) \<and> (\<forall>x. \<bar>x\<bar> \<le> 2 * B \<longrightarrow> \<bar>rnd x - x\<bar> \<le> eps * (\<bar>x\<bar> + 1)) \<and> 0 \<le> eps"

lemma rounding_mono: "rounding rnd eps B \<Longrightarrow> x \<le> y \<Longrightarrow> rnd x \<le> rnd y"
  by (simp add: rounding_def)

lemma rounding_abs: "rounding rnd eps B \<Longrightarrow> \<bar>x\<bar> \<le> y \<Longrightarrow> \<bar>rnd x\<bar> \<le> rnd y"
  using rounding_mono [of rnd eps B x y] rounding_mono [of rnd eps B "- x" y] by (auto simp: rounding_def abs_le_iff)

lemma rounding_error: "rounding rnd eps B \<Longrightarrow> \<bar>x\<bar> \<le> 2 * B \<Longrightarrow> \<bar>rnd x - x\<bar> \<le> eps * (\<bar>x\<bar> + 1)"
  by (simp add: rounding_def)

lemma midpoint:
  assumes R: "rounding rnd eps B" and r: "rnd lo = lo" "rnd hi = hi" and le: "lo \<le> hi" and M: "\<bar>lo\<bar> \<le> M" "\<bar>hi\<bar> \<le> M" "M \<le> B"
    and mid: "mid = rnd (rnd (lo + hi) / 2)"
  shows "rnd mid = mid" "lo \<le> mid" "mid \<le> hi" "\<bar>mid - (lo + hi) / 2\<bar> \<le> 2 * eps * (M + 1)"
proof -
  let ?h = "rnd (lo + hi) / 2"
  have eps: "0 \<le> eps" using R by (simp add: rounding_def)
  have d: "rnd (2 * lo) = 2 * lo" "rnd (2 * hi) = 2 * hi" using R r M by (auto simp: rounding_def)
  have h: "lo \<le> ?h" "?h \<le> hi" using rounding_mono [OF R, of "2 * lo" "lo + hi"] rounding_mono [OF R, of "lo + hi" "2 * hi"] d le by simp_all
  show "rnd mid = mid" using R by (simp add: mid rounding_def)
  show lm: "lo \<le> mid" and mh: "mid \<le> hi" using rounding_mono [OF R h(1)] rounding_mono [OF R h(2)] r by (simp_all add: mid)
  have a: "\<bar>?h\<bar> \<le> M" "\<bar>lo + hi\<bar> \<le> 2 * M" using h M by (simp_all add: abs_le_iff)
  then have "\<bar>?h\<bar> \<le> 2 * B" "\<bar>lo + hi\<bar> \<le> 2 * B" using M(3) by linarith+
  note e = rounding_error [OF R this(1)] rounding_error [OF R this(2)] mult_left_mono [OF add_right_mono [OF a(1)] eps, of 1]
    mult_left_mono [OF _ eps, of "\<bar>lo + hi\<bar> + 1" "2 * (M + 1)"]
  have "\<bar>mid - ?h\<bar> \<le> eps * (M + 1)" using e(1,3) by (simp add: mid)
  moreover have "\<bar>?h - (lo + hi) / 2\<bar> \<le> eps * (M + 1)"
    using e(2,4) a(2) by (simp add: abs_le_iff field_simps)
  ultimately show "\<bar>mid - (lo + hi) / 2\<bar> \<le> 2 * eps * (M + 1)" by (simp add: abs_le_iff)
qed

text \<open>Solutions lie between the ends: the values there are on different sides of the target.\<close>

definition brackets :: "(rat \<Rightarrow> rat) \<Rightarrow> rat \<Rightarrow> bool \<Rightarrow> rat \<Rightarrow> rat \<Rightarrow> bool" where
  "brackets g t rising lo hi \<longleftrightarrow> (if rising then g lo \<le> t \<and> t \<le> g hi else g hi \<le> t \<and> t \<le> g lo)"

lemma brackets_near:
  assumes "brackets g t rising lo hi" "\<bar>g mid - g lo\<bar> \<le> D" "\<bar>g mid - g hi\<bar> \<le> D"
  shows "\<bar>g mid - t\<bar> \<le> D"
  using assms by (auto simp: brackets_def abs_le_iff split: if_splits)

text \<open>A best value is one that was probed, with its own error, which did not end the search.\<close>

definition best_of :: "(rat \<Rightarrow> rat) \<Rightarrow> (rat \<Rightarrow> rat) \<Rightarrow> rat \<Rightarrow> best_so_far \<Rightarrow> bool" where
  "best_of rnd g t b \<longleftrightarrow> rnd (bs_x b) = bs_x b \<and> bs_got b = Some (g (bs_x b)) \<and> bs_err b = Some \<bar>rnd (g (bs_x b) - t)\<bar>"

definition best_yet :: "(rat \<Rightarrow> rat) \<Rightarrow> (rat \<Rightarrow> rat) \<Rightarrow> rat \<Rightarrow> best_so_far \<Rightarrow> bool" where
  "best_yet rnd g t b \<longleftrightarrow> bs_err b = None \<or> best_of rnd g t b \<and> rnd (1 / 10 ^ 8) \<le> the (bs_err b)"

lemma better_step:
  assumes "best_yet rnd g t b" "rnd mid = mid" "err = \<bar>rnd (g mid - t)\<bar>"
    "b1 = (if better err (bs_err b) then \<lparr> bs_x = mid, bs_err = Some err, bs_got = Some (g mid) \<rparr> else b)"
  shows "best_of rnd g t b1" "the (bs_err b1) \<le> err" "err < rnd (1 / 10 ^ 8) \<Longrightarrow> b1\<lparr>bs_x := mid, bs_got := Some (g mid)\<rparr> = b1"
    "\<not> err < rnd (1 / 10 ^ 8) \<Longrightarrow> best_yet rnd g t b1"
  using assms by (auto simp: best_yet_def best_of_def better_def split: option.splits)

text \<open>
  The error after \<open>n + 1\<close> steps: below the threshold, or bounded by the slope \<open>L\<close> and the noise \<open>d\<close>
  of the formula over the last interval, whose length is the first one halved \<open>n\<close> times, up to the
  rounding of the midpoints.
\<close>

lemma seek_loop_finds:
  fixes K :: rat
  assumes R: "rounding rnd eps B" "M \<le> B" and K: "K = 2 * eps * (M + 1)"
    and f: "\<And>x. rnd x = x \<Longrightarrow> f x = Some (g x)"
    and slope: "\<And>x y. rnd x = x \<Longrightarrow> rnd y = y \<Longrightarrow> \<bar>g x - g y\<bar> \<le> L * \<bar>x - y\<bar> + d" and L: "0 \<le> L"
  shows "rnd lo = lo \<Longrightarrow> rnd hi = hi \<Longrightarrow> lo \<le> hi \<Longrightarrow> \<bar>lo\<bar> \<le> M \<Longrightarrow> \<bar>hi\<bar> \<le> M \<Longrightarrow> brackets g t rising lo hi \<Longrightarrow> best_yet rnd g t b \<Longrightarrow>
    b' = seek_loop rnd f t rising (Suc n) lo hi b \<Longrightarrow>
    best_of rnd g t b' \<and> (the (bs_err b') < rnd (1 / 10 ^ 8) \<or> the (bs_err b') \<le> rnd (L * ((hi - lo - 2 * K) / 2 ^ n + 2 * K) + d))"
proof (induction n arbitrary: lo hi b b')
  case (Suc n)
  define mid where "mid = rnd (rnd (lo + hi) / 2)"
  define err where "err = \<bar>rnd (g mid - t)\<bar>"
  define b1 where "b1 = (if better err (bs_err b) then \<lparr> bs_x = mid, bs_err = Some err, bs_got = Some (g mid) \<rparr> else b)"
  note m = midpoint [OF R(1) Suc.prems(1-5) R(2) mid_def, folded K]
  note b1 = better_step [OF Suc.prems(7) m(1) err_def b1_def]
  have loop: "b' = (if err < rnd (1 / 10 ^ 8) then b1\<lparr>bs_x := mid, bs_got := Some (g mid)\<rparr>
      else if rising = (g mid < t) then seek_loop rnd f t rising (Suc n) mid hi b1 else seek_loop rnd f t rising (Suc n) lo mid b1)"
    unfolding Suc.prems(8) seek_loop.simps(2) [of _ _ _ _ "Suc n"] Let_def mid_def [symmetric] f [OF m(1)] option.case err_def [symmetric] b1_def [symmetric] ..
  show ?case
  proof (cases "err < rnd (1 / 10 ^ 8)")
    case True
    then show ?thesis using loop b1(1-3) by auto
  next
    case False
    let ?bound = "rnd (L * ((hi - lo - 2 * K) / 2 ^ Suc n + 2 * K) + d)"
    have less: "rnd (L * ((w - 2 * K) / 2 ^ n + 2 * K) + d) \<le> ?bound" if "w \<le> (hi - lo) / 2 + K" for w
    proof -
      have "(w - 2 * K) / 2 ^ n \<le> ((hi - lo - 2 * K) / 2) / 2 ^ n" using that by (intro divide_right_mono) (simp_all add: field_simps)
      then have "(w - 2 * K) / 2 ^ n + 2 * K \<le> (hi - lo - 2 * K) / 2 ^ Suc n + 2 * K" by simp
      from mult_left_mono [OF this L] show ?thesis by (intro rounding_mono [OF R(1)]) simp
    qed
    show ?thesis
    proof (cases "rising = (g mid < t)")
      case True
      then have "brackets g t rising mid hi" using Suc.prems(6) by (auto simp: brackets_def split: if_splits)
      moreover have "\<bar>mid\<bar> \<le> M" using m(2,3) Suc.prems(4,5) by linarith
      moreover have "b' = seek_loop rnd f t rising (Suc n) mid hi b1" using loop False True by simp
      ultimately have "best_of rnd g t b' \<and> (the (bs_err b') < rnd (1 / 10 ^ 8) \<or> the (bs_err b') \<le> rnd (L * ((hi - mid - 2 * K) / 2 ^ n + 2 * K) + d))"
        using Suc.IH [OF m(1) Suc.prems(2) m(3) _ Suc.prems(5) _ b1(4) [OF False]] by blast
      moreover have "hi - mid \<le> (hi - lo) / 2 + K" using m(4) by (simp add: abs_le_iff field_simps)
      ultimately show ?thesis using less [of "hi - mid"] by fastforce
    next
      case side: False
      then have "brackets g t rising lo mid" using Suc.prems(6) by (auto simp: brackets_def split: if_splits)
      moreover have "\<bar>mid\<bar> \<le> M" using m(2,3) Suc.prems(4,5) by linarith
      moreover have "b' = seek_loop rnd f t rising (Suc n) lo mid b1" using loop False side by simp
      ultimately have "best_of rnd g t b' \<and> (the (bs_err b') < rnd (1 / 10 ^ 8) \<or> the (bs_err b') \<le> rnd (L * ((mid - lo - 2 * K) / 2 ^ n + 2 * K) + d))"
        using Suc.IH [OF Suc.prems(1) m(1,2) Suc.prems(4) _ _ b1(4) [OF False]] by blast
      moreover have "mid - lo \<le> (hi - lo) / 2 + K" using m(4) by (simp add: abs_le_iff field_simps)
      ultimately show ?thesis using less [of "mid - lo"] by fastforce
    qed
  qed
next
  case 0
  define mid where "mid = rnd (rnd (lo + hi) / 2)"
  define err where "err = \<bar>rnd (g mid - t)\<bar>"
  define b1 where "b1 = (if better err (bs_err b) then \<lparr> bs_x = mid, bs_err = Some err, bs_got = Some (g mid) \<rparr> else b)"
  note m = midpoint [OF R(1) "0.prems"(1-5) R(2) mid_def]
  note b1 = better_step [OF "0.prems"(7) m(1) err_def b1_def]
  have "b' = b1"
    using b1(3) f [OF m(1)] unfolding "0.prems"(8) by (simp add: Let_def mid_def [symmetric] err_def [symmetric] b1_def [symmetric])
  moreover have "\<bar>g mid - g x\<bar> \<le> L * (hi - lo) + d" if "x = lo \<or> x = hi" for x
  proof -
    have "\<bar>mid - x\<bar> \<le> hi - lo" using m(2,3) that by (auto simp: abs_le_iff)
    then have "L * \<bar>mid - x\<bar> \<le> L * (hi - lo)" using L by (rule mult_left_mono)
    then show ?thesis using slope [of mid x] m(1) that "0.prems"(1,2) by auto
  qed
  then have "err \<le> rnd (L * (hi - lo) + d)"
    unfolding err_def by (intro rounding_abs [OF R(1)] brackets_near [OF "0.prems"(6)]) auto
  ultimately show ?case using b1(1,2) by auto
qed

section \<open>The cells are put back\<close>

lemma upsert_twice: "upsert k v (upsert k w kvs) = upsert k v kvs"
proof (cases "k \<in> fst ` set kvs")
  case False
  then have "map (\<lambda>(x, y). if x = k then (x, v) else (x, y)) kvs = kvs" by (intro map_idI) (auto simp: image_iff)
  with False show ?thesis by (simp add: upsert_def)
next
  case True
  have "set (map fst (upsert k w kvs)) = set (map fst kvs)" using True by (simp only: keys_upsert if_True)
  then have "k \<in> fst ` set (upsert k w kvs)" using True by simp
  then have "upsert k v (upsert k w kvs) = map (\<lambda>(x, y). if x = k then (x, v) else (x, y)) (upsert k w kvs)" by (simp only: upsert_def if_True)
  also have "\<dots> = upsert k v kvs" using True by (auto simp: upsert_def)
  finally show ?thesis .
qed

lemma upsert_same: "distinct (map fst kvs) \<Longrightarrow> map_of kvs k = Some v \<Longrightarrow> upsert k v kvs = kvs"
proof -
  assume d: "distinct (map fst kvs)" and v: "map_of kvs k = Some v"
  have "\<forall>p\<in>set kvs. (case p of (x, y) \<Rightarrow> if x = k then (x, v) else (x, y)) = p" using map_of_is_SomeI [OF d] v by auto
  then have "map (\<lambda>(x, y). if x = k then (x, v) else (x, y)) kvs = kvs" by (simp add: map_idI)
  moreover have "k \<in> fst ` set kvs" using v by (metis map_of_SomeD fst_conv image_eqI)
  ultimately show ?thesis by (simp add: upsert_def)
qed

lemma obj_del_upsert: "map_of kvs k = None \<Longrightarrow> obj_del k (upsert k v kvs) = kvs"
  by (auto simp: obj_del_def upsert_def map_of_eq_None_iff filter_id_conv)

definition has_content :: "cell \<Rightarrow> bool" where
  "has_content c \<longleftrightarrow> c_value c \<noteq> None \<or> formula c \<noteq> []"

lemma cellOf_upper: "to_upper ad = ad \<Longrightarrow> cellOf s ad = (case map_of (cells s) ad of Some c \<Rightarrow> c | None \<Rightarrow> empty_cell)"
  by (simp add: cellOf_def cell_in_def split: option.splits)

lemma obj_del_upsert_any: "obj_del k (upsert k v kvs) = obj_del k kvs"
  by (auto simp: obj_del_def upsert_def filter_map comp_def case_prod_beta intro!: map_idI filter_cong)

text \<open>What a search leaves in the sheet: everything, but a changed cell without value and formula.\<close>

definition after_seek :: "string \<Rightarrow> cells \<Rightarrow> cells" where
  "after_seek ad cs = (if pred_option has_content (map_of cs ad) then cs else obj_del ad cs)"

lemma restored:
  assumes "distinct (map fst (cells s))" "to_upper ad = ad" "to_upper fd = fd"
  shows "put_back_cell fd (cellOf s fd) (restore_cell ad (cellOf s ad) (upsert ad c (cells s))) = after_seek ad (cells s)"
proof -
  have r: "restore_cell ad (cellOf s ad) (upsert ad c (cells s)) = after_seek ad (cells s)"
    using upsert_same [OF assms(1), of ad] obj_del_upsert [of "cells s" ad] obj_del_upsert_any [of ad c "cells s"]
    by (auto simp: restore_cell_def after_seek_def cellOf_upper [OF assms(2)] upsert_twice has_content_def empty_cell_def split: option.splits)
  show ?thesis
  proof (cases "has_content (cellOf s fd)")
    case True
    then obtain cf where cf: "map_of (cells s) fd = Some cf" "cellOf s fd = cf"
      by (auto simp: cellOf_upper [OF assms(3)] has_content_def empty_cell_def split: option.splits)
    then have "map_of (after_seek ad (cells s)) fd = Some cf"
      using True by (cases "fd = ad") (auto simp: after_seek_def)
    moreover have "distinct (map fst (after_seek ad (cells s)))"
      using assms(1) by (simp add: after_seek_def obj_del_def distinct_map_filter)
    ultimately show ?thesis using True cf(2) by (simp add: r put_back_cell_def upsert_same)
  qed (simp add: r put_back_cell_def has_content_def)
qed

lemma compute_seek:
  assumes "ns_parse N target = Some t" "fd = to_upper (js_trim fa)" "cd = to_upper (js_trim ca)" "parseAddr fd \<noteq> None" "parseAddr cd \<noteq> None"
    "distinct (map fst (cells s))"
  shows "computeWhatIfSeek F N fa target ca s =
     (let b = seek (ns_rnd N) (\<lambda>x. snd (probe F N fd cd s (ns_text N x))) (snd (probe F N fd cd s ''0'')) (snd (probe F N fd cd s ''1'')) t
      in (s\<lparr>cells := after_seek cd (cells s)\<rparr>,
          Inr \<lparr> sr_fAddr = fd, sr_cAddr = cd, sr_target = t, sr_out = seek_text N (bs_x b), sr_best = b, sr_prevFormula = cellOf s fd \<rparr>))"
proof -
  have u: "to_upper cd = cd" "to_upper fd = fd" using assms(2,3) by simp_all
  have "put_back_cell fd (cellOf s fd) (restore_cell cd (cellOf s cd) (cells (fst (probe F N fd cd s [])))) = after_seek cd (cells s)"
    using restored [OF assms(6) u(1,2), of "plain_value []"] by (simp add: probe_def Let_def)
  then show ?thesis using assms(1-5) by (simp add: computeWhatIfSeek_def Let_def)
qed

section \<open>Property\<close>


text \<open>Numbers written as fractions, for a concrete search.\<close>

definition rat_text :: "rat \<Rightarrow> string" where
  "rat_text x = int_str (fst (quotient_of x)) @ CHR ''/'' # int_str (snd (quotient_of x))"

definition rat_parse :: "string \<Rightarrow> rat option" where
  "rat_parse t =
     (case split_char CHR ''/'' t of
        [a] \<Rightarrow> map_option of_int (parse_int a)
      | [a, b] \<Rightarrow> (case (parse_int a, parse_int b) of (Some m, Some n) \<Rightarrow> Some (of_int m / of_int n) | _ \<Rightarrow> None)
      | _ \<Rightarrow> None)"

text \<open>A rounding for the sample: to quarters, halves away from zero.\<close>

definition quarters :: "rat \<Rightarrow> rat" where
  "quarters x = sgn x * of_int \<lfloor>\<bar>x\<bar> * 4 + 1 / 2\<rfloor> / 4"

definition rat_sys :: num_sys where
  "rat_sys = \<lparr> ns_rnd = quarters, ns_parse = rat_parse, ns_text = rat_text, ns_eval = rat_parse, ns_precision = rat_text \<rparr>"

lemma int_str_chars: "c \<in> set (int_str n) \<Longrightarrow> is_digit c \<or> c = CHR ''-''"
  using nat_str_digits by (auto simp: int_str_def split: if_splits)

lemma parse_int_int_str: "parse_int (int_str n) = Some n"
proof (cases "n < 0")
  case True
  have "takeWhile is_digit (nat_str (nat (- n))) = nat_str (nat (- n))" using nat_str_digits by (intro takeWhile_all) blast
  with True show ?thesis by (simp add: int_str_def parse_int_def Let_def is_space_def del: takeWhile_eq_all_conv)
next
  case False
  then show ?thesis by (simp add: int_str_def)
qed

lemma rat_parse_text: "rat_parse (rat_text x) = Some x"
proof -
  have n: "CHR ''/'' \<notin> set (int_str n)" for n using int_str_chars [of "CHR ''/''" n] by (auto simp: is_digit_def)
  have "split_char CHR ''/'' (rat_text x) = [int_str (fst (quotient_of x)), int_str (snd (quotient_of x))]"
    using n by (simp add: rat_text_def split_char_append_sep split_char_no_sep)
  moreover have "of_int (fst (quotient_of x)) / of_int (snd (quotient_of x)) = x" using quotient_of_div [of x] by (cases "quotient_of x") auto
  ultimately show ?thesis by (simp add: rat_parse_def parse_int_int_str)
qed

definition seek_sheet :: sheet where
  "seek_sheet = sample_sheet [(''A1'', plain_value ''2''), (''B1'', empty_cell\<lparr>formula := ''=A1''\<rparr>)]"

lemma seek_sheet_probe: "snd (probe plain_fmt rat_sys ''B1'' ''A1'' seek_sheet (rat_text x)) = Some x"
proof -
  let ?s = "seek_sheet\<lparr>cells := upsert ''A1'' (plain_value (rat_text x)) (cells seek_sheet)\<rparr>"
  have c: "cellOf ?s ''B1'' = empty_cell\<lparr>formula := ''=A1''\<rparr>" "cellOf ?s ''A1'' = plain_value (rat_text x)"
    by (simp_all add: cellOf_def cell_in_def seek_sheet_def sample_sheet_def)
  have "replace_refs (ref_text rat_sys ?s) ''A1'' = ref_text rat_sys ?s ''A1''" by (simp add: is_alpha_def is_digit_def is_upper_def is_lower_def Let_def)
  also have "\<dots> = rat_text x"
  proof -
    have "c_value (cellOf ?s ''A1'') = Some (rat_text x)" by (simp add: c(2)) (simp add: plain_value_def)
    moreover have "to_upper ''A1'' = ''A1''" by code_simp
    ultimately show ?thesis by (simp add: ref_text_def) (simp add: rat_sys_def rat_parse_text)
  qed
  finally have r: "replace_refs (ref_text rat_sys ?s) ''A1'' = rat_text x" .
  have "list_all arith_char (rat_text x)" using int_str_chars by (fastforce simp: list_all_iff rat_text_def arith_char_def)
  moreover have "js_trim ''=A1'' = ''=A1''" "js_trim ''A1'' = ''A1''" by code_simp+
  moreover have "rat_text x \<noteq> []" by (simp add: rat_text_def)
  ultimately have "evalSimpleFormula rat_sys ?s ''=A1'' = Some x" by (simp add: evalSimpleFormula_def Let_def r del: replace_refs.simps) (simp add: rat_sys_def rat_parse_text)
  then show ?thesis by (simp add: probe_def Let_def localNumericFor_def c(1))
qed

lemma quarters_int: "quarters (of_int k / 4) = of_int k / 4"
proof -
  have "\<bar>of_int k / 4\<bar> * 4 = (of_int \<bar>k\<bar> :: rat)" by simp
  moreover have "\<lfloor>(of_int \<bar>k\<bar> :: rat) + 1 / 2\<rfloor> = \<bar>k\<bar>" by linarith
  moreover have "sgn (of_int k / 4 :: rat) * of_int \<bar>k\<bar> = of_int k" by (simp add: sgn_if)
  ultimately show ?thesis by (simp add: quarters_def)
qed

lemma quarters_form: "\<exists>k. quarters x = of_int k / 4"
proof -
  have "sgn x = of_int (if x > 0 then 1 else if x < 0 then - 1 else 0)" by (simp add: sgn_if)
  then have "quarters x = of_int ((if x > 0 then 1 else if x < 0 then - 1 else 0) * \<lfloor>\<bar>x\<bar> * 4 + 1 / 2\<rfloor>) / 4"
    by (simp only: quarters_def of_int_mult)
  then show ?thesis by blast
qed

lemma quarters_pos: "0 \<le> x \<Longrightarrow> quarters x = of_int \<lfloor>x * 4 + 1 / 2\<rfloor> / 4"
  by (cases "x = 0") (simp_all add: quarters_def floor_eq_iff)

lemma quarters_odd: "quarters (- x) = - quarters x"
  by (simp add: quarters_def sgn_if)

lemma quarters_nonneg: "0 \<le> x \<Longrightarrow> 0 \<le> quarters x"
  by (simp add: quarters_pos)

lemma quarters_mono: "x \<le> y \<Longrightarrow> quarters x \<le> quarters y"
proof -
  assume le: "x \<le> y"
  have p: "quarters a \<le> quarters b" if "0 \<le> a" "a \<le> b" for a b
  proof -
    have "\<lfloor>a * 4 + 1 / 2\<rfloor> \<le> \<lfloor>b * 4 + 1 / 2\<rfloor>" using that by (intro floor_mono) simp
    then show ?thesis using that by (simp add: quarters_pos)
  qed
  consider "0 \<le> x" | "y \<le> 0" | "x \<le> 0" "0 \<le> y" by linarith
  then show ?thesis
  proof cases
    case 1 then show ?thesis using p le by blast
  next
    case 2 then show ?thesis using p [of "- y" "- x"] le by (simp add: quarters_odd)
  next
    case 3 then show ?thesis using quarters_nonneg [of "- x"] quarters_nonneg [of y] by (simp add: quarters_odd)
  qed
qed

lemma quarters_near: "\<bar>quarters x - x\<bar> \<le> 1 / 8"
proof -
  have p: "\<bar>quarters a - a\<bar> \<le> 1 / 8" if "0 \<le> a" for a
  proof -
    define z where "z = (of_int \<lfloor>a * 4 + 1 / 2\<rfloor> :: rat)"
    have "z \<le> a * 4 + 1 / 2" "a * 4 + 1 / 2 < z + 1" unfolding z_def using floor_correct [of "a * 4 + 1 / 2"] by auto
    then have "\<bar>z / 4 - a\<bar> \<le> 1 / 8" by (intro abs_leI) linarith+
    then show ?thesis unfolding quarters_pos [OF that] z_def .
  qed
  show ?thesis using p [of x] p [of "- x"] abs_minus_commute [of x "quarters x"] by (cases "0 \<le> x") (auto simp: quarters_odd)
qed

lemma quarters_rounding: "rounding quarters (1 / 8) B"
proof -
  have "quarters (2 * x) = 2 * x" if "quarters x = x" for x
  proof -
    obtain k where "quarters x = of_int k / 4" using quarters_form [of x] by blast
    then have "x = of_int k / 4" by (simp only: \<open>quarters x = x\<close>)
    then have "2 * x = of_int (2 * k) / 4" by simp
    then show ?thesis using quarters_int [of "2 * k"] by (simp only:)
  qed
  moreover have "\<bar>quarters x - x\<bar> \<le> 1 / 8 * (\<bar>x\<bar> + 1)" for x using quarters_near [of x] by simp
  moreover have "quarters (quarters x) = quarters x" for x using quarters_form [of x] quarters_int by metis
  ultimately show ?thesis by (simp add: rounding_def quarters_mono quarters_odd)
qed


end
