(* ===== verification/Tables_Files.thy ===== *)
theory Tables_Files
  imports Tables_WhatIf Office_Page "HOL-Library.Char_ord" "HOL-Library.List_Lexorder"
begin

text \<open>
  The toolbar, the menu and the dialogs of the spreadsheet client (\<open>ui/tables/web/app.js\<close>), and
  what it does with the services: creating, importing and exporting a sheet, sharing, the socket and
  the start of the page. Replies and answers of dialogs are arguments.
\<close>

section \<open>Toolbar\<close>

text \<open>The address box, which is left alone while the user types in it, whether the formula bar is
  disabled, and its text, which is left alone while it is being edited.\<close>

definition syncFormulaBar :: "num_fmt \<Rightarrow> bool \<Rightarrow> bool \<Rightarrow> string \<times> string \<Rightarrow> sheet \<Rightarrow> string \<times> bool \<times> string" where
  "syncFormulaBar F in_addr in_formula old s =
     (if in_addr then fst old else selectionLabel s, sheetId s = None,
      if editing s \<and> in_formula then snd old
      else (let f = formulaFor s (activeAddr s) in if f \<noteq> [] then f else displayFor F s (activeAddr s)))"

definition insertFormula :: "string \<Rightarrow> string \<times> sheet \<Rightarrow> string \<times> sheet" where
  "insertFormula template b =
     (if sheetId (snd b) = None then (fst b, need_sheet (snd b))
      else (template, show_status ''Edit formula then press Enter'' False (snd b)))"

definition formula_templates :: "(string \<times> string) list" where
  "formula_templates =
     [(''sum'', ''=SUM(A1:A2)''), (''average'', ''=AVERAGE(A1:A2)''), (''min'', ''=MIN(A1:A2)''), (''max'', ''=MAX(A1:A2)''),
      (''round'', ''=ROUND(A1,2)''), (''count'', ''=COUNT(A1:A3)''), (''countif'', ''=COUNTIF(A1:A3,10)''),
      (''if'', ''=IF(A1>0,'' @ [CHR 0x22] @ ''yes'' @ [CHR 0x22] @ '','' @ [CHR 0x22] @ ''no'' @ [CHR 0x22] @ '')'')]"

definition save_sheet_button :: "sheet \<Rightarrow> sheet" where
  "save_sheet_button s =
     show_status (if sheetId s \<noteq> None then ''Edits sync live'' else ''Open or create a sheet first'') (sheetId s = None) s"

text \<open>The format painter remembers a style; the Bold button applies it once.\<close>

type_synonym painted = "(bool \<times> string \<times> bool \<times> bool) option"

definition painter_button :: "painted \<times> sheet \<Rightarrow> painted \<times> sheet" where
  "painter_button b =
     (let s = snd b in
      if activeAddr s = [] then b
      else (let c = cellOf s (activeAddr s)
            in (Some (cbold c, calign c, wrap c, border c),
                show_status ''Format painter: click a target cell, then apply via Bold/Align'' False s)))"

definition toggle_bold :: "sheet \<Rightarrow> sheet" where
  "toggle_bold s = setCellStylePatch (no_style\<lparr>sp_bold := Some (\<not> cbold (cellOf s (activeAddr s)))\<rparr>) s"

definition bold_button :: "painted \<times> sheet \<Rightarrow> painted \<times> sheet" where
  "bold_button b =
     (case fst b of
        Some (bo, al, wr, br) \<Rightarrow>
          (None, setCellStylePatch (no_style\<lparr>sp_bold := Some bo, sp_align := or_undefined (Some al), sp_wrap := Some wr,
                   sp_border := Some br\<rparr>) (snd b))
      | None \<Rightarrow> (None, toggle_bold (snd b)))"

definition toggle_wrap :: "sheet \<Rightarrow> sheet" where
  "toggle_wrap s = setCellStylePatch (no_style\<lparr>sp_wrap := Some (\<not> wrap (cellOf s (activeAddr s)))\<rparr>) s"

definition align_cell :: "string \<Rightarrow> sheet \<Rightarrow> sheet" where
  "align_cell al s = setCellStylePatch (no_style\<lparr>sp_align := Some al\<rparr>) s"

definition font_sizes :: "int list" where
  "font_sizes = [10, 11, 12, 14, 16, 18, 24]"

text \<open>The value of the size selector and the sheet; an unknown size counts as the first one.\<close>

definition bumpFontSizeTb :: "int \<Rightarrow> string \<Rightarrow> sheet \<Rightarrow> string \<times> sheet" where
  "bumpFontSizeTb delta sel s =
     (let cur = (case parse_int (or_default (Some sel) ''10'') of Some n \<Rightarrow> if n = 0 then 10 else n | None \<Rightarrow> 10);
          idx = (case find_index (\<lambda>n. n = cur) font_sizes of Some i \<Rightarrow> int i | None \<Rightarrow> 0);
          j = nat (max 0 (min (int (length font_sizes) - 1) (idx + delta)))
      in (int_str (font_sizes ! j), setCellStylePatch (no_style\<lparr>sp_font_size := Some (font_sizes ! j)\<rparr>) s))"

definition font_select :: "string \<Rightarrow> sheet \<Rightarrow> sheet" where
  "font_select v s = (if v = [] then s else setCellStylePatch (no_style\<lparr>sp_font := Some v\<rparr>) s)"

definition size_select :: "string \<Rightarrow> sheet \<Rightarrow> sheet" where
  "size_select v s =
     (case parse_int v of Some n \<Rightarrow> if n = 0 then s else setCellStylePatch (no_style\<lparr>sp_font_size := Some n\<rparr>) s | None \<Rightarrow> s)"

definition link_button :: "string option \<Rightarrow> sheet \<Rightarrow> sheet" where
  "link_button answer s =
     (case answer of None \<Rightarrow> s
      | Some url \<Rightarrow> if activeAddr s = [] \<or> js_trim url = [] then s else commitCell (activeAddr s) (js_trim url) s)"

definition comment_button :: "string option \<Rightarrow> sheet \<Rightarrow> sheet" where
  "comment_button answer s =
     (if activeAddr s = [] then show_status ''Select a cell first'' True s
      else (case answer of None \<Rightarrow> s | Some t \<Rightarrow> setCellStylePatch (no_style\<lparr>sp_note := Some (js_trim t)\<rparr>) s))"

section \<open>Dialogs\<close>

definition openWhatIfDialog :: "string \<times> string \<Rightarrow> sheet \<Rightarrow> (string \<times> string) option \<times> sheet" where
  "openWhatIfDialog boxes s =
     (if sheetId s = None then (None, need_sheet s)
      else (Some (or_default (Some (fst boxes)) (or_default (Some (activeAddr s)) ''B1''), or_default (Some (snd boxes)) ''A1''), s))"

definition whatif_close :: "num_fmt \<Rightarrow> num_sys \<Rightarrow> string \<Rightarrow> string \<Rightarrow> string \<Rightarrow> string \<Rightarrow> sheet \<Rightarrow> sheet" where
  "whatif_close F N returned fa target ca s = (if returned \<noteq> ''run'' then s else fst (runWhatIfSeek F N fa target ca True s))"

definition refreshScenariosList :: "sheet \<Rightarrow> (string \<times> string) list" where
  "refreshScenariosList s =
     map (\<lambda>n. (n, n @ '' ('' @ nat_str (length (the (map_of (scenariosStore s) n))) @ '' cells)''))
       (sort_key id (map fst (scenariosStore s)))"

definition open_data_dialog :: "sheet \<Rightarrow> bool \<times> sheet" where
  "open_data_dialog s = (if sheetId s = None then (False, need_sheet s) else (True, s))"

definition scenarios_close :: "string \<Rightarrow> string \<Rightarrow> string \<Rightarrow> sheet \<Rightarrow> sheet" where
  "scenarios_close returned name listed s =
     (if returned = ''save'' then snd (saveActiveColumnScenario (or_default (Some name) listed) s)
      else if returned = ''apply'' then snd (applyScenario (or_default (Some listed) name) s) else s)"

definition consolidate_close :: "num_fmt \<Rightarrow> (string list \<Rightarrow> string) \<Rightarrow> string \<Rightarrow> string \<Rightarrow> string \<Rightarrow> string \<Rightarrow> sheet \<Rightarrow> sheet" where
  "consolidate_close F sm returned sh rng t s = (if returned \<noteq> ''run'' then s else runConsolidate F sm sh rng t s)"

definition filter_typed :: "string \<Rightarrow> sheet \<Rightarrow> sheet" where
  "filter_typed t s = s\<lparr>filterText := t, filterOpts := None\<rparr>"

section \<open>The menu\<close>

text \<open>What the user answers in the dialogs of the menu: the button that closed the dialog and the
  values of its fields then; for the borders, the preset that is picked, if any.\<close>

record menu_env =
  me_fmt :: num_fmt
  me_merge :: "string option"
  me_protect :: "protect_action option"
  me_range :: "string option"
  me_panes :: "bool option"
  me_border :: "string option"
  me_filter :: "string \<times> clause \<times> clause"
  me_sys :: num_sys
  me_whatif :: "string \<times> string \<times> string \<times> string"
  me_scenario :: "string \<times> string \<times> string"
  me_total :: "string list \<Rightarrow> string"
  me_consolidate :: "string \<times> string \<times> string \<times> string"

definition border_dialog :: "menu_env \<Rightarrow> sheet \<Rightarrow> sheet" where
  "border_dialog e s = (case me_border e of None \<Rightarrow> s | Some preset \<Rightarrow> applyBorderPreset preset s)"

definition filter_dialog :: "menu_env \<Rightarrow> sheet \<Rightarrow> sheet" where
  "filter_dialog e s =
     (case me_filter e of (returned, cl, andc) \<Rightarrow>
        if returned = ''clear'' then filter_clear s else if returned = ''apply'' then filter_apply cl andc s else s)"

definition whatif_dialog :: "menu_env \<Rightarrow> sheet \<Rightarrow> sheet" where
  "whatif_dialog e s =
     (if fst (openWhatIfDialog ([], []) s) = None then snd (openWhatIfDialog ([], []) s)
      else (case me_whatif e of (returned, fa, target, ca) \<Rightarrow> whatif_close (me_fmt e) (me_sys e) returned fa target ca s))"

definition scenarios_dialog :: "menu_env \<Rightarrow> sheet \<Rightarrow> sheet" where
  "scenarios_dialog e s =
     (if fst (open_data_dialog s) then (case me_scenario e of (returned, name, listed) \<Rightarrow> scenarios_close returned name listed s)
      else snd (open_data_dialog s))"

definition consolidate_dialog :: "menu_env \<Rightarrow> sheet \<Rightarrow> sheet" where
  "consolidate_dialog e s =
     (if fst (open_data_dialog s)
      then (case me_consolidate e of (returned, sh, rng, t) \<Rightarrow> consolidate_close (me_fmt e) (me_total e) returned sh rng t s)
      else snd (open_data_dialog s))"

definition tables_handlers :: "menu_env \<Rightarrow> (string \<times> (sheet \<Rightarrow> sheet)) list" where
  "tables_handlers e =
     [(''edit.fillDown'', fillDownActive), (''edit.fillRight'', fillRightActive), (''edit.clear'', clearActiveCell),
      (''edit.pasteValues'', pasteValuesActive), (''edit.delRow'', deleteRowAtActive), (''edit.delCol'', deleteColAtActive),
      (''view.freezePanes'', openFreezePanes (me_panes e)), (''insert.row'', insertRowAtActive), (''insert.col'', insertColAtActive),
      (''format.number'', setNumberFormat ''0.00''), (''format.percent'', setNumberFormat ''%''), (''format.plain'', setNumberFormat []),
      (''format.merge'', mergeCellsLite (me_merge e)), (''format.unmerge'', unmergeCellsLite), (''format.bold'', toggle_bold),
      (''format.alignLeft'', align_cell ''left''), (''format.alignCenter'', align_cell ''center''),
      (''format.alignRight'', align_cell ''right''), (''format.wrap'', toggle_wrap), (''format.border'', border_dialog e),
      (''data.sort'', sortActiveColumn True), (''data.sortDesc'', sortActiveColumn False), (''data.filterOpts'', filter_dialog e),
      (''data.subtotal'', insertSubtotalLite (me_fmt e)),
      (''data.protect'', toggleProtectSheet), (''data.protectRanges'', protectRangesLite (me_protect e) (me_range e)),
      (''data.whatif'', whatif_dialog e), (''data.scenarios'', scenarios_dialog e), (''data.consolidate'', consolidate_dialog e)]"

text \<open>An item with a dialog runs to the close of the dialog. The items that are left out change no cell:
  they focus a field, put a formula into the formula bar, draw a chart or act on files, and are
  functions of their own.\<close>

definition tables_menu :: "menu_env \<Rightarrow> string \<Rightarrow> sheet \<Rightarrow> sheet" where
  "tables_menu e cmd s = (case map_of (tables_handlers e) cmd of Some h \<Rightarrow> h s | None \<Rightarrow> s)"

section \<open>Files and services\<close>

type_synonym tables_page = "sheet office_page"

definition tables_status :: "string \<Rightarrow> bool \<Rightarrow> tables_page \<Rightarrow> tables_page" where
  "tables_status msg isErr p = on_client (show_status msg isErr) p"

definition sheet_url :: "string \<Rightarrow> string" where
  "sheet_url i = ''/api/v1/tables/'' @ encodeURIComponent i"

text \<open>A request that creates a sheet, from nothing or from a file. \<open>bad\<close> gives the message of a
  refused request, \<open>none\<close> the one of a reply without an identifier; the page of the sheet is opened.\<close>

definition new_sheet_request :: "(string \<Rightarrow> claims option) \<Rightarrow> string \<Rightarrow> (string \<times> string) list \<Rightarrow> int \<Rightarrow> string \<Rightarrow> string \<Rightarrow> string option
    \<Rightarrow> tables_page \<Rightarrow> tables_page" where
  "new_sheet_request jwt url extra status bad none target p =
     (let s = op_session p; p1 = officeFetch jwt (request ''POST'' url (authHeaders jwt s json_header) (user_fields jwt s @ extra)) status p
      in if \<not> status_ok status then tables_status bad True p1
         else (case target of None \<Rightarrow> tables_status none True p1 | Some i \<Rightarrow> goto_page (''/tables/'' @ i) p1))"

text \<open>A refused session is answered by the sign-in page, without a message.\<close>

definition createSheet :: "(string \<Rightarrow> claims option) \<Rightarrow> string \<Rightarrow> int \<Rightarrow> string option \<Rightarrow> tables_page \<Rightarrow> tables_page" where
  "createSheet jwt now status newId p =
     (if \<not> signed_in p then tables_status ''Sign in via Drive first -> /drive/ (alice@mail.gov.az / 1234)'' True p
      else if status = 401
      then officeFetch jwt (request ''POST'' ''/api/v1/tables'' (authHeaders jwt (op_session p) json_header)
             (user_fields jwt (op_session p) @ [(''name'', ''Untitled-'' @ now @ ''.erat'')])) status p
      else new_sheet_request jwt ''/api/v1/tables'' [(''name'', ''Untitled-'' @ now @ ''.erat'')] status
             (if status = 403 then ''Create failed: access denied'' else ''Create failed: '' @ int_str status)
             ''Create failed: no drive_object_id'' (or_undefined newId) p)"

text \<open>The replacement of an extension at the end of a name, in any case.\<close>

definition erat_name :: "string \<Rightarrow> string \<Rightarrow> string" where
  "erat_name ext name =
     (let n = length name - length ext
      in if length ext \<le> length name \<and> to_lower (drop n name) = ext then take n name @ ''.erat'' else name)"

definition import_xlsx :: "(string \<Rightarrow> claims option) \<Rightarrow> (string \<times> nat list) option \<Rightarrow> int \<Rightarrow> string option \<Rightarrow> tables_page \<Rightarrow> tables_page" where
  "import_xlsx jwt file status newId p =
     (case file of None \<Rightarrow> p
      | Some (name, bytes) \<Rightarrow>
          if \<not> signed_in p then tables_status sign_in_first True p
          else new_sheet_request jwt ''/api/v1/tables/import''
                 [(''name'', erat_name ''.xlsx'' name), (''xlsx_base64'', arrayBufferToBase64 bytes)] status
                 (''Import failed: '' @ int_str status) ''Import failed: no drive_object_id'' (or_undefined newId)
                 (tables_status ''Importing xlsx...'' False p))"

definition importOdsFile :: "(string \<Rightarrow> claims option) \<Rightarrow> (string \<times> nat list) option \<Rightarrow> int \<Rightarrow> string option \<Rightarrow> string option
    \<Rightarrow> tables_page \<Rightarrow> tables_page" where
  "importOdsFile jwt file status driveId plainId p =
     (case file of None \<Rightarrow> p
      | Some (name, bytes) \<Rightarrow>
          if \<not> signed_in p then tables_status sign_in_first True p
          else new_sheet_request jwt ''/api/v1/tables/import-ods''
                 [(''name'', erat_name ''.ods'' name), (''ods_base64'', arrayBufferToBase64 bytes)] status
                 (''ODS import failed: '' @ int_str status) ''ODS import: no sheet id''
                 (map_option encodeURIComponent (case or_undefined driveId of Some i \<Rightarrow> Some i | None \<Rightarrow> or_undefined plainId))
                 (tables_status ''Importing ODS...'' False p))"

text \<open>The name of the downloaded file, when there is one.\<close>

definition export_sheet :: "(string \<Rightarrow> claims option) \<Rightarrow> string \<Rightarrow> string \<times> string \<times> string \<Rightarrow> int \<Rightarrow> tables_page \<Rightarrow> tables_page \<times> string option" where
  "export_sheet jwt ext msgs status p =
     (case sheetId (op_client p) of
        None \<Rightarrow> (tables_status ''Open a sheet first'' True p, None)
      | Some i \<Rightarrow>
          (let p1 = officeFetch jwt (request ''POST'' (sheet_url i @ ''/export/'' @ ext) (authHeaders jwt (op_session p) []) []) status
                      (tables_status (fst msgs) False p)
           in if status_ok status then (tables_status (fst (snd msgs)) False p1, Some (or_default (Some i) ''export'' @ CHR ''.'' # ext))
              else (tables_status (snd (snd msgs) @ int_str status) True p1, None)))"

definition export_xlsx :: "(string \<Rightarrow> claims option) \<Rightarrow> int \<Rightarrow> tables_page \<Rightarrow> tables_page \<times> string option" where
  "export_xlsx jwt status p = export_sheet jwt ''xlsx'' (''Exporting xlsx...'', ''Export ready'', ''Export failed: '') status p"

definition exportOds :: "(string \<Rightarrow> claims option) \<Rightarrow> int \<Rightarrow> tables_page \<Rightarrow> tables_page \<times> string option" where
  "exportOds jwt status p = export_sheet jwt ''ods'' (''Exporting ODS...'', ''ODS export ready'', ''ODS export failed: '') status p"

text \<open>The link, and whether it went to the clipboard or to the dialog that shows it. \<open>copied\<close> is the
  outcome of the clipboard, \<open>None\<close> where the browser has none.\<close>

definition openShareSheet :: "bool option \<Rightarrow> tables_page \<Rightarrow> tables_page \<times> (string \<times> bool) option" where
  "openShareSheet copied p =
     (case sheetId (op_client p) of
        None \<Rightarrow> (tables_status ''Open a sheet first'' True p, None)
      | Some i \<Rightarrow>
          (let url = op_origin p @ ''/tables/'' @ i
           in if copied = Some True then (tables_status ''Share link copied'' False p, Some (url, True)) else (p, Some (url, False))))"

definition load_sheet_page :: "(string \<Rightarrow> claims option) \<Rightarrow> string \<Rightarrow> int \<Rightarrow> sheet_doc \<Rightarrow> bool \<Rightarrow> bool \<Rightarrow> tables_page \<Rightarrow> tables_page" where
  "load_sheet_page jwt i status d quiet redraw p =
     (let p1 = officeFetch jwt (request ''GET'' (sheet_url i) (authHeaders jwt (op_session p) []) []) status p
      in if status_ok status then on_client (loadSheet i d quiet redraw) p1
         else if status = 401 \<or> quiet then p1
         else tables_status (''Failed to load sheet: '' @ int_str status) True p1)"

text \<open>A new socket is not open until the browser says so.\<close>

definition tables_connectSync :: "sheet \<Rightarrow> sheet" where
  "tables_connectSync s = s\<lparr>open_ws := False\<rparr>"

text \<open>The start of the page. The socket is opened whether or not the sheet could be read.\<close>

definition tables_boot :: "(string \<Rightarrow> claims option) \<Rightarrow> int \<Rightarrow> string \<Rightarrow> int \<Rightarrow> sheet_doc \<Rightarrow> bool \<Rightarrow> string \<Rightarrow> int \<Rightarrow> string option
    \<Rightarrow> tables_page \<Rightarrow> tables_page" where
  "tables_boot jwt now pathname status d redraw stamp created newId p =
     (let p1 = p\<lparr>op_session := fst (requireAuthOrRedirect jwt now (op_session p))\<rparr>;
          p2 = on_client (\<lambda>s. s\<lparr>sheetId := path_id ''tables'' pathname\<rparr>) p1
      in case path_id ''tables'' pathname of
           Some i \<Rightarrow> on_client tables_connectSync (load_sheet_page jwt i status d False redraw p2)
         | None \<Rightarrow> if signed_in p2 then createSheet jwt stamp created newId p2 else p2)"

text \<open>Scrolling: the window follows, and the grid is drawn again when the window changed.\<close>

definition grid_scrolled :: "int list \<Rightarrow> scroll_area \<Rightarrow> window \<times> sheet \<Rightarrow> window \<times> sheet" where
  "grid_scrolled ws a b =
     (let w = updateWindowFromScroll ws (sa_top a) (sa_left a) (sa_height a) (sa_width a)
      in (w, if w = fst b then snd b else renderGrid (snd b)))"

definition grid_wheel :: "bool \<Rightarrow> int \<Rightarrow> int \<Rightarrow> int \<Rightarrow> scroll_area \<Rightarrow> scroll_area" where
  "grid_wheel modifier full deltaY deltaX a =
     (if \<not> modifier \<or> full \<le> sa_width a + 1 then a
      else a\<lparr>sa_left := sa_left a + (if deltaY \<noteq> 0 then deltaY else deltaX)\<rparr>)"

definition page_resized :: "int list \<Rightarrow> scroll_area \<Rightarrow> window \<times> sheet \<Rightarrow> window \<times> sheet" where
  "page_resized ws a b =
     (if sheetId (snd b) = None then b
      else (updateWindowFromScroll ws (sa_top a) (sa_left a) (sa_height a) (sa_width a), renderGrid (snd b)))"

section \<open>The content of protected cells\<close>

definition cell_content :: "cell \<Rightarrow> string \<times> string" where
  "cell_content c = (or_empty (c_value c), formula c)"

lemma style_keeps_content: "cell_content (style_cell q c) = cell_content c"
  by (simp add: style_cell_def cell_content_def)

lemma empty_content: "cell_content (empty_cell\<lparr>c_value := Some []\<rparr>) = cell_content empty_cell"
  by (simp add: cell_content_def empty_cell_def)

lemma upsert_content:
  assumes "cell_content c = cell_content (case map_of (cells s) k of Some c0 \<Rightarrow> c0 | None \<Rightarrow> empty_cell)"
    "cells s' = upsert k c (cells s)" "to_upper ad = ad"
  shows "cell_content (cellOf s' ad) = cell_content (cellOf s ad)"
  using assms by (cases "ad = k") (auto simp: cellOf_def cell_in_def split: option.splits)

lemma same_cells_content: "cells s' = cells s \<Longrightarrow> cell_content (cellOf s' ad) = cell_content (cellOf s ad)"
  by (simp add: cellOf_def)

lemma style_patch_content:
  assumes "to_upper (activeAddr s) = activeAddr s" "to_upper ad = ad"
  shows "cell_content (cellOf (setCellStylePatch q s) ad) = cell_content (cellOf s ad)"
proof (cases "sheetId s = None \<or> activeAddr s = []")
  case False
  then have "cells (setCellStylePatch q s) = upsert (activeAddr s) (style_cell q (style_base s (activeAddr s))) (cells s)"
    using assms(1) by (auto simp: setCellStylePatch_def Let_def)
  moreover have "style_base s (activeAddr s) = (case map_of (cells s) (activeAddr s) of Some c \<Rightarrow> c | None \<Rightarrow> empty_cell)"
    using assms(1) by (simp add: style_base_def split: option.split)
  ultimately show ?thesis using assms(2) by (intro upsert_content) (simp_all add: style_keeps_content)
qed (auto simp: setCellStylePatch_def intro!: same_cells_content)

lemma number_format_content:
  assumes "to_upper ad = ad"
  shows "cell_content (cellOf (setNumberFormat fmt s) ad) = cell_content (cellOf s ad)"
proof (cases "sheetId s = None \<or> isAddrProtected s (activeAddr s)")
  case False
  define c where "c = (case map_of (cells s) (activeAddr s) of Some c \<Rightarrow> c | None \<Rightarrow> empty_cell\<lparr>c_value := Some []\<rparr>)"
  have "cells (setNumberFormat fmt s) = upsert (activeAddr s) (c\<lparr>format := fmt\<rparr>) (cells s)"
    using False by (auto simp: setNumberFormat_def Let_def c_def)
  moreover have "cell_content (c\<lparr>format := fmt\<rparr>) = cell_content (case map_of (cells s) (activeAddr s) of Some c0 \<Rightarrow> c0 | None \<Rightarrow> empty_cell)"
    by (simp add: c_def cell_content_def empty_cell_def split: option.split)
  ultimately show ?thesis using assms by (intro upsert_content) auto
qed (auto simp: setNumberFormat_def intro!: same_cells_content)

text \<open>Commands that leave the cells alone: they ask the service, or change the view.\<close>

lemma no_cell_commands [simp]:
  "cells (deleteRowAtActive s) = cells s" "cells (deleteColAtActive s) = cells s" "cells (insertRowAtActive s) = cells s"
  "cells (insertColAtActive s) = cells s" "cells (sortActiveColumn b s) = cells s" "cells (openFreezePanes m s) = cells s"
  "cells (mergeCellsLite r s) = cells s" "cells (unmergeCellsLite s) = cells s" "cells (toggleProtectSheet s) = cells s"
  by (simp_all add: deleteRowAtActive_def deleteColAtActive_def insertRowAtActive_def insertColAtActive_def sortActiveColumn_def
      openFreezePanes_def mergeCellsLite_def unmergeCellsLite_def toggleProtectSheet_def persistMerges_def upd_active_tab_def Let_def
      split: option.split)

lemma protectRanges_cells [simp]: "cells (protectRangesLite act ans s) = cells s"
  by (simp add: protectRangesLite_def persistProtectedRanges_def upd_active_tab_def Let_def split: option.split protect_action.split)

lemmas kept_content = no_cell_commands [THEN same_cells_content] protectRanges_cells [THEN same_cells_content]

lemma commits_content:
  assumes "commits_only s s'" "isAddrProtected s ad" "to_upper ad = ad"
  shows "cell_content (cellOf s' ad) = cell_content (cellOf s ad)"
  using commits_only_locked [OF assms(1,2)] assms(3) by (simp add: cellOf_def cell_in_def split: option.split)

lemma cell_in_upper: "to_upper ad = ad \<Longrightarrow> cell_in cs ad = map_of cs ad"
  by (simp add: cell_in_def split: option.split)

definition content_in :: "cells \<Rightarrow> string \<Rightarrow> string \<times> string" where
  "content_in cs ad = cell_content (case map_of cs ad of Some c \<Rightarrow> c | None \<Rightarrow> empty_cell)"

lemma content_in_cellOf: "to_upper ad = ad \<Longrightarrow> cell_content (cellOf s ad) = content_in (cells s) ad"
  by (simp add: cellOf_def content_in_def cell_in_upper)

lemma border_content:
  assumes "to_upper ad = ad"
  shows "cell_content (cellOf (applyBorderPreset q s) ad) = cell_content (cellOf s ad)"
proof -
  have one: "cell_content (cellOf (patchBorderAt (makeAddr c r) sides t) ad) = cell_content (cellOf t ad)" for c r sides t
  proof (cases "sheetId t = None \<or> makeAddr c r = []")
    case False
    let ?b = "(style_base t (makeAddr c r))\<lparr>border := clean_sides sides \<noteq> [], border_sides := clean_sides sides\<rparr>"
    have "cells (patchBorderAt (makeAddr c r) sides t) = upsert (makeAddr c r) ?b (cells t)"
      using False by (auto simp: patchBorderAt_def Let_def)
    from upsert_content [OF _ this assms] show ?thesis
      by (simp add: style_base_def cell_content_def empty_cell_def split: option.split)
  qed (auto simp: patchBorderAt_def)
  have "cell_content (cellOf (fold (\<lambda>(c, r). patchBorderAt (makeAddr c r) (w c r)) crs t) ad) = cell_content (cellOf t ad)" for w crs t
    by (induction crs arbitrary: t) (auto simp: one)
  then show ?thesis by (simp add: applyBorderPreset_def Let_def content_in_cellOf [OF assms] need_sheet_def split: option.split)
qed

lemma need_cells: "cellOf (need_sheet s) ad = cellOf s ad"
  by (simp add: cellOf_def need_sheet_def)

lemma protected_cells [simp]: "isAddrProtected (s\<lparr>cells := cs\<rparr>) = isAddrProtected s"
  by (simp add: isAddrProtected_def isAddrRangeProtected_def fun_eq_iff split: option.split)

lemma dialogs_content:
  assumes "isAddrProtected s ad" "to_upper ad = ad"
  shows "cell_content (cellOf (border_dialog e s) ad) = cell_content (cellOf s ad)"
    "cell_content (cellOf (filter_dialog e s) ad) = cell_content (cellOf s ad)"
    "cell_content (cellOf (scenarios_dialog e s) ad) = cell_content (cellOf s ad)"
    "cell_content (cellOf (consolidate_dialog e s) ad) = cell_content (cellOf s ad)"
proof -
  note c = bulk_commits [THEN commits_content [OF _ assms]]
  show "cell_content (cellOf (border_dialog e s) ad) = cell_content (cellOf s ad)"
    by (simp add: border_dialog_def border_content [OF assms(2)] split: option.split)
  show "cell_content (cellOf (filter_dialog e s) ad) = cell_content (cellOf s ad)"
    by (rule same_cells_content) (simp add: filter_dialog_def filter_clear_def filter_apply_def Let_def split: prod.split)
  have "cells (snd (saveActiveColumnScenario n s)) = cells s" for n
    by (simp add: saveActiveColumnScenario_def persistScenarios_def upd_active_tab_def Let_def split: option.split)
  then have "cell_content (cellOf (snd (saveActiveColumnScenario n s)) ad) = cell_content (cellOf s ad)" for n
    by (rule same_cells_content)
  then show "cell_content (cellOf (scenarios_dialog e s) ad) = cell_content (cellOf s ad)"
    by (simp add: scenarios_dialog_def open_data_dialog_def scenarios_close_def c need_cells split: prod.split)
  show "cell_content (cellOf (consolidate_dialog e s) ad) = cell_content (cellOf s ad)"
    by (simp add: consolidate_dialog_def open_data_dialog_def consolidate_close_def c need_cells split: prod.split)
qed

lemma restore_content: "cell_content prev = content_in cs k \<Longrightarrow> content_in (restore_cell k prev (upsert k x cs)) ad = content_in cs ad"
  by (auto simp: restore_cell_def content_in_def cell_content_def empty_cell_def)

lemma put_back_content: "cell_content prev = content_in cs k \<Longrightarrow> content_in (put_back_cell k prev cs) ad = content_in cs ad"
  by (auto simp: put_back_cell_def content_in_def)

text \<open>The search leaves the content of all cells, also of the two it probes.\<close>

lemma seek_content:
  assumes "computeWhatIfSeek F N fa target ca s = (s1, Inr r)" "to_upper ad = ad"
  shows "cell_content (cellOf s1 ad) = cell_content (cellOf s ad)" "isAddrProtected s1 = isAddrProtected s"
    "sr_prevFormula r = cellOf s (sr_fAddr r)" "to_upper (sr_fAddr r) = sr_fAddr r" "to_upper (sr_cAddr r) = sr_cAddr r"
proof -
  let ?f = "to_upper (js_trim fa)" and ?c = "to_upper (js_trim ca)"
  have s1: "s1 = s\<lparr>cells := put_back_cell ?f (cellOf s ?f) (restore_cell ?c (cellOf s ?c) (cells (fst (probe F N ?f ?c s []))))\<rparr>"
    and r: "sr_fAddr r = ?f" "sr_cAddr r = ?c" "sr_prevFormula r = cellOf s ?f"
    using assms(1) by (auto simp: computeWhatIfSeek_def Let_def split: option.splits if_splits)
  show "sr_prevFormula r = cellOf s (sr_fAddr r)" "to_upper (sr_fAddr r) = sr_fAddr r" "to_upper (sr_cAddr r) = sr_cAddr r"
    by (simp_all add: r)
  show "isAddrProtected s1 = isAddrProtected s" by (simp add: s1)
  show "cell_content (cellOf s1 ad) = cell_content (cellOf s ad)"
    by (simp add: s1 content_in_cellOf assms(2) probe_def Let_def put_back_content restore_content)
qed

text \<open>What a protected cell holds after a goal seek: the changed cell gets the found value and loses
  its formula, the target cell keeps its formula and gets a local value.\<close>

lemma whatif_content:
  assumes "isAddrProtected s ad" "to_upper ad = ad" "computeWhatIfSeek F N fa target ca s = (s1, Inr r)"
  defines "pf \<equiv> cellOf s (sr_fAddr r)" and "c' \<equiv> cell_content (cellOf (fst (runWhatIfSeek F N fa target ca True s)) ad)"
  shows "if formula pf = [] \<or> ad \<notin> {sr_fAddr r, sr_cAddr r} then c' = cell_content (cellOf s ad)
    else if ad = sr_fAddr r then snd c' = formula pf else c' = (sr_out r, [])"
proof -
  note k = seek_content [OF assms(3,2)]
  let ?s2 = "commitCell (sr_cAddr r) (sr_out r) s1"
  let ?s3 = "?s2\<lparr>cells := upsert (sr_cAddr r) (plain_value (sr_out r)) (cells ?s2)\<rparr>"
  let ?v = "case evalSimpleFormula N ?s3 (formula pf) of Some x \<Rightarrow> ns_text N x | None \<Rightarrow> or_empty (c_value pf)"
  have pf: "sr_prevFormula r = pf" using k(3) by (simp add: pf_def)
  have run: "cells (fst (runWhatIfSeek F N fa target ca True s)) = (if formula pf = [] then cells ?s2
    else upsert (sr_fAddr r) (empty_cell\<lparr>c_value := Some ?v, formula := formula pf, format := format pf\<rparr>) (cells ?s3))"
    unfolding runWhatIfSeek_def assms(3) Let_def prod.case sum.case pf by simp
  have keep: "content_in (cells ?s2) ad = content_in (cells s) ad"
    using commits_content [OF commits_only_one [OF refl] _ assms(2), of s1] k(1,2) assms(1) by (simp add: content_in_cellOf [OF assms(2)])
  show ?thesis unfolding c'_def content_in_cellOf [OF assms(2)] run
    using keep by (auto simp: content_in_def cell_content_def plain_value_def empty_cell_def)
qed

lemma handlers_content:
  assumes "isAddrProtected s ad" "to_upper ad = ad" "to_upper (activeAddr s) = activeAddr s"
  shows "list_all (\<lambda>(cmd, h). cmd \<in> {''edit.pasteValues'', ''data.whatif''} \<or> cell_content (cellOf (h s) ad) = cell_content (cellOf s ad))
    (tables_handlers e)"
  by (simp only: tables_handlers_def list.pred_inject prod.case simp_thms insert_iff empty_iff toggle_bold_def toggle_wrap_def align_cell_def
      commits_content [OF bulk_commits(1) assms(1,2)] commits_content [OF bulk_commits(2) assms(1,2)]
      commits_content [OF bulk_commits(3) assms(1,2)] commits_content [OF bulk_commits(5) assms(1,2)]
      style_patch_content [OF assms(3,2)] number_format_content [OF assms(2)] kept_content dialogs_content [OF assms(1,2)])

text \<open>The commands on rows and columns look at no protected range.\<close>

lemma row_commands_sent:
  assumes "open_ws s" "sheetId s \<noteq> None" "parseAddr (activeAddr s) = Some p"
  shows "sent (deleteRowAtActive s) = sent s @ [Delete_row (a_row p)]" "sent (deleteColAtActive s) = sent s @ [Delete_col (a_col p + 1)]"
    "sent (insertRowAtActive s) = sent s @ [Insert_row (a_row p)]" "sent (insertColAtActive s) = sent s @ [Insert_col (a_col p + 1)]"
    "sent (sortActiveColumn b s) = (if sheetProtected s then sent s else sent s @ [Sort_range (a_col p + 1) b])"
  using assms by (auto simp: deleteRowAtActive_def deleteColAtActive_def insertRowAtActive_def insertColAtActive_def
      sortActiveColumn_def sendSheetOp_def scheduleRefresh_def show_status_def)

text \<open>
  C24. Which menu commands leave the text and the formula of a protected cell in the local sheet, for a cell of a
  protected sheet or range (addresses in capitals, as the grid writes them): all, with two exceptions.
  \<open>Paste values\<close> replaces the formula of the active cell by its value. Applying a goal seek whose
  target cell has a formula writes the found number over the changed cell and a local value into the
  target cell, which keeps its formula; without a formula there, or for other cells, it changes
  nothing. The dialogs of scenarios, consolidation, filters and borders, filling, clearing, subtotals,
  formats, styles and merges are covered. Moving whole rows and columns is not checked against
  protected ranges: deleting and inserting them is sent although the cell is protected, and so is
  sorting when the protection is that of a range; the local cells change with the next refresh.
\<close>

theorem tables_menu_protected:
  assumes "isAddrProtected s ad" "to_upper ad = ad" "to_upper (activeAddr s) = activeAddr s" "sheetId s \<noteq> None"
    "me_whatif e = (returned, fa, target, ca)" "computeWhatIfSeek (me_fmt e) (me_sys e) fa target ca s = (s1, res)"
  shows "(let c = cell_content (cellOf s ad); c' = (\<lambda>cmd. cell_content (cellOf (tables_menu e cmd s) ad)) in
      (\<forall>cmd. cmd \<notin> {''edit.pasteValues'', ''data.whatif''} \<longrightarrow> c' cmd = c)
    \<and> c' ''edit.pasteValues'' = (if ad = activeAddr s \<and> ad \<noteq> [] then (fst c, []) else c)
    \<and> (case res of Inl _ \<Rightarrow> c' ''data.whatif'' = c
       | Inr r \<Rightarrow> if returned \<noteq> ''run'' \<or> formulaFor s (sr_fAddr r) = [] \<or> ad \<notin> {sr_fAddr r, sr_cAddr r} then c' ''data.whatif'' = c
           else if ad = sr_fAddr r then snd (c' ''data.whatif'') = snd c else c' ''data.whatif'' = (sr_out r, [])))
    \<and> (\<forall>p. open_ws s \<and> parseAddr (activeAddr s) = Some p \<longrightarrow>
        sent (tables_menu e ''edit.delRow'' s) = sent s @ [Delete_row (a_row p)]
      \<and> sent (tables_menu e ''edit.delCol'' s) = sent s @ [Delete_col (a_col p + 1)]
      \<and> sent (tables_menu e ''insert.row'' s) = sent s @ [Insert_row (a_row p)]
      \<and> sent (tables_menu e ''insert.col'' s) = sent s @ [Insert_col (a_col p + 1)]
      \<and> sent (tables_menu e ''data.sort'' s) = (if sheetProtected s then sent s else sent s @ [Sort_range (a_col p + 1) True])
      \<and> sent (tables_menu e ''data.sortDesc'' s) = (if sheetProtected s then sent s else sent s @ [Sort_range (a_col p + 1) False]))"
proof -
  let ?c = "cell_content (cellOf s ad)"
  let ?seek = "\<lambda>r. if returned \<noteq> ''run'' \<or> formulaFor s (sr_fAddr r) = [] \<or> ad \<notin> {sr_fAddr r, sr_cAddr r} then cell_content (cellOf (whatif_dialog e s) ad) = ?c
           else if ad = sr_fAddr r then snd (cell_content (cellOf (whatif_dialog e s) ad)) = snd ?c else cell_content (cellOf (whatif_dialog e s) ad) = (sr_out r, [])"
  have m: "tables_menu e ''edit.pasteValues'' s = pasteValuesActive s" "tables_menu e ''data.whatif'' s = whatif_dialog e s"
    "tables_menu e ''edit.delRow'' s = deleteRowAtActive s" "tables_menu e ''edit.delCol'' s = deleteColAtActive s"
    "tables_menu e ''insert.row'' s = insertRowAtActive s" "tables_menu e ''insert.col'' s = insertColAtActive s"
    "tables_menu e ''data.sort'' s = sortActiveColumn True s" "tables_menu e ''data.sortDesc'' s = sortActiveColumn False s"
    by (simp_all add: tables_menu_def tables_handlers_def)
  have other: "cell_content (cellOf (tables_menu e cmd s) ad) = ?c" if "cmd \<notin> {''edit.pasteValues'', ''data.whatif''}" for cmd
    using handlers_content [OF assms(1-3), of e] that
    by (cases "map_of (tables_handlers e) cmd") (auto simp: tables_menu_def list_all_iff dest!: map_of_SomeD)
  have paste: "cell_content (cellOf (pasteValuesActive s) ad) = (if ad = activeAddr s \<and> ad \<noteq> [] then (fst ?c, []) else ?c)"
    using assms(2-4) by (auto simp: pasteValuesActive_def Let_def content_in_cellOf content_in_def cell_content_def empty_cell_def cellOf_def cell_in_upper split: option.splits)
  have w: "whatif_dialog e s = (if returned \<noteq> ''run'' then s else fst (runWhatIfSeek (me_fmt e) (me_sys e) fa target ca True s))"
    using assms(4,5) by (auto simp: whatif_dialog_def openWhatIfDialog_def whatif_close_def)
  have err: "cell_content (cellOf (whatif_dialog e s) ad) = ?c" if "res = Inl m" for m
  proof -
    have "s1 = s" using assms(6) that by (auto simp: computeWhatIfSeek_def Let_def split: option.splits if_splits)
    then show ?thesis using assms(6) that by (simp add: w runWhatIfSeek_def content_in_cellOf [OF assms(2)])
  qed
  have seek: "?seek r" if "res = Inr r" for r
    using whatif_content [OF assms(1,2) assms(6) [unfolded that]] by (auto simp: w formulaFor_def cell_content_def split: if_splits)
  show ?thesis unfolding Let_def m
  proof (intro conjI allI)
    show "case res of Inl _ \<Rightarrow> cell_content (cellOf (whatif_dialog e s) ad) = ?c | Inr r \<Rightarrow> ?seek r"
      by (cases res) (simp only: sum.case err, simp only: sum.case, rule seek)
  qed (use other in blast, rule paste, use row_commands_sent [OF _ assms(4)] in simp)
qed

definition locked_sheet :: sheet where
  "locked_sheet = (sample_sheet [(''A1'', empty_cell\<lparr>c_value := Some ''7'', formula := ''=C1''\<rparr>), (''B1'', empty_cell\<lparr>formula := ''=A1''\<rparr>)])
     \<lparr>protectedRanges := [''A1:A3'']\<rparr>"

definition seek_answers :: menu_env where
  "seek_answers = \<lparr> me_fmt = plain_fmt, me_merge = None, me_protect = None, me_range = None, me_panes = None, me_border = None,
     me_filter = ([], \<lparr> cl_col = 0, cl_mode = [], cl_value = [] \<rparr>, \<lparr> cl_col = 0, cl_mode = [], cl_value = [] \<rparr>), me_sys = rat_sys,
     me_whatif = (''run'', ''B1'', ''5'', ''A1''), me_scenario = ([], [], []), me_total = (\<lambda>_. []), me_consolidate = ([], [], [], []) \<rparr>"

theorem tables_menu_protected_witness:
  "cell_content (cellOf (tables_menu seek_answers ''edit.clear'' locked_sheet) ''A1'') = (''7'', ''=C1'')
   \<and> cell_content (cellOf (tables_menu seek_answers ''edit.pasteValues'' locked_sheet) ''A1'') = (''7'', [])
   \<and> snd (cell_content (cellOf (tables_menu seek_answers ''data.whatif'' locked_sheet) ''A1'')) = []
   \<and> sent (tables_menu seek_answers ''edit.delRow'' locked_sheet) = [Delete_row 1]"
proof -
  have h: "isAddrProtected locked_sheet ''A1''" "to_upper ''A1'' = ''A1''" "to_upper (activeAddr locked_sheet) = activeAddr locked_sheet"
    "sheetId locked_sheet \<noteq> None" "me_whatif seek_answers = (''run'', ''B1'', ''5'', ''A1'')" by code_simp+
  have c: "activeAddr locked_sheet = ''A1''" "cell_content (cellOf locked_sheet ''A1'') = (''7'', ''=C1'')" "formulaFor locked_sheet ''B1'' \<noteq> []"
    "open_ws locked_sheet" "parseAddr ''A1'' = Some \<lparr> a_col = 0, a_row = 1 \<rparr>" "sent locked_sheet = []" by code_simp+
  have parsed: "ns_parse (me_sys seek_answers) ''5'' = Some 5" "parseAddr ''B1'' \<noteq> None" "to_upper (js_trim ''B1'') = ''B1''"
    "to_upper (js_trim ''A1'') = ''A1''" by code_simp+
  obtain s1 r where r: "computeWhatIfSeek (me_fmt seek_answers) (me_sys seek_answers) ''B1'' ''5'' ''A1'' locked_sheet = (s1, Inr r)"
    "sr_fAddr r = ''B1''" "sr_cAddr r = ''A1''"
    using parsed c(5) by (simp add: computeWhatIfSeek_def Let_def)
  from tables_menu_protected [OF h r(1)] show ?thesis using r(2,3) c by (simp add: Let_def)
qed

end
