(* ===== verification/Shell_RichText.thy ===== *)
theory Shell_RichText
  imports Docs_Remote Docs_Html
begin

text \<open>
  The rich-text helpers the office shell shares with its clients
  (\<open>ui/office-shell/web/richtext-editor.js\<close>, the object \<open>EraRichText\<close>). The documents
  client has its own copy of most of them (theories \<open>Docs_Spans\<close>, \<open>Docs_Remote\<close>,
  \<open>Docs_Html\<close>); this theory translates the shared file and shows where the two agree. The
  presentations client calls the shared file only.

  Spans, marks, patches and blocks are those of the documents client: the objects have the
  same keys. An absent text is the empty string.
\<close>

section \<open>Spans\<close>

definition rt_spanFromMarks :: "string \<Rightarrow> marks \<Rightarrow> mark_patch \<Rightarrow> span" where
  "rt_spanFromMarks txt marks patch =
     (let m = assign_marks marks patch in
      \<lparr> sp_text = txt,
        bold = bold m, italic = italic m, underline = underline m, strike = strike m,
        superscript = superscript m, subscript = subscript m,
        link_url = or_undefined (link_url m),
        font_family = or_undefined (font_family m),
        font_size_pt = num_or_undefined (font_size_pt m),
        color = or_undefined (color m),
        highlight = or_undefined (highlight m) \<rparr>)"

text \<open>An argument that may be absent: \<open>if (!a || !b) return false\<close>.\<close>

definition rt_marksEqual :: "marks option \<Rightarrow> marks option \<Rightarrow> bool" where
  "rt_marksEqual oa ob =
     (case (oa, ob) of
        (Some a, Some b) \<Rightarrow>
          bold a = bold b \<and> italic a = italic b \<and> underline a = underline b \<and>
          strike a = strike b \<and> superscript a = superscript b \<and> subscript a = subscript b \<and>
          or_empty (link_url a) = or_empty (link_url b) \<and>
          or_empty (font_family a) = or_empty (font_family b) \<and>
          or_zero (font_size_pt a) = or_zero (font_size_pt b) \<and>
          or_empty (color a) = or_empty (color b) \<and>
          or_empty (highlight a) = or_empty (highlight b)
      | _ \<Rightarrow> False)"

text \<open>\<open>out[out.length - 1]\<close>, undefined for the empty array.\<close>

definition last_opt :: "'a list \<Rightarrow> 'a option" where
  "last_opt xs = (if xs = [] then None else Some (last xs))"

definition rt_push :: "span \<Rightarrow> span list \<Rightarrow> span list" where
  "rt_push s out =
     (if sp_text s = [] then out
      else if rt_marksEqual (last_opt out) (Some s)
        then butlast out @ [(last out)\<lparr>sp_text := sp_text (last out) @ sp_text s\<rparr>]
        else out @ [s])"

definition rt_coalesceInlines :: "span list \<Rightarrow> span list" where
  "rt_coalesceInlines spans =
     (let out = fold rt_push spans []
      in if out = [] then [rt_spanFromMarks [] no_marks empty_patch] else out)"

definition rt_blockText :: "block \<Rightarrow> string" where
  "rt_blockText b = str_join [] (map sp_text (inlines b))"

text \<open>A frame is the array of its blocks.\<close>

definition framePlain :: "block list \<Rightarrow> string" where
  "framePlain bs = str_join [CHR 0x0A] (map rt_blockText bs)"

section \<open>Editing\<close>

text \<open>The loop over the index \<open>i\<close> with the accumulated length \<open>acc\<close>.\<close>

function rt_split_loop ::
  "span list \<Rightarrow> nat \<Rightarrow> nat \<Rightarrow> nat \<Rightarrow> span list \<times> span list" where
  "rt_split_loop list off i acc =
     (if i < length list
      then (let len = length (sp_text (list ! i)) in
            if acc + len = off
            then (rt_coalesceInlines (take (i + 1) list), rt_coalesceInlines (drop (i + 1) list))
            else if acc + len > off
            then (let local = off - acc;
                      leftSpan = rt_spanFromMarks (take local (sp_text (list ! i))) (list ! i) empty_patch;
                      rightSpan = rt_spanFromMarks (drop local (sp_text (list ! i))) (list ! i) empty_patch;
                      left = take i list @ (if sp_text leftSpan \<noteq> [] then [leftSpan] else []);
                      right = (if sp_text rightSpan \<noteq> [] then [rightSpan] else []) @ drop (i + 1) list
                  in (rt_coalesceInlines left, rt_coalesceInlines right))
            else rt_split_loop list off (i + 1) (acc + len))
      else (list, []))"
  by pat_completeness auto
termination
  by (relation "measure (\<lambda>(list, off, i, acc). length list - i)") auto

declare rt_split_loop.simps [simp del]

definition rt_splitInlinesAt :: "span list \<Rightarrow> int \<Rightarrow> span list \<times> span list" where
  "rt_splitInlinesAt list offset =
     (let plain = str_join [] (map sp_text list);
          off = nat (max 0 (min offset (int (length plain))))
      in if off = 0 then ([], list)
         else if off \<ge> length plain then (list, [])
         else rt_split_loop list off 0 0)"

definition rt_insertTextPreserving ::
  "span list \<Rightarrow> int \<Rightarrow> string \<Rightarrow> marks option \<Rightarrow> span list" where
  "rt_insertTextPreserving spans offset txt typing =
     (if txt = [] then rt_coalesceInlines spans
      else (let (left, right) = rt_splitInlinesAt spans offset;
                template = (case typing of Some t \<Rightarrow> t
                            | None \<Rightarrow> (case last_opt left of Some s \<Rightarrow> s
                            | None \<Rightarrow> (case right of s # _ \<Rightarrow> s | [] \<Rightarrow> no_marks)))
            in rt_coalesceInlines (left @ [rt_spanFromMarks txt template empty_patch] @ right)))"

definition rt_deleteRangePreserving :: "span list \<Rightarrow> int \<Rightarrow> int \<Rightarrow> span list" where
  "rt_deleteRangePreserving spans start stop =
     (if start \<ge> stop then rt_coalesceInlines spans
      else (let a = rt_splitInlinesAt spans start;
                b = rt_splitInlinesAt (snd a) (stop - start)
            in rt_coalesceInlines (fst a @ snd b)))"

definition rt_applyMarksRangeLocal ::
  "span list \<Rightarrow> int \<Rightarrow> int \<Rightarrow> mark_patch \<Rightarrow> span list" where
  "rt_applyMarksRangeLocal spans start stop patch =
     (if start \<ge> stop then rt_coalesceInlines spans
      else (let head = rt_splitInlinesAt spans start;
                midRight = rt_splitInlinesAt (snd head) (stop - start);
                mid = map (\<lambda>s. rt_spanFromMarks (sp_text s) s patch) (fst midRight)
            in rt_coalesceInlines (fst head @ mid @ snd midRight)))"

function rt_diff_start :: "string \<Rightarrow> string \<Rightarrow> nat \<Rightarrow> nat" where
  "rt_diff_start prev nxt start =
     (if start < min (length prev) (length nxt) \<and> prev ! start = nxt ! start
      then rt_diff_start prev nxt (Suc start) else start)"
  by pat_completeness auto
termination
  by (relation "measure (\<lambda>(prev, nxt, start). length prev - start)") auto

fun rt_diff_end :: "string \<Rightarrow> string \<Rightarrow> nat \<Rightarrow> nat \<Rightarrow> nat \<Rightarrow> nat \<times> nat" where
  "rt_diff_end prev nxt start endPrev endNext =
     (if endPrev > start \<and> endNext > start \<and> prev ! (endPrev - 1) = nxt ! (endNext - 1)
      then rt_diff_end prev nxt start (endPrev - 1) (endNext - 1) else (endPrev, endNext))"

declare rt_diff_start.simps [simp del] rt_diff_end.simps [simp del]

definition rt_diffText :: "string \<Rightarrow> string \<Rightarrow> text_diff" where
  "rt_diffText prev nxt =
     (let start = rt_diff_start prev nxt 0;
          (endPrev, endNext) = rt_diff_end prev nxt start (length prev) (length nxt)
      in \<lparr> d_start = start, d_deletedEnd = endPrev,
           d_inserted = drop start (take endNext nxt) \<rparr>)"

section \<open>Markup, identifiers, frames\<close>

definition rt_escapeHtml :: "string \<Rightarrow> string" where
  "rt_escapeHtml s =
     replace_char CHR 0x22 ''&quot;'' (replace_char CHR ''>'' ''&gt;''
       (replace_char CHR ''<'' ''&lt;'' (replace_char CHR ''&'' ''&amp;'' s)))"

text \<open>Unlike the documents client's function, this one draws no links and no sub- or superscript.\<close>

definition rt_render_span :: "span \<Rightarrow> string" where
  "rt_render_span s =
     styled s (tagged ''s'' (strike s) (tagged ''u'' (underline s) (tagged ''i'' (italic s)
       (tagged ''b'' (bold s) (replace_char CHR 0x0A ''<br>'' (rt_escapeHtml (sp_text s)))))))"

definition rt_renderInlineHtml :: "block \<Rightarrow> string" where
  "rt_renderInlineHtml b =
     (if inlines b = [] then [] else str_join [] (map rt_render_span (inlines b)))"

text \<open>\<open>uid\<close> is the fresh identifier the browser makes.\<close>

definition newId :: "string \<Rightarrow> string \<Rightarrow> string" where
  "newId pre uid = (if pre = [] then ''b'' else pre) @ ''-'' @ uid"

definition emptyFrame :: "string \<Rightarrow> string \<Rightarrow> block list" where
  "emptyFrame txt uid =
     [(new_block (newId ''b'' uid) ''paragraph'' [rt_spanFromMarks txt no_marks empty_patch])
        \<lparr>align := Some ''left''\<rparr>]"

definition rt_copyBlockShell :: "block \<Rightarrow> string \<Rightarrow> span list \<Rightarrow> block" where
  "rt_copyBlockShell b bid spans =
     (new_block bid (if block_type b = [] then ''paragraph'' else block_type b) (rt_coalesceInlines spans))
       \<lparr>heading_level := heading_level b, list_type := list_type b,
        align := Some (or_default (align b) ''left''), list_level := Some (or_zero (list_level b)),
        list_marker := list_marker b, style_name := style_name b\<rparr>"

section \<open>Agreement with the documents client\<close>

named_theorems rt_eq

lemma rt_span_eq [rt_eq]: "rt_spanFromMarks = spanFromMarks"
  by (intro ext) (simp add: rt_spanFromMarks_def spanFromMarks_def)

lemma rt_span_plain [rt_eq]: "spanFromMarks t m empty_patch = withText m t"
  by (simp add: withText_def)

lemma rt_marksEqual_eq [rt_eq]: "rt_marksEqual (Some a) (Some b) = marksEqual a b"
  by (simp add: rt_marksEqual_def marksEqual_def)

lemma rt_push_cases:
  "rt_push s out =
     (if sp_text s = [] then out
      else if out \<noteq> [] \<and> marksEqual (last out) s
        then butlast out @ [(last out)\<lparr>sp_text := sp_text (last out) @ sp_text s\<rparr>]
        else out @ [s])"
  by (cases "out = []") (simp_all add: rt_push_def last_opt_def rt_marksEqual_eq, simp add: rt_marksEqual_def)

lemma rt_push_fold: "fold rt_push xs out = coalesce_loop out xs"
  by (induction xs arbitrary: out) (simp_all add: rt_push_cases)

lemma rt_coalesce_eq [rt_eq]: "rt_coalesceInlines = coalesceInlines"
  by (intro ext) (simp add: rt_coalesceInlines_def coalesceInlines_def rt_push_fold rt_span_eq Let_def)

lemma str_join_Nil [simp]: "str_join [] xs = concat xs"
  by (induction xs rule: induct_list012) simp_all

lemma rt_blockText_eq [rt_eq]: "rt_blockText = blockText"
  by (intro ext) (simp add: rt_blockText_def blockText_def spans_text_def)

lemma rt_split_loop_eq:
  "rt_split_loop list off i acc = split_loop (take i list) (drop i list) acc off"
proof (induction list off i acc rule: rt_split_loop.induct)
  case (1 list off i acc)
  show ?case
  proof (cases "i < length list")
    case True
    then have "drop i list = list ! i # drop (i + 1) list" "take (i + 1) list = take i list @ [list ! i]"
      by (simp_all add: Cons_nth_drop_Suc take_Suc_conv_app_nth)
    with True 1 [OF True refl] show ?thesis
      by (simp add: rt_split_loop.simps [of list off i acc] rt_eq Let_def)
  next
    case False
    then show ?thesis by (simp add: rt_split_loop.simps)
  qed
qed

lemma rt_split_eq [rt_eq]: "rt_splitInlinesAt = splitInlinesAt"
  by (intro ext) (simp only: rt_splitInlinesAt_def splitInlinesAt_def rt_split_loop_eq
    str_join_Nil spans_text_def take_0 drop_0 Let_def)

lemma rt_insert_eq [rt_eq]: "rt_insertTextPreserving = insertTextPreserving"
  by (intro ext) (simp add: rt_insertTextPreserving_def insertTextPreserving_def insert_template_def
    last_opt_def rt_eq Let_def split: prod.split option.split list.split)

lemma rt_delete_eq [rt_eq]: "rt_deleteRangePreserving = deleteRangePreserving"
  by (intro ext) (simp only: rt_deleteRangePreserving_def deleteRangePreserving_def rt_eq)

lemma rt_marks_eq [rt_eq]: "rt_applyMarksRangeLocal = applyMarksRangeLocal"
  by (intro ext) (simp only: rt_applyMarksRangeLocal_def applyMarksRangeLocal_def
    rt_coalesce_eq rt_split_eq rt_span_eq)

lemma rt_diff_start_eq: "rt_diff_start p n s = diff_start p n s"
  by (induction p n s rule: rt_diff_start.induct)
    (simp add: rt_diff_start.simps [of p n s for p n s] diff_start.simps [of p n s for p n s])

lemma rt_diff_end_eq: "rt_diff_end p n s ep en = diff_end p n s ep en"
  by (induction p n s ep en rule: rt_diff_end.induct)
    (simp add: rt_diff_end.simps [of p n s ep en for p n s ep en] diff_end.simps [of p n s ep en for p n s ep en])

lemma rt_diff_eq [rt_eq]: "rt_diffText = diffText"
  by (intro ext) (simp add: rt_diffText_def diffText_def rt_diff_start_eq rt_diff_end_eq)

lemma rt_escape_eq [rt_eq]: "rt_escapeHtml = escapeHtml"
  by (intro ext) (simp add: rt_escapeHtml_def escapeHtml_def)

interpretation shell_buffer: text_buffer spans_text rt_insertTextPreserving rt_deleteRangePreserving
  unfolding rt_eq by (rule docs_buffer.text_buffer_axioms)

text \<open>The markup agrees on spans that use only what the shared file draws.\<close>

definition rt_drawable :: "span \<Rightarrow> bool" where
  "rt_drawable s \<longleftrightarrow> \<not> superscript s \<and> \<not> subscript s \<and> \<not> truthy_str (link_url s)"

lemma rt_render_span_eq: "rt_drawable s \<Longrightarrow> rt_render_span s = render_span s"
  by (simp add: rt_render_span_def render_span_def rt_drawable_def linked_def marked_def rt_eq tagged_def)

lemma rt_render_eq: "\<forall>s\<in>set (inlines b). rt_drawable s \<Longrightarrow> rt_renderInlineHtml b = renderInlineHtml b"
  by (simp add: rt_renderInlineHtml_def renderInlineHtml_def rt_render_span_eq cong: map_cong)

text \<open>The part of a block a split keeps in both clients; the shared file drops the rest.\<close>

lemma rt_copy_eq:
  "rt_copyBlockShell b i xs =
     (copyBlockShell b i xs)\<lparr>list_type := list_type b, line_spacing := None, indent_mm := None,
        space_before_pt := None, space_after_pt := None, lang := None\<rparr>"
  by (simp add: rt_copyBlockShell_def copyBlockShell_def new_block_def rt_eq)

lemma framePlain_emptyFrame [simp]: "framePlain (emptyFrame t uid) = t"
  by (simp add: framePlain_def emptyFrame_def rt_blockText_def new_block_def rt_span_eq)

end
