(* ===== verification/Pres_Model.thy ===== *)
theory Pres_Model
  imports Shell_RichText
begin

text \<open>
  The state of the presentations client (\<open>ui/presentations/web/app.js\<close>): the deck with its
  slides, each with three text frames, the module variables beside it, and the primitives
  every handler calls: undo and redo, \<open>ensureSlideFrames\<close>, \<open>flushEditorToModel\<close>, the
  rendering of the stage, frame operations, saving and loading.

  The speaker-notes field and the layout selector of the page hold text that the client
  writes back to the current slide, so their values are part of the state. A call of
  \<open>crypto.randomUUID\<close> is the argument \<open>u\<close>, a function from the place of the call to the
  identifier it returns. The shell object \<open>EraOfficeShell\<close> and \<open>EraRichText\<close> are loaded.
\<close>

section \<open>Decks\<close>

text \<open>
  A slide object. A frame that is absent or has no \<open>blocks\<close> is \<open>None\<close>. \<open>sl_legacy\<close> holds
  the formatting keys of an older format, which the client deletes.
\<close>

record slide =
  sl_id :: string
  sl_title :: "string option"
  sl_body :: "string option"
  sl_body2 :: "string option"
  title_frame :: "block list option"
  body_frame :: "block list option"
  body2_frame :: "block list option"
  sl_legacy :: "(string \<times> string) list"
  sl_layout :: "string option"
  sl_notes :: "string option"
  sl_background :: "string option"
  sl_image_url :: "string option"
  sl_transition :: "string option"
  sl_animation :: "string option"

record deck =
  dk_name :: "string option"
  dk_version :: "nat option"
  slides :: "slide list"
  theme_background :: "string option"
  default_layout :: "string option"
  master_title_placeholder :: "string option"
  master_body_placeholder :: "string option"

record deck_snapshot =
  sn_slides :: "slide list"
  sn_slideIndex :: nat
  sn_theme_background :: "string option"
  sn_default_layout :: "string option"
  sn_master_title_placeholder :: "string option"
  sn_master_body_placeholder :: "string option"

text \<open>The body of a frame operation and the body of a save.\<close>

record frame_msg =
  fm_slide_id :: string
  fm_frame :: string
  fm_op :: op
  fm_base_version :: nat

datatype pres_request = Frame_op frame_msg | Put_deck deck

record present_view =
  pv_title :: string
  pv_body :: string
  pv_body2 :: string
  pv_two_col :: bool
  pv_notes :: string
  pv_background :: string
  pv_image :: "string option"
  pv_classes :: "string list"

datatype pres_event =
    P_status string bool
  | P_filmstrip "string list"
  | P_stage string
  | P_paint string string
  | P_focus string string nat
  | P_pill string
  | P_background string
  | P_layout string
  | P_image "string option"
  | P_present present_view
  | P_meta string

record pres =
  deckId :: "string option"
  deck :: deck
  slideIndex :: nat
  save_armed :: bool
  pr_undoStack :: "deck_snapshot list"
  pr_redoStack :: "deck_snapshot list"
  presenting :: bool
  undo_armed :: bool
  pr_typingMarks :: "marks option"
  activeFrameKey :: string
  activeBlockId :: "string option"
  findSlideCursor :: int
  speakerNotes :: string
  layoutSelect :: string
  requests :: "pres_request list"
  pr_ui :: "pres_event list"

abbreviation pr_slides :: "pres \<Rightarrow> slide list" where
  "pr_slides p \<equiv> slides (deck p)"

definition pr_emit :: "pres_event \<Rightarrow> pres \<Rightarrow> pres" where
  "pr_emit e p = p\<lparr>pr_ui := pr_ui p @ [e]\<rparr>"

definition pres_status :: "string \<Rightarrow> bool \<Rightarrow> pres \<Rightarrow> pres" where
  "pres_status msg isErr p = pr_emit (P_status msg isErr) p"

definition map_deck :: "(deck \<Rightarrow> deck) \<Rightarrow> pres \<Rightarrow> pres" where
  "map_deck f p = p\<lparr>deck := f (deck p)\<rparr>"

definition map_slides :: "(slide list \<Rightarrow> slide list) \<Rightarrow> pres \<Rightarrow> pres" where
  "map_slides f p = map_deck (\<lambda>d. d\<lparr>slides := f (slides d)\<rparr>) p"

definition currentSlide :: "pres \<Rightarrow> slide option" where
  "currentSlide p = (if slideIndex p < length (pr_slides p) then Some (pr_slides p ! slideIndex p) else None)"

text \<open>Mutation of the current slide object; nothing to mutate when there is none.\<close>

definition upd_slide :: "(slide \<Rightarrow> slide) \<Rightarrow> pres \<Rightarrow> pres" where
  "upd_slide f p = map_slides (\<lambda>ss. ss[slideIndex p := f (ss ! slideIndex p)]) p"

section \<open>Undo and redo\<close>

definition snapshotDeck :: "pres \<Rightarrow> deck_snapshot" where
  "snapshotDeck p =
     \<lparr> sn_slides = pr_slides p, sn_slideIndex = slideIndex p,
       sn_theme_background = theme_background (deck p),
       sn_default_layout = default_layout (deck p),
       sn_master_title_placeholder = master_title_placeholder (deck p),
       sn_master_body_placeholder = master_body_placeholder (deck p) \<rparr>"

definition applySnapshot :: "deck_snapshot \<Rightarrow> pres \<Rightarrow> pres" where
  "applySnapshot snap p =
     (map_deck (\<lambda>d. d\<lparr>slides := sn_slides snap, theme_background := sn_theme_background snap,
        default_layout := sn_default_layout snap,
        master_title_placeholder := sn_master_title_placeholder snap,
        master_body_placeholder := sn_master_body_placeholder snap\<rparr>) p)
     \<lparr>slideIndex := min (sn_slideIndex snap) (length (sn_slides snap) - 1)\<rparr>"

text \<open>\<open>stack.push(s); if (stack.length > 30) stack.shift()\<close>.\<close>

definition push30 :: "'a \<Rightarrow> 'a list \<Rightarrow> 'a list" where
  "push30 s st = (let st' = st @ [s] in if length st' > 30 then tl st' else st')"

definition pres_pushUndo :: "pres \<Rightarrow> pres" where
  "pres_pushUndo p = p\<lparr>pr_undoStack := push30 (snapshotDeck p) (pr_undoStack p), pr_redoStack := []\<rparr>"

definition pushUndoDebounced :: "pres \<Rightarrow> pres" where
  "pushUndoDebounced p = (if undo_armed p then p else p\<lparr>undo_armed := True\<rparr>)"

definition undo_timer_fires :: "pres \<Rightarrow> pres" where
  "undo_timer_fires p = pres_pushUndo (p\<lparr>undo_armed := False\<rparr>)"

section \<open>Frames\<close>

definition legacy_keys :: "string list" where
  "legacy_keys = [''title_bold'', ''body_bold'', ''title_font'', ''body_font'', ''title_align'',
     ''body_align'', ''title_font_pt'', ''body_font_pt'']"

definition ensureSlideFrames :: "(string \<Rightarrow> string) \<Rightarrow> slide \<Rightarrow> slide" where
  "ensureSlideFrames u s =
     (let s1 = (if title_frame s = None
                then s\<lparr>title_frame := Some (emptyFrame (case sl_title s of Some t \<Rightarrow> t | None \<Rightarrow> ''Title'') (u (sl_id s @ ''/title'')))\<rparr>
                else s);
          s2 = (if body_frame s1 = None
                then s1\<lparr>body_frame := Some (emptyFrame (or_empty (sl_body s1)) (u (sl_id s @ ''/body'')))\<rparr>
                else s1);
          s3 = (if body2_frame s2 = None
                then s2\<lparr>body2_frame := Some (emptyFrame (or_empty (sl_body2 s2)) (u (sl_id s @ ''/body2'')))\<rparr>
                else s2)
      in s3\<lparr>sl_legacy := filter (\<lambda>kv. fst kv \<notin> set legacy_keys) (sl_legacy s3)\<rparr>)"

definition blocks_of :: "block list option \<Rightarrow> block list" where
  "blocks_of f = (case f of None \<Rightarrow> [] | Some bs \<Rightarrow> bs)"

text \<open>The frame of a slide whose frames exist (every caller runs \<open>ensureSlideFrames\<close> first).\<close>

definition frameOf :: "slide \<Rightarrow> string \<Rightarrow> block list" where
  "frameOf s key =
     (if key = ''body2'' then blocks_of (body2_frame s)
      else if key = ''body'' then blocks_of (body_frame s)
      else blocks_of (title_frame s))"

definition upd_frame :: "string \<Rightarrow> (block list \<Rightarrow> block list) \<Rightarrow> slide \<Rightarrow> slide" where
  "upd_frame key f s =
     (if key = ''body2'' then s\<lparr>body2_frame := map_option f (body2_frame s)\<rparr>
      else if key = ''body'' then s\<lparr>body_frame := map_option f (body_frame s)\<rparr>
      else s\<lparr>title_frame := map_option f (title_frame s)\<rparr>)"

definition slidePlainTitle :: "slide \<Rightarrow> string" where
  "slidePlainTitle s = framePlain (blocks_of (title_frame s))"

section \<open>The page: notes, layout, stage\<close>

definition layout_options :: "string list" where
  "layout_options = [''title_body'', ''title_only'', ''section'', ''two_column'']"

text \<open>Assigning to the value of a selector that has no such option leaves it empty.\<close>

definition select_value :: "string \<Rightarrow> string" where
  "select_value v = (if v \<in> set layout_options then v else [])"

definition flushEditorToModel :: "(string \<Rightarrow> string) \<Rightarrow> pres \<Rightarrow> pres" where
  "flushEditorToModel u p =
     (case currentSlide p of None \<Rightarrow> p
      | Some _ \<Rightarrow> upd_slide (\<lambda>s. (ensureSlideFrames u s)
          \<lparr>sl_notes := Some (speakerNotes p), sl_layout := Some (or_default (Some (layoutSelect p)) ''title_body'')\<rparr>) p)"

definition slide_bg :: "pres \<Rightarrow> slide option \<Rightarrow> string" where
  "slide_bg p s =
     (let own = (case s of None \<Rightarrow> None | Some s \<Rightarrow> sl_background s)
      in or_default own (or_default (theme_background (deck p)) ''#ffffff''))"

definition applyBackground :: "pres \<Rightarrow> pres" where
  "applyBackground p = pr_emit (P_background (slide_bg p (currentSlide p))) p"

definition applyLayoutClass :: "string option \<Rightarrow> pres \<Rightarrow> pres" where
  "applyLayoutClass l p = pr_emit (P_layout (''layout-'' @ or_default l ''title_body'')) p"

definition syncSlideImage :: "pres \<Rightarrow> pres" where
  "syncSlideImage p =
     (case currentSlide p of None \<Rightarrow> p | Some s \<Rightarrow> pr_emit (P_image (or_undefined (sl_image_url s))) p)"

definition renderFilmstrip :: "(string \<Rightarrow> string) \<Rightarrow> pres \<Rightarrow> pres" where
  "renderFilmstrip u p =
     (let p1 = map_slides (map (ensureSlideFrames u)) p
      in pr_emit (P_filmstrip (map (\<lambda>s. or_default (Some (slidePlainTitle s)) ''(untitled)'') (pr_slides p1))) p1)"

definition renderStage :: "(string \<Rightarrow> string) \<Rightarrow> pres \<Rightarrow> pres" where
  "renderStage u p =
     (case currentSlide p of
        None \<Rightarrow> pr_emit (P_stage ''No slides'') (p\<lparr>speakerNotes := []\<rparr>)
      | Some s \<Rightarrow>
          (let p1 = (upd_slide (ensureSlideFrames u) p)\<lparr>speakerNotes := or_empty (sl_notes s)\<rparr>;
               p2 = pr_emit (P_stage (''Slide '' @ nat_str (slideIndex p + 1) @ '' / '' @ nat_str (length (pr_slides p)))) p1;
               layout = or_default (sl_layout s) ''title_body''
           in (syncSlideImage (applyBackground (applyLayoutClass (Some layout) p2)))
                \<lparr>layoutSelect := select_value layout\<rparr>))"

definition renderAll :: "(string \<Rightarrow> string) \<Rightarrow> pres \<Rightarrow> pres" where
  "renderAll u p = renderStage u (renderFilmstrip u p)"

definition scheduleSave :: "pres \<Rightarrow> pres" where
  "scheduleSave p = (pr_emit (P_pill ''dirty'') p)\<lparr>save_armed := True\<rparr>"

definition pres_undoEdit :: "(string \<Rightarrow> string) \<Rightarrow> pres \<Rightarrow> pres" where
  "pres_undoEdit u p =
     (if pr_undoStack p = [] then pres_status ''Nothing to undo'' True p
      else (let p1 = p\<lparr>pr_redoStack := push30 (snapshotDeck p) (pr_redoStack p),
                       pr_undoStack := butlast (pr_undoStack p)\<rparr>
            in pres_status ''Undo'' False (scheduleSave (renderAll u
                 (applySnapshot (last (pr_undoStack p)) p1)))))"

definition pres_redoEdit :: "(string \<Rightarrow> string) \<Rightarrow> pres \<Rightarrow> pres" where
  "pres_redoEdit u p =
     (if pr_redoStack p = [] then pres_status ''Nothing to redo'' True p
      else (let p1 = p\<lparr>pr_undoStack := push30 (snapshotDeck p) (pr_undoStack p),
                       pr_redoStack := butlast (pr_redoStack p)\<rparr>
            in pres_status ''Redo'' False (scheduleSave (renderAll u
                 (applySnapshot (last (pr_redoStack p)) p1)))))"

section \<open>Loading, saving, frame operations\<close>

text \<open>The reply to a load; \<open>L_unauthorized\<close> is one the shell's \<open>handleUnauthorized\<close> takes over.\<close>

datatype load_reply = L_unauthorized | L_status nat | L_deck deck

definition first_slide :: "(string \<Rightarrow> string) \<Rightarrow> slide" where
  "first_slide u =
     \<lparr> sl_id = u ''slide'', sl_title = None, sl_body = None, sl_body2 = None,
       title_frame = Some (emptyFrame ''Title'' (u ''title'')),
       body_frame = Some (emptyFrame [] (u ''body'')),
       body2_frame = Some (emptyFrame [] (u ''body2'')),
       sl_legacy = [], sl_layout = Some ''title_body'', sl_notes = None, sl_background = None,
       sl_image_url = None, sl_transition = None, sl_animation = None \<rparr>"

definition loadDeck :: "(string \<Rightarrow> string) \<Rightarrow> bool \<Rightarrow> string \<Rightarrow> load_reply \<Rightarrow> pres \<Rightarrow> pres" where
  "loadDeck u token did reply p =
     (if \<not> token then renderAll u (p\<lparr>deckId := None\<rparr>)
      else (case reply of
        L_unauthorized \<Rightarrow> p
      | L_status st \<Rightarrow> renderAll u (pres_status (if st = 403 then ''Access denied for this deck''
            else ''Failed to load deck: '' @ nat_str st) True (p\<lparr>deckId := None\<rparr>))
      | L_deck d \<Rightarrow>
          (let ss = (if slides d = [] then [first_slide u] else slides d);
               ss' = map (\<lambda>s. ensureSlideFrames u
                        (if truthy_str (sl_layout s) then s else s\<lparr>sl_layout := Some ''title_body''\<rparr>)) ss;
               d' = d\<lparr>slides := ss', dk_version := Some (case dk_version d of None \<Rightarrow> 0 | Some v \<Rightarrow> v)\<rparr>;
               p1 = p\<lparr>deck := d', deckId := Some did, slideIndex := 0\<rparr>;
               p2 = pr_emit (P_pill ''ok'') (pr_emit (P_meta (''Deck: '' @ or_default (dk_name d) did)) p1)
           in renderAll u (pres_status ''Deck open'' False p2))))"

definition base_version :: "pres \<Rightarrow> nat" where
  "base_version p = (case dk_version (deck p) of None \<Rightarrow> 0 | Some v \<Rightarrow> v)"

text \<open>\<open>sendFrameOp\<close> up to its \<open>await\<close>, and the rest of it when the reply arrives.\<close>

definition sendFrameOp :: "string \<Rightarrow> op \<Rightarrow> pres \<Rightarrow> pres" where
  "sendFrameOp key oper p =
     (case (deckId p, currentSlide p) of
        (Some _, Some s) \<Rightarrow> p\<lparr>requests := requests p @ [Frame_op
           \<lparr> fm_slide_id = sl_id s, fm_frame = key, fm_op = oper, fm_base_version = base_version p \<rparr>]\<rparr>
      | _ \<Rightarrow> p)"

text \<open>
  A conflict carries the reply of the load it starts; a success carries the version of the
  returned deck (\<open>None\<close> without a deck) and the version beside it.
\<close>

datatype frame_reply =
    R_conflict bool load_reply
  | R_failed
  | R_network_error
  | R_ok "nat option option" "nat option"

definition nat_or :: "nat option \<Rightarrow> nat \<Rightarrow> nat" where
  "nat_or x d = (case x of None \<Rightarrow> d | Some 0 \<Rightarrow> d | Some n \<Rightarrow> n)"

definition frame_op_reply :: "(string \<Rightarrow> string) \<Rightarrow> frame_reply \<Rightarrow> pres \<Rightarrow> pres" where
  "frame_op_reply u r p =
     (case r of
        R_conflict token reply \<Rightarrow>
          pres_status ''Deck reloaded (conflict)'' True
            (case deckId p of None \<Rightarrow> p | Some did \<Rightarrow> loadDeck u token did reply p)
      | R_failed \<Rightarrow> scheduleSave p
      | R_network_error \<Rightarrow> scheduleSave p
      | R_ok dv v \<Rightarrow>
          (case dv of
             Some w \<Rightarrow> map_deck (\<lambda>d. d\<lparr>dk_version := Some (nat_or v (nat_or w 0))\<rparr>) p
           | None \<Rightarrow> (case v of None \<Rightarrow> p | Some n \<Rightarrow> map_deck (\<lambda>d. d\<lparr>dk_version := Some n\<rparr>) p)))"

text \<open>
  \<open>saveDeck\<close> up to its \<open>await\<close> and after it. The name field's text is an argument. The first
  part says whether a request was made; the reply's body is not read.
\<close>

datatype save_reply = S_ok | S_unauthorized | S_status nat

definition saveDeck :: "(string \<Rightarrow> string) \<Rightarrow> bool \<Rightarrow> string \<Rightarrow> pres \<Rightarrow> bool \<times> pres" where
  "saveDeck u token title p =
     (if deckId p = None then (False, p)
      else if \<not> token then (False, pr_emit (P_pill ''err'') p)
      else (let p1 = flushEditorToModel u p;
                p2 = (if js_trim title \<noteq> [] then map_deck (\<lambda>d. d\<lparr>dk_name := Some (js_trim title)\<rparr>) p1 else p1);
                p3 = pr_emit (P_pill ''saving'') p2
            in (True, p3\<lparr>requests := requests p3 @ [Put_deck (deck p3)]\<rparr>)))"

definition save_reply_arrives :: "bool \<Rightarrow> save_reply \<Rightarrow> pres \<Rightarrow> pres" where
  "save_reply_arrives quiet r p =
     (case r of
        S_ok \<Rightarrow> pr_emit (P_pill ''ok'') (if quiet then p else pres_status ''Saved'' False p)
      | S_unauthorized \<Rightarrow> p
      | S_status st \<Rightarrow> pr_emit (P_pill ''err'') (pres_status
          (if st = 403 then ''Save failed: access denied'' else ''Save failed: '' @ nat_str st) True p))"

section \<open>The service's side of the version\<close>

text \<open>
  The version check of the presentations service (\<open>presentations-engine/src/server.rs\<close>): a
  frame operation is refused unless its base version is the stored one and counts it up; a
  save stores the version of the request's body plus one. Both saturate at 64 bits.
\<close>

definition U64_MAX :: nat where
  "U64_MAX = 18446744073709551615"

definition saturating_succ :: "nat \<Rightarrow> nat" where
  "saturating_succ v = min (v + 1) U64_MAX"

definition apply_deck_frame_op :: "frame_msg \<Rightarrow> nat \<Rightarrow> nat option" where
  "apply_deck_frame_op m v = (if fm_base_version m \<noteq> v then None else Some (saturating_succ v))"

definition put_deck_version :: "deck \<Rightarrow> nat" where
  "put_deck_version d = saturating_succ (case dk_version d of None \<Rightarrow> 0 | Some v \<Rightarrow> v)"

end
