(* ===== verification/Pres_Edit.thy ===== *)
theory Pres_Edit
  imports Pres_Model
begin

text \<open>
  The handlers of the presentations client (\<open>ui/presentations/web/app.js\<close>): typing, Enter and
  Backspace in a frame, marks and alignment, the slide commands, backgrounds, motion, notes,
  search, the slide show and the keyboard.
\<close>

section \<open>Typing in a frame\<close>

text \<open>\<open>frameOf\<close> on the current slide: its effect on the slide, and the frame.\<close>

definition open_frame :: "(string \<Rightarrow> string) \<Rightarrow> pres \<Rightarrow> pres" where
  "open_frame u p = upd_slide (ensureSlideFrames u) p"

definition cur_frame :: "string \<Rightarrow> pres \<Rightarrow> block list" where
  "cur_frame key p = (case currentSlide p of None \<Rightarrow> [] | Some s \<Rightarrow> frameOf s key)"

definition upd_cur_frame :: "string \<Rightarrow> (block list \<Rightarrow> block list) \<Rightarrow> pres \<Rightarrow> pres" where
  "upd_cur_frame key f p = upd_slide (upd_frame key f) p"

definition set_inlines :: "string \<Rightarrow> string \<Rightarrow> (span list \<Rightarrow> span list) \<Rightarrow> pres \<Rightarrow> pres" where
  "set_inlines key bid f p = upd_cur_frame key (upd_block bid (\<lambda>b. b\<lparr>inlines := f (inlines b)\<rparr>)) p"

definition pres_ends_nl :: "string \<Rightarrow> bool" where
  "pres_ends_nl s \<longleftrightarrow> s \<noteq> [] \<and> last s = CHR 0x0A"

definition typed_text :: "string \<Rightarrow> string \<Rightarrow> string" where
  "typed_text prev innerText =
     (if pres_ends_nl innerText \<and> \<not> pres_ends_nl prev then butlast innerText else innerText)"

text \<open>The two edits of a difference, each with its operation.\<close>

definition apply_typed_diff :: "string \<Rightarrow> string \<Rightarrow> text_diff \<Rightarrow> pres \<Rightarrow> pres" where
  "apply_typed_diff key bid d p =
     (let p1 = (if d_deletedEnd d > d_start d
                then sendFrameOp key (Delete_range bid (int (d_start d)) (int (d_deletedEnd d)))
                  (set_inlines key bid (\<lambda>xs. rt_deleteRangePreserving xs (int (d_start d)) (int (d_deletedEnd d))) p)
                else p)
      in if d_inserted d \<noteq> []
         then sendFrameOp key (Insert_text bid (int (d_start d)) (d_inserted d)
                (map_option (\<lambda>m. rt_spanFromMarks [] m empty_patch) (pr_typingMarks p1)))
                (set_inlines key bid (\<lambda>xs. rt_insertTextPreserving xs (int (d_start d)) (d_inserted d) (pr_typingMarks p1)) p1)
         else p1)"

definition onPresBlockInput :: "(string \<Rightarrow> string) \<Rightarrow> string \<Rightarrow> string \<Rightarrow> string \<Rightarrow> pres \<Rightarrow> pres" where
  "onPresBlockInput u key bid innerText p =
     (case currentSlide p of None \<Rightarrow> p
      | Some _ \<Rightarrow>
        (let p0 = open_frame u p in
         case find_block bid (cur_frame key p0) of None \<Rightarrow> p0
         | Some b \<Rightarrow>
           (let prev = rt_blockText b; nxt = typed_text prev innerText in
            if prev = nxt then p0
            else scheduleSave (apply_typed_diff key bid (rt_diffText prev nxt) (pres_pushUndo p0)))))"

text \<open>The listener of the frame's element, which runs after the block's own.\<close>

definition frame_input :: "(string \<Rightarrow> string) \<Rightarrow> string \<Rightarrow> pres \<Rightarrow> pres" where
  "frame_input u key p =
     (let p1 = flushEditorToModel u p
      in scheduleSave (if key = ''title'' then renderFilmstrip u p1 else p1))"

section \<open>Enter and Backspace\<close>

text \<open>The selection offsets in the block, or its end when there is no selection in it.\<close>

definition offsets_or_end :: "(nat \<times> nat) option \<Rightarrow> block \<Rightarrow> nat \<times> nat" where
  "offsets_or_end sel b =
     (case sel of Some o' \<Rightarrow> o' | None \<Rightarrow> (length (rt_blockText b), length (rt_blockText b)))"

definition split_frame :: "string \<Rightarrow> nat \<Rightarrow> string \<Rightarrow> block list \<Rightarrow> block list" where
  "split_frame bid off nid bs =
     (case block_index bid bs of None \<Rightarrow> bs
      | Some idx \<Rightarrow>
        (let b = bs ! idx;
             parts = rt_splitInlinesAt (inlines b) (int off);
             b' = b\<lparr>inlines := (if fst parts \<noteq> [] then fst parts else [rt_spanFromMarks [] no_marks empty_patch])\<rparr>;
             neu = rt_copyBlockShell b' nid (snd parts)
         in splice_ins (idx + 1) neu (bs[idx := b'])))"

definition press_enter :: "(string \<Rightarrow> string) \<Rightarrow> string \<Rightarrow> string \<Rightarrow> (nat \<times> nat) option \<Rightarrow> block \<Rightarrow> pres \<Rightarrow> pres" where
  "press_enter u key bid sel b p =
     (let offs = offsets_or_end sel b;
          nid = newId ''b'' (u ''block'');
          p1 = upd_cur_frame key (split_frame bid (fst offs) nid) (pres_pushUndo p);
          p2 = sendFrameOp key (Split_block bid (int (fst offs)) nid) p1
      in scheduleSave (pr_emit (P_focus key nid 0) (renderStage u p2)))"

definition press_shift_enter :: "string \<Rightarrow> string \<Rightarrow> (nat \<times> nat) option \<Rightarrow> block \<Rightarrow> pres \<Rightarrow> pres" where
  "press_shift_enter key bid sel b p =
     (let offs = offsets_or_end sel b; s = int (fst offs); e = int (snd offs);
          p0 = pres_pushUndo p;
          p1 = (if e > s then sendFrameOp key (Delete_range bid s e)
                  (set_inlines key bid (\<lambda>xs. rt_deleteRangePreserving xs s e) p0) else p0);
          p2 = set_inlines key bid (\<lambda>xs. rt_insertTextPreserving xs s [CHR 0x0A] (pr_typingMarks p1)) p1;
          p3 = sendFrameOp key (Insert_text bid s [CHR 0x0A] None) p2
      in scheduleSave (pr_emit (P_paint bid (case find_block bid (cur_frame key p3) of None \<Rightarrow> [] | Some b' \<Rightarrow> rt_renderInlineHtml b')) p3))"

definition merge_frame :: "nat \<Rightarrow> block list \<Rightarrow> block list" where
  "merge_frame idx bs =
     splice_del idx (bs[idx - 1 := (bs ! (idx - 1))\<lparr>inlines :=
       rt_coalesceInlines (inlines (bs ! (idx - 1)) @ inlines (bs ! idx))\<rparr>])"

definition press_backspace :: "(string \<Rightarrow> string) \<Rightarrow> string \<Rightarrow> string \<Rightarrow> (nat \<times> nat) option \<Rightarrow> pres \<Rightarrow> pres" where
  "press_backspace u key bid sel p =
     (if sel \<noteq> Some (0, 0) then p
      else (case block_index bid (cur_frame key p) of
              None \<Rightarrow> p
            | Some idx \<Rightarrow>
                if idx = 0 then p
                else (let p0 = pres_pushUndo p;
                          prevB = cur_frame key p0 ! (idx - 1);
                          mergeAt = length (rt_blockText prevB);
                          p1 = upd_cur_frame key (merge_frame idx) p0;
                          p2 = sendFrameOp key (Merge_blocks bid True) p1
                      in scheduleSave (pr_emit (P_focus key (b_id prevB) mergeAt) (renderStage u p2)))))"

definition onPresBlockKeydown ::
  "(string \<Rightarrow> string) \<Rightarrow> string \<Rightarrow> bool \<Rightarrow> string \<Rightarrow> string \<Rightarrow> (nat \<times> nat) option \<Rightarrow> pres \<Rightarrow> pres" where
  "onPresBlockKeydown u k shift key bid sel p =
     (case currentSlide p of None \<Rightarrow> p
      | Some _ \<Rightarrow>
        (let p0 = open_frame u p in
         case find_block bid (cur_frame key p0) of None \<Rightarrow> p0
         | Some b \<Rightarrow>
             if k = ''Enter'' \<and> \<not> shift then press_enter u key bid sel b p0
             else if k = ''Enter'' then press_shift_enter key bid sel b p0
             else if k = ''Backspace'' then press_backspace u key bid sel p0
             else p0))"

section \<open>Marks and alignment\<close>

definition activeBlockContext :: "(string \<Rightarrow> string) \<Rightarrow> pres \<Rightarrow> (string \<times> block) option \<times> pres" where
  "activeBlockContext u p =
     (case currentSlide p of None \<Rightarrow> (None, p)
      | Some _ \<Rightarrow>
        (let p0 = open_frame u p;
             key = or_default (Some (activeFrameKey p)) ''title'';
             bs = cur_frame key p0
         in (case (case activeBlockId p of None \<Rightarrow> None | Some i \<Rightarrow> find_block i bs) of
               Some b \<Rightarrow> (Some (key, b), p0)
             | None \<Rightarrow> (case bs of b # _ \<Rightarrow> (Some (key, b), p0) | [] \<Rightarrow> (None, p0)))))"

definition pres_selection_range :: "(nat \<times> nat) option \<Rightarrow> (nat \<times> nat) option" where
  "pres_selection_range sel =
     (case sel of Some (s, e) \<Rightarrow> if e > s then Some (s, e) else None | None \<Rightarrow> None)"

definition patch_typing :: "mark_patch \<Rightarrow> pres \<Rightarrow> pres" where
  "patch_typing patch p =
     p\<lparr>pr_typingMarks := Some (assign_marks (case pr_typingMarks p of None \<Rightarrow> no_marks | Some m \<Rightarrow> m) patch)\<rparr>"

text \<open>The common end of the mark commands: local edit, repaint, operation, save.\<close>

definition mark_range :: "string \<Rightarrow> block \<Rightarrow> nat \<times> nat \<Rightarrow> mark_patch \<Rightarrow> marks_op \<Rightarrow> pres \<Rightarrow> pres" where
  "mark_range key b r patch mop p =
     (let s = int (fst r); e = int (snd r);
          p1 = set_inlines key (b_id b) (\<lambda>xs. rt_applyMarksRangeLocal xs s e patch) (pres_pushUndo p);
          p2 = pr_emit (P_paint (b_id b) (rt_renderInlineHtml
                 (b\<lparr>inlines := rt_applyMarksRangeLocal (inlines b) s e patch\<rparr>))) p1
      in scheduleSave (sendFrameOp key (Set_marks_range (b_id b) s e mop) p2))"

fun all_bold :: "nat \<Rightarrow> nat \<times> nat \<Rightarrow> span list \<Rightarrow> bool" where
  "all_bold acc r [] \<longleftrightarrow> True"
| "all_bold acc r (s # xs) \<longleftrightarrow>
     (let b = acc + length (sp_text s)
      in (b \<le> fst r \<or> acc \<ge> snd r \<or> bold s) \<and> all_bold b r xs)"

definition on_off :: "bool \<Rightarrow> string" where
  "on_off v = (if v then ''on'' else ''off'')"

definition toggleBoldFormat :: "(string \<Rightarrow> string) \<Rightarrow> (nat \<times> nat) option \<Rightarrow> pres \<Rightarrow> pres" where
  "toggleBoldFormat u sel p =
     (case activeBlockContext u p of
        (None, p0) \<Rightarrow> pres_status ''Select text in a slide'' True p0
      | (Some (key, b), p0) \<Rightarrow>
          (case pres_selection_range sel of
             None \<Rightarrow>
               (let v = \<not> (case pr_typingMarks p0 of None \<Rightarrow> False | Some m \<Rightarrow> bold m)
                in pres_status (''Bold '' @ on_off v @ '' (typing)'') False
                     (patch_typing (empty_patch\<lparr>p_bold := Some v\<rparr>) p0))
           | Some r \<Rightarrow>
               (let v = \<not> all_bold 0 r (inlines b)
                in pres_status (''Bold '' @ on_off v) False
                     (mark_range key b r (empty_patch\<lparr>p_bold := Some v\<rparr>) (no_marks_op\<lparr>mo_bold := Some v\<rparr>) p0))))"

definition setAlignFormat :: "(string \<Rightarrow> string) \<Rightarrow> string \<Rightarrow> pres \<Rightarrow> pres" where
  "setAlignFormat u al p =
     (case activeBlockContext u p of
        (None, p0) \<Rightarrow> p0
      | (Some (key, b), p0) \<Rightarrow>
          scheduleSave (sendFrameOp key (Set_block_format (b_id b) (no_format_op\<lparr>fo_align := Some al\<rparr>))
            (upd_cur_frame key (upd_block (b_id b) (\<lambda>b. b\<lparr>align := Some al\<rparr>)) (pres_pushUndo p0))))"

text \<open>\<open>inlines.reduce((acc, sp) => sp.font_size_pt || acc, 0)\<close>.\<close>

definition last_size :: "span list \<Rightarrow> int" where
  "last_size xs = foldl (\<lambda>acc s. if or_zero (font_size_pt s) \<noteq> 0 then or_zero (font_size_pt s) else acc) 0 xs"

definition font_base :: "string \<Rightarrow> (nat \<times> nat) option \<Rightarrow> span list \<Rightarrow> marks option \<Rightarrow> int" where
  "font_base key r spans typing =
     (let a = (if r \<noteq> None then last_size spans else 0);
          b = (case typing of None \<Rightarrow> 0 | Some m \<Rightarrow> or_zero (font_size_pt m))
      in if a \<noteq> 0 then a else if b \<noteq> 0 then b else if key = ''title'' then 28 else 14)"

text \<open>The two ways a font size takes effect: on the selection or on what is typed next.\<close>

definition set_size :: "string \<Rightarrow> block \<Rightarrow> (nat \<times> nat) option \<Rightarrow> int \<Rightarrow> pres \<Rightarrow> pres" where
  "set_size key b r n p =
     (case r of
        None \<Rightarrow> pres_status (''Font '' @ int_str n @ ''pt (typing)'') False
                  (patch_typing (empty_patch\<lparr>p_font_size_pt := Some (Some n)\<rparr>) p)
      | Some r \<Rightarrow> pres_status (''Font '' @ int_str n @ ''pt'') False
                  (mark_range key b r (empty_patch\<lparr>p_font_size_pt := Some (Some n)\<rparr>)
                    (no_marks_op\<lparr>mo_font_size_pt := Some n\<rparr>) p))"

definition stepFont :: "(string \<Rightarrow> string) \<Rightarrow> (nat \<times> nat) option \<Rightarrow> int \<Rightarrow> pres \<Rightarrow> pres" where
  "stepFont u sel delta p =
     (case activeBlockContext u p of
        (None, p0) \<Rightarrow> p0
      | (Some (key, b), p0) \<Rightarrow>
          (let r = pres_selection_range sel;
               cur = font_base key r (inlines b) (pr_typingMarks p0)
           in set_size key b r (max 10 (min 72 (cur + delta))) p0))"

text \<open>The size selector; \<open>n\<close> is its parsed value, \<open>None\<close> when it is not a number.\<close>

definition size_selected :: "(string \<Rightarrow> string) \<Rightarrow> (nat \<times> nat) option \<Rightarrow> int option \<Rightarrow> pres \<Rightarrow> pres" where
  "size_selected u sel n p =
     (if or_zero n = 0 then p
      else (case activeBlockContext u p of
              (None, p0) \<Rightarrow> p0
            | (Some (key, b), p0) \<Rightarrow> set_size key b (pres_selection_range sel) (or_zero n) p0))"

definition setSlideFontFamily :: "(string \<Rightarrow> string) \<Rightarrow> (nat \<times> nat) option \<Rightarrow> string \<Rightarrow> pres \<Rightarrow> pres" where
  "setSlideFontFamily u sel fam p =
     (case activeBlockContext u p of
        (None, p0) \<Rightarrow> p0
      | (Some (key, b), p0) \<Rightarrow>
          if fam = [] then p0
          else (case pres_selection_range sel of
             None \<Rightarrow> pres_status (''Font '' @ fam @ '' (typing)'') False
                       (patch_typing (empty_patch\<lparr>p_font_family := Some (Some fam)\<rparr>) p0)
           | Some r \<Rightarrow> pres_status (''Font '' @ fam) False
                       (mark_range key b r (empty_patch\<lparr>p_font_family := Some (Some fam)\<rparr>)
                         (no_marks_op\<lparr>mo_font_family := Some fam\<rparr>) p0)))"

section \<open>Slides\<close>

definition new_slide :: "(string \<Rightarrow> string) \<Rightarrow> deck \<Rightarrow> slide" where
  "new_slide u d =
     \<lparr> sl_id = u ''slide'', sl_title = None, sl_body = None, sl_body2 = None,
       title_frame = Some (emptyFrame (or_default (Some (js_trim (or_empty (master_title_placeholder d)))) ''New slide'') (u ''title'')),
       body_frame = Some (emptyFrame (js_trim (or_empty (master_body_placeholder d))) (u ''body'')),
       body2_frame = Some (emptyFrame [] (u ''body2'')),
       sl_legacy = [], sl_layout = Some (or_default (default_layout d) ''title_body''),
       sl_notes = Some [], sl_background = None, sl_image_url = None,
       sl_transition = None, sl_animation = None \<rparr>"

definition addSlide :: "(string \<Rightarrow> string) \<Rightarrow> pres \<Rightarrow> pres" where
  "addSlide u p =
     (if deckId p = None then pres_status ''Open a deck first'' True p
      else (let p1 = flushEditorToModel u (pres_pushUndo p);
                p2 = map_slides (\<lambda>ss. ss @ [new_slide u (deck p1)]) p1;
                p3 = p2\<lparr>slideIndex := length (pr_slides p2) - 1\<rparr>
            in pres_status ''Slide added'' False (scheduleSave (renderAll u p3))))"

definition duplicateSlide :: "(string \<Rightarrow> string) \<Rightarrow> pres \<Rightarrow> pres" where
  "duplicateSlide u p =
     (if deckId p = None then pres_status ''Open a deck first'' True p
      else (case currentSlide p of None \<Rightarrow> p
            | Some _ \<Rightarrow>
              (let p1 = upd_slide (ensureSlideFrames u) (flushEditorToModel u (pres_pushUndo p));
                   s = pr_slides p1 ! slideIndex p1;
                   t = or_default (Some (slidePlainTitle s)) ''Slide'';
                   copy = s\<lparr>sl_id := u ''slide'', title_frame := Some (emptyFrame (t @ '' (copy)'') (u ''title''))\<rparr>;
                   p2 = (map_slides (splice_ins (slideIndex p1 + 1) copy) p1)\<lparr>slideIndex := slideIndex p1 + 1\<rparr>
               in pres_status ''Slide duplicated'' False (scheduleSave (renderAll u p2)))))"

definition deleteSlide :: "(string \<Rightarrow> string) \<Rightarrow> pres \<Rightarrow> pres" where
  "deleteSlide u p =
     (if deckId p = None \<or> length (pr_slides p) < 2 then pres_status ''Need at least one slide'' True p
      else (let p1 = map_slides (splice_del (slideIndex p)) (pres_pushUndo p);
                p2 = (if slideIndex p1 \<ge> length (pr_slides p1)
                      then p1\<lparr>slideIndex := length (pr_slides p1) - 1\<rparr> else p1)
            in scheduleSave (renderAll u p2)))"

definition motion_classes :: "slide \<Rightarrow> string list" where
  "motion_classes s =
     (let tr = or_empty (sl_transition s); an = or_empty (sl_animation s)
      in (if tr = ''fade'' then [''era-tr-fade''] else if tr = ''push'' then [''era-tr-push'']
          else if tr = ''wipe'' then [''era-tr-wipe''] else if tr = ''morph'' then [''era-tr-morph''] else [])
         @ (if an = ''appear'' then [''era-anim-appear''] else []))"

definition present_slide :: "pres \<Rightarrow> slide \<Rightarrow> present_view" where
  "present_slide p s =
     (let two = (or_empty (sl_layout s) = ''two_column'')
      in \<lparr> pv_title = slidePlainTitle s, pv_body = framePlain (blocks_of (body_frame s)),
           pv_body2 = (if two then framePlain (blocks_of (body2_frame s)) else []), pv_two_col = two,
           pv_notes = or_empty (sl_notes s), pv_background = slide_bg p (Some s),
           pv_image = or_undefined (sl_image_url s), pv_classes = motion_classes s \<rparr>)"

definition renderPresentSlide :: "(string \<Rightarrow> string) \<Rightarrow> pres \<Rightarrow> pres" where
  "renderPresentSlide u p =
     (case currentSlide p of None \<Rightarrow> p
      | Some s \<Rightarrow> pr_emit (P_present (present_slide p (ensureSlideFrames u s))) (open_frame u p))"

definition goSlide :: "(string \<Rightarrow> string) \<Rightarrow> int \<Rightarrow> pres \<Rightarrow> pres" where
  "goSlide u delta p =
     (let p1 = flushEditorToModel u p; nxt = int (slideIndex p1) + delta
      in if nxt < 0 \<or> nxt \<ge> int (length (pr_slides p1)) then p1
         else (let p2 = renderAll u (p1\<lparr>slideIndex := nat nxt\<rparr>)
               in if presenting p2 then renderPresentSlide u p2 else p2))"

definition moveSlide :: "(string \<Rightarrow> string) \<Rightarrow> int \<Rightarrow> pres \<Rightarrow> pres" where
  "moveSlide u delta p =
     (if deckId p = None \<or> length (pr_slides p) < 2 then p
      else (let p1 = flushEditorToModel u (pres_pushUndo p); target = int (slideIndex p1) + delta
            in if target < 0 \<or> target \<ge> int (length (pr_slides p1)) then p1
               else (let i = slideIndex p1; j = nat target;
                         p2 = (map_slides (\<lambda>ss. ss[i := ss ! j, j := ss ! i]) p1)\<lparr>slideIndex := j\<rparr>
                     in pres_status (if delta < 0 then ''Slide moved up'' else ''Slide moved down'') False
                          (scheduleSave (renderAll u p2)))))"

text \<open>A click on an item of the filmstrip or of the notes rail.\<close>

definition click_slide :: "(string \<Rightarrow> string) \<Rightarrow> nat \<Rightarrow> pres \<Rightarrow> pres" where
  "click_slide u i p = renderAll u ((flushEditorToModel u p)\<lparr>slideIndex := i\<rparr>)"

text \<open>
  A drop on item \<open>to\<close>; \<open>from\<close> is the parsed drag data, any number, since text from elsewhere can
  be dropped too. \<open>splice\<close> counts a negative number from the end. \<open>None\<close> is the outcome in which
  it removed nothing, so that an undefined entry is inserted into the array and the drawing throws.
\<close>

definition splice_start :: "nat \<Rightarrow> int \<Rightarrow> nat" where
  "splice_start len k = (if k < 0 then nat (int len + k) else min (nat k) len)"

definition drop_slide :: "(string \<Rightarrow> string) \<Rightarrow> int option \<Rightarrow> nat \<Rightarrow> pres \<Rightarrow> pres option" where
  "drop_slide u from to p =
     (case from of None \<Rightarrow> Some p
      | Some k \<Rightarrow>
          if k = int to then Some p
          else (let p1 = flushEditorToModel u (pres_pushUndo p); f = splice_start (length (pr_slides p1)) k in
                if f \<ge> length (pr_slides p1) then None
                else (let item = pr_slides p1 ! f;
                          p2 = (map_slides (\<lambda>ss. splice_ins to item (splice_del f ss)) p1)\<lparr>slideIndex := to\<rparr>
                      in Some (pres_status ''Slide reordered'' False (scheduleSave (renderAll u p2))))))"

section \<open>Deck and slide properties\<close>

definition applyMasterDlg :: "(string \<Rightarrow> string) \<Rightarrow> string \<Rightarrow> string \<Rightarrow> string \<Rightarrow> string \<Rightarrow> pres \<Rightarrow> pres" where
  "applyMasterDlg u bg lay titlePh bodyPh p =
     (let p1 = flushEditorToModel u (pres_pushUndo p);
          p2 = map_deck (\<lambda>d. d\<lparr>theme_background := or_undefined (Some (js_trim bg)),
                 default_layout := Some (or_default (Some lay) ''title_body''),
                 master_title_placeholder := or_undefined (Some (js_trim titlePh)),
                 master_body_placeholder := or_undefined (Some (js_trim bodyPh))\<rparr>) p1
      in pres_status ''Master applied'' False (scheduleSave (renderAll u (applyBackground p2))))"

definition applyBackgroundFromDialog :: "string \<Rightarrow> string \<Rightarrow> bool \<Rightarrow> pres \<Rightarrow> pres" where
  "applyBackgroundFromDialog css colour whole p =
     (let v = (if js_trim css \<noteq> [] then js_trim css else colour);
          p1 = pres_pushUndo p;
          p2 = (if whole then map_deck (\<lambda>d. d\<lparr>theme_background := or_undefined (Some v)\<rparr>) p1
                else (case currentSlide p1 of None \<Rightarrow> p1
                      | Some _ \<Rightarrow> upd_slide (\<lambda>s. s\<lparr>sl_background := or_undefined (Some v)\<rparr>) p1))
      in pres_status ''Background applied'' False (scheduleSave (applyBackground p2)))"

text \<open>A click on a card of the layout dialog and of the theme panel.\<close>

definition pick_layout :: "string \<Rightarrow> string \<Rightarrow> pres \<Rightarrow> pres" where
  "pick_layout lid label p =
     (case currentSlide p of None \<Rightarrow> p
      | Some _ \<Rightarrow>
          (let p1 = (upd_slide (\<lambda>s. s\<lparr>sl_layout := Some lid\<rparr>) (pres_pushUndo p))\<lparr>layoutSelect := select_value lid\<rparr>
           in pres_status (''Layout: '' @ label) False (scheduleSave (applyLayoutClass (Some lid) p1))))"

definition pick_theme :: "string \<Rightarrow> string \<Rightarrow> pres \<Rightarrow> pres" where
  "pick_theme val label p =
     pres_status (''Theme: '' @ label) False (scheduleSave (applyBackground
       (map_deck (\<lambda>d. d\<lparr>theme_background := Some val\<rparr>) (pres_pushUndo p))))"

text \<open>The user picks option \<open>v\<close> of the layout selector.\<close>

definition layout_changed :: "string \<Rightarrow> pres \<Rightarrow> pres" where
  "layout_changed v p =
     (let p0 = p\<lparr>layoutSelect := v\<rparr> in
      case currentSlide p0 of None \<Rightarrow> p0
      | Some _ \<Rightarrow> scheduleSave (applyLayoutClass (Some v)
          (upd_slide (\<lambda>s. s\<lparr>sl_layout := Some v\<rparr>) (pres_pushUndo p0))))"

definition applyMotionToSlide :: "(string \<Rightarrow> string) \<Rightarrow> string \<Rightarrow> string \<Rightarrow> bool \<Rightarrow> pres \<Rightarrow> pres" where
  "applyMotionToSlide u trSel anSel every p =
     (let tr = or_default (Some trSel) ''none''; an = or_default (Some anSel) ''none'';
          f = (\<lambda>s. s\<lparr>sl_transition := Some (if tr = ''none'' then [] else tr),
                     sl_animation := Some (if an = ''none'' then [] else an)\<rparr>)
      in if pr_slides p = [] then pres_status ''Open a deck first'' True p
         else (let p1 = flushEditorToModel u (pres_pushUndo p);
                   p2 = (if every then map_slides (map f) p1
                         else (case currentSlide p1 of None \<Rightarrow> p1 | Some _ \<Rightarrow> upd_slide f p1))
               in pres_status (if every then ''Motion applied to all slides'' else ''Motion applied to this slide'') False
                    (scheduleSave p2)))"

text \<open>
  \<open>insertSlideImage\<close> with the answers of its dialogs: the chosen source, the object picked
  in Drive (\<open>Some None\<close> for the entry that asks for a URL instead) and the typed URL.
\<close>

definition set_image :: "string option \<Rightarrow> string \<Rightarrow> pres \<Rightarrow> pres" where
  "set_image url msg p =
     pres_status msg False (scheduleSave (syncSlideImage
       (upd_slide (\<lambda>s. s\<lparr>sl_image_url := url\<rparr>) (pres_pushUndo p))))"

definition insertSlideImage ::
  "string option \<Rightarrow> string option option \<Rightarrow> string option \<Rightarrow> pres \<Rightarrow> pres" where
  "insertSlideImage mode picked typed p =
     (case currentSlide p of None \<Rightarrow> pres_status ''Open a deck first'' True p
      | Some _ \<Rightarrow>
        (case mode of None \<Rightarrow> p
         | Some m \<Rightarrow>
             if m = ''clear'' then set_image None ''Image cleared'' p
             else if m = ''drive''
             then (case picked of None \<Rightarrow> p
                   | Some url \<Rightarrow>
                       if \<not> truthy_str url
                       then (if js_trim (or_empty typed) = [] then p
                             else set_image (Some (js_trim (or_empty typed))) ''Image inserted'' p)
                       else set_image url ''Image inserted'' p)
             else (case typed of None \<Rightarrow> p
                   | Some t \<Rightarrow> if js_trim t = [] then set_image None ''Image cleared'' p
                                else set_image (Some (js_trim t)) ''Image inserted'' p)))"

section \<open>Notes, comments, name\<close>

definition notes_typed :: "string \<Rightarrow> pres \<Rightarrow> pres" where
  "notes_typed v p =
     (let p0 = p\<lparr>speakerNotes := v\<rparr> in
      case currentSlide p0 of None \<Rightarrow> p0
      | Some _ \<Rightarrow> scheduleSave (upd_slide (\<lambda>s. s\<lparr>sl_notes := Some v\<rparr>) (pushUndoDebounced p0)))"

text \<open>\<open>mark\<close> is the speech-balloon sign and the blank the source puts before a comment.\<close>

definition comment_notes :: "string \<Rightarrow> string option \<Rightarrow> string \<Rightarrow> string" where
  "comment_notes mark notes n =
     js_trim (or_empty notes @ (if or_empty notes \<noteq> [] then [CHR 0x0A] else []) @ mark @ js_trim n)"

definition comment_slide :: "string \<Rightarrow> string option \<Rightarrow> pres \<Rightarrow> pres" where
  "comment_slide mark answer p =
     (if js_trim (or_empty answer) = [] then p
      else (case currentSlide p of None \<Rightarrow> p
            | Some s \<Rightarrow>
              (let v = comment_notes mark (sl_notes s) (or_empty answer);
                   p1 = (upd_slide (\<lambda>s. s\<lparr>sl_notes := Some v\<rparr>) (pres_pushUndo p))\<lparr>speakerNotes := v\<rparr>
               in pres_status ''Comment added to speaker notes'' False (scheduleSave p1))))"

definition title_changed :: "string \<Rightarrow> pres \<Rightarrow> pres" where
  "title_changed v p =
     (if deckId p = None then p
      else (let nm = or_default (Some (js_trim v)) ''Untitled deck''
            in scheduleSave (pr_emit (P_meta (''Deck: '' @ nm)) (map_deck (\<lambda>d. d\<lparr>dk_name := Some nm\<rparr>) p))))"

section \<open>Search\<close>

definition slide_hay :: "slide \<Rightarrow> string" where
  "slide_hay s =
     to_lower (slidePlainTitle s @ '' '' @ framePlain (blocks_of (body_frame s)) @ '' ''
       @ framePlain (blocks_of (body2_frame s)) @ '' '' @ or_empty (sl_notes s))"

text \<open>The loop \<open>for (step = 1; step <= n; step++)\<close>, with the number of steps left.\<close>

fun find_slide_loop :: "string \<Rightarrow> slide list \<Rightarrow> int \<Rightarrow> nat \<Rightarrow> nat \<Rightarrow> nat option" where
  "find_slide_loop q ss cursor stp 0 = None"
| "find_slide_loop q ss cursor stp (Suc k) =
     (let i = nat ((cursor + int stp) mod int (length ss))
      in if str_includes q (slide_hay (ss ! i)) then Some i
         else find_slide_loop q ss cursor (stp + 1) k)"

definition findNextSlide :: "(string \<Rightarrow> string) \<Rightarrow> string \<Rightarrow> pres \<Rightarrow> pres" where
  "findNextSlide u input p =
     (let q = to_lower (js_trim input) in
      if q = [] then p
      else if pr_slides p = [] then pres_status ''No slides to search'' True p
      else (let p1 = map_slides (map (ensureSlideFrames u)) (flushEditorToModel u p) in
            case find_slide_loop q (pr_slides p1) (findSlideCursor p1) 1 (length (pr_slides p1)) of
              Some i \<Rightarrow> pres_status (''Found on slide '' @ nat_str (i + 1)) False
                          (renderAll u (p1\<lparr>findSlideCursor := int i, slideIndex := i\<rparr>))
            | None \<Rightarrow> pres_status ''No matches'' True p1))"

section \<open>The show, printing, the keyboard\<close>

definition startPresent :: "(string \<Rightarrow> string) \<Rightarrow> pres \<Rightarrow> pres" where
  "startPresent u p =
     (if deckId p = None \<or> pr_slides p = [] then pres_status ''Open a deck first'' True p
      else renderPresentSlide u ((flushEditorToModel u p)\<lparr>presenting := True\<rparr>))"

definition stopPresent :: "pres \<Rightarrow> pres" where
  "stopPresent p = p\<lparr>presenting := False\<rparr>"

text \<open>A printed page: background, heading, texts, image, notes.\<close>

record print_page =
  pp_background :: string
  pp_heading :: string
  pp_bodies :: "string list"
  pp_image :: "string option"
  pp_notes :: "string option"

definition page_of_slide :: "pres \<Rightarrow> nat \<Rightarrow> slide \<Rightarrow> print_page" where
  "page_of_slide p i s =
     \<lparr> pp_background = slide_bg p (Some s),
       pp_heading = or_default (Some (slidePlainTitle s)) (''Slide '' @ nat_str (i + 1)),
       pp_bodies = framePlain (blocks_of (body_frame s)) #
         (if or_empty (sl_layout s) = ''two_column'' then [framePlain (blocks_of (body2_frame s))] else []),
       pp_image = or_undefined (sl_image_url s),
       pp_notes = (if js_trim (or_empty (sl_notes s)) \<noteq> [] then Some (''Notes: '' @ or_empty (sl_notes s)) else None) \<rparr>"

definition buildPrintRoot :: "(string \<Rightarrow> string) \<Rightarrow> pres \<Rightarrow> print_page list \<times> pres" where
  "buildPrintRoot u p =
     (let p1 = map_slides (map (ensureSlideFrames u)) (flushEditorToModel u p)
      in (map (\<lambda>(i, s). page_of_slide p1 i s) (enumerate 0 (pr_slides p1)), p1))"

definition printSetup :: "(string \<Rightarrow> string) \<Rightarrow> pres \<Rightarrow> print_page list \<times> pres" where
  "printSetup u p =
     (if deckId p = None \<or> pr_slides p = [] then ([], pres_status ''Open a deck first'' True p)
      else (let (pages, p1) = buildPrintRoot u p
            in (pages, pres_status (''Print: '' @ nat_str (length (pr_slides p1)) @ '' slide(s), one per page'') False p1)))"

text \<open>The items of the notes rail: the slides with notes, numbered from one.\<close>

definition renderSlideNotesRail :: "slide list \<Rightarrow> (nat \<times> string) list" where
  "renderSlideNotesRail ss =
     map (\<lambda>(i, s). (i + 1, replace_char CHR ''<'' ''&lt;'' (replace_char CHR ''&'' ''&amp;'' (or_empty (sl_notes s)))))
       (filter (\<lambda>(i, s). js_trim (or_empty (sl_notes s)) \<noteq> []) (enumerate 0 ss))"

record pres_key =
  pk_key :: string
  pk_ctrl :: bool
  pk_shift :: bool
  pk_alt :: bool
  pk_editing :: bool

text \<open>\<open>pk_editing\<close>: the target is an \<open>INPUT\<close> or content-editable; \<open>pk_ctrl\<close>: Ctrl or Meta.\<close>

definition pres_keydown :: "(string \<Rightarrow> string) \<Rightarrow> pres_key \<Rightarrow> pres \<Rightarrow> pres" where
  "pres_keydown u e p =
     (if presenting p \<and> pk_key e = ''Escape'' then stopPresent p
      else if presenting p \<and> pk_key e \<in> {''ArrowRight'', ''ArrowDown'', '' '', ''PageDown''} then goSlide u 1 p
      else if presenting p \<and> pk_key e \<in> {''ArrowLeft'', ''ArrowUp'', ''PageUp''} then goSlide u (-1) p
      else if deckId p = None then p
      else if pk_ctrl e \<and> to_lower (pk_key e) = ''z'' \<and> \<not> pk_shift e then pres_undoEdit u p
      else if pk_ctrl e \<and> (to_lower (pk_key e) = ''y'' \<or> to_lower (pk_key e) = ''z'' \<and> pk_shift e) then pres_redoEdit u p
      else if pk_editing e \<and> \<not> pk_alt e then p
      else if pk_alt e \<and> pk_key e = ''ArrowRight'' then goSlide u 1 p
      else if pk_alt e \<and> pk_key e = ''ArrowLeft'' then goSlide u (-1) p
      else p)"

definition pathDeckId :: "string \<Rightarrow> string option" where
  "pathDeckId pathname =
     (let path = (if pathname \<noteq> [] \<and> last pathname = CHR ''/'' then butlast pathname else pathname);
          i = last (split_char CHR ''/'' path)
      in if i \<noteq> [] \<and> i \<noteq> ''presentations'' then Some i else None)"

end
