(* ===== verification/Pres_Laws.thy ===== *)
theory Pres_Laws
  imports Pres_Edit Era_History "HOL-Library.Multiset"
begin

text \<open>
  Laws of the presentations client: the frame lemmas of its primitives, the well-formed decks
  that every command keeps, the agreement of the notes field and the layout selector with the
  current slide, undo and redo, typing, the version of the deck, search and moving slides.
\<close>

section \<open>Frame lemmas\<close>

lemmas pr_prims =
  pr_emit_def pres_status_def scheduleSave_def sendFrameOp_def applyBackground_def applyLayoutClass_def
  syncSlideImage_def pres_pushUndo_def map_deck_def map_slides_def upd_slide_def pushUndoDebounced_def
  patch_typing_def upd_cur_frame_def set_inlines_def open_frame_def renderFilmstrip_def renderStage_def
  renderAll_def flushEditorToModel_def

lemma pr_frame_deckId [simp]:
  "deckId (pr_emit e p) = deckId p" "deckId (pres_status m b p) = deckId p"
  "deckId (scheduleSave p) = deckId p" "deckId (sendFrameOp k oper p) = deckId p"
  "deckId (applyBackground p) = deckId p" "deckId (applyLayoutClass l p) = deckId p"
  "deckId (syncSlideImage p) = deckId p" "deckId (pres_pushUndo p) = deckId p"
  "deckId (map_deck f p) = deckId p" "deckId (map_slides g p) = deckId p"
  "deckId (upd_slide h p) = deckId p" "deckId (pushUndoDebounced p) = deckId p"
  "deckId (patch_typing q p) = deckId p" "deckId (upd_cur_frame k ff p) = deckId p"
  "deckId (set_inlines k bid fi p) = deckId p" "deckId (open_frame u p) = deckId p"
  "deckId (renderFilmstrip u p) = deckId p" "deckId (renderStage u p) = deckId p"
  "deckId (renderAll u p) = deckId p" "deckId (flushEditorToModel u p) = deckId p"
  by (simp_all add: pr_prims Let_def split: option.split)

lemma pr_frame_deck [simp]:
  "deck (pr_emit e p) = deck p" "deck (pres_status m b p) = deck p"
  "deck (scheduleSave p) = deck p" "deck (sendFrameOp k oper p) = deck p"
  "deck (applyBackground p) = deck p" "deck (applyLayoutClass l p) = deck p"
  "deck (syncSlideImage p) = deck p" "deck (pres_pushUndo p) = deck p"
  "deck (pushUndoDebounced p) = deck p" "deck (patch_typing q p) = deck p"
  by (simp_all add: pr_prims Let_def split: option.split)

lemma pr_frame_slideIndex [simp]:
  "slideIndex (pr_emit e p) = slideIndex p" "slideIndex (pres_status m b p) = slideIndex p"
  "slideIndex (scheduleSave p) = slideIndex p" "slideIndex (sendFrameOp k oper p) = slideIndex p"
  "slideIndex (applyBackground p) = slideIndex p"
  "slideIndex (applyLayoutClass l p) = slideIndex p"
  "slideIndex (syncSlideImage p) = slideIndex p" "slideIndex (pres_pushUndo p) = slideIndex p"
  "slideIndex (map_deck f p) = slideIndex p" "slideIndex (map_slides g p) = slideIndex p"
  "slideIndex (upd_slide h p) = slideIndex p" "slideIndex (pushUndoDebounced p) = slideIndex p"
  "slideIndex (patch_typing q p) = slideIndex p"
  "slideIndex (upd_cur_frame k ff p) = slideIndex p"
  "slideIndex (set_inlines k bid fi p) = slideIndex p"
  "slideIndex (open_frame u p) = slideIndex p" "slideIndex (renderFilmstrip u p) = slideIndex p"
  "slideIndex (renderStage u p) = slideIndex p" "slideIndex (renderAll u p) = slideIndex p"
  "slideIndex (flushEditorToModel u p) = slideIndex p"
  by (simp_all add: pr_prims Let_def split: option.split)

lemma pr_frame_pr_undoStack [simp]:
  "pr_undoStack (pr_emit e p) = pr_undoStack p"
  "pr_undoStack (pres_status m b p) = pr_undoStack p"
  "pr_undoStack (scheduleSave p) = pr_undoStack p"
  "pr_undoStack (sendFrameOp k oper p) = pr_undoStack p"
  "pr_undoStack (applyBackground p) = pr_undoStack p"
  "pr_undoStack (applyLayoutClass l p) = pr_undoStack p"
  "pr_undoStack (syncSlideImage p) = pr_undoStack p"
  "pr_undoStack (map_deck f p) = pr_undoStack p" "pr_undoStack (map_slides g p) = pr_undoStack p"
  "pr_undoStack (upd_slide h p) = pr_undoStack p"
  "pr_undoStack (pushUndoDebounced p) = pr_undoStack p"
  "pr_undoStack (patch_typing q p) = pr_undoStack p"
  "pr_undoStack (upd_cur_frame k ff p) = pr_undoStack p"
  "pr_undoStack (set_inlines k bid fi p) = pr_undoStack p"
  "pr_undoStack (open_frame u p) = pr_undoStack p"
  "pr_undoStack (renderFilmstrip u p) = pr_undoStack p"
  "pr_undoStack (renderStage u p) = pr_undoStack p"
  "pr_undoStack (renderAll u p) = pr_undoStack p"
  "pr_undoStack (flushEditorToModel u p) = pr_undoStack p"
  by (simp_all add: pr_prims Let_def split: option.split)

lemma pr_frame_pr_redoStack [simp]:
  "pr_redoStack (pr_emit e p) = pr_redoStack p"
  "pr_redoStack (pres_status m b p) = pr_redoStack p"
  "pr_redoStack (scheduleSave p) = pr_redoStack p"
  "pr_redoStack (sendFrameOp k oper p) = pr_redoStack p"
  "pr_redoStack (applyBackground p) = pr_redoStack p"
  "pr_redoStack (applyLayoutClass l p) = pr_redoStack p"
  "pr_redoStack (syncSlideImage p) = pr_redoStack p"
  "pr_redoStack (map_deck f p) = pr_redoStack p" "pr_redoStack (map_slides g p) = pr_redoStack p"
  "pr_redoStack (upd_slide h p) = pr_redoStack p"
  "pr_redoStack (pushUndoDebounced p) = pr_redoStack p"
  "pr_redoStack (patch_typing q p) = pr_redoStack p"
  "pr_redoStack (upd_cur_frame k ff p) = pr_redoStack p"
  "pr_redoStack (set_inlines k bid fi p) = pr_redoStack p"
  "pr_redoStack (open_frame u p) = pr_redoStack p"
  "pr_redoStack (renderFilmstrip u p) = pr_redoStack p"
  "pr_redoStack (renderStage u p) = pr_redoStack p"
  "pr_redoStack (renderAll u p) = pr_redoStack p"
  "pr_redoStack (flushEditorToModel u p) = pr_redoStack p"
  by (simp_all add: pr_prims Let_def split: option.split)

lemma pr_frame_pr_typingMarks [simp]:
  "pr_typingMarks (pr_emit e p) = pr_typingMarks p"
  "pr_typingMarks (pres_status m b p) = pr_typingMarks p"
  "pr_typingMarks (scheduleSave p) = pr_typingMarks p"
  "pr_typingMarks (sendFrameOp k oper p) = pr_typingMarks p"
  "pr_typingMarks (applyBackground p) = pr_typingMarks p"
  "pr_typingMarks (applyLayoutClass l p) = pr_typingMarks p"
  "pr_typingMarks (syncSlideImage p) = pr_typingMarks p"
  "pr_typingMarks (pres_pushUndo p) = pr_typingMarks p"
  "pr_typingMarks (map_deck f p) = pr_typingMarks p"
  "pr_typingMarks (map_slides g p) = pr_typingMarks p"
  "pr_typingMarks (upd_slide h p) = pr_typingMarks p"
  "pr_typingMarks (pushUndoDebounced p) = pr_typingMarks p"
  "pr_typingMarks (upd_cur_frame k ff p) = pr_typingMarks p"
  "pr_typingMarks (set_inlines k bid fi p) = pr_typingMarks p"
  "pr_typingMarks (open_frame u p) = pr_typingMarks p"
  "pr_typingMarks (renderFilmstrip u p) = pr_typingMarks p"
  "pr_typingMarks (renderStage u p) = pr_typingMarks p"
  "pr_typingMarks (renderAll u p) = pr_typingMarks p"
  "pr_typingMarks (flushEditorToModel u p) = pr_typingMarks p"
  by (simp_all add: pr_prims Let_def split: option.split)

lemma pr_frame_speakerNotes [simp]:
  "speakerNotes (pr_emit e p) = speakerNotes p"
  "speakerNotes (pres_status m b p) = speakerNotes p"
  "speakerNotes (scheduleSave p) = speakerNotes p"
  "speakerNotes (sendFrameOp k oper p) = speakerNotes p"
  "speakerNotes (applyBackground p) = speakerNotes p"
  "speakerNotes (applyLayoutClass l p) = speakerNotes p"
  "speakerNotes (syncSlideImage p) = speakerNotes p"
  "speakerNotes (pres_pushUndo p) = speakerNotes p" "speakerNotes (map_deck f p) = speakerNotes p"
  "speakerNotes (map_slides g p) = speakerNotes p" "speakerNotes (upd_slide h p) = speakerNotes p"
  "speakerNotes (pushUndoDebounced p) = speakerNotes p"
  "speakerNotes (patch_typing q p) = speakerNotes p"
  "speakerNotes (upd_cur_frame k ff p) = speakerNotes p"
  "speakerNotes (set_inlines k bid fi p) = speakerNotes p"
  "speakerNotes (open_frame u p) = speakerNotes p"
  "speakerNotes (renderFilmstrip u p) = speakerNotes p"
  "speakerNotes (flushEditorToModel u p) = speakerNotes p"
  by (simp_all add: pr_prims Let_def split: option.split)

lemma pr_frame_layoutSelect [simp]:
  "layoutSelect (pr_emit e p) = layoutSelect p"
  "layoutSelect (pres_status m b p) = layoutSelect p"
  "layoutSelect (scheduleSave p) = layoutSelect p"
  "layoutSelect (sendFrameOp k oper p) = layoutSelect p"
  "layoutSelect (applyBackground p) = layoutSelect p"
  "layoutSelect (applyLayoutClass l p) = layoutSelect p"
  "layoutSelect (syncSlideImage p) = layoutSelect p"
  "layoutSelect (pres_pushUndo p) = layoutSelect p" "layoutSelect (map_deck f p) = layoutSelect p"
  "layoutSelect (map_slides g p) = layoutSelect p" "layoutSelect (upd_slide h p) = layoutSelect p"
  "layoutSelect (pushUndoDebounced p) = layoutSelect p"
  "layoutSelect (patch_typing q p) = layoutSelect p"
  "layoutSelect (upd_cur_frame k ff p) = layoutSelect p"
  "layoutSelect (set_inlines k bid fi p) = layoutSelect p"
  "layoutSelect (open_frame u p) = layoutSelect p"
  "layoutSelect (renderFilmstrip u p) = layoutSelect p"
  "layoutSelect (flushEditorToModel u p) = layoutSelect p"
  by (simp_all add: pr_prims Let_def split: option.split)

lemma pr_frame_requests [simp]:
  "requests (pr_emit e p) = requests p" "requests (pres_status m b p) = requests p"
  "requests (scheduleSave p) = requests p" "requests (applyBackground p) = requests p"
  "requests (applyLayoutClass l p) = requests p" "requests (syncSlideImage p) = requests p"
  "requests (pres_pushUndo p) = requests p" "requests (map_deck f p) = requests p"
  "requests (map_slides g p) = requests p" "requests (upd_slide h p) = requests p"
  "requests (pushUndoDebounced p) = requests p" "requests (patch_typing q p) = requests p"
  "requests (upd_cur_frame k ff p) = requests p" "requests (set_inlines k bid fi p) = requests p"
  "requests (open_frame u p) = requests p" "requests (renderFilmstrip u p) = requests p"
  "requests (renderStage u p) = requests p" "requests (renderAll u p) = requests p"
  "requests (flushEditorToModel u p) = requests p"
  by (simp_all add: pr_prims Let_def split: option.split)


section \<open>Well-formed decks\<close>

text \<open>A slide whose frames exist and are not empty, without keys of the older format.\<close>

definition frame_present :: "block list option \<Rightarrow> bool" where
  "frame_present f \<longleftrightarrow> (case f of None \<Rightarrow> False | Some bs \<Rightarrow> bs \<noteq> [])"

definition clean_slide :: "slide \<Rightarrow> bool" where
  "clean_slide s \<longleftrightarrow> frame_present (title_frame s) \<and> frame_present (body_frame s) \<and> frame_present (body2_frame s)
     \<and> (\<forall>kv\<in>set (sl_legacy s). fst kv \<notin> set legacy_keys)"

definition deck_shape :: "slide list \<Rightarrow> nat \<Rightarrow> bool" where
  "deck_shape ss i \<longleftrightarrow> i < length ss \<and> distinct (map sl_id ss) \<and> (\<forall>s\<in>set ss. clean_slide s)"

definition snapshot_ok :: "deck_snapshot \<Rightarrow> bool" where
  "snapshot_ok sn \<longleftrightarrow> deck_shape (sn_slides sn) (sn_slideIndex sn)"

text \<open>The layout a flush writes back for the selector's value.\<close>

definition flushed_layout :: "string \<Rightarrow> string" where
  "flushed_layout v = or_default (Some v) ''title_body''"

definition in_sync :: "pres \<Rightarrow> bool" where
  "in_sync p \<longleftrightarrow>
     (let s = pr_slides p ! slideIndex p
      in speakerNotes p = or_empty (sl_notes s)
       \<and> flushed_layout (layoutSelect p) = flushed_layout (select_value (or_default (sl_layout s) ''title_body'')))"

definition pres_shape :: "pres \<Rightarrow> bool" where
  "pres_shape p \<longleftrightarrow> deck_shape (pr_slides p) (slideIndex p)
     \<and> (\<forall>sn\<in>set (pr_undoStack p) \<union> set (pr_redoStack p). snapshot_ok sn)"

definition pres_ok :: "pres \<Rightarrow> bool" where
  "pres_ok p \<longleftrightarrow> pres_shape p \<and> in_sync p"

lemma ensure_clean [simp]: "clean_slide s \<Longrightarrow> ensureSlideFrames u s = s"
  by (auto simp: clean_slide_def ensureSlideFrames_def frame_present_def Let_def filter_id_conv split: option.splits)

lemma deck_shape_ensure:
  "deck_shape ss i \<Longrightarrow> map (ensureSlideFrames u) ss = ss" "deck_shape ss i \<Longrightarrow> ensureSlideFrames u (ss ! i) = ss ! i"
  by (simp_all add: deck_shape_def map_idI)

lemma current_shape [simp]:
  "deck_shape (pr_slides p) (slideIndex p) \<Longrightarrow> currentSlide p = Some (pr_slides p ! slideIndex p)"
  by (simp add: currentSlide_def deck_shape_def)

lemma deck_slides_map [simp]:
  "pr_slides (map_slides g p) = g (pr_slides p)"
  "pr_slides (upd_slide h p) = (pr_slides p)[slideIndex p := h (pr_slides p ! slideIndex p)]"
  by (simp_all add: map_slides_def map_deck_def upd_slide_def)

lemma open_frame_shape [simp]: "deck_shape (pr_slides p) (slideIndex p) \<Longrightarrow> open_frame u p = p"
  by (simp add: open_frame_def upd_slide_def map_slides_def map_deck_def deck_shape_ensure)

lemma renderFilmstrip_shape:
  "deck_shape (pr_slides p) (slideIndex p) \<Longrightarrow> deck (renderFilmstrip u p) = deck p"
  by (simp add: renderFilmstrip_def map_slides_def map_deck_def Let_def deck_shape_ensure pr_emit_def)

lemma renderStage_shape:
  assumes "deck_shape (pr_slides p) (slideIndex p)"
  shows "deck (renderStage u p) = deck p"
    "speakerNotes (renderStage u p) = or_empty (sl_notes (pr_slides p ! slideIndex p))"
    "layoutSelect (renderStage u p) = select_value (or_default (sl_layout (pr_slides p ! slideIndex p)) ''title_body'')"
  using assms by (simp_all add: renderStage_def Let_def upd_slide_def map_slides_def map_deck_def deck_shape_ensure)

lemma renderAll_shape:
  assumes "deck_shape (pr_slides p) (slideIndex p)"
  shows "deck (renderAll u p) = deck p"
    "speakerNotes (renderAll u p) = or_empty (sl_notes (pr_slides p ! slideIndex p))"
    "layoutSelect (renderAll u p) = select_value (or_default (sl_layout (pr_slides p ! slideIndex p)) ''title_body'')"
  using assms renderStage_shape [of "renderFilmstrip u p" u] renderFilmstrip_shape [OF assms, of u]
  by (simp_all add: renderAll_def)

lemma render_ok:
  "pres_shape p \<Longrightarrow> pres_ok (renderAll u p)" "pres_shape p \<Longrightarrow> pres_ok (renderStage u p)"
  by (simp_all add: pres_ok_def pres_shape_def in_sync_def renderAll_shape renderStage_shape Let_def)

section \<open>Every command keeps the deck well formed\<close>

lemma pres_ok_prims [simp]:
  "pres_ok (pr_emit e p) = pres_ok p" "pres_ok (pres_status m b p) = pres_ok p"
  "pres_ok (scheduleSave p) = pres_ok p" "pres_ok (sendFrameOp k oper p) = pres_ok p"
  "pres_ok (applyBackground p) = pres_ok p" "pres_ok (applyLayoutClass l p) = pres_ok p"
  "pres_ok (syncSlideImage p) = pres_ok p" "pres_ok (pushUndoDebounced p) = pres_ok p"
  "pres_ok (patch_typing q p) = pres_ok p"
  by (simp_all add: pres_ok_def pres_shape_def in_sync_def)

lemma pres_shape_prims [simp]:
  "pres_shape (pr_emit e p) = pres_shape p" "pres_shape (pres_status m b p) = pres_shape p"
  "pres_shape (scheduleSave p) = pres_shape p" "pres_shape (sendFrameOp k oper p) = pres_shape p"
  "pres_shape (applyBackground p) = pres_shape p"
  by (simp_all add: pres_shape_def)

lemma ok_shape: "pres_ok p \<Longrightarrow> pres_shape p" and shape_deck: "pres_shape p \<Longrightarrow> deck_shape (pr_slides p) (slideIndex p)"
  by (simp_all add: pres_ok_def pres_shape_def)

lemma set_push30: "set (push30 x st) \<subseteq> insert x (set st)"
  by (auto simp: push30_def Let_def dest: list.set_sel(2) [rotated])

lemma snapshot_ok_cur: "pres_shape p \<Longrightarrow> snapshot_ok (snapshotDeck p)"
  by (simp add: snapshot_ok_def snapshotDeck_def pres_shape_def)

lemma push_ok [simp]: "pres_ok p \<Longrightarrow> pres_ok (pres_pushUndo p)"
  using set_push30 [of "snapshotDeck p" "pr_undoStack p"] snapshot_ok_cur [of p]
  by (auto simp: pres_ok_def pres_shape_def in_sync_def pres_pushUndo_def)

text \<open>A change of the current slide that leaves its identity, its notes and its layout alone.\<close>

definition neutral :: "(slide \<Rightarrow> slide) \<Rightarrow> bool" where
  "neutral f \<longleftrightarrow> (\<forall>s. sl_id (f s) = sl_id s \<and> sl_notes (f s) = sl_notes s \<and> sl_layout (f s) = sl_layout s
     \<and> (clean_slide s \<longrightarrow> clean_slide (f s)))"

lemma map_id_update: "i < length ss \<Longrightarrow> g x = g (ss ! i) \<Longrightarrow> map g (ss[i := x]) = map g ss"
  by (metis list_update_id map_update)

lemma deck_shape_update:
  assumes "deck_shape ss i" "sl_id x = sl_id (ss ! i)" "clean_slide x"
  shows "deck_shape (ss[i := x]) i"
  using assms set_update_subset_insert [of ss i x] by (auto simp: deck_shape_def map_id_update)

lemma deck_shape_nth: "deck_shape ss i \<Longrightarrow> clean_slide (ss ! i)"
  by (simp add: deck_shape_def)

lemma upd_neutral:
  assumes "pres_ok p" "neutral f"
  shows "pres_ok (upd_slide f p)"
proof -
  let ?s = "pr_slides p ! slideIndex p"
  have d: "deck_shape (pr_slides p) (slideIndex p)" by (rule shape_deck [OF ok_shape [OF assms(1)]])
  then have "deck_shape ((pr_slides p)[slideIndex p := f ?s]) (slideIndex p)"
    using assms(2) by (intro deck_shape_update) (auto simp: neutral_def deck_shape_nth)
  moreover have "slideIndex p < length (pr_slides p)" using d by (simp add: deck_shape_def)
  ultimately show ?thesis
    using assms by (simp add: pres_ok_def pres_shape_def in_sync_def neutral_def Let_def)
qed

lemma neutral_frame: "(\<And>bs. bs \<noteq> [] \<Longrightarrow> f bs \<noteq> []) \<Longrightarrow> neutral (upd_frame k f)"
  by (auto simp: neutral_def upd_frame_def clean_slide_def frame_present_def split: option.splits)

lemma cur_frame_ok [simp]: "pres_ok p \<Longrightarrow> (\<And>bs. bs \<noteq> [] \<Longrightarrow> f bs \<noteq> []) \<Longrightarrow> pres_ok (upd_cur_frame k f p)"
  unfolding upd_cur_frame_def by (intro upd_neutral neutral_frame)

lemma upd_block_nonempty: "bs \<noteq> [] \<Longrightarrow> upd_block bid f bs \<noteq> []"
  by (cases bs) (simp_all add: upd_block_def)

lemma set_inlines_ok [simp]: "pres_ok p \<Longrightarrow> pres_ok (set_inlines k bid f p)"
  unfolding set_inlines_def by (rule cur_frame_ok) (simp_all add: upd_block_nonempty)

lemma flush_slides:
  "deck_shape (pr_slides p) (slideIndex p) \<Longrightarrow>
     pr_slides (flushEditorToModel u p) = (pr_slides p)[slideIndex p := (pr_slides p ! slideIndex p)
       \<lparr>sl_notes := Some (speakerNotes p), sl_layout := Some (flushed_layout (layoutSelect p))\<rparr>]"
  by (simp add: flushEditorToModel_def deck_shape_ensure flushed_layout_def)

lemma flushed_layout_idem [simp]:
  "flushed_layout (flushed_layout v) = flushed_layout v"
  "or_default (Some (flushed_layout v)) ''title_body'' = flushed_layout v"
  by (simp_all add: flushed_layout_def or_default_def)

lemma flushed_select: "flushed_layout (select_value (flushed_layout (select_value l))) = flushed_layout (select_value l)"
  by (auto simp: flushed_layout_def or_default_def select_value_def layout_options_def)

lemma flush_ok [simp]:
  assumes "pres_ok p"
  shows "pres_ok (flushEditorToModel u p)"
proof -
  let ?i = "slideIndex p" and ?s = "pr_slides p ! slideIndex p"
  let ?x = "?s\<lparr>sl_notes := Some (speakerNotes p), sl_layout := Some (flushed_layout (layoutSelect p))\<rparr>"
  have d: "deck_shape (pr_slides p) ?i" by (rule shape_deck [OF ok_shape [OF assms]])
  then have i: "?i < length (pr_slides p)" and c: "clean_slide ?s" by (simp_all add: deck_shape_def)
  then have "clean_slide ?x" by (simp add: clean_slide_def)
  with d have "deck_shape ((pr_slides p)[?i := ?x]) ?i" by (intro deck_shape_update) simp_all
  then show ?thesis using assms i d
    by (auto simp: pres_ok_def pres_shape_def in_sync_def flush_slides Let_def flushed_select)
qed

lemma flush_length [simp]: "pres_ok p \<Longrightarrow> length (pr_slides (flushEditorToModel u p)) = length (pr_slides p)"
  by (simp add: flush_slides shape_deck ok_shape)

lemma flush_ids [simp]: "pres_ok p \<Longrightarrow> map sl_id (pr_slides (flushEditorToModel u p)) = map sl_id (pr_slides p)"
  using shape_deck [OF ok_shape, of p] by (simp add: flush_slides map_id_update deck_shape_def)

text \<open>Replacing the slides and the index, for the commands that repaint everything afterwards.\<close>

lemma reshape:
  assumes "pres_shape p" "deck_shape ss i"
  shows "pres_shape ((map_slides (\<lambda>_. ss) p)\<lparr>slideIndex := i\<rparr>)"
  using assms by (simp add: pres_shape_def map_slides_def map_deck_def)

section \<open>The commands\<close>

lemma find_present: "pres_ok p \<Longrightarrow> currentSlide p = Some (pr_slides p ! slideIndex p)"
  by (simp add: shape_deck ok_shape)

lemma open_frame_ok [simp]: "pres_ok p \<Longrightarrow> open_frame u p = p"
  by (simp add: shape_deck ok_shape)

lemma input_ok: "pres_ok p \<Longrightarrow> pres_ok (onPresBlockInput u k bid t p)"
  by (simp add: onPresBlockInput_def find_present apply_typed_diff_def Let_def split: option.split)

lemma filmstrip_ok [simp]:
  assumes "pres_ok p"
  shows "pres_ok (renderFilmstrip u p)"
proof -
  have "deck (renderFilmstrip u p) = deck p" by (rule renderFilmstrip_shape [OF shape_deck [OF ok_shape [OF assms]]])
  with assms show ?thesis by (simp add: pres_ok_def pres_shape_def in_sync_def)
qed

lemma frame_input_ok: "pres_ok p \<Longrightarrow> pres_ok (frame_input u k p)"
  by (simp add: frame_input_def Let_def)

lemma split_frame_nonempty: "bs \<noteq> [] \<Longrightarrow> split_frame bid off nid bs \<noteq> []"
  by (simp add: split_frame_def splice_ins_def Let_def split: option.split)

lemma merge_frame_nonempty: "idx \<noteq> 0 \<Longrightarrow> idx < length bs \<Longrightarrow> merge_frame idx bs \<noteq> []"
  by (auto simp: merge_frame_def splice_del_def)

lemma keydown_enter_ok: "pres_ok p \<Longrightarrow> pres_ok (press_enter u k bid sel b p)"
  by (simp add: press_enter_def Let_def render_ok ok_shape split_frame_nonempty)

lemma keydown_shift_ok: "pres_ok p \<Longrightarrow> pres_ok (press_shift_enter k bid sel b p)"
  by (simp add: press_shift_enter_def Let_def)

text \<open>Backspace changes the frame whose blocks it counted, so the index is in range there.\<close>

lemma merge_frame_shape:
  assumes ok: "pres_ok p" and "block_index bid (cur_frame k p) = Some idx" "idx \<noteq> 0"
  shows "pres_ok (upd_cur_frame k (merge_frame idx) p)"
proof -
  have len: "idx < length (frameOf (pr_slides p ! slideIndex p) k)"
    using block_index_Some [OF assms(2)] find_present [OF ok] by (simp add: cur_frame_def)
  let ?f = "\<lambda>bs. if idx < length bs then merge_frame idx bs else bs"
  have "upd_frame k (merge_frame idx) (pr_slides p ! slideIndex p) = upd_frame k ?f (pr_slides p ! slideIndex p)"
    using len by (auto simp: upd_frame_def frameOf_def blocks_of_def split: if_splits option.splits)
  then have "upd_cur_frame k (merge_frame idx) p = upd_cur_frame k ?f p"
    by (simp add: upd_cur_frame_def upd_slide_def map_slides_def map_deck_def)
  moreover have "pres_ok (upd_cur_frame k ?f p)"
    by (rule cur_frame_ok [OF ok]) (use assms(3) merge_frame_nonempty in auto)
  ultimately show ?thesis by simp
qed

lemma cur_frame_push [simp]: "cur_frame k (pres_pushUndo p) = cur_frame k p"
  by (simp add: cur_frame_def currentSlide_def)

lemma keydown_backspace_ok: "pres_ok p \<Longrightarrow> pres_ok (press_backspace u k bid sel p)"
  using merge_frame_shape [of "pres_pushUndo p" bid k]
  by (auto simp: press_backspace_def Let_def render_ok ok_shape split: option.split)

lemma keydown_ok: "pres_ok p \<Longrightarrow> pres_ok (onPresBlockKeydown u key sh k bid sel p)"
  by (simp add: onPresBlockKeydown_def find_present Let_def keydown_enter_ok keydown_shift_ok
      keydown_backspace_ok split: option.split)

lemma context_ok: "pres_ok p \<Longrightarrow> snd (activeBlockContext u p) = p"
  by (simp add: activeBlockContext_def find_present Let_def split: option.split list.split)

lemma mark_range_ok: "pres_ok p \<Longrightarrow> pres_ok (mark_range k b r q m p)"
  by (simp add: mark_range_def Let_def)

lemma toggleBold_ok: "pres_ok p \<Longrightarrow> pres_ok (toggleBoldFormat u sel p)"
  using context_ok [of p u]
  by (auto simp: toggleBoldFormat_def Let_def mark_range_ok split: prod.split option.split)

lemma setAlign_ok: "pres_ok p \<Longrightarrow> pres_ok (setAlignFormat u al p)"
  using context_ok [of p u]
  by (auto simp: setAlignFormat_def upd_block_nonempty split: prod.split option.split intro!: cur_frame_ok)

lemma set_size_ok: "pres_ok p \<Longrightarrow> pres_ok (set_size k b r n p)"
  by (simp add: set_size_def mark_range_ok split: option.split)

lemma sizes_ok:
  "pres_ok p \<Longrightarrow> pres_ok (stepFont u sel d p)" "pres_ok p \<Longrightarrow> pres_ok (size_selected u sel n p)"
  "pres_ok p \<Longrightarrow> pres_ok (setSlideFontFamily u sel fam p)"
  using context_ok [of p u]
  by (auto simp: stepFont_def size_selected_def setSlideFontFamily_def Let_def set_size_ok mark_range_ok
      split: prod.split option.split)

lemma emptyFrame_present [simp]: "frame_present (Some (emptyFrame t i))"
  by (simp add: frame_present_def emptyFrame_def)

lemma new_slides_clean [simp]: "clean_slide (new_slide u d)" "clean_slide (first_slide u)"
  by (simp_all add: clean_slide_def new_slide_def first_slide_def)

lemma addSlide_ok:
  assumes "pres_ok p" "u ''slide'' \<notin> sl_id ` set (pr_slides p)"
  shows "pres_ok (addSlide u p)"
proof -
  let ?p1 = "flushEditorToModel u (pres_pushUndo p)"
  have ok: "pres_ok ?p1" using assms(1) by simp
  have "map sl_id (pr_slides ?p1) = map sl_id (pr_slides p)" using assms(1) by simp
  then have "u ''slide'' \<notin> sl_id ` set (pr_slides ?p1)" using assms(2) by (metis set_map)
  then have "deck_shape (pr_slides ?p1 @ [new_slide u (deck ?p1)]) (length (pr_slides ?p1))"
    using shape_deck [OF ok_shape [OF ok]] by (auto simp: deck_shape_def new_slide_def [of u "deck ?p1"] clean_slide_def)
  from render_ok(1) [OF reshape [OF ok_shape [OF ok] this], of u] show ?thesis
    using assms(1) by (simp add: addSlide_def Let_def map_slides_def map_deck_def)
qed

lemma idx_id: "slideIndex q = i \<Longrightarrow> q\<lparr>slideIndex := i\<rparr> = q"
  by (cases q) simp

lemma duplicateSlide_ok:
  assumes "pres_ok p" "u ''slide'' \<notin> sl_id ` set (pr_slides p)"
  shows "pres_ok (duplicateSlide u p)"
proof -
  let ?p1 = "flushEditorToModel u (pres_pushUndo p)"
  have ok: "pres_ok ?p1" using assms(1) by simp
  have d: "deck_shape (pr_slides ?p1) (slideIndex p)" using shape_deck [OF ok_shape [OF ok]] by simp
  let ?s = "pr_slides ?p1 ! slideIndex p"
  let ?c = "?s\<lparr>sl_id := u ''slide'', title_frame := Some (emptyFrame (or_default (Some (slidePlainTitle ?s)) ''Slide'' @ '' (copy)'') (u ''title''))\<rparr>"
  have "map sl_id (pr_slides ?p1) = map sl_id (pr_slides p)" using assms(1) by simp
  then have "u ''slide'' \<notin> set (map sl_id (pr_slides ?p1))" using assms(2) by simp
  moreover have "clean_slide ?c" using deck_shape_nth [OF d] by (simp add: clean_slide_def)
  ultimately have "deck_shape (splice_ins (slideIndex p + 1) ?c (pr_slides ?p1)) (slideIndex p + 1)"
    using d by (auto simp: deck_shape_def map_splice_ins distinct_splice_ins)
  from render_ok(1) [OF reshape [OF ok_shape [OF ok] this], of u] show ?thesis
    using assms(1) d by (simp add: duplicateSlide_def Let_def find_present upd_slide_def map_slides_def map_deck_def deck_shape_ensure)
qed

lemma deleteSlide_ok:
  assumes "pres_ok p"
  shows "pres_ok (deleteSlide u p)"
proof (cases "deckId p = None \<or> length (pr_slides p) < 2")
  case True
  with assms show ?thesis by (simp add: deleteSlide_def)
next
  case False
  let ?p1 = "pres_pushUndo p" and ?ss = "splice_del (slideIndex p) (pr_slides p)"
  have d: "deck_shape (pr_slides p) (slideIndex p)" by (rule shape_deck [OF ok_shape [OF assms]])
  then have i: "slideIndex p < length (pr_slides p)" by (simp add: deck_shape_def)
  define k where "k = (if slideIndex p \<ge> length ?ss then length ?ss - 1 else slideIndex p)"
  have "length ?ss \<noteq> 0" using False i by (simp add: length_splice_del)
  then have "deck_shape ?ss k"
    using d set_splice_del_subset [of "slideIndex p" "pr_slides p"]
    by (auto simp: deck_shape_def k_def map_splice_del distinct_splice_del)
  moreover have "(map_slides (\<lambda>_. ?ss) ?p1)\<lparr>slideIndex := k\<rparr> = (if slideIndex p \<ge> length ?ss
      then (map_slides (splice_del (slideIndex p)) ?p1)\<lparr>slideIndex := length ?ss - 1\<rparr>
      else map_slides (splice_del (slideIndex p)) ?p1)"
    by (simp add: k_def map_slides_def map_deck_def idx_id)
  ultimately show ?thesis
    using False render_ok(1) [OF reshape [OF ok_shape [OF push_ok [OF assms]]], of ?ss k u]
    by (auto simp: deleteSlide_def Let_def split: if_splits)
qed

lemma go_render: "pres_ok p \<Longrightarrow> i < length (pr_slides p) \<Longrightarrow> pres_ok (renderAll u (p\<lparr>slideIndex := i\<rparr>))"
  by (rule render_ok) (simp add: pres_ok_def pres_shape_def deck_shape_def)

lemma present_ok [simp]: "pres_ok p \<Longrightarrow> pres_ok (renderPresentSlide u p)"
  by (simp add: renderPresentSlide_def find_present)

lemma goSlide_ok: "pres_ok p \<Longrightarrow> pres_ok (goSlide u d p)"
  by (simp add: goSlide_def Let_def go_render nat_less_iff)

lemma click_ok: "pres_ok p \<Longrightarrow> i < length (pr_slides p) \<Longrightarrow> pres_ok (click_slide u i p)"
  by (simp add: click_slide_def go_render)

lemma mset_swap_shape:
  assumes "deck_shape ss i" "mset ts = mset ss" "j < length ss"
  shows "deck_shape ts j"
proof -
  have "set ts = set ss" "length ts = length ss" using assms(2) by (metis set_mset_mset, metis size_mset)
  moreover have "mset (map sl_id ts) = mset (map sl_id ss)" using assms(2) by simp
  then have "distinct (map sl_id ts) = distinct (map sl_id ss)" by (metis mset_eq_imp_distinct_iff)
  ultimately show ?thesis using assms(1,3) by (simp add: deck_shape_def)
qed

lemma moved_ok:
  assumes "pres_ok p" "mset (f (pr_slides p)) = mset (pr_slides p)" "j < length (pr_slides p)"
  shows "pres_ok (renderAll u ((map_slides f p)\<lparr>slideIndex := j\<rparr>))"
proof -
  have "deck_shape (f (pr_slides p)) j" by (rule mset_swap_shape [OF shape_deck [OF ok_shape [OF assms(1)]] assms(2,3)])
  from render_ok(1) [OF reshape [OF ok_shape [OF assms(1)] this]] show ?thesis by (simp add: map_slides_def map_deck_def)
qed

lemma moveSlide_ok:
  assumes "pres_ok p"
  shows "pres_ok (moveSlide u d p)"
proof -
  let ?p1 = "flushEditorToModel u (pres_pushUndo p)"
  have "pres_ok ?p1" using assms by simp
  moreover have "slideIndex p < length (pr_slides p)"
    using shape_deck [OF ok_shape [OF assms]] by (simp add: deck_shape_def)
  ultimately show ?thesis
    using moved_ok [of ?p1 "\<lambda>ss. ss[slideIndex p := ss ! j, j := ss ! slideIndex p]" j u for j] assms
    by (simp add: moveSlide_def Let_def nat_less_iff mset_swap)
qed

lemma mset_splice_move: "f < length xs \<Longrightarrow> mset (splice_ins t (xs ! f) (splice_del f xs)) = mset xs"
proof -
  assume f: "f < length xs"
  have "mset (splice_ins t x ys) = add_mset x (mset ys)" for x and ys :: "'a list"
    by (metis append_take_drop_id mset.simps(2) mset_append splice_ins_def union_mset_add_mset_right)
  moreover have "add_mset (xs ! f) (mset (splice_del f xs)) = mset xs"
    using id_take_nth_drop [OF f] by (metis mset.simps(2) mset_append splice_del_def union_mset_add_mset_right)
  ultimately show ?thesis by simp
qed

lemma drop_ok:
  assumes "pres_ok p" "t < length (pr_slides p)" "drop_slide u f t p = Some p'"
  shows "pres_ok p'"
proof -
  let ?p1 = "flushEditorToModel u (pres_pushUndo p)"
  have "pres_ok ?p1" using assms(1) by simp
  then show ?thesis
    using assms moved_ok [of ?p1 "\<lambda>ss. splice_ins t (pr_slides ?p1 ! g) (splice_del g ss)" t u for g]
    by (auto simp: drop_slide_def Let_def mset_splice_move not_le split: option.splits if_splits)
qed

lemma splice_start_ge: "0 < n \<Longrightarrow> n \<le> splice_start n k \<longleftrightarrow> int n \<le> k"
  by (cases "k < 0") (auto simp: splice_start_def)

text \<open>The drops that break the deck: those of a number that is no position of a slide, nor counts one from the end.\<close>

lemma drop_None: "pres_ok p \<Longrightarrow> drop_slide u f t p = None \<longleftrightarrow> (\<exists>k. f = Some k \<and> k \<noteq> int t \<and> int (length (pr_slides p)) \<le> k)"
proof -
  assume "pres_ok p"
  moreover from this have "0 < length (pr_slides p)" using shape_deck [OF ok_shape] by (fastforce simp: deck_shape_def)
  note splice_start_ge [OF this]
  ultimately show ?thesis by (auto simp: drop_slide_def Let_def split: option.splits if_splits)
qed

lemma deck_fields_ok:
  "pres_ok p \<Longrightarrow> (\<And>d. slides (f d) = slides d) \<Longrightarrow> pres_ok (map_deck f p)"
  by (simp add: pres_ok_def pres_shape_def in_sync_def map_deck_def)

lemma properties_ok:
  "pres_ok p \<Longrightarrow> pres_ok (applyBackgroundFromDialog css c w p)"
  "pres_ok p \<Longrightarrow> pres_ok (pick_theme v l p)" "pres_ok p \<Longrightarrow> pres_ok (title_changed v p)"
  "pres_ok p \<Longrightarrow> pres_ok (set_image url m p)"
  by (auto simp: applyBackgroundFromDialog_def pick_theme_def title_changed_def set_image_def Let_def
      neutral_def clean_slide_def intro!: deck_fields_ok upd_neutral split: option.split)

lemma insertSlideImage_ok: "pres_ok p \<Longrightarrow> pres_ok (insertSlideImage m pk t p)"
  by (simp add: insertSlideImage_def properties_ok split: option.split)

lemma master_ok: "pres_ok p \<Longrightarrow> pres_ok (applyMasterDlg u bg l t b p)"
  by (simp add: applyMasterDlg_def Let_def render_ok ok_shape deck_fields_ok)

lemma set_note_ok:
  assumes "pres_ok p"
  shows "pres_ok ((upd_slide (\<lambda>s. s\<lparr>sl_notes := Some v\<rparr>) p)\<lparr>speakerNotes := v\<rparr>)"
proof -
  have d: "deck_shape (pr_slides p) (slideIndex p)" by (rule shape_deck [OF ok_shape [OF assms]])
  then have "deck_shape ((pr_slides p)[slideIndex p := (pr_slides p ! slideIndex p)\<lparr>sl_notes := Some v\<rparr>]) (slideIndex p)"
    using deck_shape_nth [OF d] by (intro deck_shape_update) (simp_all add: clean_slide_def)
  with d assms show ?thesis by (simp add: pres_ok_def pres_shape_def in_sync_def Let_def deck_shape_def)
qed

lemma set_layout_ok:
  assumes "pres_ok p" "l \<noteq> []" "flushed_layout v = flushed_layout (select_value l)"
  shows "pres_ok ((upd_slide (\<lambda>s. s\<lparr>sl_layout := Some l\<rparr>) p)\<lparr>layoutSelect := v\<rparr>)"
proof -
  have d: "deck_shape (pr_slides p) (slideIndex p)" by (rule shape_deck [OF ok_shape [OF assms(1)]])
  then have "deck_shape ((pr_slides p)[slideIndex p := (pr_slides p ! slideIndex p)\<lparr>sl_layout := Some l\<rparr>]) (slideIndex p)"
    using deck_shape_nth [OF d] by (intro deck_shape_update) (simp_all add: clean_slide_def)
  with d assms show ?thesis
    by (simp add: pres_ok_def pres_shape_def in_sync_def Let_def deck_shape_def or_default_def)
qed

lemma commute_notes: "(upd_slide f (p\<lparr>speakerNotes := v\<rparr>)) = (upd_slide f p)\<lparr>speakerNotes := v\<rparr>"
  "(upd_slide f (p\<lparr>layoutSelect := v\<rparr>)) = (upd_slide f p)\<lparr>layoutSelect := v\<rparr>"
  "pres_pushUndo (p\<lparr>layoutSelect := v\<rparr>) = (pres_pushUndo p)\<lparr>layoutSelect := v\<rparr>"
  "pushUndoDebounced (p\<lparr>speakerNotes := v\<rparr>) = (pushUndoDebounced p)\<lparr>speakerNotes := v\<rparr>"
  by (simp_all add: upd_slide_def map_slides_def map_deck_def pres_pushUndo_def pushUndoDebounced_def snapshotDeck_def)

lemma notes_ok:
  "pres_ok p \<Longrightarrow> pres_ok (notes_typed v p)" "pres_ok p \<Longrightarrow> pres_ok (comment_slide mk a p)"
  by (auto simp: notes_typed_def comment_slide_def Let_def commute_notes set_note_ok find_present currentSlide_def
      split: option.split dest!: ok_shape shape_deck) (auto simp: deck_shape_def)

lemma layouts_ok:
  assumes "pres_ok p"
  shows "lid \<noteq> [] \<Longrightarrow> pres_ok (pick_layout lid lab p)" "v \<in> set layout_options \<Longrightarrow> pres_ok (layout_changed v p)"
proof -
  assume "lid \<noteq> []"
  then show "pres_ok (pick_layout lid lab p)"
    using assms by (simp add: pick_layout_def find_present Let_def set_layout_ok)
next
  assume "v \<in> set layout_options"
  then have "v \<noteq> []" "flushed_layout v = flushed_layout (select_value v)"
    by (auto simp: layout_options_def select_value_def)
  then show "pres_ok (layout_changed v p)"
    using assms find_present [OF assms]
    by (auto simp: layout_changed_def Let_def commute_notes set_layout_ok currentSlide_def split: if_splits)
qed

lemma motion_ok: "pres_ok p \<Longrightarrow> pres_ok (applyMotionToSlide u t a every p)"
proof -
  assume ok: "pres_ok p"
  let ?p1 = "flushEditorToModel u (pres_pushUndo p)"
  have ok1: "pres_ok ?p1" using ok by simp
  have "pres_ok (map_slides (map f) ?p1)" if "neutral f" for f
  proof -
    have "deck_shape (map f (pr_slides ?p1)) (slideIndex ?p1)"
      using shape_deck [OF ok_shape [OF ok1]] that by (auto simp: deck_shape_def neutral_def comp_def)
    moreover have "slideIndex ?p1 < length (pr_slides ?p1)" using shape_deck [OF ok_shape [OF ok1]] by (simp add: deck_shape_def)
    ultimately show ?thesis
      using ok1 that by (simp add: pres_ok_def pres_shape_def in_sync_def neutral_def Let_def)
  qed
  moreover have "pres_ok (upd_slide f ?p1)" if "neutral f" for f by (rule upd_neutral [OF ok1 that])
  ultimately show ?thesis using ok
    by (simp add: applyMotionToSlide_def Let_def neutral_def clean_slide_def split: option.split)
qed

lemma map_ensure_ok [simp]: "pres_ok p \<Longrightarrow> map_slides (map (ensureSlideFrames u)) p = p"
  using deck_shape_ensure(1) [OF shape_deck [OF ok_shape]] by (simp add: map_slides_def map_deck_def)

lemma find_loop_bound: "ss \<noteq> [] \<Longrightarrow> find_slide_loop q ss c stp k = Some i \<Longrightarrow> i < length ss"
  by (induction q ss c stp k rule: find_slide_loop.induct) (auto simp: Let_def nat_less_iff split: if_splits)

lemma cursor_ok [simp]: "pres_ok (p\<lparr>findSlideCursor := c\<rparr>) = pres_ok p" "pres_ok (p\<lparr>presenting := b\<rparr>) = pres_ok p"
  by (simp_all add: pres_ok_def pres_shape_def in_sync_def)

lemma find_ok:
  assumes "pres_ok p"
  shows "pres_ok (findNextSlide u inp p)"
proof -
  have "pres_ok (flushEditorToModel u p)" using assms by simp
  moreover have "pr_slides (flushEditorToModel u p) \<noteq> []"
    using shape_deck [OF ok_shape [OF calculation]] by (auto simp: deck_shape_def)
  ultimately show ?thesis
    using assms find_loop_bound [of "pr_slides (flushEditorToModel u p)"]
      go_render [of "(flushEditorToModel u p)\<lparr>findSlideCursor := int i\<rparr>" i u for i]
    by (simp add: findNextSlide_def Let_def split: option.split)
qed

lemma show_ok:
  "pres_ok p \<Longrightarrow> pres_ok (startPresent u p)" "pres_ok p \<Longrightarrow> pres_ok (stopPresent p)"
  "pres_ok p \<Longrightarrow> pres_ok (snd (printSetup u p))"
  by (simp_all add: startPresent_def stopPresent_def printSetup_def buildPrintRoot_def Let_def)

section \<open>Undo, redo, loading\<close>

lemma applySnapshot_fields [simp]:
  "pr_slides (applySnapshot sn p) = sn_slides sn"
  "slideIndex (applySnapshot sn p) = min (sn_slideIndex sn) (length (sn_slides sn) - 1)"
  "pr_undoStack (applySnapshot sn p) = pr_undoStack p" "pr_redoStack (applySnapshot sn p) = pr_redoStack p"
  by (simp_all add: applySnapshot_def map_deck_def)

lemma min_index [simp]: "deck_shape ss i \<Longrightarrow> min i (length ss - Suc 0) = i"
  by (auto simp: deck_shape_def)

lemma restore_ok:
  assumes "snapshot_ok sn"
  shows "pres_shape q \<Longrightarrow> pres_ok (renderAll u (applySnapshot sn q))"
    "snapshotDeck (renderAll u (applySnapshot sn q)) = sn"
proof -
  have m: "min (sn_slideIndex sn) (length (sn_slides sn) - 1) = sn_slideIndex sn"
    using assms by (simp add: snapshot_ok_def)
  show "snapshotDeck (renderAll u (applySnapshot sn q)) = sn"
    using m assms by (simp add: snapshotDeck_def renderAll_shape snapshot_ok_def)
      (simp add: applySnapshot_def map_deck_def)
  assume "pres_shape q"
  then have "pres_shape (applySnapshot sn q)" using m assms by (simp add: pres_shape_def snapshot_ok_def)
  then show "pres_ok (renderAll u (applySnapshot sn q))" by (rule render_ok)
qed

lemma stacks_ok:
  assumes "pres_shape p"
  shows "pr_undoStack p \<noteq> [] \<Longrightarrow> snapshot_ok (last (pr_undoStack p))"
    "pr_redoStack p \<noteq> [] \<Longrightarrow> snapshot_ok (last (pr_redoStack p))"
    "pres_shape (p\<lparr>pr_redoStack := push30 (snapshotDeck p) (pr_redoStack p), pr_undoStack := butlast (pr_undoStack p)\<rparr>)"
    "pres_shape (p\<lparr>pr_undoStack := push30 (snapshotDeck p) (pr_undoStack p), pr_redoStack := butlast (pr_redoStack p)\<rparr>)"
  using assms set_push30 [of "snapshotDeck p" "pr_redoStack p"] set_push30 [of "snapshotDeck p" "pr_undoStack p"]
    snapshot_ok_cur [OF assms]
  by (auto simp: pres_shape_def dest: in_set_butlastD)

lemma undo_redo_ok:
  "pres_ok p \<Longrightarrow> pres_ok (pres_undoEdit u p)" "pres_ok p \<Longrightarrow> pres_ok (pres_redoEdit u p)"
  using stacks_ok [OF ok_shape, of p] restore_ok(1)
  by (simp_all add: pres_undoEdit_def pres_redoEdit_def Let_def)

text \<open>A loaded deck: distinct slides whose frames, where present, are not empty.\<close>

definition loadable :: "deck \<Rightarrow> bool" where
  "loadable d \<longleftrightarrow> distinct (map sl_id (slides d))
     \<and> (\<forall>s\<in>set (slides d). title_frame s \<noteq> Some [] \<and> body_frame s \<noteq> Some [] \<and> body2_frame s \<noteq> Some [])"

lemma ensure_makes_clean:
  "title_frame s \<noteq> Some [] \<Longrightarrow> body_frame s \<noteq> Some [] \<Longrightarrow> body2_frame s \<noteq> Some [] \<Longrightarrow> clean_slide (ensureSlideFrames u s)"
  by (auto simp: ensureSlideFrames_def clean_slide_def Let_def) (auto simp: frame_present_def split: option.splits)

lemma ensure_id [simp]: "sl_id (ensureSlideFrames u s) = sl_id s"
  by (simp add: ensureSlideFrames_def Let_def)

lemma loaded_shape:
  assumes "loadable d"
  shows "deck_shape (map (\<lambda>s. ensureSlideFrames u (if truthy_str (sl_layout s) then s else s\<lparr>sl_layout := Some ''title_body''\<rparr>))
     (if slides d = [] then [first_slide u] else slides d)) 0"
proof -
  have "clean_slide (ensureSlideFrames u (if truthy_str (sl_layout s) then s else s\<lparr>sl_layout := Some ''title_body''\<rparr>))"
    if "s \<in> set (slides d)" for s
    using assms that by (intro ensure_makes_clean) (auto simp: loadable_def)
  moreover have "clean_slide (ensureSlideFrames u (first_slide u))" "clean_slide (ensureSlideFrames u ((first_slide u)\<lparr>sl_layout := x\<rparr>))" for x
    by (rule ensure_makes_clean; simp add: first_slide_def emptyFrame_def)+
  ultimately show ?thesis using assms by (auto simp: deck_shape_def loadable_def comp_def if_distrib [of sl_id] cong: if_cong)
qed

lemma loadDeck_ok:
  assumes "pres_ok p" "\<And>d. reply = L_deck d \<Longrightarrow> loadable d"
  shows "pres_ok (loadDeck u token did reply p)"
proof (cases "\<exists>d. reply = L_deck d \<and> token")
  case True
  then obtain d where r: "reply = L_deck d" and t: token by blast
  then have "deck_shape (map (\<lambda>s. ensureSlideFrames u (if truthy_str (sl_layout s) then s else s\<lparr>sl_layout := Some ''title_body''\<rparr>))
     (if slides d = [] then [first_slide u] else slides d)) 0" using assms(2) by (intro loaded_shape) blast
  then have "pres_shape (p\<lparr>deck := d\<lparr>slides := map (\<lambda>s. ensureSlideFrames u (if truthy_str (sl_layout s) then s else s\<lparr>sl_layout := Some ''title_body''\<rparr>))
     (if slides d = [] then [first_slide u] else slides d), dk_version := w\<rparr>, deckId := Some did, slideIndex := 0\<rparr>)" for w
    using assms(1) by (simp add: pres_ok_def pres_shape_def)
  then show ?thesis using r t by (simp add: loadDeck_def Let_def render_ok)
next
  case False
  have "pres_shape (p\<lparr>deckId := None\<rparr>)" using ok_shape [OF assms(1)] by (simp add: pres_shape_def)
  then show ?thesis using False assms(1) by (auto simp: loadDeck_def render_ok split: load_reply.split)
qed

lemma reply_ok:
  assumes "pres_ok p" "\<And>t d. r = R_conflict t (L_deck d) \<Longrightarrow> loadable d"
  shows "pres_ok (frame_op_reply u r p)"
  using assms by (auto simp: frame_op_reply_def loadDeck_ok deck_fields_ok split: frame_reply.split option.split)

lemma requests_ok [simp]: "pres_ok (p\<lparr>requests := rs\<rparr>) = pres_ok p"
  by (simp add: pres_ok_def pres_shape_def in_sync_def)

lemma save_ok:
  "pres_ok p \<Longrightarrow> pres_ok (snd (saveDeck u token t p))" "pres_ok p \<Longrightarrow> pres_ok (save_reply_arrives q r p)"
  by (simp_all add: saveDeck_def save_reply_arrives_def Let_def deck_fields_ok split: save_reply.split)

lemma timer_ok: "pres_ok p \<Longrightarrow> pres_ok (undo_timer_fires p)"
  using push_ok [of "p\<lparr>undo_armed := False\<rparr>"] by (simp add: undo_timer_fires_def pres_ok_def pres_shape_def in_sync_def)

lemma key_ok: "pres_ok p \<Longrightarrow> pres_ok (pres_keydown u e p)"
  by (simp add: pres_keydown_def show_ok goSlide_ok undo_redo_ok)

section \<open>Sessions\<close>

text \<open>What can happen to an open client, with the values the browser supplies.\<close>

datatype pres_ev =
    E_input string string string
  | E_frame_input string
  | E_block_key string bool string string "(nat \<times> nat) option"
  | E_bold "(nat \<times> nat) option"
  | E_align string
  | E_step_font "(nat \<times> nat) option" int
  | E_size "(nat \<times> nat) option" "int option"
  | E_family "(nat \<times> nat) option" string
  | E_add | E_duplicate | E_delete
  | E_go int | E_move int | E_click nat | E_drop "int option" nat
  | E_master string string string string
  | E_background string string bool
  | E_pick_layout string string | E_pick_theme string string | E_layout string
  | E_motion string string bool
  | E_image "string option" "string option option" "string option"
  | E_notes string | E_comment string "string option" | E_name string
  | E_find string | E_start | E_stop | E_print | E_key pres_key
  | E_undo | E_redo | E_undo_timer
  | E_load bool string load_reply | E_reply frame_reply
  | E_save bool string | E_saved bool save_reply

text \<open>One step of a session; \<open>None\<close> is the drop that leaves an undefined entry in the deck.\<close>

fun pres_step :: "(string \<Rightarrow> string) \<times> pres_ev \<Rightarrow> pres \<Rightarrow> pres option" where
  "pres_step (u, E_input k bid t) p = Some (onPresBlockInput u k bid t p)"
| "pres_step (u, E_frame_input k) p = Some (frame_input u k p)"
| "pres_step (u, E_block_key key sh k bid sel) p = Some (onPresBlockKeydown u key sh k bid sel p)"
| "pres_step (u, E_bold sel) p = Some (toggleBoldFormat u sel p)"
| "pres_step (u, E_align al) p = Some (setAlignFormat u al p)"
| "pres_step (u, E_step_font sel d) p = Some (stepFont u sel d p)"
| "pres_step (u, E_size sel n) p = Some (size_selected u sel n p)"
| "pres_step (u, E_family sel f) p = Some (setSlideFontFamily u sel f p)"
| "pres_step (u, E_add) p = Some (addSlide u p)"
| "pres_step (u, E_duplicate) p = Some (duplicateSlide u p)"
| "pres_step (u, E_delete) p = Some (deleteSlide u p)"
| "pres_step (u, E_go d) p = Some (goSlide u d p)"
| "pres_step (u, E_move d) p = Some (moveSlide u d p)"
| "pres_step (u, E_click i) p = Some (click_slide u i p)"
| "pres_step (u, E_drop f t) p = drop_slide u f t p"
| "pres_step (u, E_master bg l t b) p = Some (applyMasterDlg u bg l t b p)"
| "pres_step (u, E_background css c w) p = Some (applyBackgroundFromDialog css c w p)"
| "pres_step (u, E_pick_layout l n) p = Some (pick_layout l n p)"
| "pres_step (u, E_pick_theme v n) p = Some (pick_theme v n p)"
| "pres_step (u, E_layout v) p = Some (layout_changed v p)"
| "pres_step (u, E_motion t a w) p = Some (applyMotionToSlide u t a w p)"
| "pres_step (u, E_image m pk t) p = Some (insertSlideImage m pk t p)"
| "pres_step (u, E_notes v) p = Some (notes_typed v p)"
| "pres_step (u, E_comment mk a) p = Some (comment_slide mk a p)"
| "pres_step (u, E_name v) p = Some (title_changed v p)"
| "pres_step (u, E_find q) p = Some (findNextSlide u q p)"
| "pres_step (u, E_start) p = Some (startPresent u p)"
| "pres_step (u, E_stop) p = Some (stopPresent p)"
| "pres_step (u, E_print) p = Some (snd (printSetup u p))"
| "pres_step (u, E_key e) p = Some (pres_keydown u e p)"
| "pres_step (u, E_undo) p = Some (pres_undoEdit u p)"
| "pres_step (u, E_redo) p = Some (pres_redoEdit u p)"
| "pres_step (u, E_undo_timer) p = Some (undo_timer_fires p)"
| "pres_step (u, E_load t did r) p = Some (loadDeck u t did r p)"
| "pres_step (u, E_reply r) p = Some (frame_op_reply u r p)"
| "pres_step (u, E_save t title) p = Some (snd (saveDeck u t title p))"
| "pres_step (u, E_saved q r) p = Some (save_reply_arrives q r p)"

text \<open>A session of steps that may fail, and the conditions on its events, in the states it goes through.\<close>

fun run_steps :: "('e \<Rightarrow> 's \<Rightarrow> 's option) \<Rightarrow> 'e list \<Rightarrow> 's \<Rightarrow> 's option" where
  "run_steps step [] s = Some s"
| "run_steps step (e # es) s = (case step e s of None \<Rightarrow> None | Some s' \<Rightarrow> run_steps step es s')"

fun run_ok :: "('e \<Rightarrow> 's \<Rightarrow> bool) \<Rightarrow> ('e \<Rightarrow> 's \<Rightarrow> 's option) \<Rightarrow> 'e list \<Rightarrow> 's \<Rightarrow> bool" where
  "run_ok ok step [] s = True"
| "run_ok ok step (e # es) s = (ok e s \<and> (case step e s of None \<Rightarrow> True | Some s' \<Rightarrow> run_ok ok step es s'))"

text \<open>
  What the browser and the service guarantee: a fresh identifier for a new slide, clicks on
  items that exist, options of the selector, and loaded decks with distinct slides.
\<close>

fun pres_ev_ok :: "(string \<Rightarrow> string) \<times> pres_ev \<Rightarrow> pres \<Rightarrow> bool" where
  "pres_ev_ok (u, E_add) p = (u ''slide'' \<notin> sl_id ` set (pr_slides p))"
| "pres_ev_ok (u, E_duplicate) p = (u ''slide'' \<notin> sl_id ` set (pr_slides p))"
| "pres_ev_ok (u, E_click i) p = (i < length (pr_slides p))"
| "pres_ev_ok (u, E_drop f t) p = (t < length (pr_slides p))"
| "pres_ev_ok (u, E_pick_layout l n) p = (l \<noteq> [])"
| "pres_ev_ok (u, E_layout v) p = (v \<in> set layout_options)"
| "pres_ev_ok (u, E_load t did r) p = (case r of L_deck d \<Rightarrow> loadable d | _ \<Rightarrow> True)"
| "pres_ev_ok (u, E_reply r) p = (case r of R_conflict t (L_deck d) \<Rightarrow> loadable d | _ \<Rightarrow> True)"
| "pres_ev_ok (u, _) p = True"

lemma pres_step_ok: "pres_ok p \<Longrightarrow> pres_ev_ok e p \<Longrightarrow> pres_step e p = Some p' \<Longrightarrow> pres_ok p'"
proof (cases "(e, p)" rule: pres_step.cases)
  case (15 u f t q)
  then show "pres_ok p \<Longrightarrow> pres_ev_ok e p \<Longrightarrow> pres_step e p = Some p' \<Longrightarrow> pres_ok p'"
    by (auto split: option.split dest: drop_ok)
next
  case (34 u t did r q)
  then show "pres_ok p \<Longrightarrow> pres_ev_ok e p \<Longrightarrow> pres_step e p = Some p' \<Longrightarrow> pres_ok p'" by (auto intro: loadDeck_ok)
next
  case (35 u r q)
  then show "pres_ok p \<Longrightarrow> pres_ev_ok e p \<Longrightarrow> pres_step e p = Some p' \<Longrightarrow> pres_ok p'" by (auto intro: reply_ok)
qed (auto simp: input_ok frame_input_ok keydown_ok toggleBold_ok setAlign_ok sizes_ok addSlide_ok
  duplicateSlide_ok deleteSlide_ok goSlide_ok moveSlide_ok click_ok master_ok properties_ok layouts_ok
  motion_ok insertSlideImage_ok notes_ok find_ok show_ok key_ok undo_redo_ok timer_ok save_ok)

lemma pres_step_None:
  "pres_ok p \<Longrightarrow> pres_step ue p = None \<longleftrightarrow>
     (\<exists>u k t. ue = (u, E_drop (Some k) t) \<and> k \<noteq> int t \<and> int (length (pr_slides p)) \<le> k)"
  by (cases "(ue, p)" rule: pres_step.cases) (simp_all add: drop_None)

text \<open>
  Steps that keep an invariant under the conditions on their events and fail exactly on the
  broken ones: a session keeps the invariant, and fails exactly when it meets a broken event.
\<close>

locale failing_steps =
  fixes step :: "'e \<Rightarrow> 's \<Rightarrow> 's option" and ok :: "'e \<Rightarrow> 's \<Rightarrow> bool" and inv :: "'s \<Rightarrow> bool" and broken :: "'e \<Rightarrow> 's \<Rightarrow> bool"
  assumes step_inv: "inv s \<Longrightarrow> ok e s \<Longrightarrow> step e s = Some s' \<Longrightarrow> inv s'"
    and step_fails: "inv s \<Longrightarrow> step e s = None \<longleftrightarrow> broken e s"
begin

lemma run_inv: "inv s \<Longrightarrow> run_ok ok step es s \<Longrightarrow> run_steps step es s = Some s' \<Longrightarrow> inv s'"
  by (induction es arbitrary: s) (auto split: option.splits intro: step_inv)

lemma run_fails:
  "inv s \<Longrightarrow> run_ok ok step es s \<Longrightarrow>
   run_steps step es s = None \<longleftrightarrow> (\<exists>es1 e es2 s'. es = es1 @ e # es2 \<and> run_steps step es1 s = Some s' \<and> broken e s')"
proof (induction es arbitrary: s)
  case (Cons e es)
  show ?case
  proof (cases "step e s")
    case None
    then have "broken e s" using step_fails Cons.prems(1) by blast
    then have "\<exists>es1 e' es2 s'. e # es = es1 @ e' # es2 \<and> run_steps step es1 s = Some s' \<and> broken e' s'"
      by (intro exI [of _ "[]"] exI [of _ e] exI [of _ es] exI [of _ s]) simp
    with None show ?thesis by simp
  next
    case (Some s1)
    then have nb: "\<not> broken e s" using step_fails [of s e] Cons.prems(1) by simp
    have s1: "inv s1" "run_ok ok step es s1" using step_inv [of s e s1] Some Cons.prems by simp_all
    have "(\<exists>es1 e' es2 s'. e # es = es1 @ e' # es2 \<and> run_steps step es1 s = Some s' \<and> broken e' s')
        \<longleftrightarrow> (\<exists>es1 e' es2 s'. es = es1 @ e' # es2 \<and> run_steps step es1 s1 = Some s' \<and> broken e' s')" (is "?L \<longleftrightarrow> ?R")
    proof
      assume ?L
      then obtain es1 e' es2 s' where l: "e # es = es1 @ e' # es2" "run_steps step es1 s = Some s'" "broken e' s'" by blast
      then show ?R using nb Some by (cases es1) auto
    next
      assume ?R
      then obtain es1 e' es2 s' where "es = es1 @ e' # es2" "run_steps step es1 s1 = Some s'" "broken e' s'" by blast
      then show ?L using Some by (intro exI [of _ "e # es1"] exI [of _ e'] exI [of _ es2] exI [of _ s']) simp
    qed
    with Some Cons.IH [OF s1] show ?thesis by simp
  qed
qed simp

end

definition foreign_drop :: "(string \<Rightarrow> string) \<times> pres_ev \<Rightarrow> pres \<Rightarrow> bool" where
  "foreign_drop ue p = (case snd ue of E_drop (Some k) t \<Rightarrow> k \<noteq> int t \<and> int (length (pr_slides p)) \<le> k | _ \<Rightarrow> False)"

interpretation client: failing_steps pres_step pres_ev_ok pres_ok foreign_drop
proof unfold_locales
  fix s e s' assume "pres_ok s" "pres_ev_ok e s" "pres_step e s = Some s'"
  then show "pres_ok s'" by (rule pres_step_ok)
next
  fix s e assume "pres_ok s"
  then show "pres_step e s = None \<longleftrightarrow> foreign_drop e s"
    by (simp add: pres_step_None foreign_drop_def split: pres_ev.splits option.splits) (cases e; auto)
qed

text \<open>What a flush writes back: the notes it finds, and the layout where the selector has it.\<close>

lemma flush_keeps:
  assumes "pres_ok p"
  shows "map (or_empty \<circ> sl_notes) (pr_slides (flushEditorToModel u p)) = map (or_empty \<circ> sl_notes) (pr_slides p)"
    "map (\<lambda>s. s\<lparr>sl_notes := None, sl_layout := None\<rparr>) (pr_slides (flushEditorToModel u p))
       = map (\<lambda>s. s\<lparr>sl_notes := None, sl_layout := None\<rparr>) (pr_slides p)"
    "sl_layout (pr_slides p ! slideIndex p) = Some l \<Longrightarrow> l \<in> set layout_options \<Longrightarrow>
       map sl_layout (pr_slides (flushEditorToModel u p)) = map sl_layout (pr_slides p)"
proof -
  have d: "deck_shape (pr_slides p) (slideIndex p)" by (rule shape_deck [OF ok_shape [OF assms]])
  then have i: "slideIndex p < length (pr_slides p)" by (simp add: deck_shape_def)
  have s: "speakerNotes p = or_empty (sl_notes (pr_slides p ! slideIndex p))"
    "flushed_layout (layoutSelect p) = flushed_layout (select_value (or_default (sl_layout (pr_slides p ! slideIndex p)) ''title_body''))"
    using assms by (simp_all add: pres_ok_def in_sync_def Let_def)
  show "map (or_empty \<circ> sl_notes) (pr_slides (flushEditorToModel u p)) = map (or_empty \<circ> sl_notes) (pr_slides p)"
    "map (\<lambda>s. s\<lparr>sl_notes := None, sl_layout := None\<rparr>) (pr_slides (flushEditorToModel u p))
       = map (\<lambda>s. s\<lparr>sl_notes := None, sl_layout := None\<rparr>) (pr_slides p)"
    using d i s by (simp_all add: flush_slides map_id_update)
  assume "sl_layout (pr_slides p ! slideIndex p) = Some l" "l \<in> set layout_options"
  then have "Some (flushed_layout (layoutSelect p)) = sl_layout (pr_slides p ! slideIndex p)"
    using s(2) by (auto simp: flushed_layout_def select_value_def or_default_def layout_options_def)
  then show "map sl_layout (pr_slides (flushEditorToModel u p)) = map sl_layout (pr_slides p)"
    using d i by (simp add: flush_slides map_id_update)
qed

end
