(* ===== verification/Pres_Behaviour.thy ===== *)
theory Pres_Behaviour
  imports Pres_Laws
begin

text \<open>
  What the commands of the presentations client do: the undo contract, typing and the
  operations it sends, the version protocol with the service, search and the order of slides.
\<close>

section \<open>Undo\<close>

lemma push30_top [simp]: "push30 x st \<noteq> []" "last (push30 x st) = x"
  by (auto simp: push30_def Let_def tl_append split: list.split)

lemma snapshot_prims [simp]:
  "snapshotDeck (pres_status m b p) = snapshotDeck p" "snapshotDeck (scheduleSave p) = snapshotDeck p"
  "snapshotDeck (p\<lparr>pr_undoStack := x, pr_redoStack := y\<rparr>) = snapshotDeck p"
  by (simp_all add: snapshotDeck_def)

interpretation deck_history:
  history snapshotDeck pr_undoStack pr_redoStack pres_pushUndo "pres_undoEdit u" "pres_redoEdit u" snapshot_ok for u
  by unfold_locales
    (simp_all add: pres_pushUndo_def pres_undoEdit_def pres_redoEdit_def Let_def restore_ok)

section \<open>Typing\<close>

lemma set_inlines_slides:
  "pr_slides (set_inlines k bid f p) = (pr_slides p)[slideIndex p :=
     upd_frame k (upd_block bid (\<lambda>b. b\<lparr>inlines := f (inlines b)\<rparr>)) (pr_slides p ! slideIndex p)]"
  by (simp add: set_inlines_def upd_cur_frame_def)

lemma upd_frame_compose: "upd_frame k g (upd_frame k f s) = upd_frame k (\<lambda>bs. g (f bs)) s"
  by (simp add: upd_frame_def option.map_comp comp_def)

lemma upd_frame_id: "upd_frame k (\<lambda>bs. bs) s = s"
  by (cases s) (simp add: upd_frame_def option.map_ident)

lemma upd_first_ident: "upd_first P (\<lambda>x. x) xs = xs"
  by (induction xs) simp_all

lemma upd_frame_cong:
  "f (frameOf s k) = g (frameOf s k) \<Longrightarrow> upd_frame k f s = upd_frame k g s"
  by (cases "title_frame s"; cases "body_frame s"; cases "body2_frame s")
    (auto simp: upd_frame_def frameOf_def blocks_of_def)

lemma upd_frame_same [simp]: "upd_frame k (upd_block bid (\<lambda>b. b)) s = s"
proof -
  have "upd_block bid (\<lambda>b. b) = (\<lambda>bs. bs)"
    by (rule ext) (auto simp: upd_block_def intro: upd_first_ident)
  then show ?thesis by (simp add: upd_frame_id)
qed

lemma typed_diff_slides:
  assumes "slideIndex p < length (pr_slides p)"
  shows "pr_slides (apply_typed_diff k bid d p) = (pr_slides p)[slideIndex p :=
     upd_frame k (upd_block bid (\<lambda>b. b\<lparr>inlines :=
       apply_text_diff rt_insertTextPreserving rt_deleteRangePreserving (inlines b) d (pr_typingMarks p)\<rparr>))
     (pr_slides p ! slideIndex p)]"
  using assms
  by (simp add: apply_typed_diff_def Let_def set_inlines_slides upd_frame_compose upd_block_upd_block apply_text_diff_def)

lemma typed_diff_requests:
  assumes "deckId p = Some did" "currentSlide p = Some s"
  shows "requests (apply_typed_diff k bid d p) = requests p @ map (\<lambda>oper. Frame_op
       \<lparr>fm_slide_id = sl_id s, fm_frame = k, fm_op = oper, fm_base_version = base_version p\<rparr>)
     ((if d_deletedEnd d > d_start d then [Delete_range bid (int (d_start d)) (int (d_deletedEnd d))] else [])
      @ (if d_inserted d \<noteq> [] then [Insert_text bid (int (d_start d)) (d_inserted d)
           (map_option (\<lambda>m. rt_spanFromMarks [] m empty_patch) (pr_typingMarks p))] else []))"
proof -
  have i: "slideIndex p < length (pr_slides p)" "pr_slides p ! slideIndex p = s"
    using assms(2) by (simp_all add: currentSlide_def split: if_splits)
  have send: "requests (sendFrameOp k oper q) = requests q @ [Frame_op \<lparr>fm_slide_id = sl_id s, fm_frame = k,
      fm_op = oper, fm_base_version = base_version p\<rparr>]"
    if "deckId q = Some did" "slideIndex q < length (pr_slides q)" "sl_id (pr_slides q ! slideIndex q) = sl_id s"
      "dk_version (deck q) = dk_version (deck p)" for q oper
    using that by (simp add: sendFrameOp_def currentSlide_def base_version_def)
  have ver: "dk_version (deck (set_inlines k bid f q)) = dk_version (deck q)" for f q
    by (simp add: set_inlines_def upd_cur_frame_def upd_slide_def map_slides_def map_deck_def)
  have sid: "sl_id (upd_frame k g x) = sl_id x" for g x by (simp add: upd_frame_def)
  show ?thesis using assms(1) i
    by (simp add: apply_typed_diff_def Let_def send set_inlines_slides ver sid)
qed

lemma input_unfold:
  assumes "pres_ok p" "find_block bid (cur_frame k p) = Some b"
  shows "onPresBlockInput u k bid t p =
     (if rt_blockText b = typed_text (rt_blockText b) t then p
      else scheduleSave (apply_typed_diff k bid (rt_diffText (rt_blockText b) (typed_text (rt_blockText b) t)) (pres_pushUndo p)))"
  using assms by (simp add: onPresBlockInput_def find_present Let_def)

lemma input_typed:
  assumes "pres_ok p" "find_block bid (cur_frame k p) = Some b"
  shows "\<exists>xs. spans_text xs = typed_text (rt_blockText b) t
    \<and> pr_slides (onPresBlockInput u k bid t p) = (pr_slides p)[slideIndex p :=
        upd_frame k (upd_block bid (\<lambda>b. b\<lparr>inlines := xs\<rparr>)) (pr_slides p ! slideIndex p)]"
proof -
  let ?s = "pr_slides p ! slideIndex p" and ?t = "typed_text (rt_blockText b) t"
  have i: "slideIndex p < length (pr_slides p)" and cur: "cur_frame k p = frameOf ?s k"
    using find_present [OF assms(1)] by (simp_all add: currentSlide_def cur_frame_def split: if_splits)
  have same: "upd_frame k (upd_block bid F) ?s = upd_frame k (upd_block bid G) ?s" if "F b = G b" for F G
    by (rule upd_frame_cong, rule upd_block_cong) (use that assms(2) cur in auto)
  show ?thesis
  proof (cases "rt_blockText b = ?t")
    case True
    have "upd_frame k (upd_block bid (\<lambda>c. c\<lparr>inlines := inlines b\<rparr>)) ?s = ?s"
      using same [of "\<lambda>c. c\<lparr>inlines := inlines b\<rparr>" "\<lambda>c. c"] by simp
    then show ?thesis using True i input_unfold [OF assms, of u t]
      by (intro exI [of _ "inlines b"]) (simp add: rt_eq blockText_def)
  next
    case False
    let ?xs = "apply_text_diff rt_insertTextPreserving rt_deleteRangePreserving (inlines b)
      (rt_diffText (rt_blockText b) ?t) (pr_typingMarks p)"
    have "spans_text ?xs = ?t"
      using shell_buffer.apply_diff_content [of "inlines b" ?t "pr_typingMarks p"]
      by (simp add: rt_diff_eq rt_blockText_eq blockText_def)
    moreover have "pr_slides (onPresBlockInput u k bid t p) = (pr_slides p)[slideIndex p :=
        upd_frame k (upd_block bid (\<lambda>b. b\<lparr>inlines := ?xs\<rparr>)) ?s]"
      using False i input_unfold [OF assms, of u t] same [of "\<lambda>c. c\<lparr>inlines := apply_text_diff rt_insertTextPreserving
        rt_deleteRangePreserving (inlines c) (rt_diffText (rt_blockText b) ?t) (pr_typingMarks p)\<rparr>" "\<lambda>c. c\<lparr>inlines := ?xs\<rparr>"]
      by (simp add: typed_diff_slides)
    ultimately show ?thesis by blast
  qed
qed

lemma input_undo_stack:
  assumes "pres_ok p" "find_block bid (cur_frame k p) = Some b" "rt_blockText b \<noteq> typed_text (rt_blockText b) t"
  shows "pr_undoStack (onPresBlockInput u k bid t p) = pr_undoStack (pres_pushUndo p)"
  using input_unfold [OF assms(1,2), of u t] assms(3) by (simp add: apply_typed_diff_def Let_def)

section \<open>The version of the deck\<close>

lemma version_prims [simp]:
  "dk_version (deck (flushEditorToModel u p)) = dk_version (deck p)"
  by (simp add: flushEditorToModel_def upd_slide_def map_slides_def map_deck_def split: option.split)

lemma saveDeck_keeps_version: "base_version (snd (saveDeck u token t p)) = base_version p"
  by (simp add: saveDeck_def Let_def base_version_def map_deck_def)

lemma saved_keeps_version: "base_version (save_reply_arrives q r p) = base_version p"
  by (simp add: save_reply_arrives_def base_version_def split: save_reply.split)

text \<open>The version the service has after storing what the client sent.\<close>

lemma saveDeck_puts:
  assumes "deckId p \<noteq> None"
  shows "\<exists>d. requests (snd (saveDeck u True t p)) = requests p @ [Put_deck d] \<and> put_deck_version d = saturating_succ (base_version p)"
  using assms by (auto simp: saveDeck_def Let_def put_deck_version_def base_version_def map_deck_def)

lemma save_keeps_current:
  assumes "deckId p \<noteq> None" "currentSlide p \<noteq> None"
  shows "deckId (save_reply_arrives q S_ok (snd (saveDeck u True t p))) = deckId p"
    "currentSlide (save_reply_arrives q S_ok (snd (saveDeck u True t p))) \<noteq> None"
  using assms by (auto simp: save_reply_arrives_def saveDeck_def Let_def currentSlide_def map_deck_def
      flushEditorToModel_def upd_slide_def map_slides_def split: if_splits)

lemma stale_refused:
  assumes "fm_base_version m < U64_MAX"
  shows "apply_deck_frame_op m (saturating_succ (fm_base_version m)) = None"
  using assms by (simp add: apply_deck_frame_op_def saturating_succ_def U64_MAX_def)

lemma sendFrameOp_base:
  "requests (sendFrameOp k oper p) = requests p \<or>
     (\<exists>m. requests (sendFrameOp k oper p) = requests p @ [Frame_op m] \<and> fm_base_version m = base_version p \<and> fm_op m = oper)"
  by (auto simp: sendFrameOp_def split: option.split)

text \<open>After a refused operation the client loads the deck and is up to date again.\<close>

lemma conflict_recovers:
  assumes "deckId p = Some did" "dk_version d = Some v"
  shows "base_version (frame_op_reply u (R_conflict True (L_deck d)) p) = v"
proof -
  have ver: "dk_version (deck (renderAll u q)) = dk_version (deck q)" for q
    by (simp add: renderAll_def renderStage_def renderFilmstrip_def Let_def upd_slide_def map_slides_def map_deck_def
        split: option.split)
  show ?thesis using assms by (simp add: frame_op_reply_def loadDeck_def Let_def base_version_def ver)
qed

section \<open>Search\<close>

definition slide_matches :: "string \<Rightarrow> slide list \<Rightarrow> nat \<Rightarrow> bool" where
  "slide_matches q ss i \<longleftrightarrow> str_includes q (slide_hay (ss ! i))"

text \<open>The slide \<open>m\<close> steps after the cursor, going round.\<close>

definition round_from :: "int \<Rightarrow> nat \<Rightarrow> nat \<Rightarrow> nat" where
  "round_from c n m = nat ((c + int m) mod int n)"

lemma find_loop_spec:
  "(case find_slide_loop q ss c stp k of
      Some i \<Rightarrow> \<exists>m<k. i = round_from c (length ss) (stp + m) \<and> slide_matches q ss i
                 \<and> (\<forall>m'<m. \<not> slide_matches q ss (round_from c (length ss) (stp + m')))
    | None \<Rightarrow> \<forall>m<k. \<not> slide_matches q ss (round_from c (length ss) (stp + m)))"
proof (induction q ss c stp k rule: find_slide_loop.induct)
  case (1 q ss c stp)
  show ?case by simp
next
  case (2 q ss c stp k)
  let ?i = "nat ((c + int stp) mod int (length ss))"
  have i: "?i = round_from c (length ss) (stp + 0)" by (simp add: round_from_def)
  have hit: "str_includes q (slide_hay (ss ! ?i)) \<longleftrightarrow> slide_matches q ss ?i" by (simp add: slide_matches_def)
  show ?case
  proof (cases "slide_matches q ss ?i")
    case True
    then show ?thesis using i hit by (auto simp: Let_def intro!: exI [of _ "0::nat"])
  next
    case False
    note ih = "2.IH" [OF refl] False [folded hit]
    have all: "(\<forall>m<Suc j. \<not> slide_matches q ss (round_from c (length ss) (stp + m)))
        \<longleftrightarrow> (\<forall>m<j. \<not> slide_matches q ss (round_from c (length ss) (stp + 1 + m)))" for j
      using False i by (simp add: All_less_Suc2)
    show ?thesis
    proof (cases "find_slide_loop q ss c (stp + 1) k")
      case None
      then have "\<forall>m<k. \<not> slide_matches q ss (round_from c (length ss) (stp + 1 + m))" using ih by simp
      then show ?thesis using None ih all [of k] by (simp add: Let_def)
    next
      case (Some j)
      then obtain m where "m < k" "j = round_from c (length ss) (stp + 1 + m)" "slide_matches q ss j"
        "\<forall>m'<m. \<not> slide_matches q ss (round_from c (length ss) (stp + 1 + m'))" using ih by auto
      then show ?thesis using Some ih all [of m] by (auto simp: Let_def intro!: exI [of _ "Suc m"])
    qed
  qed
qed

lemma round_covers:
  assumes "j < n"
  shows "\<exists>m<n. round_from c n (1 + m) = j"
proof -
  let ?m = "nat ((int j - c - 1) mod int n)"
  have n: "0 < int n" using assms by simp
  have "(c + int (1 + ?m)) mod int n = ((c + 1) + (int j - c - 1) mod int n) mod int n"
    using n by (simp add: algebra_simps)
  also have "\<dots> = int j mod int n" by (subst mod_add_right_eq) simp
  finally have "(c + int (1 + ?m)) mod int n = int j mod int n" .
  then have "round_from c n (1 + ?m) = j" using assms by (simp add: round_from_def)
  moreover have "?m < n" using n by (simp add: nat_less_iff)
  ultimately show ?thesis by blast
qed

lemma find_None_iff_no_match:
  "find_slide_loop q ss c 1 (length ss) = None \<longleftrightarrow> (\<forall>i<length ss. \<not> slide_matches q ss i)"
proof
  assume "find_slide_loop q ss c 1 (length ss) = None"
  then have "\<forall>m<length ss. \<not> slide_matches q ss (round_from c (length ss) (1 + m))"
    using find_loop_spec [where q = q and ss = ss and c = c and stp = 1 and k = "length ss"] by simp
  then show "\<forall>i<length ss. \<not> slide_matches q ss i" using round_covers by metis
next
  assume none: "\<forall>i<length ss. \<not> slide_matches q ss i"
  show "find_slide_loop q ss c 1 (length ss) = None"
  proof (rule ccontr)
    assume "find_slide_loop q ss c 1 (length ss) \<noteq> None"
    then obtain i where i: "find_slide_loop q ss c 1 (length ss) = Some i" by blast
    then have "ss \<noteq> []" by (cases ss) auto
    with find_loop_bound [OF this i] find_loop_spec [where q = q and ss = ss and c = c and stp = 1 and k = "length ss"] i none show False by auto
  qed
qed

lemma find_next_unfold:
  assumes "pres_ok p" "to_lower (js_trim input) = q" "q \<noteq> []"
  shows "slideIndex (findNextSlide u input p) =
     (case find_slide_loop q (pr_slides (flushEditorToModel u p)) (findSlideCursor p) 1 (length (pr_slides p)) of
        Some i \<Rightarrow> i | None \<Rightarrow> slideIndex p)"
proof -
  have "pr_slides p \<noteq> []" using shape_deck [OF ok_shape [OF assms(1)]] by (auto simp: deck_shape_def)
  moreover have "findSlideCursor (flushEditorToModel u p) = findSlideCursor p"
    by (simp add: flushEditorToModel_def upd_slide_def map_slides_def map_deck_def split: option.split)
  ultimately show ?thesis using assms
    by (simp add: findNextSlide_def Let_def split: option.split)
qed

section \<open>Moving slides\<close>

lemma move_slides:
  assumes "pres_ok p" "deckId p \<noteq> None" "length (pr_slides p) \<ge> 2"
    "0 \<le> int (slideIndex p) + d" "int (slideIndex p) + d < int (length (pr_slides p))"
  shows "let i = slideIndex p; j = nat (int i + d); ss = pr_slides (flushEditorToModel u p); p' = moveSlide u d p
     in slideIndex p' = j \<and> pr_slides p' = ss[i := ss ! j, j := ss ! i]"
proof -
  let ?p1 = "flushEditorToModel u (pres_pushUndo p)"
  let ?j = "nat (int (slideIndex p) + d)"
  let ?f = "\<lambda>ss. ss[slideIndex p := ss ! ?j, ?j := ss ! slideIndex p]"
  have ok: "pres_ok ?p1" using assms(1) by simp
  have fl: "pr_slides ?p1 = pr_slides (flushEditorToModel u p)"
    using assms(1) shape_deck [OF ok_shape [OF assms(1)]] shape_deck [OF ok_shape [OF push_ok [OF assms(1)]]]
    by (simp add: flush_slides)
  have "?j < length (pr_slides ?p1)" "slideIndex p < length (pr_slides ?p1)"
    using assms shape_deck [OF ok_shape [OF assms(1)]] by (simp_all add: deck_shape_def nat_less_iff)
  then have "deck_shape (?f (pr_slides ?p1)) ?j"
    by (intro mset_swap_shape [OF shape_deck [OF ok_shape [OF ok]]]) (simp_all add: mset_swap)
  then have "deck (renderAll u ((map_slides ?f ?p1)\<lparr>slideIndex := ?j\<rparr>)) = deck (map_slides ?f ?p1)"
    using renderAll_shape(1) [of "(map_slides ?f ?p1)\<lparr>slideIndex := ?j\<rparr>" u] by simp
  moreover obtain did where "deckId p = Some did" using assms(2) by blast
  ultimately show ?thesis using assms fl by (simp add: moveSlide_def Let_def)
qed

text \<open>A move beyond the ends changes nothing but the stacks: a checkpoint is pushed and redo is lost.\<close>

lemma move_out_of_range:
  assumes "pres_ok p" "deckId p \<noteq> None" "length (pr_slides p) \<ge> 2"
    "int (slideIndex p) + d < 0 \<or> int (slideIndex p) + d \<ge> int (length (pr_slides p))"
  shows "slideIndex (moveSlide u d p) = slideIndex p" "pr_slides (moveSlide u d p) = pr_slides (flushEditorToModel u p)"
    "pr_redoStack (moveSlide u d p) = []" "last (pr_undoStack (moveSlide u d p)) = snapshotDeck p"
proof -
  have m: "moveSlide u d p = flushEditorToModel u (pres_pushUndo p)"
    using assms by (auto simp: moveSlide_def Let_def)
  show "pr_slides (moveSlide u d p) = pr_slides (flushEditorToModel u p)"
    using m assms(1) shape_deck [OF ok_shape [OF assms(1)]] shape_deck [OF ok_shape [OF push_ok [OF assms(1)]]]
    by (simp add: flush_slides)
  show "slideIndex (moveSlide u d p) = slideIndex p" "pr_redoStack (moveSlide u d p) = []"
    "last (pr_undoStack (moveSlide u d p)) = snapshotDeck p" using m by (simp_all add: pres_pushUndo_def)
qed

end
