(* ===== verification/Pres_Properties.thy ===== *)
theory Pres_Properties
  imports Pres_Behaviour Era_Replica
begin

text \<open>
  The properties of the shared rich-text file and of the presentations client, each with a
  witness on a concrete deck.
\<close>

section \<open>A sample deck\<close>

definition sample_slide :: "string \<Rightarrow> string \<Rightarrow> slide" where
  "sample_slide i t =
     \<lparr> sl_id = i, sl_title = None, sl_body = None, sl_body2 = None,
       title_frame = Some (emptyFrame t (i @ ''t'')), body_frame = Some (emptyFrame ''text'' (i @ ''b'')),
       body2_frame = Some (emptyFrame [] (i @ ''c'')), sl_legacy = [], sl_layout = Some ''section'',
       sl_notes = Some ''n'', sl_background = None, sl_image_url = None, sl_transition = None,
       sl_animation = None \<rparr>"

definition sample_pres :: pres where
  "sample_pres =
     \<lparr> deckId = Some ''d'',
       deck = \<lparr> dk_name = None, dk_version = Some 7, slides = [sample_slide ''s1'' ''One'', sample_slide ''s2'' ''Two''],
         theme_background = None, default_layout = None, master_title_placeholder = None, master_body_placeholder = None \<rparr>,
       slideIndex = 0, save_armed = False, pr_undoStack = [], pr_redoStack = [], presenting = False,
       undo_armed = False, pr_typingMarks = None, activeFrameKey = ''title'', activeBlockId = None,
       findSlideCursor = -1, speakerNotes = ''n'', layoutSelect = ''section'', requests = [], pr_ui = [] \<rparr>"

definition sample_ids :: "string \<Rightarrow> string" where
  "sample_ids k = ''new-'' @ k"

section \<open>The shared rich-text file\<close>

text \<open>
  C25. The rich-text engine of the shared file, written with an index loop and a fold, computes
  the same spans as the engine of the documents client on every input: coalescing, splitting,
  inserting, deleting, marking, the difference of two texts and escaping; and a block split
  by the shared file has the attributes the documents client keeps, less the paragraph
  spacing, indentation and language.
\<close>

theorem shell_richtext_agrees:
  "rt_coalesceInlines xs = coalesceInlines xs
   \<and> rt_splitInlinesAt xs off = splitInlinesAt xs off
   \<and> rt_insertTextPreserving xs off t m = insertTextPreserving xs off t m
   \<and> rt_deleteRangePreserving xs s e = deleteRangePreserving xs s e
   \<and> rt_applyMarksRangeLocal xs s e p = applyMarksRangeLocal xs s e p
   \<and> rt_diffText prev nxt = diffText prev nxt
   \<and> rt_escapeHtml t = escapeHtml t
   \<and> rt_copyBlockShell b i xs = (copyBlockShell b i xs)\<lparr>list_type := list_type b, line_spacing := None,
       indent_mm := None, space_before_pt := None, space_after_pt := None, lang := None\<rparr>"
  by (simp only: rt_eq rt_copy_eq simp_thms)

section \<open>Sessions\<close>

text \<open>
  A session of an open deck, under the conditions \<open>pres_ev_ok\<close> on its events: unless a number that
  is no position of a slide is dropped on the filmstrip, which leaves an undefined entry in the
  deck, the deck keeps a current slide, slides with distinct identifiers and three non-empty frames
  each, and so does every checkpoint; and the notes field and the layout selector always belong to
  the current slide, so that writing them back changes no slide's notes and nothing but notes and
  layout of a slide.
\<close>

theorem pres_session_safe:
  assumes "pres_ok p" "run_ok pres_ev_ok pres_step es p"
  shows "case run_steps pres_step es p of
      None \<Rightarrow> \<exists>es1 e es2 q. es = es1 @ e # es2 \<and> run_steps pres_step es1 p = Some q \<and> foreign_drop e q
    | Some q \<Rightarrow> pres_ok q
        \<and> map (or_empty \<circ> sl_notes) (pr_slides (flushEditorToModel u q)) = map (or_empty \<circ> sl_notes) (pr_slides q)
        \<and> map (\<lambda>s. s\<lparr>sl_notes := None, sl_layout := None\<rparr>) (pr_slides (flushEditorToModel u q))
            = map (\<lambda>s. s\<lparr>sl_notes := None, sl_layout := None\<rparr>) (pr_slides q)"
proof (cases "run_steps pres_step es p")
  case None
  then show ?thesis using client.run_fails [OF assms] by simp
next
  case (Some q)
  then show ?thesis using client.run_inv [OF assms] flush_keeps(1,2) by simp
qed

theorem pres_session_safe_witness:
  "\<exists>q. run_steps pres_step [(sample_ids, E_notes ''changed''), (sample_ids, E_add), (sample_ids, E_drop (Some 1) 0),
     (sample_ids, E_block_key ''Enter'' False ''body'' ''b-new-body'' None), (sample_ids, E_undo), (sample_ids, E_delete)] sample_pres = Some q
     \<and> pres_ok q"
proof -
  let ?es = "[(sample_ids, E_notes ''changed''), (sample_ids, E_add), (sample_ids, E_drop (Some 1) 0),
     (sample_ids, E_block_key ''Enter'' False ''body'' ''b-new-body'' None), (sample_ids, E_undo), (sample_ids, E_delete)]"
  have "pres_ok sample_pres" by code_simp
  moreover have "run_ok pres_ev_ok pres_step ?es sample_pres" by code_simp
  moreover have "run_steps pres_step ?es sample_pres \<noteq> None" by code_simp
  ultimately show ?thesis using pres_session_safe [of sample_pres ?es] unfolding not_None_eq by (elim exE) simp
qed

text \<open>
  C28. Undo: pressing undo \<open>k + 1\<close> times restores the deck, the order of its slides, the
  current slide and the master exactly as they were at the checkpoint \<open>k + 1\<close> from the top,
  and redo after an undo restores what was undone.
\<close>

theorem pres_undo_many:
  assumes "pres_ok p" "k < length (pr_undoStack p)"
  shows "snapshotDeck ((pres_undoEdit u ^^ Suc k) p) = pr_undoStack p ! (length (pr_undoStack p) - Suc k)
    \<and> snapshotDeck (pres_redoEdit u (pres_undoEdit u p)) = snapshotDeck p"
proof -
  have "\<forall>d\<in>set (pr_undoStack p). snapshot_ok d" "snapshot_ok (snapshotDeck p)" "pr_undoStack p \<noteq> []"
    using assms ok_shape [OF assms(1)] snapshot_ok_cur [OF ok_shape [OF assms(1)]] by (auto simp: pres_shape_def)
  then show ?thesis using deck_history.undo_many [OF assms(2)] deck_history.redo_undo by blast
qed

theorem pres_undo_many_witness:
  "snapshotDeck ((pres_undoEdit sample_ids ^^ Suc 1) (addSlide sample_ids (deleteSlide sample_ids sample_pres))) = snapshotDeck sample_pres"
proof -
  let ?p = "addSlide sample_ids (deleteSlide sample_ids sample_pres)"
  have "pres_ok ?p" "1 < length (pr_undoStack ?p)" by code_simp+
  from pres_undo_many [OF this, of sample_ids] have "snapshotDeck ((pres_undoEdit sample_ids ^^ Suc 1) ?p)
      = pr_undoStack ?p ! (length (pr_undoStack ?p) - Suc 1)" by blast
  also have "\<dots> = snapshotDeck sample_pres" by code_simp
  finally show ?thesis .
qed

text \<open>
  Typing in a frame: after an input event the block's text is the text of its element, all
  other blocks, frames and slides are unchanged, and, when the text changed, undo restores the deck.
\<close>

theorem pres_typing:
  assumes "pres_ok p" "find_block bid (cur_frame k p) = Some b"
  shows "(\<exists>xs. spans_text xs = typed_text (rt_blockText b) t
      \<and> pr_slides (onPresBlockInput u k bid t p) = (pr_slides p)[slideIndex p :=
          upd_frame k (upd_block bid (\<lambda>b. b\<lparr>inlines := xs\<rparr>)) (pr_slides p ! slideIndex p)])
    \<and> (typed_text (rt_blockText b) t \<noteq> rt_blockText b \<longrightarrow>
        snapshotDeck (pres_undoEdit u (onPresBlockInput u k bid t p)) = snapshotDeck p)"
  using input_typed [OF assms, of t u] snapshot_ok_cur [OF ok_shape [OF assms(1)]]
    deck_history.undo_edit [OF _ input_undo_stack [OF assms, of t u]] by metis

theorem pres_typing_witness:
  "snapshotDeck (pres_undoEdit sample_ids (onPresBlockInput sample_ids ''title'' ''b-s1t'' ''Once'' sample_pres)) = snapshotDeck sample_pres"
proof -
  have "pres_ok sample_pres" by code_simp
  moreover obtain b where "find_block ''b-s1t'' (cur_frame ''title'' sample_pres) = Some b" "rt_blockText b = ''One''"
  proof -
    have "map_option rt_blockText (find_block ''b-s1t'' (cur_frame ''title'' sample_pres)) = Some ''One''" by code_simp
    then show ?thesis using that by blast
  qed
  moreover have "typed_text ''One'' ''Once'' \<noteq> ''One''" by code_simp
  ultimately show ?thesis using pres_typing [of sample_pres "''b-s1t''" "''title''" b "''Once''" sample_ids] by metis
qed

section \<open>The version protocol\<close>

text \<open>
  C29. Replacing selected text sends a deletion and an insertion that carry the same base
  version, so a service that accepts the deletion refuses the insertion as a conflict; the
  reload that follows brings the client to the service's version.
\<close>

theorem pres_replacement_refused:
  assumes "pres_ok p" "deckId p = Some did" "find_block bid (cur_frame k p) = Some b"
    "d = rt_diffText (rt_blockText b) (typed_text (rt_blockText b) t)"
    "d_deletedEnd d > d_start d" "d_inserted d \<noteq> []" "base_version p < U64_MAX"
  shows "\<exists>m1 m2. requests (onPresBlockInput u k bid t p) = requests p @ [Frame_op m1, Frame_op m2]
    \<and> apply_deck_frame_op m1 (base_version p) = Some (base_version p + 1)
    \<and> apply_deck_frame_op m2 (base_version p + 1) = None
    \<and> (\<forall>q dk v. deckId q = Some did \<longrightarrow> dk_version dk = Some v \<longrightarrow>
        base_version (frame_op_reply u (R_conflict True (L_deck dk)) q) = v)"
proof -
  have "rt_blockText b \<noteq> typed_text (rt_blockText b) t"
    using assms(4,5) diffText_same by (metis less_irrefl rt_diff_eq select_convs(1,2) text_diff.select_convs)
  then have "requests (onPresBlockInput u k bid t p) = requests (apply_typed_diff k bid d (pres_pushUndo p))"
    using input_unfold [OF assms(1,3), of u t] assms(4) by simp
  moreover have "currentSlide (pres_pushUndo p) = Some (pr_slides p ! slideIndex p)"
    using find_present [OF push_ok [OF assms(1)]] by simp
  moreover have "base_version (pres_pushUndo p) = base_version p" by (simp add: base_version_def)
  moreover have "saturating_succ (base_version p) = base_version p + 1" using assms(7) by (simp add: saturating_succ_def)
  ultimately show ?thesis
    using assms(2,5,6,7) typed_diff_requests [of "pres_pushUndo p" did _ k bid d] conflict_recovers [of _ did]
    by (auto simp: apply_deck_frame_op_def)
qed

theorem pres_replacement_refused_witness:
  "\<exists>m1 m2. requests (onPresBlockInput sample_ids ''title'' ''b-s1t'' ''Ode'' sample_pres) = requests sample_pres @ [Frame_op m1, Frame_op m2]
    \<and> apply_deck_frame_op m1 7 = Some 8 \<and> apply_deck_frame_op m2 8 = None"
proof -
  have ok: "pres_ok sample_pres" "deckId sample_pres = Some ''d''" by code_simp+
  obtain b where b: "find_block ''b-s1t'' (cur_frame ''title'' sample_pres) = Some b" "rt_blockText b = ''One''"
  proof -
    have "map_option rt_blockText (find_block ''b-s1t'' (cur_frame ''title'' sample_pres)) = Some ''One''" by code_simp
    then show ?thesis using that by blast
  qed
  let ?d = "rt_diffText (rt_blockText b) (typed_text (rt_blockText b) ''Ode'')"
  have "rt_diffText ''One'' (typed_text ''One'' ''Ode'') = \<lparr>d_start = 1, d_deletedEnd = 2, d_inserted = ''d''\<rparr>" by code_simp
  then have d: "d_start ?d < d_deletedEnd ?d" "d_inserted ?d \<noteq> []" using b(2) by simp_all
  have v: "base_version sample_pres = 7" "base_version sample_pres < U64_MAX"
    by (simp_all add: base_version_def sample_pres_def U64_MAX_def)
  from pres_replacement_refused [OF ok b(1) refl d v(2), of sample_ids] show ?thesis unfolding v(1) by auto
qed

text \<open>
  C30. Saving outdates the client: the service stores the saved deck under the next version,
  the client does not read the reply, and so the next frame operation it sends is refused.
\<close>

theorem pres_save_outdates_client:
  assumes "deckId p \<noteq> None" "currentSlide p \<noteq> None" "base_version p < U64_MAX"
  shows "\<exists>d m. requests (sendFrameOp k oper (save_reply_arrives quiet S_ok (snd (saveDeck u True title p))))
      = requests p @ [Put_deck d, Frame_op m]
    \<and> apply_deck_frame_op m (put_deck_version d) = None"
proof -
  let ?q = "save_reply_arrives quiet S_ok (snd (saveDeck u True title p))"
  obtain d where d: "requests (snd (saveDeck u True title p)) = requests p @ [Put_deck d]"
    "put_deck_version d = saturating_succ (base_version p)"
    using saveDeck_puts [OF assms(1)] by blast
  have q: "requests ?q = requests p @ [Put_deck d]" "base_version ?q = base_version p"
    using d by (simp add: save_reply_arrives_def, simp only: saved_keeps_version saveDeck_keeps_version)
  have "deckId ?q = deckId p" "currentSlide ?q \<noteq> None"
    using save_keeps_current [OF assms(1,2)] by simp_all
  then obtain m where m: "requests (sendFrameOp k oper ?q) = requests ?q @ [Frame_op m]" "fm_base_version m = base_version p"
    using assms(1) q(2) by (auto simp: sendFrameOp_def)
  then have "apply_deck_frame_op m (put_deck_version d) = None" using d(2) stale_refused [of m] assms(3) by simp
  with m(1) q(1) show ?thesis by auto
qed

theorem pres_save_outdates_client_witness:
  "\<exists>d m. requests (sendFrameOp ''title'' (Merge_blocks ''b'' True) (save_reply_arrives True S_ok (snd (saveDeck sample_ids True [] sample_pres))))
      = [Put_deck d, Frame_op m] \<and> apply_deck_frame_op m (put_deck_version d) = None"
proof -
  have "deckId sample_pres \<noteq> None" "currentSlide sample_pres \<noteq> None" "requests sample_pres = []" by code_simp+
  moreover have "base_version sample_pres < U64_MAX" by (simp add: base_version_def sample_pres_def U64_MAX_def)
  ultimately show ?thesis using pres_save_outdates_client [of sample_pres] by (metis append_Nil)
qed

section \<open>Search and order\<close>

text \<open>
  Find next: with a query, the search goes to the first slide after the last hit, going
  round, whose texts or notes contain the query, and stays where it is exactly when no slide
  contains it.
\<close>

theorem pres_find_next:
  assumes "pres_ok p" "to_lower (js_trim input) = q" "q \<noteq> []" "ss = pr_slides (flushEditorToModel u p)" "n = length ss"
    "p' = findNextSlide u input p"
  shows "if \<exists>i<n. slide_matches q ss i
    then \<exists>m<n. slideIndex p' = round_from (findSlideCursor p) n (1 + m) \<and> slide_matches q ss (slideIndex p')
      \<and> (\<forall>m'<m. \<not> slide_matches q ss (round_from (findSlideCursor p) n (1 + m')))
    else slideIndex p' = slideIndex p"
proof -
  have i: "slideIndex p' = (case find_slide_loop q ss (findSlideCursor p) 1 n of Some i \<Rightarrow> i | None \<Rightarrow> slideIndex p)"
    using find_next_unfold [OF assms(1-3), of u] assms by simp
  show ?thesis
  proof (cases "find_slide_loop q ss (findSlideCursor p) 1 n")
    case None
    then show ?thesis using i find_None_iff_no_match [of q ss] assms(5) by auto
  next
    case (Some j)
    then have "\<exists>i<n. slide_matches q ss i" using find_None_iff_no_match [of q ss "findSlideCursor p"] assms(5) by auto
    moreover note find_loop_spec [where q = q and ss = ss and c = "findSlideCursor p" and stp = 1 and k = n]
    ultimately show ?thesis using Some i assms(5) by simp
  qed
qed

theorem pres_find_next_witness:
  "slide_matches ''two'' (pr_slides (flushEditorToModel sample_ids sample_pres)) (slideIndex (findNextSlide sample_ids '' TWO '' sample_pres))"
proof -
  have "pres_ok sample_pres" "to_lower (js_trim '' TWO '') = ''two''" "''two'' \<noteq> ([] :: string)" by code_simp+
  note t = pres_find_next [OF this refl refl refl, of sample_ids]
  have "1 < length (pr_slides (flushEditorToModel sample_ids sample_pres))"
    "slide_matches ''two'' (pr_slides (flushEditorToModel sample_ids sample_pres)) 1" by code_simp+
  with t show ?thesis by (auto split: if_splits)
qed

text \<open>
  Moving a slide swaps the current slide with its neighbour and keeps it current; moving it
  beyond an end leaves the deck alone, yet pushes a checkpoint and discards what could be redone.
\<close>

theorem pres_move_slide:
  assumes "pres_ok p" "deckId p \<noteq> None" "length (pr_slides p) \<ge> 2" "i = slideIndex p" "ss = pr_slides (flushEditorToModel u p)"
    "p' = moveSlide u d p"
  shows "if 0 \<le> int i + d \<and> int i + d < int (length ss)
    then slideIndex p' = nat (int i + d) \<and> pr_slides p' = ss[i := ss ! nat (int i + d), nat (int i + d) := ss ! i]
    else slideIndex p' = i \<and> pr_slides p' = ss \<and> pr_redoStack p' = [] \<and> last (pr_undoStack p') = snapshotDeck p"
  using move_slides [OF assms(1-3), of d u] move_out_of_range [OF assms(1-3), of d u] assms
  by (auto simp: Let_def not_le not_less)

theorem pres_move_slide_witness:
  "slideIndex (moveSlide sample_ids 1 sample_pres) = 1 \<and> pr_redoStack (moveSlide sample_ids (-1) (pres_undoEdit sample_ids (addSlide sample_ids sample_pres))) = []"
proof -
  let ?q = "pres_undoEdit sample_ids (addSlide sample_ids sample_pres)"
  have a: "pres_ok sample_pres" "deckId sample_pres \<noteq> None" "length (pr_slides sample_pres) \<ge> 2" by code_simp+
  have b: "pres_ok ?q" "deckId ?q \<noteq> None" "length (pr_slides ?q) \<ge> 2" by code_simp+
  have "slideIndex sample_pres = 0" "length (pr_slides (flushEditorToModel sample_ids sample_pres)) = 2" "slideIndex ?q = 0" by code_simp+
  then show ?thesis
    using pres_move_slide [OF a refl refl refl, where u = sample_ids and d = 1] pres_move_slide [OF b refl refl refl, where u = sample_ids and d = "-1"] by simp
qed

end
