(* ===== verification/Pres_Page.thy ===== *)
theory Pres_Page
  imports Pres_Properties Docs_Files Docs_Tools
begin

text \<open>
  The page of the presentations client (\<open>ui/presentations/web/app.js\<close>): the elements of the blocks
  on the stage and the caret in them, the session, creating, importing, exporting and sharing decks,
  the dialogs and side panels, the menu, the toolbar and the start of the page. The page around the
  client is the one of \<open>Office_Page\<close>; the body of a save is kept in the list of requests of the
  client, its address in the requests of the page.
\<close>

type_synonym pres_page = "pres office_page"

definition pg_status :: "string \<Rightarrow> bool \<Rightarrow> pres_page \<Rightarrow> pres_page" where
  "pg_status msg isErr p = on_client (pres_status msg isErr) p"

section \<open>The blocks on the stage\<close>

record pres_block =
  pb_id :: string
  pb_placeholder :: "string option"
  pb_textAlign :: "string option"
  pb_disc :: bool
  pb_html :: string

definition pres_block_el :: "string \<Rightarrow> nat \<times> block \<Rightarrow> pres_block" where
  "pres_block_el placeholder ib =
     (let b = snd ib
      in \<lparr> pb_id = b_id b, pb_placeholder = (if fst ib = 0 then Some placeholder else None),
           pb_textAlign = (if truthy_str (align b) then align b else None),
           pb_disc = (list_type b = Some ''bullet''), pb_html = rt_renderInlineHtml b \<rparr>)"

definition renderFrameEl :: "slide \<Rightarrow> string \<Rightarrow> string \<Rightarrow> pres_block list" where
  "renderFrameEl s key placeholder = map (pres_block_el placeholder) (enumerate 0 (frameOf s key))"

text \<open>The three frames of the stage with their names and placeholders.\<close>

definition stage_frames :: "slide \<Rightarrow> (string \<times> pres_block list) list" where
  "stage_frames s =
     [(''title'', renderFrameEl s ''title'' ''Title''), (''body'', renderFrameEl s ''body'' ''Body''),
      (''body2'', renderFrameEl s ''body2'' ''Column 2'')]"

definition block_focused :: "string \<Rightarrow> string \<Rightarrow> pres \<Rightarrow> pres" where
  "block_focused key bid p = p\<lparr>activeFrameKey := key, activeBlockId := Some bid\<rparr>"

text \<open>
  The caret: \<open>els\<close> are the block elements of a frame with their text nodes. \<open>None\<close>: there is no such
  element; \<open>Some None\<close>: it has no text, the element has the focus and the selection stays.
\<close>

definition frame_root :: "string \<Rightarrow> string" where
  "frame_root key = (if key = ''body2'' then ''slideBody2'' else if key = ''body'' then ''slideBody'' else ''slideTitle'')"

definition focusPresBlock :: "(string \<Rightarrow> (string \<times> string list) list) \<Rightarrow> string \<Rightarrow> string \<Rightarrow> int \<Rightarrow> (nat \<times> nat) option option" where
  "focusPresBlock els key bid offset = map_option (\<lambda>nodes. pointInBlock nodes offset) (map_of (els (frame_root key)) bid)"

section \<open>Session, creating, importing\<close>

definition requireToken :: "session \<Rightarrow> session \<times> bool" where
  "requireToken s = (if era_token s \<noteq> [] then (s, True) else (s\<lparr>href := Some (loginUrl s [])\<rparr>, False))"

definition deck_url :: "string \<Rightarrow> string" where
  "deck_url i = ''/api/v1/presentations/'' @ encodeURIComponent i"

definition createDeck :: "(string \<Rightarrow> claims option) \<Rightarrow> string \<Rightarrow> int \<Rightarrow> string option \<Rightarrow> pres_page \<Rightarrow> pres_page" where
  "createDeck jwt now status created p =
     (let s = op_session p in
      if \<not> snd (requireToken s) then p\<lparr>op_session := fst (requireToken s)\<rparr>
      else (let p1 = officeFetch jwt (request ''POST'' ''/api/v1/presentations'' (authHeaders jwt s json_header)
                       (user_fields jwt s @ [(''name'', ''Untitled-'' @ now @ ''.erap'')])) status p
            in if \<not> status_ok status
               then (if status = 401 then p1
                     else pg_status (if status = 403 then ''Create failed: access denied'' else ''Create failed: '' @ int_str status) True p1)
               else (case or_undefined created of
                       None \<Rightarrow> pg_status ''Create failed: no drive_object_id'' True p1
                     | Some i \<Rightarrow> goto_page (''/presentations/'' @ i) p1)))"

text \<open>\<open>name.replace(/\.pptx$/i, '.erap')\<close>.\<close>

definition erap_name :: "string \<Rightarrow> string" where
  "erap_name name = (if ends_with ''.pptx'' (to_lower name) then take (length name - 5) name @ ''.erap'' else name)"

definition import_pptx :: "(string \<Rightarrow> claims option) \<Rightarrow> (string \<times> nat list) option \<Rightarrow> int \<Rightarrow> string option \<Rightarrow> pres_page \<Rightarrow> pres_page" where
  "import_pptx jwt file status created p =
     (case file of
        None \<Rightarrow> p
      | Some (name, bytes) \<Rightarrow>
          if \<not> signed_in p then pg_status sign_in_first True p
          else (let s = op_session p;
                    p1 = officeFetch jwt (request ''POST'' ''/api/v1/presentations/import'' (authHeaders jwt s json_header)
                           (user_fields jwt s @ [(''name'', erap_name name), (''pptx_base64'', arrayBufferToBase64 bytes)])) status
                           (pg_status ''Importing pptx...'' False p)
                in if \<not> status_ok status then pg_status (''Import failed: '' @ int_str status) True p1
                   else (case or_undefined created of
                           None \<Rightarrow> pg_status ''Import failed: no drive_object_id'' True p1
                         | Some i \<Rightarrow> goto_page (''/presentations/'' @ i) p1)))"

section \<open>Loading, saving, exporting\<close>

text \<open>The reply to a load as the client of \<open>Pres_Model\<close> sees it, and to a save.\<close>

definition deck_load_reply :: "int \<Rightarrow> deck \<Rightarrow> load_reply" where
  "deck_load_reply status d =
     (if status_ok status then L_deck d else if status = 401 then L_unauthorized else L_status (nat status))"

definition deck_save_reply :: "int \<Rightarrow> save_reply" where
  "deck_save_reply status =
     (if status_ok status then S_ok else if status = 401 then S_unauthorized else S_status (nat status))"

definition load_deck_page ::
  "(string \<Rightarrow> claims option) \<Rightarrow> (string \<Rightarrow> string) \<Rightarrow> string \<Rightarrow> int \<Rightarrow> deck \<Rightarrow> pres_page \<Rightarrow> pres_page" where
  "load_deck_page jwt u i status d p =
     (let (s, token) = requireToken (op_session p);
          p1 = p\<lparr>op_session := s\<rparr>
      in on_client (loadDeck u token i (deck_load_reply status d))
           (if token then officeFetch jwt (request ''GET'' (deck_url i) (authHeaders jwt s []) []) status p1 else p1))"

text \<open>\<open>saveDeck\<close> with the reply it waits for.\<close>

definition save_deck_page ::
  "(string \<Rightarrow> claims option) \<Rightarrow> (string \<Rightarrow> string) \<Rightarrow> bool \<Rightarrow> string \<Rightarrow> int \<Rightarrow> pres_page \<Rightarrow> pres_page \<times> bool" where
  "save_deck_page jwt u quiet title status p =
     (case deckId (op_client p) of
        None \<Rightarrow> (p, False)
      | Some i \<Rightarrow>
          (let (s, token) = requireToken (op_session p);
               p1 = on_client (snd \<circ> saveDeck u token title) (p\<lparr>op_session := s\<rparr>)
           in if \<not> token then (p1, False)
              else (on_client (save_reply_arrives quiet (deck_save_reply status))
                      (officeFetch jwt (request ''PUT'' (deck_url i) (authHeaders jwt s json_header) []) status p1),
                    status_ok status)))"

text \<open>\<open>saved\<close> is the status of the save before the export. The second part is the name of the downloaded file.\<close>

definition exportBinary ::
  "(string \<Rightarrow> claims option) \<Rightarrow> (string \<Rightarrow> string) \<Rightarrow> string \<Rightarrow> string \<Rightarrow> string \<Rightarrow> string \<Rightarrow> int \<Rightarrow> int \<Rightarrow> pres_page \<Rightarrow> pres_page \<times> string option" where
  "exportBinary jwt u pathSuffix ext label title saved status p =
     (case deckId (op_client p) of
        None \<Rightarrow> (pg_status ''Open a deck first'' True p, None)
      | Some i \<Rightarrow>
          (let p1 = fst (save_deck_page jwt u True title saved p);
               p2 = pg_status (''Exporting '' @ label @ ''...'') False p1;
               p3 = officeFetch jwt (request ''POST'' (deck_url i @ ''/export/'' @ pathSuffix) (authHeaders jwt (op_session p2) []) []) status p2
           in if status_ok status then (pg_status ''Export ready'' False p3, Some (or_default (Some i) ''export'' @ CHR ''.'' # ext))
              else (pg_status (''Export failed: '' @ int_str status) True p3, None)))"

definition exportOdp ::
  "(string \<Rightarrow> claims option) \<Rightarrow> (string \<Rightarrow> string) \<Rightarrow> string \<Rightarrow> int \<Rightarrow> int \<Rightarrow> pres_page \<Rightarrow> pres_page \<times> string option" where
  "exportOdp jwt u title saved status p = exportBinary jwt u ''odp'' ''odp'' ''odp'' title saved status p"

definition export_pptx ::
  "(string \<Rightarrow> claims option) \<Rightarrow> (string \<Rightarrow> string) \<Rightarrow> string \<Rightarrow> int \<Rightarrow> int \<Rightarrow> pres_page \<Rightarrow> pres_page \<times> string option" where
  "export_pptx jwt u title saved status p = exportBinary jwt u ''pptx'' ''pptx'' ''pptx'' title saved status p"

definition openShareDeck :: "pres_page \<Rightarrow> pres_page \<times> (string \<times> string) option" where
  "openShareDeck p =
     (case deckId (op_client p) of
        None \<Rightarrow> (pg_status ''Open a deck first'' True p, None)
      | Some i \<Rightarrow> (p, Some (op_origin p @ ''/presentations/'' @ encodeURIComponent i, ''/drive/?share='' @ encodeURIComponent i)))"

text \<open>The picker of images: \<open>Some None\<close> asks for a typed address.\<close>

definition pres_image_picked :: "drive_entry list \<Rightarrow> string \<Rightarrow> string option option" where
  "pres_image_picked objs pick =
     (if pick = ''url'' then Some None
      else (case parse_int pick of
              None \<Rightarrow> None
            | Some n \<Rightarrow> if n < 0 \<or> int (length objs) \<le> n then None else Some (Some (object_url (de_id (objs ! nat n))))))"

definition pres_pickDriveImageObject ::
  "(string \<Rightarrow> claims option) \<Rightarrow> int \<Rightarrow> drive_entry list \<Rightarrow> string option \<Rightarrow> pres_page \<Rightarrow> pres_page \<times> string option option" where
  "pres_pickDriveImageObject jwt status objects pick p =
     (let p1 = officeFetch jwt (request ''GET'' ''/api/v1/drive/folders/_root/children'' (authHeaders jwt (op_session p) []) []) status p;
          objs = filter is_image objects
      in if \<not> status_ok status then (p1, None)
         else if objs = [] then (pg_status ''No images in Drive root - paste URL or upload first'' True p1, None)
         else (p1, Option.bind pick (pres_image_picked objs)))"

section \<open>Dialogs and side panels\<close>

text \<open>The fields of the master dialog, when it opens.\<close>

definition openMasterDlg :: "pres_page \<Rightarrow> pres_page \<times> (string \<times> string \<times> string \<times> string) option" where
  "openMasterDlg p =
     (let d = deck (op_client p) in
      if deckId (op_client p) = None then (pg_status ''Open a deck first'' True p, None)
      else (p, Some (or_empty (theme_background d), or_default (default_layout d) ''title_body'',
                     or_empty (master_title_placeholder d), or_empty (master_body_placeholder d))))"

text \<open>\<open>/^#[0-9a-fA-F]{6}$/\<close>.\<close>

definition hex_colour :: "string \<Rightarrow> bool" where
  "hex_colour v \<longleftrightarrow> length v = 7 \<and> hd v = CHR ''#'' \<and> list_all (\<lambda>c. hex_val c \<noteq> None) (tl v)"

text \<open>The text field and the colour field, which keeps its value \<open>old\<close> unless the background is a colour.\<close>

definition openBackgroundDialog :: "string \<Rightarrow> pres \<Rightarrow> string \<times> string \<times> bool" where
  "openBackgroundDialog old p =
     (let cur = slide_bg p (currentSlide p) in (cur, if hex_colour cur then cur else old, False))"

definition THEME_PRESETS :: "(string \<times> string) list" where
  "THEME_PRESETS =
     [(''Simple Light'', ''#ffffff''), (''Soft gray'', ''#f4f7fb''), (''Simple Dark'', ''#1e2936''),
      (''Blue wash'', ''linear-gradient(135deg,#e8f0fe 0%,#ffffff 60%)''),
      (''Warm wash'', ''linear-gradient(160deg,#fff8f0 0%,#ffffff 70%)''),
      (''Streamline'', ''linear-gradient(180deg,#0b5fff 0%,#1e2936 55%)'')]"

definition LAYOUT_PRESETS :: "(string \<times> string) list" where
  "LAYOUT_PRESETS =
     [(''title_body'', ''Title and body''), (''title_only'', ''Title only''), (''section'', ''Section header''),
      (''two_column'', ''Two columns'')]"

text \<open>The cards of the two choices: label, whether it is marked as the current one.\<close>

definition openLayoutDialog :: "pres \<Rightarrow> (string \<times> bool) list" where
  "openLayoutDialog p =
     (let cur = or_default (Option.bind (currentSlide p) sl_layout) ''title_body''
      in map (\<lambda>(lid, label). (label, lid = cur)) LAYOUT_PRESETS)"

definition theme_cards :: "pres \<Rightarrow> (string \<times> bool) list" where
  "theme_cards p =
     (let cur = or_default (theme_background (deck p)) ''#ffffff''
      in map (\<lambda>(label, val). (label, val = cur)) THEME_PRESETS)"

text \<open>Which panel is open and which button is marked.\<close>

record side_panels =
  sp_theme :: bool
  sp_transition :: bool
  sp_active :: "string option"

definition closePresSidePanels :: "side_panels \<Rightarrow> side_panels" where
  "closePresSidePanels s = s\<lparr>sp_theme := False, sp_transition := False, sp_active := None\<rparr>"

definition openThemePanel :: "pres \<Rightarrow> side_panels \<Rightarrow> side_panels \<times> (string \<times> bool) list" where
  "openThemePanel p s = ((closePresSidePanels s)\<lparr>sp_theme := True, sp_active := Some ''themeChromeBtn''\<rparr>, theme_cards p)"

definition openTransitionPanel :: "pres \<Rightarrow> side_panels \<Rightarrow> side_panels \<times> (string \<times> string)" where
  "openTransitionPanel p s =
     ((closePresSidePanels s)\<lparr>sp_transition := True, sp_active := Some ''transitionChromeBtn''\<rparr>,
      (or_default (Option.bind (currentSlide p) sl_transition) ''none'',
       or_default (Option.bind (currentSlide p) sl_animation) ''none''))"

definition click_layout_card :: "nat \<Rightarrow> pres \<Rightarrow> pres" where
  "click_layout_card i p = (let (lid, label) = LAYOUT_PRESETS ! i in pick_layout lid label p)"

definition click_theme_card :: "nat \<Rightarrow> pres \<Rightarrow> pres" where
  "click_theme_card i p = (let (label, val) = THEME_PRESETS ! i in pick_theme val label p)"

section \<open>Menu, toolbar, start of the page\<close>

text \<open>What a command reads: fresh identifiers, the selection, the answers of the image dialogs.\<close>

record pres_input =
  pn_ids :: "string \<Rightarrow> string"
  pn_sel :: "(nat \<times> nat) option"
  pn_mode :: "string option"
  pn_picked :: "string option option"
  pn_typed :: "string option"

text \<open>The commands of the menu that work on the deck, as events of the client's session. The others
  open a dialog, focus a field or scroll.\<close>

definition pres_handlers :: "pres_input \<Rightarrow> (string \<times> pres_ev) list" where
  "pres_handlers e =
     [(''file.print'', E_print), (''edit.undo'', E_undo), (''edit.redo'', E_redo), (''slide.new'', E_add),
      (''slide.duplicate'', E_duplicate), (''slide.up'', E_move (- 1)), (''slide.down'', E_move 1),
      (''slide.delete'', E_delete), (''insert.image'', E_image (pn_mode e) (pn_picked e) (pn_typed e)),
      (''format.bold'', E_bold (pn_sel e)), (''format.alignLeft'', E_align ''left''),
      (''format.alignCenter'', E_align ''center''), (''format.alignRight'', E_align ''right''),
      (''format.fontInc'', E_step_font (pn_sel e) 2), (''format.fontDec'', E_step_font (pn_sel e) (- 2)),
      (''view.present'', E_start)]"

definition pres_menu :: "pres_input \<Rightarrow> string \<Rightarrow> pres \<Rightarrow> pres option" where
  "pres_menu e cmd p = (case map_of (pres_handlers e) cmd of None \<Rightarrow> Some p | Some ev \<Rightarrow> pres_step (pn_ids e, ev) p)"

text \<open>The button of the format painter.\<close>

definition format_painter_button :: "pres_input \<Rightarrow> pres \<Rightarrow> pres" where
  "format_painter_button e p = pres_status ''Bold toggled on selection'' False (toggleBoldFormat (pn_ids e) (pn_sel e) p)"

text \<open>The copy button of the share dialog: the text written to the clipboard; \<open>ok\<close>: the browser allows it.
  The last part is the text offered for copying by hand.\<close>

definition share_copy :: "string \<Rightarrow> bool \<Rightarrow> pres_page \<Rightarrow> pres_page \<times> string option" where
  "share_copy url ok p =
     (if url = [] then (p, None) else if ok then (pg_status ''Share link copied'' False p, None) else (p, Some url))"

text \<open>\<open>parseInt(v, 10) || 100\<close>, in percent; \<open>None\<close> removes the zoom.\<close>

definition zoom_changed :: "string \<Rightarrow> int option" where
  "zoom_changed v =
     (if v = ''fit'' then None else Some (case parse_int v of None \<Rightarrow> 100 | Some n \<Rightarrow> if n = 0 then 100 else n))"

record pres_replies =
  pq_load :: int
  pq_deck :: deck
  pq_stamp :: string
  pq_create :: int
  pq_created :: "string option"
  pq_save :: int
  pq_export :: int

definition pres_file_menu ::
  "(string \<Rightarrow> claims option) \<Rightarrow> (string \<Rightarrow> string) \<Rightarrow> pres_replies \<Rightarrow> string \<Rightarrow> string \<Rightarrow> pres_page \<Rightarrow> pres_page" where
  "pres_file_menu jwt u r title cmd p =
     (if cmd = ''file.new'' then createDeck jwt (pq_stamp r) (pq_create r) (pq_created r) p
      else if cmd = ''file.export'' then fst (export_pptx jwt u title (pq_save r) (pq_export r) p)
      else if cmd = ''file.share'' then fst (openShareDeck p)
      else if cmd = ''file.odp'' then fst (exportOdp jwt u title (pq_save r) (pq_export r) p)
      else if cmd = ''file.save'' then fst (save_deck_page jwt u False title (pq_save r) p)
      else if cmd = ''slide.master'' then fst (openMasterDlg p)
      else p)"

definition pres_boot ::
  "(string \<Rightarrow> claims option) \<Rightarrow> int \<Rightarrow> (string \<Rightarrow> string) \<Rightarrow> string \<Rightarrow> pres_replies \<Rightarrow> pres_page \<Rightarrow> pres_page" where
  "pres_boot jwt now u pathname r p =
     (let p1 = (on_client (\<lambda>c. c\<lparr>deckId := pathDeckId pathname\<rparr>) p)\<lparr>op_session := fst (requireAuthOrRedirect jwt now (op_session p))\<rparr>
      in case pathDeckId pathname of
           Some i \<Rightarrow> load_deck_page jwt u i (pq_load r) (pq_deck r) p1
         | None \<Rightarrow>
             if signed_in p1
             then createDeck jwt (pq_stamp r) (pq_create r) (pq_created r) (on_client (pr_emit (P_meta ''Creating Untitled presentation...'')) p1)
             else p1)"

section \<open>Sessions of the page\<close>

text \<open>The module variables before the page starts.\<close>

definition fresh_pres :: "string \<Rightarrow> string \<Rightarrow> pres" where
  "fresh_pres notes layout =
     \<lparr> deckId = None,
       deck = \<lparr> dk_name = None, dk_version = Some 0, slides = [], theme_background = None, default_layout = None,
         master_title_placeholder = None, master_body_placeholder = None \<rparr>,
       slideIndex = 0, save_armed = False, pr_undoStack = [], pr_redoStack = [], presenting = False,
       undo_armed = False, pr_typingMarks = None, activeFrameKey = ''title'', activeBlockId = None,
       findSlideCursor = -1, speakerNotes = notes, layoutSelect = layout, requests = [], pr_ui = [] \<rparr>"

datatype page_ev =
    PE_client "(string \<Rightarrow> string) \<times> pres_ev"
  | PE_focus string string
  | PE_menu pres_input string
  | PE_painter pres_input
  | PE_layout_card nat
  | PE_theme_card nat
  | PE_file "string \<Rightarrow> claims option" "string \<Rightarrow> string" pres_replies string string
  | PE_import "string \<Rightarrow> claims option" "(string \<times> nat list) option" int "string option"
  | PE_images "string \<Rightarrow> claims option" int "drive_entry list" "string option"
  | PE_copied string bool

text \<open>A step of the client on its page; \<open>None\<close> as in a session of the client.\<close>

definition client_step :: "(pres \<Rightarrow> pres option) \<Rightarrow> pres_page \<Rightarrow> pres_page option" where
  "client_step f p = map_option (\<lambda>c. on_client (\<lambda>_. c) p) (f (op_client p))"

fun page_step :: "page_ev \<Rightarrow> pres_page \<Rightarrow> pres_page option" where
  "page_step (PE_client ue) p = client_step (pres_step ue) p"
| "page_step (PE_focus key bid) p = Some (on_client (block_focused key bid) p)"
| "page_step (PE_menu e cmd) p = client_step (pres_menu e cmd) p"
| "page_step (PE_painter e) p = Some (on_client (format_painter_button e) p)"
| "page_step (PE_layout_card i) p = Some (on_client (click_layout_card i) p)"
| "page_step (PE_theme_card i) p = Some (on_client (click_theme_card i) p)"
| "page_step (PE_file jwt u r title cmd) p = Some (pres_file_menu jwt u r title cmd p)"
| "page_step (PE_import jwt f st c) p = Some (import_pptx jwt f st c p)"
| "page_step (PE_images jwt st objs pick) p = Some (fst (pres_pickDriveImageObject jwt st objs pick p))"
| "page_step (PE_copied url ok) p = Some (fst (share_copy url ok p))"

fun page_ev_ok :: "page_ev \<Rightarrow> pres_page \<Rightarrow> bool" where
  "page_ev_ok (PE_client ue) p = pres_ev_ok ue (op_client p)"
| "page_ev_ok (PE_menu e cmd) p = (pn_ids e ''slide'' \<notin> sl_id ` set (pr_slides (op_client p)))"
| "page_ev_ok (PE_layout_card i) p = (i < length LAYOUT_PRESETS)"
| "page_ev_ok (PE_theme_card i) p = (i < length THEME_PRESETS)"
| "page_ev_ok _ p = True"

lemma menu_events:
  "pn_ids e ''slide'' \<notin> sl_id ` set (pr_slides p) \<Longrightarrow> list_all (\<lambda>(cmd, ev). pres_ev_ok (pn_ids e, ev) p) (pres_handlers e)"
  by (simp add: pres_handlers_def)

lemma menu_no_drop: "list_all (\<lambda>(cmd, ev). case ev of E_drop f t \<Rightarrow> False | _ \<Rightarrow> True) (pres_handlers e)"
  by (simp add: pres_handlers_def)

lemma menu_total: "pres_ok p \<Longrightarrow> pres_menu e cmd p \<noteq> None"
proof (cases "map_of (pres_handlers e) cmd")
  case (Some ev)
  assume "pres_ok p"
  moreover have "case ev of E_drop f t \<Rightarrow> False | _ \<Rightarrow> True"
    using menu_no_drop [of e] map_of_SomeD [OF Some] by (fastforce simp: list_all_iff)
  ultimately show ?thesis using Some pres_step_None [of p "(pn_ids e, ev)"] by (auto simp: pres_menu_def)
qed (simp add: pres_menu_def)

lemma menu_ok:
  assumes "pres_ok p" "pn_ids e ''slide'' \<notin> sl_id ` set (pr_slides p)" "pres_menu e cmd p = Some p'"
  shows "pres_ok p'"
proof (cases "map_of (pres_handlers e) cmd")
  case (Some ev)
  then have "pres_ev_ok (pn_ids e, ev) p" using menu_events [OF assms(2)] by (auto simp: list_all_iff dest: map_of_SomeD)
  moreover have "pres_step (pn_ids e, ev) p = Some p'" using Some assms(3) by (simp add: pres_menu_def)
  ultimately show ?thesis by (rule pres_step_ok [OF assms(1)])
qed (use assms in \<open>simp add: pres_menu_def\<close>)

lemma layout_ids: "i < length LAYOUT_PRESETS \<Longrightarrow> fst (LAYOUT_PRESETS ! i) \<noteq> []"
  using nth_mem [of i LAYOUT_PRESETS] by (auto simp: LAYOUT_PRESETS_def)

lemma pg_client [simp]: "op_client (pg_status m b p) = pres_status m b (op_client p)" "op_session (pg_status m b p) = op_session p"
  "op_sent (pg_status m b p) = op_sent p"
  by (simp_all add: pg_status_def)

lemma focus_ok [simp]: "pres_ok (block_focused k b p) = pres_ok p"
  by (simp add: block_focused_def pres_ok_def pres_shape_def in_sync_def)

lemma create_ok: "pres_ok (op_client p) \<Longrightarrow> pres_ok (op_client (createDeck jwt now st c p))"
  by (simp add: createDeck_def Let_def split: option.split)

lemma import_ok: "pres_ok (op_client p) \<Longrightarrow> pres_ok (op_client (import_pptx jwt f st c p))"
  by (simp add: import_pptx_def Let_def split: option.split prod.split)

lemma save_page_ok: "pres_ok (op_client p) \<Longrightarrow> pres_ok (op_client (fst (save_deck_page jwt u q t st p)))"
  by (simp add: save_deck_page_def Let_def save_ok split: option.split prod.split)

lemma export_ok: "pres_ok (op_client p) \<Longrightarrow> pres_ok (op_client (fst (exportBinary jwt u sf x l t sv st p)))"
  by (simp add: exportBinary_def Let_def save_page_ok split: option.split)

lemma file_menu_ok: "pres_ok (op_client p) \<Longrightarrow> pres_ok (op_client (pres_file_menu jwt u r t cmd p))"
  by (simp add: pres_file_menu_def create_ok export_pptx_def exportOdp_def export_ok openShareDeck_def save_page_ok
      openMasterDlg_def Let_def split: option.split)

lemma page_step_ok:
  assumes "pres_ok (op_client p)" "page_ev_ok ev p" "page_step ev p = Some p'"
  shows "pres_ok (op_client p')"
proof (cases ev)
  case (PE_client ue)
  then show ?thesis using assms pres_step_ok [of "op_client p" ue] by (auto simp: client_step_def)
next
  case (PE_menu e cmd)
  then show ?thesis using assms menu_ok by (auto simp: client_step_def)
next
  case (PE_layout_card i)
  then show ?thesis using assms layout_ids [of i] pres_step_ok [of "op_client p" "(id, E_pick_layout (fst (LAYOUT_PRESETS ! i)) (snd (LAYOUT_PRESETS ! i)))"]
    by (auto simp: click_layout_card_def split_beta)
next
  case (PE_theme_card i)
  then show ?thesis using assms pres_step_ok [of "op_client p" "(id, E_pick_theme (snd (THEME_PRESETS ! i)) (fst (THEME_PRESETS ! i)))"]
    by (auto simp: click_theme_card_def split_beta)
next
  case (PE_painter e)
  then show ?thesis using assms pres_step_ok [of "op_client p" "(pn_ids e, E_bold (pn_sel e))"] by (auto simp: format_painter_button_def)
qed (use assms in \<open>auto simp: file_menu_ok import_ok pres_pickDriveImageObject_def Let_def share_copy_def\<close>)

definition page_foreign_drop :: "page_ev \<Rightarrow> pres_page \<Rightarrow> bool" where
  "page_foreign_drop ev p = (case ev of PE_client ue \<Rightarrow> foreign_drop ue (op_client p) | _ \<Rightarrow> False)"

lemma page_foreign_drop_iff:
  "page_foreign_drop e q \<longleftrightarrow> (\<exists>w k t. e = PE_client (w, E_drop (Some k) t) \<and> k \<noteq> int t
     \<and> int (length (pr_slides (op_client q))) \<le> k)"
  by (auto simp: page_foreign_drop_def foreign_drop_def split: page_ev.splits pres_ev.splits option.splits)

interpretation page: failing_steps page_step page_ev_ok "\<lambda>p. pres_ok (op_client p)" page_foreign_drop
proof unfold_locales
  fix s :: pres_page and e s' assume "pres_ok (op_client s)" "page_ev_ok e s" "page_step e s = Some s'"
  then show "pres_ok (op_client s')" by (rule page_step_ok)
next
  fix s :: pres_page and e assume ok: "pres_ok (op_client s)"
  then show "page_step e s = None \<longleftrightarrow> page_foreign_drop e s"
    using client.step_fails [OF ok] menu_total [OF ok] by (cases e) (simp_all add: page_foreign_drop_def client_step_def)
qed

text \<open>A deck that loads into a client without checkpoints is well formed, whatever was there before.\<close>

lemma load_fresh_ok:
  assumes "loadable d" "pr_undoStack c = []" "pr_redoStack c = []"
  shows "pres_ok (loadDeck u True i (L_deck d) c)"
  using loaded_shape [OF assms(1), of u] assms(2,3)
  by (simp add: loadDeck_def Let_def render_ok pres_shape_def)

lemma boot_ok:
  assumes "requireAuthOrRedirect jwt now (op_session p) = (s, True)" "pathDeckId pathname = Some i"
    "status_ok (pq_load r)" "loadable (pq_deck r)" "op_client p = fresh_pres notes layout"
  shows "pres_ok (op_client (pres_boot jwt now u pathname r p))"
proof -
  have t: "requireToken s = (s, True)"
    using assms(1) by (auto simp: requireAuthOrRedirect_def requireToken_def split: if_splits)
  then show ?thesis
    using assms by (simp add: pres_boot_def load_deck_page_def deck_load_reply_def Let_def load_fresh_ok fresh_pres_def)
qed

text \<open>What a fetch appends to the requests of the page.\<close>

definition sent_line :: "office_request \<Rightarrow> string \<times> string" where
  "sent_line rq = (rq_method rq, rq_url rq)"

lemma fetch_line: "map sent_line (op_sent (officeFetch jwt (request m url hs b) st p)) = map sent_line (op_sent p) @ [(m, url)]"
  by (simp add: officeFetch_def Let_def sent_line_def request_def)

lemma fetch_auth:
  "map_of (rq_headers (last (op_sent (officeFetch jwt (request m url (authHeaders jwt (op_session p) []) b) st p)))) ''Authorization''
     = (if signed_in p then Some (''Bearer '' @ era_token (op_session p)) else None)"
  by (simp add: officeFetch_def Let_def request_def authHeaders_def auth_headers_def)

lemma save_page_lines:
  assumes "deckId (op_client p) = Some i"
  shows "map sent_line (op_sent (fst (save_deck_page jwt u q t st p)))
      = map sent_line (op_sent p) @ (if signed_in p then [(''PUT'', deck_url i)] else [])"
    "requests (op_client (fst (save_deck_page jwt u q t st p)))
      = requests (op_client p) @ (if signed_in p then [Put_deck (deck (op_client (fst (save_deck_page jwt u q t st p))))] else [])"
    "era_token (op_session (fst (save_deck_page jwt u q t st p))) = (if st = 401 then [] else era_token (op_session p))"
  using assms
  by (simp_all add: save_deck_page_def Let_def requireToken_def fetch_line saveDeck_def save_reply_arrives_def pr_emit_def pres_status_def
      officeFetch_session officeFetch_unauthorized split: save_reply.split)

section \<open>Properties\<close>

text \<open>
  C26. A session of the presentations page: a signed-in user opens the address of a deck and the
  service delivers one whose slides have distinct identifiers and no empty frame; then the user
  types, uses keys, menu, toolbar, filmstrip and the cards of the panels, saves, exports, imports,
  and the service replies as it likes, where new slides get fresh identifiers, clicks and drops go
  to items that exist, the layout is one of the selector and reloaded decks are as the first one.
  The session breaks exactly when a number not less than the number of slides (and not the item's own
  position) is dropped on the filmstrip, by text dragged from elsewhere, which puts an undefined
  entry into the deck. Otherwise the deck has
  a current slide, slides with distinct identifiers and three non-empty frames each, and so does
  every checkpoint; and the notes field and the layout selector belong to the current slide, so
  that writing them back changes no slide's notes and nothing but notes and layout of a slide.
\<close>

theorem pres_page_session:
  assumes "requireAuthOrRedirect jwt now (op_session p) = (s, True)" "pathDeckId pathname = Some i"
    "status_ok (pq_load r)" "loadable (pq_deck r)" "op_client p = fresh_pres notes layout"
    "p0 = pres_boot jwt now u pathname r p" "run_ok page_ev_ok page_step es p0"
  shows "(run_steps page_step es p0 = None \<longleftrightarrow>
      (\<exists>es1 w k t es2 q. es = es1 @ PE_client (w, E_drop (Some k) t) # es2 \<and> run_steps page_step es1 p0 = Some q
         \<and> k \<noteq> int t \<and> int (length (pr_slides (op_client q))) \<le> k))
    \<and> (\<forall>q. run_steps page_step es p0 = Some q \<longrightarrow>
        (let c = op_client q in pres_ok c
           \<and> map (or_empty \<circ> sl_notes) (pr_slides (flushEditorToModel v c)) = map (or_empty \<circ> sl_notes) (pr_slides c)
           \<and> map (\<lambda>s. s\<lparr>sl_notes := None, sl_layout := None\<rparr>) (pr_slides (flushEditorToModel v c))
               = map (\<lambda>s. s\<lparr>sl_notes := None, sl_layout := None\<rparr>) (pr_slides c)))"
proof -
  have ok: "pres_ok (op_client p0)" unfolding assms(6) by (rule boot_ok [OF assms(1-5)])
  have "run_steps page_step es p0 = None \<longleftrightarrow>
      (\<exists>es1 w k t es2 q. es = es1 @ PE_client (w, E_drop (Some k) t) # es2 \<and> run_steps page_step es1 p0 = Some q
         \<and> k \<noteq> int t \<and> int (length (pr_slides (op_client q))) \<le> k)" (is "_ \<longleftrightarrow> ?R")
  proof
    assume "run_steps page_step es p0 = None"
    then obtain es1 e es2 q where e: "es = es1 @ e # es2" "run_steps page_step es1 p0 = Some q" "page_foreign_drop e q"
      using page.run_fails [OF ok assms(7)] by blast
    from e(3) obtain w k t where "e = PE_client (w, E_drop (Some k) t)" "k \<noteq> int t" "int (length (pr_slides (op_client q))) \<le> k"
      unfolding page_foreign_drop_iff by blast
    with e(1,2) show ?R by blast
  next
    assume ?R
    then obtain es1 w k t es2 q where e: "es = es1 @ PE_client (w, E_drop (Some k) t) # es2" "run_steps page_step es1 p0 = Some q"
        "k \<noteq> int t" "int (length (pr_slides (op_client q))) \<le> k" by blast
    then have "page_foreign_drop (PE_client (w, E_drop (Some k) t)) q" unfolding page_foreign_drop_iff by blast
    with e(1,2) show "run_steps page_step es p0 = None"
      unfolding page.run_fails [OF ok assms(7)] by (intro exI conjI)
  qed
  moreover have "pres_ok (op_client q)" if "run_steps page_step es p0 = Some q" for q
    by (rule page.run_inv [OF ok assms(7) that])
  ultimately show ?thesis using flush_keeps(1,2) unfolding Let_def by blast
qed

definition sample_page :: pres_page where
  "sample_page = \<lparr> op_session = \<lparr> era_token = ''a.b.c'', pageAddress = ''/presentations/d'', href = None \<rparr>,
     op_store = [], op_search = [], op_origin = ''https://o'', op_sent = [], op_client = fresh_pres [] ''title_body'' \<rparr>"

definition sample_jwt :: "string \<Rightarrow> claims option" where
  "sample_jwt _ = Some \<lparr> cl_sub = Some ''u'', cl_email = None, cl_tenant_id = Some ''t'', cl_exp = No_exp \<rparr>"

definition sample_replies :: pres_replies where
  "sample_replies = \<lparr> pq_load = 200, pq_deck = deck sample_pres, pq_stamp = ''1'', pq_create = 201, pq_created = Some ''n'',
     pq_save = 500, pq_export = 200 \<rparr>"

theorem pres_page_session_witness:
  "let e = \<lparr> pn_ids = sample_ids, pn_sel = None, pn_mode = None, pn_picked = None, pn_typed = None \<rparr>;
       es = [PE_client (sample_ids, E_notes ''changed''), PE_menu e ''slide.new'', PE_layout_card 3,
             PE_client (sample_ids, E_drop (Some (- 1)) 0),
             PE_file sample_jwt sample_ids sample_replies ''Deck'' ''file.export'', PE_theme_card 5]
   in \<exists>q. run_steps page_step es (pres_boot sample_jwt 0 sample_ids ''/presentations/d'' sample_replies sample_page) = Some q
        \<and> pres_ok (op_client q)"
proof -
  let ?e = "\<lparr> pn_ids = sample_ids, pn_sel = None, pn_mode = None, pn_picked = None, pn_typed = None \<rparr>"
  let ?es = "[PE_client (sample_ids, E_notes ''changed''), PE_menu ?e ''slide.new'', PE_layout_card 3,
             PE_client (sample_ids, E_drop (Some (- 1)) 0),
             PE_file sample_jwt sample_ids sample_replies ''Deck'' ''file.export'', PE_theme_card 5]"
  let ?p0 = "pres_boot sample_jwt 0 sample_ids ''/presentations/d'' sample_replies sample_page"
  have "requireAuthOrRedirect sample_jwt 0 (op_session sample_page) = (op_session sample_page, True)" by code_simp
  moreover have "pathDeckId ''/presentations/d'' = Some ''d''" by code_simp
  moreover have "status_ok (pq_load sample_replies)" by code_simp
  moreover have "loadable (pq_deck sample_replies)" by code_simp
  moreover have "op_client sample_page = fresh_pres [] ''title_body''" by (simp add: sample_page_def)
  moreover have "run_ok page_ev_ok page_step ?es ?p0" by code_simp
  moreover have "run_steps page_step ?es ?p0 \<noteq> None" by code_simp
  ultimately show ?thesis
    using pres_page_session [of sample_jwt 0 sample_page "op_session sample_page" "''/presentations/d''" "''d''" sample_replies
        "[]" "''title_body''" ?p0 sample_ids ?es]
    unfolding Let_def not_None_eq by metis
qed

text \<open>
  C27. Exporting a deck: the page sends the save of the deck it shows, with the notes and the layout
  written back, and then the request for the file, in this order; the request for the file is sent
  whatever the service answers to the save, the file is reported ready exactly when that request
  succeeds, and after a save refused for an ended session it goes out without a token. Without a
  token nothing is saved and the request for the file is sent all the same.
\<close>

theorem pres_export_saved:
  assumes "deckId (op_client p) = Some i"
  shows "let (p', file) = exportBinary jwt u sf ext label title saved status p
    in map sent_line (op_sent p') = map sent_line (op_sent p) @ (if signed_in p then [(''PUT'', deck_url i)] else [])
         @ [(''POST'', deck_url i @ ''/export/'' @ sf)]
       \<and> requests (op_client p') = requests (op_client p) @ (if signed_in p then [Put_deck (deck (op_client p'))] else [])
       \<and> (file \<noteq> None) = status_ok status
       \<and> map_of (rq_headers (last (op_sent p'))) ''Authorization''
           = (if signed_in p \<and> saved \<noteq> 401 then Some (''Bearer '' @ era_token (op_session p)) else None)"
proof -
  let ?q = "pg_status (''Exporting '' @ label @ ''...'') False (fst (save_deck_page jwt u True title saved p))"
  have "deck (pres_status m b c) = deck c" "requests (pres_status m b c) = requests c" for m b c
    by (simp_all add: pres_status_def pr_emit_def)
  then show ?thesis
    using save_page_lines [OF assms] fetch_auth [of jwt "''POST''" "deck_url i @ ''/export/'' @ sf" ?q "[]" status] assms
    by (simp add: exportBinary_def Let_def fetch_line)
qed

theorem pres_export_saved_witness:
  "let p = sample_page\<lparr>op_client := sample_pres\<rparr>; (p', file) = exportBinary sample_jwt sample_ids ''pptx'' ''pptx'' ''pptx'' [] 401 200 p
   in map sent_line (op_sent p') = [(''PUT'', deck_url ''d''), (''POST'', deck_url ''d'' @ ''/export/pptx'')]
      \<and> file \<noteq> None \<and> map_of (rq_headers (last (op_sent p'))) ''Authorization'' = None"
proof -
  let ?p = "sample_page\<lparr>op_client := sample_pres\<rparr>"
  have "deckId (op_client ?p) = Some ''d''" "op_sent ?p = []" "signed_in ?p" "status_ok 200"
    by (simp_all add: sample_page_def sample_pres_def status_ok_def)
  with pres_export_saved [of ?p "''d''" sample_jwt sample_ids "''pptx''" "''pptx''" "''pptx''" "[]" 401 200]
  show ?thesis by (simp add: Let_def split_beta)
qed

end
