(* ===== verification/Board_Model.thy ===== *)
theory Board_Model
  imports Era_Strings Era_Arrays Complex_Main
begin

text \<open>
  The projects client (\<open>ui/projects/web/app.js\<close>): a board of tasks in four columns, drawn as
  columns, as swimlanes by assignee or as a timeline, with filters, drag and drop, an edit
  dialog and the requests to the service.

  Times are milliseconds: \<open>ms\<close> gives the local midnight of a date text (\<open>None\<close> for an invalid
  date) and \<open>today\<close> today's. \<open>loc\<close> is \<open>localeCompare\<close>, whose order depends on the browser's
  language. Sort keys are numbers of the language, taken exactly.
\<close>

section \<open>Tasks\<close>

record checklist_item =
  ci_id :: string
  ci_text :: string
  ci_done :: bool

record task =
  tk_id :: string
  tk_title :: string
  tk_board :: string
  tk_drive_object_id :: string
  tk_assignee :: string
  tk_due_date :: string
  tk_labels :: "string list"
  tk_checklist :: "checklist_item list"
  tk_priority :: string
  tk_sort_key :: rat

text \<open>A task as the service sends it; \<open>None\<close> for an absent key, for a value that is not an array, for no number.\<close>

record raw_task =
  rw_id :: string
  rw_title :: "string option"
  rw_board :: "string option"
  rw_drive_object_id :: "string option"
  rw_assignee :: "string option"
  rw_due_date :: "string option"
  rw_labels :: "string list option"
  rw_checklist :: "(string option \<times> string option \<times> bool) list option"
  rw_priority :: "string option"
  rw_sort_key :: "rat option"

definition COLUMNS :: "(string \<times> string) list" where
  "COLUMNS = [(''backlog'', ''Backlog''), (''todo'', ''Todo''), (''doing'', ''Doing''), (''done'', ''Done'')]"

definition column_ids :: "string list" where
  "column_ids = map fst COLUMNS"

definition normalizeBoard :: "string option \<Rightarrow> string" where
  "normalizeBoard b =
     (let i = to_lower (or_default b ''backlog'') in if i \<in> set column_ids then i else ''backlog'')"

definition nextBoard :: "string \<Rightarrow> string option" where
  "nextBoard current =
     (case find_index (\<lambda>c. c = current) column_ids of
        None \<Rightarrow> None
      | Some i \<Rightarrow> if i \<ge> length column_ids - 1 then None else Some (column_ids ! (i + 1)))"

definition prevBoard :: "string \<Rightarrow> string option" where
  "prevBoard current =
     (case find_index (\<lambda>c. c = current) column_ids of
        None \<Rightarrow> None
      | Some i \<Rightarrow> if i = 0 then None else Some (column_ids ! (i - 1)))"

definition parseLabelsInput :: "string \<Rightarrow> string list" where
  "parseLabelsInput raw = filter (\<lambda>s. s \<noteq> []) (map js_trim (split_char CHR '','' raw))"

definition normalizePriority :: "string option \<Rightarrow> string" where
  "normalizePriority p =
     (let v = to_lower (js_trim (or_empty p)) in if v \<in> {''p0'', ''p1'', ''p2''} then v else [])"

text \<open>\<open>cid i\<close> is the identifier the browser makes for item \<open>i\<close> of a checklist.\<close>

definition normalize_item :: "(nat \<Rightarrow> string) \<Rightarrow> nat \<times> (string option \<times> string option \<times> bool) \<Rightarrow> checklist_item" where
  "normalize_item cid it =
     (case it of (i, (iid, txt, dn)) \<Rightarrow> \<lparr> ci_id = or_default iid (cid i), ci_text = or_empty txt, ci_done = dn \<rparr>)"

definition normalizeTask :: "(nat \<Rightarrow> string) \<Rightarrow> raw_task \<Rightarrow> task" where
  "normalizeTask cid t =
     \<lparr> tk_id = rw_id t, tk_title = or_empty (rw_title t), tk_board = normalizeBoard (rw_board t),
       tk_drive_object_id = or_empty (rw_drive_object_id t), tk_assignee = or_empty (rw_assignee t),
       tk_due_date = or_empty (rw_due_date t),
       tk_labels = (case rw_labels t of None \<Rightarrow> [] | Some ls \<Rightarrow> filter (\<lambda>s. s \<noteq> []) (map js_trim ls)),
       tk_checklist = (case rw_checklist t of None \<Rightarrow> [] | Some cs \<Rightarrow> map (normalize_item cid) (enumerate 0 cs)),
       tk_priority = normalizePriority (rw_priority t),
       tk_sort_key = (case rw_sort_key t of None \<Rightarrow> 0 | Some k \<Rightarrow> k) \<rparr>"

definition checklistProgress :: "checklist_item list \<Rightarrow> nat \<times> nat" where
  "checklistProgress xs = (length (filter ci_done xs), length xs)"

section \<open>Dates\<close>

definition DAY_MS :: int where
  "DAY_MS = 86400000"

definition parseDueMs :: "(string \<Rightarrow> int option) \<Rightarrow> string \<Rightarrow> int option" where
  "parseDueMs ms due = (if due = [] then None else ms due)"

definition isOverdue :: "(string \<Rightarrow> int option) \<Rightarrow> int \<Rightarrow> string \<Rightarrow> bool" where
  "isOverdue ms today due = (if due = [] then False else (case ms due of None \<Rightarrow> False | Some d \<Rightarrow> d < today))"

definition dueChipClass :: "(string \<Rightarrow> int option) \<Rightarrow> int \<Rightarrow> string \<Rightarrow> string" where
  "dueChipClass ms today due =
     (if due = [] then []
      else (case ms due of None \<Rightarrow> []
            | Some d \<Rightarrow> if d - today < 0 then ''overdue'' else if d - today \<le> 3 * DAY_MS then ''due-soon'' else []))"

section \<open>Filters, order, lanes\<close>

record facets =
  filterText :: string
  filterAssignee :: string
  filterPriority :: string
  filterLabel :: string
  filterOverdue :: bool

definition matchesFilter :: "(string \<Rightarrow> int option) \<Rightarrow> int \<Rightarrow> facets \<Rightarrow> task \<Rightarrow> bool" where
  "matchesFilter ms today f t \<longleftrightarrow>
     (filterAssignee f = [] \<or>
        (let a = js_trim (tk_assignee t)
         in if filterAssignee f = ''__none__'' then a = [] else to_lower a = to_lower (filterAssignee f))) \<and>
     (filterPriority f = [] \<or> normalizePriority (Some (tk_priority t)) = filterPriority f) \<and>
     (filterLabel f = [] \<or> to_lower (filterLabel f) \<in> set (map to_lower (tk_labels t))) \<and>
     (filterOverdue f \<longrightarrow> isOverdue ms today (tk_due_date t)) \<and>
     (let q = to_lower (js_trim (filterText f))
      in q = [] \<or> str_includes q (to_lower (str_join '' '' [tk_title t, tk_assignee t, tk_drive_object_id t,
           tk_id t, str_join '' '' (tk_labels t), tk_priority t])))"

definition task_le :: "(string \<Rightarrow> string \<Rightarrow> int) \<Rightarrow> task \<Rightarrow> task \<Rightarrow> bool" where
  "task_le loc a b \<longleftrightarrow>
     (if tk_sort_key a \<noteq> tk_sort_key b then tk_sort_key a - tk_sort_key b \<le> 0 else loc (tk_id a) (tk_id b) \<le> 0)"

definition sortTasksInColumn :: "(string \<Rightarrow> string \<Rightarrow> int) \<Rightarrow> task list \<Rightarrow> task list" where
  "sortTasksInColumn loc xs = js_sort (task_le loc) xs"

text \<open>The loop that keeps the largest key, from 0.\<close>

definition lane_keys :: "string \<Rightarrow> string \<Rightarrow> task list \<Rightarrow> rat list" where
  "lane_keys board lane ts =
     map tk_sort_key (filter (\<lambda>t. normalizeBoard (Some (tk_board t)) = board \<and> js_trim (tk_assignee t) = lane) ts)"

definition nextSortKey :: "task list \<Rightarrow> string \<Rightarrow> string \<Rightarrow> rat" where
  "nextSortKey ts board assignee =
     foldl (\<lambda>m k. if k > m then k else m) 0 (lane_keys board (js_trim assignee) ts) + 1"

definition knownAssignees :: "(string \<Rightarrow> string \<Rightarrow> int) \<Rightarrow> string \<Rightarrow> task list \<Rightarrow> string list" where
  "knownAssignees loc uid ts =
     js_sort (\<lambda>a b. loc a b \<le> 0) (js_set ((if uid = [] then [] else [uid]) @
       filter (\<lambda>a. a \<noteq> []) (map (\<lambda>t. js_trim (tk_assignee t)) ts)))"

definition assigneeLaneKey :: "task \<Rightarrow> string" where
  "assigneeLaneKey t = or_default (Some (js_trim (tk_assignee t))) ''Unassigned''"

definition swimlaneKeys :: "(string \<Rightarrow> string \<Rightarrow> int) \<Rightarrow> task list \<Rightarrow> string list" where
  "swimlaneKeys loc visible =
     (let keys = js_set (map assigneeLaneKey visible);
          named = js_sort (\<lambda>a b. loc a b \<le> 0) (filter (\<lambda>k. k \<noteq> ''Unassigned'') keys)
      in if ''Unassigned'' \<in> set keys \<or> named = [] then named @ [''Unassigned''] else named)"

section \<open>What is drawn\<close>

type_synonym column_view = "string \<times> nat \<times> task list"

definition createColumnEl :: "(string \<Rightarrow> string \<Rightarrow> int) \<Rightarrow> string \<times> string \<Rightarrow> task list \<Rightarrow> column_view" where
  "createColumnEl loc col ts = (fst col, length ts, sortTasksInColumn loc ts)"

definition columns_of :: "(string \<Rightarrow> string \<Rightarrow> int) \<Rightarrow> task list \<Rightarrow> column_view list" where
  "columns_of loc ts = map (\<lambda>col. createColumnEl loc col (filter (\<lambda>t. normalizeBoard (Some (tk_board t)) = fst col) ts)) COLUMNS"

record gantt_bar =
  gb_task :: string
  gb_left :: int
  gb_width :: int
  gb_done :: bool
  gb_overdue :: bool

record gantt =
  gt_min :: int
  gt_days :: int
  gt_bars :: "gantt_bar list"

text \<open>\<open>Math.round(a / b)\<close> for a positive \<open>b\<close>: the nearest integer, halves upwards.\<close>

definition js_round_div :: "int \<Rightarrow> int \<Rightarrow> int" where
  "js_round_div a b = (2 * a + b) div (2 * b)"

definition gantt_bar_of :: "(string \<Rightarrow> int option) \<Rightarrow> int \<Rightarrow> int \<Rightarrow> task \<Rightarrow> gantt_bar" where
  "gantt_bar_of ms today mn t =
     (let stop = the (parseDueMs ms (tk_due_date t)); start = stop - 2 * DAY_MS;
          dn = (normalizeBoard (Some (tk_board t)) = ''done'')
      in \<lparr> gb_task = tk_id t, gb_left = max 0 (js_round_div (start - mn) DAY_MS),
           gb_width = max 1 (js_round_div (stop - start) DAY_MS + 1), gb_done = dn,
           gb_overdue = (isOverdue ms today (tk_due_date t) \<and> \<not> dn) \<rparr>)"

text \<open>\<open>None\<close> is the hint that no task has a due date.\<close>

definition renderGantt :: "(string \<Rightarrow> int option) \<Rightarrow> int \<Rightarrow> task list \<Rightarrow> gantt option" where
  "renderGantt ms today visible =
     (let withDates = filter (\<lambda>t. parseDueMs ms (tk_due_date t) \<noteq> None) visible;
          ends = map (\<lambda>t. the (parseDueMs ms (tk_due_date t))) withDates
      in if withDates = [] then None
         else (let mn = Min (set (map (\<lambda>e. e - 2 * DAY_MS) ends)) - DAY_MS;
                   mx = Max (set ends) + 2 * DAY_MS
               in Some \<lparr> gt_min = mn, gt_days = max 7 (js_round_div (mx - mn) DAY_MS + 1),
                    gt_bars = map (gantt_bar_of ms today mn)
                      (js_sort (\<lambda>a b. the (parseDueMs ms (tk_due_date a)) - the (parseDueMs ms (tk_due_date b)) \<le> 0) withDates) \<rparr>))"

datatype board_view =
    V_board "column_view list"
  | V_lanes "(string \<times> nat \<times> column_view list) list"
  | V_gantt "gantt option"

definition view_of :: "(string \<Rightarrow> string \<Rightarrow> int) \<Rightarrow> (string \<Rightarrow> int option) \<Rightarrow> int \<Rightarrow> string \<Rightarrow> task list \<Rightarrow> board_view" where
  "view_of loc ms today mode visible =
     (if mode = ''gantt'' then V_gantt (renderGantt ms today visible)
      else if mode = ''swimlanes''
      then V_lanes (map (\<lambda>lane. let ts = filter (\<lambda>t. assigneeLaneKey t = lane) visible in (lane, length ts, columns_of loc ts))
             (swimlaneKeys loc visible))
      else V_board (columns_of loc visible))"

text \<open>What a card shows: title, chips with their classes, checklist, link, buttons.\<close>

record card =
  cd_title :: string
  cd_chips :: "(string \<times> string) list"
  cd_checklist :: "(bool \<times> string) list"
  cd_link :: "string option"
  cd_back :: "string option"
  cd_forward :: "string option"

definition renderCard :: "(string \<Rightarrow> int option) \<Rightarrow> int \<Rightarrow> task \<Rightarrow> card" where
  "renderCard ms today t =
     (let (dn, total) = checklistProgress (tk_checklist t); board = normalizeBoard (Some (tk_board t))
      in \<lparr> cd_title = or_default (Some (tk_title t)) ''(untitled)'',
           cd_chips =
             (if tk_priority t \<noteq> [] then [(''chip priority priority-'' @ tk_priority t, to_upper (tk_priority t))] else [])
             @ (if tk_assignee t \<noteq> [] then [(''chip'', ''@'' @ tk_assignee t)] else [])
             @ (if tk_due_date t \<noteq> [] then [(''chip '' @ dueChipClass ms today (tk_due_date t), tk_due_date t)] else [])
             @ map (\<lambda>l. (''chip label'', l)) (tk_labels t)
             @ (if total > 0 then [(''chip checklist-prog'', nat_str dn @ ''/'' @ nat_str total)] else []),
           cd_checklist = map (\<lambda>i. (ci_done i, or_default (Some (ci_text i)) ''(item)'')) (tk_checklist t),
           cd_link = or_undefined (Some (tk_drive_object_id t)),
           cd_back = prevBoard board, cd_forward = nextBoard board \<rparr>)"

end
