(* ===== verification/Board_App.thy ===== *)
theory Board_App
  imports Board_Model
begin

text \<open>
  The handlers of the projects client (\<open>ui/projects/web/app.js\<close>): loading, adding, moving,
  deleting and editing tasks, drag and drop, the view mode, the facets and the Drive picker.

  A handler that awaits the service takes the reply as an argument: \<open>None\<close> is success, \<open>Some st\<close>
  the status of a failure. The environment record \<open>benv\<close> holds what the browser supplies.
\<close>

record benv =
  e_loc :: "string \<Rightarrow> string \<Rightarrow> int"
  e_ms :: "string \<Rightarrow> int option"
  e_today :: int
  e_user :: string
  e_cid :: "nat \<Rightarrow> string"

datatype board_request =
    Create_task task
  | Save_task task
  | Delete_task string
  | Rename_board string

datatype board_event =
    B_status string bool
  | B_view board_view
  | B_title string
  | B_stats nat nat
  | B_drive_label string

record checklist_comment =
  bc_id :: string
  bc_text :: string
  bc_author :: string

record board =
  tasks :: "task list"
  boardName :: string
  bd_facets :: facets
  viewMode :: string
  savedViewMode :: "string option"
  asgSelect :: string
  labelSelect :: string
  dragTaskId :: "string option"
  selectedTaskId :: string
  editTaskId :: string
  editChecklistDraft :: "checklist_item list"
  pickerSelectedId :: string
  pickerSelectedName :: string
  pickerFolderStack :: "string list"
  driveObjectId :: string
  boardComments :: "checklist_comment list"
  bd_requests :: "board_request list"
  bd_ui :: "board_event list"

definition bd_emit :: "board_event \<Rightarrow> board \<Rightarrow> board" where
  "bd_emit e b = b\<lparr>bd_ui := bd_ui b @ [e]\<rparr>"

definition board_status :: "string \<Rightarrow> bool \<Rightarrow> board \<Rightarrow> board" where
  "board_status msg isErr b = bd_emit (B_status msg isErr) b"

definition bd_send :: "board_request \<Rightarrow> board \<Rightarrow> board" where
  "bd_send r b = b\<lparr>bd_requests := bd_requests b @ [r]\<rparr>"

definition updateBoardTitle :: "board \<Rightarrow> board" where
  "updateBoardTitle b = bd_emit (B_title (or_default (Some (boardName b)) ''Board'')) b"

definition updateBoardStats :: "board \<Rightarrow> board" where
  "updateBoardStats b =
     bd_emit (B_stats (length (tasks b)) (length (filter (\<lambda>t. normalizeBoard (Some (tk_board t)) = ''done'') (tasks b)))) b"

definition updateDriveLabel :: "board \<Rightarrow> board" where
  "updateDriveLabel b = bd_emit (B_drive_label (if driveObjectId b = [] then [] else ''Linked: '' @ driveObjectId b)) b"

definition visible_tasks :: "benv \<Rightarrow> board \<Rightarrow> task list" where
  "visible_tasks e b = filter (matchesFilter (e_ms e) (e_today e) (bd_facets b)) (tasks b)"

definition has_task :: "string \<Rightarrow> task list \<Rightarrow> bool" where
  "has_task tid ts = list_ex (\<lambda>t. tk_id t = tid) ts"

definition renderBoard :: "benv \<Rightarrow> board \<Rightarrow> board" where
  "renderBoard e b =
     (let b1 = bd_emit (B_view (view_of (e_loc e) (e_ms e) (e_today e) (viewMode b) (visible_tasks e b)))
                 (updateBoardStats (updateBoardTitle b))
      in if selectedTaskId b \<noteq> [] \<and> \<not> has_task (selectedTaskId b) (tasks b) then b1\<lparr>selectedTaskId := []\<rparr> else b1)"

definition selectedTask :: "board \<Rightarrow> task option" where
  "selectedTask b = find (\<lambda>t. tk_id t = selectedTaskId b) (tasks b)"

definition selectTask :: "string \<Rightarrow> board \<Rightarrow> board" where
  "selectTask tid b = b\<lparr>selectedTaskId := tid\<rparr>"

section \<open>View mode and facets\<close>

definition loadViewModePref :: "board \<Rightarrow> board" where
  "loadViewModePref b =
     (case savedViewMode b of None \<Rightarrow> b
      | Some v \<Rightarrow> if v \<in> {''swimlanes'', ''board'', ''gantt''} then b\<lparr>viewMode := v\<rparr> else b)"

definition setViewMode :: "benv \<Rightarrow> string \<Rightarrow> board \<Rightarrow> board" where
  "setViewMode e mode b =
     (let m = (if mode = ''swimlanes'' then ''swimlanes'' else if mode = ''gantt'' then ''gantt'' else ''board'');
          b1 = renderBoard e (b\<lparr>viewMode := m, savedViewMode := Some m\<rparr>)
      in board_status (if m = ''swimlanes'' then ''Swimlanes view'' else if m = ''gantt'' then ''Gantt view'' else ''Board view'') False b1)"

text \<open>
  The options of the two facet selectors are rebuilt; assigning the old value to a selector
  that has no such option any more leaves it at the empty value.
\<close>

definition refreshFacetOptions :: "benv \<Rightarrow> board \<Rightarrow> board" where
  "refreshFacetOptions e b =
     (let asgs = ''__none__'' # knownAssignees (e_loc e) (e_user e) (tasks b);
          labels = concat (map tk_labels (tasks b))
      in b\<lparr>asgSelect := (if asgSelect b \<in> set asgs then asgSelect b else []),
           labelSelect := (if labelSelect b \<in> set labels then labelSelect b else [])\<rparr>)"

definition assignee_facet :: "benv \<Rightarrow> string \<Rightarrow> board \<Rightarrow> board" where
  "assignee_facet e v b = renderBoard e (b\<lparr>asgSelect := v, bd_facets := (bd_facets b)\<lparr>filterAssignee := v\<rparr>\<rparr>)"

definition priority_facet :: "benv \<Rightarrow> string \<Rightarrow> board \<Rightarrow> board" where
  "priority_facet e v b = renderBoard e (b\<lparr>bd_facets := (bd_facets b)\<lparr>filterPriority := normalizePriority (Some v)\<rparr>\<rparr>)"

definition label_facet :: "benv \<Rightarrow> string \<Rightarrow> board \<Rightarrow> board" where
  "label_facet e v b = renderBoard e (b\<lparr>labelSelect := v, bd_facets := (bd_facets b)\<lparr>filterLabel := v\<rparr>\<rparr>)"

definition overdue_facet :: "benv \<Rightarrow> bool \<Rightarrow> board \<Rightarrow> board" where
  "overdue_facet e v b = renderBoard e (b\<lparr>bd_facets := (bd_facets b)\<lparr>filterOverdue := v\<rparr>\<rparr>)"

definition text_facet :: "benv \<Rightarrow> string \<Rightarrow> board \<Rightarrow> board" where
  "text_facet e v b = renderBoard e (b\<lparr>bd_facets := (bd_facets b)\<lparr>filterText := v\<rparr>\<rparr>)"

section \<open>Loading\<close>

definition loadBoardMeta :: "bool \<Rightarrow> string option option \<Rightarrow> board \<Rightarrow> board" where
  "loadBoardMeta project reply b =
     (case reply of None \<Rightarrow> b
      | Some name \<Rightarrow> updateBoardTitle (b\<lparr>boardName := or_default name (if project then ''Board.eraj'' else ''Board'')\<rparr>))"

text \<open>The replies of a load: the board's name (\<open>None\<close> when that request fails) and the tasks or a status.\<close>

record load_result =
  lr_token :: bool
  lr_name :: "string option option"
  lr_tasks :: "nat + raw_task list"

definition loadTasks :: "benv \<Rightarrow> bool \<Rightarrow> load_result \<Rightarrow> board \<Rightarrow> board" where
  "loadTasks e project lr b =
     (if \<not> lr_token lr
      then renderBoard e ((board_status ''Sign in via Drive first (era_token).'' True b)\<lparr>tasks := []\<rparr>)
      else (let b1 = loadBoardMeta project (lr_name lr) b in
            case lr_tasks lr of
              Inl st \<Rightarrow> board_status (''Load failed: '' @ nat_str st) True b1
            | Inr raws \<Rightarrow>
                (let b2 = refreshFacetOptions e (b1\<lparr>tasks := map (normalizeTask (e_cid e)) raws\<rparr>)
                 in renderBoard e (board_status ((if project then ''.eraj '' else []) @ ''Board loaded - ''
                      @ nat_str (length (tasks b2)) @ '' task(s)'') False b2))))"

definition renameBoard :: "string option \<Rightarrow> (nat + string option) \<Rightarrow> board \<Rightarrow> board" where
  "renameBoard answer reply b =
     (if js_trim (or_empty answer) = [] then b
      else (let nm = js_trim (or_empty answer); b1 = bd_send (Rename_board nm) b in
            case reply of
              Inl st \<Rightarrow> board_status (''Rename failed: '' @ nat_str st) True b1
            | Inr name \<Rightarrow> board_status ''Board renamed'' False (updateBoardTitle (b1\<lparr>boardName := or_default name nm\<rparr>))))"

section \<open>Saving, moving, deleting\<close>

text \<open>\<open>normalizeTask\<close> on a task of the client, which has all its keys.\<close>

definition as_raw :: "task \<Rightarrow> raw_task" where
  "as_raw t =
     \<lparr> rw_id = tk_id t, rw_title = Some (tk_title t), rw_board = Some (tk_board t),
       rw_drive_object_id = Some (tk_drive_object_id t), rw_assignee = Some (tk_assignee t),
       rw_due_date = Some (tk_due_date t), rw_labels = Some (tk_labels t),
       rw_checklist = Some (map (\<lambda>i. (Some (ci_id i), Some (ci_text i), ci_done i)) (tk_checklist t)),
       rw_priority = Some (tk_priority t), rw_sort_key = Some (tk_sort_key t) \<rparr>"

definition taskPayload :: "benv \<Rightarrow> task \<Rightarrow> task" where
  "taskPayload e t = normalizeTask (e_cid e) (as_raw t)"

text \<open>The flag says whether the save succeeded.\<close>

definition saveTask :: "benv \<Rightarrow> task \<Rightarrow> nat option \<Rightarrow> board \<Rightarrow> bool \<times> board" where
  "saveTask e t failure b =
     (let b1 = bd_send (Save_task (taskPayload e t)) b
      in (case failure of None \<Rightarrow> (True, b1)
          | Some st \<Rightarrow> (False, board_status (''Save failed: '' @ nat_str st) True b1)))"

record task_patch =
  pt_board :: string
  pt_assignee :: "string option"
  pt_sort_key :: rat

definition moveTaskFull :: "benv \<Rightarrow> bool \<Rightarrow> task \<Rightarrow> task_patch \<Rightarrow> nat option \<Rightarrow> load_result \<Rightarrow> board \<Rightarrow> board" where
  "moveTaskFull e project t patch failure lr b =
     (let t' = t\<lparr>tk_board := pt_board patch,
                 tk_assignee := (case pt_assignee patch of None \<Rightarrow> tk_assignee t | Some a \<Rightarrow> a),
                 tk_sort_key := pt_sort_key patch\<rparr>;
          (ok, b1) = saveTask e t' failure b;
          bits = (if pt_board patch \<noteq> [] then [pt_board patch] else [])
            @ (case pt_assignee patch of None \<Rightarrow> [] | Some a \<Rightarrow> [if a \<noteq> [] then ''@'' @ a else ''Unassigned''])
      in if \<not> ok then b1
         else loadTasks e project lr (board_status (''Moved'' @ (if bits \<noteq> [] then '' > '' @ str_join '' - '' bits else [])) False b1))"

definition moveTask :: "benv \<Rightarrow> bool \<Rightarrow> task \<Rightarrow> string \<Rightarrow> nat option \<Rightarrow> load_result \<Rightarrow> board \<Rightarrow> board" where
  "moveTask e project t col failure lr b =
     moveTaskFull e project t \<lparr> pt_board = col, pt_assignee = None, pt_sort_key = nextSortKey (tasks b) col (tk_assignee t) \<rparr> failure lr b"

text \<open>
  A drop on column \<open>col\<close>; \<open>lane\<close> is the swimlane around the column, if any. The transferred
  text is the dragged task's identifier, or else the module variable is used.
\<close>

definition dragged :: "string \<Rightarrow> board \<Rightarrow> task option" where
  "dragged data b = (let tid = (if data \<noteq> [] then data else or_empty (dragTaskId b)) in find (\<lambda>t. tk_id t = tid) (tasks b))"

definition lane_assignee :: "string \<Rightarrow> string" where
  "lane_assignee lane = (let l = or_default (Some lane) ''Unassigned'' in if l = ''Unassigned'' then [] else l)"

definition drop_is_noop :: "task \<Rightarrow> string \<Rightarrow> string \<Rightarrow> rat \<Rightarrow> bool" where
  "drop_is_noop t col assignee key \<longleftrightarrow>
     normalizeBoard (Some (tk_board t)) = col \<and> js_trim (tk_assignee t) = js_trim assignee \<and>
     tk_sort_key t \<ge> key - 1 / 1000 \<and> key > 1"

definition drop_on_column ::
  "benv \<Rightarrow> bool \<Rightarrow> string \<Rightarrow> string option \<Rightarrow> string \<Rightarrow> nat option \<Rightarrow> load_result \<Rightarrow> board \<Rightarrow> board" where
  "drop_on_column e project col lane data failure lr b =
     (case dragged data b of None \<Rightarrow> b
      | Some t \<Rightarrow>
          (let assignee = (case lane of Some l \<Rightarrow> if viewMode b = ''swimlanes'' then lane_assignee l else tk_assignee t
                           | None \<Rightarrow> tk_assignee t);
               key = nextSortKey (tasks b) col assignee
           in if drop_is_noop t col assignee key then b
              else moveTaskFull e project t \<lparr> pt_board = col, pt_assignee = Some assignee, pt_sort_key = key \<rparr> failure lr b))"

definition drop_on_lane ::
  "benv \<Rightarrow> bool \<Rightarrow> string \<Rightarrow> string \<Rightarrow> nat option \<Rightarrow> load_result \<Rightarrow> board \<Rightarrow> board" where
  "drop_on_lane e project lane data failure lr b =
     (case dragged data b of None \<Rightarrow> b
      | Some t \<Rightarrow>
          (let assignee = lane_assignee lane; col = normalizeBoard (Some (tk_board t))
           in if js_trim (tk_assignee t) = js_trim assignee then b
              else moveTaskFull e project t
                     \<lparr> pt_board = col, pt_assignee = Some assignee, pt_sort_key = nextSortKey (tasks b) col assignee \<rparr> failure lr b))"

definition deleteTask :: "benv \<Rightarrow> bool \<Rightarrow> string \<Rightarrow> nat option \<Rightarrow> load_result \<Rightarrow> board \<Rightarrow> board" where
  "deleteTask e project tid failure lr b =
     (let b1 = bd_send (Delete_task tid) b in
      case failure of
        Some st \<Rightarrow> if st \<noteq> 204 then board_status (''Delete failed: '' @ nat_str st) True b1
                   else loadTasks e project lr (board_status ''Task deleted'' False
                          (if selectedTaskId b1 = tid then b1\<lparr>selectedTaskId := []\<rparr> else b1))
      | None \<Rightarrow> loadTasks e project lr (board_status ''Task deleted'' False
                  (if selectedTaskId b1 = tid then b1\<lparr>selectedTaskId := []\<rparr> else b1)))"

text \<open>The fields of the form for a new task.\<close>

record new_task_form =
  nf_title :: string
  nf_assignee :: string
  nf_priority :: string
  nf_due :: string

definition addTask :: "benv \<Rightarrow> bool \<Rightarrow> bool \<Rightarrow> new_task_form \<Rightarrow> nat option \<Rightarrow> load_result \<Rightarrow> board \<Rightarrow> board" where
  "addTask e token project nf failure lr b =
     (if \<not> token then board_status ''Sign in via Drive first (era_token).'' True b
      else if js_trim (nf_title nf) = [] then board_status ''Title required'' True b
      else (let assignee = js_trim (nf_assignee nf);
                body = \<lparr> tk_id = [], tk_title = js_trim (nf_title nf), tk_board = ''backlog'',
                  tk_drive_object_id = js_trim (driveObjectId b), tk_assignee = assignee, tk_due_date = nf_due nf,
                  tk_labels = [], tk_checklist = [], tk_priority = normalizePriority (Some (nf_priority nf)),
                  tk_sort_key = nextSortKey (tasks b) ''backlog'' assignee \<rparr>;
                b1 = bd_send (Create_task body) b
            in (case failure of
                  Some st \<Rightarrow> board_status (''Create failed: '' @ nat_str st) True b1
                | None \<Rightarrow> loadTasks e project lr (board_status ''Task created'' False
                            (updateDriveLabel (b1\<lparr>driveObjectId := []\<rparr>))))))"

definition toggleChecklistItem :: "benv \<Rightarrow> bool \<Rightarrow> string \<Rightarrow> string \<Rightarrow> bool \<Rightarrow> nat option \<Rightarrow> load_result \<Rightarrow> board \<Rightarrow> board" where
  "toggleChecklistItem e project tid iid dn failure lr b =
     (case find (\<lambda>t. tk_id t = tid) (tasks b) of None \<Rightarrow> b
      | Some t \<Rightarrow>
          (let t' = t\<lparr>tk_checklist := map (\<lambda>i. if ci_id i = iid then i\<lparr>ci_done := dn\<rparr> else i) (tk_checklist t)\<rparr>;
               (ok, b1) = saveTask e t' failure b
           in if ok then loadTasks e project lr b1 else b1))"

section \<open>The edit dialog\<close>

record edit_form =
  ef_title :: string
  ef_assignee :: string
  ef_due :: string
  ef_priority :: string
  ef_labels :: string

text \<open>\<open>openEditTask\<close>: the fields it fills and the checklist draft.\<close>

definition openEditTask :: "benv \<Rightarrow> task \<Rightarrow> board \<Rightarrow> edit_form \<times> board" where
  "openEditTask e t b =
     (\<lparr> ef_title = tk_title t, ef_assignee = tk_assignee t, ef_due = tk_due_date t, ef_priority = tk_priority t,
        ef_labels = str_join '', '' (tk_labels t) \<rparr>,
      b\<lparr>editTaskId := tk_id t,
        editChecklistDraft := map (\<lambda>(i, it). it\<lparr>ci_id := or_default (Some (ci_id it)) (e_cid e i)\<rparr>) (enumerate 0 (tk_checklist t))\<rparr>)"

definition addEditChecklistItem :: "string \<Rightarrow> string \<Rightarrow> board \<Rightarrow> board" where
  "addEditChecklistItem newId txt b =
     (if js_trim txt = [] then b
      else b\<lparr>editChecklistDraft := editChecklistDraft b @ [\<lparr> ci_id = newId, ci_text = js_trim txt, ci_done = False \<rparr>]\<rparr>)"

text \<open>The inputs of the rows of the draft: the check box, the text, the remove button.\<close>

definition draft_done :: "nat \<Rightarrow> bool \<Rightarrow> board \<Rightarrow> board" where
  "draft_done i v b = b\<lparr>editChecklistDraft := (editChecklistDraft b)[i := (editChecklistDraft b ! i)\<lparr>ci_done := v\<rparr>]\<rparr>"

definition draft_text :: "nat \<Rightarrow> string \<Rightarrow> board \<Rightarrow> board" where
  "draft_text i v b = b\<lparr>editChecklistDraft := (editChecklistDraft b)[i := (editChecklistDraft b ! i)\<lparr>ci_text := v\<rparr>]\<rparr>"

definition draft_remove :: "nat \<Rightarrow> board \<Rightarrow> board" where
  "draft_remove i b = b\<lparr>editChecklistDraft := splice_del i (editChecklistDraft b)\<rparr>"

definition edited_task :: "benv \<Rightarrow> edit_form \<Rightarrow> checklist_item list \<Rightarrow> task \<Rightarrow> task" where
  "edited_task e ef draft t =
     t\<lparr>tk_title := or_default (Some (js_trim (ef_title ef))) (tk_title t), tk_assignee := js_trim (ef_assignee ef),
       tk_due_date := ef_due ef, tk_priority := normalizePriority (Some (ef_priority ef)),
       tk_labels := parseLabelsInput (ef_labels ef),
       tk_checklist := filter (\<lambda>i. ci_text i \<noteq> [])
         (map (\<lambda>(k, i). i\<lparr>ci_id := or_default (Some (ci_id i)) (e_cid e k), ci_text := js_trim (ci_text i)\<rparr>) (enumerate 0 draft))\<rparr>"

text \<open>The task object of the client is changed before the request is sent.\<close>

definition commitEditTask :: "benv \<Rightarrow> bool \<Rightarrow> edit_form \<Rightarrow> nat option \<Rightarrow> load_result \<Rightarrow> board \<Rightarrow> board" where
  "commitEditTask e project ef failure lr b =
     (case find (\<lambda>t. tk_id t = editTaskId b) (tasks b) of None \<Rightarrow> b
      | Some t \<Rightarrow>
          (let t' = edited_task e ef (editChecklistDraft b) t;
               b1 = b\<lparr>tasks := upd_first (\<lambda>t. tk_id t = editTaskId b) (\<lambda>_. t') (tasks b)\<rparr>;
               (ok, b2) = saveTask e t' failure b1
           in if ok then loadTasks e project lr (board_status ''Task updated'' False b2) else b2))"

definition requireSelectedTask :: "board \<Rightarrow> task option \<times> board" where
  "requireSelectedTask b =
     (case selectedTask b of Some t \<Rightarrow> (Some t, b)
      | None \<Rightarrow> (None, board_status ''Select a task first (click a card)'' True b))"

text \<open>The menu commands open the edit dialog on the selected task.\<close>

definition editLabelsMenu :: "benv \<Rightarrow> board \<Rightarrow> edit_form option \<times> board" where
  "editLabelsMenu e b =
     (case requireSelectedTask b of (None, b') \<Rightarrow> (None, b')
      | (Some t, b') \<Rightarrow> (let (ef, b2) = openEditTask e t b' in (Some ef, b2)))"

section \<open>Comments and the Drive picker\<close>

definition addBoardComment :: "benv \<Rightarrow> string \<Rightarrow> string \<Rightarrow> board \<Rightarrow> board" where
  "addBoardComment e newId txt b =
     (if js_trim txt = [] then b
      else b\<lparr>boardComments := \<lparr> bc_id = newId, bc_text = js_trim txt, bc_author = e_user e \<rparr> # boardComments b\<rparr>)"

definition pickerFolderId :: "board \<Rightarrow> string" where
  "pickerFolderId b = (if pickerFolderStack b = [] then [] else last (pickerFolderStack b))"

definition picker_reload :: "board \<Rightarrow> board" where
  "picker_reload b = b\<lparr>pickerSelectedId := [], pickerSelectedName := []\<rparr>"

definition openDrivePicker :: "board \<Rightarrow> board" where
  "openDrivePicker b = picker_reload (b\<lparr>pickerFolderStack := [[]]\<rparr>)"

definition picker_up :: "board \<Rightarrow> board" where
  "picker_up b = (if length (pickerFolderStack b) > 1 then picker_reload (b\<lparr>pickerFolderStack := butlast (pickerFolderStack b)\<rparr>) else b)"

definition picker_enter :: "string \<Rightarrow> board \<Rightarrow> board" where
  "picker_enter fid b = (if fid = [] then b else picker_reload (b\<lparr>pickerFolderStack := pickerFolderStack b @ [fid]\<rparr>))"

definition picker_select :: "string \<Rightarrow> string \<Rightarrow> board \<Rightarrow> board" where
  "picker_select i nm b = b\<lparr>pickerSelectedId := i, pickerSelectedName := nm\<rparr>"

definition picker_closed :: "string \<Rightarrow> board \<Rightarrow> board" where
  "picker_closed v b =
     (if v = ''ok'' \<and> pickerSelectedId b \<noteq> []
      then board_status (''Linked '' @ or_default (Some (pickerSelectedName b)) (pickerSelectedId b)) False
             (updateDriveLabel (b\<lparr>driveObjectId := pickerSelectedId b\<rparr>))
      else if v = ''clear'' then updateDriveLabel (b\<lparr>driveObjectId := []\<rparr>) else b)"

text \<open>The project the page was opened for; the decoding of the path is the browser's.\<close>

definition pathProjectId :: "(string \<Rightarrow> string) \<Rightarrow> string \<Rightarrow> string" where
  "pathProjectId decode pathname =
     (let parts = filter (\<lambda>s. s \<noteq> []) (split_char CHR ''/'' pathname)
      in case find_index (\<lambda>s. s = ''projects'') parts of
           None \<Rightarrow> []
         | Some i \<Rightarrow> if i \<ge> length parts - 1 then [] else decode (parts ! (i + 1)))"

end
