(* ===== verification/Board_Laws.thy ===== *)
theory Board_Laws
  imports Board_App
begin

text \<open>
  Laws of the projects client: the partition of the visible tasks into columns and
  lanes, the sort key of a moved task, the geometry of the timeline, the edit dialog.
\<close>

section \<open>Columns and lanes\<close>

lemma normalizeBoard_column [simp]: "normalizeBoard b \<in> set column_ids"
  by (simp add: normalizeBoard_def Let_def) (simp add: column_ids_def COLUMNS_def)

lemma mset_filter_partition:
  assumes "distinct ks" "\<forall>x\<in>set xs. f x \<in> set ks"
  shows "(\<Sum>k\<leftarrow>ks. mset (filter (\<lambda>x. f x = k) xs)) = mset xs"
  using assms(2)
proof (induction xs)
  case Nil
  then show ?case by (induction ks) simp_all
next
  case (Cons x xs)
  have "(\<Sum>k\<leftarrow>ks. mset (filter (\<lambda>y. f y = k) (x # xs)))
      = (\<Sum>k\<leftarrow>ks. if f x = k then {#x#} else {#}) + (\<Sum>k\<leftarrow>ks. mset (filter (\<lambda>y. f y = k) xs))"
    by (induction ks) auto
  moreover have "(\<Sum>k\<leftarrow>ks. if f x = k then {#x#} else {#}) = {#x#}"
    using assms(1) Cons.prems by (simp add: sum_list_distinct_conv_sum_set)
  ultimately show ?case using Cons by simp
qed

definition column_cards :: "column_view list \<Rightarrow> task multiset" where
  "column_cards cols = (\<Sum>c\<leftarrow>cols. mset (snd (snd c)))"

definition column_counts :: "column_view list \<Rightarrow> bool" where
  "column_counts cols \<longleftrightarrow> (\<forall>c\<in>set cols. fst (snd c) = length (snd (snd c)))"

lemma columns_of_cards: "column_cards (columns_of loc ts) = mset ts"
proof -
  have "(\<Sum>k\<leftarrow>column_ids. mset (filter (\<lambda>t. normalizeBoard (Some (tk_board t)) = k) ts)) = mset ts"
  proof (rule mset_filter_partition)
    show "distinct column_ids" by (simp add: column_ids_def COLUMNS_def)
  qed simp
  then show ?thesis
    by (simp add: column_cards_def columns_of_def createColumnEl_def sortTasksInColumn_def column_ids_def comp_def)
qed

lemma columns_of_counts: "column_counts (columns_of loc ts)"
  by (auto simp: column_counts_def columns_of_def createColumnEl_def sortTasksInColumn_def)
    (metis mset_js_sort size_mset)

lemma swimlanes_cover:
  "distinct (swimlaneKeys loc visible)" "\<forall>t\<in>set visible. assigneeLaneKey t \<in> set (swimlaneKeys loc visible)"
proof -
  show "distinct (swimlaneKeys loc visible)" by (auto simp: swimlaneKeys_def Let_def)
  show "\<forall>t\<in>set visible. assigneeLaneKey t \<in> set (swimlaneKeys loc visible)"
    by (auto simp: swimlaneKeys_def Let_def) (metis image_eqI)+
qed

text \<open>The cards of a whole view; a timeline draws no cards.\<close>

fun view_cards :: "board_view \<Rightarrow> task multiset" where
  "view_cards (V_board cols) = column_cards cols"
| "view_cards (V_lanes lanes) = (\<Sum>l\<leftarrow>lanes. column_cards (snd (snd l)))"
| "view_cards (V_gantt g) = {#}"

lemma view_cards_all:
  assumes "mode \<noteq> ''gantt''"
  shows "view_cards (view_of loc ms today mode visible) = mset visible"
  using assms mset_filter_partition [OF swimlanes_cover(1) [of loc visible] swimlanes_cover(2)]
  by (simp add: view_of_def columns_of_cards Let_def comp_def)

section \<open>Sort keys\<close>

lemma foldl_max_ge:
  fixes m :: "'a :: linorder"
  shows "m \<le> foldl (\<lambda>m k. if k > m then k else m) m ks \<and> (\<forall>k\<in>set ks. k \<le> foldl (\<lambda>m k. if k > m then k else m) m ks)"
proof (induction ks arbitrary: m)
  case Nil
  then show ?case by simp
next
  case (Cons k ks)
  from Cons.IH [of "if k > m then k else m"] show ?case by (auto split: if_splits)
qed

lemma nextSortKey_above:
  assumes "t \<in> set ts" "normalizeBoard (Some (tk_board t)) = col" "js_trim (tk_assignee t) = js_trim a"
  shows "tk_sort_key t < nextSortKey ts col a"
proof -
  have "tk_sort_key t \<in> set (lane_keys col (js_trim a) ts)" using assms by (auto simp: lane_keys_def)
  then have "tk_sort_key t \<le> foldl (\<lambda>m k. if k > m then k else m) 0 (lane_keys col (js_trim a) ts)"
    using foldl_max_ge by blast
  then show ?thesis by (simp add: nextSortKey_def)
qed

text \<open>The check for a drop that changes nothing never succeeds.\<close>

lemma drop_never_noop: "t \<in> set ts \<Longrightarrow> \<not> drop_is_noop t col a (nextSortKey ts col a)"
proof
  assume "t \<in> set ts" and n: "drop_is_noop t col a (nextSortKey ts col a)"
  then have "tk_sort_key t \<in> set (lane_keys col (js_trim a) ts)" by (auto simp: drop_is_noop_def lane_keys_def)
  then have "tk_sort_key t \<le> nextSortKey ts col a - 1" using foldl_max_ge [of 0] unfolding nextSortKey_def by fastforce
  moreover have "tk_sort_key t \<ge> nextSortKey ts col a - 1 / 1000" using n by (simp add: drop_is_noop_def)
  ultimately show False by simp
qed

definition lane_column :: "string \<Rightarrow> string \<Rightarrow> task list \<Rightarrow> task list" where
  "lane_column col a ts = filter (\<lambda>t. normalizeBoard (Some (tk_board t)) = col \<and> js_trim (tk_assignee t) = js_trim a) ts"

lemma newest_last:
  assumes "distinct zs" "t' \<in> set zs" "\<And>y. y \<in> set zs \<Longrightarrow> y \<noteq> t' \<Longrightarrow> tk_sort_key y < tk_sort_key t'"
  shows "last (sortTasksInColumn loc zs) = t'"
proof -
  have "task_le loc y t' \<and> \<not> task_le loc t' y" if "y \<in> set zs" "y \<noteq> t'" for y
    using assms(3) [OF that] by (simp add: task_le_def)
  then show ?thesis unfolding sortTasksInColumn_def by (rule js_sort_last [OF assms(2,1)])
qed

text \<open>
  The cards of the moved task's lane in any part of the tasks that are listed after the move.
\<close>

lemma moved_last:
  assumes "t' = t\<lparr>tk_board := col, tk_sort_key := nextSortKey ts col (tk_assignee t)\<rparr>" "set ts' = insert t' (set ts - {t})"
    "distinct zs" "t' \<in> set zs"
    "\<And>y. y \<in> set zs \<Longrightarrow> y \<in> set ts' \<and> normalizeBoard (Some (tk_board y)) = col \<and> js_trim (tk_assignee y) = js_trim (tk_assignee t)"
  shows "last (sortTasksInColumn loc zs) = t'"
proof (rule newest_last [OF assms(3,4)])
  fix y assume "y \<in> set zs" "y \<noteq> t'"
  then have "y \<in> set ts" "normalizeBoard (Some (tk_board y)) = col" "js_trim (tk_assignee y) = js_trim (tk_assignee t)"
    using assms(2,5) by auto
  then show "tk_sort_key y < tk_sort_key t'" using nextSortKey_above assms(1) by simp
qed

section \<open>The timeline\<close>

lemma round_div_shift: "0 < d \<Longrightarrow> js_round_div (a + k * d) d = js_round_div a d + k"
proof -
  assume "0 < d"
  have "2 * (a + k * d) + d = (2 * a + d) + k * (2 * d)" by (simp add: algebra_simps)
  then show ?thesis using \<open>0 < d\<close> by (simp only: js_round_div_def) simp
qed

lemma round_div_mono: "0 < d \<Longrightarrow> a \<le> b \<Longrightarrow> js_round_div a d \<le> js_round_div b d"
  unfolding js_round_div_def by (rule zdiv_mono1) simp_all

lemma DAY_pos [simp]: "0 < DAY_MS"
  by (simp add: DAY_MS_def)

lemma gantt_bar_fits:
  assumes "stop = the (parseDueMs ms (tk_due_date t))" "mn \<le> stop - 3 * DAY_MS" "stop + 2 * DAY_MS \<le> mx"
  shows "1 \<le> gb_left (gantt_bar_of ms today mn t)" "gb_width (gantt_bar_of ms today mn t) = 3"
    "gb_left (gantt_bar_of ms today mn t) + gb_width (gantt_bar_of ms today mn t) \<le> js_round_div (mx - mn) DAY_MS + 1"
proof -
  let ?r = "js_round_div (stop - mn) DAY_MS"
  have left: "js_round_div (stop - 2 * DAY_MS - mn) DAY_MS = ?r - 2"
    using round_div_shift [of DAY_MS "stop - mn" "-2"] by (simp add: algebra_simps)
  have "3 = js_round_div (0 + 3 * DAY_MS) DAY_MS" unfolding round_div_shift [OF DAY_pos] by (simp add: js_round_div_def DAY_MS_def)
  then have "3 \<le> ?r" using round_div_mono [of DAY_MS "3 * DAY_MS" "stop - mn"] assms(2) by simp
  then show l: "1 \<le> gb_left (gantt_bar_of ms today mn t)"
    using assms(1) left by (simp add: gantt_bar_of_def Let_def algebra_simps)
  show w: "gb_width (gantt_bar_of ms today mn t) = 3"
    by (simp add: gantt_bar_of_def Let_def js_round_div_def DAY_MS_def)
  have "gb_left (gantt_bar_of ms today mn t) = ?r - 2"
    using assms(1) left \<open>3 \<le> ?r\<close> by (simp add: gantt_bar_of_def Let_def algebra_simps)
  moreover have "?r + 2 \<le> js_round_div (mx - mn) DAY_MS"
    using round_div_mono [of DAY_MS "stop - mn + 2 * DAY_MS" "mx - mn"] assms(3)
    by (simp add: round_div_shift [OF DAY_pos, of _ 2])
  ultimately show "gb_left (gantt_bar_of ms today mn t) + gb_width (gantt_bar_of ms today mn t) \<le> js_round_div (mx - mn) DAY_MS + 1"
    using w by simp
qed

lemma gantt_bars:
  assumes "renderGantt ms today visible = Some g"
  shows "mset (map gb_task (gt_bars g)) = mset (map tk_id (filter (\<lambda>t. parseDueMs ms (tk_due_date t) \<noteq> None) visible))"
    "\<forall>b\<in>set (gt_bars g). 1 \<le> gb_left b \<and> gb_left b + gb_width b \<le> gt_days g"
proof -
  let ?w = "filter (\<lambda>t. parseDueMs ms (tk_due_date t) \<noteq> None) visible"
  define due where "due t = the (parseDueMs ms (tk_due_date t))" for t :: task
  define mn where "mn = Min (set (map (\<lambda>e. e - 2 * DAY_MS) (map due ?w))) - DAY_MS"
  define mx where "mx = Max (set (map due ?w)) + 2 * DAY_MS"
  define order where "order = js_sort (\<lambda>a b. due a - due b \<le> 0) ?w"
  have ne: "?w \<noteq> []" and g: "gt_days g = max 7 (js_round_div (mx - mn) DAY_MS + 1)" "gt_bars g = map (gantt_bar_of ms today mn) order"
    using assms unfolding renderGantt_def Let_def order_def mn_def mx_def due_def by (auto split: if_splits)
  have "mset (map gb_task (gt_bars g)) = mset (map tk_id order)"
    using g(2) by (simp add: gantt_bar_of_def Let_def comp_def)
  then show "mset (map gb_task (gt_bars g)) = mset (map tk_id ?w)" by (simp add: order_def)
  show "\<forall>b\<in>set (gt_bars g). 1 \<le> gb_left b \<and> gb_left b + gb_width b \<le> gt_days g"
  proof
    fix b assume "b \<in> set (gt_bars g)"
    then obtain t where t: "t \<in> set ?w" "b = gantt_bar_of ms today mn t" using g(2) by (auto simp: order_def)
    have "Min (set (map (\<lambda>e. e - 2 * DAY_MS) (map due ?w))) \<le> due t - 2 * DAY_MS"
      by (rule Min_le) (use t(1) in auto)
    then have "mn \<le> due t - 3 * DAY_MS" unfolding mn_def by linarith
    moreover have "due t + 2 * DAY_MS \<le> mx" using Max_ge [of "set (map due ?w)" "due t"] t(1) by (simp add: mx_def)
    ultimately show "1 \<le> gb_left b \<and> gb_left b + gb_width b \<le> gt_days g"
      using gantt_bar_fits [OF due_def [of t], of mn mx today] t(2) g(1) by (auto simp: le_max_iff_disj)
  qed
qed

lemma overdue_chip: "dueChipClass ms today due = ''overdue'' \<longleftrightarrow> isOverdue ms today due"
  by (simp add: dueChipClass_def isOverdue_def split: option.split)

section \<open>The edit dialog\<close>

lemma trim_split_join:
  assumes "ls \<noteq> []" "\<forall>l\<in>set ls. CHR '','' \<notin> set l"
  shows "map js_trim (split_char CHR '','' (str_join '', '' ls)) = map js_trim ls"
  using assms
proof (induction ls rule: induct_list012)
  case (3 x y zs)
  have "str_join '', '' (x # y # zs) = x @ CHR '','' # (CHR '' '' # str_join '', '' (y # zs))" by simp
  moreover have "split_char CHR '','' (CHR '' '' # s) = (case split_char CHR '','' s of [] \<Rightarrow> [[CHR '' '']] | p # ps \<Rightarrow> (CHR '' '' # p) # ps)" for s
    by simp
  moreover obtain p ps where "split_char CHR '','' (str_join '', '' (y # zs)) = p # ps"
    by (meson list.exhaust split_char_nonempty)
  ultimately have "map js_trim (split_char CHR '','' (str_join '', '' (x # y # zs))) = js_trim x # map js_trim (p # ps)"
    using "3.prems" by (simp add: split_char_append_sep)
  also have "\<dots> = map js_trim (x # y # zs)"
    using 3 \<open>split_char CHR '','' (str_join '', '' (y # zs)) = p # ps\<close> by (metis list.set_intros(2) list.simps(3) list.simps(9))
  finally show ?case .
qed (simp_all add: split_char_no_sep)

text \<open>A task as the dialog can show it: trimmed fields, labels without commas, items with text.\<close>

definition editable :: "task \<Rightarrow> bool" where
  "editable t \<longleftrightarrow> tk_title t \<noteq> [] \<and> js_trim (tk_title t) = tk_title t \<and> js_trim (tk_assignee t) = tk_assignee t
     \<and> normalizePriority (Some (tk_priority t)) = tk_priority t
     \<and> (\<forall>l\<in>set (tk_labels t). l \<noteq> [] \<and> js_trim l = l \<and> CHR '','' \<notin> set l)
     \<and> (\<forall>i\<in>set (tk_checklist t). ci_id i \<noteq> [] \<and> ci_text i \<noteq> [] \<and> js_trim (ci_text i) = ci_text i)"

lemma labels_roundtrip:
  assumes "\<forall>l\<in>set ls. l \<noteq> [] \<and> js_trim l = l \<and> CHR '','' \<notin> set l"
  shows "parseLabelsInput (str_join '', '' ls) = ls"
proof (cases "ls = []")
  case True
  then show ?thesis by (simp add: parseLabelsInput_def)
next
  case False
  with assms have "map js_trim (split_char CHR '','' (str_join '', '' ls)) = map js_trim ls" by (intro trim_split_join) auto
  also have "\<dots> = ls" using assms by (simp add: map_idI)
  finally show ?thesis using assms by (simp add: parseLabelsInput_def filter_id_conv)
qed

lemma map_enumerate_id: "(\<And>k x. x \<in> set xs \<Longrightarrow> f (k, x) = x) \<Longrightarrow> map f (enumerate n xs) = xs"
  by (induction xs arbitrary: n) simp_all

lemma draft_unchanged:
  assumes "\<forall>i\<in>set cs. ci_id i \<noteq> [] \<and> ci_text i \<noteq> [] \<and> js_trim (ci_text i) = ci_text i"
  shows "map (\<lambda>(k, it). it\<lparr>ci_id := or_default (Some (ci_id it)) (f k)\<rparr>) (enumerate 0 cs) = cs"
    "map (\<lambda>(k, i). i\<lparr>ci_id := or_default (Some (ci_id i)) (f k), ci_text := js_trim (ci_text i)\<rparr>) (enumerate 0 cs) = cs"
  using assms by (auto intro!: map_enumerate_id simp: or_default_def)

lemma edit_unchanged:
  assumes "editable t"
  shows "edited_task e (fst (openEditTask e t b)) (editChecklistDraft (snd (openEditTask e t b))) t = t"
proof -
  have d: "\<forall>i\<in>set (tk_checklist t). ci_id i \<noteq> [] \<and> ci_text i \<noteq> [] \<and> js_trim (ci_text i) = ci_text i"
    and l: "parseLabelsInput (str_join '', '' (tk_labels t)) = tk_labels t"
    using assms by (simp_all add: editable_def labels_roundtrip)
  have "filter (\<lambda>i. ci_text i \<noteq> []) (tk_checklist t) = tk_checklist t" using d by (simp add: filter_id_conv)
  then show ?thesis using assms l draft_unchanged [OF d, of "e_cid e"]
    by (simp add: edited_task_def openEditTask_def editable_def or_default_def)
qed

section \<open>Facets and selection\<close>

text \<open>
  When the last task of an assignee is gone, the selector falls back to all while the filter
  keeps hiding every other task.
\<close>

lemma facet_goes_stale:
  assumes "filterAssignee (bd_facets b) = a" "a \<noteq> []" "a \<noteq> ''__none__''" "asgSelect b = a"
    "\<forall>t\<in>set (tasks b). to_lower (js_trim (tk_assignee t)) \<noteq> to_lower a" "to_lower (e_user e) \<noteq> to_lower a"
  shows "asgSelect (refreshFacetOptions e b) = []" "visible_tasks e (refreshFacetOptions e b) = []"
proof -
  have "a \<notin> set (knownAssignees (e_loc e) (e_user e) (tasks b))"
    using assms(5,6) by (auto simp: knownAssignees_def)
  then show "asgSelect (refreshFacetOptions e b) = []"
    using assms by (simp add: refreshFacetOptions_def Let_def)
  show "visible_tasks e (refreshFacetOptions e b) = []"
    using assms by (auto simp: visible_tasks_def refreshFacetOptions_def Let_def matchesFilter_def filter_empty_conv)
qed

lemma render_selection: "selectedTaskId (renderBoard e b) = [] \<or> has_task (selectedTaskId (renderBoard e b)) (tasks (renderBoard e b))"
  by (auto simp: renderBoard_def Let_def bd_emit_def updateBoardStats_def updateBoardTitle_def)

text \<open>What a successful reload leaves: the listed tasks, and their drawing as the last thing drawn.\<close>

lemma loadTasks_loaded:
  assumes "lr_token lr" "lr_tasks lr = Inr raws" "b' = loadTasks e project lr b"
  shows "tasks b' = map (normalizeTask (e_cid e)) raws" "bd_requests b' = bd_requests (loadBoardMeta project (lr_name lr) b)"
    "viewMode b' = viewMode b"
    "last (bd_ui b') = B_view (view_of (e_loc e) (e_ms e) (e_today e) (viewMode b') (visible_tasks e b'))"
  using assms
  by (simp_all add: loadTasks_def renderBoard_def Let_def bd_emit_def updateBoardStats_def updateBoardTitle_def board_status_def
      refreshFacetOptions_def loadBoardMeta_def visible_tasks_def split: option.splits)

lemma lane_drawn:
  assumes "t' = t\<lparr>tk_board := col, tk_sort_key := nextSortKey ts col (tk_assignee t)\<rparr>" "set ts' = insert t' (set ts - {t})"
    "distinct ts'" "normalizeBoard (Some (tk_board t')) = col" "col \<in> set column_ids" "tasks b' = ts'"
    "t' \<in> set (visible_tasks e b')" "\<forall>x\<in>set ts'. js_trim (tk_assignee x) \<noteq> ''Unassigned''"
    "last (bd_ui b') = B_view (view_of (e_loc e) (e_ms e) (e_today e) ''swimlanes'' (visible_tasks e b'))"
  shows "\<exists>lanes n cols m cards. last (bd_ui b') = B_view (V_lanes lanes) \<and> (assigneeLaneKey t', n, cols) \<in> set lanes
           \<and> (col, m, cards) \<in> set cols \<and> last cards = t'"
proof -
  let ?v = "visible_tasks e b'" and ?lane = "assigneeLaneKey t'"
  let ?ts = "filter (\<lambda>t. assigneeLaneKey t = ?lane) ?v"
  let ?col = "filter (\<lambda>t. normalizeBoard (Some (tk_board t)) = col) ?ts"
  have sub: "set ?v \<subseteq> set ts'" "distinct ?v" using assms(3,6) by (auto simp: visible_tasks_def)
  have key: "js_trim (tk_assignee y) = js_trim (tk_assignee t)" if "y \<in> set ?v" "assigneeLaneKey y = ?lane" for y
  proof -
    have "js_trim (tk_assignee y) \<noteq> ''Unassigned''" "js_trim (tk_assignee t') \<noteq> ''Unassigned''" "tk_assignee t' = tk_assignee t"
      using that(1) assms(7,8) sub(1) by (blast, blast, simp add: assms(1))
    then show ?thesis using that(2) unfolding assigneeLaneKey_def or_default_def by (auto split: if_splits)
  qed
  have "last (sortTasksInColumn (e_loc e) ?col) = t'"
    by (rule moved_last [OF assms(1,2)]) (use assms(4,7) sub key in auto)
  moreover have "?lane \<in> set (swimlaneKeys (e_loc e) ?v)"
    using swimlanes_cover(2) assms(7) by blast
  moreover obtain nm where "(col, nm) \<in> set COLUMNS" using assms(5) by (auto simp: column_ids_def)
  then have "(col, length ?col, sortTasksInColumn (e_loc e) ?col) \<in> set (columns_of (e_loc e) ?ts)"
    by (force simp: columns_of_def createColumnEl_def)
  ultimately show ?thesis
    unfolding assms(9) view_of_def by (fastforce simp: Let_def)
qed

section \<open>Normal tasks\<close>

text \<open>A task that the client's normalisation leaves as it is; every loaded task is one.\<close>

definition normal_task :: "task \<Rightarrow> bool" where
  "normal_task t \<longleftrightarrow> tk_board t \<in> set column_ids \<and> normalizePriority (Some (tk_priority t)) = tk_priority t
     \<and> (\<forall>l\<in>set (tk_labels t). l \<noteq> [] \<and> js_trim l = l) \<and> (\<forall>i\<in>set (tk_checklist t). ci_id i \<noteq> [])"

lemma normalizeBoard_id: "c \<in> set column_ids \<Longrightarrow> normalizeBoard (Some c) = c"
  by (auto simp: normalizeBoard_def column_ids_def COLUMNS_def or_default_def to_lower_def lower_char_def is_upper_def Let_def)

lemma normalizePriority_idem: "normalizePriority (Some (normalizePriority p)) = normalizePriority p"
proof -
  have "normalizePriority p \<in> {[], ''p0'', ''p1'', ''p2''}" by (simp add: normalizePriority_def Let_def)
  then show ?thesis by (auto simp: normalizePriority_def Let_def js_trim_def is_space_def to_lower_def lower_char_def is_upper_def)
qed

lemma loaded_normal: "(\<And>i. cid i \<noteq> []) \<Longrightarrow> normal_task (normalizeTask cid r)"
  by (auto simp: normal_task_def normalizeTask_def normalizePriority_idem normalize_item_def or_default_def
      split: option.splits prod.splits if_splits)

lemma payload_normal: "normal_task t \<Longrightarrow> taskPayload e t = t"
proof -
  assume n: "normal_task t"
  have "map (normalize_item (e_cid e)) (enumerate k (map (\<lambda>i. (Some (ci_id i), Some (ci_text i), ci_done i)) cs)) = cs"
    if "\<forall>i\<in>set cs. ci_id i \<noteq> []" for k cs
    using that by (induction cs arbitrary: k) (simp_all add: normalize_item_def or_default_def)
  moreover have "filter (\<lambda>s. s \<noteq> []) (map js_trim (tk_labels t)) = tk_labels t"
    using n by (simp add: normal_task_def map_idI filter_id_conv)
  ultimately show ?thesis
    using n by (simp add: taskPayload_def normalizeTask_def as_raw_def normal_task_def normalizeBoard_id)
qed

end
