(* ===== verification/Board_Properties.thy ===== *)
theory Board_Properties
  imports Board_Laws
begin

text \<open>The properties of the projects client, each with a witness on a concrete board.\<close>

definition sample_task :: "string \<Rightarrow> string \<Rightarrow> string \<Rightarrow> rat \<Rightarrow> task" where
  "sample_task i col a k =
     \<lparr> tk_id = i, tk_title = ''Task '' @ i, tk_board = col, tk_drive_object_id = [], tk_assignee = a,
       tk_due_date = ''2026-05-0'' @ i, tk_labels = [''ui'', ''office''],
       tk_checklist = [\<lparr> ci_id = ''c1'', ci_text = ''item'', ci_done = True \<rparr>], tk_priority = ''p1'', tk_sort_key = k \<rparr>"

definition sample_tasks :: "task list" where
  "sample_tasks = [sample_task ''1'' ''todo'' ''ann'' 1, sample_task ''2'' ''todo'' [] 2, sample_task ''3'' ''done'' ''ann'' 1]"

definition moved_tasks :: "task list" where
  "moved_tasks = [sample_task ''2'' ''todo'' [] 2, sample_task ''1'' ''done'' ''ann'' 2, sample_task ''3'' ''done'' ''ann'' 1]"

text \<open>Dates of the sample: the last character counts the days.\<close>

definition sample_ms :: "string \<Rightarrow> int option" where
  "sample_ms d = (if d = [] then None else Some (DAY_MS * of_char (last d)))"

definition sample_env :: benv where
  "sample_env = \<lparr> e_loc = (\<lambda>a b. if a = b then 0 else if length a \<le> length b then - 1 else 1), e_ms = sample_ms,
     e_today = 0, e_user = ''ann'', e_cid = (\<lambda>i. ''c'') \<rparr>"

definition sample_load :: load_result where
  "sample_load = \<lparr> lr_token = True, lr_name = None, lr_tasks = Inl 500 \<rparr>"

definition sample_board :: board where
  "sample_board =
     \<lparr> tasks = sample_tasks, boardName = ''Board'',
       bd_facets = \<lparr> filterText = [], filterAssignee = [], filterPriority = [], filterLabel = [], filterOverdue = False \<rparr>,
       viewMode = ''board'', savedViewMode = None, asgSelect = [], labelSelect = [], dragTaskId = None, selectedTaskId = [],
       editTaskId = [], editChecklistDraft = [], pickerSelectedId = [], pickerSelectedName = [], pickerFolderStack = [[]],
       driveObjectId = [], boardComments = [], bd_requests = [], bd_ui = [] \<rparr>"

text \<open>
  C31. Every task that passes the filters is drawn exactly once, and no other task is, in the
  columns of the board and in the swimlanes, whatever the tasks' columns, assignees and the
  collation of the browser; the numbers in the column headings count the cards.
\<close>

theorem board_draws_each_task_once:
  assumes "mode \<noteq> ''gantt''"
  shows "view_cards (view_of loc (e_ms e) (e_today e) mode (visible_tasks e b)) = mset (filter (matchesFilter (e_ms e) (e_today e) (bd_facets b)) (tasks b))
    \<and> column_counts (columns_of loc ts)"
  using view_cards_all [OF assms] columns_of_counts by (simp add: visible_tasks_def)

theorem board_draws_each_task_once_witness:
  "view_cards (view_of (e_loc sample_env) sample_ms 0 ''swimlanes'' (visible_tasks sample_env sample_board)) = mset sample_tasks"
proof -
  have "''swimlanes'' \<noteq> ''gantt''" by simp
  from board_draws_each_task_once [OF this, of "e_loc sample_env" sample_env sample_board]
  have "view_cards (view_of (e_loc sample_env) sample_ms 0 ''swimlanes'' (visible_tasks sample_env sample_board))
      = mset (filter (matchesFilter sample_ms 0 (bd_facets sample_board)) (tasks sample_board))"
    by (simp add: sample_env_def)
  also have "filter (matchesFilter sample_ms 0 (bd_facets sample_board)) (tasks sample_board) = sample_tasks"
    by (simp add: sample_board_def matchesFilter_def to_lower_def)
  finally show ?thesis .
qed

text \<open>
  C32. Moving a task to a column, when the save succeeds and the list that the service then sends
  holds the saved task in place of the old one, in any order, and the other tasks as they were:
  the one request that changes anything saves the task, normalised, with a key above all keys of
  its lane; the board then holds the tasks sent; the moved task is the last of its lane in that
  column; and in the swimlanes that are drawn it is the last card of the lane's column, when it
  passes the filters and nobody is called ``Unassigned''. A refused save changes no task of the
  board. The check that is meant to skip a drop on the task's own place never applies. (Keys are
  taken exactly; the whole numbers that the page makes are exact doubles below \<open>2 ^ 53\<close>.)
\<close>

theorem board_move_goes_last:
  assumes "t \<in> set (tasks b)" "\<forall>x\<in>set (tasks b). normal_task x" "col \<in> set column_ids"
    "t' = t\<lparr>tk_board := col, tk_sort_key := nextSortKey (tasks b) col (tk_assignee t)\<rparr>"
    "lr_token lr" "lr_tasks lr = Inr (map as_raw ts')" "distinct (map tk_id ts')" "set ts' = insert t' (set (tasks b) - {t})"
    "b' = moveTask e project t col None lr b"
  shows "bd_requests b' = bd_requests b @ [Save_task t'] \<and> tasks b' = ts'
    \<and> last (sortTasksInColumn loc (lane_column col (tk_assignee t) (tasks b'))) = t'
    \<and> (viewMode b = ''swimlanes'' \<and> t' \<in> set (visible_tasks e b') \<and> (\<forall>x\<in>set ts'. js_trim (tk_assignee x) \<noteq> ''Unassigned'')
        \<longrightarrow> (\<exists>lanes n cols m cards. last (bd_ui b') = B_view (V_lanes lanes) \<and> (assigneeLaneKey t', n, cols) \<in> set lanes
              \<and> (col, m, cards) \<in> set cols \<and> last cards = t'))
    \<and> tasks (moveTask e project t col (Some st) lr b) = tasks b
    \<and> \<not> drop_is_noop t col' a (nextSortKey (tasks b) col' a)"
proof -
  have n: "normal_task t'" "\<forall>x\<in>set ts'. normal_task x"
    using assms(1-4,8) by (auto simp: normal_task_def)
  have pay: "taskPayload e t' = t'" "map (taskPayload e) ts' = ts'"
    using n by (auto simp: payload_normal intro: map_idI)
  obtain b1 where b1: "b' = loadTasks e project lr b1" "bd_requests b1 = bd_requests b @ [Save_task t']" "viewMode b1 = viewMode b"
    using assms(4,9) pay(1)
    by (simp add: moveTask_def moveTaskFull_def saveTask_def Let_def board_status_def bd_emit_def bd_send_def)
  note loaded = loadTasks_loaded [OF assms(5,6) b1(1)]
  have ts: "tasks b' = ts'" using loaded(1) pay(2) unfolding taskPayload_def by (simp add: comp_def)
  have dist: "distinct ts'" using assms(7) by (simp add: distinct_map)
  have t': "t' \<in> set ts'" "normalizeBoard (Some (tk_board t')) = col" "tk_assignee t' = tk_assignee t"
    using assms(3,4,8) by (simp_all add: normalizeBoard_id)
  have "last (sortTasksInColumn loc (lane_column col (tk_assignee t) ts')) = t'"
    by (rule moved_last [OF assms(4,8)]) (use dist t' in \<open>auto simp: lane_column_def\<close>)
  moreover have "bd_requests b' = bd_requests b @ [Save_task t']"
    using loaded(2) b1(2) by (simp add: loadBoardMeta_def updateBoardTitle_def bd_emit_def split: option.splits)
  moreover have "tasks (moveTask e project t col (Some st) lr b) = tasks b"
    by (simp add: moveTask_def moveTaskFull_def saveTask_def Let_def board_status_def bd_emit_def bd_send_def)
  moreover have "\<exists>lanes n cols m cards. last (bd_ui b') = B_view (V_lanes lanes) \<and> (assigneeLaneKey t', n, cols) \<in> set lanes
              \<and> (col, m, cards) \<in> set cols \<and> last cards = t'"
    if "viewMode b = ''swimlanes''" "t' \<in> set (visible_tasks e b')" "\<forall>x\<in>set ts'. js_trim (tk_assignee x) \<noteq> ''Unassigned''"
    by (rule lane_drawn [OF assms(4,8) dist t'(2) assms(3) ts that(2,3)]) (use loaded b1(3) that(1) in simp_all)
  ultimately show ?thesis using ts drop_never_noop [OF assms(1)] by blast
qed

theorem board_move_goes_last_witness:
  "tasks (moveTask sample_env True (sample_task ''1'' ''todo'' ''ann'' 1) ''done'' None
       \<lparr> lr_token = True, lr_name = None, lr_tasks = Inr (map as_raw moved_tasks) \<rparr> sample_board) = moved_tasks"
proof -
  let ?t = "sample_task ''1'' ''todo'' ''ann'' 1" and ?t' = "sample_task ''1'' ''done'' ''ann'' 2"
  have k: "nextSortKey (tasks sample_board) ''done'' (tk_assignee ?t) = 2" by code_simp
  have n: "\<forall>x\<in>set (tasks sample_board). normal_task x" by code_simp
  have "?t \<in> set (tasks sample_board)" "''done'' \<in> set column_ids" "distinct (map tk_id moved_tasks)"
    "?t' = ?t\<lparr>tk_board := ''done'', tk_sort_key := 2\<rparr>"
    by (simp_all add: sample_board_def sample_tasks_def sample_task_def moved_tasks_def column_ids_def COLUMNS_def)
  moreover have "set moved_tasks = insert ?t' (set (tasks sample_board) - {?t})"
    by (auto simp: sample_board_def sample_tasks_def sample_task_def moved_tasks_def)
  ultimately show ?thesis
    using k board_move_goes_last [OF _ n, of ?t "''done''" ?t' "\<lparr> lr_token = True, lr_name = None, lr_tasks = Inr (map as_raw moved_tasks) \<rparr>"
      moved_tasks, OF _ _ _ _ _ _ _ refl]
    by simp
qed

text \<open>
  The timeline has one bar for every visible task with a valid due date, and every bar lies
  inside the days drawn, after the first one.
\<close>

theorem board_gantt_bars_fit:
  assumes "renderGantt ms today visible = Some g"
  shows "mset (map gb_task (gt_bars g)) = mset (map tk_id (filter (\<lambda>t. parseDueMs ms (tk_due_date t) \<noteq> None) visible))
    \<and> (\<forall>b\<in>set (gt_bars g). 1 \<le> gb_left b \<and> gb_left b + gb_width b \<le> gt_days g)"
  using gantt_bars [OF assms] by blast

theorem board_gantt_bars_fit_witness:
  "\<exists>g. renderGantt sample_ms 0 sample_tasks = Some g \<and> mset (map gb_task (gt_bars g)) = {#''1'', ''2'', ''3''#}"
proof -
  have f: "filter (\<lambda>t. parseDueMs sample_ms (tk_due_date t) \<noteq> None) sample_tasks = sample_tasks"
    by (simp add: sample_tasks_def sample_task_def parseDueMs_def sample_ms_def)
  have "sample_tasks \<noteq> []" by (simp add: sample_tasks_def)
  then obtain g where g: "renderGantt sample_ms 0 sample_tasks = Some g"
    using f unfolding renderGantt_def Let_def by auto
  from board_gantt_bars_fit [OF this] have "mset (map gb_task (gt_bars g)) = mset (map tk_id sample_tasks)" unfolding f by blast
  with g show ?thesis by (simp add: sample_tasks_def sample_task_def)
qed

text \<open>
  Opening the edit dialog on a task and confirming it unchanged leaves the task as it is:
  the labels survive being joined and parsed again, the checklist the draft, when the
  labels contain no comma and the fields no surrounding blanks.
\<close>

theorem board_edit_roundtrip:
  assumes "editable t"
  shows "edited_task e (fst (openEditTask e t b)) (editChecklistDraft (snd (openEditTask e t b))) t = t"
  by (rule edit_unchanged [OF assms])

theorem board_edit_roundtrip_witness:
  "edited_task sample_env (fst (openEditTask sample_env (sample_task ''1'' ''todo'' ''ann'' 1) sample_board))
     (editChecklistDraft (snd (openEditTask sample_env (sample_task ''1'' ''todo'' ''ann'' 1) sample_board)))
     (sample_task ''1'' ''todo'' ''ann'' 1) = sample_task ''1'' ''todo'' ''ann'' 1"
proof -
  have "editable (sample_task ''1'' ''todo'' ''ann'' 1)" by code_simp
  from board_edit_roundtrip [OF this] show ?thesis .
qed

end
