(* ===== verification/Board_Page.thy ===== *)
theory Board_Page
  imports Board_Properties Office_Page
begin

text \<open>
  The page of the projects client (\<open>ui/projects/web/app.js\<close>): the project in the address, the
  addresses of its requests, new projects, sharing, the comments panel, the rows of the checklist
  editor, the listing of the Drive picker, the menu and the start of the page.
\<close>

type_synonym board_page = "board office_page"

definition bp_status :: "string \<Rightarrow> bool \<Rightarrow> board_page \<Rightarrow> board_page" where
  "bp_status msg isErr p = on_client (board_status msg isErr) p"

section \<open>The project of the page\<close>

text \<open>\<open>decodeURIComponent\<close>, \<open>None\<close> when it throws; characters beyond the model's are not represented.\<close>

fun pct_bytes :: "string \<Rightarrow> nat list option" where
  "pct_bytes [] = Some []"
| "pct_bytes (c # cs) =
     (if c \<noteq> CHR ''%'' then map_option (\<lambda>ns. utf8_bytes c @ ns) (pct_bytes cs)
      else (case cs of
              a # b # ds \<Rightarrow>
                (case (hex_val a, hex_val b) of
                   (Some x, Some y) \<Rightarrow> map_option (\<lambda>ns. (16 * x + y) # ns) (pct_bytes ds)
                 | _ \<Rightarrow> None)
            | _ \<Rightarrow> None))"

fun utf8_strict :: "nat list \<Rightarrow> string option" where
  "utf8_strict [] = Some []"
| "utf8_strict (a # ns) =
     (if a < 128 then map_option (\<lambda>s. char_of a # s) (utf8_strict ns)
      else (case ns of
              b # ms \<Rightarrow> if 194 \<le> a \<and> a < 196 \<and> 128 \<le> b \<and> b < 192
                        then map_option (\<lambda>s. char_of ((a - 192) * 64 + (b - 128)) # s) (utf8_strict ms) else None
            | [] \<Rightarrow> None))"

definition decodeURIComponent :: "string \<Rightarrow> string option" where
  "decodeURIComponent s = Option.bind (pct_bytes s) utf8_strict"

definition decode_part :: "string \<Rightarrow> string" where
  "decode_part s = (case decodeURIComponent s of None \<Rightarrow> s | Some t \<Rightarrow> t)"

definition page_project :: "string \<Rightarrow> string" where
  "page_project pathname = pathProjectId decode_part pathname"

definition storage_key :: "string \<Rightarrow> string \<Rightarrow> string" where
  "storage_key kind projectId = ''era_projects_'' @ kind @ ''_'' @ or_default (Some projectId) ''legacy''"

definition viewModeStorageKey :: "string \<Rightarrow> string" where
  "viewModeStorageKey projectId = storage_key ''viewMode'' projectId"

definition commentsStorageKey :: "string \<Rightarrow> string" where
  "commentsStorageKey projectId = storage_key ''comments'' projectId"

section \<open>Requests\<close>

definition tasksAPI :: "string \<Rightarrow> string" where
  "tasksAPI projectId =
     (if projectId \<noteq> [] then ''/api/v1/projects/'' @ encodeURIComponent projectId @ ''/tasks'' else ''/api/v1/projects/tasks'')"

definition taskByIdAPI :: "string \<Rightarrow> string \<Rightarrow> string" where
  "taskByIdAPI projectId i =
     (if projectId \<noteq> [] then ''/api/v1/projects/'' @ encodeURIComponent projectId @ ''/tasks/'' @ encodeURIComponent i
      else ''/api/v1/projects/tasks/'' @ encodeURIComponent i)"

definition boardAPI :: "string \<Rightarrow> string" where
  "boardAPI projectId = (if projectId \<noteq> [] then ''/api/v1/projects/'' @ encodeURIComponent projectId else ''/api/v1/projects/board'')"

text \<open>Method and address of a request of the client.\<close>

definition board_call :: "string \<Rightarrow> board_request \<Rightarrow> string \<times> string" where
  "board_call projectId r =
     (case r of
        Create_task t \<Rightarrow> (''POST'', tasksAPI projectId)
      | Save_task t \<Rightarrow> (''POST'', tasksAPI projectId)
      | Delete_task i \<Rightarrow> (''DELETE'', taskByIdAPI projectId i)
      | Rename_board n \<Rightarrow> (''PUT'', boardAPI projectId))"

text \<open>\<open>api\<close>: the headers of the client and of the shell; a reply 401 ends the session.\<close>

definition board_api :: "(string \<Rightarrow> claims option) \<Rightarrow> office_request \<Rightarrow> int \<Rightarrow> board_page \<Rightarrow> board_page" where
  "board_api jwt rq status p = officeFetch jwt rq status p"

text \<open>The two requests of a load, with the statuses of their replies.\<close>

definition load_requests :: "(string \<Rightarrow> claims option) \<Rightarrow> string \<Rightarrow> int \<Rightarrow> int \<Rightarrow> board_page \<Rightarrow> board_page" where
  "load_requests jwt projectId meta st p =
     board_api jwt (request ''GET'' (tasksAPI projectId) [] []) st (board_api jwt (request ''GET'' (boardAPI projectId) [] []) meta p)"

definition load_page ::
  "(string \<Rightarrow> claims option) \<Rightarrow> benv \<Rightarrow> string \<Rightarrow> int \<Rightarrow> int \<Rightarrow> load_result \<Rightarrow> board_page \<Rightarrow> board_page" where
  "load_page jwt e projectId meta st lr p =
     on_client (loadTasks e (projectId \<noteq> []) (lr\<lparr>lr_token := signed_in p\<rparr>))
       (if signed_in p then load_requests jwt projectId meta st p else p)"

definition createErajProject :: "(string \<Rightarrow> claims option) \<Rightarrow> string \<Rightarrow> int \<Rightarrow> string option \<Rightarrow> board_page \<Rightarrow> board_page" where
  "createErajProject jwt now status created p =
     (if \<not> signed_in p then bp_status sign_in_first True p
      else (let p1 = board_api jwt (request ''POST'' ''/api/v1/projects'' json_header [(''name'', ''Untitled-'' @ now @ ''.eraj'')]) status p
            in if \<not> status_ok status then bp_status (''New project failed: '' @ int_str status) True p1
               else (case or_undefined created of
                       None \<Rightarrow> bp_status ''New project failed: no drive_object_id'' True p1
                     | Some i \<Rightarrow> goto_page (''/projects/'' @ encodeURIComponent i) p1)))"

text \<open>The fields of the share dialog: the address of the page, the hint, the link and its label.\<close>

definition openShareProject :: "string \<Rightarrow> string \<Rightarrow> string \<times> string \<times> string \<times> string" where
  "openShareProject location projectId =
     (if projectId \<noteq> []
      then (location, ''Copy link - ACL is managed in Drive on this .eraj object. This dialog does not change permissions.'',
            ''/drive/?share='' @ encodeURIComponent projectId, ''Manage ACL in Drive'')
      else (location, ''Copy link - Legacy tenant board has no Drive object - create New project (.eraj) for Drive ACL.'',
            ''/drive/'', ''Open Drive''))"

text \<open>The copy button; \<open>ok\<close>: the browser writes to the clipboard. Otherwise the text is offered for copying.\<close>

definition share_project_copy :: "string \<Rightarrow> string \<Rightarrow> bool \<Rightarrow> board_page \<Rightarrow> board_page \<times> string option" where
  "share_project_copy field location ok p =
     (let url = or_default (Some field) location
      in if ok then (bp_status ''Share link copied'' False p, None) else (p, Some url))"

section \<open>Panels\<close>

definition escape_lt :: "string \<Rightarrow> string" where
  "escape_lt s = replace_char CHR ''<'' ''&lt;'' s"

definition board_comment_html :: "checklist_comment \<Rightarrow> string" where
  "board_comment_html c =
     ''<div><strong>'' @ escape_lt (or_default (Some (bc_author c)) ''you'') @ ''</strong></div><div>'' @ escape_lt (bc_text c) @ ''</div>''"

definition renderBoardComments :: "board \<Rightarrow> string list" where
  "renderBoardComments b = (if boardComments b = [] then [''No comments yet''] else map board_comment_html (boardComments b))"

text \<open>A stored text that is no array of comments counts as none; \<open>parse\<close> reads the stored text.\<close>

definition loadBoardComments :: "(string \<Rightarrow> checklist_comment list option) \<Rightarrow> string option \<Rightarrow> checklist_comment list" where
  "loadBoardComments parse raw =
     (case raw of None \<Rightarrow> [] | Some t \<Rightarrow> if t = [] then [] else (case parse t of None \<Rightarrow> [] | Some cs \<Rightarrow> cs))"

definition comment_submitted :: "benv \<Rightarrow> string \<Rightarrow> string \<Rightarrow> board \<Rightarrow> board \<times> string" where
  "comment_submitted e i field b = (addBoardComment e i field b, [])"

definition renderEditChecklistList :: "board \<Rightarrow> (bool \<times> string) list" where
  "renderEditChecklistList b = map (\<lambda>i. (ci_done i, ci_text i)) (editChecklistDraft b)"

text \<open>The button and the Enter key of the field for a new item; the field is emptied.\<close>

definition checklist_add :: "string \<Rightarrow> string \<Rightarrow> board \<Rightarrow> board \<times> string" where
  "checklist_add i field b = (addEditChecklistItem i field b, [])"

definition editChecklistMenu :: "benv \<Rightarrow> board \<Rightarrow> edit_form option \<times> board" where
  "editChecklistMenu e b =
     (case requireSelectedTask b of (None, b') \<Rightarrow> (None, b')
      | (Some t, b') \<Rightarrow> (let (ef, b2) = openEditTask e t b' in (Some ef, b2)))"

definition edit_dialog_closed :: "benv \<Rightarrow> bool \<Rightarrow> string \<Rightarrow> edit_form \<Rightarrow> nat option \<Rightarrow> load_result \<Rightarrow> board \<Rightarrow> board" where
  "edit_dialog_closed e project returnValue ef failure lr b =
     (if returnValue = ''ok'' then commitEditTask e project ef failure lr b else b)"

definition fillAssigneeDatalist :: "benv \<Rightarrow> board \<Rightarrow> string list" where
  "fillAssigneeDatalist e b = knownAssignees (e_loc e) (e_user e) (tasks b)"

section \<open>The Drive picker\<close>

record picker_entry =
  pe_id :: string
  pe_other_id :: string
  pe_name :: string
  pe_type :: string

datatype picker_row =
    Row_hint string
  | Row_up
  | Row_folder string string
  | Row_object string string string

definition entry_id :: "picker_entry \<Rightarrow> string" where
  "entry_id x = or_default (Some (pe_id x)) (pe_other_id x)"

definition entry_name :: "picker_entry \<Rightarrow> string" where
  "entry_name x = or_default (Some (pe_name x)) (entry_id x)"

definition picker_crumb :: "board \<Rightarrow> string" where
  "picker_crumb b =
     (let f = pickerFolderId b
      in if f \<noteq> [] then ''Folder: '' @ f @ (if length (pickerFolderStack b) > 1 then '' - Up available'' else []) else ''Root folder'')"

definition picker_url :: "board \<Rightarrow> string" where
  "picker_url b =
     (let f = pickerFolderId b
      in if f \<noteq> [] then ''/api/v1/drive/folders/'' @ encodeURIComponent f @ ''/children'' else ''/api/v1/drive/folders/_root/children'')"

definition picker_rows :: "board \<Rightarrow> picker_entry list \<Rightarrow> picker_entry list \<Rightarrow> picker_row list" where
  "picker_rows b folders objects =
     (if length (pickerFolderStack b) > 1 then [Row_up] else [])
     @ map (\<lambda>f. Row_folder (entry_id f) (entry_name f)) folders
     @ map (\<lambda>x. Row_object (entry_id x) (entry_name x) (entry_name x @ (if pe_type x \<noteq> [] then '' - '' @ pe_type x else []))) objects
     @ (if folders = [] \<and> objects = [] then [Row_hint ''Empty folder. Upload in Drive or go up.''] else [])"

text \<open>The status of the reply with its folders and objects; \<open>None\<close>: the request failed.\<close>

definition loadDrivePickerList ::
  "(string \<Rightarrow> claims option) \<Rightarrow> (int \<times> picker_entry list \<times> picker_entry list) option \<Rightarrow> board_page \<Rightarrow> board_page \<times> picker_row list" where
  "loadDrivePickerList jwt reply p =
     (let p1 = on_client picker_reload p; b = op_client p1; rq = request ''GET'' (picker_url b) [] [] in
      case reply of
        None \<Rightarrow> (board_api jwt rq 0 p1, [Row_hint ''Drive request failed''])
      | Some (st, folders, objects) \<Rightarrow>
          (board_api jwt rq st p1,
           if \<not> status_ok st then [Row_hint (''Drive unavailable ('' @ int_str st @ '')'')] else picker_rows b folders objects))"

text \<open>A click on a row.\<close>

definition picker_click :: "picker_row \<Rightarrow> board \<Rightarrow> board" where
  "picker_click r b =
     (case r of
        Row_hint t \<Rightarrow> b
      | Row_up \<Rightarrow> picker_up b
      | Row_folder i nm \<Rightarrow> picker_enter i b
      | Row_object i nm t \<Rightarrow> picker_select i nm b)"

section \<open>Menu, start of the page\<close>

definition board_menu :: "benv \<Rightarrow> string \<Rightarrow> board \<Rightarrow> board" where
  "board_menu e cmd b =
     (if cmd = ''edit.labels'' then snd (editLabelsMenu e b)
      else if cmd = ''edit.checklist'' then snd (editChecklistMenu e b)
      else if cmd = ''view.board'' then setViewMode e ''board'' b
      else if cmd = ''view.swimlanes'' then setViewMode e ''swimlanes'' b
      else if cmd = ''view.gantt'' then setViewMode e ''gantt'' b
      else b)"

record board_replies =
  br_stamp :: string
  br_create :: int
  br_created :: "string option"
  br_meta :: int
  br_tasks :: int
  br_load :: load_result
  br_answer :: "string option"
  br_rename :: int
  br_name :: "string option"

definition board_file_menu ::
  "(string \<Rightarrow> claims option) \<Rightarrow> benv \<Rightarrow> string \<Rightarrow> board_replies \<Rightarrow> string \<Rightarrow> board_page \<Rightarrow> board_page" where
  "board_file_menu jwt e projectId r cmd p =
     (if cmd = ''file.new'' then createErajProject jwt (br_stamp r) (br_create r) (br_created r) p
      else if cmd = ''file.refresh'' then load_page jwt e projectId (br_meta r) (br_tasks r) (br_load r) p
      else if cmd = ''file.rename'' then
        (if js_trim (or_empty (br_answer r)) = [] then p
         else on_client (renameBoard (br_answer r) (if status_ok (br_rename r) then Inr (br_name r) else Inl (nat (br_rename r))))
                (board_api jwt (request ''PUT'' (boardAPI projectId) json_header [(''name'', js_trim (or_empty (br_answer r)))]) (br_rename r) p))
      else if cmd = ''file.openDrive'' then goto_page ''/drive/'' p
      else on_client (board_menu e cmd) p)"

definition board_boot ::
  "(string \<Rightarrow> claims option) \<Rightarrow> int \<Rightarrow> benv \<Rightarrow> string \<Rightarrow> board_replies \<Rightarrow> board_page \<Rightarrow> board_page" where
  "board_boot jwt now e pathname r p =
     (let (s, ok) = requireAuthOrRedirect jwt now (op_session p);
          p1 = (on_client loadViewModePref p)\<lparr>op_session := s\<rparr>
      in if ok then load_page jwt e (page_project pathname) (br_meta r) (br_tasks r) (br_load r) p1 else p1)"

section \<open>Laws\<close>

lemma pct_bytes_percent: "n < 256 \<Longrightarrow> pct_bytes (percent_byte n @ cs) = map_option (\<lambda>ns. n # ns) (pct_bytes cs)"
  by (simp add: percent_byte_def)

lemma pct_bytes_char: "pct_bytes (percent_char c @ cs) = map_option (\<lambda>ns. utf8_bytes c @ ns) (pct_bytes cs)"
proof -
  have "pct_bytes (concat (map percent_byte ns) @ cs) = map_option (\<lambda>ms. ns @ ms) (pct_bytes cs)" if "\<forall>n\<in>set ns. n < 256" for ns
    using that by (induction ns) (auto simp: pct_bytes_percent map_option_case split: option.split)
  then show ?thesis using utf8_bytes_less by (simp add: percent_char_def)
qed

lemma pct_bytes_encode: "pct_bytes (encodeURIComponent s) = Some (concat (map utf8_bytes s))"
proof (induction s)
  case Nil
  show ?case by (simp add: encodeURIComponent_def)
next
  case (Cons c s)
  have e: "encodeURIComponent (c # s) = (if uri_unreserved c then [c] else percent_char c) @ encodeURIComponent s"
    by (simp add: encodeURIComponent_def)
  show ?case using Cons.IH uri_unreserved_plain [of c] unfolding e by (auto simp: pct_bytes_char)
qed

lemma utf8_strict_char: "utf8_strict (utf8_bytes c @ ns) = map_option (\<lambda>s. c # s) (utf8_strict ns)"
proof (cases "(of_char c :: nat) < 128")
  case False
  have "(of_char c :: nat) div 64 \<in> {2, 3}" using False of_char_less [of c] by (simp, linarith)
  moreover have "(of_char c :: nat) div 64 * 64 + of_char c mod 64 = of_char c" by simp
  ultimately show ?thesis using False by (auto simp: utf8_bytes_def Let_def)
qed (simp add: utf8_bytes_def)

lemma utf8_strict_bytes: "utf8_strict (concat (map utf8_bytes s)) = Some s"
  by (induction s) (simp_all add: utf8_strict_char)

lemma decode_encode [simp]: "decodeURIComponent (encodeURIComponent s) = Some s" "decode_part (encodeURIComponent s) = s"
  by (simp_all add: decode_part_def decodeURIComponent_def pct_bytes_encode utf8_strict_bytes)

lemma encode_inj: "encodeURIComponent s = encodeURIComponent t \<longleftrightarrow> s = t"
  by (metis form_decode_encode)

lemma encode_no_slash: "CHR ''/'' \<notin> set (encodeURIComponent s)"
  using encode_chars [of "CHR ''/''" s] by (auto simp: uri_unreserved_def is_digit_def is_upper_def is_lower_def)

lemma encode_empty: "encodeURIComponent s = [] \<longleftrightarrow> s = []"
  by (metis form_decode_encode encode_inj encodeURIComponent_def concat.simps(1) list.map(1))

text \<open>The part of an address after \<open>/api/v1/projects/\<close>, up to the next slash.\<close>

definition call_project :: "string \<Rightarrow> string" where
  "call_project url = takeWhile (\<lambda>c. c \<noteq> CHR ''/'') (drop 17 url)"

lemma take_slash: "CHR ''/'' \<notin> set s \<Longrightarrow> takeWhile (\<lambda>c. c \<noteq> CHR ''/'') (s @ CHR ''/'' # t) = s"
  "CHR ''/'' \<notin> set s \<Longrightarrow> takeWhile (\<lambda>c. c \<noteq> CHR ''/'') s = s"
  by (induction s) auto

lemma call_project_of: "i \<noteq> [] \<Longrightarrow> call_project (snd (board_call i r)) = encodeURIComponent i"
  by (cases r) (simp_all add: call_project_def board_call_def tasksAPI_def taskByIdAPI_def boardAPI_def take_slash encode_no_slash)

lemma call_project_legacy: "call_project (snd (board_call [] r)) \<in> {''tasks'', ''board''}"
  by (cases r) (simp_all add: call_project_def board_call_def tasksAPI_def taskByIdAPI_def boardAPI_def)

lemma encode_words: "encodeURIComponent ''tasks'' = ''tasks''" "encodeURIComponent ''board'' = ''board''"
  by code_simp+

lemma page_project_encoded:
  assumes "i \<noteq> []"
  shows "page_project (''/projects/'' @ encodeURIComponent i) = i"
proof -
  have "split_char CHR ''/'' (''/projects/'' @ encodeURIComponent i) = [[], ''projects'', encodeURIComponent i]"
    by (simp add: split_char_no_sep [OF encode_no_slash])
  then show ?thesis using assms by (simp add: page_project_def pathProjectId_def encode_empty)
qed

text \<open>
  Projects are kept apart: the address a new project goes to is read back as that project, whatever
  characters its identifier has, and no request of the page of one project has an address of another
  project or, unless the project is named like a part of its addresses, of the board without a project.
\<close>

theorem board_projects_apart:
  assumes "signed_in p" "status_ok status" "i \<noteq> []" "i \<noteq> j"
  shows "href (op_session (createErajProject jwt now status (Some i) p)) = Some (''/projects/'' @ encodeURIComponent i)
    \<and> page_project (''/projects/'' @ encodeURIComponent i) = i
    \<and> (j \<noteq> [] \<or> i \<notin> {''tasks'', ''board''} \<longrightarrow> snd (board_call i r) \<noteq> snd (board_call j r'))"
proof -
  have "or_undefined (Some i) = Some i" using assms(3) by (simp add: or_undefined_def)
  then have "href (op_session (createErajProject jwt now status (Some i) p)) = Some (''/projects/'' @ encodeURIComponent i)"
    using assms(1,2) by (simp add: createErajProject_def goto_page_def Let_def)
  moreover have "page_project (''/projects/'' @ encodeURIComponent i) = i" by (rule page_project_encoded [OF assms(3)])
  moreover have "snd (board_call i r) \<noteq> snd (board_call j r')" if "j \<noteq> [] \<or> i \<notin> {''tasks'', ''board''}"
  proof (cases "j = []")
    case True
    then have "call_project (snd (board_call j r')) \<in> {encodeURIComponent ''tasks'', encodeURIComponent ''board''}"
      using call_project_legacy [of r'] by (simp add: encode_words)
    moreover have "encodeURIComponent i \<notin> {encodeURIComponent ''tasks'', encodeURIComponent ''board''}"
      using that True by (simp add: encode_inj)
    ultimately show ?thesis using call_project_of [OF assms(3), of r] by metis
  next
    case False
    then show ?thesis using call_project_of [OF assms(3), of r] call_project_of [OF False, of r'] assms(4) by (metis encode_inj)
  qed
  ultimately show ?thesis by blast
qed

end
