(* ===== verification/Drive_Model.thy ===== *)
theory Drive_Model
  imports Shell_Session Era_Arrays
begin

text \<open>
  The file manager (\<open>ui/drive/web/app.js\<close>), its data: objects of the service, the folder index
  and tree, sorting, locks, the rows that the list shows with the actions each row offers.

  An object of the service is a list of keys and values; identifiers, names and owners are
  strings, sizes, versions and roles numbers. The environment record holds what the browser supplies:
  two forms of \<open>localeCompare\<close>, \<open>Date.parse\<close> and the decoding of a token.
\<close>

section \<open>Objects of the service\<close>

datatype jval = J_null | J_bool bool | J_num int | J_str string

type_synonym json = "(string \<times> jval) list"

definition js_string :: "jval \<Rightarrow> string" where
  "js_string v =
     (case v of J_null \<Rightarrow> ''null'' | J_bool b \<Rightarrow> (if b then ''true'' else ''false'') | J_num n \<Rightarrow> int_str n | J_str s \<Rightarrow> s)"

definition jfalsy :: "jval \<Rightarrow> bool" where
  "jfalsy v \<longleftrightarrow> v \<in> {J_null, J_bool False, J_num 0, J_str []}"

definition jor :: "jval \<Rightarrow> jval \<Rightarrow> jval" where
  "jor v w = (if jfalsy v then w else v)"

fun json_field :: "json \<Rightarrow> string list \<Rightarrow> jval" where
  "json_field obj [] = J_str []"
| "json_field obj (k # ks) =
     (case map_of obj k of
        Some v \<Rightarrow> if v \<noteq> J_null \<and> v \<noteq> J_str [] then v else json_field obj ks
      | None \<Rightarrow> json_field obj ks)"

definition field_id :: "json \<Rightarrow> string" where
  "field_id f = js_string (json_field f [''id'', ''ID''])"

definition field_name :: "json \<Rightarrow> string" where
  "field_name f = js_string (json_field f [''name'', ''Name''])"

record drive_env =
  v_loc :: "string \<Rightarrow> string \<Rightarrow> int"
  v_loc_base :: "string \<Rightarrow> string \<Rightarrow> int"
  v_date :: "string \<Rightarrow> int option"
  v_jwt :: "string \<Rightarrow> claims option"

section \<open>Keys, order\<close>

datatype item_kind = K_folder | K_file

definition itemKey :: "item_kind \<Rightarrow> string \<Rightarrow> string" where
  "itemKey kind i = (if kind = K_folder then ''f:'' else ''o:'') @ i"

definition key_id :: "string \<Rightarrow> string" where
  "key_id key = drop 2 key"

definition key_is_folder :: "string \<Rightarrow> bool" where
  "key_is_folder key \<longleftrightarrow> take 2 key = ''f:''"

definition TRASH_ID :: string where
  "TRASH_ID = ''__trash__''"

definition by_name :: "drive_env \<Rightarrow> json \<Rightarrow> json \<Rightarrow> int" where
  "by_name v a b = v_loc_base v (field_name a) (field_name b)"

definition item_time :: "drive_env \<Rightarrow> json \<Rightarrow> int" where
  "item_time v a =
     (case v_date v (js_string (jor (json_field a [''updated_at'', ''UpdatedAt''])
                              (jor (json_field a [''created_at'', ''CreatedAt'']) (J_num 0)))) of
        None \<Rightarrow> 0 | Some t \<Rightarrow> t)"

definition by_date :: "drive_env \<Rightarrow> json \<Rightarrow> json \<Rightarrow> int" where
  "by_date v a b = item_time v b - item_time v a"

definition extension :: "string \<Rightarrow> string" where
  "extension n = (if CHR ''.'' \<in> set n then last (split_char CHR ''.'' n) else [])"

definition by_type :: "drive_env \<Rightarrow> json \<Rightarrow> json \<Rightarrow> int" where
  "by_type v a b =
     (let c = v_loc v (extension (field_name a)) (extension (field_name b)) in if c \<noteq> 0 then c else by_name v a b)"

definition sortListing :: "drive_env \<Rightarrow> string \<Rightarrow> json list \<Rightarrow> json list \<Rightarrow> json list \<times> json list" where
  "sortListing v driveSort folders objects =
     (let cmp = (if driveSort = ''date'' then by_date v else if driveSort = ''type'' then by_type v else by_name v)
      in (js_sort (\<lambda>a b. by_name v a b \<le> 0) folders, js_sort (\<lambda>a b. cmp a b \<le> 0) objects))"

section \<open>Folders\<close>

record folder_node =
  fn_id :: string
  fn_name :: string
  fn_parent :: string

record path_seg =
  seg_id :: string
  seg_name :: string

definition root_seg :: path_seg where
  "root_seg = \<lparr> seg_id = [], seg_name = ''Root'' \<rparr>"

text \<open>The node that \<open>rememberFolder\<close> records under its identifier; nothing without an identifier.\<close>

definition folder_of :: "json \<Rightarrow> string \<Rightarrow> folder_node option" where
  "folder_of f fallbackParent =
     (if field_id f = [] then None
      else Some \<lparr> fn_id = field_id f, fn_name = or_default (Some (field_name f)) ''(folder)'',
                  fn_parent = or_default (Some (js_string (json_field f [''parent_id'', ''ParentID'']))) fallbackParent \<rparr>)"

type_synonym folder_index = "(string \<times> folder_node) list"

definition rememberFolder :: "json \<Rightarrow> string \<Rightarrow> folder_index \<Rightarrow> folder_index \<times> folder_node option" where
  "rememberFolder f fallbackParent index =
     (case folder_of f fallbackParent of
        None \<Rightarrow> (index, None)
      | Some node \<Rightarrow> (upsert (fn_id node) node index, Some node))"

fun remember_all :: "json list \<Rightarrow> string \<Rightarrow> folder_index \<Rightarrow> folder_index \<times> folder_node list" where
  "remember_all [] parent index = (index, [])"
| "remember_all (f # fs) parent index =
     (let (i1, n) = rememberFolder f parent index; (i2, ns) = remember_all fs parent i1
      in (i2, case n of None \<Rightarrow> ns | Some x \<Rightarrow> x # ns))"

text \<open>The walk to the root stops at an identifier it has seen.\<close>

function path_chain :: "folder_index \<Rightarrow> string list \<Rightarrow> path_seg list \<Rightarrow> string \<Rightarrow> path_seg list" where
  "path_chain index seen chain cur =
     (if cur = [] \<or> cur \<in> set seen then chain
      else (case map_of index cur of
              None \<Rightarrow> chain
            | Some node \<Rightarrow>
                path_chain index (cur # seen) (\<lparr> seg_id = fn_id node, seg_name = fn_name node \<rparr> # chain) (fn_parent node)))"
  by pat_completeness auto
termination
proof (relation "measure (\<lambda>(index, seen, chain, cur). card (fst ` set index - set seen))")
  fix index :: folder_index and seen chain cur node
  assume c: "\<not> (cur = [] \<or> cur \<in> set seen)" "map_of index cur = Some node"
  then have "cur \<in> fst ` set index" by (metis domI dom_map_of_conv_image_fst)
  then have "fst ` set index - set (cur # seen) \<subset> fst ` set index - set seen" using c by auto
  then show "((index, cur # seen, \<lparr> seg_id = fn_id node, seg_name = fn_name node \<rparr> # chain, fn_parent node),
              (index, seen, chain, cur)) \<in> measure (\<lambda>(index, seen, chain, cur). card (fst ` set index - set seen))"
    by (auto intro: psubset_card_mono)
qed simp

declare path_chain.simps [simp del]

definition pathStackForFolder :: "folder_index \<Rightarrow> string \<Rightarrow> path_seg list" where
  "pathStackForFolder index folderId = (if folderId = [] then [root_seg] else root_seg # path_chain index [] [] folderId)"

section \<open>Locks\<close>

definition currentUserId :: "drive_env \<Rightarrow> session \<Rightarrow> string" where
  "currentUserId v s =
     (case Option.bind (token_part (era_token s)) (v_jwt v) of None \<Rightarrow> [] | Some p \<Rightarrow> or_empty (cl_sub p))"

definition objectLockedBy :: "json \<Rightarrow> string" where
  "objectLockedBy ob = js_string (jor (json_field ob [''locked_by'', ''LockedBy'']) (J_str []))"

definition isLockedByOther :: "string \<Rightarrow> json \<Rightarrow> bool" where
  "isLockedByOther me ob \<longleftrightarrow> objectLockedBy ob \<noteq> [] \<and> (me = [] \<or> objectLockedBy ob \<noteq> me)"

definition objectOwnerId :: "json \<Rightarrow> string" where
  "objectOwnerId ob = js_string (jor (json_field ob [''owner_user_id'', ''OwnerUserID'']) (J_str []))"

definition canUnlockObject :: "string \<Rightarrow> json \<Rightarrow> bool" where
  "canUnlockObject me ob \<longleftrightarrow>
     \<not> (me = [] \<or> objectLockedBy ob = []) \<and> (objectLockedBy ob = me \<or> objectOwnerId ob = me)"

section \<open>File types\<close>

definition media_type :: "string \<Rightarrow> string" where
  "media_type ct = js_trim (hd (split_char CHR '';'' (to_lower ct)))"

definition isImagePreviewable :: "string \<Rightarrow> string \<Rightarrow> bool" where
  "isImagePreviewable contentType name =
     (if take 6 (media_type contentType) = ''image/'' then True
      else (\<exists>e\<in>set [''.png'', ''.jpg'', ''.jpeg'', ''.gif'', ''.webp'']. ends_with e (to_lower name)))"

definition isTextPreviewable :: "string \<Rightarrow> string \<Rightarrow> bool" where
  "isTextPreviewable contentType name =
     (if take 5 (media_type contentType) = ''text/'' then True
      else (\<exists>e\<in>set [''.txt'', ''.md'', ''.csv'', ''.json'', ''.html'', ''.htm'']. ends_with e (to_lower name)))"

datatype open_kind = O_docs | O_tables | O_pres | O_projects

definition detectOpenKind :: "string \<Rightarrow> string \<Rightarrow> open_kind option" where
  "detectOpenKind lowerName contentType =
     (let ct = to_lower contentType in
      if str_includes ''wordprocessingml'' ct \<or> ends_with ''.erad'' lowerName \<or> ends_with ''.docx'' lowerName then Some O_docs
      else if str_includes ''spreadsheetml'' ct \<or> ends_with ''.erat'' lowerName \<or> ends_with ''.xlsx'' lowerName then Some O_tables
      else if str_includes ''presentationml'' ct \<or> ends_with ''.erap'' lowerName \<or> ends_with ''.pptx'' lowerName then Some O_pres
      else if str_includes ''vnd.era.eraj'' ct \<or> ends_with ''.eraj'' lowerName then Some O_projects
      else None)"

fun OPEN_PATH :: "open_kind \<Rightarrow> string" where
  "OPEN_PATH O_docs = ''/docs/''"
| "OPEN_PATH O_tables = ''/tables/''"
| "OPEN_PATH O_pres = ''/presentations/''"
| "OPEN_PATH O_projects = ''/projects/''"

fun KIND_ICON :: "open_kind option \<Rightarrow> string" where
  "KIND_ICON (Some O_docs) = ''navDocs''"
| "KIND_ICON (Some O_tables) = ''navTables''"
| "KIND_ICON (Some O_pres) = ''navPres''"
| "KIND_ICON (Some O_projects) = ''navProjects''"
| "KIND_ICON None = ''file''"

section \<open>Rows\<close>

text \<open>
  A row as data. A button carries the work its click does; the class \<open>disabled\<close> of a button
  only changes its look, its click still runs its function.
\<close>

datatype row_action =
    A_open open_kind string
  | A_open_with string
  | A_move string string item_kind
  | A_trash item_kind string string
  | A_status string
  | A_preview string string
  | A_download string string
  | A_versions string string
  | A_share string string
  | A_lock string string bool
  | A_rename item_kind string string
  | A_restore item_kind string

record row_button =
  rb_label :: string
  rb_icon :: string
  rb_act :: row_action
  rb_disabled :: bool

record drive_row =
  r_kind :: item_kind
  r_id :: string
  r_name :: string
  r_key :: "string option"
  r_selected :: bool
  r_icon :: string
  r_open :: "open_kind option"
  r_locked :: string
  r_meta :: string
  r_actions :: "row_button list"
  r_more :: "row_button list"
  r_draggable :: bool

datatype drive_view =
    Rows "drive_row list"
  | Empty_card string string bool

definition button :: "string \<Rightarrow> string \<Rightarrow> row_action \<Rightarrow> row_button" where
  "button l i a = \<lparr> rb_label = l, rb_icon = i, rb_act = a, rb_disabled = False \<rparr>"

definition disabled_button :: "string \<Rightarrow> string \<Rightarrow> row_action \<Rightarrow> row_button" where
  "disabled_button l i a = \<lparr> rb_label = l, rb_icon = i, rb_act = a, rb_disabled = True \<rparr>"

definition renderFolder :: "string list \<Rightarrow> json \<Rightarrow> drive_row" where
  "renderFolder sel f =
     (let i = field_id f; name = or_default (Some (field_name f)) ''(folder)''; key = itemKey K_folder i in
      \<lparr> r_kind = K_folder, r_id = i, r_name = name, r_key = Some key, r_selected = (key \<in> set sel),
        r_icon = ''folder'', r_open = None, r_locked = [], r_meta = ''Folder'',
        r_actions = [button ''Move'' ''move'' (A_move i name K_folder), button ''Delete'' ''trash'' (A_trash K_folder i name)],
        r_more = [button ''Rename'' ''rename'' (A_rename K_folder i name)], r_draggable = True \<rparr>)"

definition move_trash_buttons :: "string \<Rightarrow> string \<Rightarrow> bool \<Rightarrow> string \<Rightarrow> row_button list" where
  "move_trash_buttons i name other lockedBy =
     (if other then
        [disabled_button (''Move disabled - locked by '' @ lockedBy) ''move''
           (A_status (''File locked by '' @ lockedBy @ '' - move disabled'')),
         disabled_button (''Delete disabled - locked by '' @ lockedBy) ''trash''
           (A_status (''File locked by '' @ lockedBy @ '' - delete disabled''))]
      else [button ''Move'' ''move'' (A_move i name K_file), button ''Delete'' ''trash'' (A_trash K_file i name)])"

definition lock_item :: "string \<Rightarrow> json \<Rightarrow> string \<Rightarrow> string \<Rightarrow> row_button" where
  "lock_item me ob i name =
     (let lockedBy = objectLockedBy ob in
      if lockedBy \<noteq> [] then
        (if canUnlockObject me ob then button ''Unlock'' ''unlock'' (A_lock i name False)
         else disabled_button (''Unlock (locked by '' @ lockedBy @ '')'') ''unlock''
                (A_status (''Only locker or owner can unlock (locked by '' @ lockedBy @ '')'')))
      else button ''Lock'' ''lock'' (A_lock i name True))"

definition rename_item :: "string \<Rightarrow> string \<Rightarrow> bool \<Rightarrow> string \<Rightarrow> row_button" where
  "rename_item i name other lockedBy =
     (if other then disabled_button ''Rename (locked)'' ''rename'' (A_status (''File locked by '' @ lockedBy @ '' - rename disabled''))
      else button ''Rename'' ''rename'' (A_rename K_file i name))"

definition renderObject :: "string \<Rightarrow> string list \<Rightarrow> json \<Rightarrow> drive_row" where
  "renderObject me sel ob =
     (let i = field_id ob;
          name = or_default (Some (field_name ob)) ''(file)'';
          size = js_string (jor (json_field ob [''size_bytes'', ''SizeBytes'']) (J_num 0));
          ver = js_string (jor (json_field ob [''version'', ''Version'']) (J_num 1));
          lockedBy = objectLockedBy ob;
          other = isLockedByOther me ob;
          key = itemKey K_file i;
          kind = detectOpenKind (to_lower name)
                   (to_lower (js_string (jor (json_field ob [''content_type'', ''ContentType'']) (J_str []))))
      in \<lparr> r_kind = K_file, r_id = i, r_name = name, r_key = Some key, r_selected = (key \<in> set sel),
           r_icon = KIND_ICON kind, r_open = kind, r_locked = lockedBy,
           r_meta = size @ '' B - v'' @ ver @ (if lockedBy \<noteq> [] then '' - locked by '' @ lockedBy else []),
           r_actions = (case kind of Some k \<Rightarrow> button ''Open'' ''open'' (A_open k i)
                                   | None \<Rightarrow> button ''Open with...'' ''open'' (A_open_with i))
                       # move_trash_buttons i name other lockedBy,
           r_more = [button ''Preview'' ''image'' (A_preview i name), button ''Download'' ''download'' (A_download i name),
                     button ''Versions'' ''history'' (A_versions i name), button ''Share'' ''share'' (A_share i name),
                     lock_item me ob i name, rename_item i name other lockedBy],
           r_draggable = (\<not> other) \<rparr>)"

definition trash_row :: "item_kind \<Rightarrow> json \<Rightarrow> drive_row" where
  "trash_row kind f =
     (let i = field_id f;
          name = or_default (Some (field_name f)) (if kind = K_folder then ''(folder)'' else ''(file)'')
      in \<lparr> r_kind = kind, r_id = i, r_name = name, r_key = None, r_selected = False,
           r_icon = (if kind = K_folder then ''folder'' else ''file''), r_open = None, r_locked = [],
           r_meta = (if kind = K_folder then ''Folder'' else ''File''),
           r_actions = [button ''Restore'' ''undo'' (A_restore kind i)], r_more = [], r_draggable = False \<rparr>)"

definition empty_card :: "bool \<Rightarrow> bool \<Rightarrow> drive_view" where
  "empty_card isSearch isTrash =
     (if isSearch then Empty_card ''No results'' ''Try another search term, or clear search to browse folders.'' False
      else if isTrash then Empty_card ''Trash is empty'' ''Items you move to Trash will appear here.'' False
      else Empty_card ''This folder is empty'' ''Upload a file or create a folder to get started.'' True)"

end
