(* ===== verification/Drive_App.thy ===== *)
theory Drive_App
  imports Drive_Model
begin

text \<open>
  The file manager (\<open>ui/drive/web/app.js\<close>), its handlers. The service is a parameter \<open>srv\<close>: from
  its state and a request it gives its next state and a reply. A handler runs to its end before
  the next one starts. Its value is \<open>None\<close> when it never returns, and otherwise the new state
  and whether it completed: \<open>False\<close> says that it was left by an exception, which is what
  \<open>api\<close> raises on a reply 401 after the shell has sent the page to the sign-in page.
  What a dialog answers is an argument.
\<close>

section \<open>State\<close>

datatype drive_body =
    No_body
  | Json_body json
  | Acl_body "(string \<times> int) list"
  | Form_body json

record drive_req =
  rq_method :: string
  rq_path :: string
  rq_body :: drive_body

record drive_reply =
  rp_status :: int
  rp_folders :: "json list"
  rp_objects :: "json list"
  rp_acl :: "json list"
  rp_versions :: "json list"
  rp_type :: string
  rp_length :: "int option"
  rp_size :: int
  rp_text :: string

type_synonym 's drive_service = "'s \<Rightarrow> drive_req \<Rightarrow> 's \<times> drive_reply"

record acl_entry =
  ac_principal :: string
  ac_role :: int

record share_state =
  sh_id :: string
  sh_name :: string
  sh_entries :: "acl_entry list"

record move_state =
  mv_id :: string
  mv_name :: string
  mv_kind :: item_kind
  mv_multi :: "string list option"

record tree_line =
  tl_depth :: nat
  tl_id :: string
  tl_name :: string
  tl_twist :: string
  tl_disabled :: bool
  tl_active :: bool

datatype preview_body =
    P_none
  | P_image
  | P_text string
  | P_fallback string

record 's drive =
  pathStack :: "path_seg list"
  shareState :: "share_state option"
  moveState :: "move_state option"
  folderIndex :: folder_index
  treeChildren :: "(string \<times> folder_node list) list"
  treeExpanded :: "string list"
  selectedKeys :: "string list"
  lastClickedKey :: string
  driveSort :: string
  trashMode :: bool
  lastListing :: "json list \<times> json list"
  driveViewMode :: string
  dr_session :: session
  dr_toast :: toast
  dr_view :: drive_view
  dr_stats :: string
  dr_hint :: string
  dr_barHidden :: bool
  dr_count :: string
  dr_crumbs :: "(string \<times> string option) list"
  dr_tree :: "tree_line list"
  dr_rootActive :: bool
  dr_trashActive :: bool
  dr_searchInput :: string
  dr_searchClear :: bool
  dr_newFolderName :: string
  dr_newMenu :: bool
  dr_movePanel :: bool
  dr_moveOptions :: "(string \<times> string) list"
  dr_moveSelect :: string
  dr_sharePanel :: bool
  dr_aclPrincipal :: string
  dr_previewPanel :: bool
  dr_preview :: preview_body
  dr_previewUrl :: bool
  dr_previewHint :: "string option"
  dr_versions :: "string list"
  dr_versionsPanel :: bool
  dr_service :: 's
  dr_requests :: "drive_req list"

text \<open>The module variables when the page has loaded.\<close>

definition drive_init :: "session \<Rightarrow> string \<Rightarrow> string \<Rightarrow> 's \<Rightarrow> 's drive" where
  "drive_init sess srt view svc =
     \<lparr> pathStack = [root_seg], shareState = None, moveState = None, folderIndex = [], treeChildren = [],
       treeExpanded = [[]], selectedKeys = [], lastClickedKey = [], driveSort = srt, trashMode = False,
       lastListing = ([], []), driveViewMode = view, dr_session = sess,
       dr_toast = \<lparr> to_text = [], to_class = [], to_show = False, to_timer = None \<rparr>,
       dr_view = Rows [], dr_stats = [], dr_hint = [], dr_barHidden = True, dr_count = [], dr_crumbs = [],
       dr_tree = [], dr_rootActive = False, dr_trashActive = False, dr_searchInput = [], dr_searchClear = False,
       dr_newFolderName = [], dr_newMenu = False, dr_movePanel = False, dr_moveOptions = [], dr_moveSelect = [],
       dr_sharePanel = False, dr_aclPrincipal = [], dr_previewPanel = False, dr_preview = P_none,
       dr_previewUrl = False, dr_previewHint = None, dr_versions = [], dr_versionsPanel = False,
       dr_service = svc, dr_requests = [] \<rparr>"

type_synonym 's drive_act = "'s drive \<Rightarrow> ('s drive \<times> bool) option"

definition andThen :: "'s drive_act \<Rightarrow> 's drive_act \<Rightarrow> 's drive_act" where
  "andThen m k d = (case m d of None \<Rightarrow> None | Some (d1, ok) \<Rightarrow> if ok then k d1 else Some (d1, False))"

definition done_with :: "'s drive \<Rightarrow> ('s drive \<times> bool) option" where
  "done_with d = Some (d, True)"

definition reply_ok :: "drive_reply \<Rightarrow> bool" where
  "reply_ok r \<longleftrightarrow> 200 \<le> rp_status r \<and> rp_status r < 300"

text \<open>\<open>api\<close>: the reply, or nothing when it raises.\<close>

definition drive_api :: "'s drive_service \<Rightarrow> drive_req \<Rightarrow> 's drive \<Rightarrow> 's drive \<times> drive_reply option" where
  "drive_api srv q d =
     (let (s', r) = srv (dr_service d) q;
          d1 = d\<lparr>dr_service := s', dr_requests := dr_requests d @ [q],
                 dr_session := fst (handleUnauthorized (rp_status r) (dr_session d))\<rparr>
      in (d1, if rp_status r = 401 then None else Some r))"

definition with_reply :: "'s drive_service \<Rightarrow> drive_req \<Rightarrow> (drive_reply \<Rightarrow> 's drive_act) \<Rightarrow> 's drive_act" where
  "with_reply srv q k d = (case drive_api srv q d of (d1, None) \<Rightarrow> Some (d1, False) | (d1, Some r) \<Rightarrow> k r d1)"

definition api_path :: "string \<Rightarrow> string" where
  "api_path p = ''/api/v1/drive'' @ p"

definition get_req :: "string \<Rightarrow> drive_req" where
  "get_req p = \<lparr> rq_method = ''GET'', rq_path = api_path p, rq_body = No_body \<rparr>"

definition post_req :: "string \<Rightarrow> drive_req" where
  "post_req p = \<lparr> rq_method = ''POST'', rq_path = api_path p, rq_body = No_body \<rparr>"

definition patch_req :: "string \<Rightarrow> json \<Rightarrow> drive_req" where
  "patch_req p b = \<lparr> rq_method = ''PATCH'', rq_path = api_path p, rq_body = Json_body b \<rparr>"

definition folder_path :: "string \<Rightarrow> string" where
  "folder_path i = ''/folders/'' @ encodeURIComponent i"

definition object_path :: "string \<Rightarrow> string" where
  "object_path i = ''/objects/'' @ encodeURIComponent i"

definition item_path :: "item_kind \<Rightarrow> string \<Rightarrow> string" where
  "item_path kind i = (if kind = K_folder then folder_path i else object_path i)"

definition drive_status :: "string \<Rightarrow> bool \<Rightarrow> 's drive \<Rightarrow> 's drive" where
  "drive_status msg isErr d = d\<lparr>dr_toast := toastStatus msg isErr (dr_toast d)\<rparr>"

definition fail_status :: "string \<Rightarrow> 's drive_act" where
  "fail_status msg d = done_with (drive_status msg True d)"

definition currentFolderId :: "'s drive \<Rightarrow> string" where
  "currentFolderId d = seg_id (last (pathStack d))"

definition inTrash :: "'s drive \<Rightarrow> bool" where
  "inTrash d \<longleftrightarrow> trashMode d \<or> currentFolderId d = TRASH_ID"

section \<open>Selection\<close>

definition updateSelectionBar :: "'s drive \<Rightarrow> 's drive" where
  "updateSelectionBar d =
     d\<lparr>dr_barHidden := (selectedKeys d = [] \<or> trashMode d), dr_count := nat_str (length (selectedKeys d)) @ '' selected''\<rparr>"

definition select_row :: "string list \<Rightarrow> drive_row \<Rightarrow> drive_row" where
  "select_row sel r = (case r_key r of None \<Rightarrow> r | Some k \<Rightarrow> r\<lparr>r_selected := (k \<in> set sel)\<rparr>)"

definition applySelection :: "string list \<Rightarrow> drive_view \<Rightarrow> drive_view" where
  "applySelection sel w = (case w of Rows rs \<Rightarrow> Rows (map (select_row sel) rs) | _ \<Rightarrow> w)"

definition clear_rows :: "drive_view \<Rightarrow> drive_view" where
  "clear_rows w = (case w of Rows rs \<Rightarrow> Rows (map (\<lambda>r. r\<lparr>r_selected := False\<rparr>) rs) | _ \<Rightarrow> w)"

definition clearSelection :: "'s drive \<Rightarrow> 's drive" where
  "clearSelection d = updateSelectionBar (d\<lparr>selectedKeys := [], lastClickedKey := [], dr_view := clear_rows (dr_view d)\<rparr>)"

definition orderedKeysFromListing :: "'s drive \<Rightarrow> string list" where
  "orderedKeysFromListing d =
     map (\<lambda>f. itemKey K_folder (field_id f)) (fst (lastListing d)) @ map (\<lambda>ob. itemKey K_file (field_id ob)) (snd (lastListing d))"

definition range_keys :: "string list \<Rightarrow> nat \<Rightarrow> nat \<Rightarrow> string list" where
  "range_keys ks a b = take (max a b - min a b + 1) (drop (min a b) ks)"

definition show_selection :: "'s drive \<Rightarrow> 's drive" where
  "show_selection d = updateSelectionBar (d\<lparr>dr_view := applySelection (selectedKeys d) (dr_view d)\<rparr>)"

definition handleRowSelect :: "bool \<Rightarrow> bool \<Rightarrow> item_kind \<Rightarrow> string \<Rightarrow> 's drive \<Rightarrow> 's drive" where
  "handleRowSelect shiftKey ctrlKey kind i d =
     (let key = itemKey kind i;
          ks = orderedKeysFromListing d;
          ends = (if shiftKey \<and> lastClickedKey d \<noteq> [] then
                    (case (find_index (\<lambda>k. k = lastClickedKey d) ks, find_index (\<lambda>k. k = key) ks) of
                       (Some a, Some b) \<Rightarrow> Some (a, b) | _ \<Rightarrow> None)
                  else None)
      in case ends of
           Some (a, b) \<Rightarrow> show_selection (d\<lparr>selectedKeys := fold set_add (range_keys ks a b) (selectedKeys d)\<rparr>)
         | None \<Rightarrow>
             show_selection
               (d\<lparr>selectedKeys := (if ctrlKey then
                                    (if key \<in> set (selectedKeys d) then set_delete key (selectedKeys d)
                                     else set_add key (selectedKeys d))
                                  else [key]),
                  lastClickedKey := key\<rparr>))"

section \<open>The folder tree\<close>

definition kids_of :: "(string \<times> folder_node list) list \<Rightarrow> string \<Rightarrow> folder_node list" where
  "kids_of tc p = (case map_of tc p of None \<Rightarrow> [] | Some ns \<Rightarrow> ns)"

definition sort_nodes :: "drive_env \<Rightarrow> folder_node list \<Rightarrow> folder_node list" where
  "sort_nodes v ns = js_sort (\<lambda>a b. v_loc v (fn_name a) (fn_name b) \<le> 0) ns"

definition children_req :: "string \<Rightarrow> drive_req" where
  "children_req key = get_req (folder_path (or_default (Some key) ''_root'') @ ''/children'')"

definition ensureTreeChildren :: "'s drive_service \<Rightarrow> drive_env \<Rightarrow> string \<Rightarrow> 's drive \<Rightarrow> 's drive \<times> bool" where
  "ensureTreeChildren srv v key d =
     (if map_of (treeChildren d) key \<noteq> None then (d, True)
      else (case drive_api srv (children_req key) d of
              (d1, None) \<Rightarrow> (d1, False)
            | (d1, Some r) \<Rightarrow>
                if \<not> reply_ok r then (d1\<lparr>treeChildren := upsert key [] (treeChildren d1)\<rparr>, True)
                else (let (ix, ns) = remember_all (rp_folders r) key (folderIndex d1)
                      in (d1\<lparr>folderIndex := ix, treeChildren := upsert key (sort_nodes v ns) (treeChildren d1)\<rparr>, True))))"

definition line_of :: "(string \<times> folder_node list) list \<Rightarrow> string list \<Rightarrow> string option \<Rightarrow> nat \<Rightarrow> folder_node \<Rightarrow> tree_line" where
  "line_of tc ex act depth n =
     (let none = (map_of tc (fn_id n) = Some []) in
      \<lparr> tl_depth = depth, tl_id = fn_id n, tl_name = fn_name n,
        tl_twist = (if none then ''leaf'' else if fn_id n \<in> set ex then ''open'' else ''closed''),
        tl_disabled = none, tl_active = (act = Some (fn_id n)) \<rparr>)"

text \<open>
  The lines of the tree in the order in which \<open>renderLevel\<close> draws them: a node, then its
  children when it is expanded, then the nodes after it.
\<close>

definition level_below :: "(string \<times> folder_node list) list \<Rightarrow> string list \<Rightarrow> nat \<times> folder_node \<Rightarrow> (nat \<times> folder_node) list" where
  "level_below tc ex w = (if fn_id (snd w) \<in> set ex then map (Pair (Suc (fst w))) (kids_of tc (fn_id (snd w))) else [])"

partial_function (option) renderLevel ::
  "(string \<times> folder_node list) list \<Rightarrow> string list \<Rightarrow> string option \<Rightarrow> (nat \<times> folder_node) list \<Rightarrow> tree_line list option" where
  "renderLevel tc ex act ws =
     (if ws = [] then Some []
      else Option.bind (renderLevel tc ex act (level_below tc ex (hd ws) @ tl ws))
             (\<lambda>ls. Some (line_of tc ex act (fst (hd ws)) (snd (hd ws)) # ls)))"

text \<open>A recursion of \<open>renderLevel\<close> without end overflows the stack, which raises.\<close>

definition renderFolderTree :: "'s drive_act" where
  "renderFolderTree d =
     (let act = (if inTrash d then None else Some (currentFolderId d)) in
      case renderLevel (treeChildren d) (treeExpanded d) act (map (Pair 0) (kids_of (treeChildren d) [])) of
        None \<Rightarrow> Some (d\<lparr>dr_tree := []\<rparr>, False)
      | Some ls \<Rightarrow> done_with (d\<lparr>dr_tree := ls, dr_rootActive := (act = Some []), dr_trashActive := inTrash d\<rparr>))"

text \<open>The loop that expands the ancestors of a folder; it follows the index without a check for a cycle.\<close>

definition expand_parent :: "'s drive_service \<Rightarrow> drive_env \<Rightarrow> folder_node \<Rightarrow> 's drive \<Rightarrow> 's drive \<times> bool" where
  "expand_parent srv v node d =
     ensureTreeChildren srv v (fn_parent node) (d\<lparr>treeExpanded := set_add (fn_parent node) (treeExpanded d)\<rparr>)"

partial_function (option) expand_parents ::
  "'s drive_service \<Rightarrow> drive_env \<Rightarrow> folder_node option \<Rightarrow> 's drive \<Rightarrow> ('s drive \<times> bool) option" where
  "expand_parents srv v p d =
     (if p = None \<or> fn_parent (the p) = [] then Some (d, True)
      else if \<not> snd (expand_parent srv v (the p) d) then Some (fst (expand_parent srv v (the p) d), False)
      else expand_parents srv v
             (map_of (folderIndex (fst (expand_parent srv v (the p) d))) (fn_parent (the p)))
             (fst (expand_parent srv v (the p) d)))"

fun expand_path :: "'s drive_service \<Rightarrow> drive_env \<Rightarrow> path_seg list \<Rightarrow> 's drive_act" where
  "expand_path srv v [] d = Some (d, True)"
| "expand_path srv v (seg # segs) d =
     (if seg_id seg = [] then expand_path srv v segs d
      else (let (d1, ok) = ensureTreeChildren srv v (seg_id seg) (d\<lparr>treeExpanded := set_add (seg_id seg) (treeExpanded d)\<rparr>) in
            if \<not> ok then Some (d1, False)
            else andThen (expand_parents srv v (map_of (folderIndex d1) (seg_id seg))) (expand_path srv v segs) d1))"

fun ensure_all :: "'s drive_service \<Rightarrow> drive_env \<Rightarrow> string list \<Rightarrow> 's drive \<Rightarrow> 's drive \<times> bool" where
  "ensure_all srv v [] d = (d, True)"
| "ensure_all srv v (i # is) d =
     (if i = [] then ensure_all srv v is d
      else (let (d1, ok) = ensureTreeChildren srv v i d in if ok then ensure_all srv v is d1 else (d1, False)))"

definition drop_path_cache :: "path_seg list \<Rightarrow> (string \<times> folder_node list) list \<Rightarrow> (string \<times> folder_node list) list" where
  "drop_path_cache segs tc = fold (\<lambda>s t. if seg_id s = [] then t else obj_del (seg_id s) t) segs (obj_del [] tc)"

definition refreshFolderTree :: "'s drive_service \<Rightarrow> drive_env \<Rightarrow> 's drive_act" where
  "refreshFolderTree srv v d =
     (if era_token (dr_session d) = [] then done_with (d\<lparr>dr_tree := []\<rparr>)
      else (let (d1, ok) = ensureTreeChildren srv v [] (d\<lparr>treeChildren := drop_path_cache (pathStack d) (treeChildren d)\<rparr>) in
            if \<not> ok then Some (d1, False)
            else andThen (expand_path srv v (pathStack d1))
                   (\<lambda>d2. let (d3, ok3) = ensure_all srv v (treeExpanded d2) d2 in
                         if ok3 then renderFolderTree d3 else Some (d3, False)) d1))"

end
