(* ===== verification/Drive_Ops.thy ===== *)
theory Drive_Ops
  imports Drive_App
begin

text \<open>
  The file manager (\<open>ui/drive/web/app.js\<close>), continued: listing and navigation, search, trash,
  moving by dialog and by drag and drop, locks, names, sharing, previews and uploads.
\<close>

section \<open>Listing\<close>

text \<open>The crumbs: text and target; the last one is no link.\<close>

definition renderBreadcrumb :: "'s drive \<Rightarrow> 's drive" where
  "renderBreadcrumb d =
     d\<lparr>dr_crumbs :=
         (if inTrash d then [(''My Drive'', Some []), (''Trash'', None)]
          else map (\<lambda>s. (seg_name s, Some (seg_id s))) (butlast (pathStack d)) @ [(seg_name (last (pathStack d)), None)])\<rparr>"

definition renderListing :: "drive_env \<Rightarrow> json list \<Rightarrow> json list \<Rightarrow> bool \<Rightarrow> 's drive \<Rightarrow> 's drive" where
  "renderListing v folders objects isSearch d =
     (let sorted = sortListing v (driveSort d) folders objects;
          me = currentUserId v (dr_session d);
          d1 = d\<lparr>lastListing := sorted\<rparr>
      in updateSelectionBar
           (d1\<lparr>dr_view :=
                 (if fst sorted = [] \<and> snd sorted = [] then empty_card isSearch (inTrash d)
                  else Rows (map (renderFolder (selectedKeys d)) (fst sorted)
                             @ map (renderObject me (selectedKeys d)) (snd sorted)))\<rparr>))"

definition renderTrashListing :: "drive_env \<Rightarrow> json list \<Rightarrow> json list \<Rightarrow> 's drive \<Rightarrow> 's drive" where
  "renderTrashListing v folders objects d =
     (if folders = [] \<and> objects = [] then renderListing v [] [] False (d\<lparr>lastListing := ([], [])\<rparr>)
      else updateSelectionBar
             (d\<lparr>lastListing := (folders, objects),
                dr_view := Rows (map (trash_row K_folder) folders @ map (trash_row K_file) objects)\<rparr>))"

definition listing_stats :: "drive_reply \<Rightarrow> string" where
  "listing_stats r = nat_str (length (rp_folders r)) @ '' folder(s) - '' @ nat_str (length (rp_objects r)) @ '' file(s)''"

definition refresh_trash :: "'s drive_service \<Rightarrow> drive_env \<Rightarrow> 's drive_act" where
  "refresh_trash srv v d =
     with_reply srv (get_req ''/trash'')
       (\<lambda>r d1. if \<not> reply_ok r then fail_status (''Trash list failed: '' @ int_str (rp_status r)) d1
               else (let stats = listing_stats r @ '' in Trash'' in
                     renderFolderTree (renderTrashListing v (rp_folders r) (rp_objects r)
                       ((drive_status (''Trash - '' @ stats) False d1)\<lparr>dr_stats := stats\<rparr>))))
       (d\<lparr>trashMode := True, dr_hint := ''Trash''\<rparr>)"

definition refresh_folder :: "'s drive_service \<Rightarrow> drive_env \<Rightarrow> 's drive_act" where
  "refresh_folder srv v d =
     with_reply srv (children_req (currentFolderId d))
       (\<lambda>r d1. if \<not> reply_ok r then fail_status (''Drive list failed: '' @ int_str (rp_status r)) d1
               else (let parent = currentFolderId d1;
                         (ix, ns) = remember_all (rp_folders r) parent (folderIndex d1);
                         stats = listing_stats r;
                         d2 = d1\<lparr>folderIndex := ix, treeChildren := upsert parent (sort_nodes v ns) (treeChildren d1)\<rparr>
                     in refreshFolderTree srv v
                          (renderListing v (rp_folders r) (rp_objects r) False
                            ((drive_status (''Signed in - '' @ stats) False d2)\<lparr>dr_stats := stats\<rparr>))))
       (d\<lparr>trashMode := False, dr_hint := ''Folders - files - Office objects''\<rparr>)"

definition refreshFiles :: "'s drive_service \<Rightarrow> drive_env \<Rightarrow> 's drive_act" where
  "refreshFiles srv v d =
     (let d1 = renderBreadcrumb (d\<lparr>dr_searchClear := False\<rparr>) in
      if era_token (dr_session d1) = [] then
        done_with (drive_status ''Not signed in'' True (d1\<lparr>dr_view := Rows [], dr_tree := []\<rparr>))
      else if inTrash d1 then refresh_trash srv v d1
      else refresh_folder srv v d1)"

definition refresh_both :: "'s drive_service \<Rightarrow> drive_env \<Rightarrow> 's drive_act" where
  "refresh_both srv v = andThen (refreshFiles srv v) (refreshFolderTree srv v)"

section \<open>Navigation\<close>

definition navigateToFolder :: "'s drive_service \<Rightarrow> drive_env \<Rightarrow> string \<Rightarrow> 's drive_act" where
  "navigateToFolder srv v folderId d =
     (if folderId = TRASH_ID then
        refreshFiles srv v
          (clearSelection (d\<lparr>trashMode := True, pathStack := [\<lparr> seg_id = TRASH_ID, seg_name = ''Trash'' \<rparr>]\<rparr>))
      else
        (let ps = pathStackForFolder (folderIndex d) folderId;
             ps1 = (case map_of (folderIndex d) folderId of
                      Some node \<Rightarrow> if folderId \<noteq> [] \<and> length ps = 1
                                   then [root_seg, \<lparr> seg_id = fn_id node, seg_name = fn_name node \<rparr>] else ps
                    | None \<Rightarrow> ps)
         in refreshFiles srv v
              (clearSelection (d\<lparr>trashMode := False, pathStack := ps1,
                                 treeExpanded := (if folderId \<noteq> [] then set_add folderId (treeExpanded d) else treeExpanded d)\<rparr>))))"

definition open_folder_row :: "'s drive_service \<Rightarrow> drive_env \<Rightarrow> json \<Rightarrow> 's drive_act" where
  "open_folder_row srv v f d =
     (let i = field_id f; name = or_default (Some (field_name f)) ''(folder)''; parent = currentFolderId d;
          ix = fst (rememberFolder f parent (folderIndex d));
          ex = (if parent \<noteq> [] then set_add parent (treeExpanded d) else treeExpanded d)
      in refreshFiles srv v
           (clearSelection (d\<lparr>folderIndex := ix, treeExpanded := set_add i ex,
                              pathStack := pathStack d @ [\<lparr> seg_id = i, seg_name = name \<rparr>]\<rparr>)))"

definition folder_name_click :: "'s drive_service \<Rightarrow> drive_env \<Rightarrow> bool \<Rightarrow> bool \<Rightarrow> json \<Rightarrow> 's drive_act" where
  "folder_name_click srv v shiftKey ctrlKey f d =
     (if shiftKey \<or> ctrlKey then done_with (handleRowSelect shiftKey ctrlKey K_folder (field_id f) d)
      else open_folder_row srv v f d)"

definition tree_twist :: "'s drive_service \<Rightarrow> drive_env \<Rightarrow> string \<Rightarrow> 's drive_act" where
  "tree_twist srv v i d =
     (if i \<in> set (treeExpanded d) then renderFolderTree (d\<lparr>treeExpanded := set_delete i (treeExpanded d)\<rparr>)
      else (let (d1, ok) = ensureTreeChildren srv v i (d\<lparr>treeExpanded := set_add i (treeExpanded d)\<rparr>)
            in if ok then renderFolderTree d1 else Some (d1, False)))"

section \<open>Search, order, view\<close>

definition runSearch :: "'s drive_service \<Rightarrow> drive_env \<Rightarrow> 's drive_act" where
  "runSearch srv v d =
     (let q = js_trim (dr_searchInput d) in
      if q = [] then refreshFiles srv v d
      else if era_token (dr_session d) = [] then fail_status ''Sign in first'' d
      else with_reply srv (get_req (''/search?q='' @ encodeURIComponent q))
             (\<lambda>r d1. if \<not> reply_ok r then fail_status (''Search failed: '' @ int_str (rp_status r)) d1
                     else done_with (renderListing v (rp_folders r) (rp_objects r) True
                            (drive_status (''Search: '' @ nat_str (length (rp_folders r) + length (rp_objects r)) @ '' results'') False
                              (d1\<lparr>dr_searchClear := True\<rparr>)))) d)"

definition clearSearch :: "'s drive_service \<Rightarrow> drive_env \<Rightarrow> 's drive_act" where
  "clearSearch srv v d = refreshFiles srv v (d\<lparr>dr_searchInput := []\<rparr>)"

definition sort_changed :: "drive_env \<Rightarrow> string \<Rightarrow> 's drive \<Rightarrow> 's drive" where
  "sort_changed v val d =
     (let d1 = d\<lparr>driveSort := or_default (Some val) ''name''\<rparr>
      in renderListing v (fst (lastListing d1)) (snd (lastListing d1)) False d1)"

definition saved_sort :: "string option \<Rightarrow> string" where
  "saved_sort s = (if s \<in> {Some ''name'', Some ''date'', Some ''type''} then the s else ''name'')"

definition saved_view :: "string option \<Rightarrow> string" where
  "saved_view s = (if s \<in> {Some ''grid'', Some ''list''} then the s else ''list'')"

definition set_view_mode :: "string \<Rightarrow> 's drive \<Rightarrow> 's drive" where
  "set_view_mode m d = d\<lparr>driveViewMode := m\<rparr>"

definition toggleNewMenu :: "'s drive \<Rightarrow> 's drive" where
  "toggleNewMenu d = d\<lparr>dr_newMenu := (\<not> dr_newMenu d)\<rparr>"

definition closeNewMenu :: "'s drive \<Rightarrow> 's drive" where
  "closeNewMenu d = d\<lparr>dr_newMenu := False\<rparr>"

text \<open>\<open>typed\<close> is the answer to the prompt for the name, \<open>None\<close> when it was cancelled.\<close>

definition createFolderFromUi :: "'s drive_service \<Rightarrow> drive_env \<Rightarrow> bool \<Rightarrow> string option \<Rightarrow> 's drive_act" where
  "createFolderFromUi srv v promptName typed d =
     (let name0 = js_trim (dr_newFolderName d); ask = (promptName \<or> name0 = []) in
      if ask \<and> typed = None then done_with d
      else (let name = (if ask then js_trim (the typed) else name0) in
            if name = [] then fail_status ''Folder name required'' d
            else if inTrash d then fail_status ''Leave Trash to create a folder'' d
            else with_reply srv
                   \<lparr> rq_method = ''POST'', rq_path = api_path ''/folders'',
                     rq_body = Json_body [(''name'', J_str name), (''parent_id'', J_str (currentFolderId d))] \<rparr>
                   (\<lambda>r d1. if \<not> reply_ok r then fail_status (''Create folder failed: '' @ int_str (rp_status r)) d1
                           else refresh_both srv v (d1\<lparr>dr_newFolderName := []\<rparr>)) d))"

section \<open>Trash\<close>

definition trashOne :: "'s drive_service \<Rightarrow> drive_env \<Rightarrow> item_kind \<Rightarrow> string \<Rightarrow> bool \<Rightarrow> 's drive_act" where
  "trashOne srv v kind i confirmed d =
     (if \<not> confirmed then done_with d
      else with_reply srv (post_req (item_path kind i @ ''/trash''))
             (\<lambda>r d1. if \<not> reply_ok r then fail_status (''Trash failed: '' @ int_str (rp_status r)) d1
                     else refresh_both srv v
                            (drive_status ''Moved to Trash'' False
                              (d1\<lparr>selectedKeys := set_delete (itemKey kind i) (selectedKeys d1)\<rparr>))) d)"

definition trash_key_req :: "string \<Rightarrow> drive_req" where
  "trash_key_req key = post_req (item_path (if key_is_folder key then K_folder else K_file) (key_id key) @ ''/trash'')"

text \<open>A reply 401 leaves the loop by the exception of \<open>api\<close>; any other reply is ignored.\<close>

fun trash_loop :: "'s drive_service \<Rightarrow> string list \<Rightarrow> 's drive \<Rightarrow> 's drive \<times> bool" where
  "trash_loop srv [] d = (d, True)"
| "trash_loop srv (key # keys) d =
     (case drive_api srv (trash_key_req key) d of
        (d1, None) \<Rightarrow> (d1, False)
      | (d1, Some r) \<Rightarrow> trash_loop srv keys d1)"

definition trashSelected :: "'s drive_service \<Rightarrow> drive_env \<Rightarrow> bool \<Rightarrow> 's drive_act" where
  "trashSelected srv v confirmed d =
     (if selectedKeys d = [] \<or> \<not> confirmed then done_with d
      else (let (d1, ok) = trash_loop srv (selectedKeys d) d in
            if \<not> ok then Some (d1, False)
            else refresh_both srv v (drive_status ''Moved to Trash'' False (clearSelection d1))))"

definition restoreOne :: "'s drive_service \<Rightarrow> drive_env \<Rightarrow> item_kind \<Rightarrow> string \<Rightarrow> 's drive_act" where
  "restoreOne srv v kind i d =
     with_reply srv (post_req (item_path kind i @ ''/restore''))
       (\<lambda>r d1. if \<not> reply_ok r then fail_status (''Restore failed: '' @ int_str (rp_status r)) d1
               else refresh_both srv v (drive_status ''Restored'' False d1)) d"

section \<open>Locks and names\<close>

definition toggleLock :: "'s drive_service \<Rightarrow> drive_env \<Rightarrow> string \<Rightarrow> string \<Rightarrow> bool \<Rightarrow> 's drive_act" where
  "toggleLock srv v i name locked d =
     with_reply srv (patch_req (object_path i) [(''locked'', J_bool locked)])
       (\<lambda>r d1. if \<not> reply_ok r then fail_status ((if locked then ''Lock'' else ''Unlock'') @ '' failed: '' @ int_str (rp_status r)) d1
               else andThen (refreshFiles srv v)
                      (\<lambda>d2. done_with (drive_status ((if locked then ''Locked '' else ''Unlocked '') @ name) False d2)) d1) d"

definition confirmOpenWhileLocked :: "string \<Rightarrow> json \<Rightarrow> bool \<Rightarrow> bool" where
  "confirmOpenWhileLocked me ob confirmed \<longleftrightarrow> \<not> isLockedByOther me ob \<or> confirmed"

definition rename_req :: "item_kind \<Rightarrow> string \<Rightarrow> string \<Rightarrow> drive_req" where
  "rename_req kind i name = patch_req (item_path kind i) [(''name'', J_str name)]"

definition renameObject :: "'s drive_service \<Rightarrow> drive_env \<Rightarrow> string \<Rightarrow> string \<Rightarrow> string option \<Rightarrow> 's drive_act" where
  "renameObject srv v i currentName typed d =
     (let name = js_trim (or_empty typed) in
      if typed = None \<or> name = [] \<or> name = currentName then done_with d
      else with_reply srv (rename_req K_file i name)
             (\<lambda>r d1. if \<not> reply_ok r then
                       fail_status (if rp_status r = 409 then ''Rename failed: file is locked''
                                    else ''Rename failed: '' @ int_str (rp_status r)) d1
                     else refreshFiles srv v (drive_status (''Renamed to '' @ name) False d1)) d)"

definition renameFolder :: "'s drive_service \<Rightarrow> drive_env \<Rightarrow> string \<Rightarrow> string \<Rightarrow> string option \<Rightarrow> 's drive_act" where
  "renameFolder srv v i currentName typed d =
     (let name = js_trim (or_empty typed) in
      if typed = None \<or> name = [] \<or> name = currentName then done_with d
      else with_reply srv (rename_req K_folder i name)
             (\<lambda>r d1. if \<not> reply_ok r then fail_status (''Folder rename failed: '' @ int_str (rp_status r)) d1
                     else refreshFiles srv v (drive_status (''Folder renamed to '' @ name) False d1)) d)"

section \<open>Moving\<close>

definition add_option :: "nat \<Rightarrow> folder_node \<Rightarrow> 's drive \<Rightarrow> 's drive" where
  "add_option depth n d = d\<lparr>dr_moveOptions := dr_moveOptions d @ [(fn_id n, concat (replicate depth ''- '') @ fn_name n)]\<rparr>"

text \<open>
  The walk that lists the destinations, depth first: the option of a folder, then its children
  (loaded when they are not known), then the folders after it.
\<close>

definition walk_into :: "'s drive_service \<Rightarrow> drive_env \<Rightarrow> nat \<times> folder_node \<Rightarrow> 's drive \<Rightarrow> 's drive \<times> bool" where
  "walk_into srv v w d = ensureTreeChildren srv v (fn_id (snd w)) (add_option (fst w) (snd w) d)"

partial_function (option) move_walk ::
  "'s drive_service \<Rightarrow> drive_env \<Rightarrow> string \<Rightarrow> (nat \<times> folder_node) list \<Rightarrow> 's drive \<Rightarrow> ('s drive \<times> bool) option" where
  "move_walk srv v excl ws d =
     (if ws = [] then Some (d, True)
      else if excl \<noteq> [] \<and> fn_id (snd (hd ws)) = excl then move_walk srv v excl (tl ws) d
      else if \<not> snd (walk_into srv v (hd ws) d) then Some (fst (walk_into srv v (hd ws) d), False)
      else move_walk srv v excl
             (map (Pair (Suc (fst (hd ws)))) (kids_of (treeChildren (fst (walk_into srv v (hd ws) d))) (fn_id (snd (hd ws)))) @ tl ws)
             (fst (walk_into srv v (hd ws) d)))"

definition select_destination :: "'s drive \<Rightarrow> 's drive" where
  "select_destination d =
     (let cur = (if inTrash d then [] else currentFolderId d)
      in d\<lparr>dr_moveSelect := (if cur \<in> fst ` set (dr_moveOptions d) then cur else fst (hd (dr_moveOptions d)))\<rparr>)"

definition fillMoveFolderSelect :: "'s drive_service \<Rightarrow> drive_env \<Rightarrow> string \<Rightarrow> 's drive_act" where
  "fillMoveFolderSelect srv v excludeFolderId d =
     (let (d1, ok) = ensureTreeChildren srv v [] (d\<lparr>dr_moveOptions := [([], ''My Drive (root)'')], dr_moveSelect := []\<rparr>) in
      if \<not> ok then Some (d1, False)
      else andThen (move_walk srv v excludeFolderId (map (Pair 0) (kids_of (treeChildren d1) [])))
             (\<lambda>d2. done_with (select_destination d2)) d1)"

definition openMoveDialog ::
  "'s drive_service \<Rightarrow> drive_env \<Rightarrow> string \<Rightarrow> string \<Rightarrow> item_kind \<Rightarrow> string list option \<Rightarrow> 's drive_act" where
  "openMoveDialog srv v i name kind multi d =
     andThen (fillMoveFolderSelect srv v (if kind = K_folder then i else []))
       (\<lambda>d1. done_with (d1\<lparr>dr_movePanel := True, dr_sharePanel := False\<rparr>))
       (d\<lparr>moveState := Some \<lparr> mv_id = i, mv_name = name, mv_kind = kind, mv_multi = multi \<rparr>\<rparr>)"

definition moveSelected :: "'s drive_service \<Rightarrow> drive_env \<Rightarrow> 's drive_act" where
  "moveSelected srv v d =
     (case selectedKeys d of
        [] \<Rightarrow> done_with d
      | first # rest \<Rightarrow>
          openMoveDialog srv v (key_id first)
            (if rest = [] then key_id first else nat_str (length (selectedKeys d)) @ '' items'')
            (if key_is_folder first then K_folder else K_file) (Some (selectedKeys d)) d)"

definition move_req :: "string \<Rightarrow> string \<Rightarrow> drive_req" where
  "move_req key dest =
     (if key_is_folder key then patch_req (folder_path (key_id key)) [(''parent_id'', J_str dest)]
      else patch_req (object_path (key_id key)) [(''folder_id'', J_str dest)])"

text \<open>The state, whether the function returned (and did not raise), and the value it returned.\<close>

fun moveKeysToFolder :: "'s drive_service \<Rightarrow> string list \<Rightarrow> string \<Rightarrow> 's drive \<Rightarrow> 's drive \<times> bool \<times> bool" where
  "moveKeysToFolder srv [] dest d = (d, True, True)"
| "moveKeysToFolder srv (key # keys) dest d =
     (if key_is_folder key \<and> key_id key = dest then moveKeysToFolder srv keys dest d
      else (case drive_api srv (move_req key dest) d of
              (d1, None) \<Rightarrow> (d1, False, False)
            | (d1, Some r) \<Rightarrow>
                if \<not> reply_ok r then
                  (drive_status (if rp_status r = 409 then ''Move failed: file is locked''
                                  else ''Move failed: '' @ int_str (rp_status r)) True d1, True, False)
                else moveKeysToFolder srv keys dest d1))"

definition confirmMove :: "'s drive_service \<Rightarrow> drive_env \<Rightarrow> 's drive_act" where
  "confirmMove srv v d =
     (case moveState d of
        None \<Rightarrow> done_with d
      | Some m \<Rightarrow>
          (let keys = (case mv_multi m of Some ks \<Rightarrow> ks | None \<Rightarrow> [itemKey (mv_kind m) (mv_id m)]);
               (d1, ret, ok) = moveKeysToFolder srv keys (dr_moveSelect d) d
           in if \<not> ret then Some (d1, False)
              else if \<not> ok then done_with d1
              else refresh_both srv v
                     ((clearSelection ((drive_status (''Moved '' @ mv_name m) False d1)\<lparr>moveState := None\<rparr>))\<lparr>dr_movePanel := False\<rparr>)))"

definition close_move :: "'s drive \<Rightarrow> 's drive" where
  "close_move d = d\<lparr>dr_movePanel := False, moveState := None\<rparr>"

section \<open>Drag and drop\<close>

definition drag_keys :: "item_kind \<Rightarrow> string \<Rightarrow> 's drive \<Rightarrow> string list" where
  "drag_keys kind i d = (if itemKey kind i \<in> set (selectedKeys d) then selectedKeys d else [itemKey kind i])"

definition drop_on_tree :: "'s drive_service \<Rightarrow> drive_env \<Rightarrow> string \<Rightarrow> string list option \<Rightarrow> 's drive_act" where
  "drop_on_tree srv v dest payload d =
     (let keys = (case payload of None \<Rightarrow> [] | Some ks \<Rightarrow> ks) in
      if keys = [] then done_with d
      else if dest = TRASH_ID then trashSelected srv v True (d\<lparr>selectedKeys := fold set_add keys (selectedKeys d)\<rparr>)
      else (let (d1, ret, ok) = moveKeysToFolder srv keys dest d in
            if \<not> ret then Some (d1, False)
            else if \<not> ok then done_with d1
            else refresh_both srv v (drive_status ''Moved'' False (clearSelection d1))))"

text \<open>The keyboard: Escape closes the move dialog, Delete asks and trashes the selection.\<close>

definition drive_keydown :: "'s drive_service \<Rightarrow> drive_env \<Rightarrow> string \<Rightarrow> bool \<Rightarrow> bool \<Rightarrow> 's drive_act" where
  "drive_keydown srv v key inField confirmed d =
     (if key = ''Escape'' \<and> dr_movePanel d then done_with (close_move d)
      else if inTrash d \<or> inField then done_with d
      else if key = ''Delete'' \<and> selectedKeys d \<noteq> [] then trashSelected srv v confirmed d
      else done_with d)"

section \<open>Sharing\<close>

definition ROLE_LABEL :: "int \<Rightarrow> string" where
  "ROLE_LABEL role = (if role = 1 then ''Owner'' else if role = 2 then ''Read'' else if role = 3 then ''Write'' else int_str role)"

definition acl_lines :: "'s drive \<Rightarrow> string list" where
  "acl_lines d =
     (case shareState d of
        None \<Rightarrow> []
      | Some s \<Rightarrow> map (\<lambda>e. ac_principal e @ '' - '' @ ROLE_LABEL (ac_role e)) (sh_entries s))"

definition acl_of :: "json \<Rightarrow> acl_entry" where
  "acl_of e =
     \<lparr> ac_principal = js_string (jor (case map_of e ''principal'' of Some p \<Rightarrow> p | None \<Rightarrow> J_null)
                        (jor (case map_of e ''Principal'' of Some p \<Rightarrow> p | None \<Rightarrow> J_null) (J_str []))),
       ac_role = (let role = (case map_of e ''role'' of
                                Some r \<Rightarrow> if r \<noteq> J_null then Some r else map_of e ''Role''
                              | None \<Rightarrow> map_of e ''Role'')
                  in case role of Some (J_num n) \<Rightarrow> if n = 0 then 2 else n | _ \<Rightarrow> 2) \<rparr>"

definition openShareDialog :: "'s drive_service \<Rightarrow> string \<Rightarrow> string \<Rightarrow> 's drive_act" where
  "openShareDialog srv i name d =
     with_reply srv (get_req (object_path i @ ''/meta''))
       (\<lambda>r d1. if \<not> reply_ok r then fail_status (''Load ACL failed: '' @ int_str (rp_status r)) d1
               else done_with (d1\<lparr>shareState := Some \<lparr> sh_id = i, sh_name = name, sh_entries = map acl_of (rp_acl r) \<rparr>,
                                  dr_sharePanel := True, dr_movePanel := False\<rparr>)) d"

definition acl_remove :: "nat \<Rightarrow> 's drive \<Rightarrow> 's drive" where
  "acl_remove i d = d\<lparr>shareState := map_option (\<lambda>s. s\<lparr>sh_entries := splice_del i (sh_entries s)\<rparr>) (shareState d)\<rparr>"

definition acl_add :: "int \<Rightarrow> 's drive \<Rightarrow> 's drive" where
  "acl_add roleValue d =
     (case shareState d of
        None \<Rightarrow> d
      | Some s \<Rightarrow>
          (let principal = js_trim (dr_aclPrincipal d); role = (if roleValue = 0 then 2 else roleValue) in
           if principal = [] then drive_status ''Principal required'' True d
           else d\<lparr>shareState := Some (s\<lparr>sh_entries := sh_entries s @ [\<lparr> ac_principal = principal, ac_role = role \<rparr>]\<rparr>),
                  dr_aclPrincipal := []\<rparr>))"

definition saveAcl :: "'s drive_service \<Rightarrow> 's drive_act" where
  "saveAcl srv d =
     (case shareState d of
        None \<Rightarrow> done_with d
      | Some s \<Rightarrow>
          with_reply srv
            \<lparr> rq_method = ''PATCH'', rq_path = api_path (object_path (sh_id s) @ ''/acl''),
              rq_body = Acl_body (map (\<lambda>e. (ac_principal e, ac_role e)) (sh_entries s)) \<rparr>
            (\<lambda>r d1. if \<not> reply_ok r then fail_status (''Save ACL failed: '' @ int_str (rp_status r)) d1
                    else done_with (drive_status (''ACL saved for '' @ sh_name s) False d1)) d)"

definition close_share :: "'s drive \<Rightarrow> 's drive" where
  "close_share d = d\<lparr>dr_sharePanel := False, shareState := None\<rparr>"

section \<open>Previews and versions\<close>

definition PREVIEW_MAX_BYTES :: int where
  "PREVIEW_MAX_BYTES = 8 * 1024 * 1024"

definition closePreview :: "'s drive \<Rightarrow> 's drive" where
  "closePreview d =
     d\<lparr>dr_previewUrl := False, dr_preview := P_none, dr_previewHint := None, dr_previewPanel := False\<rparr>"

definition megabytes :: "int \<Rightarrow> string" where
  "megabytes n = int_str ((n + 524288) div 1048576)"

definition too_large :: "int \<Rightarrow> 's drive \<Rightarrow> 's drive" where
  "too_large n d =
     d\<lparr>dr_previewHint := Some (''File too large for inline preview ('' @ megabytes n @ '' MB > 8 MB).''),
       dr_preview := P_fallback ''Preview skipped - file exceeds 8 MB size cap.'', dr_previewPanel := True\<rparr>"

definition preview_of :: "string \<Rightarrow> string \<Rightarrow> string \<Rightarrow> preview_body" where
  "preview_of ct name txt =
     (if isImagePreviewable ct name then P_image
      else if isTextPreviewable ct name then P_text txt
      else P_fallback ''No inline preview for this type; use Download or Open with...'')"

definition showPreview :: "'s drive_service \<Rightarrow> string \<Rightarrow> string \<Rightarrow> 's drive_act" where
  "showPreview srv i name d =
     with_reply srv (get_req (object_path i))
       (\<lambda>r d1. if \<not> reply_ok r then fail_status (''Preview failed: '' @ int_str (rp_status r)) d1
               else if (case rp_length r of Some n \<Rightarrow> n > PREVIEW_MAX_BYTES | None \<Rightarrow> False)
               then done_with (too_large (the (rp_length r)) d1)
               else if rp_size r > PREVIEW_MAX_BYTES then done_with (too_large (rp_size r) d1)
               else (let b = preview_of (media_type (rp_type r)) name (rp_text r)
                     in done_with (d1\<lparr>dr_preview := b, dr_previewUrl := (b = P_image), dr_previewPanel := True\<rparr>)))
       (closePreview d)"

definition version_line :: "json \<Rightarrow> string" where
  "version_line x =
     (let made = js_string (json_field x [''created_at'', ''CreatedAt''])
      in ''v'' @ js_string (json_field x [''version'', ''Version'']) @ '' - ''
         @ js_string (json_field x [''size_bytes'', ''SizeBytes'']) @ '' B'' @ (if made = [] then [] else '' - '' @ made))"

definition showVersions :: "'s drive_service \<Rightarrow> string \<Rightarrow> 's drive_act" where
  "showVersions srv i d =
     with_reply srv (get_req (object_path i @ ''/versions''))
       (\<lambda>r d1. if \<not> reply_ok r then fail_status (''Versions failed: '' @ int_str (rp_status r)) d1
               else done_with (d1\<lparr>dr_versions := (if rp_versions r = [] then [''No version history (current object only).'']
                                                  else map version_line (rp_versions r)),
                                  dr_versionsPanel := True\<rparr>))
       (d\<lparr>dr_versions := []\<rparr>)"

definition downloadObject :: "'s drive_service \<Rightarrow> string \<Rightarrow> 's drive_act" where
  "downloadObject srv i d =
     with_reply srv (get_req (object_path i))
       (\<lambda>r d1. if \<not> reply_ok r then fail_status (''Download failed: '' @ int_str (rp_status r)) d1 else done_with d1) d"

section \<open>Uploads\<close>

text \<open>The object of the listing that blocks an upload under the same name.\<close>

definition upload_conflict :: "string \<Rightarrow> string \<Rightarrow> json list \<Rightarrow> json option" where
  "upload_conflict me uploadName objects = find (\<lambda>ob. field_name ob = uploadName \<and> isLockedByOther me ob) objects"

definition upload_req :: "string \<Rightarrow> string \<Rightarrow> drive_req" where
  "upload_req name folderId =
     \<lparr> rq_method = ''POST'', rq_path = api_path ''/objects'',
       rq_body = Form_body ((''name'', J_str name) # (if folderId = [] then [] else [(''folder_id'', J_str folderId)])) \<rparr>"

definition send_upload :: "'s drive_service \<Rightarrow> drive_env \<Rightarrow> string \<Rightarrow> 's drive_act" where
  "send_upload srv v name d =
     with_reply srv (upload_req name (currentFolderId d))
       (\<lambda>r d1. if \<not> reply_ok r then fail_status (''Upload failed: '' @ int_str (rp_status r)) d1 else refreshFiles srv v d1) d"

text \<open>The check is soft: an exception or a failed listing lets the upload go on.\<close>

definition uploadFile :: "'s drive_service \<Rightarrow> drive_env \<Rightarrow> string \<Rightarrow> 's drive_act" where
  "uploadFile srv v uploadName d =
     (case drive_api srv (children_req (currentFolderId d)) d of
        (d1, None) \<Rightarrow> send_upload srv v uploadName d1
      | (d1, Some r) \<Rightarrow>
          (case (if reply_ok r then upload_conflict (currentUserId v (dr_session d1)) uploadName (rp_objects r) else None) of
             Some c \<Rightarrow> fail_status (''Upload blocked: '' @ uploadName @ '' is locked by '' @ objectLockedBy c) d1
           | None \<Rightarrow> send_upload srv v uploadName d1))"

section \<open>Row actions\<close>

text \<open>What a click on a button of a row does; \<open>yes\<close> and \<open>typed\<close> are the answers of its dialogs.\<close>

definition perform :: "'s drive_service \<Rightarrow> drive_env \<Rightarrow> json \<Rightarrow> bool \<Rightarrow> string option \<Rightarrow> row_action \<Rightarrow> 's drive_act" where
  "perform srv v ob yes typed a d =
     (case a of
        A_open k i \<Rightarrow>
          if confirmOpenWhileLocked (currentUserId v (dr_session d)) ob yes
          then done_with (d\<lparr>dr_session := (dr_session d)\<lparr>href := Some (OPEN_PATH k @ encodeURIComponent i)\<rparr>\<rparr>)
          else done_with d
      | A_open_with i \<Rightarrow>
          (case map_of [(''docs'', O_docs), (''tables'', O_tables), (''presentations'', O_pres), (''projects'', O_projects)]
                  (or_empty typed) of
             None \<Rightarrow> if typed = None then done_with d else fail_status ''Unknown app'' d
           | Some k \<Rightarrow>
               if confirmOpenWhileLocked (currentUserId v (dr_session d)) ob yes
               then done_with (d\<lparr>dr_session := (dr_session d)\<lparr>href := Some (OPEN_PATH k @ encodeURIComponent i)\<rparr>\<rparr>)
               else done_with d)
      | A_move i name k \<Rightarrow> openMoveDialog srv v i name k None d
      | A_trash k i name \<Rightarrow> trashOne srv v k i yes d
      | A_status m \<Rightarrow> fail_status m d
      | A_preview i name \<Rightarrow> showPreview srv i name d
      | A_download i name \<Rightarrow> downloadObject srv i d
      | A_versions i name \<Rightarrow> showVersions srv i d
      | A_share i name \<Rightarrow> openShareDialog srv i name d
      | A_lock i name b \<Rightarrow> toggleLock srv v i name b d
      | A_rename k i name \<Rightarrow>
          if k = K_folder then renameFolder srv v i name typed d else renameObject srv v i name typed d
      | A_restore k i \<Rightarrow> restoreOne srv v k i d)"

text \<open>The menus behind the last button of the rows: the open ones, closed by a click elsewhere.\<close>

definition closeAllMoreMenus :: "string option \<Rightarrow> string list \<Rightarrow> string list" where
  "closeAllMoreMenus except ms = filter (\<lambda>m. Some m = except) ms"

definition more_menu_click :: "string \<Rightarrow> string list \<Rightarrow> string list" where
  "more_menu_click m ms =
     (let willOpen = (m \<notin> set ms); ms1 = closeAllMoreMenus (Some m) ms in if willOpen then ms1 @ [m] else set_delete m ms1)"

section \<open>New office objects\<close>

text \<open>The tenant and the user that \<open>createOfficeObject\<close> sends, with its defaults.\<close>

definition creator_ids :: "drive_env \<Rightarrow> session \<Rightarrow> string \<times> string" where
  "creator_ids v s =
     (case Option.bind (token_part (era_token s)) (v_jwt v) of
        None \<Rightarrow> (''t-demo'', ''u-alice'')
      | Some p \<Rightarrow> (or_default (cl_tenant_id p) ''t-demo'', or_default (cl_sub p) ''u-alice''))"

text \<open>The outcome of the request: status and \<open>drive_object_id\<close> are arguments.\<close>

definition createOfficeObject :: "int \<Rightarrow> string \<Rightarrow> string \<Rightarrow> string \<Rightarrow> 's drive \<Rightarrow> 's drive" where
  "createOfficeObject status newId hrefPrefix label d =
     (if era_token (dr_session d) = [] then drive_status ''Sign in first'' True d
      else (let s1 = fst (handleUnauthorized status (dr_session d)) in
            if \<not> (200 \<le> status \<and> status < 300) then
              (if status = 401 then d\<lparr>dr_session := s1\<rparr>
               else drive_status (label @ '' failed: '' @ int_str status) True d)
            else if newId = [] then drive_status (label @ '' failed: no drive_object_id'') True d
            else d\<lparr>dr_session := s1\<lparr>href := Some (hrefPrefix @ newId)\<rparr>\<rparr>))"

end
