(* ===== verification/Shell_Chrome.thy ===== *)
theory Shell_Chrome
  imports Era_Arrays Era_Strings Complex_Main
begin

text \<open>
  The frame around the clients: the menu bar (\<open>ui/office-shell/web/menubar.js\<close>), the toolbar's
  tips and button menus (\<open>toolbar-chrome.js\<close>) and the product switcher (\<open>era-chrome.js\<close>). Open menus are sets of names in the
  order in which they were opened.
\<close>

section \<open>The menu bar\<close>

record menubar =
  mb_active :: bool
  mb_open :: "string list"
  mb_sub :: "(string \<times> string) list"

definition closeAll :: "menubar \<Rightarrow> menubar" where
  "closeAll b = b\<lparr>mb_open := [], mb_sub := []\<rparr>"

text \<open>A submenu is named by the menu whose panel holds it and its own name.\<close>

definition closeSubmenus :: "string \<Rightarrow> menubar \<Rightarrow> menubar" where
  "closeSubmenus panel b = b\<lparr>mb_sub := filter (\<lambda>s. fst s \<noteq> panel) (mb_sub b)\<rparr>"

definition openMenu :: "string \<Rightarrow> menubar \<Rightarrow> menubar" where
  "openMenu m b = (closeAll b)\<lparr>mb_open := [m]\<rparr>"

definition menu_click :: "string \<Rightarrow> menubar \<Rightarrow> menubar" where
  "menu_click m b =
     (if m \<in> set (mb_open b) \<and> mb_active b then (closeAll b)\<lparr>mb_active := False\<rparr>
      else (openMenu m b)\<lparr>mb_active := True\<rparr>)"

definition menu_hover :: "string \<Rightarrow> menubar \<Rightarrow> menubar" where
  "menu_hover m b = (if \<not> mb_active b then b else if m \<notin> set (mb_open b) then openMenu m b else b)"

definition submenu_click :: "string \<Rightarrow> string \<Rightarrow> menubar \<Rightarrow> menubar" where
  "submenu_click m s b =
     (let b1 = closeSubmenus m b in if (m, s) \<in> set (mb_sub b) then b1 else b1\<lparr>mb_sub := mb_sub b1 @ [(m, s)]\<rparr>)"

definition submenu_hover :: "string \<Rightarrow> string \<Rightarrow> menubar \<Rightarrow> menubar" where
  "submenu_hover m s b =
     (if \<not> mb_active b then b else (let b1 = closeSubmenus m b in b1\<lparr>mb_sub := mb_sub b1 @ [(m, s)]\<rparr>))"

definition menubar_leave :: "menubar \<Rightarrow> menubar" where
  "menubar_leave b = (closeAll b)\<lparr>mb_active := False\<rparr>"

datatype menu_call = Call_handler string | Call_onCommand string

text \<open>A click on an item: the bar closes and the handler of the command, or \<open>onCommand\<close>, is called.\<close>

definition item_click :: "string list \<Rightarrow> bool \<Rightarrow> bool \<Rightarrow> string \<Rightarrow> menubar \<Rightarrow> menubar \<times> menu_call option" where
  "item_click handlers hasOnCommand disabled cmd b =
     (if disabled then (b, None)
      else (menubar_leave b,
            if cmd \<in> set handlers then Some (Call_handler cmd)
            else if hasOnCommand then Some (Call_onCommand cmd) else None))"

datatype menu_event =
    M_click string
  | M_hover string
  | M_sub_click string string
  | M_sub_hover string string
  | M_item string bool
  | M_document
  | M_escape

fun menubar_step :: "string list \<Rightarrow> bool \<Rightarrow> menu_event \<Rightarrow> menubar \<Rightarrow> menubar" where
  "menubar_step hs oc (M_click m) b = menu_click m b"
| "menubar_step hs oc (M_hover m) b = menu_hover m b"
| "menubar_step hs oc (M_sub_click m s) b = submenu_click m s b"
| "menubar_step hs oc (M_sub_hover m s) b = submenu_hover m s b"
| "menubar_step hs oc (M_item cmd dis) b = fst (item_click hs oc dis cmd b)"
| "menubar_step hs oc M_document b = menubar_leave b"
| "menubar_step hs oc M_escape b = menubar_leave b"

definition escape_quotes :: "string \<Rightarrow> string" where
  "escape_quotes s = concat (map (\<lambda>c. if c = CHR 0x22 then ''&quot;'' else [c]) s)"

definition quoted :: "string \<Rightarrow> string" where
  "quoted s = CHR 0x22 # s @ [CHR 0x22]"

definition menuItem :: "string \<Rightarrow> string \<Rightarrow> bool \<Rightarrow> string \<Rightarrow> string \<Rightarrow> string" where
  "menuItem cmd label disabled title hint =
     ''<button type='' @ quoted ''button'' @ '' class='' @ quoted ''era-menu-item'' @ '' data-cmd='' @ quoted cmd
     @ (if disabled then '' disabled'' else [])
     @ (if title = [] then [] else '' title='' @ quoted (escape_quotes title))
     @ ''><span>'' @ label @ ''</span>''
     @ (if hint = [] then [] else ''<span class='' @ quoted ''hint'' @ ''>'' @ hint @ ''</span>'') @ ''</button>''"

definition menu_html :: "string \<Rightarrow> string \<Rightarrow> string" where
  "menu_html label itemsHtml =
     ''<div class='' @ quoted ''era-menu'' @ ''><button type='' @ quoted ''button'' @ '' class='' @ quoted ''era-menu-btn''
     @ '' aria-expanded='' @ quoted ''false'' @ '' aria-haspopup='' @ quoted ''true'' @ ''>'' @ label
     @ ''</button><div class='' @ quoted ''era-menu-panel'' @ '' role='' @ quoted ''menu'' @ ''>'' @ itemsHtml @ ''</div></div>''"

section \<open>Tips and button menus\<close>

definition tip_label :: "string option \<Rightarrow> string option \<Rightarrow> string option \<Rightarrow> string" where
  "tip_label dataTip aria title = or_default dataTip (or_default aria (or_empty title))"

text \<open>The position of a tip of width \<open>tw\<close> and height \<open>th\<close> below its target, or above when there is no room.\<close>

definition showTip :: "rat \<Rightarrow> rat \<Rightarrow> rat \<Rightarrow> rat \<Rightarrow> rat \<Rightarrow> rat \<Rightarrow> rat \<Rightarrow> rat \<Rightarrow> rat \<times> rat" where
  "showTip rleft rwidth rtop rbottom tw th innerWidth innerHeight =
     (let left = rleft + rwidth / 2 - tw / 2;
          below = rbottom + 8
      in (max 8 (min left (innerWidth - tw - 8)), if below + th > innerHeight - 8 then rtop - th - 8 else below))"

record tips =
  tip_pending :: "string option"
  tip_shown :: "string option"

definition tip_over :: "string \<Rightarrow> bool \<Rightarrow> tips \<Rightarrow> tips" where
  "tip_over label disabled t = (if disabled then t else t\<lparr>tip_pending := Some label\<rparr>)"

definition tip_timer :: "tips \<Rightarrow> tips" where
  "tip_timer t =
     (case tip_pending t of
        None \<Rightarrow> t
      | Some l \<Rightarrow> t\<lparr>tip_pending := None, tip_shown := (if l = [] then tip_shown t else Some l)\<rparr>)"

definition hideTip :: "tips \<Rightarrow> tips" where
  "hideTip t = t\<lparr>tip_pending := None, tip_shown := None\<rparr>"

text \<open>The open button menus of the toolbar.\<close>

definition closeAllMenus :: "string option \<Rightarrow> string list \<Rightarrow> string list" where
  "closeAllMenus except ms = filter (\<lambda>m. Some m = except) ms"

definition button_menu_click :: "string \<Rightarrow> string list \<Rightarrow> string list" where
  "button_menu_click m ms =
     (let willOpen = (m \<notin> set ms); ms1 = closeAllMenus (Some m) ms in if willOpen then ms1 @ [m] else set_delete m ms1)"

definition panel_click :: "string \<Rightarrow> bool \<Rightarrow> bool \<Rightarrow> string list \<Rightarrow> string list" where
  "panel_click m disabled keepOpen ms = (if disabled \<or> keepOpen then ms else set_delete m ms)"

section \<open>The product switcher\<close>

definition PRODUCTS :: "(string \<times> string \<times> string) list" where
  "PRODUCTS =
     [(''control'', ''ERA Control'', ''/ui/control/''), (''comms'', ''ERA Communications'', ''/mail/''),
      (''office'', ''ERA Office'', ''/drive/'')]"

definition currentLine :: "string option \<Rightarrow> string \<Rightarrow> string" where
  "currentLine dataLine path =
     (if or_empty dataLine \<noteq> [] then or_empty dataLine
      else if take 11 path = ''/ui/control'' then ''control''
      else if take 5 path = ''/mail'' \<or> take 5 path = ''/chat'' then ''comms''
      else ''office'')"

definition licensedMap :: "(string \<times> bool) list option \<Rightarrow> (string \<times> bool) list" where
  "licensedMap lic = (case lic of Some m \<Rightarrow> m | None \<Rightarrow> [(''control'', True), (''comms'', True), (''office'', True)])"

datatype switcher_item =
    Link_item string string bool
  | Disabled_item string

definition switcher_items :: "(string \<times> bool) list option \<Rightarrow> string \<Rightarrow> switcher_item list" where
  "switcher_items lic line =
     map (\<lambda>(i, label, target). if map_of (licensedMap lic) i = Some False then Disabled_item label
                               else Link_item label target (i = line)) PRODUCTS"

definition mountBrand :: "string \<Rightarrow> string \<Rightarrow> string \<Rightarrow> string \<times> string option" where
  "mountBrand line title subtitle =
     (or_default (Some title) (or_default (map_option fst (map_of PRODUCTS line)) ''ERA One''),
      if subtitle = [] then None else Some subtitle)"

text \<open>The open menus among the switchers of the page.\<close>

definition closeMenus :: "string option \<Rightarrow> string list \<Rightarrow> string list" where
  "closeMenus except ms = filter (\<lambda>m. Some m = except) ms"

definition switcher_click :: "string \<Rightarrow> string list \<Rightarrow> string list" where
  "switcher_click m ms = (let wasHidden = (m \<notin> set ms); ms1 = closeMenus (Some m) ms in if wasHidden then ms1 @ [m] else set_delete m ms1)"

section \<open>Laws\<close>

text \<open>At most one menu is open, and only while the bar is active; a submenu of a panel is open at most once.\<close>

definition menubar_ok :: "menubar \<Rightarrow> bool" where
  "menubar_ok b \<longleftrightarrow> (if mb_active b then length (mb_open b) = 1 else mb_open b = []) \<and> distinct (map fst (mb_sub b))"

lemma closeSubmenus_distinct:
  "distinct (map fst (mb_sub b)) \<Longrightarrow> distinct (map fst (filter (\<lambda>s. fst s \<noteq> m) (mb_sub b) @ [(m, s)]))"
  by (auto simp: distinct_map inj_on_def)

lemma menubar_step_ok: "menubar_ok b \<Longrightarrow> menubar_ok (menubar_step hs oc e b)"
  using closeSubmenus_distinct [of b]
  by (cases e) (auto simp: menubar_ok_def menu_click_def menu_hover_def submenu_click_def submenu_hover_def item_click_def
      menubar_leave_def openMenu_def closeAll_def closeSubmenus_def Let_def distinct_map_filter)

lemma menubar_run_ok: "menubar_ok b \<Longrightarrow> menubar_ok (fold (menubar_step hs oc) es b)"
  by (induction es arbitrary: b) (simp_all add: menubar_step_ok)

lemma showTip_horizontal:
  assumes "tw + 16 \<le> innerWidth"
  shows "8 \<le> fst (showTip rl rw rt rb tw th innerWidth ih) \<and> fst (showTip rl rw rt rb tw th innerWidth ih) + tw \<le> innerWidth - 8"
  using assms by (simp add: showTip_def Let_def max_def min_def)

text \<open>
  The contract of the menus that a button opens and closes while it closes all others; the
  toolbar, the product switcher and the rows of the file manager each implement it.
\<close>

locale exclusive_menus =
  fixes toggle :: "string \<Rightarrow> string list \<Rightarrow> string list"
  assumes opens: "m \<notin> set ms \<Longrightarrow> toggle m ms = [m]"
    and closes: "m \<in> set ms \<Longrightarrow> toggle m ms = []"
begin

lemma at_most_one: "length (toggle m ms) \<le> 1"
  by (cases "m \<in> set ms") (simp_all add: opens closes)

lemma run_at_most_one: "ms' \<noteq> [] \<Longrightarrow> length (fold toggle ms' ms) \<le> 1"
  using at_most_one by (cases ms' rule: rev_cases) simp_all

lemma twice: "toggle m (toggle m ms) = (if m \<in> set ms then [m] else [])"
  by (cases "m \<in> set ms") (simp_all add: opens closes)

end

interpretation button_menus: exclusive_menus button_menu_click
  by unfold_locales (auto simp: button_menu_click_def closeAllMenus_def set_delete_def Let_def filter_empty_conv)

interpretation switchers: exclusive_menus switcher_click
  by unfold_locales (auto simp: switcher_click_def closeMenus_def set_delete_def Let_def filter_empty_conv)

lemma switcher_offers_licensed:
  "Link_item label target cur \<in> set (switcher_items lic line) \<Longrightarrow>
    \<exists>i. (i, label, target) \<in> set PRODUCTS \<and> map_of (licensedMap lic) i \<noteq> Some False \<and> (cur \<longleftrightarrow> i = line)"
  by (auto simp: switcher_items_def split: if_splits)

end
