(* ===== verification/Drive_Laws.thy ===== *)
theory Drive_Laws
  imports Drive_Ops Shell_Chrome
begin

text \<open>
  Laws of the file manager: the path to a folder, the loops that follow the folder tree, what the
  refreshing handlers keep, locked rows and the selection.
\<close>

section \<open>The path to a folder\<close>

definition index_ok :: "folder_index \<Rightarrow> bool" where
  "index_ok ix \<longleftrightarrow> (\<forall>k n. map_of ix k = Some n \<longrightarrow> fn_id n = k \<and> k \<noteq> [])"

lemma rememberFolder_index_ok: "index_ok ix \<Longrightarrow> index_ok (fst (rememberFolder f p ix))"
  by (auto simp: rememberFolder_def folder_of_def index_ok_def)

lemma remember_all_index_ok: "index_ok ix \<Longrightarrow> index_ok (fst (remember_all fs p ix))"
proof (induction fs arbitrary: ix)
  case Nil
  then show ?case by simp
next
  case (Cons f fs)
  then show ?case using rememberFolder_index_ok [of ix f p] by (simp add: case_prod_beta Let_def)
qed

fun path_linked :: "folder_index \<Rightarrow> path_seg list \<Rightarrow> bool" where
  "path_linked ix (a # b # segs) =
     ((case map_of ix (seg_id b) of None \<Rightarrow> False | Some n \<Rightarrow> fn_parent n = seg_id a \<and> fn_name n = seg_name b)
      \<and> path_linked ix (b # segs))"
| "path_linked ix segs = True"

lemma path_linked_Cons:
  "segs \<noteq> [] \<Longrightarrow> map_of ix (seg_id (hd segs)) = Some n \<Longrightarrow> fn_parent n = seg_id a \<Longrightarrow> fn_name n = seg_name (hd segs)
    \<Longrightarrow> path_linked ix segs \<Longrightarrow> path_linked ix (a # segs)"
  by (cases segs) auto

definition chain_ok :: "folder_index \<Rightarrow> string list \<Rightarrow> path_seg list \<Rightarrow> string \<Rightarrow> bool" where
  "chain_ok ix seen chain cur \<longleftrightarrow>
     seen = map seg_id chain \<and> distinct seen \<and> set seen \<subseteq> fst ` set ix \<and> [] \<notin> set seen \<and> path_linked ix chain
     \<and> (chain \<noteq> [] \<longrightarrow> (\<exists>n. map_of ix (seg_id (hd chain)) = Some n \<and> fn_parent n = cur \<and> fn_name n = seg_name (hd chain)))"

lemma path_chain_ok:
  assumes "index_ok ix" "chain_ok ix seen chain cur"
  shows "\<exists>c cur'. path_chain ix seen chain cur = c @ chain \<and> chain_ok ix (map seg_id (c @ chain)) (c @ chain) cur'
    \<and> (cur' = [] \<or> cur' \<in> seg_id ` set (c @ chain) \<or> map_of ix cur' = None)"
  using assms
proof (induction ix seen chain cur rule: path_chain.induct)
  case (1 ix seen chain cur)
  show ?case
  proof (cases "cur = [] \<or> cur \<in> set seen \<or> map_of ix cur = None")
    case True
    then have "path_chain ix seen chain cur = [] @ chain"
      by (subst path_chain.simps) (auto split: option.splits)
    moreover have "set seen = seg_id ` set chain" "seen = map seg_id chain" using "1.prems"(2) by (auto simp: chain_ok_def)
    ultimately show ?thesis using True "1.prems"(2) by (metis append_Nil)
  next
    case False
    then obtain n where n: "map_of ix cur = Some n" by auto
    let ?s = "\<lparr> seg_id = fn_id n, seg_name = fn_name n \<rparr>"
    have fid: "fn_id n = cur" using n "1.prems"(1) by (auto simp: index_ok_def)
    have lk: "path_linked ix (?s # chain)"
    proof (cases "chain = []")
      case False
      then show ?thesis using "1.prems"(2) fid path_linked_Cons [of chain ix] by (auto simp: chain_ok_def)
    qed simp
    have "cur \<in> fst ` set ix" using map_of_SomeD [OF n] by force
    then have "chain_ok ix (cur # seen) (?s # chain) (fn_parent n)"
      using "1.prems"(2) False n fid lk by (auto simp: chain_ok_def)
    from "1.IH" [OF _ n "1.prems"(1) this] False
    obtain c cur' where c: "path_chain ix (cur # seen) (?s # chain) (fn_parent n) = c @ ?s # chain"
      "chain_ok ix (map seg_id (c @ ?s # chain)) (c @ ?s # chain) cur'"
      "cur' = [] \<or> cur' \<in> seg_id ` set (c @ ?s # chain) \<or> map_of ix cur' = None" by auto
    have "path_chain ix seen chain cur = (c @ [?s]) @ chain"
      using False n c(1) by (subst path_chain.simps) simp
    then show ?thesis using c(2,3) by (metis append.assoc append_Cons append_Nil)
  qed
qed

lemma path_chain_last:
  "map_of ix cur = Some n \<Longrightarrow> fn_id n = cur \<Longrightarrow> cur \<noteq> [] \<Longrightarrow> cur \<notin> set seen \<Longrightarrow>
    \<exists>c. path_chain ix seen chain cur = c @ \<lparr> seg_id = cur, seg_name = fn_name n \<rparr> # chain"
proof -
  have ext: "\<exists>c. path_chain ix seen chain cur = c @ chain" for ix seen chain cur
  proof (induction ix seen chain cur rule: path_chain.induct)
    case (1 ix seen chain cur)
    then show ?case by (subst path_chain.simps) (auto split: option.splits)
  qed
  assume "map_of ix cur = Some n" "fn_id n = cur" "cur \<noteq> []" "cur \<notin> set seen"
  then show ?thesis
    using ext [of ix "cur # seen" "\<lparr> seg_id = cur, seg_name = fn_name n \<rparr> # chain" "fn_parent n"]
    by (subst path_chain.simps) simp
qed

lemma chain_ok_start: "chain_ok ix [] [] cur"
  by (simp add: chain_ok_def)

section \<open>The folder tree\<close>

text \<open>A rank that grows from a folder to the folders in it rules out cycles.\<close>

definition index_ranked :: "(string \<Rightarrow> nat) \<Rightarrow> folder_index \<Rightarrow> bool" where
  "index_ranked rank ix \<longleftrightarrow>
     (\<forall>k n. map_of ix k = Some n \<longrightarrow> fn_id n = k \<and> (fn_parent n \<noteq> [] \<longrightarrow> rank (fn_parent n) < rank (fn_id n)))"

definition tree_ranked :: "(string \<Rightarrow> nat) \<Rightarrow> (string \<times> folder_node list) list \<Rightarrow> bool" where
  "tree_ranked rank tc \<longleftrightarrow> (\<forall>p n. n \<in> set (kids_of tc p) \<longrightarrow> rank p < rank (fn_id n))"

definition forest_service :: "(string \<Rightarrow> nat) \<Rightarrow> 's drive_service \<Rightarrow> bool" where
  "forest_service rank srv \<longleftrightarrow>
     (\<forall>s key. \<forall>f\<in>set (rp_folders (snd (srv s (children_req key)))). \<forall>n. folder_of f key = Some n \<longrightarrow>
        rank key < rank (fn_id n) \<and> (fn_parent n \<noteq> [] \<longrightarrow> rank (fn_parent n) < rank (fn_id n)))"

definition stays_signed_in :: "'s drive_service \<Rightarrow> bool" where
  "stays_signed_in srv \<longleftrightarrow> (\<forall>s q. rp_status (snd (srv s q)) \<noteq> 401)"

lemma renderLevel_append:
  assumes "renderLevel tc ex act xs = Some a" "renderLevel tc ex act ys = Some b"
  shows "renderLevel tc ex act (xs @ ys) = Some (a @ b)"
proof -
  let ?P = "\<lambda>tc ex act xs a. \<forall>ys b. renderLevel tc ex act ys = Some b \<longrightarrow> renderLevel tc ex act (xs @ ys) = Some (a @ b)"
  have "?P tc ex act xs a"
  proof (rule renderLevel.raw_induct [where P = ?P, OF _ assms(1)], intro allI impI)
    fix f tc ex act ws r ys b
    assume IH: "\<And>tc ex act ws r. f tc ex act ws = Some r \<Longrightarrow> ?P tc ex act ws r"
      and eq: "(if ws = [] then Some []
        else Option.bind (f tc ex act (level_below tc ex (hd ws) @ tl ws))
               (\<lambda>ls. Some (line_of tc ex act (fst (hd ws)) (snd (hd ws)) # ls))) = Some r"
      and ys: "renderLevel tc ex act ys = Some b"
    show "renderLevel tc ex act (ws @ ys) = Some (r @ b)"
    proof (cases ws)
      case Nil
      then show ?thesis using eq ys by simp
    next
      case (Cons w ws')
      with eq obtain ls where ls: "f tc ex act (level_below tc ex w @ ws') = Some ls"
        "r = line_of tc ex act (fst w) (snd w) # ls" by (auto simp: bind_eq_Some_conv)
      from IH [OF ls(1)] ys have "renderLevel tc ex act ((level_below tc ex w @ ws') @ ys) = Some (ls @ b)" by blast
      then show ?thesis using Cons ls(2) by (subst renderLevel.simps) simp
    qed
  qed
  then show ?thesis using assms(2) by blast
qed

lemma renderLevel_bounded:
  assumes r: "tree_ranked rank tc" and b: "\<forall>p. \<forall>n\<in>set (kids_of tc p). rank (fn_id n) \<le> B"
  shows "\<forall>w\<in>set ws. B < rank (fn_id (snd w)) + m \<Longrightarrow> \<exists>a. renderLevel tc ex act ws = Some a"
proof (induction m arbitrary: ws)
  case 0
  have leaf: "level_below tc ex w = []" if "w \<in> set ws" for w
  proof (rule ccontr)
    assume "level_below tc ex w \<noteq> []"
    then obtain n where "n \<in> set (kids_of tc (fn_id (snd w)))"
      by (cases "kids_of tc (fn_id (snd w))") (auto simp: level_below_def split: if_splits)
    then show False using 0 b r that unfolding tree_ranked_def by fastforce
  qed
  then show ?case
  proof (induction ws)
    case Nil
    then show ?case by (subst renderLevel.simps) simp
  next
    case (Cons w ws)
    then show ?case by (subst renderLevel.simps) auto
  qed
next
  case (Suc m)
  then show ?case
  proof (induction ws)
    case Nil
    then show ?case by (subst renderLevel.simps) simp
  next
    case (Cons w ws)
    have "\<forall>x\<in>set (level_below tc ex w). B < rank (fn_id (snd x)) + m"
      using Cons.prems r unfolding level_below_def tree_ranked_def by fastforce
    then obtain a where "renderLevel tc ex act (level_below tc ex w) = Some a" using Suc.IH by blast
    moreover obtain a' where "renderLevel tc ex act ws = Some a'" using Cons by auto
    ultimately show ?case using renderLevel_append by (subst renderLevel.simps) fastforce
  qed
qed

lemma renderLevel_returns:
  assumes "tree_ranked rank tc"
  shows "\<exists>a. renderLevel tc ex act ws = Some a"
proof -
  let ?N = "rank ` fn_id ` \<Union>(set ` snd ` set tc)"
  have "finite ?N" by simp
  moreover have "rank (fn_id n) \<in> ?N" if "n \<in> set (kids_of tc p)" for p n
  proof -
    from that obtain ns where ns: "map_of tc p = Some ns" "n \<in> set ns" by (cases "map_of tc p") (auto simp: kids_of_def)
    then have "(p, ns) \<in> set tc" by (simp add: map_of_SomeD)
    then have "n \<in> \<Union>(set ` snd ` set tc)" using ns(2) by (metis UnionI imageI snd_conv)
    then show ?thesis by (intro imageI)
  qed
  ultimately have b: "\<forall>p. \<forall>n\<in>set (kids_of tc p). rank (fn_id n) \<le> Max ?N" by simp
  show ?thesis using renderLevel_bounded [OF assms b, of ws "Suc (Max ?N)"] by simp
qed

section \<open>What refreshing keeps\<close>

definition tree_state_ranked :: "(string \<Rightarrow> nat) \<Rightarrow> 's drive \<Rightarrow> bool" where
  "tree_state_ranked rank d \<longleftrightarrow> index_ranked rank (folderIndex d) \<and> tree_ranked rank (treeChildren d)"

definition only_reads :: "'s drive \<Rightarrow> 's drive \<Rightarrow> bool" where
  "only_reads d d' \<longleftrightarrow> (\<exists>qs. dr_requests d' = dr_requests d @ qs \<and> (\<forall>q\<in>set qs. rq_method q = ''GET''))"

definition tame :: "(string \<Rightarrow> nat) \<Rightarrow> 's drive \<Rightarrow> 's drive \<Rightarrow> bool" where
  "tame rank d d' \<longleftrightarrow>
     tree_state_ranked rank d' \<and> only_reads d d' \<and> selectedKeys d' = selectedKeys d \<and> pathStack d' = pathStack d
     \<and> dr_session d' = dr_session d"

lemma only_reads_refl [simp]: "only_reads d d"
  by (auto simp: only_reads_def)

lemma only_reads_same [simp]: "dr_requests d' = dr_requests d \<Longrightarrow> only_reads d d'"
  by (auto simp: only_reads_def)

lemma only_reads_trans: "only_reads a b \<Longrightarrow> only_reads b c \<Longrightarrow> only_reads a c"
  unfolding only_reads_def by (metis Un_iff append.assoc set_append)

lemma tame_trans: "tame rank a b \<Longrightarrow> tame rank b c \<Longrightarrow> tame rank a c"
  by (auto simp: tame_def intro: only_reads_trans)

lemma tame_ranked: "tame rank d d' \<Longrightarrow> tree_state_ranked rank d'"
  by (simp add: tame_def)

lemma drive_api_signed_in:
  assumes "stays_signed_in srv"
  shows "drive_api srv q d =
    (d\<lparr>dr_service := fst (srv (dr_service d) q), dr_requests := dr_requests d @ [q]\<rparr>, Some (snd (srv (dr_service d) q)))"
  using assms by (auto simp: drive_api_def stays_signed_in_def handleUnauthorized_def Let_def case_prod_beta)

lemma folder_of_ids: "folder_of f p = Some n \<Longrightarrow> fn_id n = field_id f"
  by (auto simp: folder_of_def split: if_splits)

definition folders_ranked :: "(string \<Rightarrow> nat) \<Rightarrow> string \<Rightarrow> json list \<Rightarrow> bool" where
  "folders_ranked rank key fs \<longleftrightarrow>
     (\<forall>f\<in>set fs. \<forall>n. folder_of f key = Some n \<longrightarrow>
        rank key < rank (fn_id n) \<and> (fn_parent n \<noteq> [] \<longrightarrow> rank (fn_parent n) < rank (fn_id n)))"

lemma forest_serviceD: "forest_service rank srv \<Longrightarrow> folders_ranked rank key (rp_folders (snd (srv s (children_req key))))"
  by (simp add: forest_service_def folders_ranked_def)

lemma remember_all_ranked:
  assumes "folders_ranked rank key fs" "index_ranked rank ix"
  shows "index_ranked rank (fst (remember_all fs key ix)) \<and> (\<forall>n\<in>set (snd (remember_all fs key ix)). rank key < rank (fn_id n))"
  using assms
proof (induction fs arbitrary: ix)
  case Nil
  then show ?case by simp
next
  case (Cons f fs)
  have "index_ranked rank (fst (rememberFolder f key ix))"
    using Cons.prems by (auto simp: rememberFolder_def index_ranked_def folders_ranked_def split: option.splits)
  moreover have "folders_ranked rank key fs" using Cons.prems(1) by (simp add: folders_ranked_def)
  ultimately have "index_ranked rank (fst (remember_all fs key (fst (rememberFolder f key ix))))"
    "\<forall>n\<in>set (snd (remember_all fs key (fst (rememberFolder f key ix)))). rank key < rank (fn_id n)" using Cons.IH by blast+
  moreover have "rank key < rank (fn_id n)" if "snd (rememberFolder f key ix) = Some n" for n
    using that Cons.prems(1) by (auto simp: rememberFolder_def folders_ranked_def split: option.splits)
  ultimately show ?case by (auto simp: case_prod_beta Let_def split: option.splits)
qed

lemma tree_ranked_upsert:
  assumes "tree_ranked rank tc" "\<forall>n\<in>set ns. rank key < rank (fn_id n)"
  shows "tree_ranked rank (upsert key ns tc)"
  using assms by (auto simp: tree_ranked_def kids_of_def)

lemma tree_ranked_drop: "tree_ranked rank tc \<Longrightarrow> tree_ranked rank (drop_path_cache segs tc)"
proof -
  have del: "tree_ranked rank tc \<Longrightarrow> tree_ranked rank (obj_del k tc)" for tc :: "(string \<times> folder_node list) list" and k
    by (auto simp: tree_ranked_def kids_of_def)
  then have "tree_ranked rank tc \<Longrightarrow> tree_ranked rank (fold (\<lambda>s t. if seg_id s = [] then t else obj_del (seg_id s) t) segs tc)" for tc
    by (induction segs arbitrary: tc) simp_all
  then show "tree_ranked rank tc \<Longrightarrow> tree_ranked rank (drop_path_cache segs tc)" using del by (simp add: drop_path_cache_def)
qed

lemma set_sort_nodes [simp]: "set (sort_nodes v ns) = set ns"
  by (simp add: sort_nodes_def)

lemma get_req_method [simp]: "rq_method (get_req p) = ''GET''" "rq_method (children_req k) = ''GET''"
  by (simp_all add: get_req_def children_req_def)

lemma ensure_tame:
  assumes "forest_service rank srv" "stays_signed_in srv" "tree_state_ranked rank d"
  shows "snd (ensureTreeChildren srv v key d) \<and> tame rank d (fst (ensureTreeChildren srv v key d))"
proof (cases "map_of (treeChildren d) key = None")
  case False
  then show ?thesis using assms(3) by (auto simp: ensureTreeChildren_def tame_def)
next
  case True
  let ?r = "snd (srv (dr_service d) (children_req key))"
  have fr: "folders_ranked rank key (rp_folders ?r)" using forest_serviceD [OF assms(1)] .
  have ix: "index_ranked rank (fst (remember_all (rp_folders ?r) key (folderIndex d)))"
    and ns: "\<forall>n\<in>set (snd (remember_all (rp_folders ?r) key (folderIndex d))). rank key < rank (fn_id n)"
    using remember_all_ranked [OF fr] assms(3) by (auto simp: tree_state_ranked_def)
  have "tree_ranked rank (treeChildren d)" using assms(3) by (simp add: tree_state_ranked_def)
  then show ?thesis using True ix ns assms(3) tree_ranked_upsert
    by (auto simp: ensureTreeChildren_def drive_api_signed_in [OF assms(2)] tame_def tree_state_ranked_def only_reads_def
        case_prod_beta Let_def)
qed

lemma tame_same:
  assumes "tree_state_ranked rank d" "folderIndex d' = folderIndex d" "treeChildren d' = treeChildren d"
    "dr_requests d' = dr_requests d" "selectedKeys d' = selectedKeys d" "pathStack d' = pathStack d" "dr_session d' = dr_session d"
  shows "tame rank d d'"
  using assms by (simp add: tame_def tree_state_ranked_def)

lemma ensure_after:
  assumes "forest_service rank srv" "stays_signed_in srv" "tame rank d d0"
  shows "\<exists>d'. ensureTreeChildren srv v key d0 = (d', True) \<and> tame rank d d'"
  using ensure_tame [OF assms(1,2) tame_ranked [OF assms(3)], of v key] tame_trans [OF assms(3)]
  by (metis (full_types) prod.collapse)

lemma ranked_lookup:
  assumes "tree_state_ranked rank d"
  shows "\<forall>n. map_of (folderIndex d) k = Some n \<longrightarrow>
    rank (fn_id n) = rank k \<and> (fn_parent n \<noteq> [] \<longrightarrow> rank (fn_parent n) < rank (fn_id n))"
  using assms unfolding tree_state_ranked_def index_ranked_def by metis

lemma expand_parents_returns:
  assumes "forest_service rank srv" "stays_signed_in srv"
  shows "tree_state_ranked rank d \<Longrightarrow>
    \<forall>n. p = Some n \<longrightarrow> rank (fn_id n) = m \<and> (fn_parent n \<noteq> [] \<longrightarrow> rank (fn_parent n) < rank (fn_id n)) \<Longrightarrow>
    \<exists>d'. expand_parents srv v p d = Some (d', True) \<and> tame rank d d'"
proof (induction m arbitrary: p d rule: less_induct)
  case (less m)
  show ?case
  proof (cases "p = None \<or> fn_parent (the p) = []")
    case True
    then have "expand_parents srv v p d = Some (d, True)" by (subst expand_parents.simps) simp
    moreover have "tame rank d d" using less.prems(1) by (simp add: tame_same)
    ultimately show ?thesis by blast
  next
    case False
    then obtain n where n: "p = Some n" "fn_parent n \<noteq> []" by auto
    let ?d0 = "d\<lparr>treeExpanded := set_add (fn_parent n) (treeExpanded d)\<rparr>"
    obtain d1 where d1: "expand_parent srv v n d = (d1, True)" "tame rank d d1"
      using ensure_after [OF assms tame_same [OF less.prems(1), of ?d0], of v "fn_parent n"] by (auto simp: expand_parent_def)
    have lt: "rank (fn_parent n) < m" using less.prems(2) n by auto
    obtain d2 where "expand_parents srv v (map_of (folderIndex d1) (fn_parent n)) d1 = Some (d2, True)" "tame rank d1 d2"
      using less.IH [OF lt tame_ranked [OF d1(2)] ranked_lookup [OF tame_ranked [OF d1(2)]]] by blast
    then show ?thesis using n d1 tame_trans by (subst expand_parents.simps) auto
  qed
qed

lemma expand_path_returns:
  assumes "forest_service rank srv" "stays_signed_in srv"
  shows "tree_state_ranked rank d \<Longrightarrow> \<exists>d'. expand_path srv v segs d = Some (d', True) \<and> tame rank d d'"
proof (induction segs arbitrary: d)
  case Nil
  then show ?case by (auto intro: tame_same)
next
  case (Cons seg segs)
  show ?case
  proof (cases "seg_id seg = []")
    case True
    then show ?thesis using Cons by simp
  next
    case False
    let ?d0 = "d\<lparr>treeExpanded := set_add (seg_id seg) (treeExpanded d)\<rparr>"
    obtain d1 where d1: "ensureTreeChildren srv v (seg_id seg) ?d0 = (d1, True)" "tame rank d d1"
      using ensure_after [OF assms tame_same [OF Cons.prems, of ?d0]] by auto
    obtain d2 where d2: "expand_parents srv v (map_of (folderIndex d1) (seg_id seg)) d1 = Some (d2, True)" "tame rank d1 d2"
      using expand_parents_returns [OF assms tame_ranked [OF d1(2)] ranked_lookup [OF tame_ranked [OF d1(2)]]] by blast
    obtain d3 where d3: "expand_path srv v segs d2 = Some (d3, True)" "tame rank d2 d3"
      using Cons.IH [OF tame_ranked [OF d2(2)]] by blast
    then show ?thesis using False d1(1) d2(1) tame_trans [OF tame_trans [OF d1(2) d2(2)] d3(2)] by (simp add: andThen_def)
  qed
qed

lemma ensure_all_returns:
  assumes "forest_service rank srv" "stays_signed_in srv"
  shows "tree_state_ranked rank d \<Longrightarrow> \<exists>d'. ensure_all srv v is d = (d', True) \<and> tame rank d d'"
proof (induction "is" arbitrary: d)
  case Nil
  then show ?case by (simp add: tame_same)
next
  case (Cons i "is")
  show ?case
  proof (cases "i = []")
    case True
    then show ?thesis using Cons by simp
  next
    case False
    obtain d1 where d1: "ensureTreeChildren srv v i d = (d1, True)" "tame rank d d1"
      using ensure_after [OF assms tame_same [OF Cons.prems]] by blast
    then show ?thesis using Cons.IH [OF tame_ranked [OF d1(2)]] False tame_trans by fastforce
  qed
qed

lemma renderFolderTree_returns:
  assumes "tree_state_ranked rank d"
  shows "\<exists>d'. renderFolderTree d = Some (d', True) \<and> tame rank d d'"
proof -
  obtain ls where "renderLevel (treeChildren d) (treeExpanded d) (if inTrash d then None else Some (currentFolderId d))
      (map (Pair 0) (kids_of (treeChildren d) [])) = Some ls"
    using renderLevel_returns assms unfolding tree_state_ranked_def by blast
  then show ?thesis using assms by (simp add: renderFolderTree_def Let_def done_with_def tame_same)
qed

text \<open>On a tree without cycles the refresh of the folder tree returns.\<close>

lemma refreshFolderTree_returns:
  assumes "forest_service rank srv" "stays_signed_in srv" "tree_state_ranked rank d"
  shows "\<exists>d'. refreshFolderTree srv v d = Some (d', True) \<and> tame rank d d'"
proof (cases "era_token (dr_session d) = []")
  case True
  then show ?thesis using assms(3) by (simp add: refreshFolderTree_def done_with_def tame_same)
next
  case False
  let ?d0 = "d\<lparr>treeChildren := drop_path_cache (pathStack d) (treeChildren d)\<rparr>"
  have "tame rank d ?d0" using assms(3) by (simp add: tame_def tree_state_ranked_def tree_ranked_drop)
  then obtain d1 where d1: "ensureTreeChildren srv v [] ?d0 = (d1, True)" "tame rank d d1"
    using ensure_after [OF assms(1,2)] by blast
  obtain d2 where d2: "expand_path srv v (pathStack d1) d1 = Some (d2, True)" "tame rank d1 d2"
    using expand_path_returns [OF assms(1,2) tame_ranked [OF d1(2)]] by blast
  obtain d3 where d3: "ensure_all srv v (treeExpanded d2) d2 = (d3, True)" "tame rank d2 d3"
    using ensure_all_returns [OF assms(1,2) tame_ranked [OF d2(2)]] by blast
  obtain d4 where "renderFolderTree d3 = Some (d4, True)" "tame rank d3 d4"
    using renderFolderTree_returns [OF tame_ranked [OF d3(2)]] by blast
  then show ?thesis using False d1 d2 d3 tame_trans
    by (simp add: refreshFolderTree_def andThen_def) blast
qed

section \<open>Handlers that refresh\<close>

lemma with_reply_signed_in:
  "stays_signed_in srv \<Longrightarrow> with_reply srv q k d =
     k (snd (srv (dr_service d) q)) (d\<lparr>dr_service := fst (srv (dr_service d) q), dr_requests := dr_requests d @ [q]\<rparr>)"
  by (simp add: with_reply_def drive_api_signed_in)

lemma bar_fields [simp]:
  "folderIndex (updateSelectionBar d) = folderIndex d" "treeChildren (updateSelectionBar d) = treeChildren d"
  "dr_requests (updateSelectionBar d) = dr_requests d" "selectedKeys (updateSelectionBar d) = selectedKeys d"
  "pathStack (updateSelectionBar d) = pathStack d" "dr_session (updateSelectionBar d) = dr_session d"
  "dr_service (updateSelectionBar d) = dr_service d"
  by (simp_all add: updateSelectionBar_def)

lemma status_fields [simp]:
  "folderIndex (drive_status m e d) = folderIndex d" "treeChildren (drive_status m e d) = treeChildren d"
  "dr_requests (drive_status m e d) = dr_requests d" "selectedKeys (drive_status m e d) = selectedKeys d"
  "pathStack (drive_status m e d) = pathStack d" "dr_session (drive_status m e d) = dr_session d"
  by (simp_all add: drive_status_def)

lemma listing_fields [simp]:
  "folderIndex (renderListing v fs os b d) = folderIndex d" "treeChildren (renderListing v fs os b d) = treeChildren d"
  "dr_requests (renderListing v fs os b d) = dr_requests d" "selectedKeys (renderListing v fs os b d) = selectedKeys d"
  "pathStack (renderListing v fs os b d) = pathStack d" "dr_session (renderListing v fs os b d) = dr_session d"
  by (simp_all add: renderListing_def Let_def)

lemma trash_listing_fields [simp]:
  "folderIndex (renderTrashListing v fs os d) = folderIndex d" "treeChildren (renderTrashListing v fs os d) = treeChildren d"
  "dr_requests (renderTrashListing v fs os d) = dr_requests d" "selectedKeys (renderTrashListing v fs os d) = selectedKeys d"
  "pathStack (renderTrashListing v fs os d) = pathStack d" "dr_session (renderTrashListing v fs os d) = dr_session d"
  by (simp_all add: renderTrashListing_def)

lemma crumb_fields [simp]:
  "folderIndex (renderBreadcrumb d) = folderIndex d" "treeChildren (renderBreadcrumb d) = treeChildren d"
  "dr_requests (renderBreadcrumb d) = dr_requests d" "selectedKeys (renderBreadcrumb d) = selectedKeys d"
  "pathStack (renderBreadcrumb d) = pathStack d" "dr_session (renderBreadcrumb d) = dr_session d"
  by (simp_all add: renderBreadcrumb_def)

lemma clear_fields [simp]:
  "folderIndex (clearSelection d) = folderIndex d" "treeChildren (clearSelection d) = treeChildren d"
  "dr_requests (clearSelection d) = dr_requests d" "selectedKeys (clearSelection d) = []"
  "pathStack (clearSelection d) = pathStack d" "dr_session (clearSelection d) = dr_session d"
  by (simp_all add: clearSelection_def)

lemma tame_read:
  assumes "tree_state_ranked rank d" "rq_method q = ''GET''" "dr_requests d' = dr_requests d @ [q]"
    "tree_state_ranked rank d'" "selectedKeys d' = selectedKeys d" "pathStack d' = pathStack d" "dr_session d' = dr_session d"
  shows "tame rank d d'"
  using assms by (auto simp: tame_def only_reads_def)

lemma refresh_trash_returns:
  assumes "forest_service rank srv" "stays_signed_in srv" "tree_state_ranked rank d"
  shows "\<exists>d'. refresh_trash srv v d = Some (d', True) \<and> tame rank d d'"
proof -
  let ?q = "get_req ''/trash''"
  let ?r = "snd (srv (dr_service d) ?q)"
  let ?d1 = "d\<lparr>trashMode := True, dr_hint := ''Trash'', dr_service := fst (srv (dr_service d) ?q), dr_requests := dr_requests d @ [?q]\<rparr>"
  let ?d2 = "renderTrashListing v (rp_folders ?r) (rp_objects ?r)
    ((drive_status (''Trash - '' @ listing_stats ?r @ '' in Trash'') False ?d1)\<lparr>dr_stats := listing_stats ?r @ '' in Trash''\<rparr>)"
  have rk: "tree_state_ranked rank ?d1" "tree_state_ranked rank ?d2" using assms(3) by (simp_all add: tree_state_ranked_def)
  have t1: "tame rank d (drive_status m True ?d1)" for m
    using assms(3) by (intro tame_read [of rank d ?q]) (simp_all add: tree_state_ranked_def)
  have t2: "tame rank d ?d2" using assms(3) rk by (intro tame_read [of rank d ?q]) simp_all
  obtain d' where "renderFolderTree ?d2 = Some (d', True)" "tame rank ?d2 d'" using renderFolderTree_returns [OF rk(2)] by blast
  then show ?thesis using t1 tame_trans [OF t2]
    by (auto simp: refresh_trash_def with_reply_signed_in [OF assms(2)] fail_status_def done_with_def Let_def)
qed

lemma refresh_folder_returns:
  assumes "forest_service rank srv" "stays_signed_in srv" "tree_state_ranked rank d"
  shows "\<exists>d'. refresh_folder srv v d = Some (d', True) \<and> tame rank d d'"
proof -
  let ?d0 = "d\<lparr>trashMode := False, dr_hint := ''Folders - files - Office objects''\<rparr>"
  let ?q = "children_req (currentFolderId d)"
  let ?r = "snd (srv (dr_service d) ?q)"
  let ?d1 = "?d0\<lparr>dr_service := fst (srv (dr_service d) ?q), dr_requests := dr_requests d @ [?q]\<rparr>"
  let ?m = "remember_all (rp_folders ?r) (currentFolderId d) (folderIndex d)"
  let ?d2 = "?d1\<lparr>folderIndex := fst ?m, treeChildren := upsert (currentFolderId d) (sort_nodes v (snd ?m)) (treeChildren d)\<rparr>"
  let ?d3 = "renderListing v (rp_folders ?r) (rp_objects ?r) False
    ((drive_status (''Signed in - '' @ listing_stats ?r) False ?d2)\<lparr>dr_stats := listing_stats ?r\<rparr>)"
  have m: "index_ranked rank (fst ?m) \<and> (\<forall>n\<in>set (snd ?m). rank (currentFolderId d) < rank (fn_id n))"
    using remember_all_ranked [OF forest_serviceD [OF assms(1)]] assms(3) unfolding tree_state_ranked_def by blast
  then have rk: "tree_state_ranked rank ?d3"
    using assms(3) tree_ranked_upsert [of rank "treeChildren d" "sort_nodes v (snd ?m)" "currentFolderId d"]
    by (simp add: tree_state_ranked_def)
  have t1: "tame rank d (drive_status s True ?d1)" for s
    using assms(3) by (intro tame_read [of rank d ?q]) (simp_all add: tree_state_ranked_def)
  have t3: "tame rank d ?d3" using assms(3) rk by (intro tame_read [of rank d ?q]) simp_all
  obtain d' where "refreshFolderTree srv v ?d3 = Some (d', True)" "tame rank ?d3 d'"
    using refreshFolderTree_returns [OF assms(1,2) rk] by blast
  then show ?thesis using t1 tame_trans [OF t3]
    by (auto simp: refresh_folder_def with_reply_signed_in [OF assms(2)] fail_status_def done_with_def Let_def
        case_prod_beta currentFolderId_def)
qed

lemma refreshFiles_returns:
  assumes "forest_service rank srv" "stays_signed_in srv" "tree_state_ranked rank d"
  shows "\<exists>d'. refreshFiles srv v d = Some (d', True) \<and> tame rank d d'"
proof -
  let ?d1 = "renderBreadcrumb (d\<lparr>dr_searchClear := False\<rparr>)"
  have t: "tame rank d ?d1" using assms(3) by (simp add: tame_same)
  have u: "tame rank d (drive_status ''Not signed in'' True (?d1\<lparr>dr_view := Rows [], dr_tree := []\<rparr>))"
    using assms(3) by (intro tame_same) simp_all
  show ?thesis
    using refresh_trash_returns [OF assms(1,2) tame_ranked [OF t]] refresh_folder_returns [OF assms(1,2) tame_ranked [OF t]]
      tame_trans [OF t] u by (simp add: refreshFiles_def Let_def done_with_def) blast
qed

lemma refresh_both_returns:
  assumes "forest_service rank srv" "stays_signed_in srv" "tree_state_ranked rank d"
  shows "\<exists>d'. refresh_both srv v d = Some (d', True) \<and> tame rank d d'"
proof -
  obtain d1 where d1: "refreshFiles srv v d = Some (d1, True)" "tame rank d d1" using refreshFiles_returns [OF assms] by blast
  then show ?thesis using refreshFolderTree_returns [OF assms(1,2) tame_ranked [OF d1(2)]] tame_trans [OF d1(2)]
    by (simp add: refresh_both_def andThen_def) blast
qed

section \<open>Trash, locks, selection\<close>

text \<open>The position of the first request of a sequence that the service answers with 401.\<close>

fun first_refused :: "'s drive_service \<Rightarrow> 's \<Rightarrow> drive_req list \<Rightarrow> nat option" where
  "first_refused srv s [] = None"
| "first_refused srv s (q # qs) =
     (if rp_status (snd (srv s q)) = 401 then Some 0 else map_option Suc (first_refused srv (fst (srv s q)) qs))"

lemma stays_signed_in_first: "stays_signed_in srv \<Longrightarrow> first_refused srv s qs = None"
  by (induction qs arbitrary: s) (simp_all add: stays_signed_in_def)

lemma drive_api_status:
  "rp_status (snd (srv (dr_service d) q)) \<noteq> 401 \<Longrightarrow> drive_api srv q d =
     (d\<lparr>dr_service := fst (srv (dr_service d) q), dr_requests := dr_requests d @ [q]\<rparr>, Some (snd (srv (dr_service d) q)))"
  "rp_status (snd (srv (dr_service d) q)) = 401 \<Longrightarrow> drive_api srv q d =
     (d\<lparr>dr_service := fst (srv (dr_service d) q), dr_requests := dr_requests d @ [q],
        dr_session := redirectToLogin [] (dr_session d)\<rparr>, None)"
  by (auto simp: drive_api_def handleUnauthorized_def Let_def case_prod_beta)

lemma trash_loop_none:
  "first_refused srv (dr_service d) (map trash_key_req keys) = None \<Longrightarrow>
   \<exists>s. trash_loop srv keys d = (d\<lparr>dr_service := s, dr_requests := dr_requests d @ map trash_key_req keys\<rparr>, True)"
proof (induction keys arbitrary: d)
  case Nil
  have "d\<lparr>dr_service := dr_service d, dr_requests := dr_requests d @ []\<rparr> = d" by simp
  then show ?case by (metis list.simps(8) trash_loop.simps(1))
next
  case (Cons k ks)
  then show ?case using Cons.IH [of "d\<lparr>dr_service := fst (srv (dr_service d) (trash_key_req k)), dr_requests := dr_requests d @ [trash_key_req k]\<rparr>"]
    by (auto simp: drive_api_status split: if_splits)
qed

lemma trash_loop_refused:
  "first_refused srv (dr_service d) (map trash_key_req keys) = Some i \<Longrightarrow>
   \<exists>s. trash_loop srv keys d =
     (d\<lparr>dr_service := s, dr_requests := dr_requests d @ map trash_key_req (take (Suc i) keys),
        dr_session := redirectToLogin [] (dr_session d)\<rparr>, False)"
proof (induction keys arbitrary: d i)
  case (Cons k ks)
  then show ?case using Cons.IH [of "d\<lparr>dr_service := fst (srv (dr_service d) (trash_key_req k)), dr_requests := dr_requests d @ [trash_key_req k]\<rparr>"]
    by (auto simp: drive_api_status split: if_splits)
qed simp

lemma trashSelected_refused:
  assumes "selectedKeys d \<noteq> []" "first_refused srv (dr_service d) (map trash_key_req (selectedKeys d)) = Some i"
  shows "\<exists>d'. trashSelected srv v True d = Some (d', False) \<and> selectedKeys d' = selectedKeys d
    \<and> dr_requests d' = dr_requests d @ map trash_key_req (take (Suc i) (selectedKeys d))
    \<and> dr_session d' = redirectToLogin [] (dr_session d)"
  using trash_loop_refused [OF assms(2)] assms(1) by (auto simp: trashSelected_def)

lemma trashSelected_sent:
  assumes "selectedKeys d \<noteq> []" "first_refused srv (dr_service d) (map trash_key_req (selectedKeys d)) = None"
  shows "\<exists>d1. trashSelected srv v True d = refresh_both srv v d1 \<and> selectedKeys d1 = []
    \<and> dr_requests d1 = dr_requests d @ map trash_key_req (selectedKeys d)
    \<and> (tree_state_ranked rank d \<longrightarrow> tree_state_ranked rank d1)"
proof -
  obtain s where s: "trash_loop srv (selectedKeys d) d =
      (d\<lparr>dr_service := s, dr_requests := dr_requests d @ map trash_key_req (selectedKeys d)\<rparr>, True)"
    using trash_loop_none [OF assms(2)] by blast
  then show ?thesis
    using assms(1)
    by (intro exI [of _ "drive_status ''Moved to Trash'' False
          (clearSelection (d\<lparr>dr_service := s, dr_requests := dr_requests d @ map trash_key_req (selectedKeys d)\<rparr>))"])
      (auto simp: trashSelected_def tree_state_ranked_def)
qed

lemma trashSelected_all:
  assumes "forest_service rank srv" "stays_signed_in srv" "tree_state_ranked rank d" "selectedKeys d \<noteq> []"
  shows "\<exists>d' qs. trashSelected srv v True d = Some (d', True) \<and> selectedKeys d' = []
    \<and> dr_requests d' = dr_requests d @ map trash_key_req (selectedKeys d) @ qs \<and> (\<forall>q\<in>set qs. rq_method q = ''GET'')"
proof -
  obtain d1 where d1: "trashSelected srv v True d = refresh_both srv v d1" "selectedKeys d1 = []"
      "dr_requests d1 = dr_requests d @ map trash_key_req (selectedKeys d)" "tree_state_ranked rank d1"
    using trashSelected_sent [OF assms(4) stays_signed_in_first [OF assms(2)]] assms(3) by blast
  then obtain d' where "refresh_both srv v d1 = Some (d', True)" "tame rank d1 d'"
    using refresh_both_returns [OF assms(1,2)] by blast
  then show ?thesis using d1 by (auto simp: tame_def only_reads_def)
qed

lemma locked_owner: "isLockedByOther me ob \<Longrightarrow> canUnlockObject me ob \<Longrightarrow> objectOwnerId ob = me"
  by (auto simp: isLockedByOther_def canUnlockObject_def)

definition reading_action :: "row_action \<Rightarrow> bool" where
  "reading_action a =
     (case a of A_open _ _ \<Rightarrow> True | A_open_with _ \<Rightarrow> True | A_status _ \<Rightarrow> True | A_preview _ _ \<Rightarrow> True
      | A_download _ _ \<Rightarrow> True | A_versions _ _ \<Rightarrow> True | A_share _ _ \<Rightarrow> True | _ \<Rightarrow> False)"

lemma locked_row_buttons:
  assumes "isLockedByOther me ob" "b \<in> set (r_actions (renderObject me sel ob) @ r_more (renderObject me sel ob))"
  shows "reading_action (rb_act b)
    \<or> objectOwnerId ob = me \<and> (\<exists>name. rb_act b = A_lock (field_id ob) name False)"
proof -
  have mt: "\<forall>b\<in>set (move_trash_buttons i name True by). reading_action (rb_act b)" for i name "by"
    by (simp add: move_trash_buttons_def disabled_button_def reading_action_def)
  have li: "reading_action (rb_act (lock_item me ob i name)) \<or> objectOwnerId ob = me \<and> rb_act (lock_item me ob i name) = A_lock i name False"
    for i name
    using assms(1) locked_owner [OF assms(1)]
    by (simp add: lock_item_def isLockedByOther_def Let_def button_def disabled_button_def reading_action_def)
  have ri: "reading_action (rb_act (rename_item i name True by))" for i name "by"
    by (simp add: rename_item_def disabled_button_def reading_action_def)
  obtain name kind where
    "r_actions (renderObject me sel ob) =
       (case kind of Some k \<Rightarrow> button ''Open'' ''open'' (A_open k (field_id ob))
        | None \<Rightarrow> button ''Open with...'' ''open'' (A_open_with (field_id ob)))
       # move_trash_buttons (field_id ob) name True (objectLockedBy ob)"
    "r_more (renderObject me sel ob) =
       [button ''Preview'' ''image'' (A_preview (field_id ob) name), button ''Download'' ''download'' (A_download (field_id ob) name),
        button ''Versions'' ''history'' (A_versions (field_id ob) name), button ''Share'' ''share'' (A_share (field_id ob) name),
        lock_item me ob (field_id ob) name, rename_item (field_id ob) name True (objectLockedBy ob)]"
    using assms(1) by (simp add: renderObject_def Let_def)
  then have "b \<in> set (move_trash_buttons (field_id ob) name True (objectLockedBy ob))
      \<or> b = lock_item me ob (field_id ob) name \<or> b = rename_item (field_id ob) name True (objectLockedBy ob)
      \<or> reading_action (rb_act b)"
    using assms(2) by (cases kind) (auto simp: button_def reading_action_def)
  then show ?thesis using mt li ri by blast
qed

lemma read_with_reply:
  assumes "stays_signed_in srv" "\<And>r d1. \<exists>d2. k r d1 = Some (d2, True) \<and> dr_requests d2 = dr_requests d1"
  shows "\<exists>d'. with_reply srv (get_req p) k d = Some (d', True) \<and> only_reads d d'"
  using assms(2) [of "snd (srv (dr_service d) (get_req p))"
    "d\<lparr>dr_service := fst (srv (dr_service d) (get_req p)), dr_requests := dr_requests d @ [get_req p]\<rparr>"]
  by (auto simp: with_reply_signed_in [OF assms(1)] only_reads_def)

lemma reading_action_reads:
  assumes "stays_signed_in srv" "reading_action a"
  shows "\<exists>d'. perform srv v ob yes typed a d = Some (d', True) \<and> only_reads d d'"
proof -
  have st: "\<exists>d'. fail_status m d = Some (d', True) \<and> only_reads d d'" for m
    by (simp add: fail_status_def done_with_def)
  have pv: "\<exists>d'. showPreview srv i name d = Some (d', True) \<and> only_reads d d'" for i name
  proof -
    have "only_reads (closePreview d) d' \<Longrightarrow> only_reads d d'" for d' by (simp add: closePreview_def only_reads_def)
    moreover have "\<exists>d'. showPreview srv i name d = Some (d', True) \<and> only_reads (closePreview d) d'"
      unfolding showPreview_def
      by (rule read_with_reply [OF assms(1)]) (simp add: fail_status_def done_with_def too_large_def Let_def)
    ultimately show ?thesis by blast
  qed
  have vs: "\<exists>d'. showVersions srv i d = Some (d', True) \<and> only_reads d d'" for i
  proof -
    have "only_reads (d\<lparr>dr_versions := []\<rparr>) d' \<Longrightarrow> only_reads d d'" for d' by (simp add: only_reads_def)
    moreover have "\<exists>d'. showVersions srv i d = Some (d', True) \<and> only_reads (d\<lparr>dr_versions := []\<rparr>) d'"
      unfolding showVersions_def by (rule read_with_reply [OF assms(1)]) (simp add: fail_status_def done_with_def)
    ultimately show ?thesis by blast
  qed
  have dl: "\<exists>d'. downloadObject srv i d = Some (d', True) \<and> only_reads d d'" for i
    unfolding downloadObject_def by (rule read_with_reply [OF assms(1)]) (simp add: fail_status_def done_with_def)
  have sh: "\<exists>d'. openShareDialog srv i name d = Some (d', True) \<and> only_reads d d'" for i name
    unfolding openShareDialog_def by (rule read_with_reply [OF assms(1)]) (simp add: fail_status_def done_with_def)
  show ?thesis using assms(2) st pv vs dl sh
    by (cases a) (simp_all add: perform_def reading_action_def done_with_def split: option.splits)
qed

lemma unlock_requests:
  assumes "forest_service rank srv" "stays_signed_in srv" "tree_state_ranked rank d"
  shows "\<exists>d' qs. toggleLock srv v i name b d = Some (d', True) \<and> (\<forall>q\<in>set qs. rq_method q = ''GET'')
    \<and> dr_requests d' = dr_requests d @ patch_req (object_path i) [(''locked'', J_bool b)] # qs"
proof -
  let ?q = "patch_req (object_path i) [(''locked'', J_bool b)]"
  let ?d1 = "d\<lparr>dr_service := fst (srv (dr_service d) ?q), dr_requests := dr_requests d @ [?q]\<rparr>"
  have "tree_state_ranked rank ?d1" using assms(3) by (simp add: tree_state_ranked_def)
  then obtain d2 where "refreshFiles srv v ?d1 = Some (d2, True)" "tame rank ?d1 d2"
    using refreshFiles_returns [OF assms(1,2)] by blast
  then show ?thesis
    by (auto simp: toggleLock_def with_reply_signed_in [OF assms(2)] fail_status_def done_with_def andThen_def
        tame_def only_reads_def)
qed

text \<open>The rows drawn as selected are those whose key is selected.\<close>

definition rows_agree :: "'s drive \<Rightarrow> bool" where
  "rows_agree d \<longleftrightarrow>
     (case dr_view d of Rows rs \<Rightarrow> (\<forall>r\<in>set rs. r_selected r \<longleftrightarrow> (\<exists>k. r_key r = Some k \<and> k \<in> set (selectedKeys d))) | _ \<Rightarrow> True)"

lemma clearSelection_agrees: "rows_agree (clearSelection d)"
  by (auto simp: rows_agree_def clearSelection_def updateSelectionBar_def clear_rows_def split: drive_view.splits)

lemma renderListing_agrees: "rows_agree (renderListing v fs os b d)"
  by (auto simp: rows_agree_def renderListing_def updateSelectionBar_def renderFolder_def renderObject_def empty_card_def
      Let_def split: drive_view.splits)

lemma show_selection_agrees:
  "rows_agree d \<Longrightarrow> dr_view d' = dr_view d \<Longrightarrow> rows_agree (show_selection d')"
  by (auto simp: rows_agree_def show_selection_def updateSelectionBar_def applySelection_def select_row_def
      split: drive_view.splits option.splits)

lemma handleRowSelect_agrees: "rows_agree d \<Longrightarrow> rows_agree (handleRowSelect sh ct kind i d)"
  by (auto simp: handleRowSelect_def Let_def split: option.splits intro: show_selection_agrees)

lemma show_selection_keys [simp]: "selectedKeys (show_selection d) = selectedKeys d"
  by (simp add: show_selection_def)

lemma range_keys_nth:
  assumes "j < length ks" "min a b \<le> j" "j \<le> max a b"
  shows "ks ! j \<in> set (range_keys ks a b)"
proof -
  have "range_keys ks a b ! (j - min a b) = ks ! j" using assms by (simp add: range_keys_def)
  moreover have "j - min a b < length (range_keys ks a b)" using assms by (auto simp: range_keys_def)
  ultimately show ?thesis by (metis nth_mem)
qed

section \<open>Cycles\<close>

text \<open>A set of folders each of which has its parent in the set, in the index and in every listing.\<close>

definition index_cycle :: "string set \<Rightarrow> folder_index \<Rightarrow> bool" where
  "index_cycle C ix \<longleftrightarrow> [] \<notin> C \<and> (\<forall>k\<in>C. \<exists>n. map_of ix k = Some n \<and> fn_parent n \<in> C)"

definition service_keeps_cycle :: "string set \<Rightarrow> 's drive_service \<Rightarrow> bool" where
  "service_keeps_cycle C srv \<longleftrightarrow>
     (\<forall>s key. \<forall>f\<in>set (rp_folders (snd (srv s (children_req key)))). \<forall>n.
        folder_of f key = Some n \<longrightarrow> fn_id n \<in> C \<longrightarrow> fn_parent n \<in> C)"

lemma remember_all_cycle:
  assumes "\<forall>f\<in>set fs. \<forall>n. folder_of f key = Some n \<longrightarrow> fn_id n \<in> C \<longrightarrow> fn_parent n \<in> C" "index_cycle C ix"
  shows "index_cycle C (fst (remember_all fs key ix))"
  using assms
proof (induction fs arbitrary: ix)
  case Nil
  then show ?case by simp
next
  case (Cons f fs)
  have "index_cycle C (fst (rememberFolder f key ix))"
    using Cons.prems by (auto simp: rememberFolder_def index_cycle_def split: option.splits)
  then show ?case using Cons by (simp add: case_prod_beta Let_def)
qed

lemma ensure_cycle:
  assumes "service_keeps_cycle C srv" "stays_signed_in srv" "index_cycle C (folderIndex d)"
  shows "\<exists>d'. ensureTreeChildren srv v key d = (d', True) \<and> index_cycle C (folderIndex d') \<and> pathStack d' = pathStack d"
proof (cases "map_of (treeChildren d) key = None")
  case True
  have "index_cycle C (fst (remember_all (rp_folders (snd (srv (dr_service d) (children_req key)))) key (folderIndex d)))"
    using assms(1,3) by (intro remember_all_cycle) (auto simp: service_keeps_cycle_def)
  then show ?thesis using True assms(3)
    by (auto simp: ensureTreeChildren_def drive_api_signed_in [OF assms(2)] case_prod_beta Let_def)
qed (use assms(3) in \<open>simp add: ensureTreeChildren_def\<close>)

lemma expand_parents_cycle:
  assumes "expand_parents srv v p d = Some r" "service_keeps_cycle C srv" "stays_signed_in srv" "index_cycle C (folderIndex d)"
  shows "index_cycle C (folderIndex (fst r)) \<and> snd r \<and> (\<forall>n. p = Some n \<longrightarrow> fn_parent n \<notin> C)"
proof -
  let ?P = "\<lambda>srv v p d r. service_keeps_cycle C srv \<longrightarrow> stays_signed_in srv \<longrightarrow> index_cycle C (folderIndex d) \<longrightarrow>
      index_cycle C (folderIndex (fst r)) \<and> snd r \<and> (\<forall>n. p = Some n \<longrightarrow> fn_parent n \<notin> C)"
  have "?P srv v p d r"
  proof (rule expand_parents.raw_induct [where P = ?P, OF _ assms(1)], intro impI)
    fix f and srv :: "'a drive_service" and v p and d :: "'a drive" and r
    assume IH: "\<And>(srv :: 'a drive_service) v p d r. f srv v p d = Some r \<Longrightarrow> ?P srv v p d r"
      and eq: "(if p = None \<or> fn_parent (the p) = [] then Some (d, True)
        else if \<not> snd (expand_parent srv v (the p) d) then Some (fst (expand_parent srv v (the p) d), False)
        else f srv v (map_of (folderIndex (fst (expand_parent srv v (the p) d))) (fn_parent (the p)))
               (fst (expand_parent srv v (the p) d))) = Some r"
      and K: "service_keeps_cycle C srv" "stays_signed_in srv" "index_cycle C (folderIndex d)"
    show "index_cycle C (folderIndex (fst r)) \<and> snd r \<and> (\<forall>n. p = Some n \<longrightarrow> fn_parent n \<notin> C)"
    proof (cases "p = None \<or> fn_parent (the p) = []")
      case True
      then show ?thesis using eq K(3) by (auto simp: index_cycle_def)
    next
      case False
      then obtain n where n: "p = Some n" by auto
      obtain d1 where d1: "expand_parent srv v n d = (d1, True)" "index_cycle C (folderIndex d1)"
        using ensure_cycle [OF K(1,2), of "d\<lparr>treeExpanded := set_add (fn_parent n) (treeExpanded d)\<rparr>" v "fn_parent n"] K(3)
        by (auto simp: expand_parent_def)
      then have r: "f srv v (map_of (folderIndex d1) (fn_parent n)) d1 = Some r" using eq n False by simp
      have "fn_parent n \<notin> C"
      proof
        assume "fn_parent n \<in> C"
        then obtain n' where "map_of (folderIndex d1) (fn_parent n) = Some n'" "fn_parent n' \<in> C"
          using d1(2) by (auto simp: index_cycle_def)
        then show False using IH [OF r] K d1(2) by blast
      qed
      then show ?thesis using IH [OF r] K d1(2) n by blast
    qed
  qed
  then show ?thesis using assms by blast
qed

lemma expand_path_cycle:
  assumes "service_keeps_cycle C srv" "stays_signed_in srv"
  shows "index_cycle C (folderIndex d) \<Longrightarrow> \<exists>s\<in>set segs. seg_id s \<in> C \<Longrightarrow> expand_path srv v segs d = None"
proof (induction segs arbitrary: d)
  case Nil
  then show ?case by simp
next
  case (Cons s segs)
  show ?case
  proof (cases "seg_id s = []")
    case True
    then show ?thesis using Cons by (auto simp: index_cycle_def)
  next
    case False
    obtain d1 where d1: "ensureTreeChildren srv v (seg_id s) (d\<lparr>treeExpanded := set_add (seg_id s) (treeExpanded d)\<rparr>) = (d1, True)"
      "index_cycle C (folderIndex d1)"
      using ensure_cycle [OF assms, of "d\<lparr>treeExpanded := set_add (seg_id s) (treeExpanded d)\<rparr>" v "seg_id s"] Cons.prems(1) by auto
    show ?thesis
    proof (cases "expand_parents srv v (map_of (folderIndex d1) (seg_id s)) d1")
      case None
      then show ?thesis using False d1(1) by (simp add: andThen_def)
    next
      case (Some r)
      note e = expand_parents_cycle [OF Some assms d1(2)]
      have "seg_id s \<notin> C" using e d1(2) by (auto simp: index_cycle_def)
      then show ?thesis using Cons.IH [of "fst r"] e Some Cons.prems(2) False d1(1) by (auto simp: andThen_def split: prod.splits)
    qed
  qed
qed

text \<open>The refresh never returns when the open path goes through a cycle.\<close>

lemma refreshFolderTree_cycle:
  assumes "service_keeps_cycle C srv" "stays_signed_in srv" "index_cycle C (folderIndex d)"
    "\<exists>s\<in>set (pathStack d). seg_id s \<in> C" "era_token (dr_session d) \<noteq> []"
  shows "refreshFolderTree srv v d = None"
proof -
  let ?d0 = "d\<lparr>treeChildren := drop_path_cache (pathStack d) (treeChildren d)\<rparr>"
  obtain d1 where "ensureTreeChildren srv v [] ?d0 = (d1, True)" "index_cycle C (folderIndex d1)" "pathStack d1 = pathStack d"
    using ensure_cycle [OF assms(1,2), of ?d0 v "[]"] assms(3) by auto
  then show ?thesis using expand_path_cycle [OF assms(1,2)] assms(4,5) by (simp add: refreshFolderTree_def andThen_def)
qed

interpretation more_menus: exclusive_menus more_menu_click
  by unfold_locales (auto simp: more_menu_click_def closeAllMoreMenus_def set_delete_def Let_def filter_empty_conv)

section \<open>Requests\<close>

lemma encodeURIComponent_inj: "encodeURIComponent a = encodeURIComponent b \<longleftrightarrow> a = b"
  by (metis form_decode_encode)

text \<open>A listing request determines the folder, up to the name \<open>_root\<close> of the root.\<close>

lemma children_req_inj:
  "children_req a = children_req b \<longleftrightarrow> or_default (Some a) ''_root'' = or_default (Some b) ''_root''"
  by (simp add: children_req_def get_req_def api_path_def folder_path_def encodeURIComponent_inj)

end
