(* ===== verification/Drive_Properties.thy ===== *)
theory Drive_Properties
  imports Drive_Laws
begin

text \<open>
  The properties of the file manager, with witnesses. \<open>demo_service\<close> is a service with one
  folder in the root, \<open>quiet_service\<close> one whose listings are empty.
\<close>

section \<open>Instances\<close>

definition demo_reply :: "json list \<Rightarrow> drive_reply" where
  "demo_reply fs =
     \<lparr> rp_status = 200, rp_folders = fs, rp_objects = [], rp_acl = [], rp_versions = [], rp_type = [],
       rp_length = None, rp_size = 0, rp_text = [] \<rparr>"

definition demo_service :: "unit drive_service" where
  "demo_service s q =
     (s, demo_reply (if q = children_req [] then [[(''id'', J_str ''A''), (''name'', J_str ''Plans'')]] else []))"

definition quiet_service :: "unit drive_service" where
  "quiet_service s q = (s, demo_reply [])"

definition signed_out_service :: "unit drive_service" where
  "signed_out_service s q = (s, (demo_reply [])\<lparr>rp_status := 401\<rparr>)"

definition demo_env :: drive_env where
  "demo_env =
     \<lparr> v_loc = (\<lambda>a b. int (length a) - int (length b)), v_loc_base = (\<lambda>a b. int (length a) - int (length b)),
       v_date = (\<lambda>t. None),
       v_jwt = (\<lambda>p. Some \<lparr> cl_sub = Some ''alice'', cl_email = None, cl_tenant_id = None, cl_exp = No_exp \<rparr>) \<rparr>"

definition demo_session :: session where
  "demo_session = \<lparr> era_token = ''h.p.s'', pageAddress = ''/drive/'', href = None \<rparr>"

definition demo_drive :: "unit drive" where
  "demo_drive = drive_init demo_session ''name'' ''list'' ()"

definition demo_rank :: "string \<Rightarrow> nat" where
  "demo_rank k = (if k = ''A'' then 1 else 0)"

lemma demo_forest: "forest_service demo_rank demo_service"
  unfolding forest_service_def
proof (intro allI ballI impI)
  fix s key f n
  assume f: "f \<in> set (rp_folders (snd (demo_service s (children_req key))))" "folder_of f key = Some n"
  then have r: "children_req key = children_req []" "f = [(''id'', J_str ''A''), (''name'', J_str ''Plans'')]"
    by (simp_all add: demo_service_def demo_reply_def split: if_splits)
  then have "demo_rank key = 0" by (auto simp: children_req_inj or_default_def demo_rank_def split: if_splits)
  then show "demo_rank key < demo_rank (fn_id n) \<and> (fn_parent n \<noteq> [] \<longrightarrow> demo_rank (fn_parent n) < demo_rank (fn_id n))"
    using f(2) r(2) by (auto simp: folder_of_def field_id_def js_string_def or_default_def demo_rank_def)
qed

lemma demo_signed_in: "stays_signed_in demo_service" "stays_signed_in quiet_service"
  by (simp_all add: stays_signed_in_def demo_service_def quiet_service_def demo_reply_def)

lemma signed_out_forest: "forest_service rank signed_out_service"
  by (simp add: forest_service_def signed_out_service_def demo_reply_def)

lemma demo_ranked: "tree_state_ranked demo_rank demo_drive"
  by (simp add: tree_state_ranked_def index_ranked_def tree_ranked_def kids_of_def demo_drive_def drive_init_def)

section \<open>Following the folder tree\<close>

text \<open>
  C33. On a tree of folders without a cycle (a rank grows from a folder to its children in the
  index, in the cached children and in what the service lists) the refresh of the list and of the
  tree returns, sends only reading requests and keeps the selection and the open path.
\<close>

theorem drive_refresh_returns:
  assumes "forest_service rank srv" "stays_signed_in srv" "tree_state_ranked rank d"
  shows "\<exists>d'. refreshFiles srv v d = Some (d', True) \<and> tree_state_ranked rank d' \<and> only_reads d d'
    \<and> selectedKeys d' = selectedKeys d \<and> pathStack d' = pathStack d"
  using refreshFiles_returns [OF assms, of v] by (auto simp: tame_def)

theorem drive_refresh_returns_witness:
  "\<exists>d'. refreshFiles demo_service demo_env demo_drive = Some (d', True) \<and> only_reads demo_drive d'"
  using drive_refresh_returns [OF demo_forest demo_signed_in(1) demo_ranked, of demo_env] by blast

text \<open>
  C34. If the open path goes through a folder whose ancestors form a cycle (the service lets a
  folder move into its own subfolder), the refresh of the folder tree never returns: its loop over
  the ancestors has no check, unlike the walk of \<open>pathStackForFolder\<close>.
\<close>

theorem drive_cycle_hangs:
  assumes "service_keeps_cycle C srv" "stays_signed_in srv" "index_cycle C (folderIndex d)"
    "\<exists>s\<in>set (pathStack d). seg_id s \<in> C" "era_token (dr_session d) \<noteq> []"
  shows "refreshFolderTree srv v d = None"
  by (rule refreshFolderTree_cycle [OF assms])

definition looped_drive :: "unit drive" where
  "looped_drive =
     demo_drive\<lparr>pathStack := [root_seg, \<lparr> seg_id = ''A'', seg_name = ''Plans'' \<rparr>],
       folderIndex := [(''A'', \<lparr> fn_id = ''A'', fn_name = ''Plans'', fn_parent = ''B'' \<rparr>),
                       (''B'', \<lparr> fn_id = ''B'', fn_name = ''Drafts'', fn_parent = ''A'' \<rparr>)]\<rparr>"

theorem drive_cycle_hangs_witness: "refreshFolderTree quiet_service demo_env looped_drive = None"
proof (rule drive_cycle_hangs [of "{''A'', ''B''}"])
  show "service_keeps_cycle {''A'', ''B''} quiet_service"
    by (simp add: service_keeps_cycle_def quiet_service_def demo_reply_def)
  show "stays_signed_in quiet_service" by (rule demo_signed_in)
  show "index_cycle {''A'', ''B''} (folderIndex looped_drive)" by (simp add: index_cycle_def looped_drive_def)
  show "\<exists>s\<in>set (pathStack looped_drive). seg_id s \<in> {''A'', ''B''}" by (simp add: looped_drive_def)
  show "era_token (dr_session looped_drive) \<noteq> []"
    by (simp add: looped_drive_def demo_drive_def drive_init_def demo_session_def)
qed

text \<open>
  The path of a known folder starts at the root and ends at the folder; each folder on it is
  the parent of the next and carries its recorded name, no folder occurs twice, so the path is no
  longer than the index, and it stops where a parent is the root, is unknown or is on the path.
\<close>

theorem drive_path_to_folder:
  assumes "index_ok ix" "map_of ix k = Some n"
  shows "\<exists>chain cur. pathStackForFolder ix k = root_seg # chain \<and> chain \<noteq> [] \<and> seg_id (last chain) = k
    \<and> distinct (map seg_id (root_seg # chain)) \<and> length chain \<le> length ix \<and> path_linked ix chain
    \<and> (\<exists>top. map_of ix (seg_id (hd chain)) = Some top \<and> fn_parent top = cur)
    \<and> (cur = [] \<or> cur \<in> seg_id ` set chain \<or> map_of ix cur = None)"
proof -
  have k: "fn_id n = k" "k \<noteq> []" using assms by (auto simp: index_ok_def)
  obtain chain cur where c: "path_chain ix [] [] k = chain" "chain_ok ix (map seg_id chain) chain cur"
    "cur = [] \<or> cur \<in> seg_id ` set chain \<or> map_of ix cur = None"
    using path_chain_ok [OF assms(1) chain_ok_start, of k] by auto
  obtain c0 where "chain = c0 @ [\<lparr> seg_id = k, seg_name = fn_name n \<rparr>]"
    using path_chain_last [OF assms(2) k, of "[]" "[]"] c(1) by auto
  then have ne: "chain \<noteq> []" "seg_id (last chain) = k" by simp_all
  have d: "distinct (map seg_id chain)" "seg_id ` set chain \<subseteq> fst ` set ix" "[] \<notin> seg_id ` set chain" "path_linked ix chain"
    using c(2) by (auto simp: chain_ok_def)
  have "length chain = card (set (map seg_id chain))" using d(1) by (metis distinct_card length_map)
  also have "\<dots> \<le> card (set (map fst ix))" using d(2) by (intro card_mono) auto
  also have "\<dots> \<le> length ix" by (metis card_length length_map)
  finally have len: "length chain \<le> length ix" .
  have "\<exists>top. map_of ix (seg_id (hd chain)) = Some top \<and> fn_parent top = cur" using c(2) ne by (auto simp: chain_ok_def)
  then show ?thesis using c k ne d len by (auto simp: pathStackForFolder_def root_seg_def)
qed

theorem drive_path_to_folder_witness:
  "\<exists>chain. pathStackForFolder (folderIndex looped_drive) ''A'' = root_seg # chain \<and> length chain \<le> 2"
proof -
  have "index_ok (folderIndex looped_drive)" by (simp add: index_ok_def looped_drive_def)
  moreover have "map_of (folderIndex looped_drive) ''A'' = Some \<lparr> fn_id = ''A'', fn_name = ''Plans'', fn_parent = ''B'' \<rparr>"
    by (simp add: looped_drive_def)
  ultimately obtain chain where
    "pathStackForFolder (folderIndex looped_drive) ''A'' = root_seg # chain" "length chain \<le> length (folderIndex looped_drive)"
    using drive_path_to_folder by blast
  moreover have "length (folderIndex looped_drive) = 2" by (simp add: looped_drive_def)
  ultimately show ?thesis by auto
qed

section \<open>Locks and the trash\<close>

text \<open>
  C35. A file that another user has locked cannot be dragged, and whatever button of its row is
  clicked and whatever its dialogs answer, the client only reads from the service; the one
  exception is the owner of the file, who is offered the request that unlocks it.
\<close>

theorem drive_locked_row:
  assumes "isLockedByOther me ob" "b \<in> set (r_actions (renderObject me sel ob) @ r_more (renderObject me sel ob))"
    "forest_service rank srv" "stays_signed_in srv" "tree_state_ranked rank d"
  shows "\<not> r_draggable (renderObject me sel ob)
    \<and> (\<exists>d'. perform srv v ob yes typed (rb_act b) d = Some (d', True)
       \<and> (only_reads d d' \<or>
          (objectOwnerId ob = me \<and> (\<exists>qs. dr_requests d' = dr_requests d
             @ patch_req (object_path (field_id ob)) [(''locked'', J_bool False)] # qs \<and> (\<forall>q\<in>set qs. rq_method q = ''GET'')))))"
proof -
  have drag: "\<not> r_draggable (renderObject me sel ob)" using assms(1) by (simp add: renderObject_def Let_def)
  from locked_row_buttons [OF assms(1,2)] show ?thesis
  proof
    assume "reading_action (rb_act b)"
    then show ?thesis using reading_action_reads [OF assms(4)] drag by blast
  next
    assume "objectOwnerId ob = me \<and> (\<exists>name. rb_act b = A_lock (field_id ob) name False)"
    then obtain name where o: "objectOwnerId ob = me" "rb_act b = A_lock (field_id ob) name False" by blast
    then show ?thesis using unlock_requests [OF assms(3-5), of v "field_id ob" name False] drag by (auto simp: perform_def)
  qed
qed

definition locked_file :: json where
  "locked_file = [(''id'', J_str ''x1''), (''name'', J_str ''plan.erad''), (''locked_by'', J_str ''bob''),
     (''owner_user_id'', J_str ''carol'')]"

theorem drive_locked_row_witness:
  "\<exists>d'. perform demo_service demo_env locked_file True None
      (rb_act (r_actions (renderObject ''alice'' [] locked_file) ! 2)) demo_drive = Some (d', True) \<and> only_reads demo_drive d'"
proof -
  let ?row = "renderObject ''alice'' [] locked_file"
  have lk: "isLockedByOther ''alice'' locked_file" and ow: "objectOwnerId locked_file \<noteq> ''alice''"
    by (simp_all add: isLockedByOther_def objectLockedBy_def objectOwnerId_def locked_file_def js_string_def jor_def jfalsy_def)
  have "length (r_actions ?row) = 3"
    using lk by (simp add: renderObject_def Let_def move_trash_buttons_def)
  then have "r_actions ?row ! 2 \<in> set (r_actions ?row @ r_more ?row)" by (metis UnI1 lessI nth_mem numeral_2_eq_2 numeral_3_eq_3 set_append)
  from drive_locked_row [OF lk this demo_forest demo_signed_in(1) demo_ranked] ow show ?thesis by blast
qed

text \<open>
  C36. Moving the selection to the trash, after the confirmation, on a tree of folders without a
  cycle. Whatever the service answers, requests are sent for the selected keys in the order of the
  selection, locked files included. When a key is answered with 401 the loop ends there: the keys
  after it are not sent, the selection stays, nothing is refreshed and the page goes to the
  sign-in. When none is, every key was sent, the selection is cleared and the list and the tree
  are refreshed, and as long as the service does not answer 401 the refresh returns and only reads.
\<close>

theorem drive_trash_selected:
  assumes "forest_service rank srv" "tree_state_ranked rank d" "selectedKeys d \<noteq> []"
  shows "(case first_refused srv (dr_service d) (map trash_key_req (selectedKeys d)) of
        Some i \<Rightarrow> \<exists>d'. trashSelected srv v True d = Some (d', False) \<and> selectedKeys d' = selectedKeys d
          \<and> dr_requests d' = dr_requests d @ map trash_key_req (take (Suc i) (selectedKeys d))
          \<and> dr_session d' = redirectToLogin [] (dr_session d)
      | None \<Rightarrow> \<exists>d1. trashSelected srv v True d = refresh_both srv v d1 \<and> selectedKeys d1 = []
          \<and> dr_requests d1 = dr_requests d @ map trash_key_req (selectedKeys d))
    \<and> (stays_signed_in srv \<longrightarrow> (\<exists>d' qs. trashSelected srv v True d = Some (d', True) \<and> selectedKeys d' = []
      \<and> dr_requests d' = dr_requests d @ map trash_key_req (selectedKeys d) @ qs \<and> (\<forall>q\<in>set qs. rq_method q = ''GET'')))
    \<and> (\<forall>i. trash_key_req (itemKey K_folder i) = post_req (folder_path i @ ''/trash''))
    \<and> (\<forall>i. trash_key_req (itemKey K_file i) = post_req (object_path i @ ''/trash''))"
proof -
  have keys: "trash_key_req (itemKey K_folder i) = post_req (folder_path i @ ''/trash'')"
    "trash_key_req (itemKey K_file i) = post_req (object_path i @ ''/trash'')" for i
    by (simp_all add: trash_key_req_def item_path_def key_is_folder_def key_id_def itemKey_def)
  show ?thesis
    using trashSelected_refused [OF assms(3)] trashSelected_sent [OF assms(3), of srv v rank]
      trashSelected_all [OF assms(1) _ assms(2,3), of v]
    by (auto simp: keys split: option.splits)
qed

theorem drive_trash_selected_witness:
  "(\<exists>d' qs. trashSelected demo_service demo_env True (demo_drive\<lparr>selectedKeys := [''o:x1'', ''f:A'']\<rparr>) = Some (d', True)
      \<and> dr_requests d' = [trash_key_req ''o:x1'', trash_key_req ''f:A''] @ qs)
    \<and> (\<exists>d'. trashSelected signed_out_service demo_env True (demo_drive\<lparr>selectedKeys := [''o:x1'', ''f:A'']\<rparr>) = Some (d', False)
      \<and> dr_requests d' = [trash_key_req ''o:x1''] \<and> selectedKeys d' = [''o:x1'', ''f:A''])"
proof -
  let ?d = "demo_drive\<lparr>selectedKeys := [''o:x1'', ''f:A'']\<rparr>"
  have d: "tree_state_ranked demo_rank ?d" "selectedKeys ?d \<noteq> []" "dr_requests ?d = []"
    using demo_ranked by (simp_all add: tree_state_ranked_def demo_drive_def drive_init_def)
  have "first_refused signed_out_service (dr_service ?d) (map trash_key_req (selectedKeys ?d)) = Some 0"
    by (simp add: signed_out_service_def demo_reply_def)
  with drive_trash_selected [OF signed_out_forest [of demo_rank] d(1,2), of demo_env]
    drive_trash_selected [OF demo_forest d(1,2), of demo_env] demo_signed_in(1) d(3)
  show ?thesis by auto
qed

end
