(* ===== verification/Drive_Page.thy ===== *)
theory Drive_Page
  imports Drive_Properties
begin

text \<open>
  The controls of the file manager's page (\<open>ui/drive/web/app.js\<close>): the buttons that create a file of
  a product, the two views of the list, the buttons and menu items of a row, the search field, the
  panels, the start of the page.
\<close>

section \<open>New files\<close>

text \<open>A button with the address of the service, the ending of the name, the address of the product, the label.\<close>

definition new_object_buttons :: "(string \<times> string \<times> string \<times> string \<times> string) list" where
  "new_object_buttons =
     [(''newDocBtn'', ''/api/v1/docs'', ''.erad'', ''/docs/'', ''New document''),
      (''newSheetBtn'', ''/api/v1/tables'', ''.erat'', ''/tables/'', ''New sheet''),
      (''newDeckBtn'', ''/api/v1/presentations'', ''.erap'', ''/presentations/'', ''New presentation''),
      (''newProjectBtn'', ''/api/v1/projects'', ''.eraj'', ''/projects/'', ''New project'')]"

definition new_object_name :: "string \<Rightarrow> string \<Rightarrow> string" where
  "new_object_name now ext = ''Untitled-'' @ now @ ext"

text \<open>A click closes the menu and sends the request; status and identifier of the reply are arguments.\<close>

definition new_object_click :: "string \<Rightarrow> int \<Rightarrow> string \<Rightarrow> 's drive \<Rightarrow> 's drive" where
  "new_object_click btn status created d =
     (case map_of new_object_buttons btn of
        None \<Rightarrow> d
      | Some (path, ext, hrefPrefix, label) \<Rightarrow> createOfficeObject status created hrefPrefix label (closeNewMenu d))"

text \<open>The address and the name of the request of a button.\<close>

definition new_object_request :: "string \<Rightarrow> string \<Rightarrow> (string \<times> string) option" where
  "new_object_request now btn = map_option (\<lambda>(path, ext, hrefPrefix, label). (path, new_object_name now ext)) (map_of new_object_buttons btn)"

text \<open>The button of the menu; a click anywhere else, but not one inside the menu, closes it.\<close>

datatype menu_place = On_button | In_menu | Elsewhere

definition new_menu_click :: "menu_place \<Rightarrow> 's drive \<Rightarrow> 's drive" where
  "new_menu_click pl d = (case pl of On_button \<Rightarrow> toggleNewMenu d | In_menu \<Rightarrow> d | Elsewhere \<Rightarrow> closeNewMenu d)"

section \<open>Views\<close>

record view_buttons =
  vb_list :: bool
  vb_grid :: bool
  vb_stored :: string

definition applyDriveView :: "'s drive \<Rightarrow> view_buttons" where
  "applyDriveView d =
     \<lparr> vb_list = (driveViewMode d = ''list''), vb_grid = (driveViewMode d = ''grid''), vb_stored = driveViewMode d \<rparr>"

definition view_clicked :: "string \<Rightarrow> 's drive \<Rightarrow> 's drive \<times> view_buttons" where
  "view_clicked m d = (let d1 = set_view_mode m d in (d1, applyDriveView d1))"

definition setDriveStats :: "string \<Rightarrow> string" where
  "setDriveStats s = or_default (Some s) ''-''"

section \<open>Buttons of a row\<close>

definition text_action_class :: "bool \<Rightarrow> bool \<Rightarrow> bool \<Rightarrow> string" where
  "text_action_class primary danger disabled =
     ''era-btn'' @ (if primary then '' era-btn-primary'' else []) @ (if danger then '' era-btn-danger'' else [])
     @ (if disabled then '' disabled'' else [])"

text \<open>A disabled button does nothing; a disabled item of the menu of a row calls its function all the same.\<close>

definition text_action_click :: "bool \<Rightarrow> ('a \<Rightarrow> 'a) \<Rightarrow> 'a \<Rightarrow> 'a" where
  "text_action_click disabled f a = (if disabled then a else f a)"

record 'a more_item =
  mr_label :: string
  mr_icon :: string
  mr_disabled :: bool
  mr_fn :: "'a \<Rightarrow> 'a"

definition more_item_click :: "string \<Rightarrow> 'a more_item \<Rightarrow> string list \<times> 'a \<Rightarrow> string list \<times> 'a" where
  "more_item_click menu it oa = (filter (\<lambda>m. m \<noteq> menu) (fst oa), mr_fn it (snd oa))"

text \<open>The items a menu shows, with icon, label and class; no menu without items.\<close>

definition appendMoreMenu :: "'a more_item list \<Rightarrow> (string \<times> string \<times> bool) list option" where
  "appendMoreMenu items =
     (if items = [] then None
      else Some (map (\<lambda>it. (or_default (Some (mr_icon it)) ''more'', mr_label it, mr_disabled it)) items))"

text \<open>Whether a tree node accepts what is dragged over it.\<close>

definition drag_accepted :: "string list \<Rightarrow> bool" where
  "drag_accepted types = list_ex (\<lambda>t. t = ''application/x-era-drive'' \<or> t = ''text/plain'') types"

section \<open>Search field, panels, start\<close>

definition search_key :: "'s drive_service \<Rightarrow> drive_env \<Rightarrow> string \<Rightarrow> 's drive_act" where
  "search_key srv v k = (if k = ''Enter'' then runSearch srv v else (\<lambda>d. Some (d, True)))"

definition close_move_panel :: "'s drive \<Rightarrow> 's drive" where
  "close_move_panel d = d\<lparr>dr_movePanel := False, moveState := None\<rparr>"

text \<open>A click on the panel itself, not on what is in it, closes it.\<close>

definition move_panel_click :: "bool \<Rightarrow> 's drive \<Rightarrow> 's drive" where
  "move_panel_click on_backdrop d = (if on_backdrop then close_move_panel d else d)"

definition file_chosen :: "string \<Rightarrow> string list \<Rightarrow> string" where
  "file_chosen label names = (case names of [] \<Rightarrow> label | n # _ \<Rightarrow> n)"

definition drive_boot ::
  "'s drive_service \<Rightarrow> drive_env \<Rightarrow> (string \<Rightarrow> claims option) \<Rightarrow> int \<Rightarrow> 's drive_act" where
  "drive_boot srv v jwt now d =
     (let d1 = renderBreadcrumb d; (s, ok) = requireAuthOrRedirect jwt now (dr_session d1)
      in if ok then refreshFiles srv v (d1\<lparr>dr_session := s\<rparr>) else Some (d1\<lparr>dr_session := s\<rparr>, True))"

section \<open>Laws\<close>

text \<open>A page without a valid token sends nothing and goes to the sign-in page.\<close>

lemma drive_boot_signed_out:
  assumes "\<not> snd (requireAuthOrRedirect jwt now (dr_session d))"
  shows "\<exists>d'. drive_boot srv v jwt now d = Some (d', True) \<and> dr_requests d' = dr_requests d
    \<and> href (dr_session d') = Some (loginUrl (dr_session d) [])"
  using assms by (auto simp: drive_boot_def Let_def renderBreadcrumb_def requireAuthOrRedirect_def redirectToLogin_def split: if_splits)

lemma new_object_goes:
  assumes "era_token (dr_session d) \<noteq> []" "200 \<le> status" "status < 300" "i \<noteq> []"
  shows "href (dr_session (createOfficeObject status i hrefPrefix label (closeNewMenu d))) = Some (hrefPrefix @ i)"
  using assms by (simp add: createOfficeObject_def closeNewMenu_def Let_def)

end
