(* ===== verification/Shell_Dialog.thy ===== *)
theory Shell_Dialog
  imports Era_Strings
begin

text \<open>
  The dialog of the office shell (\<open>ui/office-shell/web/shell.js\<close>): one \<open>dialog\<close> element serves
  \<open>promptText\<close>, \<open>confirmAction\<close>, \<open>chooseOption\<close> and \<open>promptCopy\<close>. Each call makes a promise
  (numbered in the order of the calls) and installs its handlers on the element; the handlers
  settle the promise. \<open>d_resolved\<close> lists the settled promises with their values.
\<close>

section \<open>The element\<close>

datatype dlg_kind = Prompt_dlg | Confirm_dlg | Choose_dlg | Copy_dlg

datatype dlg_value = V_null | V_text string | V_bool bool

record dlg_choice =
  ch_value :: string
  ch_label :: string
  ch_hint :: string

record dlg =
  d_title :: string
  d_msg :: string
  d_msgHidden :: bool
  d_fieldHidden :: bool
  d_label :: string
  d_labelHidden :: bool
  d_inputHidden :: bool
  d_textareaHidden :: bool
  d_input :: string
  d_textarea :: string
  d_placeholder :: string
  d_readOnly :: bool
  d_choices :: "dlg_choice list"
  d_choicesHidden :: bool
  d_selected :: string
  d_ok :: string
  d_cancel :: string
  d_cancelHidden :: bool
  d_copy :: string
  d_copyHidden :: bool
  d_danger :: bool
  d_open :: bool
  d_onsubmit :: "(nat \<times> dlg_kind) option"
  d_oncancel :: "(nat \<times> dlg_kind) option"
  d_oncopy :: bool
  d_resolved :: "(nat \<times> dlg_value) list"
  d_next :: nat

text \<open>The values of the submit buttons in the order of the markup; the first is the form's default button.\<close>

definition dlg_buttons :: "string list" where
  "dlg_buttons = [''cancel'', ''ok'']"

definition ensureUiDialog :: dlg where
  "ensureUiDialog =
     \<lparr> d_title = [], d_msg = [], d_msgHidden = True, d_fieldHidden = True, d_label = [], d_labelHidden = False,
       d_inputHidden = False, d_textareaHidden = True, d_input = [], d_textarea = [], d_placeholder = [],
       d_readOnly = False, d_choices = [], d_choicesHidden = True, d_selected = [], d_ok = ''OK'',
       d_cancel = ''Cancel'', d_cancelHidden = False, d_copy = ''Copy'', d_copyHidden = True, d_danger = False,
       d_open = False, d_onsubmit = None, d_oncancel = None, d_oncopy = False, d_resolved = [], d_next = 0 \<rparr>"

definition closeShellDialog :: "dlg \<Rightarrow> dlg" where
  "closeShellDialog d = d\<lparr>d_open := False\<rparr>"

section \<open>Opening\<close>

record dlg_opts =
  op_title :: string
  op_message :: string
  op_label :: string
  op_value :: "string option"
  op_placeholder :: string
  op_ok :: string
  op_cancel :: string
  op_multiline :: bool
  op_danger :: bool
  op_options :: "dlg_choice list"

definition show_message :: "string \<Rightarrow> dlg \<Rightarrow> dlg" where
  "show_message m d = (if m \<noteq> [] then d\<lparr>d_msgHidden := False, d_msg := m\<rparr> else d\<lparr>d_msgHidden := True, d_msg := []\<rparr>)"

definition install :: "dlg_kind \<Rightarrow> dlg \<Rightarrow> dlg" where
  "install k d =
     d\<lparr>d_onsubmit := Some (d_next d, k), d_oncancel := Some (d_next d, k), d_next := Suc (d_next d), d_open := True\<rparr>"

definition promptText :: "dlg_opts \<Rightarrow> dlg \<Rightarrow> dlg" where
  "promptText o' d =
     (let d1 = show_message (op_message o') (d\<lparr>d_title := or_default (Some (op_title o')) ''Input''\<rparr>);
          d2 = d1\<lparr>d_fieldHidden := False, d_choicesHidden := True, d_choices := [], d_copyHidden := True,
                  d_label := op_label o', d_labelHidden := (op_label o' = []),
                  d_inputHidden := op_multiline o', d_textareaHidden := (\<not> op_multiline o'),
                  d_placeholder := op_placeholder o',
                  d_ok := or_default (Some (op_ok o')) ''OK'', d_cancel := or_default (Some (op_cancel o')) ''Cancel'',
                  d_danger := op_danger o'\<rparr>;
          d3 = (if op_multiline o' then d2\<lparr>d_textarea := or_empty (op_value o')\<rparr> else d2\<lparr>d_input := or_empty (op_value o')\<rparr>)
      in install Prompt_dlg d3)"

definition confirmAction :: "dlg_opts \<Rightarrow> dlg \<Rightarrow> dlg" where
  "confirmAction o' d =
     install Confirm_dlg
       (d\<lparr>d_title := or_default (Some (op_title o')) ''Confirm'', d_msgHidden := False,
          d_msg := or_default (Some (op_message o')) ''Are you sure?'', d_fieldHidden := True,
          d_choicesHidden := True, d_choices := [], d_copyHidden := True,
          d_ok := or_default (Some (op_ok o')) ''OK'', d_cancel := or_default (Some (op_cancel o')) ''Cancel'',
          d_danger := op_danger o'\<rparr>)"

definition chooseOption :: "dlg_opts \<Rightarrow> dlg \<Rightarrow> dlg" where
  "chooseOption o' d =
     (let d1 = show_message (op_message o') (d\<lparr>d_title := or_default (Some (op_title o')) ''Choose''\<rparr>) in
      install Choose_dlg
        (d1\<lparr>d_fieldHidden := True, d_copyHidden := True, d_choicesHidden := False, d_choices := op_options o',
            d_selected := (case op_value o' of Some v \<Rightarrow> v
                           | None \<Rightarrow> (case op_options o' of [] \<Rightarrow> [] | c # _ \<Rightarrow> ch_value c)),
            d_ok := or_default (Some (op_ok o')) ''OK'', d_cancel := or_default (Some (op_cancel o')) ''Cancel'',
            d_danger := False\<rparr>))"

definition promptCopy :: "dlg_opts \<Rightarrow> dlg \<Rightarrow> dlg" where
  "promptCopy o' d =
     (let d1 = d\<lparr>d_title := or_default (Some (op_title o')) ''Copy link''\<rparr>;
          d2 = (if op_message o' \<noteq> [] then d1\<lparr>d_msgHidden := False, d_msg := op_message o'\<rparr> else d1\<lparr>d_msgHidden := True\<rparr>)
      in install Copy_dlg
           (d2\<lparr>d_fieldHidden := False, d_choicesHidden := True, d_label := or_default (Some (op_label o')) ''Link'',
               d_labelHidden := False, d_inputHidden := False, d_textareaHidden := True,
               d_input := or_empty (op_value o'), d_readOnly := True, d_copyHidden := False, d_copy := ''Copy'',
               d_ok := or_default (Some (op_ok o')) ''Close'', d_cancelHidden := True, d_oncopy := True\<rparr>))"

text \<open>The markup of one choice: the label and the hint with their ampersands and brackets escaped.\<close>

definition choice_escape :: "string \<Rightarrow> string" where
  "choice_escape s =
     concat (map (\<lambda>c. if c = CHR ''&'' then ''&amp;'' else if c = CHR ''<'' then ''&lt;'' else [c]) s)"

definition choice_html :: "dlg_choice \<Rightarrow> string" where
  "choice_html c =
     ''<strong>'' @ choice_escape (or_default (Some (ch_label c)) (ch_value c)) @ ''</strong>''
     @ (if ch_hint c = [] then [] else ''<span class=\"era-hint\">'' @ choice_escape (ch_hint c) @ ''</span>'')"

section \<open>Handlers\<close>

definition dlg_finish :: "nat \<Rightarrow> dlg_value \<Rightarrow> dlg \<Rightarrow> dlg" where
  "dlg_finish p v d = d\<lparr>d_onsubmit := None, d_oncancel := None, d_resolved := d_resolved d @ [(p, v)]\<rparr>"

definition copy_finish :: "nat \<Rightarrow> dlg_value \<Rightarrow> dlg \<Rightarrow> dlg" where
  "copy_finish p v d = (dlg_finish p v d)\<lparr>d_oncopy := False, d_cancelHidden := False, d_readOnly := False\<rparr>"

definition active_value :: "dlg \<Rightarrow> string" where
  "active_value d = (if d_inputHidden d then d_textarea d else d_input d)"

definition submit_value :: "dlg_kind \<Rightarrow> string \<Rightarrow> dlg \<Rightarrow> dlg_value" where
  "submit_value k v d =
     (case k of
        Prompt_dlg \<Rightarrow> if v = ''cancel'' then V_null else V_text (active_value d)
      | Confirm_dlg \<Rightarrow> V_bool (v = ''ok'')
      | Choose_dlg \<Rightarrow> if v = ''cancel'' then V_null else if d_selected d = [] then V_null else V_text (d_selected d)
      | Copy_dlg \<Rightarrow> V_text (if d_copy d = ''Copied'' then ''copied'' else ''closed''))"

definition settle :: "dlg_kind \<Rightarrow> nat \<Rightarrow> dlg_value \<Rightarrow> dlg \<Rightarrow> dlg" where
  "settle k p v d = (if k = Copy_dlg then copy_finish p v (closeShellDialog d) else dlg_finish p v (closeShellDialog d))"

text \<open>A submit; without a handler the form closes the dialog.\<close>

definition dlg_submit :: "string \<Rightarrow> dlg \<Rightarrow> dlg" where
  "dlg_submit v d =
     (case d_onsubmit d of
        None \<Rightarrow> d\<lparr>d_open := False\<rparr>
      | Some (p, k) \<Rightarrow> settle k p (submit_value k v d) d)"

definition cancel_value :: "dlg_kind \<Rightarrow> dlg_value" where
  "cancel_value k = (if k = Confirm_dlg then V_bool False else V_null)"

text \<open>The \<open>cancel\<close> event, which Escape causes.\<close>

definition dlg_escape :: "dlg \<Rightarrow> dlg" where
  "dlg_escape d =
     (case d_oncancel d of
        None \<Rightarrow> d\<lparr>d_open := False\<rparr>
      | Some (p, k) \<Rightarrow> settle k p (cancel_value k) d)"

text \<open>Enter in the text field submits the form by its default button.\<close>

definition dlg_enter :: "dlg \<Rightarrow> dlg" where
  "dlg_enter d = dlg_submit (hd dlg_buttons) d"

definition pick_choice :: "string \<Rightarrow> dlg \<Rightarrow> dlg" where
  "pick_choice v d = d\<lparr>d_selected := v\<rparr>"

text \<open>A double click on a choice; the choices are visible only while \<open>chooseOption\<close> is pending.\<close>

definition pick_twice :: "string \<Rightarrow> dlg \<Rightarrow> dlg" where
  "pick_twice v d =
     (case d_onsubmit d of
        Some (p, Choose_dlg) \<Rightarrow> dlg_finish p (V_text v) (closeShellDialog (d\<lparr>d_selected := v\<rparr>))
      | _ \<Rightarrow> d)"

definition copy_click :: "bool \<Rightarrow> dlg \<Rightarrow> dlg" where
  "copy_click copied d = (if d_oncopy d \<and> copied then d\<lparr>d_copy := ''Copied''\<rparr> else d)"

definition type_field :: "string \<Rightarrow> dlg \<Rightarrow> dlg" where
  "type_field t d =
     (if d_inputHidden d then d\<lparr>d_textarea := t\<rparr> else if d_readOnly d then d else d\<lparr>d_input := t\<rparr>)"

datatype dlg_event =
    Ev_prompt dlg_opts
  | Ev_confirm dlg_opts
  | Ev_choose dlg_opts
  | Ev_copy dlg_opts
  | Ev_submit string
  | Ev_enter
  | Ev_escape
  | Ev_pick string
  | Ev_pick_twice string
  | Ev_copy_click bool
  | Ev_type string

fun dlg_step :: "dlg_event \<Rightarrow> dlg \<Rightarrow> dlg" where
  "dlg_step (Ev_prompt o') d = promptText o' d"
| "dlg_step (Ev_confirm o') d = confirmAction o' d"
| "dlg_step (Ev_choose o') d = chooseOption o' d"
| "dlg_step (Ev_copy o') d = promptCopy o' d"
| "dlg_step (Ev_submit v) d = dlg_submit v d"
| "dlg_step Ev_enter d = dlg_enter d"
| "dlg_step Ev_escape d = dlg_escape d"
| "dlg_step (Ev_pick v) d = pick_choice v d"
| "dlg_step (Ev_pick_twice v) d = pick_twice v d"
| "dlg_step (Ev_copy_click b) d = copy_click b d"
| "dlg_step (Ev_type t) d = type_field t d"

inductive dlg_reachable :: "dlg \<Rightarrow> bool" where
  start: "dlg_reachable ensureUiDialog"
| step: "dlg_reachable d \<Longrightarrow> dlg_reachable (dlg_step e d)"

end
