(* ===== verification/Shell_Login.thy ===== *)
theory Shell_Login
  imports Shell_Session
begin

text \<open>
  The sign-in page (\<open>ui/office-shell/web/login.js\<close>): the target taken from the address, the
  product shown, and the three steps (e-mail, password, new account) with their requests.
  A reply of the service is an argument; \<open>No_reply\<close> is a request that was rejected with a message.
\<close>

section \<open>Where to go after signing in\<close>

definition login_next :: "string \<Rightarrow> string" where
  "login_next search =
     (let n = or_default (param_get search ''next'') ''/drive/'' in
      if take 1 n \<noteq> ''/'' \<or> take 2 n = ''//'' then ''/drive/'' else n)"

definition safeNext :: "(string \<Rightarrow> (string \<times> string) option) \<Rightarrow> string \<Rightarrow> string \<Rightarrow> string" where
  "safeNext auth origin next =
     (case new_url auth origin next of
        None \<Rightarrow> ''/drive/''
      | Some (o', path) \<Rightarrow> if o' \<noteq> origin then ''/drive/'' else path)"

definition PRODUCT_LABELS :: "(string \<times> string) list" where
  "PRODUCT_LABELS =
     [(''office'', ''ERA Office''), (''comms'', ''ERA Communications''), (''control'', ''ERA Control'')]"

definition inferProduct :: "string \<Rightarrow> string \<Rightarrow> string" where
  "inferProduct search next =
     (let explicit = to_lower (or_empty (param_get search ''product'')); path = hd (split_char CHR ''?'' next) in
      if explicit \<in> fst ` set PRODUCT_LABELS then explicit
      else if starts_with ''/mail'' path \<or> starts_with ''/chat'' path then ''comms''
      else if starts_with ''/ui/control'' path \<or> starts_with ''/control'' path then ''control''
      else ''office'')"

section \<open>The page\<close>

datatype login_step = Step_email | Step_password | Step_create

datatype login_reply =
    No_reply string
  | Reply int string "string option"

datatype login_request =
    Token_request string string
  | Register_request string string

record login =
  lg_step :: login_step
  pendingEmail :: string
  emailInput :: string
  passwordInput :: string
  regEmail :: string
  emailError :: string
  passwordError :: string
  createError :: string
  passwordBusy :: bool
  createBusy :: bool
  lg_title :: string
  lg_chip :: string
  lg_initial :: string
  lg_token :: string
  lg_href :: "string option"
  lg_requests :: "login_request list"

definition showStep :: "login_step \<Rightarrow> login \<Rightarrow> login" where
  "showStep st l =
     (case st of
        Step_email \<Rightarrow> l\<lparr>lg_step := st, lg_title := ''Sign in'', emailError := []\<rparr>
      | Step_password \<Rightarrow>
          l\<lparr>lg_step := st, lg_title := ''Welcome'', lg_chip := pendingEmail l,
            lg_initial := to_upper (or_default (Some (take 1 (pendingEmail l))) ''?''),
            passwordError := [], passwordInput := []\<rparr>
      | Step_create \<Rightarrow> l\<lparr>lg_step := st, lg_title := ''Create your ERA Account'', createError := []\<rparr>)"

definition valid_email :: "string \<Rightarrow> bool" where
  "valid_email e \<longleftrightarrow> e \<noteq> [] \<and> (case str_index ''@'' e of None \<Rightarrow> False | Some i \<Rightarrow> i \<ge> 1)"

text \<open>The request and its result: an error message, or the token.\<close>

definition signIn_result :: "login_reply \<Rightarrow> string + string" where
  "signIn_result r =
     (case r of
        No_reply m \<Rightarrow> Inl m
      | Reply status t tok \<Rightarrow>
          if \<not> (200 \<le> status \<and> status < 300) then
            Inl (if status = 401 then ''Wrong email or password''
                 else or_default (Some t) (''Sign-in failed ('' @ int_str status @ '')''))
          else if or_empty tok = [] then Inl ''Sign-in failed: no token''
          else Inr (or_empty tok))"

definition signIn ::
  "(string \<Rightarrow> string) \<Rightarrow> string \<Rightarrow> string \<Rightarrow> string \<Rightarrow> login_reply \<Rightarrow> login \<Rightarrow> login \<times> string option" where
  "signIn target next email password r l =
     (let l1 = l\<lparr>lg_requests := lg_requests l @ [Token_request email password]\<rparr> in
      case signIn_result r of
        Inl m \<Rightarrow> (l1, Some m)
      | Inr tok \<Rightarrow> (l1\<lparr>lg_token := tok, lg_href := Some (target next)\<rparr>, None))"

definition submit_email :: "login \<Rightarrow> login" where
  "submit_email l =
     (let l1 = l\<lparr>emailError := []\<rparr>; email = to_lower (js_trim (emailInput l)) in
      if \<not> valid_email email then l1\<lparr>emailError := ''Enter a valid email address''\<rparr>
      else showStep Step_password (l1\<lparr>pendingEmail := email\<rparr>))"

definition submit_password :: "(string \<Rightarrow> string) \<Rightarrow> string \<Rightarrow> login_reply \<Rightarrow> login \<Rightarrow> login" where
  "submit_password target next r l =
     (case signIn target next (pendingEmail l) (passwordInput l) r (l\<lparr>passwordError := [], passwordBusy := True\<rparr>) of
        (l1, None) \<Rightarrow> l1
      | (l1, Some m) \<Rightarrow> l1\<lparr>passwordError := or_default (Some m) ''Sign-in failed'', passwordBusy := False\<rparr>)"

definition register_error :: "login_reply \<Rightarrow> string option" where
  "register_error r =
     (case r of
        No_reply m \<Rightarrow> Some m
      | Reply status t tok \<Rightarrow>
          if 200 \<le> status \<and> status < 300 then None
          else if status = 409 then Some ''An account with this email already exists''
          else if status = 404 then Some ''Registration is not enabled on this stand''
          else Some (or_default (Some t) (''Could not create account ('' @ int_str status @ '')'')))"

definition create_problem :: "string \<Rightarrow> string \<Rightarrow> string \<Rightarrow> string option" where
  "create_problem email pass pass2 =
     (if \<not> valid_email email then Some ''Enter a valid email address''
      else if length pass < 6 then Some ''Password must be at least 6 characters''
      else if pass \<noteq> pass2 then Some ''Passwords do not match'' else None)"

definition submit_create ::
  "(string \<Rightarrow> string) \<Rightarrow> string \<Rightarrow> string \<Rightarrow> string \<Rightarrow> login_reply \<Rightarrow> login_reply \<Rightarrow> login \<Rightarrow> login" where
  "submit_create target next pass pass2 reg tok l =
     (let l1 = l\<lparr>createError := []\<rparr>; email = to_lower (js_trim (regEmail l)) in
      case create_problem email pass pass2 of
        Some m \<Rightarrow> l1\<lparr>createError := m\<rparr>
      | None \<Rightarrow>
          (let l2 = l1\<lparr>createBusy := True, lg_requests := lg_requests l @ [Register_request email pass]\<rparr> in
           case register_error reg of
             Some m \<Rightarrow> l2\<lparr>createError := or_default (Some m) ''Could not create account'', createBusy := False\<rparr>
           | None \<Rightarrow>
               (case signIn target next email pass tok l2 of
                  (l3, None) \<Rightarrow> l3
                | (l3, Some m) \<Rightarrow>
                    l3\<lparr>createError := or_default (Some m) ''Could not create account'', createBusy := False\<rparr>)))"

definition to_create :: "login \<Rightarrow> login" where
  "to_create l = showStep Step_create (l\<lparr>regEmail := emailInput l\<rparr>)"

text \<open>Opening the page: a page with a token leaves at once, unless the address says \<open>force=1\<close>.\<close>

definition open_login :: "(string \<Rightarrow> string) \<Rightarrow> string \<Rightarrow> login \<Rightarrow> login" where
  "open_login target search l =
     (if lg_token l \<noteq> [] \<and> param_get search ''force'' \<noteq> Some ''1'' then l\<lparr>lg_href := Some (target (login_next search))\<rparr>
      else showStep Step_email l)"

end
