(* ===== verification/Shell_Laws.thy ===== *)
theory Shell_Laws
  imports Shell_Dialog Shell_Login
begin

text \<open>
  Laws of the office shell: the promises of the shared dialog, sessions that end at the sign-in
  page and come back, and the addresses the sign-in page goes to.
\<close>

section \<open>The dialog\<close>

lemmas dlg_open_defs = promptText_def confirmAction_def chooseOption_def promptCopy_def install_def show_message_def

lemmas dlg_end_defs = dlg_submit_def dlg_escape_def dlg_enter_def pick_twice_def settle_def dlg_finish_def
  copy_finish_def closeShellDialog_def

lemmas dlg_other_defs = pick_choice_def copy_click_def type_field_def

text \<open>What an event does to the promises: it opens a new one, settles the pending one, or leaves them.\<close>

definition dlg_opens :: "dlg \<Rightarrow> dlg \<Rightarrow> bool" where
  "dlg_opens d d' \<longleftrightarrow>
     d_next d' = Suc (d_next d) \<and> d_resolved d' = d_resolved d \<and> d_onsubmit d' = d_oncancel d'
     \<and> (\<exists>k. d_onsubmit d' = Some (d_next d, k))"

definition dlg_settles :: "dlg \<Rightarrow> dlg \<Rightarrow> bool" where
  "dlg_settles d d' \<longleftrightarrow>
     d_next d' = d_next d \<and> d_onsubmit d' = None \<and> d_oncancel d' = None
     \<and> (\<exists>p k v. (d_onsubmit d = Some (p, k) \<or> d_oncancel d = Some (p, k)) \<and> d_resolved d' = d_resolved d @ [(p, v)])"

definition dlg_leaves :: "dlg \<Rightarrow> dlg \<Rightarrow> bool" where
  "dlg_leaves d d' \<longleftrightarrow>
     d_next d' = d_next d \<and> d_resolved d' = d_resolved d \<and> d_onsubmit d' = d_onsubmit d \<and> d_oncancel d' = d_oncancel d"

lemma dlg_open_cases:
  "dlg_opens d (promptText o' d)" "dlg_opens d (confirmAction o' d)"
  "dlg_opens d (chooseOption o' d)" "dlg_opens d (promptCopy o' d)"
  by (simp_all add: dlg_opens_def dlg_open_defs Let_def)

lemma dlg_submit_cases: "dlg_settles d (dlg_submit v d) \<or> dlg_leaves d (dlg_submit v d)"
  by (auto simp: dlg_settles_def dlg_leaves_def dlg_end_defs split: option.splits prod.splits)

lemma dlg_escape_cases: "dlg_settles d (dlg_escape d) \<or> dlg_leaves d (dlg_escape d)"
  by (auto simp: dlg_settles_def dlg_leaves_def dlg_end_defs split: option.splits prod.splits)

lemma pick_twice_cases: "dlg_settles d (pick_twice v d) \<or> dlg_leaves d (pick_twice v d)"
  by (auto simp: dlg_settles_def dlg_leaves_def dlg_end_defs split: option.splits prod.splits dlg_kind.splits)

lemma dlg_step_cases: "dlg_opens d (dlg_step e d) \<or> dlg_settles d (dlg_step e d) \<or> dlg_leaves d (dlg_step e d)"
  using dlg_open_cases dlg_submit_cases dlg_escape_cases pick_twice_cases
  by (cases e) (simp_all add: dlg_enter_def, simp_all add: dlg_leaves_def dlg_other_defs)

definition dlg_inv :: "dlg \<Rightarrow> bool" where
  "dlg_inv d \<longleftrightarrow>
     d_onsubmit d = d_oncancel d \<and> distinct (map fst (d_resolved d))
     \<and> (\<forall>p\<in>fst ` set (d_resolved d). p < d_next d)
     \<and> (\<forall>p k. d_onsubmit d = Some (p, k) \<longrightarrow> p < d_next d \<and> p \<notin> fst ` set (d_resolved d))"

lemma dlg_inv_opens: "dlg_inv d \<Longrightarrow> dlg_opens d d' \<Longrightarrow> dlg_inv d'"
  unfolding dlg_inv_def dlg_opens_def by (metis less_Suc_eq less_irrefl option.inject prod.inject)

lemma dlg_inv_settles: "dlg_inv d \<Longrightarrow> dlg_settles d d' \<Longrightarrow> dlg_inv d'"
  unfolding dlg_inv_def dlg_settles_def by auto

lemma dlg_inv_leaves: "dlg_inv d \<Longrightarrow> dlg_leaves d d' \<Longrightarrow> dlg_inv d'"
  by (auto simp: dlg_inv_def dlg_leaves_def)

lemma dlg_reachable_inv: "dlg_reachable d \<Longrightarrow> dlg_inv d"
proof (induction rule: dlg_reachable.induct)
  case start
  then show ?case by (simp add: dlg_inv_def ensureUiDialog_def)
next
  case (step d e)
  then show ?case using dlg_step_cases dlg_inv_opens dlg_inv_settles dlg_inv_leaves by blast
qed

lemma dlg_submit_settles:
  "d_onsubmit d = Some (p, k) \<Longrightarrow> d_resolved (dlg_submit v d) = d_resolved d @ [(p, submit_value k v d)]"
  by (simp add: dlg_end_defs)

lemma dlg_escape_settles:
  "d_oncancel d = Some (p, k) \<Longrightarrow> d_resolved (dlg_escape d) = d_resolved d @ [(p, cancel_value k)]"
  by (simp add: dlg_end_defs)

text \<open>A promise that was neither settled nor is pending stays unsettled.\<close>

definition dlg_lost :: "nat \<Rightarrow> dlg \<Rightarrow> bool" where
  "dlg_lost p d \<longleftrightarrow>
     p < d_next d \<and> p \<notin> fst ` set (d_resolved d)
     \<and> (\<forall>k. d_onsubmit d \<noteq> Some (p, k)) \<and> (\<forall>k. d_oncancel d \<noteq> Some (p, k))"

lemma dlg_lost_opens: "dlg_lost p d \<Longrightarrow> dlg_opens d d' \<Longrightarrow> dlg_lost p d'"
  unfolding dlg_lost_def dlg_opens_def by (metis less_SucI less_irrefl option.inject prod.inject)

lemma dlg_lost_settles: "dlg_lost p d \<Longrightarrow> dlg_settles d d' \<Longrightarrow> dlg_lost p d'"
  unfolding dlg_lost_def dlg_settles_def by auto

lemma dlg_lost_leaves: "dlg_lost p d \<Longrightarrow> dlg_leaves d d' \<Longrightarrow> dlg_lost p d'"
  unfolding dlg_lost_def dlg_leaves_def by simp

lemma dlg_lost_step: "dlg_lost p d \<Longrightarrow> dlg_lost p (dlg_step e d)"
  using dlg_step_cases dlg_lost_opens dlg_lost_settles dlg_lost_leaves by blast

lemma dlg_lost_run: "dlg_lost p d \<Longrightarrow> dlg_lost p (fold dlg_step es d)"
  by (induction es arbitrary: d) (simp_all add: dlg_lost_step)

lemma dlg_opens_loses:
  assumes "dlg_inv d" "d_onsubmit d = Some (p, k)" "dlg_opens d d'"
  shows "dlg_lost p d'"
  using assms unfolding dlg_inv_def dlg_opens_def dlg_lost_def
  by (metis less_SucI less_irrefl option.inject prod.inject)

section \<open>Sessions\<close>

text \<open>The sign-in page reads back the address that \<open>loginUrl\<close> wrote.\<close>

lemma login_search: "loginUrl s n = ''/login'' @ (CHR ''?'' # ''next'' @ CHR ''='' #
    encodeURIComponent (or_default (Some (or_default (Some n) (pageAddress s))) ''/drive/''))"
  by (simp add: loginUrl_def)

lemma login_next_roundtrip:
  assumes "take 1 addr = ''/''" "take 2 addr \<noteq> ''//''"
  shows "login_next (CHR ''?'' # ''next='' @ encodeURIComponent addr) = addr"
proof -
  have "param_get (CHR ''?'' # ''next'' @ CHR ''='' # encodeURIComponent addr) ''next'' = Some addr"
    by (rule param_get_encoded) (auto simp: uri_unreserved_def is_lower_def)
  moreover have "addr \<noteq> []" using assms(1) by auto
  ultimately show ?thesis using assms by (simp add: login_next_def or_default_def Let_def)
qed

lemma login_next_local: "take 1 (login_next search) = ''/'' \<and> take 2 (login_next search) \<noteq> ''//''"
  by (simp add: login_next_def Let_def)

section \<open>Addresses\<close>

lemma path_segments_ne [simp]: "path_segments s \<noteq> []"
  by (cases s) (auto split: list.splits)

lemma hd_path_segments: "s \<noteq> [] \<Longrightarrow> \<not> is_slash (hd s) \<Longrightarrow> hd (path_segments s) \<noteq> [] \<and> hd (hd (path_segments s)) = hd s"
  by (cases s) (auto split: list.splits)

definition dot_free :: "string \<Rightarrow> bool" where
  "dot_free path \<longleftrightarrow> (\<forall>p\<in>set (path_segments path). \<not> single_dot p \<and> \<not> double_dot p)"

lemma resolve_dot_free:
  "\<forall>p\<in>set ps. \<not> single_dot p \<and> \<not> double_dot p \<Longrightarrow> resolve_segments out ps = out @ map path_encode ps"
  by (induction ps arbitrary: out) auto

lemma percent_char_Cons: "\<exists>x y. percent_char c = CHR ''%'' # x # y"
  by (auto simp: percent_char_def utf8_bytes_def Let_def percent_byte_def)

lemma path_encode_hd:
  assumes "p \<noteq> []" "\<not> is_slash (hd p)"
  shows "\<exists>c cs. path_encode p = c # cs \<and> \<not> is_slash c"
proof -
  obtain c cs where p: "p = c # cs" using assms(1) by (cases p) auto
  obtain x y where "percent_char c = CHR ''%'' # x # y" using percent_char_Cons by blast
  then show ?thesis using assms(2) p by (auto simp: path_encode_def is_slash_def)
qed

text \<open>A path that does not start with a slash and has no dot segments keeps a single slash in front.\<close>

lemma url_pathname_local:
  assumes "s \<noteq> [] \<longrightarrow> \<not> is_slash (hd s)" "dot_free s"
  shows "\<exists>r. url_pathname s = CHR ''/'' # r \<and> (r \<noteq> [] \<longrightarrow> \<not> is_slash (hd r))"
proof (cases "s = []")
  case True
  then show ?thesis using assms(2) by (simp add: url_pathname_def dot_free_def path_encode_def single_dot_def double_dot_def to_lower_def)
next
  case False
  obtain p ps where ps: "path_segments s = p # ps" by (cases "path_segments s") auto
  then have "p \<noteq> []" "\<not> is_slash (hd p)" using hd_path_segments [OF False] assms(1) False by auto
  then obtain c cs where "path_encode p = c # cs" "\<not> is_slash c" using path_encode_hd by blast
  then show ?thesis using assms(2) ps by (simp add: url_pathname_def dot_free_def resolve_dot_free)
qed

lemma resolve_path_local:
  assumes "s \<noteq> [] \<longrightarrow> \<not> is_slash (hd s)"
    and "dot_free (takeWhile (\<lambda>c. c \<noteq> CHR ''?'') (takeWhile (\<lambda>c. c \<noteq> CHR ''#'') s))"
  shows "\<exists>r. resolve_path s = CHR ''/'' # r \<and> (r \<noteq> [] \<longrightarrow> \<not> is_slash (hd r))"
proof -
  let ?p = "takeWhile (\<lambda>c. c \<noteq> CHR ''?'') (takeWhile (\<lambda>c. c \<noteq> CHR ''#'') s)"
  have "?p \<noteq> [] \<longrightarrow> \<not> is_slash (hd ?p)" using assms(1) by (cases s) auto
  then obtain r where "url_pathname ?p = CHR ''/'' # r" "r \<noteq> [] \<longrightarrow> \<not> is_slash (hd r)"
    using url_pathname_local assms(2) by blast
  then show ?thesis by (auto simp: resolve_path_def Let_def is_slash_def hd_append)
qed

end
