(* ===== verification/Shell_Properties.thy ===== *)
theory Shell_Properties
  imports Shell_Laws Shell_Chrome
begin

text \<open>The properties of the office shell, with witnesses.\<close>

lemma dlg_reachable_run: "dlg_reachable d \<Longrightarrow> dlg_reachable (fold dlg_step es d)"
  by (induction es arbitrary: d) (auto intro: dlg_reachable.step)

lemma dlg_open_loses:
  assumes "dlg_inv d" "d_onsubmit d = Some (p, k)" "dlg_opens d d'"
  shows "p \<notin> fst ` set (d_resolved (fold dlg_step es d'))"
  using dlg_lost_run [OF dlg_opens_loses [OF assms], of es] by (simp add: dlg_lost_def)

text \<open>
  C37. While a dialog is pending, a submit or Escape settles its promise, with the values the
  caller expects; no promise is settled twice by any further events. Enter in the text field of a
  prompt goes to the form's first submit button, Cancel, and settles the promise with null. A
  second dialog opened meanwhile takes the element over, and the first promise is never settled.
\<close>

theorem shell_dialog_settles:
  assumes "dlg_reachable d" "d_onsubmit d = Some (p, k)"
  shows "p \<notin> fst ` set (d_resolved d)
    \<and> d_resolved (dlg_submit v d) = d_resolved d @ [(p, submit_value k v d)]
    \<and> d_resolved (dlg_escape d) = d_resolved d @ [(p, cancel_value k)]
    \<and> distinct (map fst (d_resolved (fold dlg_step es d)))
    \<and> (k = Prompt_dlg \<longrightarrow> d_resolved (dlg_enter d) = d_resolved d @ [(p, V_null)])
    \<and> p \<notin> fst ` set (d_resolved (fold dlg_step es (confirmAction o' d)))
    \<and> p \<notin> fst ` set (d_resolved (fold dlg_step es (promptText o' d)))"
proof -
  have i: "dlg_inv d" using dlg_reachable_inv [OF assms(1)] .
  then have "p \<notin> fst ` set (d_resolved d)" "d_oncancel d = Some (p, k)" using assms(2) by (auto simp: dlg_inv_def)
  moreover have "distinct (map fst (d_resolved (fold dlg_step es d)))"
    using dlg_reachable_inv [OF dlg_reachable_run [OF assms(1)]] by (simp add: dlg_inv_def)
  moreover have "submit_value Prompt_dlg (hd dlg_buttons) d = V_null" by (simp add: submit_value_def dlg_buttons_def)
  ultimately show ?thesis
    using dlg_submit_settles [OF assms(2)] dlg_escape_settles [of d p k] dlg_open_loses [OF i assms(2)] dlg_open_cases
    by (auto simp: dlg_enter_def)
qed

definition name_opts :: dlg_opts where
  "name_opts =
     \<lparr> op_title = ''Rename file'', op_message = [], op_label = ''Name'', op_value = Some ''plan.erad'', op_placeholder = [],
       op_ok = [], op_cancel = [], op_multiline = False, op_danger = False, op_options = [] \<rparr>"

theorem shell_dialog_settles_witness:
  "d_resolved (dlg_enter (promptText name_opts ensureUiDialog)) = [(0, V_null)]
   \<and> d_resolved (dlg_submit ''ok'' (promptText name_opts ensureUiDialog)) = [(0, V_text ''plan.erad'')]"
proof -
  let ?d = "promptText name_opts ensureUiDialog"
  have r: "dlg_reachable ?d" using dlg_reachable.step [OF dlg_reachable.start, of "Ev_prompt name_opts"] by simp
  have p: "d_onsubmit ?d = Some (0, Prompt_dlg)" "d_resolved ?d = []" "submit_value Prompt_dlg ''ok'' ?d = V_text ''plan.erad''"
    by (simp_all add: dlg_open_defs Let_def ensureUiDialog_def name_opts_def submit_value_def active_value_def)
  show ?thesis using shell_dialog_settles [OF r p(1), of "''ok''" "[]" name_opts] p(2,3) by simp
qed

text \<open>
  C38. A page that loses its session goes to the sign-in page, which reads back the address of
  the page; when the path of that address has no dot segments and does not name a host, the page
  to which the user returns is on the same origin: its address starts with a single slash. With
  dot segments this fails: the address \<open>/.//evil.example\<close> passes the checks and becomes an address
  on another host.
\<close>

theorem shell_login_returns:
  assumes "pageAddress s = CHR ''/'' # rest" "take 1 rest \<noteq> ''/''"
    "url_strip (pageAddress s) = CHR ''/'' # p" "p \<noteq> [] \<longrightarrow> \<not> is_slash (hd p)"
    "dot_free (takeWhile (\<lambda>c. c \<noteq> CHR ''?'') (takeWhile (\<lambda>c. c \<noteq> CHR ''#'') p))"
  shows "(\<exists>search. href (redirectToLogin [] s) = Some (''/login'' @ search) \<and> login_next search = pageAddress s)
    \<and> era_token (redirectToLogin [] s) = []
    \<and> (\<exists>r. safeNext auth origin (pageAddress s) = CHR ''/'' # r \<and> (r \<noteq> [] \<longrightarrow> \<not> is_slash (hd r)))
    \<and> login_next ''?next=/.//evil.example'' = ''/.//evil.example''
    \<and> safeNext auth origin ''/.//evil.example'' = ''//evil.example''"
proof -
  have n: "take 2 (pageAddress s) \<noteq> ''//''" using assms(1,2) by (cases rest) auto
  have "login_next (CHR ''?'' # ''next='' @ encodeURIComponent (pageAddress s)) = pageAddress s"
    using assms(1) n by (intro login_next_roundtrip) simp_all
  moreover have "href (redirectToLogin [] s) = Some (''/login'' @ (CHR ''?'' # ''next='' @ encodeURIComponent (pageAddress s)))"
    using assms(1) by (simp add: redirectToLogin_def loginUrl_def or_default_def)
  moreover have "safeNext auth origin (pageAddress s) = resolve_path p"
    using assms(3,4) by (cases p) (auto simp: safeNext_def new_url_def is_slash_def)
  moreover obtain r where "resolve_path p = CHR ''/'' # r" "r \<noteq> [] \<longrightarrow> \<not> is_slash (hd r)"
    using resolve_path_local [OF assms(4,5)] by blast
  moreover have "login_next ''?next=/.//evil.example'' = ''/.//evil.example''" by code_simp
  moreover have "safeNext auth origin ''/.//evil.example'' = ''//evil.example''"
    by (simp add: safeNext_def new_url_def url_strip_def resolve_path_def url_pathname_def is_slash_def Let_def
        single_dot_def double_dot_def to_lower_def lower_char_def is_upper_def path_encode_def)
  ultimately show ?thesis by (auto simp: redirectToLogin_def)
qed

theorem shell_login_returns_witness:
  "\<exists>r. safeNext (\<lambda>h. None) ''https://era.example'' ''/docs/d1?x=1'' = CHR ''/'' # r \<and> (r \<noteq> [] \<longrightarrow> \<not> is_slash (hd r))"
proof -
  let ?s = "\<lparr> era_token = ''t'', pageAddress = ''/docs/d1?x=1'', href = None \<rparr>"
  have "pageAddress ?s = CHR ''/'' # ''docs/d1?x=1''" "take 1 ''docs/d1?x=1'' \<noteq> ''/''"
    "url_strip (pageAddress ?s) = CHR ''/'' # ''docs/d1?x=1''"
    "''docs/d1?x=1'' \<noteq> [] \<longrightarrow> \<not> is_slash (hd ''docs/d1?x=1'')"
    by (simp_all add: url_strip_def is_slash_def)
  moreover have "dot_free (takeWhile (\<lambda>c. c \<noteq> CHR ''?'') (takeWhile (\<lambda>c. c \<noteq> CHR ''#'') ''docs/d1?x=1''))"
    by (simp add: dot_free_def is_slash_def single_dot_def double_dot_def to_lower_def lower_char_def is_upper_def)
  ultimately show ?thesis using shell_login_returns [of ?s "''docs/d1?x=1''" "''docs/d1?x=1''"] by auto
qed

end
