(* ===== verification/Control_Shell.thy ===== *)
theory Control_Shell
  imports Shell_Properties
begin

text \<open>
  The frame of the operator console (\<open>ui/control-shell/web/shell.js\<close>): the request function of its
  pages, the navigation with the modules the service switches off, and the wrapping of the page's nodes
  into the main element. The parser of JSON texts is an argument; a parsed reply is known by its
  modules and its role.
\<close>

section \<open>Navigation\<close>

record nav_item =
  ni_id :: string
  ni_href :: string
  ni_label :: string
  ni_mod :: string

definition nav_entry :: "string \<Rightarrow> string \<Rightarrow> string \<Rightarrow> string \<Rightarrow> nav_item" where
  "nav_entry i h l m = \<lparr> ni_id = i, ni_href = h, ni_label = l, ni_mod = m \<rparr>"

definition NAV :: "(string \<times> nav_item list) list" where
  "NAV =
     [(''SecOps'',
       [nav_entry ''soc'' ''/ui/control/'' ''SOC Home'' ''core'', nav_entry ''workbench'' ''/ui/control/workbench/'' ''Workbench'' ''core'',
        nav_entry ''ai'' ''/ui/control/ai/'' ''AI Investigate'' ''ai'', nav_entry ''response'' ''/ui/control/response/'' ''Response'' ''response'',
        nav_entry ''vuln'' ''/ui/control/vuln/'' ''Vuln'' ''vm'']),
      (''IT-Ops'',
       [nav_entry ''manage'' ''/ui/control/manage/'' ''Manage'' ''manage'', nav_entry ''service'' ''/ui/control/service/'' ''Service'' ''service'',
        nav_entry ''provision'' ''/ui/control/provision/'' ''Provision'' ''provision'', nav_entry ''pam'' ''/ui/control/pam/'' ''PAM'' ''pam'']),
      (''Edge'',
       [nav_entry ''observe'' ''/ui/control/observe/'' ''Observe'' ''observe'', nav_entry ''perimeter'' ''/ui/control/perimeter/'' ''Perimeter'' ''perimeter'',
        nav_entry ''resolve'' ''/ui/control/resolve/'' ''Resolve'' ''resolve'', nav_entry ''byo'' ''/ui/control/byo/'' ''BYO-EDR'' ''core''])]"

section \<open>Requests\<close>

record control_opts =
  co_method :: string
  co_headers :: "(string \<times> string) list"
  co_body :: string

definition api_opts :: "control_opts \<Rightarrow> control_opts" where
  "api_opts opts =
     (if or_empty (map_of (co_headers opts) ''Content-Type'') = [] \<and> co_body opts \<noteq> []
      then opts\<lparr>co_headers := upsert ''Content-Type'' ''application/json'' (co_headers opts)\<rparr> else opts)"

text \<open>The parsed value of a reply: none for an empty text, the text itself where it is no JSON.\<close>

datatype 'j reply_json = No_json | Raw string | Json 'j

definition reply_json :: "(string \<Rightarrow> 'j option) \<Rightarrow> string \<Rightarrow> 'j reply_json" where
  "reply_json parse t = (if t = [] then No_json else case parse t of None \<Rightarrow> Raw t | Some j \<Rightarrow> Json j)"

record 'j api_reply =
  ar_ok :: bool
  ar_status :: int
  ar_json :: "'j reply_json"
  ar_text :: string

definition api :: "(string \<Rightarrow> 'j option) \<Rightarrow> (string \<Rightarrow> control_opts \<Rightarrow> int \<times> string) \<Rightarrow> string \<Rightarrow> control_opts \<Rightarrow> 'j api_reply" where
  "api parse fetch path opts =
     (let (status, t) = fetch path (api_opts opts)
      in \<lparr> ar_ok = (200 \<le> status \<and> status < 300), ar_status = status, ar_json = reply_json parse t, ar_text = t \<rparr>)"

definition control_x :: "(string \<Rightarrow> 'j option) \<Rightarrow> (string \<Rightarrow> control_opts \<Rightarrow> int \<times> string) \<Rightarrow> string \<Rightarrow> string \<Rightarrow> control_opts \<Rightarrow> 'j api_reply" where
  "control_x parse fetch svc path opts = api parse fetch (''/api/x/'' @ svc @ path) opts"

section \<open>The frame\<close>

text \<open>The nodes after the first are moved, one by one, into a new element; the loop goes on without a
  change when it meets the side bar again.\<close>

partial_function (option) wrap_body :: "'n \<Rightarrow> 'n list \<Rightarrow> 'n list \<Rightarrow> ('n list \<times> 'n list) option" where
  [code]: "wrap_body side body m =
     (if length body > 1
      then (let n = body ! 1 in if n = side then wrap_body side body m else wrap_body side (hd body # drop 2 body) (m @ [n]))
      else Some (body, m))"

text \<open>The body of the page after the frame is mounted; \<open>is_main\<close>: the page has a main element.\<close>

datatype 'n framed = Has_main "'n list" | Wrapped "'n list" "'n list"

definition mount_body :: "'n \<Rightarrow> bool \<Rightarrow> 'n list \<Rightarrow> 'n framed option" where
  "mount_body side is_main body =
     (if is_main then Some (Has_main (side # body)) else map_option (\<lambda>(b, m). Wrapped b m) (wrap_body side (side # body) []))"

record shell_config =
  sc_modules :: "(string \<times> bool) list"
  sc_role :: "string option"

definition config_of :: "shell_config reply_json \<Rightarrow> shell_config" where
  "config_of j = (case j of Json c \<Rightarrow> c | _ \<Rightarrow> \<lparr> sc_modules = [], sc_role = None \<rparr>)"

datatype nav_node = Nav_group string | Nav_link string string string bool

definition nav_links :: "string \<Rightarrow> (string \<times> bool) list \<Rightarrow> nav_item list \<Rightarrow> nav_node list" where
  "nav_links activeId mods items =
     map (\<lambda>it. Nav_link (ni_href it) (ni_label it) (ni_id it) (ni_id it = activeId))
       (filter (\<lambda>it. map_of mods (ni_mod it) \<noteq> Some False) items)"

text \<open>The navigation and the label of the account chip, from the reply of the service.\<close>

definition mount_nav :: "string \<Rightarrow> shell_config api_reply \<Rightarrow> nav_node list \<times> string" where
  "mount_nav activeId res =
     (let c = config_of (ar_json res)
      in (concat (map (\<lambda>(g, items). Nav_group g # nav_links activeId (sc_modules c) items) NAV),
          ''role: '' @ or_default (sc_role c) ''unknown''))"

definition mountShell ::
  "(string \<Rightarrow> shell_config option) \<Rightarrow> (string \<Rightarrow> control_opts \<Rightarrow> int \<times> string) \<Rightarrow> string \<Rightarrow> 'n \<Rightarrow> bool \<Rightarrow> 'n list
   \<Rightarrow> 'n framed option \<times> nav_node list \<times> string" where
  "mountShell parse fetch activeId side is_main body =
     (mount_body side is_main body,
      mount_nav activeId (api parse fetch ''/api/v1/shell/config'' \<lparr> co_method = ''GET'', co_headers = [], co_body = [] \<rparr>))"

definition control_setStatus :: "string \<Rightarrow> string \<Rightarrow> string \<times> string" where
  "control_setStatus msg kind = (msg, ''era-status'' @ (if kind = [] then [] else CHR '' '' # kind))"

section \<open>Laws\<close>

text \<open>The loop ends: the side bar is the first node and occurs once.\<close>

lemma wrap_body_returns: "side \<notin> set rest \<Longrightarrow> wrap_body side (x # rest) m = Some ([x], m @ rest)"
proof (induction rest arbitrary: m)
  case Nil
  show ?case by (simp add: wrap_body.simps)
next
  case (Cons n rest)
  then have "wrap_body side (x # rest) (m @ [n]) = Some ([x], m @ n # rest)" by simp
  moreover have "wrap_body side (x # n # rest) m = wrap_body side (x # rest) (m @ [n])"
    using Cons.prems by (subst wrap_body.simps) (auto simp: Let_def)
  ultimately show ?case by simp
qed

lemma nav_ids_distinct: "distinct (map ni_id (concat (map snd NAV)))"
  by code_simp

definition is_link :: "nav_node \<Rightarrow> bool" where
  "is_link n \<longleftrightarrow> (case n of Nav_link _ _ _ _ \<Rightarrow> True | _ \<Rightarrow> False)"

definition link_id :: "nav_node \<Rightarrow> string" where
  "link_id n = (case n of Nav_link _ _ i _ \<Rightarrow> i | Nav_group g \<Rightarrow> [])"

definition link_active :: "nav_node \<Rightarrow> bool" where
  "link_active n = (case n of Nav_link _ _ _ a \<Rightarrow> a | Nav_group g \<Rightarrow> False)"

lemma nav_links_filter: "filter is_link (nav_links act mods items) = nav_links act mods items"
  by (simp add: nav_links_def is_link_def filter_id_conv)

lemma nav_links_of:
  "filter is_link (concat (map (\<lambda>(g, items). Nav_group g # nav_links act mods items) gs)) = nav_links act mods (concat (map snd gs))"
  by (induction gs) (auto simp: nav_links_filter is_link_def, simp_all add: nav_links_def)

lemma nav_active:
  "distinct (map ni_id items) \<Longrightarrow>
   map link_id (filter link_active (nav_links act mods items))
     = (if act \<in> ni_id ` {it \<in> set items. map_of mods (ni_mod it) \<noteq> Some False} then [act] else [])"
  by (induction items) (auto simp: nav_links_def link_active_def link_id_def)

text \<open>
  The console page: mounting the frame returns, keeps every node of a page in its order, and the
  navigation has exactly the entries whose module is not switched off, with at most one marked as the
  current page. A reply that is no JSON, whatever its status, switches off nothing.
\<close>

theorem control_shell_mounts:
  assumes "side \<notin> set body" "mountShell parse fetch act side is_main body = (frame, nav, role)"
    "reply = api parse fetch ''/api/v1/shell/config'' \<lparr> co_method = ''GET'', co_headers = [], co_body = [] \<rparr>"
    "mods = sc_modules (config_of (ar_json reply))"
  shows "frame = Some (if is_main then Has_main (side # body) else Wrapped [side] body)
    \<and> map link_id (filter is_link nav) = map ni_id (filter (\<lambda>it. map_of mods (ni_mod it) \<noteq> Some False) (concat (map snd NAV)))
    \<and> length (filter link_active (filter is_link nav)) \<le> 1
    \<and> ((\<forall>c. ar_json reply \<noteq> Json c) \<longrightarrow> map link_id (filter is_link nav) = map ni_id (concat (map snd NAV)))"
proof -
  have nav: "filter is_link nav = nav_links act mods (concat (map snd NAV))"
    using assms(2-4) nav_links_of [of act mods NAV] by (auto simp: mountShell_def mount_nav_def Let_def)
  have "frame = Some (if is_main then Has_main (side # body) else Wrapped [side] body)"
    using assms(2) wrap_body_returns [OF assms(1), of side "[]"] by (auto simp: mountShell_def mount_body_def)
  moreover have ids: "map link_id (filter is_link nav) = map ni_id (filter (\<lambda>it. map_of mods (ni_mod it) \<noteq> Some False) (concat (map snd NAV)))"
    unfolding nav by (simp add: nav_links_def link_id_def comp_def)
  moreover have "length (filter link_active (filter is_link nav)) \<le> 1"
    using arg_cong [OF nav_active [OF nav_ids_distinct, of act mods], of length] unfolding nav by (simp split: if_splits)
  moreover have "mods = []" if "\<forall>c. ar_json reply \<noteq> Json c"
    using that assms(4) by (auto simp: config_of_def split: reply_json.split)
  ultimately show ?thesis by auto
qed

end
