(* ===== verification/Site_Pricing.thy ===== *)
theory Site_Pricing
  imports Era_Strings Complex_Main
begin

text \<open>
  The price list of the public site (\<open>site/pricing-data.js\<close>) and the license models
  (\<open>site/assets/calc-license-model.js\<close>). Amounts are exact rationals; an amount the language
  computes as NaN (from a price that is missing) is \<open>None\<close>. Titles and descriptions are left
  out: the calculators take them from the translation tables.
\<close>

section \<open>Amounts\<close>

type_synonym amount = "rat option"

definition amount_add :: "amount \<Rightarrow> amount \<Rightarrow> amount" where
  "amount_add a b = (case (a, b) of (Some x, Some y) \<Rightarrow> Some (x + y) | _ \<Rightarrow> None)"

definition amount_mult :: "amount \<Rightarrow> rat \<Rightarrow> amount" where
  "amount_mult a r = map_option (\<lambda>x. x * r) a"

definition amount_less :: "rat \<Rightarrow> amount \<Rightarrow> bool" where
  "amount_less x b = (case b of Some y \<Rightarrow> x < y | None \<Rightarrow> False)"

text \<open>\<open>Math.round(n || 0)\<close>, the number that \<open>money\<close> formats.\<close>

definition rounded :: "amount \<Rightarrow> int" where
  "rounded a = (case a of None \<Rightarrow> 0 | Some x \<Rightarrow> \<lfloor>x + 1 / 2\<rfloor>)"

lemma amount_simps [simp]:
  "amount_add (Some x) (Some y) = Some (x + y)" "amount_add None b = None" "amount_add a None = None"
  "amount_mult (Some x) r = Some (x * r)" "amount_mult None r = None"
  by (auto simp: amount_add_def amount_mult_def split: option.splits)

section \<open>The price list\<close>

record price_tier =
  vt_min :: int
  vt_max :: "int option"
  vt_discount :: "rat option"

record price_term =
  tm_key :: string
  tm_discount :: rat

record price_bundle =
  bu_key :: string
  bu_modules :: "string list"
  bu_discount :: rat

record price_addon =
  ad_key :: string
  ad_unit :: string
  ad_eu_year :: rat

record price_module =
  pm_key :: string
  pm_unit :: string
  pm_eu_year :: amount
  pm_required :: bool
  pm_flat :: "(int option \<times> rat option) list option"
  pm_addon :: "price_addon list option"
  pm_included :: "string list"

record product_line =
  pl_modules :: "price_module list"
  pl_bundles :: "price_bundle list"

record pricing =
  pc_server_multiplier :: rat
  pc_modules :: "price_module list"
  pc_volume :: "price_tier list"
  pc_terms :: "price_term list"
  pc_bundles :: "price_bundle list"
  pc_multiplier :: rat
  pc_maintenance :: rat
  pc_lines :: "(string \<times> product_line) list"

definition plain_module :: "string \<Rightarrow> string \<Rightarrow> rat \<Rightarrow> price_module" where
  "plain_module k u p =
     \<lparr> pm_key = k, pm_unit = u, pm_eu_year = Some p, pm_required = False, pm_flat = None, pm_addon = None, pm_included = [] \<rparr>"

definition pricing_modules :: "price_module list" where
  "pricing_modules =
     [(plain_module ''core'' ''endpoint'' 12)\<lparr>pm_required := True\<rparr>,
      (plain_module ''control-ai'' ''endpoint'' 8)
        \<lparr>pm_flat := Some [(Some 1000, Some 18000), (Some 5000, Some 45000), (Some 15000, Some 90000), (None, None)]\<rparr>,
      plain_module ''response'' ''endpoint'' 4, plain_module ''vuln'' ''endpoint'' 4,
      plain_module ''exposure'' ''endpoint'' 4, plain_module ''manage'' ''endpoint'' 12,
      plain_module ''observe'' ''device'' 6, plain_module ''byo_edr'' ''source'' 4,
      plain_module ''service'' ''technician'' 900, plain_module ''provision'' ''node'' 8,
      (plain_module ''pam'' ''admin'' 50)
        \<lparr>pm_addon := Some [\<lparr> ad_key = ''pam_target'', ad_unit = ''target'', ad_eu_year = 30 \<rparr>]\<rparr>,
      plain_module ''federated'' ''site'' 24000, plain_module ''national'' ''hub'' 36000]"

definition pricing_volume :: "price_tier list" where
  "pricing_volume =
     [\<lparr> vt_min = 1, vt_max = Some 250, vt_discount = Some 0 \<rparr>, \<lparr> vt_min = 251, vt_max = Some 1000, vt_discount = Some (1 / 10) \<rparr>,
      \<lparr> vt_min = 1001, vt_max = Some 5000, vt_discount = Some (1 / 5) \<rparr>, \<lparr> vt_min = 5001, vt_max = Some 10000, vt_discount = Some (3 / 10) \<rparr>,
      \<lparr> vt_min = 10001, vt_max = Some 25000, vt_discount = Some (2 / 5) \<rparr>, \<lparr> vt_min = 25001, vt_max = None, vt_discount = None \<rparr>]"

definition pricing_terms :: "price_term list" where
  "pricing_terms =
     [\<lparr> tm_key = ''1y'', tm_discount = 0 \<rparr>, \<lparr> tm_key = ''3y_annual'', tm_discount = 1 / 10 \<rparr>,
      \<lparr> tm_key = ''3y_prepaid'', tm_discount = 1 / 5 \<rparr>, \<lparr> tm_key = ''5y_prepaid'', tm_discount = 1 / 4 \<rparr>]"

definition pricing_bundles :: "price_bundle list" where
  "pricing_bundles =
     [\<lparr> bu_key = ''secops'', bu_modules = [''core'', ''control-ai'', ''response''], bu_discount = 1 / 5 \<rparr>,
      \<lparr> bu_key = ''secops_v'', bu_modules = [''core'', ''control-ai'', ''response'', ''vuln''], bu_discount = 11 / 50 \<rparr>,
      \<lparr> bu_key = ''itops'', bu_modules = [''core'', ''manage'', ''service'', ''provision''], bu_discount = 1 / 4 \<rparr>,
      \<lparr> bu_key = ''unified'', bu_modules = [''core'', ''control-ai'', ''response'', ''manage'', ''service'', ''observe''],
        bu_discount = 3 / 10 \<rparr>,
      \<lparr> bu_key = ''full'',
        bu_modules = [''core'', ''control-ai'', ''response'', ''vuln'', ''manage'', ''service'', ''provision'', ''pam'', ''observe''],
        bu_discount = 7 / 20 \<rparr>]"

definition line_communications :: product_line where
  "line_communications =
     \<lparr> pl_modules =
         [(plain_module ''comms-mail-server'' [] 10)\<lparr>pm_included := [''comms-mail-client'']\<rparr>,
          plain_module ''comms-mail-connect'' [] 4,
          (plain_module ''comms-migration'' [] 0)\<lparr>pm_eu_year := None\<rparr>,
          plain_module ''comms-outlook-bridge'' [] 3, plain_module ''comms-mail-moderation'' [] 2,
          plain_module ''comms-conference'' [] 6, plain_module ''comms-chat'' [] 6, plain_module ''comms-ai'' [] 8],
       pl_bundles =
         [\<lparr> bu_key = ''comms-full'', bu_modules = [''comms-mail-server'', ''comms-conference'', ''comms-chat'', ''comms-ai''],
            bu_discount = 21 / 100 \<rparr>,
          \<lparr> bu_key = ''comms-mail-only'', bu_modules = [''comms-mail-server''], bu_discount = 0 \<rparr>,
          \<lparr> bu_key = ''comms-partner-hardening'',
            bu_modules = [''comms-migration'', ''comms-outlook-bridge'', ''comms-mail-moderation''], bu_discount = 0 \<rparr>] \<rparr>"

definition line_office :: product_line where
  "line_office =
     \<lparr> pl_modules =
         [plain_module ''platform-drive'' [] 4, plain_module ''office-documents'' [] 8, plain_module ''office-tables'' [] 6,
          plain_module ''office-presentations'' [] 5, plain_module ''office-projects'' [] 4, plain_module ''office-ai'' [] 6],
       pl_bundles =
         [\<lparr> bu_key = ''office-mvp'', bu_modules = [''platform-drive'', ''office-documents''], bu_discount = 1 / 10 \<rparr>,
          \<lparr> bu_key = ''office-suite'',
            bu_modules = [''platform-drive'', ''office-documents'', ''office-tables'', ''office-presentations''], bu_discount = 1 / 4 \<rparr>,
          \<lparr> bu_key = ''office-suite-ai'',
            bu_modules = [''platform-drive'', ''office-documents'', ''office-tables'', ''office-presentations'', ''office-ai''],
            bu_discount = 7 / 25 \<rparr>] \<rparr>"

definition ERA_PRICING :: pricing where
  "ERA_PRICING =
     \<lparr> pc_server_multiplier = 3, pc_modules = pricing_modules, pc_volume = pricing_volume, pc_terms = pricing_terms,
       pc_bundles = pricing_bundles, pc_multiplier = 3, pc_maintenance = 1 / 5,
       pc_lines = [(''communications'', line_communications), (''office'', line_office)] \<rparr>"

section \<open>License models\<close>

definition termByKey :: "price_term list \<Rightarrow> string \<Rightarrow> price_term" where
  "termByKey terms k = (case find (\<lambda>x. tm_key x = k) terms of Some x \<Rightarrow> x | None \<Rightarrow> hd terms)"

definition yearsOf :: "string \<Rightarrow> nat" where
  "yearsOf termKey = (if termKey = ''5y_prepaid'' then 5 else if take 2 termKey = ''3y'' then 3 else 1)"

record subscription =
  su_term :: price_term
  su_years :: nat
  su_totalYear :: amount
  su_totalTerm :: amount

definition subscriptionTotals :: "price_term list \<Rightarrow> amount \<Rightarrow> string \<Rightarrow> subscription" where
  "subscriptionTotals terms subtotal termKey =
     (let term = termByKey terms termKey;
          totalYear = amount_mult subtotal (1 - tm_discount term);
          years = yearsOf (tm_key term)
      in \<lparr> su_term = term, su_years = years, su_totalYear = totalYear, su_totalTerm = amount_mult totalYear (of_nat years) \<rparr>)"

record perpetual =
  pe_onetime :: amount
  pe_maintYear :: amount
  pe_maintYears :: int
  pe_maintTotal :: amount
  pe_firstYear :: amount

definition perpetualTotals :: "rat \<Rightarrow> rat \<Rightarrow> amount \<Rightarrow> int \<Rightarrow> perpetual" where
  "perpetualTotals multiplier maintenance subtotal maintYears =
     (let mult = (if multiplier = 0 then 3 else multiplier);
          rate = (if maintenance = 0 then 1 / 5 else maintenance);
          my = max 1 (if maintYears = 0 then 1 else maintYears);
          year = amount_mult subtotal rate
      in \<lparr> pe_onetime = amount_mult subtotal mult, pe_maintYear = year, pe_maintYears = my,
           pe_maintTotal = amount_mult year (of_int my), pe_firstYear = amount_add (amount_mult subtotal mult) year \<rparr>)"

text \<open>The rows of the summary: a line with label and value, the note, the total, the total over the years.\<close>

datatype summary_row =
    Line_row string string
  | Note_row string
  | Total_row string string
  | Term_row string string

definition percent :: "rat \<Rightarrow> string" where
  "percent d = ''-'' @ int_str \<lfloor>d * 100 + 1 / 2\<rfloor> @ ''%''"

definition volume_rows :: "(string \<Rightarrow> string) \<Rightarrow> bool \<Rightarrow> rat \<Rightarrow> int option \<Rightarrow> summary_row list" where
  "volume_rows t byRequest volDiscount epCount =
     (if byRequest then [Line_row (t ''volByRequest'') (t ''priceByRequest'')]
      else if volDiscount \<noteq> 0 then
        [Line_row (t ''volDisc'' @ (case epCount of Some n \<Rightarrow> '' ('' @ int_str n @ '' '' @ t ''volEndpoints'' @ '')'' | None \<Rightarrow> []))
           (percent volDiscount)]
      else [])"

definition subscription_rows :: "(string \<Rightarrow> string) \<Rightarrow> (amount \<Rightarrow> string) \<Rightarrow> (string \<Rightarrow> string) \<Rightarrow> subscription \<Rightarrow> summary_row list" where
  "subscription_rows t money termLabel sub =
     (if tm_discount (su_term sub) \<noteq> 0
      then [Line_row (t ''termDisc'' @ '' ('' @ termLabel (tm_key (su_term sub)) @ '')'') (percent (tm_discount (su_term sub)))] else [])
     @ [Note_row (t ''subModelNote''), Total_row (t ''totalYear'') (money (su_totalYear sub))]
     @ (if su_years sub > 1
        then [Term_row (t ''totalTerm'' @ '' '' @ nat_str (su_years sub) @ '' '' @ t ''years'') (money (su_totalTerm sub))] else [])"

definition perpetual_rows :: "(string \<Rightarrow> string) \<Rightarrow> (amount \<Rightarrow> string) \<Rightarrow> perpetual \<Rightarrow> summary_row list" where
  "perpetual_rows t money p =
     [Note_row (t ''perpModelNote''), Line_row (t ''perpLicenseFee'') (money (pe_onetime p) @ '' '' @ t ''perpOnce''),
      Line_row (t ''perpMaintLine'' @ '' '' @ t ''perYear'') (money (pe_maintYear p) @ t ''perYear'')]
     @ (if pe_maintYears p > 1
        then [Term_row (t ''perpMaintFor'' @ '' '' @ int_str (pe_maintYears p) @ '' '' @ t ''years'') (money (pe_maintTotal p))] else [])
     @ [Total_row (t ''perpTotalYear1'') (money (pe_firstYear p))]
     @ (if pe_maintYears p > 1
        then [Term_row (t ''perpTotalAll'' @ '' ('' @ t ''perpOnce'' @ '' + '' @ t ''perpMaintFor'' @ '' '' @ int_str (pe_maintYears p)
                        @ '' '' @ t ''years'' @ '')'') (money (amount_add (pe_onetime p) (pe_maintTotal p)))] else [])"

definition buildSummaryHtml ::
  "(string \<Rightarrow> string) \<Rightarrow> (amount \<Rightarrow> string) \<Rightarrow> (string \<Rightarrow> string) \<Rightarrow> string \<Rightarrow> bool \<Rightarrow> rat \<Rightarrow> int option \<Rightarrow> subscription \<Rightarrow> perpetual
    \<Rightarrow> summary_row list" where
  "buildSummaryHtml t money termLabel licenseModel byRequest volDiscount epCount sub perp =
     volume_rows t byRequest volDiscount epCount
     @ (if or_default (Some licenseModel) ''subscription'' = ''subscription'' then subscription_rows t money termLabel sub
        else perpetual_rows t money perp)"

text \<open>The text of the request for a quote; a count that is not given has no line.\<close>

definition count_line :: "(string \<Rightarrow> string) \<Rightarrow> string \<Rightarrow> int option \<Rightarrow> string list" where
  "count_line t key n = (case n of None \<Rightarrow> [] | Some k \<Rightarrow> [t key @ '': '' @ int_str k])"

definition mailQuoteBody ::
  "(string \<Rightarrow> string) \<Rightarrow> (amount \<Rightarrow> string) \<Rightarrow> int option \<Rightarrow> int option \<Rightarrow> int option \<Rightarrow> string \<Rightarrow> string \<Rightarrow> subscription \<Rightarrow> perpetual
    \<Rightarrow> string" where
  "mailQuoteBody t money ws servers users licenseModel termLabel sub perp =
     str_join [CHR 0x0A]
       ([t ''mailBody''] @ count_line t ''mailWs'' ws @ count_line t ''mailServers'' servers @ count_line t ''mailUsers'' users
        @ [t ''mailLicenseModel'' @ '': '' @ (if licenseModel = ''perpetual'' then t ''licensePerpetual'' else t ''licenseSubscription'')]
        @ (if licenseModel = ''perpetual'' then
             [t ''mailPerpOnetime'' @ '': '' @ money (pe_onetime perp),
              t ''mailPerpMaint'' @ '': '' @ money (pe_maintYear perp) @ t ''perYear'']
             @ (if pe_maintYears perp > 1
                then [t ''perpMaintFor'' @ '' '' @ int_str (pe_maintYears perp) @ '' '' @ t ''years'' @ '': '' @ money (pe_maintTotal perp)]
                else [])
           else
             [t ''mailTerm'' @ '': '' @ termLabel, t ''mailApprox'' @ '': '' @ money (su_totalYear sub) @ t ''perYear'']
             @ (if su_years sub > 1
                then [t ''totalTerm'' @ '' '' @ nat_str (su_years sub) @ '' '' @ t ''years'' @ '': '' @ money (su_totalTerm sub)]
                else [])))"

end
