(* ===== verification/Site_Calc.thy ===== *)
theory Site_Calc
  imports Site_Pricing
begin

text \<open>
  The price calculators of the public site: the one for ERA Control (\<open>site/assets/app.js\<close>), which
  counts endpoints and special units, and the one for the per-user product lines
  (\<open>site/assets/calc-product.js\<close>). A count is what \<open>parseInt\<close> read from its field.
\<close>

section \<open>The endpoint calculator\<close>

record calc_state =
  ca_ws :: int
  ca_servers :: int
  ca_term :: string
  ca_licenseModel :: string
  ca_perpMaintYears :: int
  ca_bundle :: string
  ca_selected :: "(string \<times> bool) list"
  ca_qty :: "(string \<times> int) list"

definition calc_start :: calc_state where
  "calc_start =
     \<lparr> ca_ws = 1000, ca_servers = 50, ca_term = ''3y_prepaid'', ca_licenseModel = ''subscription'', ca_perpMaintYears = 1,
       ca_bundle = ''secops'', ca_selected = [], ca_qty = [] \<rparr>"

definition SPECIAL_UNITS :: "string list" where
  "SPECIAL_UNITS = [''device'', ''source'', ''technician'', ''node'', ''admin'', ''site'', ''hub'']"

definition tier_matches :: "int \<Rightarrow> price_tier \<Rightarrow> bool" where
  "tier_matches count tier \<longleftrightarrow> count \<ge> vt_min tier \<and> (case vt_max tier of None \<Rightarrow> True | Some m \<Rightarrow> count \<le> m)"

text \<open>The discount and whether the price is on request.\<close>

definition volumeFor :: "price_tier list \<Rightarrow> int \<Rightarrow> rat option \<times> bool" where
  "volumeFor tiers count =
     (case find (tier_matches count) tiers of
        Some tier \<Rightarrow> (vt_discount tier, vt_discount tier = None)
      | None \<Rightarrow> (Some 0, False))"

fun flat_tier :: "int \<Rightarrow> (int option \<times> rat option) list \<Rightarrow> rat option" where
  "flat_tier count [] = None"
| "flat_tier count (tier # tiers) =
     (case fst tier of
        None \<Rightarrow> None
      | Some up_to \<Rightarrow> if count \<le> up_to then snd tier else flat_tier count tiers)"

definition module_by_key :: "price_module list \<Rightarrow> string \<Rightarrow> price_module option" where
  "module_by_key ms k = find (\<lambda>m. pm_key m = k) ms"

definition flatFor :: "pricing \<Rightarrow> int \<Rightarrow> rat option" where
  "flatFor D count =
     (case module_by_key (pc_modules D) ''control-ai'' of
        None \<Rightarrow> None
      | Some m \<Rightarrow> (case pm_flat m of None \<Rightarrow> None | Some tiers \<Rightarrow> flat_tier count tiers))"

definition bundleByKey :: "price_bundle list \<Rightarrow> string \<Rightarrow> price_bundle option" where
  "bundleByKey bs k = find (\<lambda>b. bu_key b = k) bs"

definition in_bundle :: "price_bundle option \<Rightarrow> string \<Rightarrow> bool" where
  "in_bundle b k = (case b of None \<Rightarrow> False | Some x \<Rightarrow> k \<in> set (bu_modules x))"

definition bundle_rate :: "price_bundle option \<Rightarrow> string \<Rightarrow> rat" where
  "bundle_rate b k = (case b of Some x \<Rightarrow> if k \<in> set (bu_modules x) then bu_discount x else 0 | None \<Rightarrow> 0)"

record quote_line =
  ql_key :: string
  ql_unit :: string
  ql_qty :: rat
  ql_reg :: amount
  ql_inB :: bool
  ql_endpoint :: bool

definition qty_of :: "calc_state \<Rightarrow> string \<Rightarrow> int" where
  "qty_of s k = (case map_of (ca_qty s) k of None \<Rightarrow> 0 | Some n \<Rightarrow> n)"

definition ep_count :: "calc_state \<Rightarrow> int" where
  "ep_count s = ca_ws s + ca_servers s"

definition ep_weighted :: "pricing \<Rightarrow> calc_state \<Rightarrow> rat" where
  "ep_weighted D s =
     of_int (ca_ws s) + of_int (ca_servers s) * (if pc_server_multiplier D = 0 then 3 else pc_server_multiplier D)"

definition endpoint_base :: "pricing \<Rightarrow> calc_state \<Rightarrow> price_module \<Rightarrow> amount" where
  "endpoint_base D s m =
     (let base = amount_mult (pm_eu_year m) (ep_weighted D s) in
      if pm_key m = ''control-ai'' \<and> pm_flat m \<noteq> None then
        (case flatFor D (ep_count s) of
           Some flat \<Rightarrow> if amount_less flat base then Some flat else base
         | None \<Rightarrow> base)
      else base)"

definition volume_rate :: "pricing \<Rightarrow> calc_state \<Rightarrow> rat" where
  "volume_rate D s = (case fst (volumeFor (pc_volume D) (ep_count s)) of None \<Rightarrow> 0 | Some d \<Rightarrow> d)"

definition addon_lines :: "calc_state \<Rightarrow> price_module \<Rightarrow> rat \<Rightarrow> bool \<Rightarrow> quote_line list" where
  "addon_lines s m bDisc inB =
     (case pm_addon m of
        Some (ad # _) \<Rightarrow>
          if pm_key m = ''pam'' \<and> qty_of s ''pam_target'' > 0 then
            [\<lparr> ql_key = ''pam_target'', ql_unit = ad_unit ad, ql_qty = of_int (qty_of s ''pam_target''),
               ql_reg = Some (ad_eu_year ad * of_int (qty_of s ''pam_target'') * (1 - bDisc)), ql_inB = inB, ql_endpoint = False \<rparr>]
          else []
      | _ \<Rightarrow> [])"

definition module_lines :: "pricing \<Rightarrow> calc_state \<Rightarrow> price_module \<Rightarrow> quote_line list" where
  "module_lines D s m =
     (let key = pm_key m; bundle = bundleByKey (pc_bundles D) (ca_bundle s); ep = (pm_unit m = ''endpoint'');
          qty = (if ep then ep_weighted D s else of_int (qty_of s key));
          base = (if ep then endpoint_base D s m else amount_mult (pm_eu_year m) qty);
          bDisc = bundle_rate bundle key;
          reg = amount_mult (amount_mult base (1 - bDisc)) (if ep then 1 - volume_rate D s else 1)
      in if \<not> pm_required m \<and> map_of (ca_selected s) key \<noteq> Some True then []
         else if \<not> ep \<and> qty \<le> 0 then []
         else \<lparr> ql_key = key, ql_unit = pm_unit m, ql_qty = qty, ql_reg = reg, ql_inB = in_bundle bundle key, ql_endpoint = ep \<rparr>
              # addon_lines s m bDisc (in_bundle bundle key))"

record quote =
  qu_lines :: "quote_line list"
  qu_subtotal :: amount
  qu_volume :: "rat option \<times> bool"
  qu_subscription :: subscription
  qu_perpetual :: perpetual
  qu_count :: int

definition sum_lines :: "quote_line list \<Rightarrow> amount" where
  "sum_lines ls = foldl (\<lambda>a l. amount_add a (ql_reg l)) (Some 0) ls"

definition calc_compute :: "pricing \<Rightarrow> calc_state \<Rightarrow> quote" where
  "calc_compute D s =
     (let ls = concat (map (module_lines D s) (pc_modules D)); subtotal = sum_lines ls in
      \<lparr> qu_lines = ls, qu_subtotal = subtotal, qu_volume = volumeFor (pc_volume D) (ep_count s),
        qu_subscription = subscriptionTotals (pc_terms D) subtotal (ca_term s),
        qu_perpetual = perpetualTotals (pc_multiplier D) (pc_maintenance D) subtotal (ca_perpMaintYears s),
        qu_count = ep_count s \<rparr>)"

definition defaultQty :: "pricing \<Rightarrow> string \<Rightarrow> int" where
  "defaultQty D key =
     (case module_by_key (pc_modules D) key of
        None \<Rightarrow> 0
      | Some m \<Rightarrow> if pm_unit m = ''technician'' then 3 else if pm_unit m = ''admin'' then 5
                  else if pm_unit m \<in> {''site'', ''hub''} then 1 else 10)"

definition is_on :: "pricing \<Rightarrow> calc_state \<Rightarrow> price_module \<Rightarrow> bool" where
  "is_on D s m \<longleftrightarrow> map_of (ca_selected s) (pm_key m) = Some True \<or> pm_required m"

definition toggleQty :: "pricing \<Rightarrow> string \<Rightarrow> calc_state \<Rightarrow> calc_state" where
  "toggleQty D key s =
     (case module_by_key (pc_modules D) key of
        None \<Rightarrow> s
      | Some m \<Rightarrow>
          if is_on D s m \<and> qty_of s key = 0 \<and> pm_unit m \<in> set SPECIAL_UNITS
          then s\<lparr>ca_qty := upsert key (defaultQty D key) (ca_qty s)\<rparr> else s)"

definition syncModuleUI :: "pricing \<Rightarrow> calc_state \<Rightarrow> calc_state" where
  "syncModuleUI D s = fold (\<lambda>m t. if pm_unit m \<in> set SPECIAL_UNITS then toggleQty D (pm_key m) t else t) (pc_modules D) s"

definition module_checked :: "pricing \<Rightarrow> string \<Rightarrow> bool \<Rightarrow> calc_state \<Rightarrow> calc_state" where
  "module_checked D key on s = toggleQty D key (s\<lparr>ca_selected := upsert key on (ca_selected s)\<rparr>)"

definition select_with_qty :: "pricing \<Rightarrow> string \<Rightarrow> calc_state \<Rightarrow> calc_state" where
  "select_with_qty D k s =
     (let s1 = s\<lparr>ca_selected := upsert k True (ca_selected s)\<rparr> in
      case module_by_key (pc_modules D) k of
        Some m \<Rightarrow> if pm_unit m \<in> set SPECIAL_UNITS \<and> qty_of s1 k = 0 then s1\<lparr>ca_qty := upsert k (defaultQty D k) (ca_qty s1)\<rparr> else s1
      | None \<Rightarrow> s1)"

definition bundle_changed :: "pricing \<Rightarrow> string \<Rightarrow> calc_state \<Rightarrow> calc_state" where
  "bundle_changed D k s =
     (let s1 = s\<lparr>ca_bundle := k\<rparr> in
      syncModuleUI D (case bundleByKey (pc_bundles D) k of None \<Rightarrow> s1 | Some b \<Rightarrow> fold (select_with_qty D) (bu_modules b) s1))"

definition calc_init :: "pricing \<Rightarrow> calc_state \<Rightarrow> calc_state" where
  "calc_init D s =
     (let s1 = (case bundleByKey (pc_bundles D) ''secops'' of
                  None \<Rightarrow> s | Some b \<Rightarrow> fold (\<lambda>k t. t\<lparr>ca_selected := upsert k True (ca_selected t)\<rparr>) (bu_modules b) s)
      in syncModuleUI D s1)"

definition count_input :: "string \<Rightarrow> int" where
  "count_input v = (case parse_int (or_default (Some v) ''0'') of Some n \<Rightarrow> n | None \<Rightarrow> 0)"

section \<open>The per-user calculator\<close>

record line_state =
  ls_users :: int
  ls_bundle :: string
  ls_manual :: bool
  ls_selected :: "(string \<times> bool) list"
  ls_licenseModel :: string
  ls_term :: string
  ls_perpMaintYears :: int

definition defaultState :: "pricing \<Rightarrow> string \<Rightarrow> line_state" where
  "defaultState D lineKey =
     (let def0 = (if lineKey = ''communications'' then ''comms-full'' else ''office-suite'');
          def1 = (case map_of (pc_lines D) lineKey of
                    Some pl \<Rightarrow> if pl_bundles pl \<noteq> [] \<and> \<not> (\<exists>b\<in>set (pl_bundles pl). bu_key b = def0)
                               then bu_key (hd (pl_bundles pl)) else def0
                  | None \<Rightarrow> def0)
      in \<lparr> ls_users = 500, ls_bundle = def1, ls_manual = False, ls_selected = [], ls_licenseModel = ''subscription'',
           ls_term = ''1y'', ls_perpMaintYears = 1 \<rparr>)"

definition includedSet :: "product_line \<Rightarrow> string list" where
  "includedSet pl = concat (map pm_included (pl_modules pl))"

definition line_bundle :: "product_line \<Rightarrow> line_state \<Rightarrow> price_bundle option" where
  "line_bundle pl s = (if ls_manual s then None else bundleByKey (pl_bundles pl) (ls_bundle s))"

definition line_of_module :: "product_line \<Rightarrow> line_state \<Rightarrow> price_module \<Rightarrow> quote_line list" where
  "line_of_module pl s m =
     (let key = pm_key m; b = line_bundle pl s; users = max 0 (ls_users s) in
      if key \<in> set (includedSet pl) then []
      else if \<not> in_bundle b key \<and> map_of (ls_selected s) key \<noteq> Some True then []
      else [\<lparr> ql_key = key, ql_unit = [], ql_qty = of_int users,
              ql_reg = amount_mult (amount_mult (pm_eu_year m) (of_int users)) (1 - bundle_rate b key),
              ql_inB = in_bundle b key, ql_endpoint = False \<rparr>])"

definition line_compute :: "pricing \<Rightarrow> string \<Rightarrow> line_state \<Rightarrow> quote option" where
  "line_compute D lineKey s =
     (case map_of (pc_lines D) lineKey of
        None \<Rightarrow> None
      | Some pl \<Rightarrow>
          (let ls = concat (map (line_of_module pl s) (pl_modules pl)); subtotal = sum_lines ls in
           Some \<lparr> qu_lines = ls, qu_subtotal = subtotal, qu_volume = (Some 0, False),
                  qu_subscription = subscriptionTotals (pc_terms D) subtotal (or_default (Some (ls_term s)) ''1y''),
                  qu_perpetual = perpetualTotals (pc_multiplier D) (pc_maintenance D) subtotal (ls_perpMaintYears s),
                  qu_count = max 0 (ls_users s) \<rparr>))"

text \<open>A checkbox of the list: whether it is checked and whether it is disabled.\<close>

definition syncModules :: "product_line \<Rightarrow> line_state \<Rightarrow> string \<Rightarrow> bool \<times> bool" where
  "syncModules pl s key =
     (case line_bundle pl s of
        Some b \<Rightarrow> (key \<in> set (bu_modules b), True)
      | None \<Rightarrow> (map_of (ls_selected s) key = Some True, False))"

definition bundle_selected :: "string \<Rightarrow> line_state \<Rightarrow> line_state" where
  "bundle_selected v s =
     (if v = ''__manual__'' then s\<lparr>ls_manual := True, ls_selected := []\<rparr> else s\<lparr>ls_manual := False, ls_bundle := v\<rparr>)"

definition line_module_checked :: "string \<Rightarrow> bool \<Rightarrow> line_state \<Rightarrow> line_state" where
  "line_module_checked key on s = s\<lparr>ls_manual := True, ls_selected := upsert key on (ls_selected s)\<rparr>"

end
