(* ===== verification/Site_Properties.thy ===== *)
theory Site_Properties
  imports Site_Calc
begin

text \<open>Laws and properties of the price calculators, with witnesses.\<close>

section \<open>Laws\<close>

definition rate_ok :: "rat \<Rightarrow> bool" where
  "rate_ok d \<longleftrightarrow> 0 \<le> d \<and> d \<le> 1"

definition pricing_ok :: "pricing \<Rightarrow> bool" where
  "pricing_ok D \<longleftrightarrow>
     pc_server_multiplier D \<ge> 0
     \<and> list_all (\<lambda>m. (case pm_eu_year m of Some p \<Rightarrow> 0 \<le> p | None \<Rightarrow> False)
          \<and> list_all (\<lambda>t. case snd t of Some f \<Rightarrow> 0 \<le> f | None \<Rightarrow> True) (case pm_flat m of Some ts \<Rightarrow> ts | None \<Rightarrow> [])
          \<and> list_all (\<lambda>a. 0 \<le> ad_eu_year a) (case pm_addon m of Some ads \<Rightarrow> ads | None \<Rightarrow> [])) (pc_modules D)
     \<and> list_all (\<lambda>t. case vt_discount t of Some d \<Rightarrow> rate_ok d | None \<Rightarrow> True) (pc_volume D)
     \<and> list_all (\<lambda>t. rate_ok (tm_discount t)) (pc_terms D) \<and> pc_terms D \<noteq> []
     \<and> list_all (\<lambda>b. rate_ok (bu_discount b)) (pc_bundles D)"

lemma find_all: "find P xs = Some x \<Longrightarrow> list_all Q xs \<Longrightarrow> Q x"
  by (induction xs) (auto split: if_splits)

lemma rate_mult: "rate_ok d \<Longrightarrow> 0 \<le> x \<Longrightarrow> 0 \<le> x * (1 - d) \<and> x * (1 - d) \<le> (x :: rat)"
  by (simp add: rate_ok_def mult_left_le)

lemma volume_rate_ok: "pricing_ok D \<Longrightarrow> rate_ok (volume_rate D s)"
proof -
  assume ok: "pricing_ok D"
  show ?thesis
  proof (cases "find (tier_matches (ep_count s)) (pc_volume D)")
    case None
    then show ?thesis by (simp add: volume_rate_def volumeFor_def rate_ok_def)
  next
    case (Some t)
    have "list_all (\<lambda>t. case vt_discount t of Some d \<Rightarrow> rate_ok d | None \<Rightarrow> True) (pc_volume D)"
      using ok by (simp add: pricing_ok_def)
    from find_all [OF Some this] Some show ?thesis
      by (cases "vt_discount t") (auto simp: volume_rate_def volumeFor_def rate_ok_def)
  qed
qed

lemma bundle_rate_ok:
  assumes "list_all (\<lambda>b. rate_ok (bu_discount b)) bs"
  shows "rate_ok (bundle_rate (bundleByKey bs k) key)"
proof (cases "bundleByKey bs k")
  case None
  then show ?thesis by (simp add: bundle_rate_def rate_ok_def)
next
  case (Some b)
  then have "rate_ok (bu_discount b)" using find_all assms unfolding bundleByKey_def by fastforce
  then show ?thesis using Some by (simp add: bundle_rate_def) (simp add: rate_ok_def)
qed

lemma flat_tier_nonneg:
  "list_all (\<lambda>t. case snd t of Some f \<Rightarrow> 0 \<le> f | None \<Rightarrow> True) ts \<Longrightarrow> flat_tier n ts = Some f \<Longrightarrow> 0 \<le> f"
  by (induction ts) (auto split: option.splits if_splits)

lemma flatFor_nonneg:
  assumes "pricing_ok D" "flatFor D n = Some f"
  shows "0 \<le> f"
proof -
  obtain m ts where m: "module_by_key (pc_modules D) ''control-ai'' = Some m" "pm_flat m = Some ts" "flat_tier n ts = Some f"
    using assms(2) by (auto simp: flatFor_def split: option.splits)
  have "m \<in> set (pc_modules D)" using m(1) find_Some_in unfolding module_by_key_def by metis
  then have "list_all (\<lambda>t. case snd t of Some f \<Rightarrow> 0 \<le> f | None \<Rightarrow> True) ts"
    using assms(1) m(2) by (auto simp: pricing_ok_def list_all_iff)
  then show ?thesis using flat_tier_nonneg m(3) by blast
qed

text \<open>The base price of an endpoint module is the smaller of the per-endpoint price and the flat price.\<close>

lemma endpoint_base_min:
  assumes "pricing_ok D" "m \<in> set (pc_modules D)" "0 \<le> ep_weighted D s" "pm_eu_year m = Some p"
  shows "\<exists>b. endpoint_base D s m = Some b \<and> 0 \<le> b \<and> b \<le> p * ep_weighted D s
    \<and> b = (if pm_key m = ''control-ai'' \<and> pm_flat m \<noteq> None
           then (case flatFor D (ep_count s) of Some f \<Rightarrow> min f (p * ep_weighted D s) | None \<Rightarrow> p * ep_weighted D s)
           else p * ep_weighted D s)"
proof -
  have "0 \<le> p" using assms(1,2,4) by (auto simp: pricing_ok_def list_all_iff)
  then have "0 \<le> p * ep_weighted D s" using assms(3) by simp
  then show ?thesis using assms(4) flatFor_nonneg [OF assms(1)]
    by (auto simp: endpoint_base_def Let_def amount_less_def min_def split: option.splits)
qed

definition line_ok :: "quote_line \<Rightarrow> bool" where
  "line_ok l \<longleftrightarrow> (\<exists>r. ql_reg l = Some r \<and> 0 \<le> r)"

lemma addon_lines_ok:
  assumes "pricing_ok D" "m \<in> set (pc_modules D)" "rate_ok d"
  shows "\<forall>l\<in>set (addon_lines s m d b). line_ok l"
proof -
  have "0 \<le> ad_eu_year a" if "pm_addon m = Some (a # as)" for a as
    using assms(1,2) that by (fastforce simp: pricing_ok_def list_all_iff)
  then show ?thesis using assms(3)
    by (cases "pm_addon m"; cases "the (pm_addon m)") (auto simp: addon_lines_def line_ok_def rate_ok_def)
qed

lemma module_lines_ok:
  assumes "pricing_ok D" "m \<in> set (pc_modules D)" "0 \<le> ep_weighted D s" "l \<in> set (module_lines D s m)"
  shows "line_ok l"
proof -
  obtain p where p: "pm_eu_year m = Some p" "0 \<le> p"
    using assms(1,2) by (auto simp: pricing_ok_def list_all_iff split: option.splits)
  obtain b where b: "endpoint_base D s m = Some b" "0 \<le> b" using endpoint_base_min [OF assms(1-3) p(1)] by blast
  have br: "rate_ok (bundle_rate (bundleByKey (pc_bundles D) (ca_bundle s)) (pm_key m))"
    using assms(1) by (intro bundle_rate_ok) (simp add: pricing_ok_def)
  have vr: "rate_ok (volume_rate D s)" using volume_rate_ok [OF assms(1)] .
  show ?thesis using assms(4) p b br vr addon_lines_ok [OF assms(1,2) br]
    by (auto simp: module_lines_def Let_def line_ok_def rate_ok_def split: if_splits)
qed

lemma sum_lines_ok:
  assumes "\<forall>l\<in>set ls. line_ok l"
  shows "\<exists>r. sum_lines ls = Some r \<and> 0 \<le> r \<and> r = sum_list (map (\<lambda>l. the (ql_reg l)) ls)"
proof -
  have "foldl (\<lambda>a l. amount_add a (ql_reg l)) (Some x) ls = Some (x + sum_list (map (\<lambda>l. the (ql_reg l)) ls))" for x
    using assms by (induction ls arbitrary: x) (auto simp: line_ok_def add.assoc)
  moreover have "0 \<le> sum_list (map (\<lambda>l. the (ql_reg l)) ls)"
    using assms by (intro sum_list_nonneg) (auto simp: line_ok_def)
  ultimately show ?thesis by (simp add: sum_lines_def)
qed

lemma term_rate_ok: "pricing_ok D \<Longrightarrow> rate_ok (tm_discount (termByKey (pc_terms D) k))"
  using find_all [of "\<lambda>x. tm_key x = k" "pc_terms D" _ "\<lambda>t. rate_ok (tm_discount t)"]
  by (cases "pc_terms D") (auto simp: pricing_ok_def termByKey_def split: option.splits)

lemma sum_lines_nan: "l \<in> set ls \<Longrightarrow> ql_reg l = None \<Longrightarrow> sum_lines ls = None"
proof -
  have none: "foldl (\<lambda>a l. amount_add a (ql_reg l)) None ls = None" for ls by (induction ls) simp_all
  assume "l \<in> set ls" "ql_reg l = None"
  then have "foldl (\<lambda>a l. amount_add a (ql_reg l)) x ls = None" for x
    using none by (induction ls arbitrary: x) auto
  then show ?thesis by (simp add: sum_lines_def)
qed

definition billed :: "product_line \<Rightarrow> line_state \<Rightarrow> string \<Rightarrow> bool" where
  "billed pl s k \<longleftrightarrow> in_bundle (line_bundle pl s) k \<or> map_of (ls_selected s) k = Some True"

lemma line_of_module_key: "l \<in> set (line_of_module pl s m) \<Longrightarrow> ql_key l = pm_key m"
  by (auto simp: line_of_module_def Let_def split: if_splits)

lemma line_of_module_billed:
  "pm_key m \<notin> set (includedSet pl) \<Longrightarrow> line_of_module pl s m \<noteq> [] \<longleftrightarrow> billed pl s (pm_key m)"
  by (auto simp: line_of_module_def billed_def Let_def)

lemma lines_of_line:
  assumes "map_of (pc_lines D) k = Some pl" "line_compute D k s = Some q"
  shows "qu_lines q = concat (map (line_of_module pl s) (pl_modules pl))" "qu_subtotal q = sum_lines (qu_lines q)"
    "su_totalYear (qu_subscription q) = amount_mult (qu_subtotal q)
       (1 - tm_discount (termByKey (pc_terms D) (or_default (Some (ls_term s)) ''1y'')))"
  using assms by (auto simp: line_compute_def subscriptionTotals_def Let_def)

lemma billed_lines:
  assumes "map_of (pc_lines D) k = Some pl" "line_compute D k s = Some q" "m \<in> set (pl_modules pl)"
    "pm_key m \<notin> set (includedSet pl)"
  shows "pm_key m \<in> ql_key ` set (qu_lines q) \<longleftrightarrow> billed pl s (pm_key m)"
proof
  assume "pm_key m \<in> ql_key ` set (qu_lines q)"
  then obtain m' l where l: "l \<in> set (line_of_module pl s m')" "ql_key l = pm_key m"
    using lines_of_line(1) [OF assms(1,2)] by auto
  then have "pm_key m' = pm_key m" "line_of_module pl s m' \<noteq> []" using line_of_module_key by force+
  then show "billed pl s (pm_key m)" using line_of_module_billed [of m' pl s] assms(4) by simp
next
  assume "billed pl s (pm_key m)"
  then obtain l where l: "l \<in> set (line_of_module pl s m)"
    using line_of_module_billed [OF assms(4)] by (metis list.set_sel(1))
  then have "l \<in> set (qu_lines q)" using lines_of_line(1) [OF assms(1,2)] assms(3) by auto
  then show "pm_key m \<in> ql_key ` set (qu_lines q)" using line_of_module_key [OF l] by force
qed

text \<open>A billed module without a yearly price leaves no number, which is shown as 0.\<close>

lemma billed_nan:
  assumes "map_of (pc_lines D) k = Some pl" "line_compute D k s = Some q" "m \<in> set (pl_modules pl)"
    "pm_key m \<notin> set (includedSet pl)" "billed pl s (pm_key m)" "pm_eu_year m = None"
  shows "qu_subtotal q = None \<and> rounded (su_totalYear (qu_subscription q)) = 0"
proof -
  obtain l where l: "l \<in> set (line_of_module pl s m)"
    using line_of_module_billed [OF assms(4)] assms(5) by (metis list.set_sel(1))
  then have "ql_reg l = None" using assms(6) by (auto simp: line_of_module_def Let_def split: if_splits)
  moreover have "l \<in> set (qu_lines q)" using l lines_of_line(1) [OF assms(1,2)] assms(3) by auto
  ultimately have "qu_subtotal q = None" using sum_lines_nan lines_of_line(2) [OF assms(1,2)] by metis
  then show ?thesis using lines_of_line(3) [OF assms(1,2)] by (simp add: rounded_def)
qed

definition partner_state :: "int \<Rightarrow> line_state" where
  "partner_state n =
     \<lparr> ls_users = n, ls_bundle = ''comms-partner-hardening'', ls_manual = False, ls_selected = [],
       ls_licenseModel = ''subscription'', ls_term = ''1y'', ls_perpMaintYears = 1 \<rparr>"

lemma partner_zero:
  "rounded (su_totalYear (qu_subscription (the (line_compute ERA_PRICING ''communications'' (partner_state n))))) = 0"
proof -
  let ?m = "(plain_module ''comms-migration'' [] 0)\<lparr>pm_eu_year := None\<rparr>"
  have pl: "map_of (pc_lines ERA_PRICING) ''communications'' = Some line_communications" by (simp add: ERA_PRICING_def)
  then obtain q where q: "line_compute ERA_PRICING ''communications'' (partner_state n) = Some q"
    by (simp add: line_compute_def Let_def)
  have "?m \<in> set (pl_modules line_communications)" by (simp add: line_communications_def)
  moreover have "pm_key ?m \<notin> set (includedSet line_communications)"
    by (simp add: includedSet_def line_communications_def plain_module_def)
  moreover have "billed line_communications (partner_state n) (pm_key ?m)"
    by (simp add: billed_def in_bundle_def line_bundle_def bundleByKey_def partner_state_def line_communications_def plain_module_def)
  ultimately show ?thesis using billed_nan [OF pl q] q by simp
qed

lemma ERA_PRICING_ok: "pricing_ok ERA_PRICING"
  by code_simp

section \<open>Properties\<close>

text \<open>
  C39. With a price list whose prices are present and not negative and whose discounts are
  rates, the quote of the endpoint calculator for counts that are not negative is a number: the
  subtotal is the sum of the lines, no line is negative, the price of a year is between 0 and the
  subtotal, the price of the term is the price of a year times its years, and a perpetual license
  costs the multiplier times the subtotal plus the maintenance.
\<close>

theorem site_control_quote:
  assumes "pricing_ok D" "0 \<le> ca_ws s" "0 \<le> ca_servers s" "pc_multiplier D \<noteq> 0" "pc_maintenance D \<noteq> 0"
    "q = calc_compute D s"
  shows "\<exists>sub year. qu_subtotal q = Some sub \<and> sub = sum_list (map (\<lambda>l. the (ql_reg l)) (qu_lines q))
    \<and> (\<forall>l\<in>set (qu_lines q). \<exists>r. ql_reg l = Some r \<and> 0 \<le> r)
    \<and> su_totalYear (qu_subscription q) = Some year \<and> 0 \<le> year \<and> year \<le> sub
    \<and> su_totalTerm (qu_subscription q) = Some (year * of_nat (su_years (qu_subscription q)))
    \<and> pe_firstYear (qu_perpetual q) = Some (sub * pc_multiplier D + sub * pc_maintenance D)"
proof -
  have "0 \<le> ep_weighted D s" using assms(1-3) by (auto simp: ep_weighted_def pricing_ok_def)
  then have l: "\<forall>l\<in>set (qu_lines q). line_ok l"
    using module_lines_ok [OF assms(1)] assms(6) by (auto simp: calc_compute_def Let_def)
  obtain sub where s: "sum_lines (qu_lines q) = Some sub" "0 \<le> sub" "sub = sum_list (map (\<lambda>l. the (ql_reg l)) (qu_lines q))"
    using sum_lines_ok [OF l] by blast
  have st: "qu_subtotal q = Some sub" using s(1) assms(6) by (simp add: calc_compute_def Let_def)
  have "qu_subscription q = subscriptionTotals (pc_terms D) (Some sub) (ca_term s)"
    "qu_perpetual q = perpetualTotals (pc_multiplier D) (pc_maintenance D) (Some sub) (ca_perpMaintYears s)"
    using st assms(6) by (simp_all add: calc_compute_def Let_def)
  moreover note rate_mult [OF term_rate_ok [OF assms(1)] s(2), of "ca_term s"]
  ultimately show ?thesis using st s(3) l assms(4,5)
    by (simp add: subscriptionTotals_def perpetualTotals_def Let_def line_ok_def)
qed

definition scenario :: calc_state where
  "scenario = calc_start\<lparr>ca_selected := [(''core'', True), (''control-ai'', True), (''response'', True)]\<rparr>"

theorem site_control_quote_witness:
  "\<exists>sub. qu_subtotal (calc_compute ERA_PRICING scenario) = Some sub \<and> sub = 17664
    \<and> pe_firstYear (qu_perpetual (calc_compute ERA_PRICING scenario)) = Some (17664 * 3 + 17664 * (1 / 5))"
proof -
  have "qu_subtotal (calc_compute ERA_PRICING scenario) = Some 17664" by code_simp
  moreover have "0 \<le> ca_ws scenario" "0 \<le> ca_servers scenario" by (simp_all add: scenario_def calc_start_def)
  moreover have "pc_multiplier ERA_PRICING = 3" "pc_maintenance ERA_PRICING = 1 / 5" by (simp_all add: ERA_PRICING_def)
  ultimately show ?thesis using site_control_quote [OF ERA_PRICING_ok, of scenario] by force
qed

text \<open>
  The per-user calculator bills a module exactly when its box is checked, as long as the
  modules are chosen by hand; a bundle bills its modules at the bundle's discount, and also every
  module chosen by hand before, whose box is shown unchecked. A module without a yearly price
  makes the subtotal no number, and the total is then shown as 0: the partner bundle of
  ERA Communications is quoted at 0 for any number of users.
\<close>

theorem site_line_quote:
  assumes "map_of (pc_lines D) k = Some pl" "m \<in> set (pl_modules pl)" "pm_key m \<notin> set (includedSet pl)"
    "line_compute D k s = Some q"
  shows "(pm_key m \<in> ql_key ` set (qu_lines q) \<longleftrightarrow> fst (syncModules pl s (pm_key m)) \<or> map_of (ls_selected s) (pm_key m) = Some True)
    \<and> (ls_manual s \<longrightarrow> (pm_key m \<in> ql_key ` set (qu_lines q) \<longleftrightarrow> fst (syncModules pl s (pm_key m))))
    \<and> (pm_key m \<in> ql_key ` set (qu_lines q) \<and> pm_eu_year m = None
         \<longrightarrow> qu_subtotal q = None \<and> rounded (su_totalYear (qu_subscription q)) = 0)
    \<and> rounded (su_totalYear (qu_subscription (the (line_compute ERA_PRICING ''communications'' (partner_state n))))) = 0"
  using billed_lines [OF assms(1,4,2,3)] billed_nan [OF assms(1,4,2,3)] partner_zero
  by (auto simp: billed_def syncModules_def line_bundle_def in_bundle_def split: option.splits if_splits)

definition office_state :: line_state where
  "office_state = bundle_selected ''office-mvp'' (line_module_checked ''office-ai'' True (bundle_selected ''__manual__'' (defaultState ERA_PRICING ''office'')))"

theorem site_line_quote_witness:
  "''office-ai'' \<in> ql_key ` set (qu_lines (the (line_compute ERA_PRICING ''office'' office_state)))
   \<and> syncModules line_office office_state ''office-ai'' = (False, True)"
proof -
  have pl: "map_of (pc_lines ERA_PRICING) ''office'' = Some line_office" by (simp add: ERA_PRICING_def)
  obtain q where q: "line_compute ERA_PRICING ''office'' office_state = Some q" using pl by (simp add: line_compute_def Let_def)
  have m: "plain_module ''office-ai'' [] 6 \<in> set (pl_modules line_office)" by (simp add: line_office_def)
  have i: "pm_key (plain_module ''office-ai'' [] 6) \<notin> set (includedSet line_office)"
    by (simp add: includedSet_def line_office_def plain_module_def)
  have "map_of (ls_selected office_state) ''office-ai'' = Some True" by code_simp
  moreover have "syncModules line_office office_state ''office-ai'' = (False, True)" by code_simp
  ultimately show ?thesis using site_line_quote [OF pl m i q] q by (simp add: plain_module_def)
qed

end
