(* ===== verification/Site_Lang.thy ===== *)
theory Site_Lang
  imports Site_Properties Era_Url
begin

text \<open>
  The pages of the site around the calculators (\<open>site/assets/\<close>): the catalogue
  (\<open>products-catalog.js\<close>), languages and addresses, search, menus and the short calculator
  (\<open>site.js\<close>), the texts of the calculators (\<open>calc-lang.js\<close>), datasheets and comparisons in the
  first language that has them (\<open>datasheet-view.js\<close>, \<open>compare-view.js\<close>), trial downloads
  (\<open>downloads-view.js\<close>). The dictionaries are arguments.
\<close>

section \<open>The catalogue\<close>

record edition =
  ed_n :: string
  ed_slug :: string
  ed_ds :: string

definition ed :: "string \<Rightarrow> string \<Rightarrow> string \<Rightarrow> edition" where
  "ed n slug ds = \<lparr> ed_n = n, ed_slug = slug, ed_ds = ds \<rparr>"

record product =
  pd_calc :: string
  pd_familyDs :: string
  pd_editions :: "edition list"

definition PRODUCT_LIST :: "(string \<times> product) list" where
  "PRODUCT_LIST =
     [(''control'', \<lparr> pd_calc = ''control'', pd_familyDs = ''ERA-One-DataSheet.html'', pd_editions =
        [ed ''ERA Core'' ''era-core'' ''01-ERA-Core.html'', ed ''ERA Control AI'' ''era-control-ai'' ''02-ERA-Control-AI.html'',
         ed ''ERA Response'' ''era-response'' ''03-ERA-Response.html'', ed ''ERA Vuln'' ''era-vuln'' ''04-ERA-Vuln.html'',
         ed ''ERA Federated / National'' ''era-federated-national'' ''05-ERA-Federated-National.html'',
         ed ''ERA Workbench'' ''era-workbench'' ''06-ERA-Workbench.html'', ed ''ERA Exposure'' ''era-exposure'' ''07-ERA-Exposure.html'',
         ed ''ERA BYO-EDR Hub'' ''era-byo-edr'' ''08-ERA-BYO-EDR.html'', ed ''ERA Manage'' ''era-manage'' ''09-ERA-Manage.html'',
         ed ''ERA Service'' ''era-service'' ''10-ERA-Service.html'', ed ''ERA Provision'' ''era-provision'' ''11-ERA-Provision.html'',
         ed ''ERA PAM'' ''era-pam'' ''12-ERA-PAM.html'', ed ''ERA Observe'' ''era-observe'' ''13-ERA-Observe.html'',
         ed ''ERA Perimeter'' ''era-perimeter'' ''15-ERA-Perimeter.html'', ed ''ERA Resolve'' ''era-resolve'' ''16-ERA-Resolve.html'',
         ed ''ERA Sovereign Hybrid'' ''era-sovereign-hybrid'' ''14-ERA-Sovereign-Hybrid.html''] \<rparr>),
      (''communications'', \<lparr> pd_calc = ''users'', pd_familyDs = ''ERA-Communications-DataSheet.html'', pd_editions =
        [ed ''ERA Mail Server'' ''era-mail-server'' ''comms-01-ERA-Mail-Server.html'',
         ed ''ERA Mail Client'' ''era-mail-client'' ''comms-02-ERA-Mail-Client.html'',
         ed ''ERA Conference'' ''era-conference'' ''comms-03-ERA-Conference.html'', ed ''ERA Chat'' ''era-chat'' ''comms-04-ERA-Chat.html'',
         ed ''ERA Comms AI'' ''era-comms-ai'' ''comms-05-ERA-Comms-AI.html'',
         ed ''ERA Mail Connect'' ''era-mail-connect'' ''comms-06-ERA-Mail-Connect.html''] \<rparr>),
      (''office'', \<lparr> pd_calc = ''users'', pd_familyDs = ''ERA-Office-DataSheet.html'', pd_editions =
        [ed ''ERA Drive'' ''era-drive'' ''office-00-ERA-Drive.html'', ed ''ERA Documents'' ''era-documents'' ''office-01-ERA-Documents.html'',
         ed ''ERA Tables'' ''era-tables'' ''office-02-ERA-Tables.html'',
         ed ''ERA Presentations'' ''era-presentations'' ''office-03-ERA-Presentations.html'',
         ed ''ERA Projects'' ''era-projects'' ''office-04-ERA-Projects.html'', ed ''ERA Office AI'' ''era-office-ai'' ''office-05-ERA-Office-AI.html''] \<rparr>)]"

definition FAMS :: "(string \<times> string \<times> string) list" where
  "FAMS = [(''control'', ''ERA Control'', ''/control.html''), (''communications'', ''ERA Communications'', ''/communications.html''),
     (''office'', ''ERA Office'', ''/office.html'')]"

definition famOf :: "string \<Rightarrow> (string \<times> string \<times> string) option" where
  "famOf key = find (\<lambda>f. fst f = key) FAMS"

definition catalog_moduleHref :: "edition \<Rightarrow> string" where
  "catalog_moduleHref e = ''/editions/'' @ encodeURIComponent (ed_slug e) @ ''.html''"

fun find_edition :: "(string \<times> product) list \<Rightarrow> string \<Rightarrow> (string \<times> edition) option" where
  "find_edition [] slug = None"
| "find_edition ((fk, p) # ps) slug =
     (case find (\<lambda>e. ed_slug e = slug) (pd_editions p) of Some e \<Rightarrow> Some (fk, e) | None \<Rightarrow> find_edition ps slug)"

definition findEdition :: "string \<Rightarrow> (string \<times> edition \<times> (string \<times> string \<times> string) option) option" where
  "findEdition slug = map_option (\<lambda>(fk, e). (fk, e, famOf fk)) (find_edition PRODUCT_LIST slug)"

section \<open>Languages and addresses\<close>

definition LANG_CODES :: "string list" where
  "LANG_CODES = [''ru'', ''tr'', ''ar'']"

text \<open>\<open>/^\/(ru|tr|ar)(?=\/|$)/\<close>.\<close>

definition has_lang :: "string \<Rightarrow> string \<Rightarrow> bool" where
  "has_lang path l \<longleftrightarrow> take 3 path = CHR ''/'' # l \<and> (length path = 3 \<or> path ! 3 = CHR ''/'')"

definition lang_of_path :: "string \<Rightarrow> string option" where
  "lang_of_path path = find (has_lang path) LANG_CODES"

definition strip_lang :: "string \<Rightarrow> string" where
  "strip_lang path = (if lang_of_path path = None then path else drop 3 path)"

definition siteLang :: "string \<Rightarrow> string \<Rightarrow> string \<Rightarrow> string" where
  "siteLang path bodyLang htmlLang =
     (case lang_of_path path of Some l \<Rightarrow> l | None \<Rightarrow> or_default (Some bodyLang) (or_default (Some htmlLang) ''en''))"

definition prefixed :: "string \<Rightarrow> bool" where
  "prefixed lang \<longleftrightarrow> lang \<noteq> [] \<and> lang \<noteq> ''en''"

text \<open>An address with its fragment and its query cut off.\<close>

definition cut_at :: "char \<Rightarrow> string \<Rightarrow> string \<times> string" where
  "cut_at c s = (takeWhile (\<lambda>x. x \<noteq> c) s, dropWhile (\<lambda>x. x \<noteq> c) s)"

definition foreign_href :: "string \<Rightarrow> bool" where
  "foreign_href h \<longleftrightarrow> h = [] \<or> hd h = CHR ''#'' \<or> starts_with ''mailto:'' h \<or> starts_with ''http:'' (to_lower h) \<or> starts_with ''https:'' (to_lower h)"

definition withLangPrefix :: "string \<Rightarrow> string \<Rightarrow> string" where
  "withLangPrefix lang h =
     (if foreign_href h then h
      else (let (p0, hash) = cut_at CHR ''#'' h; (p1, query) = cut_at CHR ''?'' p0;
                p2 = or_default (Some (strip_lang p1)) ''/'';
                p3 = (if hd p2 \<noteq> CHR ''/'' then CHR ''/'' # p2 else p2);
                p4 = (if prefixed lang then CHR ''/'' # lang @ (if p3 = ''/'' then ''/index.html'' else p3) else p3)
            in p4 @ query @ hash))"

text \<open>The path of the same page in another language, and the address the language menu goes to.\<close>

definition switch_path :: "string \<Rightarrow> string \<Rightarrow> string" where
  "switch_path lang path =
     (let p0 = or_default (Some (strip_lang (or_default (Some path) ''/''))) ''/'';
          p1 = (if p0 = ''/'' then ''/index.html'' else p0)
      in if prefixed lang then CHR ''/'' # lang @ p1 else p1)"

definition pathForLang :: "string \<Rightarrow> string \<Rightarrow> string \<Rightarrow> string \<Rightarrow> string" where
  "pathForLang lang path search hash = switch_path lang path @ search @ hash"

definition moduleHref :: "string \<Rightarrow> edition \<Rightarrow> string" where
  "moduleHref lang e = withLangPrefix lang (catalog_moduleHref e)"

text \<open>The texts of a page: the dictionary of the language, then the English one, then the key.\<close>

definition site_t :: "(string \<times> string) list \<Rightarrow> (string \<times> string) list option \<Rightarrow> string \<Rightarrow> string" where
  "site_t en dict k =
     (case Option.bind dict (\<lambda>d. map_of d k) of Some v \<Rightarrow> v | None \<Rightarrow> (case map_of en k of Some v \<Rightarrow> v | None \<Rightarrow> k))"

record site_page =
  st_lang :: string
  st_dir :: string
  st_label :: "string option"
  st_stored :: string
  st_href :: "string option"
  st_menu :: bool

definition LABEL :: "(string \<times> string) list" where
  "LABEL = [(''en'', ''EN''), (''ru'', ''RU''), (''tr'', ''TR''), (''ar'', ''AR'')]"

definition applyLang :: "string \<Rightarrow> site_page \<Rightarrow> site_page" where
  "applyLang lang s =
     s\<lparr>st_lang := lang, st_dir := (if lang = ''ar'' then ''rtl'' else ''ltr''), st_label := map_of LABEL lang, st_stored := lang\<rparr>"

text \<open>A click on a language; \<open>path\<close>, \<open>search\<close> and \<open>hash\<close> are the location, \<open>bodyLang\<close> an attribute of the page.\<close>

definition lang_clicked :: "string \<Rightarrow> string \<Rightarrow> string \<Rightarrow> string \<Rightarrow> string \<Rightarrow> site_page \<Rightarrow> site_page" where
  "lang_clicked lang path search hash bodyLang s =
     (let s1 = s\<lparr>st_stored := lang, st_menu := False\<rparr>
      in if lang = siteLang path bodyLang (st_lang s) then applyLang lang s1
         else s1\<lparr>st_href := Some (pathForLang lang path search hash)\<rparr>)"

definition site_start :: "string \<Rightarrow> string \<Rightarrow> site_page \<Rightarrow> site_page" where
  "site_start path bodyLang s =
     (let l = siteLang path bodyLang (st_lang s) in applyLang (if map_of LABEL l = None then ''en'' else l) s)"

section \<open>Search and menus\<close>

record search_item =
  si_n :: string
  si_g :: string
  si_h :: string

definition buildSearchIndex :: "string \<Rightarrow> search_item list" where
  "buildSearchIndex lang =
     map (\<lambda>(k, n, page). \<lparr> si_n = n, si_g = ''Product'', si_h = withLangPrefix lang page \<rparr>) FAMS
     @ concat (map (\<lambda>(k, n, page). map (\<lambda>e. \<lparr> si_n = ed_n e, si_g = n, si_h = moduleHref lang e \<rparr>)
         (case map_of PRODUCT_LIST k of Some p \<Rightarrow> pd_editions p | None \<Rightarrow> [])) FAMS)"

definition search_results :: "string \<Rightarrow> search_item list \<Rightarrow> search_item list" where
  "search_results q idx =
     (let q1 = to_lower (js_trim q) in if q1 \<noteq> [] then filter (\<lambda>i. str_includes q1 (to_lower (si_n i))) idx else idx)"

definition search_html :: "string \<Rightarrow> search_item list \<Rightarrow> string" where
  "search_html none items =
     (if items = [] then ''<div class='' @ [CHR 0x22] @ ''empty'' @ [CHR 0x22] @ ''>'' @ none @ ''</div>''
      else concat (map (\<lambda>i. ''<a href='' @ [CHR 0x22] @ si_h i @ [CHR 0x22] @ ''><span>'' @ si_n i @ ''</span><small>'' @ si_g i @ ''</small></a>'') items))"

text \<open>The panels of the product menu: the family under the pointer, and whether its modules are hidden.\<close>

definition fam_hovered :: "string \<Rightarrow> (string \<times> bool) list" where
  "fam_hovered key = map (\<lambda>(k, n, page). (k, k \<noteq> key)) FAMS"

datatype mobile_event = Toggle_menu | Follow_link | Click_outside | Resized int

definition mobile_menu :: "mobile_event \<Rightarrow> bool \<Rightarrow> bool" where
  "mobile_menu ev is_open =
     (case ev of
        Toggle_menu \<Rightarrow> \<not> is_open
      | Follow_link \<Rightarrow> False
      | Click_outside \<Rightarrow> False
      | Resized w \<Rightarrow> if w > 900 then False else is_open)"

section \<open>The short calculator\<close>

definition bundlePerUser :: "pricing \<Rightarrow> string \<Rightarrow> string \<Rightarrow> rat option" where
  "bundlePerUser D line bundleKey =
     (case map_of (pc_lines D) line of
        None \<Rightarrow> None
      | Some pl \<Rightarrow>
          (case find (\<lambda>b. bu_key b = bundleKey) (pl_bundles pl) of
             None \<Rightarrow> None
           | Some b \<Rightarrow>
               Some (sum_list (map (\<lambda>k. case find (\<lambda>m. pm_key m = k) (pl_modules pl) of
                                            Some m \<Rightarrow> (case pm_eu_year m of Some y \<Rightarrow> y | None \<Rightarrow> 0) | None \<Rightarrow> 0) (bu_modules b))
                     * (1 - bu_discount b))))"

definition short_total :: "pricing \<Rightarrow> string \<Rightarrow> string \<Rightarrow> rat \<Rightarrow> rat \<Rightarrow> rat" where
  "short_total D model product a b =
     (if model = ''control'' then a * 12 + b * 36
      else (let rate = (if product = ''communications'' then bundlePerUser D ''communications'' ''comms-full''
                        else if product = ''office'' then bundlePerUser D ''office'' ''office-suite'' else None)
            in a * (case rate of Some r \<Rightarrow> r | None \<Rightarrow> 14)))"

section \<open>Datasheets and comparisons\<close>

definition langChain :: "string \<Rightarrow> string list" where
  "langChain lang =
     (if lang = ''ru'' then [''ru'', ''en'']
      else if lang = ''tr'' \<or> lang = ''ar'' then [lang, ''en'', ''ru''] else [lang, ''en'', ''ru''])"

text \<open>The languages asked for, and the text of the first that has one.\<close>

fun tryNext :: "(string \<Rightarrow> string option) \<Rightarrow> string list \<Rightarrow> string list \<times> string option" where
  "tryNext fetch [] = ([], None)"
| "tryNext fetch (l # ls) =
     (case fetch l of
        Some html \<Rightarrow> ([l], Some html)
      | None \<Rightarrow> (let (asked, r) = tryNext fetch ls in (l # asked, r)))"

definition fetchDatasheet :: "(string \<Rightarrow> string option) \<Rightarrow> string \<Rightarrow> string list \<times> string option" where
  "fetchDatasheet fetch lang = tryNext fetch (langChain lang)"

definition openPdf :: "string \<Rightarrow> string \<Rightarrow> string \<Rightarrow> string" where
  "openPdf ds lang path = ds @ hd (langChain lang) @ CHR ''/'' # path"

text \<open>What the page shows: \<open>read\<close> is what the HTML parser takes out of a fetched text.\<close>

definition load_text :: "(string \<Rightarrow> string) \<Rightarrow> string \<Rightarrow> (string \<Rightarrow> string option) \<Rightarrow> string \<Rightarrow> string" where
  "load_text read err fetch lang =
     (case snd (fetchDatasheet fetch lang) of
        Some html \<Rightarrow> read html
      | None \<Rightarrow> ''<p class='' @ [CHR 0x22] @ ''ds-error'' @ [CHR 0x22] @ ''>'' @ err @ ''</p>'')"

text \<open>A request for a trial: the address the page goes to; \<open>user\<close> is the address of the signed-in user.\<close>

definition handleTrial :: "string option \<Rightarrow> string \<Rightarrow> string \<Rightarrow> string" where
  "handleTrial user name pkg =
     (case user of
        None \<Rightarrow> ''register.html?next='' @ encodeURIComponent ''downloads.html''
      | Some email \<Rightarrow> ''mailto:sales@era-one.solutions?subject='' @ encodeURIComponent (''ERA One trial: '' @ name) @ ''&body=''
          @ encodeURIComponent (''Product: '' @ name @ [CHR 0x0A] @ ''Package: '' @ pkg @ [CHR 0x0A] @ ''Account: '' @ email))"

section \<open>Texts of the calculators\<close>

text \<open>A dictionary holds texts and dictionaries. A missing or empty value ends a look-up on the way.\<close>

datatype tval = Text string | Obj "(string \<times> tval) list"

definition falsy_val :: "tval option \<Rightarrow> bool" where
  "falsy_val o' \<longleftrightarrow> o' = None \<or> o' = Some (Text [])"

definition sub_val :: "tval option \<Rightarrow> string \<Rightarrow> tval option" where
  "sub_val o' k = (case o' of Some (Obj kvs) \<Rightarrow> map_of kvs k | _ \<Rightarrow> None)"

fun look :: "tval option \<Rightarrow> string list \<Rightarrow> tval option option" where
  "look o' [] = Some o'"
| "look o' (k # ks) = (if falsy_val o' then None else look (sub_val o' k) ks)"

definition calc_t :: "tval \<Rightarrow> tval \<Rightarrow> string \<Rightarrow> tval" where
  "calc_t dict en key =
     (let parts = split_char CHR ''.'' key in
      case look (Some dict) parts of
        None \<Rightarrow> Text key
      | Some (Some v) \<Rightarrow> v
      | Some None \<Rightarrow> (case look (Some en) parts of Some (Some v) \<Rightarrow> v | _ \<Rightarrow> Text key))"

definition lookupNested :: "tval \<Rightarrow> string \<Rightarrow> tval option" where
  "lookupNested d key = (case look (Some d) (split_char CHR ''.'' key) of Some v \<Rightarrow> v | None \<Rightarrow> None)"

text \<open>The five functions for titles, terms and descriptions differ in the kind of key and the last resort;
  \<open>None\<close>: the key names a dictionary and the function throws.\<close>

definition label_of :: "tval \<Rightarrow> tval \<Rightarrow> string \<Rightarrow> string \<Rightarrow> string \<Rightarrow> tval option" where
  "label_of dict en kind key last_resort =
     (let dotted = kind @ CHR ''.'' # key in
      case calc_t dict en dotted of
        Text v \<Rightarrow> if v \<noteq> [] \<and> \<not> starts_with (kind @ ''.'') v then Some (Text v)
                  else (case lookupNested en dotted of Some w \<Rightarrow> Some w | None \<Rightarrow> Some (Text last_resort))
      | Obj kvs \<Rightarrow> None)"

definition moduleTitle :: "tval \<Rightarrow> tval \<Rightarrow> string option \<Rightarrow> string \<Rightarrow> tval option" where
  "moduleTitle dict en ssot key = label_of dict en ''moduleTitle'' key (or_default ssot key)"

definition addonTitle :: "tval \<Rightarrow> tval \<Rightarrow> string \<Rightarrow> tval option" where
  "addonTitle dict en key = label_of dict en ''addonTitle'' key key"

definition bundleTitle :: "tval \<Rightarrow> tval \<Rightarrow> string \<Rightarrow> string \<Rightarrow> tval option" where
  "bundleTitle dict en key fallback = label_of dict en ''bundleTitle'' key (or_default (Some fallback) key)"

definition termLabel :: "tval \<Rightarrow> tval \<Rightarrow> string \<Rightarrow> string \<Rightarrow> tval option" where
  "termLabel dict en key fallback = label_of dict en ''termLabel'' key (or_default (Some fallback) key)"

definition moduleDesc :: "tval \<Rightarrow> tval \<Rightarrow> string option \<Rightarrow> string \<Rightarrow> tval option" where
  "moduleDesc dict en ssot key = label_of dict en ''moduleDesc'' key (or_empty ssot)"

definition catLabel :: "tval \<Rightarrow> tval \<Rightarrow> string \<Rightarrow> tval" where
  "catLabel dict en key =
     calc_t dict en (case map_of [(''secops'', ''catSecops''), (''itops'', ''catItops''), (''identity'', ''catIdentity''), (''platform'', ''catPlatform'')] key of
                       Some k \<Rightarrow> k | None \<Rightarrow> key)"

definition calc_setLang :: "string \<Rightarrow> string \<Rightarrow> string" where
  "calc_setLang l lang = (if l = [] then lang else l)"

section \<open>Laws\<close>

lemma slugs_distinct: "distinct (map ed_slug (concat (map (pd_editions \<circ> snd) PRODUCT_LIST)))"
  by code_simp

lemma find_distinct_key: "distinct (map f xs) \<Longrightarrow> x \<in> set xs \<Longrightarrow> find (\<lambda>y. f y = f x) xs = Some x"
  by (induction xs) (auto simp: image_iff)

lemma find_edition_found:
  assumes "distinct (map ed_slug (concat (map (pd_editions \<circ> snd) ps)))" "(fk, p) \<in> set ps" "e \<in> set (pd_editions p)"
  shows "find_edition ps (ed_slug e) = Some (fk, e)"
  using assms
proof (induction ps)
  case (Cons q ps)
  obtain qk qp where q: "q = (qk, qp)" by (cases q)
  have d: "distinct (map ed_slug (pd_editions qp))"
    and apart: "ed_slug ` set (pd_editions qp) \<inter> ed_slug ` set (concat (map (pd_editions \<circ> snd) ps)) = {}"
    using Cons.prems(1) unfolding q by auto
  show ?case
  proof (cases "(fk, p) = q")
    case True
    then have "e \<in> set (pd_editions qp)" "fk = qk" using Cons.prems(3) q by auto
    moreover have "find (\<lambda>x. ed_slug x = ed_slug e) (pd_editions qp) = Some e"
      using find_distinct_key [OF d] calculation(1) by blast
    ultimately show ?thesis by (simp add: q)
  next
    case False
    then have m: "(fk, p) \<in> set ps" using Cons.prems(2) by auto
    then have "ed_slug e \<in> ed_slug ` set (concat (map (pd_editions \<circ> snd) ps))" using Cons.prems(3) by force
    then have "find (\<lambda>x. ed_slug x = ed_slug e) (pd_editions qp) = None"
      using apart unfolding find_None_iff by (metis disjoint_iff imageI)
    moreover have "find_edition ps (ed_slug e) = Some (fk, e)" using Cons.IH [OF _ m Cons.prems(3)] Cons.prems(1) by simp
    ultimately show ?thesis by (simp add: q)
  qed
qed simp

text \<open>The first language with a text, and no request after it.\<close>

lemma tryNext_first:
  "snd (tryNext fetch ls) = Option.bind (find (\<lambda>l. fetch l \<noteq> None) ls) fetch"
  "fst (tryNext fetch ls) = takeWhile (\<lambda>l. fetch l = None) ls @ (case find (\<lambda>l. fetch l \<noteq> None) ls of None \<Rightarrow> [] | Some l \<Rightarrow> [l])"
  by (induction ls) (auto split: option.split prod.split)

lemma lang_prefix: "l \<in> set LANG_CODES \<Longrightarrow> hd q = CHR ''/'' \<Longrightarrow> q \<noteq> [] \<Longrightarrow> lang_of_path (CHR ''/'' # l @ q) = Some l"
  by (cases q) (auto simp: LANG_CODES_def lang_of_path_def has_lang_def)

lemma strip_lang_slash:
  assumes "path \<noteq> []" "hd path = CHR ''/''"
  shows "strip_lang path = [] \<or> hd (strip_lang path) = CHR ''/''"
proof (cases "lang_of_path path")
  case (Some l)
  then have "has_lang path l" by (auto simp: lang_of_path_def find_Some_iff)
  then show ?thesis using Some by (cases "3 < length path") (auto simp: has_lang_def strip_lang_def hd_drop_conv_nth)
qed (use assms in \<open>simp add: strip_lang_def\<close>)

text \<open>
  Languages and texts of the site. Going to another language leads to a page of that language, and from
  there to any language as from the page before. A datasheet is asked for in the languages of the chain
  until one has it, and that text is shown. Every edition of the catalogue is found by the name in the
  address of its page.
\<close>

theorem site_lang_switch:
  assumes "path \<noteq> []" "hd path = CHR ''/''" "l \<in> set LANG_CODES"
  shows "siteLang (switch_path l path) bodyLang htmlLang = l \<and> switch_path m (switch_path l path) = switch_path m path"
proof -
  define q where "q = (let p0 = or_default (Some (strip_lang path)) ''/'' in if p0 = ''/'' then ''/index.html'' else p0)"
  have q: "q \<noteq> []" "hd q = CHR ''/''" "q \<noteq> ''/''"
    using strip_lang_slash [OF assms(1,2)] by (auto simp: q_def or_default_def Let_def)
  have to: "switch_path k path = (if prefixed k then CHR ''/'' # k @ q else q)" for k
    using assms(1) by (simp add: switch_path_def q_def Let_def or_default_def)
  have l: "prefixed l" "length l = 2" using assms(3) by (auto simp: LANG_CODES_def prefixed_def)
  have there: "lang_of_path (CHR ''/'' # l @ q) = Some l" by (rule lang_prefix [OF assms(3) q(2,1)])
  then have "strip_lang (CHR ''/'' # l @ q) = q" using l(2) by (simp add: strip_lang_def numeral_3_eq_3)
  then have "switch_path m (CHR ''/'' # l @ q) = (if prefixed m then CHR ''/'' # m @ q else q)"
    using q by (simp add: switch_path_def Let_def or_default_def)
  then show ?thesis using l(1) there by (simp add: to siteLang_def)
qed

theorem site_texts_found:
  "(e \<in> set (concat (map (pd_editions \<circ> snd) PRODUCT_LIST)) \<longrightarrow> (\<exists>fk fam. findEdition (ed_slug e) = Some (fk, e, fam)))
   \<and> (\<forall>l\<in>set (langChain lang). fetch l = None) = (snd (fetchDatasheet fetch lang) = None)
   \<and> (fetch lang = Some html \<longrightarrow> fetchDatasheet fetch lang = ([lang], Some html))"
proof -
  have "\<exists>fk fam. findEdition (ed_slug e) = Some (fk, e, fam)" if "e \<in> set (concat (map (pd_editions \<circ> snd) PRODUCT_LIST))"
    using that find_edition_found [OF slugs_distinct] by (fastforce simp: findEdition_def)
  moreover have "(\<forall>l\<in>set ls. fetch l = None) = (snd (tryNext fetch ls) = None)" for ls
    by (induction ls) (auto split: option.split prod.split)
  moreover have "fetch lang = Some html \<Longrightarrow> fetchDatasheet fetch lang = ([lang], Some html)"
    by (cases "lang = ''ru''") (simp_all add: fetchDatasheet_def langChain_def)
  ultimately show ?thesis unfolding fetchDatasheet_def by blast
qed

end
