(* ===== verification/Mail_Client.thy ===== *)
theory Mail_Client
  imports Shell_Session Era_Base64
begin

text \<open>
  The mail page (\<open>ui/mail/web/app.js\<close>): signing in with an authorization code and a proof key,
  the mailbox and its quota, the inbox, a message with its attachments, sending. Replies of the
  services are arguments; bytes are numbers below 256.
\<close>

section \<open>The proof key\<close>

definition randomString :: "nat list \<Rightarrow> string" where
  "randomString bytes = b64url bytes"

section \<open>The page\<close>

record mailbox =
  mx_used :: int
  mx_quota :: int

record mail_message =
  mm_subject :: string
  mm_uid :: string

record mail_attachment =
  at_name :: string
  at_type :: string
  at_object :: string

datatype mail_request =
    Token_exchange string string
  | Get_policy string
  | Get_mailbox string
  | Get_messages string
  | Get_message string
  | Edit_link string string string
  | Send_mail string string string string

record mail =
  ml_token :: "string option"
  ml_email :: "string option"
  ml_tenant :: "string option"
  ml_verifier :: "string option"
  ml_href :: "string option"
  ml_user :: string
  ml_policy :: "string option"
  ml_mailbox :: "mailbox option"
  ml_sendDisabled :: bool
  ml_sendTitle :: string
  ml_inbox :: "string list"
  ml_detail :: "(string \<times> string) option"
  ml_editable :: "mail_attachment list"
  ml_compose :: bool
  ml_requests :: "mail_request list"

definition no_claims :: claims where
  "no_claims = \<lparr> cl_sub = None, cl_email = None, cl_tenant_id = None, cl_exp = No_exp \<rparr>"

definition parseJwt :: "(string \<Rightarrow> claims option) \<Rightarrow> string \<Rightarrow> claims" where
  "parseJwt jwt token = (case Option.bind (token_part token) jwt of None \<Rightarrow> no_claims | Some c \<Rightarrow> c)"

definition ml_send :: "mail_request \<Rightarrow> mail \<Rightarrow> mail" where
  "ml_send q m = m\<lparr>ml_requests := ml_requests m @ [q]\<rparr>"

text \<open>
  The page is sent to the identity service with the digest of a fresh verifier. The address of
  the service is one that the parser of addresses keeps as it is.
\<close>

definition authorize_params :: "string \<Rightarrow> string \<Rightarrow> (string \<times> string) list" where
  "authorize_params origin challenge =
     [(''client_id'', ''era-webmail''), (''redirect_uri'', origin @ ''/mail/callback''), (''response_type'', ''code''),
      (''code_challenge'', challenge), (''code_challenge_method'', ''S256''), (''state'', ''mail'')]"

definition authorize_url :: "string \<Rightarrow> string \<Rightarrow> string \<Rightarrow> string" where
  "authorize_url idBase origin challenge =
     idBase @ ''/oauth2/authorize'' @ CHR ''?'' # query_string (authorize_params origin challenge)"

definition startLogin :: "string \<Rightarrow> string \<Rightarrow> (string \<Rightarrow> nat list) \<Rightarrow> nat list \<Rightarrow> mail \<Rightarrow> mail" where
  "startLogin idBase origin sha256 bytes m =
     (let verifier = randomString bytes; challenge = b64url (sha256 verifier)
      in m\<lparr>ml_verifier := Some verifier, ml_href := Some (authorize_url idBase origin challenge)\<rparr>)"

text \<open>
  The reply to the exchange: \<open>None\<close> when its body is no JSON, on which \<open>resp.json()\<close> rejects and
  nothing of the rest runs; this is what the token endpoint of the repository sends on every
  failure (\<open>http.Error\<close> in \<open>oidc/server.go\<close>). The status is not looked at: an object is stored
  whatever its status, a missing \<open>access_token\<close> as the text \<open>undefined\<close>.
\<close>

type_synonym token_reply = "string option option"

definition exchangeCode :: "(string \<Rightarrow> claims option) \<Rightarrow> string \<Rightarrow> token_reply \<Rightarrow> mail \<Rightarrow> mail" where
  "exchangeCode jwt code reply m =
     (let m1 = ml_send (Token_exchange code (case ml_verifier m of Some v \<Rightarrow> v | None \<Rightarrow> ''null'')) m in
      case reply of
        None \<Rightarrow> m1
      | Some access_token \<Rightarrow>
          (let tok = (case access_token of Some t \<Rightarrow> t | None \<Rightarrow> ''undefined'');
               c = (case access_token of Some t \<Rightarrow> parseJwt jwt t | None \<Rightarrow> no_claims)
           in m1\<lparr>ml_token := Some tok,
                 ml_email := (if or_empty (cl_email c) \<noteq> [] then cl_email c else ml_email m1),
                 ml_tenant := (if or_empty (cl_tenant_id c) \<noteq> [] then cl_tenant_id c else ml_tenant m1),
                 ml_href := Some ''/mail''\<rparr>))"

definition mail_user :: "(string \<Rightarrow> claims option) \<Rightarrow> mail \<Rightarrow> string" where
  "mail_user jwt m = or_default (ml_email m) (or_default (cl_email (parseJwt jwt (or_empty (ml_token m)))) ''alice@mail.gov.az'')"

definition mail_tenant :: "(string \<Rightarrow> claims option) \<Rightarrow> mail \<Rightarrow> string" where
  "mail_tenant jwt m = or_default (ml_tenant m) (or_default (cl_tenant_id (parseJwt jwt (or_empty (ml_token m)))) ''t-demo'')"

definition updateSendButton :: "mail \<Rightarrow> mail" where
  "updateSendButton m =
     (case ml_mailbox m of
        None \<Rightarrow> m
      | Some b \<Rightarrow> (let atQuota = (mx_used b \<ge> mx_quota b) in
                   m\<lparr>ml_sendDisabled := atQuota, ml_sendTitle := (if atQuota then ''Mailbox quota full - sending disabled'' else [])\<rparr>))"

text \<open>
  Replies: \<open>None\<close> for a status that is no success; the list of messages is read whatever the
  status, and \<open>None\<close> there is a body that is no JSON.
\<close>

definition loadPolicy :: "string \<Rightarrow> (int \<times> int) option \<Rightarrow> mail \<Rightarrow> mail" where
  "loadPolicy tenant reply m =
     (let m1 = ml_send (Get_policy tenant) m in
      case reply of
        None \<Rightarrow> m1
      | Some (quota, attach) \<Rightarrow>
          updateSendButton (m1\<lparr>ml_policy := Some (''Quota policy: '' @ int_str quota @ '' MB per user - max attachment ''
                                              @ int_str attach @ '' MB'')\<rparr>))"

definition loadMailbox :: "string \<Rightarrow> mailbox option \<Rightarrow> mail \<Rightarrow> mail" where
  "loadMailbox email reply m =
     (let m1 = ml_send (Get_mailbox email) m in
      case reply of None \<Rightarrow> m1 | Some b \<Rightarrow> updateSendButton (m1\<lparr>ml_mailbox := Some b\<rparr>))"

definition inbox_line :: "mail_message \<Rightarrow> string" where
  "inbox_line x = or_default (Some (mm_subject x)) ''(no subject)'' @ '' - uid '' @ mm_uid x"

definition loadInbox :: "string \<Rightarrow> mail_message list option \<Rightarrow> mail \<Rightarrow> mail" where
  "loadInbox email reply m =
     (let m1 = ml_send (Get_messages email) m in
      case reply of None \<Rightarrow> m1 | Some messages \<Rightarrow> m1\<lparr>ml_inbox := map inbox_line messages\<rparr>)"

definition suffix_of :: "string \<Rightarrow> string \<Rightarrow> bool" where
  "suffix_of p s \<longleftrightarrow> length p \<le> length s \<and> drop (length s - length p) s = p"

definition att_editable :: "mail_attachment \<Rightarrow> bool" where
  "att_editable a \<longleftrightarrow> at_object a \<noteq> [] \<and> (suffix_of ''.erad'' (to_lower (at_name a)) \<or> suffix_of ''.docx'' (to_lower (at_name a)))"

definition showMessage :: "string \<Rightarrow> (string \<times> string \<times> mail_attachment list) option \<Rightarrow> mail \<Rightarrow> mail" where
  "showMessage uid reply m =
     (let m1 = ml_send (Get_message uid) m in
      case reply of
        None \<Rightarrow> m1
      | Some (subject, body, atts) \<Rightarrow>
          m1\<lparr>ml_detail := Some (or_default (Some subject) ''(no subject)'', or_default (Some body) ''(empty)''),
             ml_editable := filter att_editable atts\<rparr>)"

definition edit_attachment :: "mail_attachment \<Rightarrow> string option \<Rightarrow> mail \<Rightarrow> mail" where
  "edit_attachment a url m =
     (let m1 = ml_send (Edit_link (at_object a) (at_name a) (at_type a)) m in
      if or_empty url = [] then m1 else m1\<lparr>ml_href := url\<rparr>)"

definition sendMail :: "string \<Rightarrow> string \<Rightarrow> string \<Rightarrow> string \<Rightarrow> mail_message list option \<Rightarrow> mailbox option \<Rightarrow> mail \<Rightarrow> mail" where
  "sendMail from to subject body messages box m =
     loadMailbox from box (loadInbox from messages (ml_send (Send_mail from to subject body) m))"

text \<open>Opening the page: a code is exchanged, a page without a token goes to the sign-in, otherwise everything is loaded.\<close>

definition open_mail ::
  "(string \<Rightarrow> claims option) \<Rightarrow> string \<Rightarrow> string \<Rightarrow> (string \<Rightarrow> nat list) \<Rightarrow> nat list \<Rightarrow> string option \<Rightarrow> token_reply
    \<Rightarrow> (int \<times> int) option \<Rightarrow> mailbox option \<Rightarrow> mail_message list option \<Rightarrow> mail \<Rightarrow> mail" where
  "open_mail jwt idBase origin sha256 bytes code token_reply policy box messages m =
     (if or_empty code \<noteq> [] then exchangeCode jwt (or_empty code) token_reply m
      else if or_empty (ml_token m) = [] then startLogin idBase origin sha256 bytes m
      else (let email = mail_user jwt m in
            loadInbox email messages (loadMailbox email box (loadPolicy (mail_tenant jwt m) policy (m\<lparr>ml_user := email\<rparr>)))))"

definition composeBtn :: "mail \<Rightarrow> mail" where
  "composeBtn m = m\<lparr>ml_compose := True\<rparr>"

section \<open>Laws\<close>

lemma undefined_token [simp]: "parseJwt jwt ''undefined'' = no_claims"
  by (simp add: parseJwt_def token_part_def)

lemma authorize_read_back:
  "param_get (CHR ''?'' # query_string (authorize_params origin ch)) ''code_challenge'' = Some ch"
  "param_get (CHR ''?'' # query_string (authorize_params origin ch)) ''redirect_uri'' = Some (origin @ ''/mail/callback'')"
  unfolding param_get_def by (subst search_params_query; simp add: authorize_params_def)+

lemma updateSendButton_requests [simp]: "ml_requests (updateSendButton m) = ml_requests m"
  by (simp add: updateSendButton_def Let_def split: option.splits)

lemma load_requests [simp]:
  "ml_requests (loadPolicy t r m) = ml_requests m @ [Get_policy t]"
  "ml_requests (loadMailbox e b m) = ml_requests m @ [Get_mailbox e]"
  "ml_requests (loadInbox e ms m) = ml_requests m @ [Get_messages e]"
  by (simp_all add: loadPolicy_def loadMailbox_def loadInbox_def ml_send_def Let_def split: option.splits)

text \<open>An object without \<open>access_token\<close>, which the token endpoint of the repository never sends, opens a session of the built-in user.\<close>

lemma tokenless_exchange_user:
  assumes "ml_email m = None" "m2 = exchangeCode jwt code (Some None) m"
  shows "ml_token m2 = Some ''undefined''" "mail_user jwt m2 = ''alice@mail.gov.az''"
  using assms by (simp_all add: exchangeCode_def mail_user_def no_claims_def ml_send_def or_default_def or_empty_def Let_def)

lemma exchange_user:
  assumes "cl_email (parseJwt jwt t) = Some e" "e \<noteq> []" "m2 = exchangeCode jwt code (Some (Some t)) m"
  shows "ml_token m2 = Some t" "ml_href m2 = Some ''/mail''" "mail_user jwt m2 = e"
  using assms by (simp_all add: exchangeCode_def mail_user_def ml_send_def or_default_def or_empty_def Let_def)

lemma startLogin_verifier: "ml_verifier (startLogin idBase origin sha256 bytes m) = Some (randomString bytes)"
  by (simp add: startLogin_def Let_def)

lemma refused_exchange:
  "ml_verifier m = Some v \<Longrightarrow> exchangeCode jwt code None m = ml_send (Token_exchange code v) m"
  by (simp add: exchangeCode_def Let_def)

section \<open>Properties\<close>

text \<open>
  C40. Signing in: the verifier made of 32 random bytes has 43 characters that need no
  encoding (the least length that the standard of the proof key allows), the service reads from
  the address the digest of this verifier in 43 such characters and the page to come back to, and
  the exchange of the code sends the verifier. When the reply carries a token whose claims name a
  user, the token is stored and the page opens for that user: it asks for that user's mailbox and
  messages. When the reply is no JSON, which is what the token endpoint sends on every failure,
  the page stores nothing, goes nowhere and keeps the verifier, and each reload of the address
  sends the same code and verifier again; it never goes back to the sign-in.
\<close>

theorem mail_sign_in:
  assumes "length bytes = 32" "\<forall>b\<in>set bytes. b < 256" "\<forall>v. length (sha256 v) = 32 \<and> (\<forall>b\<in>set (sha256 v). b < 256)"
    "m1 = startLogin idBase origin sha256 bytes m" "code \<noteq> []"
    "t \<noteq> []" "cl_email (parseJwt jwt t) = Some e" "e \<noteq> []" "m2 = exchangeCode jwt code (Some (Some t)) m1"
  shows "\<exists>v q. ml_verifier m1 = Some v \<and> length v = 43 \<and> (\<forall>c\<in>set v. url_safe c)
      \<and> ml_href m1 = Some (idBase @ ''/oauth2/authorize'' @ CHR ''?'' # q)
      \<and> param_get (CHR ''?'' # q) ''code_challenge'' = Some (b64url (sha256 v)) \<and> length (b64url (sha256 v)) = 43
      \<and> param_get (CHR ''?'' # q) ''redirect_uri'' = Some (origin @ ''/mail/callback'')
      \<and> ml_requests m2 = ml_requests m @ [Token_exchange code v]
      \<and> ml_token m2 = Some t \<and> ml_href m2 = Some ''/mail''
      \<and> ml_requests (open_mail jwt idBase origin sha256 bytes None reply policy box messages m2)
          = ml_requests m2 @ [Get_policy (mail_tenant jwt m2), Get_mailbox e, Get_messages e]
      \<and> (\<forall>n. ((open_mail jwt idBase origin sha256 bytes2 (Some code) None policy box messages) ^^ n) m1
            = m1\<lparr>ml_requests := ml_requests m1 @ replicate n (Token_exchange code v)\<rparr>)"
proof -
  let ?v = "randomString bytes" and ?q = "query_string (authorize_params origin (b64url (sha256 (randomString bytes))))"
  have len: "length ?v = 43 \<and> (\<forall>c\<in>set ?v. url_safe c)" "length (b64url (sha256 ?v)) = 43"
    using b64url_safe [OF assms(2)] b64url_safe [of "sha256 ?v"] assms(1,3) by (auto simp: randomString_def)
  have ver: "ml_verifier m1 = Some ?v" by (simp add: assms(4) startLogin_verifier)
  note user = exchange_user [OF assms(7,8,9)]
  have again: "((open_mail jwt idBase origin sha256 bytes2 (Some code) None policy box messages) ^^ n) m1
      = m1\<lparr>ml_requests := ml_requests m1 @ replicate n (Token_exchange code ?v)\<rparr>" for n
    by (induction n) (use assms(5) ver in \<open>simp_all add: open_mail_def or_empty_def exchangeCode_def ml_send_def replicate_append_same\<close>)
  have "ml_requests m2 = ml_requests m @ [Token_exchange code ?v]"
    using ver assms(4) by (simp add: assms(9) exchangeCode_def ml_send_def Let_def startLogin_def)
  moreover have "ml_requests (open_mail jwt idBase origin sha256 bytes None reply policy box messages m2)
      = ml_requests m2 @ [Get_policy (mail_tenant jwt m2), Get_mailbox e, Get_messages e]"
    using user assms(6) by (simp add: open_mail_def Let_def or_empty_def)
  moreover have "ml_href m1 = Some (idBase @ ''/oauth2/authorize'' @ CHR ''?'' # ?q)"
    by (simp add: assms(4) startLogin_def authorize_url_def Let_def)
  ultimately show ?thesis
    using len ver user again authorize_read_back by (intro exI [of _ ?v] exI [of _ ?q]) simp
qed

definition mail_start :: mail where
  "mail_start =
     \<lparr> ml_token = None, ml_email = None, ml_tenant = None, ml_verifier = None, ml_href = None, ml_user = [], ml_policy = None,
       ml_mailbox = None, ml_sendDisabled = False, ml_sendTitle = [], ml_inbox = [], ml_detail = None, ml_editable = [],
       ml_compose = False, ml_requests = [] \<rparr>"

definition sample_jwt :: "string \<Rightarrow> claims option" where
  "sample_jwt p = (if p = ''p'' then Some (no_claims\<lparr>cl_email := Some ''bob@a''\<rparr>) else None)"

theorem mail_sign_in_witness:
  "ml_token (exchangeCode sample_jwt ''c'' (Some (Some ''h.p.s'')) (startLogin ''http://id'' ''http://a'' (\<lambda>_. replicate 32 1) (replicate 32 7) mail_start))
     = Some ''h.p.s''"
proof -
  have "cl_email (parseJwt sample_jwt ''h.p.s'') = Some ''bob@a''" by code_simp
  from mail_sign_in [of "replicate 32 7" "\<lambda>_. replicate 32 1", OF _ _ _ refl, of "''c''" "''h.p.s''" sample_jwt "''bob@a''",
      OF _ _ _ _ _ this, OF _ _ _ _ _ _ refl, of "''http://id''" "''http://a''" mail_start]
  show ?thesis by simp blast
qed

end
