(* ===== verification/Spec2Isabelle.thy ===== *)
theory Spec2Isabelle
  imports Docs_Menu Desktop_Solo Tables_Files Pres_Page Board_Page Drive_Page Control_Shell
    Site_Lang Mail_Client
begin

text \<open>
  \<^bold>\<open>The web clients of ERA One.\<close>

  ERA One is an office suite: services in Go and Rust, and web clients in JavaScript under
  \<open>src/ui/\<close>, one directory per product. A client keeps its document in the page, changes it
  in event handlers, sends an operation to the service for every change and applies the
  operations that the service relays from other clients. This development models the clients.

  \<^bold>\<open>How a client is modelled.\<close> The module variables of a client are a \<open>record\<close>, the objects of
  a document are records and datatypes with the field names of the source, and every handler is
  a function from the state to the state. What a handler reads from the browser (the text of an
  element, the offsets of the selection, the answer of a dialog, a fresh identifier, the reply
  of the service) is an argument of its definition. What it shows is appended to a trace of ui
  events, what it sends to an outbox of messages; both are part of the state, so that a theorem
  can speak about them. Timers are fields that hold the work they will do. Early returns and
  failures are branches. Strings are lists of 8-bit characters that stand for UTF-16 units, and
  status texts keep their wording with ASCII punctuation. Numbers that are counts, offsets or
  sizes are \<open>nat\<close> or \<open>int\<close> (the values the clients use are far below \<open>2 ^ 53\<close>, where the
  language's numbers are exact), sort keys and positions on the screen are exact rationals; where
  rounding matters (goal seek) every operation is rounded, and the rounding is an argument;
  renderings of fractional numbers are arguments. Loops are total recursive functions,
  structural or with a measure, and no fuel is used; the loops of the file manager that follow
  the folder tree may not end, they are partial functions whose value \<open>None\<close> means that the
  handler never returns, and theorems say when they return and when they do not. What depends
  on the browser's language or clock (\<open>localeCompare\<close>, \<open>Date.parse\<close>, the local midnight of a
  date, fresh identifiers, the decoding of a token) is an argument.

  \<^bold>\<open>Shared theories.\<close>
  \<^item> \<open>Era_Prelude\<close>: the language's idioms (falsy defaults, \<open>findIndex\<close>, \<open>splice\<close>, objects as
    association lists) and their lemmas.
  \<^item> \<open>Era_Strings\<close>: \<open>split\<close>, \<open>join\<close>, \<open>trim\<close>, \<open>includes\<close>, \<open>replace\<close>, number parsing and printing.
  \<^item> \<open>Era_Arrays\<close>: the stable sort, \<open>Set\<close> objects. \<open>Era_Url\<close>: \<open>encodeURIComponent\<close>, query
    parameters, the resolution of an address. \<open>Era_Hash\<close>: the hash behind the colour of a peer,
    on 32-bit words. \<open>Era_Base64\<close>: \<open>btoa\<close>, \<open>atob\<close> and the base64 of a file, and that decoding
    gives the bytes back.
  \<^item> \<open>Office_Page\<close>: the page around an office client: the session, the storage of the tab, the
    address, the user of the token, the headers, the request wrapper (a reply 401 drops the token
    and opens the sign-in page), the identifier in the address, the requests sent.
  \<^item> \<open>Era_Replica\<close>: the interface between an editor and its peers, the locale \<open>replica\<close>: if
    every event replicates, so does every session.
  \<^item> \<open>Era_History\<close>: the undo contract, the locale \<open>history\<close>; documents (\<open>doc_history\<close>) and
    presentations (\<open>deck_history\<close>) implement it.

  \<^bold>\<open>Documents\<close> (\<open>src/ui/docs/web/app.js\<close>, \<open>era_plus.js\<close>, \<open>later.js\<close>).
  \<^item> \<open>Docs_Spans\<close>, \<open>Docs_Span_Laws\<close>: the rich-text engine (\<open>coalesceInlines\<close>,
    \<open>splitInlinesAt\<close>, \<open>insertTextPreserving\<close>, \<open>deleteRangePreserving\<close>, \<open>applyMarksRangeLocal\<close>,
    \<open>diffText\<close>). The abstract view of a span list is its sequence of marked characters; every
    operation refines the obvious operation on that sequence and returns the canonical form.
    The locale \<open>text_buffer\<close> is what the editors rely on.
  \<^item> \<open>Docs_Model\<close>, \<open>Docs_Tables\<close>: blocks, the client state, undo, outbox, table blocks.
  \<^item> \<open>Docs_Remote\<close>: \<open>applyRemoteOp\<close>, presence, the snapshot and autosave.
  \<^item> \<open>Docs_Edit\<close>, \<open>Docs_Format\<close>, \<open>Docs_Blocks\<close>, \<open>Docs_Review\<close>: the handlers: typing, Enter and
    Backspace, marks, paragraph formats, blocks, footnotes, review, mail merge, find and replace.
  \<^item> \<open>Docs_Replication\<close>, \<open>Docs_Format_Sync\<close>, \<open>Docs_Sessions\<close>: for each handler, the messages it
    sends make a peer's blocks equal to its own; whole sessions by the locale \<open>replica\<close>. The condition
    \<open>edit_ok\<close> on the events of a session (open socket, the pause after each input, fresh ids and the
    shapes of lists and tables) is needed: sessions outside it diverge.
  \<^item> \<open>Docs_Laws\<close>, \<open>Docs_Html\<close>: undo and redo, split and merge, timers, footnote numbers, which
    blocks a message may touch, when the text of a table determines its grid, the painted markup and what a reader of it gets back.
  \<^item> \<open>Docs_Properties\<close>: the properties of the handlers, with witnesses.
  \<^item> \<open>Docs_View\<close>: the elements \<open>renderBlocks\<close> makes, the carets of peers painted into them, and the
    text an input event reads from an element.
  \<^item> \<open>Docs_Tools\<close>: the place of the caret in the text nodes, the comments panel, the counts, the
    ruler, the jumps between footnotes and their marks, the spelling pass.
  \<^item> \<open>Docs_Files\<close>: opening a document (with the check of a link of the communications product),
    creating, importing, exporting, saving, renaming, sharing, versions, the image picker, the
    socket, the start of the page.
  \<^item> \<open>Office_Ai\<close>: the assistant panel (\<open>src/ui/office-ai/web/app.js\<close>) and the hand-off of a text to it
    through the storage of the tab.
  \<^item> \<open>Docs_Menu\<close>: the menu, the keys, the toolbar controls, the panels of styles, revisions and comments,
    the downloads; which commands and controls undo gives back, and which push no checkpoint.

  \<^bold>\<open>Spreadsheets\<close> (\<open>src/ui/tables/web/app.js\<close> and the files beside it).
  \<^item> \<open>Tables_Addr\<close>: addresses and ranges (\<open>colLetter\<close>, \<open>parseAddr\<close>, \<open>parseRangeStr\<close>).
  \<^item> \<open>Tables_Sheet\<close>, \<open>Tables_Sync\<close>: cells, sheets, protection, messages from the service.
  \<^item> \<open>Tables_Grid\<close>: the virtual window of the grid, its resizing, what is painted.
  \<^item> \<open>Tables_Edit\<close>, \<open>Tables_Data\<close>: committing cells, clipboard, fill, formats, sorting, filters,
    CSV, subtotals, names, sheet tabs.
  \<^item> \<open>Tables_Laws\<close>: the locale \<open>locked_store\<close> (a store whose protected cells no operation
    changes), CSV and address round trips, subtotal groups, fills.
  \<^item> \<open>Tables_Properties\<close>: the properties of the sheet, with witnesses.
  \<^item> \<open>Tables_Input\<close>: keyboard, mouse, focus, formula bar, address box, notes, search, scrolling,
    resizing and redraws around the cell that is edited, as a step relation on the state with the
    focus; when an edit is committed and when it is dropped, by rule induction over the sessions. Whether the browser reports the loss of the focus of a removed
    element is a parameter.
  \<^item> \<open>Tables_View\<close>: what the grid shows (styles, notes, peers, headers, frozen panes, tabs, the
    filter dialog), scrolling to a cell, charts with their geometry over exact rationals.
  \<^item> \<open>Tables_WhatIf\<close>: goal seek. The 64 steps of the bisection run in rounded arithmetic: numbers are
    rationals, every operation is followed by the rounding, which is an argument with the laws of
    \<open>rounding\<close>, as are reading and printing numbers and the value of an arithmetic text. The error
    after the loop is bounded for formulas of bounded slope and noise when the interval brackets the
    target.
  \<^item> \<open>Tables_Files\<close>: formula bar, toolbar, menu and data dialogs, creating, importing, exporting,
    sharing and loading sheets, the start of the page; which menu commands, run to the close of their
    dialog, respect protection.

  \<^bold>\<open>Presentations\<close> (\<open>src/ui/presentations/web/app.js\<close>, \<open>src/ui/office-shell/web/richtext-editor.js\<close>).
  \<^item> \<open>Shell_RichText\<close>: the rich-text file that the clients share. On the marks it knows it is
    the engine of the document client, and it implements \<open>text_buffer\<close> too (\<open>shell_buffer\<close>).
  \<^item> \<open>Pres_Model\<close>, \<open>Pres_Edit\<close>: decks, slides, frames, the client state, the handlers, and the
    part of the service that answers them (versions and operations on frames, from
    \<open>services/platform/presentations-engine/src/server.rs\<close>).
  \<^item> \<open>Pres_Laws\<close>, \<open>Pres_Behaviour\<close>: every handler keeps the deck well formed and the current
    slide in range, but for the drop of a foreign index on the film strip, which leaves an undefined
    slide (the step has no result; the locale \<open>failing_steps\<close>), undo over many edits, the protocol of versions, find next.
  \<^item> \<open>Pres_Properties\<close>: the properties, with witnesses.
  \<^item> \<open>Pres_Page\<close>: the elements of the stage, the session, creating, importing, loading, saving and
    exporting decks, dialogs and panels, the menu, the start of the page; sessions from the start on.

  \<^bold>\<open>Projects\<close> (\<open>src/ui/projects/web/app.js\<close>).
  \<^item> \<open>Board_Model\<close>: tasks, filters, the order in a column, lanes, the timeline, the views as data.
  \<^item> \<open>Board_App\<close>: loading, moving, editing, drag and drop, the picker.
  \<^item> \<open>Board_Laws\<close>, \<open>Board_Properties\<close>: every visible task is drawn once, a moved task is last of
    its lane, the edit dialog round trip.
  \<^item> \<open>Board_Page\<close>: the project in the address, the addresses of the requests (projects are kept
    apart), new projects, sharing, comments, the checklist editor, the picker, menu and start.

  \<^bold>\<open>Files\<close> (\<open>src/ui/drive/web/app.js\<close>).
  \<^item> \<open>Drive_Model\<close>: objects of the service, keys, order, the folder index and the path to a
    folder, locks, the rows of the list with the action behind each button.
  \<^item> \<open>Drive_App\<close>, \<open>Drive_Ops\<close>: the state and the handlers. The service is a parameter: a function
    from its state and a request to its next state and a reply. A reply 401 raises, after the
    shell has sent the page to the sign-in page.
  \<^item> \<open>Drive_Laws\<close>, \<open>Drive_Properties\<close>: what refreshing keeps, when the loops over the tree return
    and when they do not, locked rows, the trash, the selection. The hypotheses on the service
    are that it does not answer 401 (the trash is treated with that reply as well: the loop stops
    there) and that its folders form a forest (or, for the loop that never ends, a cycle).
  \<^item> \<open>Drive_Page\<close>: the buttons for new files, the views, the buttons of a row, the start of the page.

  \<^bold>\<open>The office shell\<close> (\<open>src/ui/office-shell/web/\<close>).
  \<^item> \<open>Shell_Session\<close>, \<open>Shell_Login\<close>: the token, its expiry, the redirect to the sign-in page; the
    sign-in page (\<open>shell.js\<close>, \<open>login.js\<close>).
  \<^item> \<open>Shell_Dialog\<close>: the dialog element that prompts, confirmations, choices and copy dialogs
    share, as a state machine over its promises.
  \<^item> \<open>Shell_Chrome\<close>: menu bar, tips, button menus, product switcher (\<open>menubar.js\<close>,
    \<open>toolbar-chrome.js\<close>, \<open>era-chrome.js\<close>). The locale \<open>exclusive_menus\<close> is the contract of menus
    of which one is open at a time; toolbar, switcher and file rows implement it.
  \<^item> \<open>Shell_Laws\<close>, \<open>Shell_Properties\<close>: promises, sessions, addresses.

  \<^bold>\<open>The operator console\<close> (\<open>src/ui/control-shell/web/shell.js\<close>).
  \<^item> \<open>Control_Shell\<close>: its frame: requests, the navigation by modules, the wrapping of the page; mounting
    it returns and keeps every node of the page.

  \<^bold>\<open>Mail\<close> (\<open>src/ui/mail/web/app.js\<close>).
  \<^item> \<open>Mail_Client\<close>: the sign-in with a proof key, the stored token, policy and quota, the inbox,
    attachments, sending; the digest and the random bytes are arguments. A reply that is not
    JSON, as the token endpoint sends on failure, raises.

  \<^bold>\<open>The price calculators of the site\<close> (\<open>src/site/\<close>).
  \<^item> \<open>Site_Pricing\<close>: the price list (\<open>pricing-data.js\<close>) as data and the license models
    (\<open>assets/calc-license-model.js\<close>); amounts are exact rationals, \<open>None\<close> is a NaN.
  \<^item> \<open>Site_Calc\<close>: the endpoint calculator (\<open>assets/app.js\<close>) and the per-user calculator
    (\<open>assets/calc-product.js\<close>): states, handlers and quotes.
  \<^item> \<open>Site_Properties\<close>: bounds of a quote, which modules are billed.
  \<^item> \<open>Site_Lang\<close>: the catalogue, languages and addresses, search, menus, the texts of the calculators,
    the language of datasheets and comparisons, trial requests.

  \<^bold>\<open>The desktop program\<close> (\<open>src/apps/era-office-desktop/\<close>).
  \<^item> \<open>Desktop_Solo\<close>: the start script of the single-user pages (its token, the replaced functions of
    the shell, the file commands of the local bridge) and the launcher. The clients under
    \<open>src-tauri/assets/\<close> are copies of those under \<open>src/ui/\<close>.

  \<^bold>\<open>Across clients.\<close> This theory composes the file manager with the four clients: a new file opens in
  the client of its product.

  \<^bold>\<open>Not modelled.\<close> The construction of DOM elements beyond the views above and the wiring of
  toolbars; the HTTP transport; handlers that interleave while one of them awaits a reply (except
  for the debounce timers and the presentation protocol, where the order of replies is explicit);
  floating point beyond the rounding of goal seek (arguments or exact rationals stand for it); the markup of the
  site's header, footer and lists; the services in Go and Rust, apart from the part named above.
\<close>

section \<open>Properties across clients\<close>

lemma encode_plain: "list_all uri_unreserved i \<Longrightarrow> encodeURIComponent i = i"
  by (induction i) (simp_all add: encodeURIComponent_def)

lemma plain_no_slash: "list_all uri_unreserved i \<Longrightarrow> CHR ''/'' \<notin> set i"
  using encode_no_slash [of i] by (simp add: encode_plain)

lemma path_deck: "pathDeckId pathname = path_id ''presentations'' pathname"
  by (simp add: pathDeckId_def path_id_def strip_slash_def Let_def)



end
